(* ===== verification/Prelude.thy ===== *)
theory Prelude
  imports Main "HOL-Library.Word" "HOL-Library.Multiset"
begin

text \<open>
  Shared ground of the development: Go's error values and outcomes, byte strings and
  their conversions, big-endian and decimal text of unsigned integers, hexadecimal text,
  and generic lemmas on lists that several components use. Nothing here models a file of
  the repository by itself except where a standard-library routine of Go is used by the
  code (the packages strconv, encoding/hex, encoding/binary and strings).
\<close>

section \<open>Outcomes of Go code\<close>

text \<open>
  An error value is a text, possibly wrapping another error (\<open>fmt.Errorf\<close> with
  \<open>%w\<close>). A call either returns, returns an error, or panics (an index or slice out
  of range, a nil dereference).
\<close>

datatype gerror = Err string | Wrap string gerror

datatype 'a outcome = Ok 'a | Fail gerror | Panic

fun obind :: "'a outcome \<Rightarrow> ('a \<Rightarrow> 'b outcome) \<Rightarrow> 'b outcome" where
  "obind (Ok x) f = f x"
| "obind (Fail e) f = Fail e"
| "obind Panic f = Panic"

fun owrap :: "string \<Rightarrow> 'a outcome \<Rightarrow> 'a outcome" where
  "owrap m (Ok x) = Ok x"
| "owrap m (Fail e) = Fail (Wrap m e)"
| "owrap m Panic = Panic"

fun of_sum :: "gerror + 'a \<Rightarrow> 'a outcome" where
  "of_sum (Inl e) = Fail e"
| "of_sum (Inr x) = Ok x"

named_theorems outcome_simps

lemma obind_eq_Ok [outcome_simps]:
  "obind r f = Ok y \<longleftrightarrow> (\<exists>x. r = Ok x \<and> f x = Ok y)"
  by (cases r) auto

lemma obind_eq_Panic [outcome_simps]:
  "obind r f = Panic \<longleftrightarrow> r = Panic \<or> (\<exists>x. r = Ok x \<and> f x = Panic)"
  by (cases r) auto

lemma owrap_eq_Ok [outcome_simps]: "owrap m r = Ok x \<longleftrightarrow> r = Ok x"
  by (cases r) auto

lemma owrap_eq_Panic [outcome_simps]: "owrap m r = Panic \<longleftrightarrow> r = Panic"
  by (cases r) auto

lemma of_sum_not_Panic [simp]: "of_sum s \<noteq> Panic"
  by (cases s) auto

lemma of_sum_eq_Ok [outcome_simps]: "of_sum s = Ok x \<longleftrightarrow> s = Inr x"
  by (cases s) auto

text \<open>A loop that collects results and stops at the first error.\<close>

fun omap :: "('a \<Rightarrow> 'b outcome) \<Rightarrow> 'a list \<Rightarrow> 'b list outcome" where
  "omap f [] = Ok []"
| "omap f (x # xs) = obind (f x) (\<lambda>y. obind (omap f xs) (\<lambda>ys. Ok (y # ys)))"

fun ofold :: "('a \<Rightarrow> 's \<Rightarrow> 's outcome) \<Rightarrow> 'a list \<Rightarrow> 's \<Rightarrow> 's outcome" where
  "ofold f [] s = Ok s"
| "ofold f (x # xs) s = obind (f x s) (ofold f xs)"

lemma omap_Ok_iff: "omap f xs = Ok ys \<longleftrightarrow> list_all2 (\<lambda>x y. f x = Ok y) xs ys"
  by (induction xs arbitrary: ys) (auto simp: outcome_simps list_all2_Cons1)

lemma omap_Ok_map: "(\<And>x. x \<in> set xs \<Longrightarrow> f x = Ok (g x)) \<Longrightarrow> omap f xs = Ok (map g xs)"
  by (induction xs) auto

lemma ofold_Ok_fold: "(\<And>x s. f x s = Ok (g x s)) \<Longrightarrow> ofold f xs s = Ok (fold g xs s)"
  by (induction xs arbitrary: s) auto

section \<open>Time\<close>

text \<open>
  A \<open>time.Time\<close> is the number of nanoseconds since Go's zero instant (year 1), so
  the zero time is 0; \<open>t.Unix()\<close> counts whole seconds from 1970. A duration has 64 bits
  and \<open>t.Sub(u)\<close> saturates.
\<close>

type_synonym gotime = int

definition second :: int where "second = 10 ^ 9"

definition unix_epoch :: int where "unix_epoch = 62135596800"

definition go_unix :: "gotime \<Rightarrow> int" where
  "go_unix t = t div second - unix_epoch"

definition time_unix :: "int \<Rightarrow> gotime" where
  "time_unix s = (s + unix_epoch) * second"

definition time_sub :: "gotime \<Rightarrow> gotime \<Rightarrow> int" where
  "time_sub a b = max (- (2 ^ 63)) (min (2 ^ 63 - 1) (a - b))"

lemma go_unix_time_unix [simp]: "go_unix (time_unix s) = s"
  by (simp add: go_unix_def time_unix_def second_def)

lemma go_unix_mono: "a \<le> b \<Longrightarrow> go_unix a \<le> go_unix b"
  by (simp add: go_unix_def second_def zdiv_mono1)

lemma time_unix_inject [simp]: "time_unix a = time_unix b \<longleftrightarrow> a = b"
  by (metis go_unix_time_unix)

section \<open>Bytes\<close>

text \<open>A Go string is a sequence of bytes, a \<open>char list\<close> here; a byte slice is a list of words.\<close>

type_synonym byte = "8 word"

definition byte_of_char :: "char \<Rightarrow> byte" where
  "byte_of_char c = of_nat (of_char c)"

definition char_of_byte :: "byte \<Rightarrow> char" where
  "char_of_byte b = char_of (unat b)"

definition bytes_of_string :: "string \<Rightarrow> byte list" where
  "bytes_of_string s = map byte_of_char s"

definition string_of_bytes :: "byte list \<Rightarrow> string" where
  "string_of_bytes bs = map char_of_byte bs"

lemma char_of_byte_of_char [simp]: "char_of_byte (byte_of_char c) = c"
proof -
  have "(of_char c :: nat) < 256" by simp
  then have "unat (of_nat (of_char c) :: byte) = of_char c"
    by (simp add: unat_of_nat take_bit_eq_mod)
  then show ?thesis by (simp add: char_of_byte_def byte_of_char_def)
qed

lemma string_of_bytes_of_string [simp]: "string_of_bytes (bytes_of_string s) = s"
  by (simp add: string_of_bytes_def bytes_of_string_def comp_def)

lemma length_bytes_of_string [simp]: "length (bytes_of_string s) = length s"
  by (simp add: bytes_of_string_def)

lemma bytes_of_string_inject [simp]: "bytes_of_string s = bytes_of_string t \<longleftrightarrow> s = t"
  by (metis string_of_bytes_of_string)

section \<open>Big-endian integers\<close>

text \<open>\<open>binary.BigEndian.AppendUint64\<close> writes eight bytes, \<open>AppendUint16\<close> two.\<close>

fun be_bytes :: "nat \<Rightarrow> nat \<Rightarrow> byte list" where
  "be_bytes 0 n = []"
| "be_bytes (Suc k) n = be_bytes k (n div 256) @ [of_nat n]"

definition be_value :: "byte list \<Rightarrow> nat" where
  "be_value bs = foldl (\<lambda>a b. a * 256 + unat b) 0 bs"

lemma length_be_bytes [simp]: "length (be_bytes k n) = k"
  by (induction k arbitrary: n) auto

lemma be_value_snoc: "be_value (bs @ [b]) = be_value bs * 256 + unat b"
  by (simp add: be_value_def)

lemma unat_of_nat_byte: "unat (of_nat n :: byte) = n mod 256"
  by (simp add: unat_of_nat take_bit_eq_mod)

lemma be_value_be_bytes: "n < 256 ^ k \<Longrightarrow> be_value (be_bytes k n) = n"
proof (induction k arbitrary: n)
  case 0
  then show ?case by (simp add: be_value_def)
next
  case (Suc k)
  then have "n div 256 < 256 ^ k" by (simp add: less_mult_imp_div_less mult.commute)
  then have "be_value (be_bytes k (n div 256)) = n div 256" by (rule Suc.IH)
  then show ?case by (simp add: be_value_snoc unat_of_nat_byte)
qed

section \<open>Decimal text\<close>

text \<open>
  \<open>strconv.FormatUint n 10\<close> and \<open>strconv.ParseUint s 10 64\<close>: only the digits
  are accepted in base 10, an empty string and a value of 2 to the 64 or more are errors.
\<close>

definition is_digit :: "char \<Rightarrow> bool" where
  "is_digit c \<longleftrightarrow> 48 \<le> (of_char c :: nat) \<and> (of_char c :: nat) \<le> 57"

definition digit_value :: "char \<Rightarrow> nat" where
  "digit_value c = of_char c - 48"

definition digit_char :: "nat \<Rightarrow> char" where
  "digit_char d = char_of (48 + d)"

fun format_nat :: "nat \<Rightarrow> string" where
  "format_nat n = (if n < 10 then [digit_char n] else format_nat (n div 10) @ [digit_char (n mod 10)])"

declare format_nat.simps [simp del]

definition format_int :: "int \<Rightarrow> string" where
  "format_int n = (if n < 0 then CHR ''-'' # format_nat (nat (- n)) else format_nat (nat n))"

definition decimal_value :: "string \<Rightarrow> nat" where
  "decimal_value s = foldl (\<lambda>a c. a * 10 + digit_value c) 0 s"

definition parse_uint64 :: "string \<Rightarrow> nat option" where
  "parse_uint64 s =
     (if s = [] \<or> \<not> list_all is_digit s then None
      else if decimal_value s < 2 ^ 64 then Some (decimal_value s) else None)"

text \<open>A canonical numeral has no leading zero.\<close>

definition canonical_decimal :: "string \<Rightarrow> bool" where
  "canonical_decimal s \<longleftrightarrow> s \<noteq> [] \<and> list_all is_digit s \<and> (hd s = CHR ''0'' \<longrightarrow> s = ''0'')"

lemma of_char_digit_char: "d < 10 \<Longrightarrow> (of_char (digit_char d) :: nat) = 48 + d"
  by (simp add: digit_char_def)

lemma is_digit_digit_char [simp]: "d < 10 \<Longrightarrow> is_digit (digit_char d)"
  by (simp add: is_digit_def of_char_digit_char)

lemma digit_value_digit_char [simp]: "d < 10 \<Longrightarrow> digit_value (digit_char d) = d"
  by (simp add: digit_value_def of_char_digit_char)

lemma digit_char_digit_value: "is_digit c \<Longrightarrow> digit_char (digit_value c) = c"
  by (simp add: digit_char_def digit_value_def is_digit_def)

lemma digit_value_less: "is_digit c \<Longrightarrow> digit_value c < 10"
  unfolding digit_value_def is_digit_def by arith

lemma decimal_value_snoc: "decimal_value (s @ [c]) = decimal_value s * 10 + digit_value c"
  by (simp add: decimal_value_def)

lemma decimal_value_Nil [simp]: "decimal_value [] = 0"
  by (simp add: decimal_value_def)

lemma decimal_value_single: "decimal_value [c] = digit_value c"
  by (simp add: decimal_value_def)

lemma format_nat_not_Nil [simp]: "format_nat n \<noteq> []"
  by (subst format_nat.simps) simp

lemma format_nat_digits: "list_all is_digit (format_nat n)"
proof (induction n rule: format_nat.induct)
  case (1 n)
  then show ?case by (subst format_nat.simps) auto
qed

lemma decimal_value_format_nat [simp]: "decimal_value (format_nat n) = n"
proof (induction n rule: format_nat.induct)
  case (1 n)
  then show ?case by (subst format_nat.simps) (auto simp: decimal_value_snoc decimal_value_single)
qed

lemma parse_uint64_format_nat: "n < 2 ^ 64 \<Longrightarrow> parse_uint64 (format_nat n) = Some n"
  by (simp add: parse_uint64_def format_nat_digits)

lemma parse_uint64_SomeD:
  "parse_uint64 s = Some n \<Longrightarrow> n < 2 ^ 64 \<and> n = decimal_value s \<and> s \<noteq> [] \<and> list_all is_digit s"
  by (auto simp: parse_uint64_def split: if_splits)

lemma is_digit_zero [simp]: "is_digit CHR ''0''" "digit_value CHR ''0'' = 0"
  by (simp_all add: is_digit_def digit_value_def)

lemma digit_value_zero_iff: "is_digit c \<Longrightarrow> digit_value c = 0 \<longleftrightarrow> c = CHR ''0''"
  by (metis digit_char_digit_value is_digit_zero)

lemma decimal_value_pos:
  "list_all is_digit s \<Longrightarrow> s \<noteq> [] \<Longrightarrow> hd s \<noteq> CHR ''0'' \<Longrightarrow> 0 < decimal_value s"
proof (induction s rule: rev_induct)
  case Nil
  then show ?case by simp
next
  case (snoc c s)
  then show ?case
    by (cases "s = []")
      (use digit_value_zero_iff [of c] in \<open>auto simp: decimal_value_snoc decimal_value_single\<close>)
qed

lemma format_nat_decimal_value:
  "canonical_decimal s \<Longrightarrow> format_nat (decimal_value s) = s"
proof (induction s rule: rev_induct)
  case Nil
  then show ?case by (simp add: canonical_decimal_def)
next
  case (snoc c s)
  show ?case
  proof (cases "s = []")
    case True
    with snoc.prems show ?thesis
      by (subst format_nat.simps)
        (auto simp: canonical_decimal_def decimal_value_single digit_value_less digit_char_digit_value)
  next
    case False
    with snoc.prems have s: "canonical_decimal s" "is_digit c" and nz: "hd s \<noteq> CHR ''0''"
      by (auto simp: canonical_decimal_def)
    have "0 < decimal_value s"
      using s nz False by (intro decimal_value_pos) (auto simp: canonical_decimal_def)
    moreover have "digit_value c < 10" using s(2) by (rule digit_value_less)
    ultimately show ?thesis using snoc.IH [OF s(1)] s(2)
      by (subst format_nat.simps) (simp add: decimal_value_snoc digit_char_digit_value)
  qed
qed

section \<open>Hexadecimal text\<close>

text \<open>
  \<open>hex.AppendDecode\<close> accepts digits and letters of either case and rejects an odd
  length; \<open>hex.EncodeToString\<close> writes lower case.
\<close>

definition hex_value :: "char \<Rightarrow> nat option" where
  "hex_value c = (let n = (of_char c :: nat) in
     if 48 \<le> n \<and> n \<le> 57 then Some (n - 48)
     else if 65 \<le> n \<and> n \<le> 70 then Some (n - 55)
     else if 97 \<le> n \<and> n \<le> 102 then Some (n - 87) else None)"

definition hex_digit_lower :: "nat \<Rightarrow> char" where
  "hex_digit_lower d = char_of (if d < 10 then 48 + d else 87 + d)"

fun hex_decode :: "string \<Rightarrow> byte list option" where
  "hex_decode [] = Some []"
| "hex_decode [_] = None"
| "hex_decode (a # b # s) =
     (case (hex_value a, hex_value b, hex_decode s) of
        (Some x, Some y, Some bs) \<Rightarrow> Some (of_nat (16 * x + y) # bs)
      | _ \<Rightarrow> None)"

definition hex_encode :: "byte list \<Rightarrow> string" where
  "hex_encode bs = concat (map (\<lambda>b. [hex_digit_lower (unat b div 16), hex_digit_lower (unat b mod 16)]) bs)"

text \<open>\<open>strings.ToUpper\<close> on ASCII text.\<close>

definition upper_char :: "char \<Rightarrow> char" where
  "upper_char c = (let n = (of_char c :: nat) in if 97 \<le> n \<and> n \<le> 122 then char_of (n - 32) else c)"

definition to_upper :: "string \<Rightarrow> string" where
  "to_upper s = map upper_char s"

definition is_upper_hex_char :: "char \<Rightarrow> bool" where
  "is_upper_hex_char c \<longleftrightarrow> (let n = (of_char c :: nat) in (48 \<le> n \<and> n \<le> 57) \<or> (65 \<le> n \<and> n \<le> 70))"

lemma hex_value_upper:
  assumes "is_upper_hex_char c"
  obtains d where "hex_value c = Some d" "d < 16" "upper_char (hex_digit_lower d) = c"
proof -
  define n where "n = (of_char c :: nat)"
  have c: "c = char_of n" by (simp add: n_def)
  from assms have "(48 \<le> n \<and> n \<le> 57) \<or> (65 \<le> n \<and> n \<le> 70)"
    by (simp add: is_upper_hex_char_def n_def Let_def)
  then show thesis
  proof
    assume a: "48 \<le> n \<and> n \<le> 57"
    then have d: "n - 48 < 10" by arith
    then have "upper_char (hex_digit_lower (n - 48)) = c"
      using a by (simp add: upper_char_def hex_digit_lower_def c)
    with a d show thesis by (intro that [of "n - 48"]) (auto simp: hex_value_def n_def [symmetric])
  next
    assume a: "65 \<le> n \<and> n \<le> 70"
    then have d: "\<not> n - 55 < 10" "n - 55 < 16" by arith+
    then have "upper_char (hex_digit_lower (n - 55)) = c"
      using a by (simp add: upper_char_def hex_digit_lower_def c)
    with a d show thesis by (intro that [of "n - 55"]) (auto simp: hex_value_def n_def [symmetric])
  qed
qed

lemma hex_decode_upper:
  "list_all is_upper_hex_char s \<Longrightarrow> even (length s) \<Longrightarrow>
   \<exists>bs. hex_decode s = Some bs \<and> to_upper (hex_encode bs) = s \<and> length bs = length s div 2"
proof (induction s rule: hex_decode.induct)
  case (3 a b s)
  then obtain bs where bs: "hex_decode s = Some bs" "to_upper (hex_encode bs) = s" "length bs = length s div 2"
    by auto
  obtain x where x: "hex_value a = Some x" "x < 16" "upper_char (hex_digit_lower x) = a"
    using "3.prems" by (auto elim: hex_value_upper)
  obtain y where y: "hex_value b = Some y" "y < 16" "upper_char (hex_digit_lower y) = b"
    using "3.prems" by (auto elim: hex_value_upper)
  have "unat (of_nat (16 * x + y) :: byte) = 16 * x + y"
    using x y by (simp only: unat_of_nat_byte) simp
  with bs x y show ?case by (simp add: hex_encode_def to_upper_def)
qed (auto simp: hex_encode_def to_upper_def)

section \<open>Strings\<close>

definition has_prefix :: "string \<Rightarrow> string \<Rightarrow> bool" where
  "has_prefix s p \<longleftrightarrow> take (length p) s = p"

definition trim_prefix :: "string \<Rightarrow> string \<Rightarrow> string" where
  "trim_prefix s p = (if has_prefix s p then drop (length p) s else s)"

lemma has_prefix_append [simp]: "has_prefix (p @ s) p"
  by (simp add: has_prefix_def)

lemma trim_prefix_append [simp]: "trim_prefix (p @ s) p = s"
  by (simp add: trim_prefix_def)

lemma has_prefixD: "has_prefix s p \<Longrightarrow> s = p @ drop (length p) s"
  by (metis append_take_drop_id has_prefix_def)

text \<open>
  \<open>strings.Index\<close>: the least position at which the needle occurs, or none.
\<close>

fun str_index :: "string \<Rightarrow> string \<Rightarrow> nat option" where
  "str_index [] p = (if p = [] then Some 0 else None)"
| "str_index (c # s) p =
     (if has_prefix (c # s) p then Some 0 else map_option Suc (str_index s p))"

text \<open>\<open>strings.SplitN s sep n\<close> with a one-byte separator: at most \<open>n\<close> pieces.\<close>

fun split_n :: "char \<Rightarrow> nat \<Rightarrow> string \<Rightarrow> string list" where
  "split_n c 0 s = []"
| "split_n c (Suc 0) s = [s]"
| "split_n c (Suc (Suc n)) s =
     (if c \<in> set s
      then takeWhile (\<lambda>x. x \<noteq> c) s # split_n c (Suc n) (tl (dropWhile (\<lambda>x. x \<noteq> c) s))
      else [s])"

lemma split_n_hit:
  assumes "c \<notin> set a"
  shows "split_n c (Suc (Suc n)) (a @ c # s) = a # split_n c (Suc n) s"
proof -
  have "takeWhile (\<lambda>x. x \<noteq> c) (a @ c # s) = a" "dropWhile (\<lambda>x. x \<noteq> c) (a @ c # s) = c # s"
    using assms by (simp_all add: takeWhile_append dropWhile_append)
  then show ?thesis by simp
qed

end
