(* ===== verification/Waid.thy ===== *)
theory Waid
  imports Prelude
begin

text \<open>
  The identifier codecs of \<open>pkg/waid/id.go\<close>: portal, user, login and message
  identifiers as strings made from and parsed back to WhatsApp JIDs. The JID type and its
  methods belong to the whatsmeow library, which is not part of the repository: its fields
  are a record, its methods are the fields of \<open>jid_lib\<close>, an argument of every
  definition that calls them, and \<open>jid_lib_ok\<close> states what whatsmeow documents of
  them. \<open>sample_jid_lib\<close> is one concrete library that satisfies it.
\<close>

section \<open>JIDs and the whatsmeow library\<close>

text \<open>
  The server constants the code compares with, as constructors; any other server text is
  \<open>OtherServer\<close>, and the zero JID has the empty server.
\<close>

datatype server =
    DefaultUserServer
  | GroupServer
  | HiddenUserServer
  | BotServer
  | BroadcastServer
  | NewsletterServer
  | LegacyUserServer
  | MessengerServer
  | OtherServer string

record jid =
  User :: string
  Server :: server
  Device :: "16 word"

definition EmptyJID :: jid where
  "EmptyJID = \<lparr>User = [], Server = OtherServer [], Device = 0\<rparr>"

record jid_lib =
  to_non_ad :: "jid \<Rightarrow> jid"
  jid_string :: "jid \<Rightarrow> string"
  parse_jid :: "string \<Rightarrow> gerror + jid"
  jid_is_empty :: "jid \<Rightarrow> bool"
  new_jid :: "string \<Rightarrow> server \<Rightarrow> jid"

text \<open>
  A plain JID has no device, a user without the separators of the text form, and a server
  that is one of the constants (or it is the zero JID). \<open>String\<close> and \<open>ParseJID\<close>
  are inverse on these, and their text has no colon.
\<close>

definition plain_user :: "string \<Rightarrow> bool" where
  "plain_user u \<longleftrightarrow> CHR ''@'' \<notin> set u \<and> CHR '':'' \<notin> set u \<and> CHR ''.'' \<notin> set u"

fun known_server :: "server \<Rightarrow> bool" where
  "known_server (OtherServer s) = False"
| "known_server _ = True"

definition plain_jid :: "jid \<Rightarrow> bool" where
  "plain_jid j \<longleftrightarrow> j = EmptyJID \<or> (known_server (Server j) \<and> plain_user (User j) \<and> Device j = 0)"

definition jid_lib_ok :: "jid_lib \<Rightarrow> bool" where
  "jid_lib_ok L \<longleftrightarrow>
     (\<forall>j. to_non_ad L j = j\<lparr>Device := 0\<rparr>) \<and>
     (\<forall>j. jid_is_empty L j \<longleftrightarrow> Server j = OtherServer []) \<and>
     (\<forall>u s. new_jid L u s = \<lparr>User = u, Server = s, Device = 0\<rparr>) \<and>
     (\<forall>j. plain_jid j \<longrightarrow> parse_jid L (jid_string L j) = Inr j) \<and>
     (\<forall>j. plain_jid j \<longrightarrow> CHR '':'' \<notin> set (jid_string L j))"

named_theorems jid_lib

lemma to_non_ad [jid_lib]: "jid_lib_ok L \<Longrightarrow> to_non_ad L j = j\<lparr>Device := 0\<rparr>"
  by (simp add: jid_lib_ok_def)

lemma jid_is_empty [jid_lib]: "jid_lib_ok L \<Longrightarrow> jid_is_empty L j \<longleftrightarrow> Server j = OtherServer []"
  by (simp add: jid_lib_ok_def)

lemma new_jid [jid_lib]: "jid_lib_ok L \<Longrightarrow> new_jid L u s = \<lparr>User = u, Server = s, Device = 0\<rparr>"
  by (simp add: jid_lib_ok_def)

lemma parse_jid_string [jid_lib]: "jid_lib_ok L \<Longrightarrow> plain_jid j \<Longrightarrow> parse_jid L (jid_string L j) = Inr j"
  by (simp add: jid_lib_ok_def)

lemma jid_string_no_colon [jid_lib]: "jid_lib_ok L \<Longrightarrow> plain_jid j \<Longrightarrow> CHR '':'' \<notin> set (jid_string L j)"
  by (simp add: jid_lib_ok_def)

lemma plain_jid_Device: "plain_jid j \<Longrightarrow> Device j = 0"
  by (auto simp: plain_jid_def EmptyJID_def)

lemma plain_jid_EmptyJID [simp]: "plain_jid EmptyJID"
  by (simp add: plain_jid_def)

section \<open>Portal, user and login identifiers\<close>

definition MakePortalID :: "jid_lib \<Rightarrow> jid \<Rightarrow> string" where
  "MakePortalID L j = jid_string L (to_non_ad L j)"

definition ParsePortalID :: "jid_lib \<Rightarrow> string \<Rightarrow> jid outcome" where
  "ParsePortalID L portal =
     (case parse_jid L portal of
        Inl e \<Rightarrow> Fail (Wrap ''invalid portal ID'' e)
      | Inr parsed \<Rightarrow> Ok parsed)"

definition LIDPrefix :: string where
  "LIDPrefix = ''lid-''"

definition BotPrefix :: string where
  "BotPrefix = ''bot-''"

definition MakeUserID :: "jid \<Rightarrow> string" where
  "MakeUserID user =
     (case Server user of
        DefaultUserServer \<Rightarrow> User user
      | BotServer \<Rightarrow> BotPrefix @ User user
      | HiddenUserServer \<Rightarrow> LIDPrefix @ User user
      | _ \<Rightarrow> [])"

definition ParseUserID :: "jid_lib \<Rightarrow> string \<Rightarrow> jid" where
  "ParseUserID L user =
     (if has_prefix user LIDPrefix then new_jid L (trim_prefix user LIDPrefix) HiddenUserServer
      else if has_prefix user BotPrefix then new_jid L (trim_prefix user BotPrefix) BotServer
      else new_jid L user DefaultUserServer)"

definition MakeUserLoginID :: "jid \<Rightarrow> string" where
  "MakeUserLoginID user = (if Server user \<noteq> DefaultUserServer then [] else User user)"

definition ParseUserLoginID :: "string \<Rightarrow> 16 word \<Rightarrow> jid" where
  "ParseUserLoginID user deviceID =
     (if user = [] then EmptyJID
      else \<lparr>User = user, Server = DefaultUserServer, Device = deviceID\<rparr>)"

section \<open>Message identifiers\<close>

record ParsedMessageID =
  Chat :: jid
  Sender :: jid
  ID :: string

definition MakeMessageID :: "jid_lib \<Rightarrow> jid \<Rightarrow> jid \<Rightarrow> string \<Rightarrow> string" where
  "MakeMessageID L chat sender i =
     jid_string L (to_non_ad L chat) @ '':'' @ jid_string L (to_non_ad L sender) @ '':'' @ i"

definition MakeFakeMessageID :: "jid_lib \<Rightarrow> jid \<Rightarrow> jid \<Rightarrow> string \<Rightarrow> string" where
  "MakeFakeMessageID L chat sender data =
     ''fake:'' @ jid_string L (to_non_ad L chat) @ '':'' @ jid_string L (to_non_ad L sender) @ '':'' @ data"

definition ParsedMessageID_String :: "jid_lib \<Rightarrow> ParsedMessageID \<Rightarrow> string" where
  "ParsedMessageID_String L pmi = MakeMessageID L (Chat pmi) (Sender pmi) (ID pmi)"

definition ParseMessageID :: "jid_lib \<Rightarrow> string \<Rightarrow> ParsedMessageID outcome" where
  "ParseMessageID L messageID =
     (let parts = split_n (CHR '':'') 3 messageID in
      if length parts = 3 then
        if parts ! 0 = ''fake'' \<or> has_prefix (parts ! 2) ''FAKE::'' then Fail (Err ''fake message ID'')
        else obind (of_sum (parse_jid L (parts ! 0))) (\<lambda>chat.
             obind (of_sum (parse_jid L (parts ! 1))) (\<lambda>sender.
             Ok \<lparr>Chat = chat, Sender = sender, ID = parts ! 2\<rparr>))
      else Fail (Err ''invalid message ID''))"

section \<open>Laws of the codecs\<close>

lemma plain_jid_non_ad:
  "jid_lib_ok L \<Longrightarrow> plain_jid j \<Longrightarrow> to_non_ad L j = j"
  by (simp add: to_non_ad plain_jid_Device)

lemma split_n_2_3: "split_n c (Suc (Suc (Suc 0))) s =
  (if c \<in> set s
   then takeWhile (\<lambda>x. x \<noteq> c) s # split_n c (Suc (Suc 0)) (tl (dropWhile (\<lambda>x. x \<noteq> c) s))
   else [s])"
  by simp

lemma split_three:
  assumes "c \<notin> set a" "c \<notin> set b"
  shows "split_n c 3 (a @ c # b @ c # s) = [a, b, s]"
  using assms by (simp add: numeral_3_eq_3 split_n_hit del: split_n.simps(3))

lemma ParseMessageID_parts:
  assumes "CHR '':'' \<notin> set a" "CHR '':'' \<notin> set b"
  shows "ParseMessageID L (a @ CHR '':'' # b @ CHR '':'' # s) =
    (if a = ''fake'' \<or> has_prefix s ''FAKE::'' then Fail (Err ''fake message ID'')
     else obind (of_sum (parse_jid L a)) (\<lambda>chat. obind (of_sum (parse_jid L b)) (\<lambda>sender.
          Ok \<lparr>Chat = chat, Sender = sender, ID = s\<rparr>)))"
  using split_three [OF assms, of s] by (simp add: ParseMessageID_def Let_def)

lemma ParseMessageID_MakeMessageID:
  assumes L: "jid_lib_ok L" and c: "plain_jid (chat\<lparr>Device := 0\<rparr>)" and s: "plain_jid (sender\<lparr>Device := 0\<rparr>)"
    and nf: "jid_string L (chat\<lparr>Device := 0\<rparr>) \<noteq> ''fake''" "\<not> has_prefix i ''FAKE::''"
  shows "ParseMessageID L (MakeMessageID L chat sender i) =
    Ok \<lparr>Chat = chat\<lparr>Device := 0\<rparr>, Sender = sender\<lparr>Device := 0\<rparr>, ID = i\<rparr>"
  using nf jid_string_no_colon [OF L c] jid_string_no_colon [OF L s] parse_jid_string [OF L c]
    parse_jid_string [OF L s]
  by (simp add: MakeMessageID_def to_non_ad [OF L] ParseMessageID_parts)

lemma MakeUserID_default [simp]: "Server j = DefaultUserServer \<Longrightarrow> MakeUserID j = User j"
  by (simp add: MakeUserID_def)

lemma ParseMessageID_Ok_parts:
  assumes "ParseMessageID L m = Ok p"
  shows "\<exists>a b. split_n (CHR '':'') 3 m = [a, b, ID p] \<and> parse_jid L a = Inr (Chat p)
    \<and> parse_jid L b = Inr (Sender p) \<and> a \<noteq> ''fake'' \<and> \<not> has_prefix (ID p) ''FAKE::''"
proof -
  let ?ps = "split_n (CHR '':'') 3 m"
  have len: "length ?ps = 3" and nf: "?ps ! 0 \<noteq> ''fake''" "\<not> has_prefix (?ps ! 2) ''FAKE::''"
    using assms by (auto simp: ParseMessageID_def Let_def split: if_splits)
  then obtain a b c where ps: "?ps = [a, b, c]"
    by (auto simp: numeral_3_eq_3 length_Suc_conv)
  with assms nf show ?thesis
    by (auto simp: ParseMessageID_def Let_def outcome_simps)
qed

section \<open>A concrete library\<close>

fun server_name :: "server \<Rightarrow> string" where
  "server_name DefaultUserServer = ''s.whatsapp.net''"
| "server_name GroupServer = ''g.us''"
| "server_name HiddenUserServer = ''lid''"
| "server_name BotServer = ''bot''"
| "server_name BroadcastServer = ''broadcast''"
| "server_name NewsletterServer = ''newsletter''"
| "server_name LegacyUserServer = ''c.us''"
| "server_name MessengerServer = ''msgr''"
| "server_name (OtherServer s) = s"

definition server_of_name :: "string \<Rightarrow> server" where
  "server_of_name s =
     (case find (\<lambda>k. server_name k = s)
        [DefaultUserServer, GroupServer, HiddenUserServer, BotServer, BroadcastServer,
         NewsletterServer, LegacyUserServer, MessengerServer] of
        Some k \<Rightarrow> k | None \<Rightarrow> OtherServer s)"

definition sample_jid_lib :: jid_lib where
  "sample_jid_lib =
     \<lparr>to_non_ad = (\<lambda>j. j\<lparr>Device := 0\<rparr>),
      jid_string = (\<lambda>j.
        (if User j = [] then [] else User j @ (if Device j = 0 then [] else CHR '':'' # format_nat (unat (Device j))) @ ''@'')
        @ server_name (Server j)),
      parse_jid = (\<lambda>s.
        if CHR ''@'' \<in> set s
        then Inr \<lparr>User = takeWhile (\<lambda>c. c \<noteq> CHR ''@'') s,
                  Server = server_of_name (tl (dropWhile (\<lambda>c. c \<noteq> CHR ''@'') s)), Device = 0\<rparr>
        else Inr \<lparr>User = [], Server = server_of_name s, Device = 0\<rparr>),
      jid_is_empty = (\<lambda>j. Server j = OtherServer []),
      new_jid = (\<lambda>u s. \<lparr>User = u, Server = s, Device = 0\<rparr>)\<rparr>"

lemma server_of_name_server_name [simp]: "known_server s \<Longrightarrow> server_of_name (server_name s) = s"
  by (cases s) (simp_all add: server_of_name_def)

lemma server_name_no_at: "known_server s \<Longrightarrow> CHR ''@'' \<notin> set (server_name s) \<and> CHR '':'' \<notin> set (server_name s)"
  by (cases s) simp_all

lemma sample_parse_string:
  assumes "plain_jid j"
  shows "parse_jid sample_jid_lib (jid_string sample_jid_lib j) = Inr j
    \<and> CHR '':'' \<notin> set (jid_string sample_jid_lib j)"
proof (cases "j = EmptyJID")
  case True
  then show ?thesis by (simp add: sample_jid_lib_def EmptyJID_def server_of_name_def)
next
  case False
  with assms have j: "known_server (Server j)" "plain_user (User j)" "Device j = 0"
    by (auto simp: plain_jid_def)
  then have u: "CHR ''@'' \<notin> set (User j)" "CHR '':'' \<notin> set (User j)" by (auto simp: plain_user_def)
  show ?thesis
  proof (cases "User j = []")
    case True
    with j server_name_no_at [OF j(1)] show ?thesis
      by (cases j) (simp add: sample_jid_lib_def)
  next
    case False
    with j u server_name_no_at [OF j(1)] show ?thesis
      by (cases j) (simp add: sample_jid_lib_def takeWhile_append dropWhile_append)
  qed
qed

lemma sample_jid_lib_ok: "jid_lib_ok sample_jid_lib"
  using sample_parse_string by (auto simp: jid_lib_ok_def) (simp_all add: sample_jid_lib_def)

section \<open>Properties\<close>

text \<open>A message identifier made for a real message is parsed back to the same chat,
  sender (both without their device) and message ID, whatever characters the ID itself
  contains, as long as it does not carry the prefix reserved for fake IDs.\<close>

theorem message_id_roundtrip:
  assumes "jid_lib_ok L"
    and "plain_jid (chat\<lparr>Device := 0\<rparr>)" and "plain_jid (sender\<lparr>Device := 0\<rparr>)"
    and "jid_string L (chat\<lparr>Device := 0\<rparr>) \<noteq> ''fake''" and "\<not> has_prefix i ''FAKE::''"
  shows "ParseMessageID L (MakeMessageID L chat sender i) =
    Ok \<lparr>Chat = chat\<lparr>Device := 0\<rparr>, Sender = sender\<lparr>Device := 0\<rparr>, ID = i\<rparr>"
  using assms by (rule ParseMessageID_MakeMessageID)

definition sample_user :: jid where
  "sample_user = \<lparr>User = ''358401234567'', Server = DefaultUserServer, Device = 3\<rparr>"

definition sample_group :: jid where
  "sample_group = \<lparr>User = ''1234-5678'', Server = GroupServer, Device = 0\<rparr>"

lemma plain_samples [simp]:
  "plain_jid (sample_user\<lparr>Device := 0\<rparr>)" "plain_jid sample_group" "plain_jid (sample_group\<lparr>Device := 0\<rparr>)"
  by (simp_all add: plain_jid_def plain_user_def sample_user_def sample_group_def)

lemma sample_group_not_fake [simp]: "jid_string sample_jid_lib (sample_group\<lparr>Device := 0\<rparr>) \<noteq> ''fake''"
  by (simp add: sample_jid_lib_def sample_group_def)

theorem message_id_roundtrip_witness:
  "ParseMessageID sample_jid_lib (MakeMessageID sample_jid_lib sample_group sample_user ''3EB0:1'') =
    Ok \<lparr>Chat = sample_group\<lparr>Device := 0\<rparr>, Sender = sample_user\<lparr>Device := 0\<rparr>, ID = ''3EB0:1''\<rparr>"
  by (rule message_id_roundtrip) (simp_all add: sample_jid_lib_ok has_prefix_def)

text \<open>Every identifier made by \<open>MakeFakeMessageID\<close> (call and security-code
  notices) is rejected by \<open>ParseMessageID\<close>, for any library and any JIDs, so it can
  never be taken for a message that exists on WhatsApp.\<close>

theorem fake_message_id_rejected:
  "ParseMessageID L (MakeFakeMessageID L chat sender data) = Fail (Err ''fake message ID'')"
proof -
  let ?a = "jid_string L (to_non_ad L chat)"
  let ?r = "?a @ CHR '':'' # jid_string L (to_non_ad L sender) @ CHR '':'' # data"
  have "split_n (CHR '':'') 3 (''fake'' @ CHR '':'' # ?r) = ''fake'' # split_n (CHR '':'') (Suc (Suc 0)) ?r"
    unfolding numeral_3_eq_3 by (rule split_n_hit) simp
  then have "split_n (CHR '':'') 3 (MakeFakeMessageID L chat sender data)
      = ''fake'' # split_n (CHR '':'') (Suc (Suc 0)) ?r"
    by (simp add: MakeFakeMessageID_def)
  then show ?thesis by (simp add: ParseMessageID_def Let_def)
qed

definition user_jid_recoverable :: "jid \<Rightarrow> bool" where
  "user_jid_recoverable j \<longleftrightarrow>
     Server j = HiddenUserServer \<or> Server j = BotServer
     \<or> Server j = DefaultUserServer \<and> \<not> has_prefix (User j) LIDPrefix \<and> \<not> has_prefix (User j) BotPrefix"

lemma MakeUserID_ParseUserID:
  assumes "jid_lib_ok L"
  shows "MakeUserID (ParseUserID L u) = u"
proof -
  have "u = LIDPrefix @ trim_prefix u LIDPrefix" if "has_prefix u LIDPrefix"
    using that has_prefixD by (simp add: trim_prefix_def)
  moreover have "u = BotPrefix @ trim_prefix u BotPrefix" if "has_prefix u BotPrefix"
    using that has_prefixD by (simp add: trim_prefix_def)
  ultimately show ?thesis
    using assms by (auto simp: ParseUserID_def MakeUserID_def new_jid)
qed

lemma ParseUserID_MakeUserID:
  assumes "jid_lib_ok L" and "user_jid_recoverable j"
  shows "ParseUserID L (MakeUserID j) = j\<lparr>Device := 0\<rparr>"
proof -
  have "\<not> has_prefix (BotPrefix @ s) LIDPrefix" for s
    by (simp add: has_prefix_def BotPrefix_def LIDPrefix_def)
  with assms show ?thesis
    by (cases j) (auto simp: user_jid_recoverable_def ParseUserID_def MakeUserID_def new_jid)
qed

text \<open>User identifiers and user JIDs correspond: every identifier string is recovered
  from the JID it is parsed to, and a phone-number JID whose user does not begin with one of
  the two reserved prefixes, a LID or a bot JID is recovered (without its device) from its
  identifier.\<close>

theorem user_id_roundtrip:
  assumes "jid_lib_ok L"
  shows "MakeUserID (ParseUserID L u) = u \<and>
    (user_jid_recoverable j \<longrightarrow> ParseUserID L (MakeUserID j) = j\<lparr>Device := 0\<rparr>)"
  using assms by (simp add: MakeUserID_ParseUserID ParseUserID_MakeUserID)

theorem user_id_roundtrip_witness:
  "user_jid_recoverable sample_user \<and> MakeUserID (ParseUserID sample_jid_lib ''lid-42'') = ''lid-42''
   \<and> ParseUserID sample_jid_lib (MakeUserID sample_user) = sample_user\<lparr>Device := 0\<rparr>"
  using user_id_roundtrip [OF sample_jid_lib_ok, of "''lid-42''" sample_user]
  by (simp add: sample_user_def user_jid_recoverable_def has_prefix_def LIDPrefix_def BotPrefix_def)

text \<open>A login identifier survives the trip through a device JID for every device
  number, and every JID that is not a phone number has the empty login identifier.\<close>

theorem user_login_id_roundtrip:
  "MakeUserLoginID (ParseUserLoginID u d) = u \<and>
   (Server j \<noteq> DefaultUserServer \<longrightarrow> MakeUserLoginID j = [])"
  by (simp add: MakeUserLoginID_def ParseUserLoginID_def EmptyJID_def)

theorem user_login_id_roundtrip_witness:
  "MakeUserLoginID (ParseUserLoginID ''358'' 7) = ''358'' \<and> MakeUserLoginID sample_group = []"
  using user_login_id_roundtrip [of "''358''" 7 sample_group] by (simp add: sample_group_def)

text \<open>A portal identifier made from a plain chat JID is parsed back to it.\<close>

theorem portal_id_roundtrip:
  assumes "jid_lib_ok L" and "plain_jid (j\<lparr>Device := 0\<rparr>)"
  shows "ParsePortalID L (MakePortalID L j) = Ok (j\<lparr>Device := 0\<rparr>)"
  using assms by (simp add: ParsePortalID_def MakePortalID_def jid_lib)

theorem portal_id_roundtrip_witness:
  "ParsePortalID sample_jid_lib (MakePortalID sample_jid_lib sample_user) = Ok (sample_user\<lparr>Device := 0\<rparr>)"
  by (rule portal_id_roundtrip) (simp_all add: sample_jid_lib_ok)

end
