(* ===== verification/MediaId.thy ===== *)
theory MediaId
  imports Waid
begin

text \<open>
  The binary identifiers of \<open>pkg/waid/mediaid.go\<close>: a type byte followed by
  length-prefixed compact forms of JIDs and message IDs. The definitions follow the code's
  order of appends and reads; an index outside a slice is the outcome \<open>Panic\<close>.
\<close>

section \<open>Message infos and byte slices\<close>

text \<open>
  The fields of whatsmeow's message info (its source included) that the code reads. Times
  are nanoseconds since Go's zero instant, so the zero time is 0.
\<close>

datatype AddressingMode = AddressingModeNone | AddressingModePN | AddressingModeLID

record MessageInfo =
  mi_Chat :: jid
  mi_Sender :: jid
  mi_IsFromMe :: bool
  mi_IsGroup :: bool
  mi_AddressingMode :: AddressingMode
  mi_SenderAlt :: jid
  mi_RecipientAlt :: jid
  mi_BroadcastListOwner :: jid
  mi_ID :: string
  mi_Timestamp :: int

definition slice_set :: "'a list \<Rightarrow> nat \<Rightarrow> 'a \<Rightarrow> 'a list outcome" where
  "slice_set xs i v = (if i < length xs then Ok (xs[i := v]) else Panic)"

definition len_prefixed :: "byte list \<Rightarrow> byte list" where
  "len_prefixed bs = of_nat (length bs) # bs"

section \<open>Compact forms\<close>

definition isUpperHex :: "string \<Rightarrow> bool" where
  "isUpperHex str = list_all is_upper_hex_char str"

definition compactMsgID :: "string \<Rightarrow> byte list" where
  "compactMsgID i =
     (if isUpperHex i \<and> length i mod 2 = 0
      then (case hex_decode i of
              Some bs \<Rightarrow> 1 # bs
            | None \<Rightarrow> 0 # bytes_of_string i)
      else 0 # bytes_of_string i)"

definition parseCompactMsgID :: "byte list \<Rightarrow> string outcome" where
  "parseCompactMsgID i =
     (case i of
        [] \<Rightarrow> Fail (Err ''empty message ID'')
      | t # r \<Rightarrow>
          if t = 0 then Ok (string_of_bytes r)
          else if t = 1 then Ok (to_upper (hex_encode r))
          else Fail (Err ''invalid compact message ID type''))"

definition compactJID :: "jid_lib \<Rightarrow> jid \<Rightarrow> byte list outcome" where
  "compactJID L j =
     (let raw = Ok (0 # bytes_of_string (jid_string L j)) in
      if Server j = DefaultUserServer then
        (case parse_uint64 (User j) of
           Some userInt \<Rightarrow>
             if Device j = 0 then Ok (1 # be_bytes 8 userInt)
             else obind (slice_set [0] 1 2) (\<lambda>data.
                  Ok (data @ be_bytes 8 userInt @ be_bytes 2 (unat (Device j))))
         | None \<Rightarrow> raw)
      else if Server j = GroupServer then Ok (3 # bytes_of_string (User j))
      else raw)"

definition parseCompactJID :: "jid_lib \<Rightarrow> byte list \<Rightarrow> jid outcome" where
  "parseCompactJID L bs =
     (case bs of
        [] \<Rightarrow> Fail (Err ''empty JID'')
      | t # r \<Rightarrow>
          if t = 0 then of_sum (parse_jid L (string_of_bytes r))
          else if t = 1 then
            (if length bs \<noteq> 9 then Fail (Err ''invalid compact user JID length'')
             else Ok \<lparr>User = format_nat (be_value (take 8 r)), Server = DefaultUserServer, Device = 0\<rparr>)
          else if t = 2 then
            (if length bs \<noteq> 11 then Fail (Err ''invalid compact user device JID length'')
             else Ok \<lparr>User = format_nat (be_value (take 8 r)), Server = DefaultUserServer,
                      Device = of_nat (be_value (take 2 (drop 8 r)))\<rparr>)
          else if t = 3 then Ok \<lparr>User = string_of_bytes r, Server = GroupServer, Device = 0\<rparr>
          else Fail (Err ''invalid compact JID type''))"

definition parseString :: "byte list \<Rightarrow> string outcome" where
  "parseString data = Ok (string_of_bytes data)"

definition readCompact :: "byte list \<Rightarrow> (byte list \<Rightarrow> 'a outcome) \<Rightarrow> ('a \<times> byte list) outcome" where
  "readCompact data f =
     (case data of
        [] \<Rightarrow> Fail (Wrap ''data too short to read length'' (Err ''unexpected EOF''))
      | l # r \<Rightarrow>
          if length data < unat l + 1
          then Fail (Wrap (''wanted '' @ format_nat (unat l) @ ''+1 bytes, only have '' @ format_nat (length data))
                 (Err ''unexpected EOF''))
          else obind (f (take (unat l) r)) (\<lambda>v. Ok (v, drop (unat l) r)))"

section \<open>Media identifiers\<close>

definition mediaIDTypeMessage :: byte where "mediaIDTypeMessage = 255"
definition mediaIDTypeAvatar :: byte where "mediaIDTypeAvatar = 254"
definition mediaIDTypeCommunityAvatar :: byte where "mediaIDTypeCommunityAvatar = 253"

definition MakeMediaID :: "jid_lib \<Rightarrow> MessageInfo \<Rightarrow> string \<Rightarrow> string \<Rightarrow> byte list outcome" where
  "MakeMediaID L info idOverride receiver =
     obind (compactJID L (to_non_ad L (mi_Chat info))) (\<lambda>compactChat.
     obind (compactJID L (to_non_ad L (mi_Sender info))) (\<lambda>compactSender.
     obind (compactJID L (ParseUserLoginID receiver 0)) (\<lambda>receiverID.
     let compactID = (if idOverride \<noteq> [] then compactMsgID idOverride else compactMsgID (mi_ID info)) in
     Ok ([mediaIDTypeMessage] @ len_prefixed compactChat @ len_prefixed compactSender
         @ len_prefixed receiverID @ len_prefixed compactID))))"

definition MakeAvatarMediaID :: "jid_lib \<Rightarrow> jid \<Rightarrow> string \<Rightarrow> string \<Rightarrow> bool \<Rightarrow> byte list outcome" where
  "MakeAvatarMediaID L targetJID i receiver community =
     obind (compactJID L (to_non_ad L targetJID)) (\<lambda>compactTarget.
     obind (compactJID L (ParseUserLoginID receiver 0)) (\<lambda>receiverID.
     Ok ([if community then mediaIDTypeCommunityAvatar else mediaIDTypeAvatar]
         @ len_prefixed compactTarget @ len_prefixed (bytes_of_string i) @ len_prefixed receiverID)))"

record AvatarMediaInfo =
  TargetJID :: jid
  AvatarID :: string
  Community :: bool

record ParsedMediaID =
  Message :: "ParsedMessageID option"
  Avatar :: "AvatarMediaInfo option"
  UserLogin :: string

definition ParseMediaID_message :: "jid_lib \<Rightarrow> byte list \<Rightarrow> ParsedMediaID outcome" where
  "ParseMediaID_message L m0 =
     obind (owrap ''failed to parse chat JID'' (readCompact m0 (parseCompactJID L))) (\<lambda>(chatJID, m1).
     obind (owrap ''failed to parse sender JID'' (readCompact m1 (parseCompactJID L))) (\<lambda>(senderJID, m2).
     obind (owrap ''failed to parse receiver JID'' (readCompact m2 (parseCompactJID L))) (\<lambda>(receiverID, m3).
     obind (owrap ''failed to parse message ID'' (readCompact m3 parseCompactMsgID)) (\<lambda>(i, m4).
     Ok \<lparr>Message = Some \<lparr>Chat = chatJID, Sender = senderJID, ID = i\<rparr>, Avatar = None,
         UserLogin = MakeUserLoginID receiverID\<rparr>))))"

definition ParseMediaID_avatar :: "jid_lib \<Rightarrow> bool \<Rightarrow> byte list \<Rightarrow> ParsedMediaID outcome" where
  "ParseMediaID_avatar L community m0 =
     obind (owrap ''failed to parse target JID'' (readCompact m0 (parseCompactJID L))) (\<lambda>(targetJID, m1).
     obind (owrap ''failed to parse avatar ID'' (readCompact m1 parseString)) (\<lambda>(avatarID, m2).
     obind (owrap ''failed to parse receiver JID'' (readCompact m2 (parseCompactJID L))) (\<lambda>(receiverID, m3).
     Ok \<lparr>Message = None, Avatar = Some \<lparr>TargetJID = targetJID, AvatarID = avatarID, Community = community\<rparr>,
         UserLogin = MakeUserLoginID receiverID\<rparr>)))"

definition ParseMediaID :: "jid_lib \<Rightarrow> byte list \<Rightarrow> ParsedMediaID outcome" where
  "ParseMediaID L mediaID =
     (case mediaID of
        [] \<Rightarrow> Panic
      | b # r \<Rightarrow>
          let (mediaIDType, m) = (if 127 < b then (b, r) else (mediaIDTypeMessage, mediaID)) in
          if mediaIDType = mediaIDTypeMessage then ParseMediaID_message L m
          else if mediaIDType = mediaIDTypeAvatar \<or> mediaIDType = mediaIDTypeCommunityAvatar
            then ParseMediaID_avatar L (mediaIDType = mediaIDTypeCommunityAvatar) m
          else Fail (Err (''unknown media ID type '' @ format_nat (unat mediaIDType))))"

section \<open>Round trips of the compact forms\<close>

lemma parseCompactMsgID_compactMsgID: "parseCompactMsgID (compactMsgID i) = Ok i"
proof (cases "isUpperHex i \<and> length i mod 2 = 0")
  case True
  then obtain bs where "hex_decode i = Some bs" "to_upper (hex_encode bs) = i"
    using hex_decode_upper [of i] by (auto simp: isUpperHex_def even_iff_mod_2_eq_zero)
  with True show ?thesis by (simp add: compactMsgID_def parseCompactMsgID_def)
next
  case False
  then have "compactMsgID i = 0 # bytes_of_string i" by (auto simp: compactMsgID_def)
  then show ?thesis by (simp add: parseCompactMsgID_def)
qed

text \<open>
  The JIDs that the compact form keeps: a phone number whose user reads as a number must be
  written without leading zeros, a group may have any user text, anything else must be plain.
\<close>

definition media_jid :: "jid \<Rightarrow> bool" where
  "media_jid j \<longleftrightarrow> Device j = 0 \<and>
     (Server j = GroupServer \<or>
      (if Server j = DefaultUserServer \<and> parse_uint64 (User j) \<noteq> None
       then canonical_decimal (User j) else plain_jid j))"

lemma compactJID_Ok: "Device j = 0 \<Longrightarrow> \<exists>bs. compactJID L j = Ok bs"
  by (auto simp: compactJID_def Let_def split: option.splits)

lemma parseCompactJID_compactJID:
  assumes L: "jid_lib_ok L" and j: "media_jid j" and c: "compactJID L j = Ok bs"
  shows "parseCompactJID L bs = Ok j"
proof -
  consider (group) "Server j = GroupServer"
    | (num) n where "Server j = DefaultUserServer" "parse_uint64 (User j) = Some n" "canonical_decimal (User j)"
    | (raw) "Server j \<noteq> GroupServer" "Server j = DefaultUserServer \<longrightarrow> parse_uint64 (User j) = None" "plain_jid j"
    using j by (auto simp: media_jid_def split: if_splits)
  then show ?thesis
  proof cases
    case group
    with c j show ?thesis by (cases j) (auto simp: compactJID_def parseCompactJID_def media_jid_def)
  next
    case num
    then have "n < 2 ^ 64" "n = decimal_value (User j)" using parse_uint64_SomeD by auto
    moreover have "bs = 1 # be_bytes 8 n" using c j num by (auto simp: compactJID_def media_jid_def)
    ultimately show ?thesis
      using num j be_value_be_bytes [of n 8] format_nat_decimal_value [OF num(3)]
      by (cases j) (simp add: parseCompactJID_def media_jid_def)
  next
    case raw
    then have "bs = 0 # bytes_of_string (jid_string L j)"
      using c by (auto simp: compactJID_def Let_def split: if_splits)
    with raw L show ?thesis by (simp add: parseCompactJID_def parse_jid_string)
  qed
qed

lemma readCompact_len_prefixed:
  assumes "length bs < 256"
  shows "readCompact (len_prefixed bs @ rest) f = obind (f bs) (\<lambda>v. Ok (v, rest))"
proof -
  have "unat (of_nat (length bs) :: byte) = length bs"
    using assms by (simp add: unat_of_nat_byte)
  then show ?thesis by (simp add: readCompact_def len_prefixed_def)
qed

lemma readCompact_not_Panic:
  "(\<And>bs. f bs \<noteq> Panic) \<Longrightarrow> readCompact m f \<noteq> Panic"
  by (auto simp: readCompact_def outcome_simps split: list.splits)

lemma parseCompactJID_not_Panic: "parseCompactJID L bs \<noteq> Panic"
  by (auto simp: parseCompactJID_def split: list.splits)

lemma parseCompactMsgID_not_Panic: "parseCompactMsgID bs \<noteq> Panic"
  by (auto simp: parseCompactMsgID_def split: list.splits)

lemma parseString_not_Panic: "parseString bs \<noteq> Panic"
  by (simp add: parseString_def)

lemmas readCompact_total =
  readCompact_not_Panic [of "parseCompactJID L" for L, OF parseCompactJID_not_Panic]
  readCompact_not_Panic [of parseCompactMsgID, OF parseCompactMsgID_not_Panic]
  readCompact_not_Panic [of parseString, OF parseString_not_Panic]

text \<open>A JID fits when its compact form is short enough for one length byte.\<close>

definition fits :: "jid_lib \<Rightarrow> jid \<Rightarrow> bool" where
  "fits L j \<longleftrightarrow> (case compactJID L j of Ok bs \<Rightarrow> length bs < 256 | _ \<Rightarrow> False)"

lemma readCompact_jid:
  assumes "jid_lib_ok L" "media_jid j" "fits L j" "compactJID L j = Ok bs"
  shows "readCompact (len_prefixed bs @ rest) (parseCompactJID L) = Ok (j, rest)"
  using assms by (simp add: readCompact_len_prefixed fits_def parseCompactJID_compactJID)

lemma readCompact_jid_end:
  assumes "jid_lib_ok L" "media_jid j" "fits L j" "compactJID L j = Ok bs"
  shows "readCompact (len_prefixed bs) (parseCompactJID L) = Ok (j, [])"
  using readCompact_jid [OF assms, of "[]"] by simp

lemma readCompact_msg_id_end:
  "length (compactMsgID i) < 256 \<Longrightarrow> readCompact (len_prefixed (compactMsgID i)) parseCompactMsgID = Ok (i, [])"
  using readCompact_len_prefixed [of "compactMsgID i" "[]" parseCompactMsgID]
  by (simp add: parseCompactMsgID_compactMsgID)

lemma to_non_ad_compact:
  assumes "jid_lib_ok L"
  shows "\<exists>bs. compactJID L (to_non_ad L j) = Ok bs"
  using compactJID_Ok [of "to_non_ad L j"] assms by (simp add: to_non_ad)

lemma ParseUserLoginID_compact: "\<exists>bs. compactJID L (ParseUserLoginID r 0) = Ok bs"
  by (rule compactJID_Ok) (simp add: ParseUserLoginID_def EmptyJID_def)

lemma MakeUserLoginID_ParseUserLoginID: "MakeUserLoginID (ParseUserLoginID u d) = u"
  by (simp add: MakeUserLoginID_def ParseUserLoginID_def EmptyJID_def)

definition effective_id :: "MessageInfo \<Rightarrow> string \<Rightarrow> string" where
  "effective_id info idOverride = (if idOverride \<noteq> [] then idOverride else mi_ID info)"

lemma effective_id_compact:
  "(if o' \<noteq> [] then compactMsgID o' else compactMsgID (mi_ID info)) = compactMsgID (effective_id info o')"
  by (simp add: effective_id_def)

section \<open>Properties\<close>

lemma MakeMediaID_ParseMediaID:
  assumes L: "jid_lib_ok L"
    and chat: "media_jid ((mi_Chat info)\<lparr>Device := 0\<rparr>)" "fits L ((mi_Chat info)\<lparr>Device := 0\<rparr>)"
    and sender: "media_jid ((mi_Sender info)\<lparr>Device := 0\<rparr>)" "fits L ((mi_Sender info)\<lparr>Device := 0\<rparr>)"
    and recv: "media_jid (ParseUserLoginID receiver 0)" "fits L (ParseUserLoginID receiver 0)"
    and len: "length (compactMsgID (effective_id info idOverride)) < 256"
  shows "\<exists>m. MakeMediaID L info idOverride receiver = Ok m \<and>
    ParseMediaID L m = Ok \<lparr>
      Message = Some \<lparr>Chat = (mi_Chat info)\<lparr>Device := 0\<rparr>, Sender = (mi_Sender info)\<lparr>Device := 0\<rparr>,
                      ID = effective_id info idOverride\<rparr>,
      Avatar = None, UserLogin = receiver\<rparr>"
proof -
  obtain c s r where
      c: "compactJID L ((mi_Chat info)\<lparr>Device := 0\<rparr>) = Ok c"
    and s: "compactJID L ((mi_Sender info)\<lparr>Device := 0\<rparr>) = Ok s"
    and r: "compactJID L (ParseUserLoginID receiver 0) = Ok r"
    using to_non_ad_compact [OF L] ParseUserLoginID_compact by (metis to_non_ad [OF L])
  let ?i = "effective_id info idOverride"
  have "MakeMediaID L info idOverride receiver =
      Ok (mediaIDTypeMessage # len_prefixed c @ len_prefixed s @ len_prefixed r @ len_prefixed (compactMsgID ?i))"
    by (simp add: MakeMediaID_def to_non_ad [OF L] c s r effective_id_def)
  then show ?thesis
    by (simp add: ParseMediaID_def ParseMediaID_message_def mediaIDTypeMessage_def
        readCompact_jid [OF L chat c] readCompact_jid [OF L sender s] readCompact_jid [OF L recv r]
        readCompact_msg_id_end [OF len] MakeUserLoginID_ParseUserLoginID)
qed

text \<open>A media identifier made for a message (with its JIDs in canonical form and
  short enough for the one-byte length prefixes) is parsed back to exactly that chat, sender,
  message ID (the override when there is one) and receiving login.\<close>

theorem media_id_roundtrip:
  assumes L: "jid_lib_ok L"
    and chat: "media_jid ((mi_Chat info)\<lparr>Device := 0\<rparr>)" "fits L ((mi_Chat info)\<lparr>Device := 0\<rparr>)"
    and sender: "media_jid ((mi_Sender info)\<lparr>Device := 0\<rparr>)" "fits L ((mi_Sender info)\<lparr>Device := 0\<rparr>)"
    and recv: "media_jid (ParseUserLoginID receiver 0)" "fits L (ParseUserLoginID receiver 0)"
    and len: "length (compactMsgID (effective_id info idOverride)) < 256"
  shows "\<exists>m. MakeMediaID L info idOverride receiver = Ok m \<and>
    ParseMediaID L m = Ok \<lparr>
      Message = Some \<lparr>Chat = (mi_Chat info)\<lparr>Device := 0\<rparr>, Sender = (mi_Sender info)\<lparr>Device := 0\<rparr>,
                      ID = effective_id info idOverride\<rparr>,
      Avatar = None, UserLogin = receiver\<rparr>"
  using assms by (rule MakeMediaID_ParseMediaID)

definition sample_info :: MessageInfo where
  "sample_info = \<lparr>mi_Chat = sample_group, mi_Sender = sample_user, mi_IsFromMe = False, mi_IsGroup = True,
     mi_AddressingMode = AddressingModePN, mi_SenderAlt = EmptyJID, mi_RecipientAlt = EmptyJID,
     mi_BroadcastListOwner = EmptyJID, mi_ID = ''3EB0A9'', mi_Timestamp = 0\<rparr>"

lemma sample_media_jids:
  "media_jid (sample_group\<lparr>Device := 0\<rparr>)" "fits L (sample_group\<lparr>Device := 0\<rparr>)"
  "media_jid (sample_user\<lparr>Device := 0\<rparr>)" "fits L (sample_user\<lparr>Device := 0\<rparr>)"
  "media_jid (ParseUserLoginID ''358'' 0)" "fits L (ParseUserLoginID ''358'' 0)"
  by (simp_all add: media_jid_def fits_def compactJID_def sample_group_def sample_user_def ParseUserLoginID_def
      parse_uint64_def is_digit_def decimal_value_def digit_value_def canonical_decimal_def)

theorem media_id_roundtrip_witness:
  "\<exists>m. MakeMediaID sample_jid_lib sample_info [] ''358'' = Ok m \<and>
    ParseMediaID sample_jid_lib m = Ok \<lparr>
      Message = Some \<lparr>Chat = sample_group\<lparr>Device := 0\<rparr>, Sender = sample_user\<lparr>Device := 0\<rparr>, ID = ''3EB0A9''\<rparr>,
      Avatar = None, UserLogin = ''358''\<rparr>"
proof -
  have "length (compactMsgID (effective_id sample_info [])) < 256"
    by (simp add: effective_id_def sample_info_def compactMsgID_def isUpperHex_def is_upper_hex_char_def hex_value_def)
  then show ?thesis
    using media_id_roundtrip [OF sample_jid_lib_ok, of sample_info "''358''" "[]"] sample_media_jids
    by (simp add: effective_id_def sample_info_def)
qed

lemma MakeAvatarMediaID_ParseMediaID:
  assumes L: "jid_lib_ok L"
    and target: "media_jid (target\<lparr>Device := 0\<rparr>)" "fits L (target\<lparr>Device := 0\<rparr>)"
    and recv: "media_jid (ParseUserLoginID receiver 0)" "fits L (ParseUserLoginID receiver 0)"
    and len: "length i < 256"
  shows "\<exists>m. MakeAvatarMediaID L target i receiver community = Ok m \<and>
    ParseMediaID L m = Ok \<lparr>Message = None,
      Avatar = Some \<lparr>TargetJID = target\<lparr>Device := 0\<rparr>, AvatarID = i, Community = community\<rparr>,
      UserLogin = receiver\<rparr>"
proof -
  obtain t r where
      t: "compactJID L (target\<lparr>Device := 0\<rparr>) = Ok t"
    and r: "compactJID L (ParseUserLoginID receiver 0) = Ok r"
    using to_non_ad_compact [OF L] ParseUserLoginID_compact by (metis to_non_ad [OF L])
  have "readCompact (len_prefixed (bytes_of_string i) @ rest) parseString = Ok (i, rest)" for rest
    using len by (simp add: readCompact_len_prefixed parseString_def)
  then show ?thesis
    by (simp add: MakeAvatarMediaID_def to_non_ad [OF L] t r ParseMediaID_def ParseMediaID_avatar_def
        mediaIDTypeMessage_def mediaIDTypeAvatar_def mediaIDTypeCommunityAvatar_def
        readCompact_jid [OF L target t] readCompact_jid_end [OF L recv r] MakeUserLoginID_ParseUserLoginID)
qed

text \<open>Avatar identifiers, of users and groups as well as of communities, are parsed
  back to the target, the avatar ID, the community flag and the login.\<close>

theorem avatar_media_id_roundtrip:
  assumes L: "jid_lib_ok L"
    and target: "media_jid (target\<lparr>Device := 0\<rparr>)" "fits L (target\<lparr>Device := 0\<rparr>)"
    and recv: "media_jid (ParseUserLoginID receiver 0)" "fits L (ParseUserLoginID receiver 0)"
    and len: "length i < 256"
  shows "\<exists>m. MakeAvatarMediaID L target i receiver community = Ok m \<and>
    ParseMediaID L m = Ok \<lparr>Message = None,
      Avatar = Some \<lparr>TargetJID = target\<lparr>Device := 0\<rparr>, AvatarID = i, Community = community\<rparr>,
      UserLogin = receiver\<rparr>"
  using assms by (rule MakeAvatarMediaID_ParseMediaID)

theorem avatar_media_id_roundtrip_witness:
  "\<exists>m. MakeAvatarMediaID sample_jid_lib sample_group ''1699'' ''358'' True = Ok m \<and>
    ParseMediaID sample_jid_lib m = Ok \<lparr>Message = None,
      Avatar = Some \<lparr>TargetJID = sample_group\<lparr>Device := 0\<rparr>, AvatarID = ''1699'', Community = True\<rparr>,
      UserLogin = ''358''\<rparr>"
  by (rule avatar_media_id_roundtrip) (simp_all add: sample_jid_lib_ok sample_media_jids)

text \<open>The compact form of a JID panics exactly for a phone-number JID that has a device
  (its second byte is assigned in a slice of length one); no identifier is ever made from such
  a JID, so making media and avatar identifiers never panics.\<close>

theorem compact_device_panic:
  assumes "jid_lib_ok L"
  shows "(compactJID L j = Panic \<longleftrightarrow>
      Server j = DefaultUserServer \<and> parse_uint64 (User j) \<noteq> None \<and> Device j \<noteq> 0) \<and>
    MakeMediaID L info idOverride receiver \<noteq> Panic \<and>
    MakeAvatarMediaID L target i receiver community \<noteq> Panic"
proof -
  have "compactJID L (to_non_ad L k) \<noteq> Panic" for k
    using to_non_ad_compact [OF assms, of k] by auto
  moreover have "compactJID L (ParseUserLoginID receiver 0) \<noteq> Panic"
    using ParseUserLoginID_compact [of L receiver] by auto
  ultimately show ?thesis
    by (auto simp: compactJID_def slice_set_def MakeMediaID_def MakeAvatarMediaID_def Let_def outcome_simps
        split: option.splits)
qed

theorem compact_device_panic_witness:
  "compactJID sample_jid_lib sample_user = Panic \<and> MakeMediaID sample_jid_lib sample_info [] ''358'' \<noteq> Panic"
proof -
  have "Server sample_user = DefaultUserServer \<and> parse_uint64 (User sample_user) \<noteq> None \<and> Device sample_user \<noteq> 0"
    by (simp add: sample_user_def parse_uint64_def is_digit_def decimal_value_def digit_value_def)
  then show ?thesis using compact_device_panic [OF sample_jid_lib_ok, of sample_user] by blast
qed

text \<open>Parsing a media identifier that comes from outside never panics unless it is
  empty, and an identifier in the old format (no type byte, its first byte a length of at most
  127) means the same as with the message type byte put in front.\<close>

theorem parse_media_id_total:
  "(ParseMediaID L m = Panic \<longleftrightarrow> m = []) \<and>
   (\<forall>b r. m = b # r \<and> \<not> 127 < b \<longrightarrow> ParseMediaID L m = ParseMediaID L (mediaIDTypeMessage # m))"
proof
  have "ParseMediaID_message L x \<noteq> Panic" for x
    by (auto simp: ParseMediaID_message_def outcome_simps readCompact_total)
  moreover have "ParseMediaID_avatar L c x \<noteq> Panic" for c x
    by (auto simp: ParseMediaID_avatar_def outcome_simps readCompact_total)
  ultimately show "ParseMediaID L m = Panic \<longleftrightarrow> m = []"
    by (auto simp: ParseMediaID_def Let_def split: list.splits)
  show "\<forall>b r. m = b # r \<and> \<not> 127 < b \<longrightarrow> ParseMediaID L m = ParseMediaID L (mediaIDTypeMessage # m)"
    by (auto simp: ParseMediaID_def mediaIDTypeMessage_def)
qed

theorem parse_media_id_total_witness:
  "ParseMediaID sample_jid_lib [3, 0] = ParseMediaID sample_jid_lib [255, 3, 0]
   \<and> ParseMediaID sample_jid_lib [255] \<noteq> Panic"
  using parse_media_id_total [of sample_jid_lib "[3, 0]"] parse_media_id_total [of sample_jid_lib "[255]"]
  by (simp add: mediaIDTypeMessage_def)

end
