(* ===== verification/Tables.thy ===== *)
theory Tables
  imports Prelude
begin

text \<open>
  Keyed tables. A table is the list of its rows, its primary key a function of the row; the
  statements the code uses are insertion with a conflict clause, deletion and selection.
  The contract that the components above the database rely on is the locale
  \<open>upsert_store\<close>: what a lookup returns after a put or a deletion, for a store whose
  put merges the new value with the old one. Its extension \<open>idem_upsert_store\<close> adds
  that merging the same value again changes nothing.
\<close>

section \<open>Rows with a primary key\<close>

definition tbl_lookup :: "('r \<Rightarrow> 'k) \<Rightarrow> 'r list \<Rightarrow> 'k \<Rightarrow> 'r option" where
  "tbl_lookup key rows k = find (\<lambda>r. key r = k) rows"

text \<open>\<open>INSERT ... ON CONFLICT (key) DO UPDATE\<close>: \<open>upd old new\<close> is the updated row.\<close>

definition tbl_upsert :: "('r \<Rightarrow> 'k) \<Rightarrow> ('r \<Rightarrow> 'r \<Rightarrow> 'r) \<Rightarrow> 'r \<Rightarrow> 'r list \<Rightarrow> 'r list" where
  "tbl_upsert key upd r rows =
     (if tbl_lookup key rows (key r) = None then rows @ [r]
      else map (\<lambda>x. if key x = key r then upd x r else x) rows)"

definition tbl_delete :: "('r \<Rightarrow> bool) \<Rightarrow> 'r list \<Rightarrow> 'r list" where
  "tbl_delete P rows = filter (\<lambda>r. \<not> P r) rows"

definition tbl_keys_ok :: "('r \<Rightarrow> 'k) \<Rightarrow> 'r list \<Rightarrow> bool" where
  "tbl_keys_ok key rows = distinct (map key rows)"

named_theorems table_simps

lemma tbl_lookup_None: "tbl_lookup key rows k = None \<longleftrightarrow> k \<notin> key ` set rows"
  by (auto simp: tbl_lookup_def find_None_iff)

lemma tbl_lookup_SomeD: "tbl_lookup key rows k = Some r \<Longrightarrow> r \<in> set rows \<and> key r = k"
  by (auto simp: tbl_lookup_def find_Some_iff)

lemma tbl_lookup_Nil [simp]: "tbl_lookup key [] k = None"
  by (simp add: tbl_lookup_def)

lemma tbl_lookup_Cons: "tbl_lookup key (r # rows) k = (if key r = k then Some r else tbl_lookup key rows k)"
  by (simp add: tbl_lookup_def)

lemma tbl_lookup_append:
  "tbl_lookup key (xs @ ys) k = (case tbl_lookup key xs k of None \<Rightarrow> tbl_lookup key ys k | Some r \<Rightarrow> Some r)"
  by (induction xs) (auto simp: tbl_lookup_Cons)

lemma tbl_lookup_mem:
  "tbl_keys_ok key rows \<Longrightarrow> r \<in> set rows \<Longrightarrow> tbl_lookup key rows (key r) = Some r"
  by (induction rows) (auto simp: tbl_lookup_Cons tbl_keys_ok_def image_iff)

lemma tbl_lookup_map_same:
  "(\<And>x. key (f x) = key x) \<Longrightarrow> tbl_lookup key (map f rows) k = map_option f (tbl_lookup key rows k)"
  by (induction rows) (auto simp: tbl_lookup_Cons)

lemma tbl_lookup_upsert [table_simps]:
  assumes "\<And>x y. key x = key y \<Longrightarrow> key (upd x y) = key y"
  shows "tbl_lookup key (tbl_upsert key upd r rows) k =
    (if k = key r then Some (case tbl_lookup key rows k of None \<Rightarrow> r | Some x \<Rightarrow> upd x r)
     else tbl_lookup key rows k)"
proof -
  have k: "key (if key x = key r then upd x r else x) = key x" for x using assms by auto
  show ?thesis
    by (cases "tbl_lookup key rows k")
      (auto simp: tbl_upsert_def tbl_lookup_append tbl_lookup_Cons
        tbl_lookup_map_same [where key = key, OF k] dest: tbl_lookup_SomeD)
qed

lemma tbl_keys_ok_upsert:
  assumes "\<And>x y. key x = key y \<Longrightarrow> key (upd x y) = key y" and "tbl_keys_ok key rows"
  shows "tbl_keys_ok key (tbl_upsert key upd r rows)"
proof -
  have "map key (map (\<lambda>x. if key x = key r then upd x r else x) rows) = map key rows"
    using assms(1) by (auto simp: comp_def)
  with assms(2) show ?thesis
    by (auto simp: tbl_keys_ok_def tbl_upsert_def tbl_lookup_None simp del: map_map)
qed

lemma tbl_keys_ok_delete: "tbl_keys_ok key rows \<Longrightarrow> tbl_keys_ok key (tbl_delete P rows)"
  by (simp add: tbl_keys_ok_def tbl_delete_def distinct_map_filter)

lemma tbl_lookup_delete_key [table_simps]:
  "tbl_lookup key (tbl_delete (\<lambda>r. key r = k') rows) k = (if k = k' then None else tbl_lookup key rows k)"
  by (induction rows) (auto simp: tbl_lookup_Cons tbl_delete_def)

lemma set_tbl_delete [simp]: "set (tbl_delete P rows) = {r \<in> set rows. \<not> P r}"
  by (auto simp: tbl_delete_def)

section \<open>The contract of a keyed store\<close>

locale upsert_store =
  fixes inv :: "'s \<Rightarrow> bool"
    and look :: "'s \<Rightarrow> 'k \<Rightarrow> 'v option"
    and key :: "'v \<Rightarrow> 'k"
    and merge :: "'v option \<Rightarrow> 'v \<Rightarrow> 'v"
    and put :: "'v \<Rightarrow> 's \<Rightarrow> 's"
    and del :: "'k \<Rightarrow> 's \<Rightarrow> 's"
  assumes look_put: "inv s \<Longrightarrow> look (put v s) k = (if k = key v then Some (merge (look s k) v) else look s k)"
    and look_del: "inv s \<Longrightarrow> look (del k' s) k = (if k = k' then None else look s k)"
    and inv_put: "inv s \<Longrightarrow> inv (put v s)"
    and inv_del: "inv s \<Longrightarrow> inv (del k s)"
begin

lemmas store_laws = look_put look_del inv_put inv_del

text \<open>A put is visible, touches no other key, and puts of different keys commute.\<close>

lemma look_put_same: "inv s \<Longrightarrow> look (put v s) (key v) = Some (merge (look s (key v)) v)"
  by (simp add: store_laws)

lemma look_put_other: "inv s \<Longrightarrow> k \<noteq> key v \<Longrightarrow> look (put v s) k = look s k"
  by (simp add: store_laws)

lemma put_commute:
  "inv s \<Longrightarrow> key v \<noteq> key w \<Longrightarrow> look (put v (put w s)) k = look (put w (put v s)) k"
  by (simp add: store_laws)

lemma put_after_del: "inv s \<Longrightarrow> look (put v (del (key v) s)) (key v) = Some (merge None v)"
  by (simp add: store_laws)

lemma inv_fold_put: "inv s \<Longrightarrow> inv (fold put vs s)"
  by (induction vs arbitrary: s) (simp_all add: inv_put)

text \<open>After a batch of puts a key holds the merge of the values written to it, in order.\<close>

lemma look_fold_put:
  "inv s \<Longrightarrow> look (fold put vs s) k =
     fold (\<lambda>v acc. Some (merge acc v)) (filter (\<lambda>v. key v = k) vs) (look s k)"
  by (induction vs arbitrary: s) (auto simp: store_laws)

lemma look_fold_put_other: "inv s \<Longrightarrow> k \<notin> key ` set vs \<Longrightarrow> look (fold put vs s) k = look s k"
  by (induction vs arbitrary: s) (auto simp: store_laws)

lemma look_fold_put_Some: "inv s \<Longrightarrow> k \<in> key ` set vs \<Longrightarrow> look (fold put vs s) k \<noteq> None"
proof (induction vs arbitrary: s)
  case (Cons v vs)
  then show ?case
    by (cases "k \<in> key ` set vs") (auto simp: look_fold_put_other store_laws)
qed simp

end

locale idem_upsert_store = upsert_store +
  assumes merge_idem: "merge (Some (merge o' v)) v = merge o' v"
begin

text \<open>Delivering the same value twice is the same as delivering it once.\<close>

lemma put_twice: "inv s \<Longrightarrow> look (put v (put v s)) k = look (put v s) k"
  by (simp add: store_laws merge_idem)

end

section \<open>Rows ordered by time and selected by range\<close>

text \<open>What \<open>ORDER BY timestamp DESC\<close> promises; ties come in any order.\<close>

definition order_desc_ok :: "('r \<Rightarrow> int) \<Rightarrow> ('r list \<Rightarrow> 'r list) \<Rightarrow> bool" where
  "order_desc_ok ts order \<longleftrightarrow>
     (\<forall>xs. mset (order xs) = mset xs \<and> sorted_wrt (\<lambda>a b. ts b \<le> ts a) (order xs))"

definition stable_desc :: "('r \<Rightarrow> int) \<Rightarrow> 'r list \<Rightarrow> 'r list" where
  "stable_desc ts xs = sort_key (\<lambda>r. - ts r) xs"

lemma stable_desc_ok: "order_desc_ok ts (stable_desc ts)"
proof -
  have "sorted_wrt (\<lambda>a b. ts b \<le> ts a) (sort_key (\<lambda>r. - ts r) xs)" for xs
    using sorted_sort_key [of "\<lambda>r. - ts r" xs] by (simp add: sorted_map)
  then show ?thesis by (simp add: order_desc_ok_def stable_desc_def)
qed

lemma order_desc_set: "order_desc_ok ts order \<Longrightarrow> set (order xs) = set xs"
  by (metis order_desc_ok_def mset_eq_setD)

lemma order_desc_length: "order_desc_ok ts order \<Longrightarrow> length (order xs) = length xs"
  by (metis order_desc_ok_def size_mset)

lemma order_desc_sorted: "order_desc_ok ts order \<Longrightarrow> sorted_wrt (\<lambda>a b. ts b \<le> ts a) (order xs)"
  by (simp add: order_desc_ok_def)

text \<open>
  The contract between a client that pages through rows by time and the store: selection
  returns exactly the rows of a time range, newest first, and removal deletes a range. The
  lemmas say what a client that removes the range of a page can still see afterwards.
\<close>

locale range_store =
  fixes rows :: "'s \<Rightarrow> 'r set"
    and ts :: "'r \<Rightarrow> int"
    and select :: "'s \<Rightarrow> int option \<Rightarrow> int option \<Rightarrow> 'r list"
    and remove :: "int \<Rightarrow> int \<Rightarrow> 's \<Rightarrow> 's"
  assumes select_set: "set (select s lo hi) =
      {r \<in> rows s. (case lo of None \<Rightarrow> True | Some l \<Rightarrow> l \<le> ts r) \<and> (case hi of None \<Rightarrow> True | Some h \<Rightarrow> ts r \<le> h)}"
    and select_sorted: "sorted_wrt (\<lambda>a b. ts b \<le> ts a) (select s lo hi)"
    and rows_remove: "rows (remove hi' lo' s) = {r \<in> rows s. \<not> (lo' \<le> ts r \<and> ts r \<le> hi')}"
begin

lemma remove_not_in_range:
  "r \<in> rows (remove newest oldest s) \<Longrightarrow> ts r < oldest \<or> newest < ts r"
  by (auto simp: rows_remove)

text \<open>The next page, asked for up to the oldest time of the removed range, has older rows only.\<close>

lemma next_page_older:
  "r \<in> set (select (remove newest oldest s) lo (Some oldest)) \<Longrightarrow> oldest \<le> newest \<Longrightarrow> ts r < oldest"
  by (auto simp: select_set rows_remove)

text \<open>A row of the removed range is in no later page, whatever is asked for.\<close>

lemma removed_never_selected:
  "oldest \<le> ts r \<Longrightarrow> ts r \<le> newest \<Longrightarrow> r \<notin> set (select (remove newest oldest s) lo hi)"
  by (auto simp: select_set rows_remove)

lemma older_rows_kept:
  "r \<in> rows s \<Longrightarrow> ts r < oldest \<Longrightarrow> r \<in> set (select (remove newest oldest s) None (Some oldest))"
  by (auto simp: select_set rows_remove)

lemma select_first_newest: "select s lo hi = r # rs \<Longrightarrow> r' \<in> set rs \<Longrightarrow> ts r' \<le> ts r"
  using select_sorted [of s lo hi] by auto

end

end
