(* ===== verification/Transitions.thy ===== *)
theory Transitions
  imports Main
begin

text \<open>
  The interfaces that the step relations of the bridge share: a system with an invariant, a
  system that implements a simpler one, and a round that empties something. Each component with
  a step relation interprets them on it.
\<close>

section \<open>Systems with an invariant\<close>

locale invariant_system =
  fixes init :: "'s \<Rightarrow> bool" and step :: "'s \<Rightarrow> 's \<Rightarrow> bool" and inv :: "'s \<Rightarrow> bool"
  assumes initially: "init s \<Longrightarrow> inv s"
    and preserved: "step s t \<Longrightarrow> inv s \<Longrightarrow> inv t"
begin

lemma preserved_steps: "step\<^sup>*\<^sup>* s t \<Longrightarrow> inv s \<Longrightarrow> inv t"
  by (induction rule: rtranclp_induct) (auto dest: preserved)

lemma reached: "init s \<Longrightarrow> step\<^sup>*\<^sup>* s t \<Longrightarrow> inv t"
  using initially preserved_steps by blast

text \<open>A relation that holds over every step from a state with the invariant holds over every run.\<close>

lemma run_relates:
  assumes "step\<^sup>*\<^sup>* s t" and "inv s" and "\<And>x. R x x" and "\<And>x y z. R x y \<Longrightarrow> R y z \<Longrightarrow> R x z"
    and "\<And>x y. inv x \<Longrightarrow> step x y \<Longrightarrow> R x y"
  shows "R s t"
  using assms(1)
proof (induction rule: rtranclp_induct)
  case (step y z)
  with preserved_steps [OF step(1) assms(2)] assms(4,5) show ?case by blast
qed (rule assms(3))

end

section \<open>Systems that implement another\<close>

text \<open>A step of the detailed system is any number of steps of the abstract one, seen through \<open>abs\<close>.\<close>

locale refined_system = invariant_system init step inv
  for init :: "'s \<Rightarrow> bool" and step :: "'s \<Rightarrow> 's \<Rightarrow> bool" and inv :: "'s \<Rightarrow> bool" +
  fixes abs :: "'s \<Rightarrow> 'a" and ainit :: "'a \<Rightarrow> bool" and astep :: "'a \<Rightarrow> 'a \<Rightarrow> bool"
  assumes abs_initially: "init s \<Longrightarrow> ainit (abs s)"
    and abs_step: "inv s \<Longrightarrow> step s t \<Longrightarrow> astep\<^sup>*\<^sup>* (abs s) (abs t)"
begin

lemma abs_steps:
  assumes "step\<^sup>*\<^sup>* s t" and "inv s"
  shows "astep\<^sup>*\<^sup>* (abs s) (abs t)"
  using run_relates [OF assms, where R = "\<lambda>s t. astep\<^sup>*\<^sup>* (abs s) (abs t)"] abs_step by (meson rtranclp.rtrancl_refl rtranclp_trans)

lemma abs_reached: "init s \<Longrightarrow> step\<^sup>*\<^sup>* s t \<Longrightarrow> \<exists>a. ainit a \<and> astep\<^sup>*\<^sup>* a (abs t)"
  using initially abs_initially abs_steps by blast

text \<open>An invariant of the abstract system holds of the detailed one.\<close>

lemma abs_invariant:
  assumes "step\<^sup>*\<^sup>* s t" and "inv s" and "I (abs s)" and "\<And>a b. astep a b \<Longrightarrow> I a \<Longrightarrow> I b"
  shows "I (abs t)"
  using abs_steps [OF assms(1,2)] assms(3)
  by (induction rule: rtranclp_induct) (auto dest: assms(4))

end

section \<open>Rounds that empty something\<close>

locale draining_round =
  fixes round :: "'s \<Rightarrow> 's" and ok :: "'s \<Rightarrow> bool" and size :: "'s \<Rightarrow> nat"
  assumes shrinks: "ok s \<Longrightarrow> size s = Suc n \<Longrightarrow> ok (round s) \<and> size (round s) = n"
begin

lemma drained: "ok s \<Longrightarrow> size s = n \<Longrightarrow> ok ((round ^^ n) s) \<and> size ((round ^^ n) s) = 0"
proof (induction n arbitrary: s)
  case (Suc n)
  from shrinks [OF Suc.prems] Suc.IH [of "round s"] show ?case by (simp only: funpow_Suc_right comp_apply)
qed simp

text \<open>On the way, the state after \<open>k\<close> rounds has \<open>k\<close> less.\<close>

lemma drained_by: "ok s \<Longrightarrow> k \<le> size s \<Longrightarrow> ok ((round ^^ k) s) \<and> size ((round ^^ k) s) = size s - k"
proof (induction k)
  case (Suc k)
  then have k: "ok ((round ^^ k) s)" "size ((round ^^ k) s) = Suc (size s - Suc k)" by auto
  from shrinks [OF k] show ?case by simp
qed simp

end

end
