(* ===== verification/WaDb.thy ===== *)
theory WaDb
  imports MediaId Tables Transitions
begin

text \<open>
  The bridge's own database, package \<open>pkg/connector/wadb\<close>: the six tables of
  \<open>upgrades/00-latest-schema.sql\<close> as lists of rows and the queries of
  \<open>message.go\<close>, \<open>conversation.go\<close>, \<open>polloption.go\<close>,
  \<open>mediarequest.go\<close>, \<open>hsnotif.go\<close> and \<open>avatarcache.go\<close> as operations on
  them, their primary keys, conflict clauses, cascades and unique constraints included. A
  JID column holds the JID itself. A statement that breaks a constraint inside this database
  is an error value; the foreign keys into the framework's tables and failures of the database
  connection are outside the model. The order of rows with equal timestamps is up to the
  database: the sorting function is an argument of the queries.
\<close>

section \<open>Rows and the database state\<close>

record hs_row =
  hs_bridge :: string
  hs_login :: string
  hs_chat :: jid
  hs_sender :: jid
  hs_mid :: string
  hs_ts :: int
  hs_data :: "byte list"
  hs_inserted :: int

record conv_row =
  cr_bridge :: string
  cr_login :: string
  cr_chat :: jid
  cr_last :: "int option"
  cr_archived :: "bool option"
  cr_pinned :: "bool option"
  cr_mute_end :: "int option"
  cr_end_type :: "int option"
  cr_eph_exp :: "32 word option"
  cr_eph_ts :: "int option"
  cr_unread :: "bool option"
  cr_unread_count :: "32 word option"
  cr_synced :: "int option"

datatype MediaBackfillRequestStatus =
    MediaBackfillRequestStatusNotRequested
  | MediaBackfillRequestStatusRequested
  | MediaBackfillRequestStatusRequestFailed
  | MediaBackfillRequestStatusRequestSkipped

text \<open>The number of a status, as it is stored. Statuses are ordered by it: the bookkeeping of a request
  goes up.\<close>

fun status_number :: "MediaBackfillRequestStatus \<Rightarrow> int" where
  "status_number MediaBackfillRequestStatusNotRequested = 0"
| "status_number MediaBackfillRequestStatusRequested = 1"
| "status_number MediaBackfillRequestStatusRequestFailed = 2"
| "status_number MediaBackfillRequestStatusRequestSkipped = 3"

lemma status_number_inject [simp]: "status_number s = status_number t \<longleftrightarrow> s = t"
  by (cases s; cases t) simp_all

instantiation MediaBackfillRequestStatus :: linorder
begin

definition less_eq_MediaBackfillRequestStatus :: "MediaBackfillRequestStatus \<Rightarrow> MediaBackfillRequestStatus \<Rightarrow> bool" where
  "s \<le> t \<longleftrightarrow> status_number s \<le> status_number t"

definition less_MediaBackfillRequestStatus :: "MediaBackfillRequestStatus \<Rightarrow> MediaBackfillRequestStatus \<Rightarrow> bool" where
  "s < t \<longleftrightarrow> status_number s < status_number t"

instance
  by standard (auto simp: less_eq_MediaBackfillRequestStatus_def less_MediaBackfillRequestStatus_def)

end

record PortalKey =
  pk_ID :: string
  pk_Receiver :: string

record MediaRequest =
  mr_BridgeID :: string
  mr_UserLoginID :: string
  mr_MessageID :: string
  mr_PortalKey :: PortalKey
  mr_MediaKey :: "byte list"
  mr_Status :: MediaBackfillRequestStatus
  mr_Error :: string

record poll_row =
  po_bridge :: string
  po_msg :: string
  po_id :: string
  po_hash :: "byte list"

record notif_row =
  nr_rowid :: int
  nr_bridge :: string
  nr_login :: string
  nr_data :: "byte list"

record AvatarCacheEntry =
  ac_EntityJID :: jid
  ac_AvatarID :: string
  ac_DirectPath :: string
  ac_Expiry :: int
  ac_Gone :: bool

record wadb =
  conversations :: "conv_row list"
  messages :: "hs_row list"
  poll_options :: "poll_row list"
  media_requests :: "MediaRequest list"
  notifications :: "notif_row list"
  next_rowid :: int
  avatar_cache :: "AvatarCacheEntry list"

definition empty_wadb :: wadb where
  "empty_wadb = \<lparr>conversations = [], messages = [], poll_options = [], media_requests = [],
     notifications = [], next_rowid = 1, avatar_cache = []\<rparr>"

section \<open>Conversations\<close>

record Conversation =
  c_BridgeID :: string
  c_UserLoginID :: string
  c_ChatJID :: jid
  c_LastMessageTimestamp :: gotime
  c_Archived :: "bool option"
  c_Pinned :: "bool option"
  c_MuteEndTime :: gotime
  c_EndOfHistoryTransferType :: "int option"
  c_EphemeralExpiration :: "32 word option"
  c_EphemeralSettingTimestamp :: "int option"
  c_MarkedAsUnread :: "bool option"
  c_UnreadCount :: "32 word option"

text \<open>The fields of the history sync protobuf's conversation that are stored.\<close>

record HSConversation =
  hc_ID :: string
  hc_Archived :: "bool option"
  hc_Pinned :: "32 word option"
  hc_MuteEndTime :: "64 word option"
  hc_LastMsgTimestamp :: "64 word option"
  hc_EndOfHistoryTransferType :: "int option"
  hc_EphemeralExpiration :: "32 word option"
  hc_EphemeralSettingTimestamp :: "int option"
  hc_MarkedAsUnread :: "bool option"
  hc_UnreadCount :: "32 word option"

definition parseHistoryTime :: "64 word option \<Rightarrow> gotime" where
  "parseHistoryTime ts =
     (case ts of None \<Rightarrow> 0 | Some t \<Rightarrow> if t = 0 then 0 else time_unix (sint t))"

definition NewConversation :: "string \<Rightarrow> jid \<Rightarrow> HSConversation \<Rightarrow> gotime \<Rightarrow> Conversation" where
  "NewConversation loginID chatJID conv mostRecentMessage =
     (let pinned = map_option (\<lambda>p. 0 < p) (hc_Pinned conv);
          t = parseHistoryTime (hc_LastMsgTimestamp conv);
          lastMessageTS = (if t = 0 then mostRecentMessage else t)
      in \<lparr>c_BridgeID = [], c_UserLoginID = loginID, c_ChatJID = chatJID,
          c_LastMessageTimestamp = lastMessageTS, c_Archived = hc_Archived conv, c_Pinned = pinned,
          c_MuteEndTime = parseHistoryTime (hc_MuteEndTime conv),
          c_EndOfHistoryTransferType = hc_EndOfHistoryTransferType conv,
          c_EphemeralExpiration = hc_EphemeralExpiration conv,
          c_EphemeralSettingTimestamp = hc_EphemeralSettingTimestamp conv,
          c_MarkedAsUnread = hc_MarkedAsUnread conv, c_UnreadCount = hc_UnreadCount conv\<rparr>)"

definition null_time :: "gotime \<Rightarrow> int option" where
  "null_time t = (if t = 0 then None else Some (go_unix t))"

definition Conversation_sqlVariables :: "Conversation \<Rightarrow> conv_row" where
  "Conversation_sqlVariables c =
     \<lparr>cr_bridge = c_BridgeID c, cr_login = c_UserLoginID c, cr_chat = c_ChatJID c,
      cr_last = null_time (c_LastMessageTimestamp c), cr_archived = c_Archived c, cr_pinned = c_Pinned c,
      cr_mute_end = null_time (c_MuteEndTime c), cr_end_type = c_EndOfHistoryTransferType c,
      cr_eph_exp = c_EphemeralExpiration c, cr_eph_ts = c_EphemeralSettingTimestamp c,
      cr_unread = c_MarkedAsUnread c, cr_unread_count = c_UnreadCount c, cr_synced = None\<rparr>"

definition scan_time :: "int option \<Rightarrow> gotime" where
  "scan_time v = (let n = (case v of None \<Rightarrow> 0 | Some n \<Rightarrow> n) in if n \<noteq> 0 then time_unix n else 0)"

definition Conversation_Scan :: "conv_row \<Rightarrow> Conversation" where
  "Conversation_Scan r =
     \<lparr>c_BridgeID = cr_bridge r, c_UserLoginID = cr_login r, c_ChatJID = cr_chat r,
      c_LastMessageTimestamp = scan_time (cr_last r), c_Archived = cr_archived r, c_Pinned = cr_pinned r,
      c_MuteEndTime = scan_time (cr_mute_end r), c_EndOfHistoryTransferType = cr_end_type r,
      c_EphemeralExpiration = cr_eph_exp r, c_EphemeralSettingTimestamp = cr_eph_ts r,
      c_MarkedAsUnread = cr_unread r, c_UnreadCount = cr_unread_count r\<rparr>"

definition coalesce :: "'a option \<Rightarrow> 'a option \<Rightarrow> 'a option" where
  "coalesce a b = (case a of None \<Rightarrow> b | Some x \<Rightarrow> Some x)"

text \<open>The conflict clause of the upsert: a later last-message time wins, other columns are
  kept unless the new row has a value, and the synced marker stays.\<close>

definition conv_upsert_row :: "conv_row \<Rightarrow> conv_row \<Rightarrow> conv_row" where
  "conv_upsert_row old excluded = old
     \<lparr>cr_last := (case cr_last old of
                     None \<Rightarrow> cr_last excluded
                   | Some o' \<Rightarrow> (case cr_last excluded of
                        None \<Rightarrow> Some o' | Some e \<Rightarrow> if e > o' then Some e else Some o')),
      cr_archived := coalesce (cr_archived excluded) (cr_archived old),
      cr_pinned := coalesce (cr_pinned excluded) (cr_pinned old),
      cr_mute_end := coalesce (cr_mute_end excluded) (cr_mute_end old),
      cr_end_type := coalesce (cr_end_type excluded) (cr_end_type old),
      cr_eph_exp := coalesce (cr_eph_exp excluded) (cr_eph_exp old),
      cr_eph_ts := coalesce (cr_eph_ts excluded) (cr_eph_ts old),
      cr_unread := coalesce (cr_unread excluded) (cr_unread old),
      cr_unread_count := coalesce (cr_unread_count excluded) (cr_unread_count old)\<rparr>"

definition conv_key :: "conv_row \<Rightarrow> string \<times> string \<times> jid" where
  "conv_key r = (cr_bridge r, cr_login r, cr_chat r)"

definition Conversation_Put :: "string \<Rightarrow> Conversation \<Rightarrow> wadb \<Rightarrow> wadb" where
  "Conversation_Put bridge conv db = db\<lparr>conversations :=
     tbl_upsert conv_key conv_upsert_row (Conversation_sqlVariables (conv\<lparr>c_BridgeID := bridge\<rparr>)) (conversations db)\<rparr>"

definition limit_rows :: "int \<Rightarrow> 'a list \<Rightarrow> 'a list" where
  "limit_rows limit rows = (if limit < 0 then rows else take (nat limit) rows)"

definition Conversation_GetRecent ::
  "(conv_row list \<Rightarrow> conv_row list) \<Rightarrow> string \<Rightarrow> string \<Rightarrow> int \<Rightarrow> int \<Rightarrow> wadb \<Rightarrow> Conversation list" where
  "Conversation_GetRecent order_desc bridge loginID limit notSyncedAfter db =
     map Conversation_Scan (limit_rows limit (order_desc (filter (\<lambda>r.
       cr_bridge r = bridge \<and> cr_login r = loginID \<and>
       (case cr_synced r of None \<Rightarrow> True | Some s \<Rightarrow> s < notSyncedAfter)) (conversations db))))"

definition Conversation_MarkSynced :: "string \<Rightarrow> string \<Rightarrow> jid \<Rightarrow> int \<Rightarrow> wadb \<Rightarrow> wadb" where
  "Conversation_MarkSynced bridge loginID chatJID loginTS db = db\<lparr>conversations :=
     map (\<lambda>r. if conv_key r = (bridge, loginID, chatJID) then r\<lparr>cr_synced := Some loginTS\<rparr> else r) (conversations db)\<rparr>"

definition Conversation_Get :: "string \<Rightarrow> string \<Rightarrow> jid \<Rightarrow> wadb \<Rightarrow> Conversation option" where
  "Conversation_Get bridge loginID chatJID db =
     map_option Conversation_Scan (tbl_lookup conv_key (conversations db) (bridge, loginID, chatJID))"

text \<open>Deleting a conversation deletes its messages: the foreign key cascades.\<close>

definition hs_conv :: "hs_row \<Rightarrow> string \<times> string \<times> jid" where
  "hs_conv r = (hs_bridge r, hs_login r, hs_chat r)"

definition Conversation_Delete :: "string \<Rightarrow> string \<Rightarrow> jid \<Rightarrow> wadb \<Rightarrow> wadb" where
  "Conversation_Delete bridge loginID chatJID db = db
     \<lparr>conversations := tbl_delete (\<lambda>r. conv_key r = (bridge, loginID, chatJID)) (conversations db),
      messages := tbl_delete (\<lambda>r. hs_conv r = (bridge, loginID, chatJID)) (messages db)\<rparr>"

definition Conversation_DeleteAll :: "string \<Rightarrow> string \<Rightarrow> wadb \<Rightarrow> wadb" where
  "Conversation_DeleteAll bridge loginID db = db
     \<lparr>conversations := tbl_delete (\<lambda>r. cr_bridge r = bridge \<and> cr_login r = loginID) (conversations db),
      messages := tbl_delete (\<lambda>r. hs_bridge r = bridge \<and> hs_login r = loginID) (messages db)\<rparr>"

section \<open>History sync messages\<close>

record HistorySyncMessageTuple =
  tup_Info :: MessageInfo
  tup_Message :: "byte list"

definition GetMassInsertValues :: "jid_lib \<Rightarrow> HistorySyncMessageTuple \<Rightarrow> jid \<times> string \<times> int \<times> byte list" where
  "GetMassInsertValues L t =
     (to_non_ad L (mi_Sender (tup_Info t)), mi_ID (tup_Info t), go_unix (mi_Timestamp (tup_Info t)), tup_Message t)"

definition hs_key :: "hs_row \<Rightarrow> string \<times> string \<times> jid \<times> jid \<times> string" where
  "hs_key r = (hs_bridge r, hs_login r, hs_chat r, hs_sender r, hs_mid r)"

definition hs_insert :: "hs_row \<Rightarrow> hs_row list \<Rightarrow> hs_row list" where
  "hs_insert r rows = tbl_upsert hs_key (\<lambda>old new. old) r rows"

definition hs_row_of :: "jid_lib \<Rightarrow> int \<Rightarrow> string \<Rightarrow> string \<Rightarrow> jid \<Rightarrow> HistorySyncMessageTuple \<Rightarrow> hs_row" where
  "hs_row_of L now bridge loginID chatJID t =
     (case GetMassInsertValues L t of (sender, mid, ts, data) \<Rightarrow>
        \<lparr>hs_bridge = bridge, hs_login = loginID, hs_chat = chatJID, hs_sender = sender, hs_mid = mid,
         hs_ts = ts, hs_data = data, hs_inserted = now\<rparr>)"

text \<open>
  One statement per chunk of 50; each fails when the conversation's row is missing (the
  foreign key), and the transaction keeps nothing of a failed call. \<open>chunk\<close> is
  \<open>exslices.Chunk\<close>.
\<close>

definition Message_PutChunk ::
  "jid_lib \<Rightarrow> int \<Rightarrow> string \<Rightarrow> string \<Rightarrow> jid \<Rightarrow> HistorySyncMessageTuple list \<Rightarrow> wadb \<Rightarrow> wadb outcome" where
  "Message_PutChunk L now bridge loginID chatJID c db =
     (if tbl_lookup conv_key (conversations db) (bridge, loginID, chatJID) = None
      then Fail (Err ''foreign key constraint failed'')
      else Ok (db\<lparr>messages := fold hs_insert (map (hs_row_of L now bridge loginID chatJID) c) (messages db)\<rparr>))"

definition Message_Put ::
  "jid_lib \<Rightarrow> (nat \<Rightarrow> HistorySyncMessageTuple list \<Rightarrow> HistorySyncMessageTuple list list) \<Rightarrow> int \<Rightarrow>
   string \<Rightarrow> string \<Rightarrow> jid \<Rightarrow> HistorySyncMessageTuple list \<Rightarrow> wadb \<Rightarrow> wadb outcome" where
  "Message_Put L chunk now bridge loginID chatJID tuples db =
     ofold (Message_PutChunk L now bridge loginID chatJID) (chunk 50 tuples) db"

definition in_range :: "int option \<Rightarrow> int option \<Rightarrow> int \<Rightarrow> bool" where
  "in_range startTS endTS ts \<longleftrightarrow>
     (case startTS of None \<Rightarrow> True | Some s \<Rightarrow> s \<le> ts) \<and> (case endTS of None \<Rightarrow> True | Some e \<Rightarrow> ts \<le> e)"

definition hs_select :: "string \<Rightarrow> string \<Rightarrow> jid \<Rightarrow> int option \<Rightarrow> int option \<Rightarrow> wadb \<Rightarrow> hs_row list" where
  "hs_select bridge loginID chatJID startTS endTS db =
     filter (\<lambda>r. hs_conv r = (bridge, loginID, chatJID) \<and> in_range startTS endTS (hs_ts r)) (messages db)"

definition scanWebMessageInfo :: "(byte list \<Rightarrow> gerror + 'm) \<Rightarrow> hs_row \<Rightarrow> 'm outcome" where
  "scanWebMessageInfo unmarshal r =
     (case unmarshal (hs_data r) of
        Inl e \<Rightarrow> Fail (Wrap ''failed to unmarshal message'' e)
      | Inr m \<Rightarrow> Ok m)"

definition Message_GetBetween ::
  "(byte list \<Rightarrow> gerror + 'm) \<Rightarrow> (hs_row list \<Rightarrow> hs_row list) \<Rightarrow> string \<Rightarrow> string \<Rightarrow> jid \<Rightarrow>
   gotime option \<Rightarrow> gotime option \<Rightarrow> int \<Rightarrow> wadb \<Rightarrow> 'm list outcome" where
  "Message_GetBetween unmarshal order_desc bridge loginID chatJID startTime endTime limit db =
     (let rows = order_desc (hs_select bridge loginID chatJID
                   (map_option go_unix startTime) (map_option go_unix endTime) db)
      in omap (scanWebMessageInfo unmarshal) (if 0 < limit then take (nat limit) rows else rows))"

definition Message_DeleteBetween :: "string \<Rightarrow> string \<Rightarrow> jid \<Rightarrow> int \<Rightarrow> int \<Rightarrow> wadb \<Rightarrow> wadb" where
  "Message_DeleteBetween bridge loginID chatJID before after db = db\<lparr>messages :=
     tbl_delete (\<lambda>r. hs_conv r = (bridge, loginID, chatJID) \<and> hs_ts r \<le> before \<and> hs_ts r \<ge> after) (messages db)\<rparr>"

definition Message_DeleteAll :: "string \<Rightarrow> string \<Rightarrow> wadb \<Rightarrow> wadb" where
  "Message_DeleteAll bridge loginID db = db\<lparr>messages :=
     tbl_delete (\<lambda>r. hs_bridge r = bridge \<and> hs_login r = loginID) (messages db)\<rparr>"

definition Message_DeleteAllInChat :: "string \<Rightarrow> string \<Rightarrow> jid \<Rightarrow> wadb \<Rightarrow> wadb" where
  "Message_DeleteAllInChat bridge loginID chatJID db = db\<lparr>messages :=
     tbl_delete (\<lambda>r. hs_conv r = (bridge, loginID, chatJID)) (messages db)\<rparr>"

definition ConversationHasMessages :: "string \<Rightarrow> string \<Rightarrow> jid \<Rightarrow> wadb \<Rightarrow> bool" where
  "ConversationHasMessages bridge loginID chatJID db =
     list_ex (\<lambda>r. hs_conv r = (bridge, loginID, chatJID)) (messages db)"

section \<open>Media backfill requests\<close>

definition mr_key :: "MediaRequest \<Rightarrow> string \<times> string \<times> string" where
  "mr_key r = (mr_BridgeID r, mr_UserLoginID r, mr_MessageID r)"

definition mr_upsert_row :: "MediaRequest \<Rightarrow> MediaRequest \<Rightarrow> MediaRequest" where
  "mr_upsert_row old excluded =
     old\<lparr>mr_MediaKey := mr_MediaKey excluded, mr_Status := mr_Status excluded, mr_Error := mr_Error excluded\<rparr>"

definition MediaRequest_Put :: "string \<Rightarrow> MediaRequest \<Rightarrow> wadb \<Rightarrow> wadb" where
  "MediaRequest_Put bridge mr db = db\<lparr>media_requests :=
     tbl_upsert mr_key mr_upsert_row (mr\<lparr>mr_BridgeID := bridge\<rparr>) (media_requests db)\<rparr>"

definition MediaRequest_Delete :: "string \<Rightarrow> string \<Rightarrow> string \<Rightarrow> wadb \<Rightarrow> wadb" where
  "MediaRequest_Delete bridge loginID messageID db = db\<lparr>media_requests :=
     tbl_delete (\<lambda>r. mr_key r = (bridge, loginID, messageID)) (media_requests db)\<rparr>"

definition MediaRequest_GetUnrequestedForUserLogin :: "string \<Rightarrow> string \<Rightarrow> wadb \<Rightarrow> MediaRequest list" where
  "MediaRequest_GetUnrequestedForUserLogin bridge loginID db =
     filter (\<lambda>r. mr_BridgeID r = bridge \<and> mr_UserLoginID r = loginID \<and>
       mr_Status r = MediaBackfillRequestStatusNotRequested) (media_requests db)"

section \<open>Poll options\<close>

definition poll_conflict :: "poll_row \<Rightarrow> poll_row \<Rightarrow> bool" where
  "poll_conflict a b \<longleftrightarrow> po_bridge a = po_bridge b \<and> po_msg a = po_msg b \<and>
     (po_id a = po_id b \<or> po_hash a = po_hash b)"

definition poll_insert :: "poll_row \<Rightarrow> poll_row list \<Rightarrow> poll_row list outcome" where
  "poll_insert r rows =
     (if length (po_hash r) \<noteq> 32 then Fail (Err ''check constraint failed'')
      else if list_ex (poll_conflict r) rows then Fail (Err ''unique constraint failed'')
      else Ok (rows @ [r]))"

text \<open>The Go map from hashes to identifiers is the list of its entries in iteration order.\<close>

definition PollOption_Put :: "string \<Rightarrow> string \<Rightarrow> (byte list \<times> string) list \<Rightarrow> wadb \<Rightarrow> wadb outcome" where
  "PollOption_Put bridge mxid opts db =
     (if opts = [] then Ok db
      else obind (ofold poll_insert
             (map (\<lambda>(hash, i). \<lparr>po_bridge = bridge, po_msg = mxid, po_id = i, po_hash = hash\<rparr>) opts) (poll_options db))
           (\<lambda>rows. Ok (db\<lparr>poll_options := rows\<rparr>)))"

definition scanPollOption :: "poll_row \<Rightarrow> (string \<times> byte list) outcome" where
  "scanPollOption r =
     (if length (po_hash r) \<noteq> 32 then Fail (Err (''invalid hash length: '' @ format_nat (length (po_hash r))))
      else Ok (po_id r, po_hash r))"

definition getPollOptions ::
  "string \<Rightarrow> string \<Rightarrow> (poll_row \<Rightarrow> bool) \<Rightarrow> (string \<times> byte list \<Rightarrow> 'k \<times> 'v) \<Rightarrow> wadb \<Rightarrow> ('k \<rightharpoonup> 'v) outcome" where
  "getPollOptions bridge mxid wanted getKeyValue db =
     obind (omap scanPollOption
              (filter (\<lambda>r. po_bridge r = bridge \<and> po_msg r = mxid \<and> wanted r) (poll_options db)))
       (\<lambda>os. Ok (foldl (\<lambda>m x. case getKeyValue x of (k, v) \<Rightarrow> m(k \<mapsto> v)) Map.empty os))"

definition PollOption_GetIDs :: "string \<Rightarrow> string \<Rightarrow> byte list list \<Rightarrow> wadb \<Rightarrow> (byte list \<rightharpoonup> string) outcome" where
  "PollOption_GetIDs bridge mxid hashes db =
     getPollOptions bridge mxid (\<lambda>r. po_hash r \<in> set hashes) (\<lambda>(i, h). (h, i)) db"

definition PollOption_GetHashes :: "string \<Rightarrow> string \<Rightarrow> string list \<Rightarrow> wadb \<Rightarrow> (string \<rightharpoonup> byte list) outcome" where
  "PollOption_GetHashes bridge mxid ids db =
     getPollOptions bridge mxid (\<lambda>r. po_id r \<in> set ids) (\<lambda>(i, h). (i, h)) db"

section \<open>Queued history sync notifications and the avatar cache\<close>

definition HSNotif_Put :: "('n \<Rightarrow> gerror + byte list) \<Rightarrow> string \<Rightarrow> string \<Rightarrow> 'n \<Rightarrow> wadb \<Rightarrow> wadb outcome" where
  "HSNotif_Put marshal bridge loginID notif db =
     obind (of_sum (marshal notif)) (\<lambda>bytes. Ok (db
       \<lparr>notifications := notifications db @
          [\<lparr>nr_rowid = next_rowid db, nr_bridge = bridge, nr_login = loginID, nr_data = bytes\<rparr>],
        next_rowid := next_rowid db + 1\<rparr>))"

definition HSNotif_GetNext ::
  "(byte list \<Rightarrow> gerror + 'n) \<Rightarrow> string \<Rightarrow> string \<Rightarrow> wadb \<Rightarrow> ('n \<times> int) option outcome" where
  "HSNotif_GetNext unmarshal bridge loginID db =
     (case filter (\<lambda>r. nr_bridge r = bridge \<and> nr_login r = loginID) (notifications db) of
        [] \<Rightarrow> Ok None
      | r # _ \<Rightarrow> obind (of_sum (unmarshal (nr_data r))) (\<lambda>n. Ok (Some (n, nr_rowid r))))"

definition HSNotif_Delete :: "int \<Rightarrow> wadb \<Rightarrow> wadb" where
  "HSNotif_Delete rowid db = db\<lparr>notifications := tbl_delete (\<lambda>r. nr_rowid r = rowid) (notifications db)\<rparr>"

definition ac_key :: "AvatarCacheEntry \<Rightarrow> jid \<times> string" where
  "ac_key e = (ac_EntityJID e, ac_AvatarID e)"

definition AvatarCache_Get :: "jid \<Rightarrow> string \<Rightarrow> wadb \<Rightarrow> AvatarCacheEntry option" where
  "AvatarCache_Get entityJID avatarID db = tbl_lookup ac_key (avatar_cache db) (entityJID, avatarID)"

definition AvatarCache_Put :: "AvatarCacheEntry \<Rightarrow> wadb \<Rightarrow> wadb" where
  "AvatarCache_Put entry db = db\<lparr>avatar_cache := tbl_upsert ac_key (\<lambda>old new. new) entry (avatar_cache db)\<rparr>"

section \<open>The tables as keyed stores\<close>

text \<open>Each upsert keeps the primary key of the row it updates.\<close>

lemma upsert_keys:
  "conv_key x = conv_key y \<Longrightarrow> conv_key (conv_upsert_row x y) = conv_key y"
  "mr_key a = mr_key b \<Longrightarrow> mr_key (mr_upsert_row a b) = mr_key b"
  by (simp_all add: conv_key_def conv_upsert_row_def mr_key_def mr_upsert_row_def)

lemma mr_upsert_idem: "mr_upsert_row (mr_upsert_row a b) b = mr_upsert_row a b"
  by (simp add: mr_upsert_row_def)

lemma coalesce_idem [simp]: "coalesce e (coalesce e x) = coalesce e x"
  by (simp add: coalesce_def split: option.splits)

lemma conv_upsert_idem: "conv_upsert_row (conv_upsert_row a b) b = conv_upsert_row a b"
  by (simp add: conv_upsert_row_def split: option.splits)

lemma conv_upsert_self: "conv_upsert_row r r = r"
  by (simp add: conv_upsert_row_def coalesce_def split: option.splits)

interpretation conv_tbl: idem_upsert_store "tbl_keys_ok conv_key" "tbl_lookup conv_key" conv_key
  "\<lambda>old r. case old of None \<Rightarrow> r | Some x \<Rightarrow> conv_upsert_row x r"
  "tbl_upsert conv_key conv_upsert_row" "\<lambda>k. tbl_delete (\<lambda>r. conv_key r = k)"
proof unfold_locales
  fix old v
  show "(case Some (case old of None \<Rightarrow> v | Some x \<Rightarrow> conv_upsert_row x v) of
      None \<Rightarrow> v | Some x \<Rightarrow> conv_upsert_row x v) = (case old of None \<Rightarrow> v | Some x \<Rightarrow> conv_upsert_row x v)"
    by (cases old) (simp_all add: conv_upsert_idem conv_upsert_self)
qed (simp_all add: table_simps upsert_keys tbl_keys_ok_upsert tbl_keys_ok_delete)

interpretation hs_tbl: idem_upsert_store "tbl_keys_ok hs_key" "tbl_lookup hs_key" hs_key
  "\<lambda>old r. case old of None \<Rightarrow> r | Some x \<Rightarrow> x"
  hs_insert "\<lambda>k. tbl_delete (\<lambda>r. hs_key r = k)"
  by unfold_locales
    (auto simp: hs_insert_def table_simps tbl_keys_ok_upsert tbl_keys_ok_delete split: option.splits)

interpretation mr_tbl: idem_upsert_store "tbl_keys_ok mr_key" "tbl_lookup mr_key" mr_key
  "\<lambda>old r. case old of None \<Rightarrow> r | Some x \<Rightarrow> mr_upsert_row x r"
  "tbl_upsert mr_key mr_upsert_row" "\<lambda>k. tbl_delete (\<lambda>r. mr_key r = k)"
proof unfold_locales
  fix old v
  show "(case Some (case old of None \<Rightarrow> v | Some x \<Rightarrow> mr_upsert_row x v) of
      None \<Rightarrow> v | Some x \<Rightarrow> mr_upsert_row x v) = (case old of None \<Rightarrow> v | Some x \<Rightarrow> mr_upsert_row x v)"
    by (cases old) (simp_all add: mr_upsert_idem, simp add: mr_upsert_row_def)
qed (simp_all add: table_simps upsert_keys tbl_keys_ok_upsert tbl_keys_ok_delete)

interpretation ac_tbl: idem_upsert_store "tbl_keys_ok ac_key" "tbl_lookup ac_key" ac_key
  "\<lambda>old r. r" "tbl_upsert ac_key (\<lambda>old new. new)" "\<lambda>k. tbl_delete (\<lambda>r. ac_key r = k)"
  by unfold_locales (auto simp: table_simps tbl_keys_ok_upsert tbl_keys_ok_delete split: option.splits)

section \<open>The message table as a store of time ranges\<close>

locale ordered_messages =
  fixes order_desc :: "hs_row list \<Rightarrow> hs_row list"
    and bridge :: string and loginID :: string and chatJID :: jid
  assumes order_desc: "order_desc_ok hs_ts order_desc"

sublocale ordered_messages \<subseteq> range_store
  "\<lambda>db. {r \<in> set (messages db). hs_conv r = (bridge, loginID, chatJID)}" hs_ts
  "\<lambda>db lo hi. order_desc (hs_select bridge loginID chatJID lo hi db)"
  "\<lambda>newest oldest. Message_DeleteBetween bridge loginID chatJID newest oldest"
  by unfold_locales
    (auto simp: order_desc_set [OF order_desc] order_desc_sorted [OF order_desc] hs_select_def in_range_def
      Message_DeleteBetween_def)

interpretation stable_messages: ordered_messages "stable_desc hs_ts" bridge loginID chatJID
  for bridge loginID chatJID
  by unfold_locales (rule stable_desc_ok)

section \<open>The integrity invariant and the steps of the database\<close>

definition wadb_ok :: "wadb \<Rightarrow> bool" where
  "wadb_ok db \<longleftrightarrow>
     tbl_keys_ok conv_key (conversations db) \<and> tbl_keys_ok hs_key (messages db) \<and>
     hs_conv ` set (messages db) \<subseteq> conv_key ` set (conversations db) \<and>
     sorted_wrt (\<lambda>a b. \<not> poll_conflict a b) (poll_options db) \<and>
     (\<forall>r \<in> set (poll_options db). length (po_hash r) = 32) \<and>
     tbl_keys_ok mr_key (media_requests db) \<and> tbl_keys_ok ac_key (avatar_cache db) \<and>
     tbl_keys_ok nr_rowid (notifications db) \<and> (\<forall>r \<in> set (notifications db). nr_rowid r < next_rowid db)"

inductive db_step :: "jid_lib \<Rightarrow> (nat \<Rightarrow> HistorySyncMessageTuple list \<Rightarrow> HistorySyncMessageTuple list list) \<Rightarrow>
    wadb \<Rightarrow> wadb \<Rightarrow> bool" for L chunk where
  conv_put: "db_step L chunk db (Conversation_Put b c db)"
| conv_synced: "db_step L chunk db (Conversation_MarkSynced b l j t db)"
| conv_delete: "db_step L chunk db (Conversation_Delete b l j db)"
| conv_delete_all: "db_step L chunk db (Conversation_DeleteAll b l db)"
| msg_put: "Message_Put L chunk now b l j ms db = Ok db' \<Longrightarrow> db_step L chunk db db'"
| msg_delete_between: "db_step L chunk db (Message_DeleteBetween b l j hi lo db)"
| msg_delete_all: "db_step L chunk db (Message_DeleteAll b l db)"
| msg_delete_chat: "db_step L chunk db (Message_DeleteAllInChat b l j db)"
| mr_put: "db_step L chunk db (MediaRequest_Put b r db)"
| mr_delete: "db_step L chunk db (MediaRequest_Delete b l m db)"
| poll_put: "PollOption_Put b m opts db = Ok db' \<Longrightarrow> db_step L chunk db db'"
| notif_put: "HSNotif_Put (marshal :: byte list \<Rightarrow> gerror + byte list) b l n db = Ok db' \<Longrightarrow> db_step L chunk db db'"
| notif_delete: "db_step L chunk db (HSNotif_Delete i db)"
| avatar_put: "db_step L chunk db (AvatarCache_Put e db)"

inductive_cases db_stepE: "db_step L chunk db db'"

lemmas wadb_op_defs = Conversation_Put_def Conversation_MarkSynced_def Conversation_Delete_def
  Conversation_DeleteAll_def Message_DeleteBetween_def Message_DeleteAll_def Message_DeleteAllInChat_def
  MediaRequest_Put_def MediaRequest_Delete_def HSNotif_Delete_def AvatarCache_Put_def

lemma conv_keys_upsert:
  "conv_key ` set (tbl_upsert conv_key conv_upsert_row r rows) = insert (conv_key r) (conv_key ` set rows)"
proof -
  have "conv_key ` (\<lambda>x. if conv_key x = conv_key r then conv_upsert_row x r else x) ` R = conv_key ` R" for R
    by (simp only: image_image) (rule image_cong, simp_all add: upsert_keys)
  then show ?thesis
    by (simp add: tbl_upsert_def tbl_lookup_None insert_absorb)
qed

lemma hs_insert_set: "set (hs_insert r rows) \<subseteq> insert r (set rows)"
  by (auto simp: hs_insert_def tbl_upsert_def)

lemma hs_insert_fold_set: "set (fold hs_insert rs rows) \<subseteq> set rs \<union> set rows"
proof (induction rs arbitrary: rows)
  case (Cons r rs)
  then show ?case using hs_insert_set [of r rows] by fastforce
qed simp

lemma hs_conv_row_of [simp]: "hs_conv (hs_row_of L now b l j t) = (b, l, j)"
  by (simp add: hs_row_of_def hs_conv_def split: prod.splits)

lemma conv_key_synced [simp]: "conv_key (r\<lparr>cr_synced := x\<rparr>) = conv_key r"
  by (simp add: conv_key_def)

text \<open>A loop that keeps an invariant in every successful round keeps it to the end.\<close>

lemma ofold_invariant:
  assumes "\<And>x s t. P s \<Longrightarrow> f x s = Ok t \<Longrightarrow> P t"
  shows "ofold f xs s = Ok t \<Longrightarrow> P s \<Longrightarrow> P t"
  using assms by (induction xs arbitrary: s) (auto simp: outcome_simps)

lemma Message_Put_ok:
  assumes put: "Message_Put L chunk now b l j ms db = Ok db'" and db: "wadb_ok db"
  shows "wadb_ok db'"
  using put db unfolding Message_Put_def
proof (rule ofold_invariant [where P = wadb_ok, rotated])
  fix c d d'
  assume d: "wadb_ok d" and s: "Message_PutChunk L now b l j c d = Ok d'"
  have "hs_conv ` set (fold hs_insert (map (hs_row_of L now b l j) c) (messages d))
      \<subseteq> insert (b, l, j) (hs_conv ` set (messages d))"
    using hs_insert_fold_set [of "map (hs_row_of L now b l j) c" "messages d"] by fastforce
  moreover have "(b, l, j) \<in> conv_key ` set (conversations d)"
    using s by (auto simp: Message_PutChunk_def tbl_lookup_None split: if_splits)
  moreover have "hs_conv ` set (messages d) \<subseteq> conv_key ` set (conversations d)"
    using d by (simp add: wadb_ok_def)
  ultimately have "hs_conv ` set (fold hs_insert (map (hs_row_of L now b l j) c) (messages d))
      \<subseteq> conv_key ` set (conversations d)" by (meson insert_subset subset_trans)
  moreover have "d' = d\<lparr>messages := fold hs_insert (map (hs_row_of L now b l j) c) (messages d)\<rparr>"
    using s by (simp add: Message_PutChunk_def split: if_splits)
  ultimately show "wadb_ok d'"
    using d by (simp add: wadb_ok_def hs_tbl.inv_fold_put)
qed

lemma poll_conflict_sym: "poll_conflict a b \<Longrightarrow> poll_conflict b a"
  unfolding poll_conflict_def by (elim conjE disjE) (intro conjI, simp_all)

lemma poll_insert_ok:
  "sorted_wrt (\<lambda>a b. \<not> poll_conflict a b) rows \<and> (\<forall>r \<in> set rows. length (po_hash r) = 32) \<Longrightarrow>
   poll_insert r rows = Ok rows' \<Longrightarrow>
   sorted_wrt (\<lambda>a b. \<not> poll_conflict a b) rows' \<and> (\<forall>r \<in> set rows'. length (po_hash r) = 32)"
  by (auto simp: poll_insert_def sorted_wrt_append list_ex_iff split: if_splits)
    (blast dest: poll_conflict_sym)

lemma PollOption_Put_ok:
  assumes "PollOption_Put b m opts db = Ok db'" and "wadb_ok db"
  shows "wadb_ok db'"
proof -
  consider "db' = db" | rows where "db' = db\<lparr>poll_options := rows\<rparr>"
      "ofold poll_insert (map (\<lambda>(hash, i). \<lparr>po_bridge = b, po_msg = m, po_id = i, po_hash = hash\<rparr>) opts)
         (poll_options db) = Ok rows"
    using assms(1) by (auto simp: PollOption_Put_def outcome_simps split: if_splits)
  then show ?thesis
  proof cases
    case 2
    have "sorted_wrt (\<lambda>a b. \<not> poll_conflict a b) rows \<and> (\<forall>r \<in> set rows. length (po_hash r) = 32)"
      using poll_insert_ok 2(2) by (rule ofold_invariant) (use assms(2) in \<open>simp_all add: wadb_ok_def\<close>)
    with assms(2) 2(1) show ?thesis by (simp add: wadb_ok_def)
  qed (use assms(2) in simp)
qed

lemma wadb_ok_conversations:
  assumes "wadb_ok db" and "tbl_keys_ok conv_key cs"
    and "conv_key ` set (conversations db) \<subseteq> conv_key ` set cs"
  shows "wadb_ok (db\<lparr>conversations := cs\<rparr>)"
  using assms subset_trans [OF _ assms(3), of "hs_conv ` set (messages db)"] by (simp add: wadb_ok_def)

lemma wadb_ok_keys:
  assumes "wadb_ok db"
  shows "tbl_keys_ok conv_key (conversations db)" "tbl_keys_ok hs_key (messages db)"
    "tbl_keys_ok mr_key (media_requests db)" "tbl_keys_ok ac_key (avatar_cache db)"
  using assms by (simp_all add: wadb_ok_def)

lemma wadb_ok_conv_ops:
  assumes "wadb_ok db"
  shows "wadb_ok (Conversation_Put b c db)" "wadb_ok (Conversation_MarkSynced b l j t db)"
    "wadb_ok (Conversation_Delete b l j db)" "wadb_ok (Conversation_DeleteAll b l db)"
proof -
  show "wadb_ok (Conversation_Put b c db)"
    using assms by (auto simp: wadb_ok_def Conversation_Put_def conv_tbl.inv_put conv_keys_upsert)
  have "map conv_key (map (\<lambda>r. if conv_key r = k then r\<lparr>cr_synced := Some t\<rparr> else r) rows) = map conv_key rows"
    for k rows by (simp add: comp_def)
  then have m: "tbl_keys_ok conv_key rows \<Longrightarrow>
      tbl_keys_ok conv_key (map (\<lambda>r. if conv_key r = k then r\<lparr>cr_synced := Some t\<rparr> else r) rows)" for k rows
    by (simp only: tbl_keys_ok_def)
  have i: "conv_key ` (\<lambda>r. if conv_key r = k then r\<lparr>cr_synced := Some t\<rparr> else r) ` R = conv_key ` R" for k R
    by (simp only: image_image) (rule image_cong, simp_all)
  show "wadb_ok (Conversation_MarkSynced b l j t db)"
    unfolding Conversation_MarkSynced_def using assms
    by (rule wadb_ok_conversations) (simp_all only: set_map m i wadb_ok_keys [OF assms] order_refl)
  show "wadb_ok (Conversation_Delete b l j db)"
    using assms by (auto simp: wadb_ok_def Conversation_Delete_def tbl_keys_ok_delete image_subset_iff)
  let ?cs = "tbl_delete (\<lambda>r. cr_bridge r = b \<and> cr_login r = l) (conversations db)"
  have "hs_conv r \<in> conv_key ` set ?cs"
    if r: "r \<in> set (messages db)" "\<not> (hs_bridge r = b \<and> hs_login r = l)" for r
  proof -
    from r assms obtain c where "c \<in> set (conversations db)" "conv_key c = hs_conv r"
      by (auto simp: wadb_ok_def image_iff)
    with r show ?thesis by (intro image_eqI [where x = c]) (auto simp: conv_key_def hs_conv_def)
  qed
  then show "wadb_ok (Conversation_DeleteAll b l db)"
    using assms by (simp add: wadb_ok_def Conversation_DeleteAll_def tbl_keys_ok_delete image_subset_iff)
qed

lemma wadb_ok_msg_ops:
  assumes "wadb_ok db"
  shows "wadb_ok (Message_DeleteBetween b l j hi lo db)" "wadb_ok (Message_DeleteAll b l db)"
    "wadb_ok (Message_DeleteAllInChat b l j db)"
  using assms
  by (auto simp: wadb_ok_def Message_DeleteBetween_def Message_DeleteAll_def Message_DeleteAllInChat_def
      tbl_keys_ok_delete)

lemma wadb_ok_other_ops:
  assumes "wadb_ok db"
  shows "wadb_ok (MediaRequest_Put b r db)" "wadb_ok (MediaRequest_Delete b l m db)"
    "wadb_ok (HSNotif_Delete i db)" "wadb_ok (AvatarCache_Put e db)"
  using assms
  by (simp_all add: wadb_ok_def MediaRequest_Put_def MediaRequest_Delete_def HSNotif_Delete_def AvatarCache_Put_def
      mr_tbl.inv_put ac_tbl.inv_put tbl_keys_ok_delete)

lemma HSNotif_Put_ok:
  assumes "HSNotif_Put marshal b l n db = Ok db'" and "wadb_ok db"
  shows "wadb_ok db'"
proof -
  obtain bytes where "db' = db\<lparr>notifications := notifications db @
        [\<lparr>nr_rowid = next_rowid db, nr_bridge = b, nr_login = l, nr_data = bytes\<rparr>],
      next_rowid := next_rowid db + 1\<rparr>"
    using assms(1) by (auto simp: HSNotif_Put_def outcome_simps)
  moreover have "next_rowid db \<notin> nr_rowid ` set (notifications db)"
    using assms(2) by (fastforce simp: wadb_ok_def)
  ultimately show ?thesis
    using assms(2) by (simp add: wadb_ok_def tbl_keys_ok_def) (auto simp: less_imp_le)
qed

lemma db_step_ok: "db_step L chunk db db' \<Longrightarrow> wadb_ok db \<Longrightarrow> wadb_ok db'"
  by (erule db_stepE)
    (auto intro: wadb_ok_conv_ops wadb_ok_msg_ops wadb_ok_other_ops Message_Put_ok PollOption_Put_ok HSNotif_Put_ok)

lemma wadb_ok_empty: "wadb_ok empty_wadb"
  by (simp add: wadb_ok_def empty_wadb_def tbl_keys_ok_def)

interpretation db_system: invariant_system "\<lambda>db. db = empty_wadb" "db_step L chunk" wadb_ok for L chunk
  by unfold_locales (auto simp: wadb_ok_empty dest: db_step_ok)

section \<open>Lemmas on single operations\<close>

lemma hs_insert_present: "hs_key r \<in> hs_key ` set rows \<Longrightarrow> hs_insert r rows = rows"
  by (simp add: hs_insert_def tbl_upsert_def tbl_lookup_None)

lemma hs_insert_keys: "hs_key ` set (hs_insert r rows) = insert (hs_key r) (hs_key ` set rows)"
  by (auto simp: hs_insert_def tbl_upsert_def tbl_lookup_None)

lemma hs_insert_fold_keys: "hs_key ` set (fold hs_insert rs rows) = hs_key ` set rs \<union> hs_key ` set rows"
  by (induction rs arbitrary: rows) (auto simp: hs_insert_keys)

lemma hs_insert_fold_present: "hs_key ` set rs \<subseteq> hs_key ` set rows \<Longrightarrow> fold hs_insert rs rows = rows"
  by (induction rs arbitrary: rows) (auto simp: hs_insert_present)

lemma hs_key_row_of: "hs_key (hs_row_of L now b l j t) = hs_key (hs_row_of L now' b l j t)"
  by (simp add: hs_row_of_def hs_key_def split: prod.splits)

text \<open>What one successful call stores: every message of every chunk, whatever was there before.\<close>

lemma Message_PutChunk_Ok:
  "Message_PutChunk L now b l j c db = Ok d \<longleftrightarrow>
     tbl_lookup conv_key (conversations db) (b, l, j) \<noteq> None \<and>
     d = db\<lparr>messages := fold hs_insert (map (hs_row_of L now b l j) c) (messages db)\<rparr>"
  by (auto simp: Message_PutChunk_def)

lemma put_chunks_effect:
  "ofold (Message_PutChunk L now b l j) cs db = Ok db' \<Longrightarrow>
   db' = db\<lparr>messages := fold hs_insert (map (hs_row_of L now b l j) (concat cs)) (messages db)\<rparr>"
proof (induction cs arbitrary: db)
  case (Cons c cs)
  let ?d = "db\<lparr>messages := fold hs_insert (map (hs_row_of L now b l j) c) (messages db)\<rparr>"
  from Cons.prems have "ofold (Message_PutChunk L now b l j) cs ?d = Ok db'"
    by (auto simp: outcome_simps Message_PutChunk_Ok)
  from Cons.IH [OF this] show ?case by simp
qed simp

lemma Message_Put_effect:
  "Message_Put L chunk now b l j ms db = Ok db' \<Longrightarrow>
   db' = db\<lparr>messages := fold hs_insert (map (hs_row_of L now b l j) (concat (chunk 50 ms))) (messages db)\<rparr>"
  unfolding Message_Put_def by (rule put_chunks_effect)

lemma put_chunks_succeed:
  "tbl_lookup conv_key (conversations db) (b, l, j) \<noteq> None \<Longrightarrow>
   \<exists>db'. ofold (Message_PutChunk L now b l j) cs db = Ok db'"
  by (induction cs arbitrary: db) (auto simp: Message_PutChunk_def)

lemma Message_Put_succeeds:
  "tbl_lookup conv_key (conversations db) (b, l, j) \<noteq> None \<Longrightarrow>
   \<exists>db'. Message_Put L chunk now b l j ms db = Ok db'"
  unfolding Message_Put_def by (rule put_chunks_succeed)

lemma Message_Put_again:
  assumes "Message_Put L chunk now b l j ms db = Ok db'"
  shows "Message_Put L chunk now' b l j ms db' = Ok db'"
proof -
  let ?rs = "\<lambda>n. map (hs_row_of L n b l j) (concat (chunk 50 ms))"
  have db': "db' = db\<lparr>messages := fold hs_insert (?rs now) (messages db)\<rparr>"
    using assms by (rule Message_Put_effect)
  show ?thesis
  proof (cases "chunk 50 ms")
    case Nil
    then show ?thesis by (simp add: Message_Put_def)
  next
    case (Cons c cs)
    with assms have "tbl_lookup conv_key (conversations db) (b, l, j) \<noteq> None"
      by (auto simp: Message_Put_def Message_PutChunk_def outcome_simps split: if_splits)
    then have "tbl_lookup conv_key (conversations db') (b, l, j) \<noteq> None" by (simp add: db')
    then obtain db'' where db'': "Message_Put L chunk now' b l j ms db' = Ok db''"
      using Message_Put_succeeds by blast
    have "hs_key ` set (?rs now') = hs_key ` set (?rs now)"
      by (simp add: image_image) (rule arg_cong [where f = "\<lambda>x. x"], auto simp: hs_key_row_of [of L now' b l j _ now])
    then have "hs_key ` set (?rs now') \<subseteq> hs_key ` set (messages db')"
      by (simp add: db' hs_insert_fold_keys)
    then have "fold hs_insert (?rs now') (messages db') = messages db'"
      by (rule hs_insert_fold_present)
    with Message_Put_effect [OF db''] db'' show ?thesis by simp
  qed
qed

lemma foldl_map_upd:
  "foldl (\<lambda>m x. case f x of (k, v) \<Rightarrow> m(k \<mapsto> v)) m0 xs = m0 ++ map_of (rev (map f xs))"
proof (induction xs arbitrary: m0)
  case (Cons x xs)
  then show ?case by (cases "f x") (simp add: map_add_assoc [symmetric] map_add_def fun_eq_iff split: option.splits)
qed simp

lemma map_of_rev_distinct:
  "distinct (map fst xs) \<Longrightarrow> map_of (rev xs) k = Some v \<longleftrightarrow> (k, v) \<in> set xs"
  by (metis distinct_rev map_of_eq_Some_iff rev_map set_rev)

lemma poll_insert_all:
  assumes "sorted_wrt (\<lambda>a b. \<not> poll_conflict a b) rs" and "\<forall>r \<in> set rs. length (po_hash r) = 32"
    and "\<forall>r \<in> set rs. \<forall>x \<in> set rows. \<not> poll_conflict r x"
  shows "ofold poll_insert rs rows = Ok (rows @ rs)"
  using assms
proof (induction rs arbitrary: rows)
  case (Cons r rs)
  then have "poll_insert r rows = Ok (rows @ [r])"
    by (simp add: poll_insert_def list_ex_iff)
  moreover have "\<forall>a \<in> set rs. \<forall>x \<in> set (rows @ [r]). \<not> poll_conflict a x"
    using Cons.prems by (auto dest: poll_conflict_sym)
  ultimately show ?case using Cons.IH [of "rows @ [r]"] Cons.prems by simp
qed simp

lemma scan_poll_rows:
  "\<forall>h \<in> fst ` set opts. length h = 32 \<Longrightarrow>
   omap scanPollOption (map (\<lambda>(hash, i). \<lparr>po_bridge = b, po_msg = m, po_id = i, po_hash = hash\<rparr>) (filter P opts))
     = Ok (map (\<lambda>(h, i). (i, h)) (filter P opts))"
  by (induction opts) (auto simp: scanPollOption_def)

lemma getPollOptions_rows:
  assumes "filter (\<lambda>r. po_bridge r = b \<and> po_msg r = m \<and> w r) (poll_options db)
      = map (\<lambda>(hash, i). \<lparr>po_bridge = b, po_msg = m, po_id = i, po_hash = hash\<rparr>) (filter P opts)"
    and "\<forall>h \<in> fst ` set opts. length h = 32"
  shows "getPollOptions b m w kv db = Ok (map_of (rev (map kv (map (\<lambda>(h, i). (i, h)) (filter P opts)))))"
  unfolding getPollOptions_def assms(1) scan_poll_rows [OF assms(2)] obind.simps foldl_map_upd by simp

lemma poll_options_stored:
  assumes fresh: "\<forall>r \<in> set (poll_options db). \<not> (po_bridge r = b \<and> po_msg r = m)"
    and hashes: "distinct (map fst opts)" "\<forall>h \<in> fst ` set opts. length h = 32"
    and ids: "distinct (map snd opts)" and ne: "opts \<noteq> []"
  shows "\<exists>db' mi mh. PollOption_Put b m opts db = Ok db'
    \<and> PollOption_GetIDs b m hs db' = Ok mi \<and> PollOption_GetHashes b m is db' = Ok mh
    \<and> (\<forall>h i. mi h = Some i \<longleftrightarrow> (h, i) \<in> set opts \<and> h \<in> set hs)
    \<and> (\<forall>h i. mh i = Some h \<longleftrightarrow> (h, i) \<in> set opts \<and> i \<in> set is)"
proof -
  let ?row = "\<lambda>(hash, i). \<lparr>po_bridge = b, po_msg = m, po_id = i, po_hash = hash\<rparr>"
  let ?rs = "map ?row opts"
  let ?db = "db\<lparr>poll_options := poll_options db @ ?rs\<rparr>"
  have "sorted_wrt (\<lambda>a b. \<not> poll_conflict a b) ?rs"
    using hashes(1) ids by (induction opts) (force simp: poll_conflict_def)+
  moreover have "\<forall>r \<in> set ?rs. length (po_hash r) = 32" using hashes(2) by auto
  moreover have "\<forall>r \<in> set ?rs. \<forall>x \<in> set (poll_options db). \<not> poll_conflict r x"
    using fresh by (auto simp: poll_conflict_def)
  ultimately have "PollOption_Put b m opts db = Ok ?db"
    using ne by (simp add: PollOption_Put_def poll_insert_all)
  moreover have sel: "filter (\<lambda>r. po_bridge r = b \<and> po_msg r = m \<and> P r) (poll_options ?db) = map ?row (filter (P \<circ> ?row) opts)" for P
  proof -
    have "filter (\<lambda>r. po_bridge r = b \<and> po_msg r = m \<and> P r) (poll_options db) = []"
      using fresh by (auto simp: filter_empty_conv)
    moreover have "filter (\<lambda>r. po_bridge r = b \<and> po_msg r = m \<and> P r) ?rs = map ?row (filter (P \<circ> ?row) opts)"
      by (induction opts) auto
    ultimately show ?thesis by simp
  qed
  have "PollOption_GetIDs b m hs ?db = Ok (map_of (rev (filter (\<lambda>(h, i). h \<in> set hs) opts)))"
    unfolding PollOption_GetIDs_def getPollOptions_rows [OF sel hashes(2)]
    by (simp add: comp_def case_prod_unfold)
  moreover have "PollOption_GetHashes b m is ?db =
      Ok (map_of (rev (map (\<lambda>(h, i). (i, h)) (filter (\<lambda>(h, i). i \<in> set is) opts))))"
    unfolding PollOption_GetHashes_def getPollOptions_rows [OF sel hashes(2)]
    by (simp add: comp_def case_prod_unfold)
  moreover have "map_of (rev (filter (\<lambda>(h, i). h \<in> set hs) opts)) h = Some i \<longleftrightarrow> (h, i) \<in> set opts \<and> h \<in> set hs" for h i
    using hashes(1) by (subst map_of_rev_distinct) (auto simp: distinct_map_filter)
  moreover have "map_of (rev (map (\<lambda>(h, i). (i, h)) (filter (\<lambda>(h, i). i \<in> set is) opts))) i = Some h
      \<longleftrightarrow> (h, i) \<in> set opts \<and> i \<in> set is" for h i
    using ids by (subst map_of_rev_distinct) (auto simp: distinct_map_filter comp_def case_prod_unfold image_iff Bex_def)
  ultimately show ?thesis by blast
qed

section \<open>Properties\<close>

definition sample_conv :: Conversation where
  "sample_conv = \<lparr>c_BridgeID = [], c_UserLoginID = ''358'', c_ChatJID = sample_group,
     c_LastMessageTimestamp = time_unix 1000, c_Archived = None, c_Pinned = Some True, c_MuteEndTime = 0,
     c_EndOfHistoryTransferType = None, c_EphemeralExpiration = None, c_EphemeralSettingTimestamp = None,
     c_MarkedAsUnread = None, c_UnreadCount = Some 2\<rparr>"

definition sample_tuple :: "string \<Rightarrow> int \<Rightarrow> HistorySyncMessageTuple" where
  "sample_tuple i t = \<lparr>tup_Info = sample_info\<lparr>mi_ID := i, mi_Timestamp := time_unix t\<rparr>, tup_Message = bytes_of_string i\<rparr>"

definition one_chunk :: "nat \<Rightarrow> 'a list \<Rightarrow> 'a list list" where
  "one_chunk n xs = (if xs = [] then [] else [xs])"

lemma sample_conv_stored:
  "tbl_lookup conv_key (conversations (Conversation_Put ''wa'' sample_conv empty_wadb)) (''wa'', ''358'', sample_group) \<noteq> None"
  by (simp add: Conversation_Put_def empty_wadb_def tbl_upsert_def tbl_lookup_Cons conv_key_def
      Conversation_sqlVariables_def sample_conv_def)

text \<open>C1: Whatever sequence of the database operations runs from the empty database, its
  integrity holds: primary keys are unique in every table, every stored message belongs to a
  stored conversation, poll options of a message have unique identifiers and unique 32-byte
  hashes, and queued notifications have distinct row numbers below the next one.\<close>

theorem wadb_integrity:
  assumes "(db_step L chunk)\<^sup>*\<^sup>* empty_wadb db"
  shows "wadb_ok db"
  using refl assms by (rule db_system.reached)

theorem wadb_integrity_witness:
  "\<exists>db. messages db \<noteq> [] \<and> wadb_ok db"
proof -
  let ?d1 = "Conversation_Put ''wa'' sample_conv empty_wadb"
  obtain d2 where d2: "Message_Put sample_jid_lib one_chunk 5 ''wa'' ''358'' sample_group
      [sample_tuple ''A'' 1000] ?d1 = Ok d2"
    using Message_Put_succeeds [OF sample_conv_stored] by blast
  have "db_step sample_jid_lib one_chunk empty_wadb ?d1" by (rule db_step.conv_put)
  moreover from d2 have "db_step sample_jid_lib one_chunk ?d1 d2" by (rule db_step.msg_put)
  ultimately have "(db_step sample_jid_lib one_chunk)\<^sup>*\<^sup>* empty_wadb d2" by auto
  from wadb_integrity [OF this] have "wadb_ok d2" .
  moreover have "hs_key ` set (messages d2) \<noteq> {}"
    using Message_Put_effect [OF d2] by (simp add: one_chunk_def hs_insert_keys)
  then have "messages d2 \<noteq> []" by auto
  ultimately show ?thesis by blast
qed

text \<open>Storing a history sync payload's messages is idempotent: when the same payload is
  delivered again, at any later time, the call succeeds and leaves the database as it is, the
  first copy's data and insertion time included.\<close>

theorem message_put_idempotent:
  assumes "Message_Put L chunk now b l j ms db = Ok db'"
  shows "Message_Put L chunk now' b l j ms db' = Ok db'"
  using assms by (rule Message_Put_again)

theorem message_put_idempotent_witness:
  "\<exists>db'. Message_Put sample_jid_lib one_chunk 5 ''wa'' ''358'' sample_group [sample_tuple ''A'' 1000]
      (Conversation_Put ''wa'' sample_conv empty_wadb) = Ok db'
    \<and> Message_Put sample_jid_lib one_chunk 9 ''wa'' ''358'' sample_group [sample_tuple ''A'' 1000] db' = Ok db'"
proof -
  obtain db' where db': "Message_Put sample_jid_lib one_chunk 5 ''wa'' ''358'' sample_group [sample_tuple ''A'' 1000]
      (Conversation_Put ''wa'' sample_conv empty_wadb) = Ok db'"
    using Message_Put_succeeds [OF sample_conv_stored] by blast
  from message_put_idempotent [OF db', of 9] db' show ?thesis by blast
qed



text \<open>Poll options written for a Matrix poll are found again in both directions: for a
  poll that has none stored yet and a map whose identifiers are all different, the write
  succeeds, looking hashes up gives exactly the identifier of each known hash, and looking
  identifiers up gives exactly the hash of each known identifier.\<close>

theorem poll_options_roundtrip:
  assumes fresh: "\<forall>r \<in> set (poll_options db). \<not> (po_bridge r = b \<and> po_msg r = m)"
    and hashes: "distinct (map fst opts)" "\<forall>h \<in> fst ` set opts. length h = 32"
    and ids: "distinct (map snd opts)" and ne: "opts \<noteq> []"
  shows "\<exists>db' mi mh. PollOption_Put b m opts db = Ok db'
    \<and> PollOption_GetIDs b m hs db' = Ok mi \<and> PollOption_GetHashes b m is db' = Ok mh
    \<and> (\<forall>h i. mi h = Some i \<longleftrightarrow> (h, i) \<in> set opts \<and> h \<in> set hs)
    \<and> (\<forall>h i. mh i = Some h \<longleftrightarrow> (h, i) \<in> set opts \<and> i \<in> set is)"
  using assms by (rule poll_options_stored)

theorem poll_options_roundtrip_witness:
  "\<exists>db' mi mh. PollOption_Put ''wa'' ''$poll'' [(replicate 32 1, ''yes''), (replicate 32 2, ''no'')] empty_wadb = Ok db'
    \<and> PollOption_GetIDs ''wa'' ''$poll'' [replicate 32 2, replicate 32 7] db' = Ok mi
    \<and> PollOption_GetHashes ''wa'' ''$poll'' [''yes''] db' = Ok mh
    \<and> (\<forall>h i. mi h = Some i \<longleftrightarrow> (h, i) \<in> set [(replicate 32 1, ''yes''), (replicate 32 2, ''no'')]
          \<and> h \<in> set [replicate 32 2, replicate 32 7])
    \<and> (\<forall>h i. mh i = Some h \<longleftrightarrow> (h, i) \<in> set [(replicate 32 1, ''yes''), (replicate 32 2, ''no'')]
          \<and> i \<in> set [''yes''])"
  by (rule poll_options_roundtrip) (simp_all add: empty_wadb_def)

text \<open>Queued history sync notifications are handed out in the order they were queued: after
  a put into an empty queue and any further puts, the next notification of the login is the
  first one that was put; deleting the row that was handed out uncovers the second, and
  another login's queue is not touched by either.\<close>

theorem notification_queue_fifo:
  assumes ok: "wadb_ok db" and codec: "\<And>n. n \<in> {x, y} \<Longrightarrow> \<exists>bs. marshal n = Inr bs \<and> unmarshal bs = Inr n"
    and empty: "HSNotif_GetNext unmarshal b l db = Ok None"
  shows "\<exists>d1 d2. HSNotif_Put marshal b l x db = Ok d1 \<and> HSNotif_Put marshal b l y d1 = Ok d2
    \<and> HSNotif_GetNext unmarshal b l d2 = Ok (Some (x, next_rowid db))
    \<and> HSNotif_GetNext unmarshal b l (HSNotif_Delete (next_rowid db) d2) = Ok (Some (y, next_rowid db + 1))
    \<and> (l' \<noteq> l \<longrightarrow> HSNotif_GetNext unmarshal b l' (HSNotif_Delete (next_rowid db) d2)
          = HSNotif_GetNext unmarshal b l' db)"
proof -
  obtain bx by' where m: "marshal x = Inr bx" "unmarshal bx = Inr x" "marshal y = Inr by'" "unmarshal by' = Inr y"
    using codec [of x] codec [of y] by auto
  have none: "filter (\<lambda>r. nr_bridge r = b \<and> nr_login r = l) (notifications db) = []"
    using empty by (auto simp: HSNotif_GetNext_def outcome_simps split: list.splits)
  have keep: "filter (\<lambda>r. nr_rowid r \<noteq> next_rowid db) (notifications db) = notifications db"
    using ok by (intro filter_True) (auto simp: wadb_ok_def)
  have keep': "filter (\<lambda>r. nr_rowid r \<noteq> next_rowid db \<and> P r) (notifications db) = filter P (notifications db)" for P
    by (metis keep filter_filter)
  show ?thesis
    using m none keep by (simp add: HSNotif_Put_def HSNotif_GetNext_def HSNotif_Delete_def tbl_delete_def keep' split: list.splits)
qed

theorem notification_queue_fifo_witness:
  "\<exists>d1 d2. HSNotif_Put Inr ''wa'' ''358'' [1] empty_wadb = Ok d1 \<and> HSNotif_Put Inr ''wa'' ''358'' [2] d1 = Ok d2
    \<and> HSNotif_GetNext Inr ''wa'' ''358'' d2 = Ok (Some ([1], next_rowid empty_wadb))
    \<and> HSNotif_GetNext Inr ''wa'' ''358'' (HSNotif_Delete (next_rowid empty_wadb) d2)
        = Ok (Some ([2], next_rowid empty_wadb + 1))
    \<and> (''359'' \<noteq> ''358'' \<longrightarrow> HSNotif_GetNext Inr ''wa'' ''359'' (HSNotif_Delete (next_rowid empty_wadb) d2)
        = HSNotif_GetNext Inr ''wa'' ''359'' empty_wadb)"
  by (rule notification_queue_fifo [OF wadb_ok_empty]) (auto simp: HSNotif_GetNext_def empty_wadb_def)

end
