(* ===== verification/MsgKeys.thy ===== *)
theory MsgKeys
  imports MediaId WaDb
begin

text \<open>
  Portal keys, event senders and message keys: \<open>pkg/connector/id.go\<close>, the key and
  rerouting functions of \<open>pkg/msgconv/wa-poll.go\<close> and \<open>matrixpoll.go\<close>,
  \<open>getPortalKeyByMessageSource\<close> of \<open>pkg/connector/events.go\<close> and
  \<open>rerouteWAMessage\<close> of \<open>pkg/connector/handlewhatsapp.go\<close>. What the logged-in
  client knows is the record \<open>client\<close>: its login, its two own JIDs and whatsmeow's
  store of phone number and LID pairs, whose lookups return a JID and perhaps an error.
\<close>

section \<open>The client's store\<close>

record client =
  cl_UserLoginID :: string
  cl_SplitPortals :: bool
  cl_JID :: jid
  cl_LID :: jid
  GetPNForLID :: "jid \<Rightarrow> jid \<times> gerror option"
  GetLIDForPN :: "jid \<Rightarrow> jid \<times> gerror option"

text \<open>
  What whatsmeow documents of the store: a found phone number is a JID on the default server,
  a found LID one on the hidden-user server, and nothing found is the zero JID.
\<close>

definition client_ok :: "client \<Rightarrow> bool" where
  "client_ok c \<longleftrightarrow>
     (\<forall>j. fst (GetPNForLID c j) = EmptyJID \<or> Server (fst (GetPNForLID c j)) = DefaultUserServer) \<and>
     (\<forall>j. fst (GetLIDForPN c j) = EmptyJID \<or> Server (fst (GetLIDForPN c j)) = HiddenUserServer) \<and>
     Server (cl_JID c) = DefaultUserServer"

definition is_me :: "client \<Rightarrow> jid \<Rightarrow> bool" where
  "is_me c j \<longleftrightarrow> User j = User (cl_JID c) \<or> User j = User (cl_LID c)"

section \<open>Portal keys and event senders\<close>

definition makeWAPortalKey :: "jid_lib \<Rightarrow> client \<Rightarrow> jid \<Rightarrow> PortalKey" where
  "makeWAPortalKey L c chatJID =
     \<lparr>pk_ID = MakePortalID L chatJID,
      pk_Receiver =
        (if Server chatJID \<in> {DefaultUserServer, BotServer, HiddenUserServer, BroadcastServer}
         then cl_UserLoginID c
         else if cl_SplitPortals c then cl_UserLoginID c else [])\<rparr>"

record EventSender =
  es_IsFromMe :: bool
  es_Sender :: string
  es_SenderLogin :: string

definition makeEventSender :: "jid_lib \<Rightarrow> client \<Rightarrow> jid \<Rightarrow> EventSender" where
  "makeEventSender L c i =
     (if Server i = NewsletterServer then \<lparr>es_IsFromMe = False, es_Sender = [], es_SenderLogin = []\<rparr>
      else
        let senderLoginJID =
          (if cl_SplitPortals c then EmptyJID
           else if Server i = DefaultUserServer then i
           else if Server i = HiddenUserServer then
             (case GetPNForLID c i of
                (pn, Some _) \<Rightarrow> EmptyJID
              | (pn, None) \<Rightarrow> if jid_is_empty L pn then EmptyJID else pn)
           else EmptyJID)
        in \<lparr>es_IsFromMe = is_me c i, es_Sender = MakeUserID i, es_SenderLogin = MakeUserLoginID senderLoginJID\<rparr>)"

text \<open>\<open>IsIncomingBroadcast\<close> is whatsmeow's, an argument.\<close>

definition getPortalKeyByMessageSource :: "jid_lib \<Rightarrow> (MessageInfo \<Rightarrow> bool) \<Rightarrow> client \<Rightarrow> MessageInfo \<Rightarrow> PortalKey" where
  "getPortalKeyByMessageSource L is_incoming_broadcast c ms =
     (let j = (if is_incoming_broadcast ms
               then if mi_IsFromMe ms then to_non_ad L (mi_BroadcastListOwner ms) else to_non_ad L (mi_Sender ms)
               else mi_Chat ms)
      in makeWAPortalKey L c j)"

section \<open>Message keys\<close>

record MessageKey =
  mk_RemoteJID :: "string option"
  mk_FromMe :: "bool option"
  mk_ID :: "string option"
  mk_Participant :: "string option"

text \<open>Protobuf getters give the zero value for an unset field, also on a nil message.\<close>

definition get_str :: "string option \<Rightarrow> string" where
  "get_str v = (case v of None \<Rightarrow> [] | Some s \<Rightarrow> s)"

definition get_bool :: "bool option \<Rightarrow> bool" where
  "get_bool v = (v = Some True)"

definition nil_key :: MessageKey where
  "nil_key = \<lparr>mk_RemoteJID = None, mk_FromMe = None, mk_ID = None, mk_Participant = None\<rparr>"

definition messageIDToKey :: "jid_lib \<Rightarrow> client \<Rightarrow> ParsedMessageID \<Rightarrow> MessageKey" where
  "messageIDToKey L c i =
     \<lparr>mk_RemoteJID = Some (jid_string L (Chat i)),
      mk_FromMe = (if is_me c (Sender i) then Some True else None),
      mk_ID = Some (ID i),
      mk_Participant =
        (if Server (Chat i) \<noteq> MessengerServer \<and> Server (Chat i) \<noteq> DefaultUserServer \<and>
            Server (Chat i) \<noteq> HiddenUserServer \<and> Server (Chat i) \<noteq> BotServer
         then Some (jid_string L (Sender i)) else None)\<rparr>"

definition rerouteMessageKey :: "jid_lib \<Rightarrow> client option \<Rightarrow> jid \<Rightarrow> jid \<Rightarrow> bool \<Rightarrow> jid" where
  "rerouteMessageKey L store chat sender groupLIDAddressing =
     (case store of
        None \<Rightarrow> sender
      | Some c \<Rightarrow>
          if Server chat = DefaultUserServer \<and> Server sender = HiddenUserServer then
            (let senderPN = fst (GetPNForLID c sender) in
             if \<not> jid_is_empty L senderPN then senderPN else sender)
          else if Server chat = GroupServer \<and> Server sender = DefaultUserServer \<and> groupLIDAddressing then
            (let senderLID = fst (GetLIDForPN c sender) in
             if \<not> jid_is_empty L senderLID then senderLID else sender)
          else sender)"

text \<open>The sender a key names, before rerouting; none where the code returns the empty identifier.\<close>

definition key_sender :: "jid_lib \<Rightarrow> client \<Rightarrow> jid \<Rightarrow> jid \<Rightarrow> MessageKey \<Rightarrow> jid option" where
  "key_sender L c chat sender key =
     (if get_bool (mk_FromMe key) then Some sender
      else if get_str (mk_Participant key) \<noteq> [] then
        (case parse_jid L (get_str (mk_Participant key)) of
           Inl _ \<Rightarrow> None
         | Inr p \<Rightarrow> Some (if Server p = LegacyUserServer then p\<lparr>Server := DefaultUserServer\<rparr> else p))
      else if Server chat = DefaultUserServer \<or> Server chat = BotServer then
        Some (if is_me c sender then chat else to_non_ad L (cl_JID c))
      else None)"

definition KeyToMessageID :: "jid_lib \<Rightarrow> client \<Rightarrow> jid \<Rightarrow> jid \<Rightarrow> MessageKey option \<Rightarrow> string" where
  "KeyToMessageID L c chat sender key0 =
     (let key = (case key0 of None \<Rightarrow> nil_key | Some k \<Rightarrow> k);
          groupLIDAddressing = (Server sender = HiddenUserServer)
      in case key_sender L c chat (to_non_ad L sender) key of
           None \<Rightarrow> []
         | Some s \<Rightarrow>
             (let chat' = (case parse_jid L (get_str (mk_RemoteJID key)) of
                   Inl _ \<Rightarrow> chat
                 | Inr remoteJID \<Rightarrow>
                     if \<not> jid_is_empty L remoteJID \<and> Server remoteJID = GroupServer then remoteJID else chat)
              in MakeMessageID L chat' (rerouteMessageKey L (Some c) chat' s groupLIDAddressing) (get_str (mk_ID key))))"

definition MessageIDToInfo :: "client \<Rightarrow> ParsedMessageID \<Rightarrow> MessageInfo" where
  "MessageIDToInfo c p =
     \<lparr>mi_Chat = Chat p, mi_Sender = Sender p, mi_IsFromMe = is_me c (Sender p),
      mi_IsGroup = (Server (Chat p) = GroupServer), mi_AddressingMode = AddressingModeNone,
      mi_SenderAlt = EmptyJID, mi_RecipientAlt = EmptyJID, mi_BroadcastListOwner = EmptyJID,
      mi_ID = ID p, mi_Timestamp = 0\<rparr>"

section \<open>Rerouting LID direct messages to phone numbers\<close>

definition fill_sender_alt :: "jid_lib \<Rightarrow> client \<Rightarrow> MessageInfo \<Rightarrow> MessageInfo" where
  "fill_sender_alt L c info =
     (if Server (mi_Chat info) = HiddenUserServer \<and> jid_is_empty L (mi_SenderAlt info)
      then info\<lparr>mi_SenderAlt := fst (GetPNForLID c (mi_Sender info))\<rparr> else info)"

definition reroute_filled :: "jid_lib \<Rightarrow> client \<Rightarrow> MessageInfo \<Rightarrow> MessageInfo" where
  "reroute_filled L c info =
     (if Server (mi_Chat info) = HiddenUserServer \<and> to_non_ad L (mi_Sender info) = mi_Chat info
         \<and> Server (mi_SenderAlt info) = DefaultUserServer
      then info\<lparr>mi_Sender := mi_SenderAlt info, mi_SenderAlt := mi_Sender info,
                mi_Chat := to_non_ad L (mi_SenderAlt info)\<rparr>
      else if Server (mi_Chat info) = HiddenUserServer \<and> mi_IsFromMe info
         \<and> Server (mi_RecipientAlt info) = DefaultUserServer
      then
        (let info1 = info\<lparr>mi_Chat := to_non_ad L (mi_RecipientAlt info)\<rparr> in
         if Server (mi_Sender info1) = HiddenUserServer then
           (let info2 = info1\<lparr>mi_Sender := mi_SenderAlt info1, mi_SenderAlt := mi_Sender info1\<rparr> in
            if jid_is_empty L (mi_Sender info2)
            then info2\<lparr>mi_Sender := (cl_JID c)\<lparr>Device := Device (mi_SenderAlt info2)\<rparr>\<rparr>
            else info2)
         else info1)
      else if Server (mi_Sender info) = BotServer \<and> Server (mi_Chat info) = HiddenUserServer
      then
        (case GetPNForLID c (mi_Chat info) of
           (_, Some _) \<Rightarrow> info
         | (chatPN, None) \<Rightarrow> if jid_is_empty L chatPN then info else info\<lparr>mi_Chat := chatPN\<rparr>)
      else info)"

definition rerouteWAMessage :: "jid_lib \<Rightarrow> client \<Rightarrow> MessageInfo \<Rightarrow> MessageInfo" where
  "rerouteWAMessage L c info = reroute_filled L c (fill_sender_alt L c info)"

section \<open>Lemmas\<close>

lemma client_ok_PN:
  "client_ok c \<Longrightarrow> GetPNForLID c j = (pn, e) \<Longrightarrow> pn = EmptyJID \<or> Server pn = DefaultUserServer"
  by (metis client_ok_def fst_conv)

lemma client_ok_LID:
  "client_ok c \<Longrightarrow> fst (GetLIDForPN c j) = EmptyJID \<or> Server (fst (GetLIDForPN c j)) = HiddenUserServer"
  by (simp add: client_ok_def)

lemma EmptyJID_Server [simp]: "Server EmptyJID = OtherServer []"
  by (simp add: EmptyJID_def)

lemma reroute_not_lid: "Server (mi_Chat info) \<noteq> HiddenUserServer \<Longrightarrow> rerouteWAMessage L c info = info"
  by (simp add: rerouteWAMessage_def fill_sender_alt_def reroute_filled_def)

lemma fill_sender_alt_idem: "fill_sender_alt L c (fill_sender_alt L c info) = fill_sender_alt L c info"
  by (simp add: fill_sender_alt_def)

text \<open>A reroute that changes the chat moves it off the hidden-user server.\<close>

lemma reroute_filled_chat:
  assumes "jid_lib_ok L" "client_ok c"
  shows "reroute_filled L c info = info \<or> Server (mi_Chat (reroute_filled L c info)) = DefaultUserServer"
  using client_ok_PN [OF assms(2), of "mi_Chat info"]
  by (cases "GetPNForLID c (mi_Chat info)")
    (auto simp: reroute_filled_def to_non_ad [OF assms(1)] jid_is_empty [OF assms(1)] Let_def split: option.splits)

lemma reroute_idem:
  assumes L: "jid_lib_ok L" "client_ok c"
  shows "rerouteWAMessage L c (rerouteWAMessage L c info) = rerouteWAMessage L c info"
proof -
  let ?i = "fill_sender_alt L c info"
  from reroute_filled_chat [OF L, of ?i] show ?thesis
  proof
    assume "reroute_filled L c ?i = ?i"
    then show ?thesis by (simp add: rerouteWAMessage_def fill_sender_alt_idem)
  next
    assume "Server (mi_Chat (reroute_filled L c ?i)) = DefaultUserServer"
    then show ?thesis
      by (subst reroute_not_lid) (simp_all add: rerouteWAMessage_def)
  qed
qed

lemma reroute_from_lid:
  assumes "jid_lib_ok L" "client_ok c"
    and i: "Server (mi_Chat info) = HiddenUserServer" "to_non_ad L (mi_Sender info) = mi_Chat info"
      "jid_is_empty L (mi_SenderAlt info)" "GetPNForLID c (mi_Sender info) = (pn, None)" "pn \<noteq> EmptyJID"
  shows "mi_Sender (rerouteWAMessage L c info) = pn" "mi_SenderAlt (rerouteWAMessage L c info) = mi_Sender info"
    "makeWAPortalKey L c (mi_Chat (rerouteWAMessage L c info)) = makeWAPortalKey L c (to_non_ad L pn)"
proof -
  have pn: "Server pn = DefaultUserServer" using client_ok_PN [OF assms(2) i(4)] i(5) by simp
  have "fill_sender_alt L c info = info\<lparr>mi_SenderAlt := pn\<rparr>"
    using i by (simp add: fill_sender_alt_def)
  then have r: "rerouteWAMessage L c info = info\<lparr>mi_SenderAlt := mi_Sender info, mi_Sender := pn, mi_Chat := to_non_ad L pn\<rparr>"
    using i(1,2) pn by (simp add: rerouteWAMessage_def reroute_filled_def)
  show "mi_Sender (rerouteWAMessage L c info) = pn" "mi_SenderAlt (rerouteWAMessage L c info) = mi_Sender info"
    "makeWAPortalKey L c (mi_Chat (rerouteWAMessage L c info)) = makeWAPortalKey L c (to_non_ad L pn)"
    by (simp_all add: r)
qed

lemma client_ok_servers:
  assumes "client_ok c"
  shows "Server (fst (GetPNForLID c j)) = OtherServer [] \<or> Server (fst (GetPNForLID c j)) = DefaultUserServer"
    "Server (fst (GetLIDForPN c j)) = OtherServer [] \<or> Server (fst (GetLIDForPN c j)) = HiddenUserServer"
  using assms EmptyJID_Server by (auto simp: client_ok_def) (metis EmptyJID_Server)+

lemma rerouteMessageKey_idem:
  assumes "jid_lib_ok L" "client_ok c"
  shows "rerouteMessageKey L (Some c) chat (rerouteMessageKey L (Some c) chat s g) g = rerouteMessageKey L (Some c) chat s g"
  using client_ok_servers [OF assms(2), of s]
  by (auto simp: rerouteMessageKey_def Let_def jid_is_empty [OF assms(1)])

lemma rerouteMessageKey_keeps:
  "\<not> (Server chat = DefaultUserServer \<and> Server s = HiddenUserServer) \<Longrightarrow>
   rerouteMessageKey L (Some c) chat s False = s"
  by (auto simp: rerouteMessageKey_def)

section \<open>Properties\<close>

definition sample_client :: client where
  "sample_client = \<lparr>cl_UserLoginID = ''358'', cl_SplitPortals = False,
     cl_JID = \<lparr>User = ''358'', Server = DefaultUserServer, Device = 7\<rparr>,
     cl_LID = \<lparr>User = ''99'', Server = HiddenUserServer, Device = 7\<rparr>,
     GetPNForLID = (\<lambda>j. if User j = ''77'' then (\<lparr>User = ''44'', Server = DefaultUserServer, Device = 0\<rparr>, None) else (EmptyJID, None)),
     GetLIDForPN = (\<lambda>j. (EmptyJID, Some (Err ''no LID'')))\<rparr>"

lemma sample_client_ok [simp]: "client_ok sample_client"
  by (simp add: client_ok_def sample_client_def)



text \<open>Rerouting normalises LID direct messages once and for all: a message outside LID
  chats is untouched, a second reroute changes nothing, and a message from the other side of
  a LID chat whose phone number the store knows ends up in the phone number's chat, from the
  phone number, with the LID kept as the alternative, so it gets the portal of that number.\<close>

theorem reroute_normalises:
  assumes "jid_lib_ok L" "client_ok c"
  shows "(Server (mi_Chat info) \<noteq> HiddenUserServer \<longrightarrow> rerouteWAMessage L c info = info)
    \<and> rerouteWAMessage L c (rerouteWAMessage L c info) = rerouteWAMessage L c info
    \<and> (Server (mi_Chat info) = HiddenUserServer \<and> to_non_ad L (mi_Sender info) = mi_Chat info
        \<and> jid_is_empty L (mi_SenderAlt info) \<and> GetPNForLID c (mi_Sender info) = (pn, None) \<and> pn \<noteq> EmptyJID
      \<longrightarrow> mi_Sender (rerouteWAMessage L c info) = pn \<and> mi_SenderAlt (rerouteWAMessage L c info) = mi_Sender info
        \<and> makeWAPortalKey L c (mi_Chat (rerouteWAMessage L c info)) = makeWAPortalKey L c (to_non_ad L pn))"
  using reroute_not_lid reroute_idem [OF assms] reroute_from_lid [OF assms] by blast

theorem reroute_normalises_witness:
  "mi_Sender (rerouteWAMessage sample_jid_lib sample_client (sample_info\<lparr>
      mi_Chat := \<lparr>User = ''77'', Server = HiddenUserServer, Device = 0\<rparr>,
      mi_Sender := \<lparr>User = ''77'', Server = HiddenUserServer, Device = 5\<rparr>, mi_SenderAlt := EmptyJID\<rparr>))
    = \<lparr>User = ''44'', Server = DefaultUserServer, Device = 0\<rparr>"
proof -
  let ?i = "sample_info\<lparr>mi_Chat := \<lparr>User = ''77'', Server = HiddenUserServer, Device = 0\<rparr>,
      mi_Sender := \<lparr>User = ''77'', Server = HiddenUserServer, Device = 5\<rparr>, mi_SenderAlt := EmptyJID\<rparr>"
  let ?pn = "\<lparr>User = ''44'', Server = DefaultUserServer, Device = 0\<rparr>"
  have "Server (mi_Chat ?i) = HiddenUserServer" "to_non_ad sample_jid_lib (mi_Sender ?i) = mi_Chat ?i"
    "jid_is_empty sample_jid_lib (mi_SenderAlt ?i)" "GetPNForLID sample_client (mi_Sender ?i) = (?pn, None)"
    "?pn \<noteq> EmptyJID"
    by (simp_all add: jid_lib [OF sample_jid_lib_ok] sample_client_def EmptyJID_def)
  then show ?thesis
    by (intro reroute_normalises [OF sample_jid_lib_ok sample_client_ok,
          THEN conjunct2, THEN conjunct2, THEN mp, THEN conjunct1] conjI)
qed

end
