(* ===== verification/WaMessage.thy ===== *)
theory WaMessage
  imports MsgKeys
begin

text \<open>
  WhatsApp messages and what the bridge stores with them: the message protobuf as far as the
  code looks into it, \<open>getMessageType\<close> of \<open>pkg/connector/wamsgtype.go\<close> and the metadata
  records of \<open>pkg/waid/dbmeta.go\<close>.
\<close>

section \<open>The message protobuf\<close>

text \<open>
  The submessages whose presence the code tests. Every one is a pointer; those whose content
  the code reads have their own component in \<open>WAMessage\<close>.
\<close>

datatype MsgField =
    FConversation | FExtendedTextMessage | FImageMessage | FStickerMessage | FVideoMessage | FPtvMessage
  | FAudioMessage | FDocumentMessage | FContactMessage | FContactsArrayMessage | FLocationMessage
  | FLiveLocationMessage | FGroupInviteMessage | FGroupMentionedMessage | FScheduledCallCreationMessage
  | FScheduledCallEditMessage | FReactionMessage | FEncReactionMessage | FEncCommentMessage | FCommentMessage
  | FPollCreationMessage | FPollCreationMessageV2 | FPollCreationMessageV3 | FPollCreationMessageV4
  | FPollCreationMessageV5 | FPollUpdateMessage | FProtocolMessage | FButtonsMessage | FButtonsResponseMessage
  | FTemplateMessage | FHighlyStructuredMessage | FTemplateButtonReplyMessage | FInteractiveMessage
  | FInteractiveResponseMessage | FListMessage | FProductMessage | FListResponseMessage | FOrderMessage
  | FInvoiceMessage | FBotInvokeMessage | FEventMessage | FEventCoverImage | FEncEventResponseMessage
  | FNewsletterAdminInviteMessage | FSecretEncryptedMessage | FPollResultSnapshotMessage
  | FMessageHistoryBundle | FRequestPhoneNumberMessage | FKeepInChatMessage | FStatusMentionMessage
  | FStickerPackMessage | FAlbumMessage | FSendPaymentMessage | FRequestPaymentMessage
  | FDeclinePaymentRequestMessage | FCancelPaymentRequestMessage | FPaymentInviteMessage | FCall | FChat
  | FPlaceholderMessage | FSenderKeyDistributionMessage | FStickerSyncRmrMessage | FPinInChatMessage
  | FRichResponseMessage

datatype ProtocolMessageType =
    REVOKE | MESSAGE_EDIT | EPHEMERAL_SETTING | APP_STATE_SYNC_KEY_SHARE | HISTORY_SYNC_NOTIFICATION
  | INITIAL_SECURITY_NOTIFICATION_SETTING_SYNC | OtherProtocolType nat

record ReactionMessage =
  rm_Key :: "MessageKey option"
  rm_Text :: string

text \<open>
  \<open>media_mime\<close> is the MIME type of the media submessages, \<open>reaction\<close> and
  \<open>protocol\<close> the submessages that are read further, \<open>comment_targets\<close> the
  target keys of the encrypted and the plain comment, and \<open>associated_child\<close> the message
  inside an associated child message.
\<close>

datatype WAMessage = WAMessage
  (plain_fields: "MsgField \<Rightarrow> bool")
  (media_mime: "MsgField \<Rightarrow> string")
  (reaction: "ReactionMessage option")
  (protocol: "ProtocolMsg option")
  (comment_targets: "MessageKey option \<times> MessageKey option")
  (associated_child: "WAMessage option")
and ProtocolMsg = ProtocolMsg
  (pm_Type: ProtocolMessageType)
  (pm_Key: "MessageKey option")
  (pm_EditedMessage: "WAMessage option")
  (pm_EphemeralExpiration: "32 word")
  (pm_EphemeralSettingTimestamp: "int option")

definition has :: "WAMessage \<Rightarrow> MsgField \<Rightarrow> bool" where
  "has m f = (if f = FReactionMessage then reaction m \<noteq> None
              else if f = FProtocolMessage then protocol m \<noteq> None
              else plain_fields m f)"

definition get_reaction_text :: "WAMessage \<Rightarrow> string" where
  "get_reaction_text m = (case reaction m of None \<Rightarrow> [] | Some r \<Rightarrow> rm_Text r)"

section \<open>Message types\<close>

definition protocol_type :: "ProtocolMsg \<Rightarrow> string" where
  "protocol_type p =
     (case pm_Type p of
        REVOKE \<Rightarrow> if pm_Key p = None then ''ignore'' else ''revoke''
      | MESSAGE_EDIT \<Rightarrow> ''edit''
      | EPHEMERAL_SETTING \<Rightarrow> ''disappearing timer change''
      | APP_STATE_SYNC_KEY_SHARE \<Rightarrow> ''ignore''
      | HISTORY_SYNC_NOTIFICATION \<Rightarrow> ''ignore''
      | INITIAL_SECURITY_NOTIFICATION_SETTING_SYNC \<Rightarrow> ''ignore''
      | OtherProtocolType n \<Rightarrow> ''unknown_protocol_'' @ format_nat n)"

text \<open>The cases of the switch in its order, each with its result.\<close>

definition message_type_cases :: "WAMessage \<Rightarrow> (MsgField list \<times> string) list" where
  "message_type_cases m =
    [([FConversation, FExtendedTextMessage], ''text''),
     ([FImageMessage], ''image '' @ media_mime m FImageMessage),
     ([FStickerMessage], ''sticker '' @ media_mime m FStickerMessage),
     ([FVideoMessage], ''video '' @ media_mime m FVideoMessage),
     ([FPtvMessage], ''round video '' @ media_mime m FPtvMessage),
     ([FAudioMessage], ''audio '' @ media_mime m FAudioMessage),
     ([FDocumentMessage], ''document '' @ media_mime m FDocumentMessage),
     ([FContactMessage], ''contact''), ([FContactsArrayMessage], ''contact array''),
     ([FLocationMessage], ''location''), ([FLiveLocationMessage], ''live location start''),
     ([FGroupInviteMessage], ''group invite''), ([FGroupMentionedMessage], ''group mention''),
     ([FScheduledCallCreationMessage], ''scheduled call create''),
     ([FScheduledCallEditMessage], ''scheduled call edit''),
     ([FReactionMessage], if get_reaction_text m = [] then ''reaction remove'' else ''reaction''),
     ([FEncReactionMessage], ''encrypted reaction''), ([FEncCommentMessage], ''encrypted comment''),
     ([FCommentMessage], ''comment''),
     ([FPollCreationMessage, FPollCreationMessageV2, FPollCreationMessageV3], ''poll create''),
     ([FPollCreationMessageV4, FPollCreationMessageV5], ''poll create (vNext)''),
     ([FPollUpdateMessage], ''poll update''),
     ([FProtocolMessage], case protocol m of None \<Rightarrow> [] | Some p \<Rightarrow> protocol_type p),
     ([FButtonsMessage], ''buttons''), ([FButtonsResponseMessage], ''buttons response''),
     ([FTemplateMessage], ''template''), ([FHighlyStructuredMessage], ''highly structured template''),
     ([FTemplateButtonReplyMessage], ''template button reply''), ([FInteractiveMessage], ''interactive''),
     ([FInteractiveResponseMessage], ''interactive response''), ([FListMessage], ''list''),
     ([FProductMessage], ''product''), ([FListResponseMessage], ''list response''), ([FOrderMessage], ''order''),
     ([FInvoiceMessage], ''invoice''), ([FBotInvokeMessage], ''bot invoke''), ([FEventMessage], ''event''),
     ([FEventCoverImage], ''event cover image''), ([FEncEventResponseMessage], ''ignore''),
     ([FNewsletterAdminInviteMessage], ''newsletter admin invite''),
     ([FSecretEncryptedMessage], ''secret encrypted''), ([FPollResultSnapshotMessage], ''poll result snapshot''),
     ([FMessageHistoryBundle], ''message history bundle''), ([FRequestPhoneNumberMessage], ''request phone number''),
     ([FKeepInChatMessage], ''keep in chat''), ([FStatusMentionMessage], ''status mention''),
     ([FStickerPackMessage], ''sticker pack''), ([FAlbumMessage], ''album''),
     ([FSendPaymentMessage, FRequestPaymentMessage, FDeclinePaymentRequestMessage,
       FCancelPaymentRequestMessage, FPaymentInviteMessage], ''payment''),
     ([FCall], ''call''), ([FChat], ''chat''), ([FPlaceholderMessage], ''placeholder''),
     ([FSenderKeyDistributionMessage, FStickerSyncRmrMessage], ''ignore'')]"

definition getMessageType :: "WAMessage option \<Rightarrow> string" where
  "getMessageType waMsg =
     (case waMsg of
        None \<Rightarrow> ''ignore''
      | Some m \<Rightarrow>
          (case find (\<lambda>(fs, _). list_ex (has m) fs) (message_type_cases m) of
             None \<Rightarrow> ''unknown''
           | Some (_, t) \<Rightarrow> t))"

text \<open>The test that both history sync and the live handler make on a message type.\<close>

definition skipped_type :: "string \<Rightarrow> bool" where
  "skipped_type t \<longleftrightarrow> t = ''ignore'' \<or> has_prefix t ''unknown_protocol_''"

section \<open>Message metadata\<close>

datatype MessageErrorType = MsgNoError | MsgErrDecryptionFailed | MsgErrMediaNotFound

record GroupInviteMeta =
  gi_JID :: jid
  gi_Code :: string
  gi_Expiration :: int
  gi_Inviter :: jid
  gi_GroupName :: string
  gi_IsParentGroup :: bool

record MessageMetadata =
  md_SenderDeviceID :: "16 word"
  md_Error :: MessageErrorType
  md_BroadcastListJID :: "jid option"
  md_GroupInvite :: "GroupInviteMeta option"
  md_FailedMediaMeta :: "string option"
  md_DirectMediaMeta :: "string option"
  md_IsMatrixPoll :: bool
  md_Edits :: "string list"

definition empty_metadata :: MessageMetadata where
  "empty_metadata = \<lparr>md_SenderDeviceID = 0, md_Error = MsgNoError, md_BroadcastListJID = None,
     md_GroupInvite = None, md_FailedMediaMeta = None, md_DirectMediaMeta = None, md_IsMatrixPoll = False,
     md_Edits = []\<rparr>"

definition CopyFrom :: "MessageMetadata \<Rightarrow> MessageMetadata \<Rightarrow> MessageMetadata" where
  "CopyFrom mm other =
     mm\<lparr>md_SenderDeviceID := md_SenderDeviceID other, md_Error := md_Error other,
        md_BroadcastListJID := coalesce (md_BroadcastListJID other) (md_BroadcastListJID mm),
        md_FailedMediaMeta := coalesce (md_FailedMediaMeta other) (md_FailedMediaMeta mm),
        md_DirectMediaMeta := coalesce (md_DirectMediaMeta other) (md_DirectMediaMeta mm),
        md_GroupInvite := coalesce (md_GroupInvite other) (md_GroupInvite mm),
        md_IsMatrixPoll := (md_IsMatrixPoll mm \<or> md_IsMatrixPoll other)\<rparr>"

record PortalMetadata =
  pmd_DisappearingTimerSetAt :: int
  pmd_TopicID :: string
  pmd_LastSync :: gotime
  pmd_CommunityAnnouncementGroup :: bool
  pmd_AddressingMode :: AddressingMode
  pmd_LIDMigrationAttempted :: bool

section \<open>Lemmas\<close>

lemma get_str_simps [simp]: "get_str None = []" "get_str (Some s) = s"
  by (simp_all add: get_str_def)

lemma coalesce_simps [simp]: "coalesce None y = y" "coalesce (Some x) y = Some x"
  by (simp_all add: coalesce_def)

text \<open>A message with one submessage only takes the case of that submessage.\<close>

definition only :: "WAMessage \<Rightarrow> MsgField \<Rightarrow> bool" where
  "only m f \<longleftrightarrow> (\<forall>g. has m g \<longleftrightarrow> g = f)"

text \<open>The submessages that no case of the switch names.\<close>

definition untyped_fields :: "MsgField list" where
  "untyped_fields = [FPinInChatMessage, FRichResponseMessage]"

definition ignored_fields :: "MsgField list" where
  "ignored_fields = [FEncEventResponseMessage, FSenderKeyDistributionMessage, FStickerSyncRmrMessage]"

lemma has_protocol: "has m FProtocolMessage \<longleftrightarrow> protocol m \<noteq> None"
  by (simp add: has_def)

lemma protocol_type_skipped:
  "skipped_type (protocol_type p) \<longleftrightarrow>
     pm_Type p \<in> {APP_STATE_SYNC_KEY_SHARE, HISTORY_SYNC_NOTIFICATION, INITIAL_SECURITY_NOTIFICATION_SETTING_SYNC}
     \<or> (pm_Type p = REVOKE \<and> pm_Key p = None) \<or> (\<exists>n. pm_Type p = OtherProtocolType n)"
  by (cases "pm_Type p") (simp_all add: protocol_type_def skipped_type_def has_prefix_def)

lemma find_cong_pred: "(\<And>x. x \<in> set xs \<Longrightarrow> P x = Q x) \<Longrightarrow> find P xs = find Q xs"
  by (induction xs) auto

lemma getMessageType_only:
  assumes "only m f"
  shows "getMessageType (Some m) =
    (case find (\<lambda>(fs, _). f \<in> set fs) (message_type_cases m) of None \<Rightarrow> ''unknown'' | Some (_, t) \<Rightarrow> t)"
proof -
  have "find (\<lambda>(fs, _). list_ex (has m) fs) (message_type_cases m) = find (\<lambda>(fs, _). f \<in> set fs) (message_type_cases m)"
    using assms by (intro find_cong_pred) (auto simp: only_def list_ex_iff)
  then show ?thesis by (simp add: getMessageType_def)
qed

section \<open>Properties\<close>

definition bare_message :: "MsgField \<Rightarrow> WAMessage" where
  "bare_message f = WAMessage (\<lambda>g. g = f \<and> f \<notin> {FReactionMessage, FProtocolMessage}) (\<lambda>_. [])
     (if f = FReactionMessage then Some \<lparr>rm_Key = None, rm_Text = []\<rparr> else None)
     (if f = FProtocolMessage then Some (ProtocolMsg EPHEMERAL_SETTING None None 0 None) else None) (None, None) None"

text \<open>A message with a single submessage is dropped as ignorable or as an unknown protocol
  message exactly when that submessage is an encrypted event response, a sender key
  distribution or a sticker sync request, or a protocol message that is a key share, a history
  sync notification, a security setting sync, a revocation without a key or of a type the
  switch does not name; it is reported as unknown exactly for the two submessages the switch
  lacks although they can be converted. So no submessage with content is lost.\<close>

theorem message_type_of_single:
  assumes "only m f"
  shows "(skipped_type (getMessageType (Some m)) \<longleftrightarrow>
      f \<in> set ignored_fields \<or> (\<exists>p. f = FProtocolMessage \<and> protocol m = Some p \<and>
        (pm_Type p \<in> {APP_STATE_SYNC_KEY_SHARE, HISTORY_SYNC_NOTIFICATION, INITIAL_SECURITY_NOTIFICATION_SETTING_SYNC}
         \<or> (pm_Type p = REVOKE \<and> pm_Key p = None) \<or> (\<exists>n. pm_Type p = OtherProtocolType n))))
    \<and> (f \<noteq> FProtocolMessage \<longrightarrow> (getMessageType (Some m) = ''unknown'' \<longleftrightarrow> f \<in> set untyped_fields))"
proof (cases "f = FProtocolMessage")
  case True
  with assms obtain p where "protocol m = Some p"
    using has_protocol [of m] by (auto simp: only_def)
  with True show ?thesis
    unfolding getMessageType_only [OF assms]
    by (simp add: message_type_cases_def protocol_type_skipped ignored_fields_def)
next
  case False
  then show ?thesis
    unfolding getMessageType_only [OF assms]
    by (cases f) (simp_all add: message_type_cases_def skipped_type_def has_prefix_def ignored_fields_def untyped_fields_def)
qed

theorem message_type_of_single_witness:
  "skipped_type (getMessageType (Some (bare_message FStickerSyncRmrMessage)))
    \<and> getMessageType (Some (bare_message FPinInChatMessage)) = ''unknown''"
  using message_type_of_single [of "bare_message FStickerSyncRmrMessage" FStickerSyncRmrMessage]
    message_type_of_single [of "bare_message FPinInChatMessage" FPinInChatMessage]
  by (simp add: only_def has_def bare_message_def ignored_fields_def untyped_fields_def)

end
