(* ===== verification/Media.thy ===== *)
theory Media
  imports WaMessage
begin

text \<open>
  Media messages: \<open>pkg/msgconv/wa-media.go\<close> and the size computation of
  \<open>pkg/msgconv/thumbnail.go\<close>. Downloads, uploads, the sticker converter and the codecs are
  fields of \<open>media_env\<close>. The optional interfaces of a media message (a caption,
  dimensions, a duration) are optional fields of it. Go's integer division panics on zero.
\<close>

section \<open>Data\<close>

datatype EventType = EventMessage | EventSticker | EventUnstablePollStart | EventUnstablePollResponse

datatype MsgType = MsgNone | MsgText | MsgNotice | MsgImage | MsgFile | MsgAudio | MsgVideo

record FileInfo =
  fi_MimeType :: string
  fi_Size :: int
  fi_Width :: int
  fi_Height :: int
  fi_Duration :: int
  fi_Thumbnail :: "(string \<times> string) option"

record MessageEventContent =
  ct_MsgType :: MsgType
  ct_Body :: string
  ct_HTML :: bool
  ct_FormattedBody :: string
  ct_FileName :: string
  ct_URL :: string
  ct_Info :: FileInfo
  ct_AudioDuration :: "int option"
  ct_Waveform :: "nat list"
  ct_Voice :: bool
  ct_Mentions :: "string list"

definition empty_info :: FileInfo where
  "empty_info = \<lparr>fi_MimeType = [], fi_Size = 0, fi_Width = 0, fi_Height = 0, fi_Duration = 0, fi_Thumbnail = None\<rparr>"

definition empty_content :: MessageEventContent where
  "empty_content = \<lparr>ct_MsgType = MsgNone, ct_Body = [], ct_HTML = False, ct_FormattedBody = [], ct_FileName = [],
     ct_URL = [], ct_Info = empty_info, ct_AudioDuration = None, ct_Waveform = [], ct_Voice = False, ct_Mentions = []\<rparr>"

record ContextInfo =
  ci_MentionedJID :: "string list"
  ci_Expiration :: "32 word"
  ci_EphemeralSettingTimestamp :: int
  ci_StanzaID :: string
  ci_Participant :: string
  ci_RemoteJID :: string
  ci_IsForwarded :: bool
  ci_MotionPhoto :: bool

definition nil_context :: ContextInfo where
  "nil_context = \<lparr>ci_MentionedJID = [], ci_Expiration = 0, ci_EphemeralSettingTimestamp = 0, ci_StanzaID = [],
     ci_Participant = [], ci_RemoteJID = [], ci_IsForwarded = False, ci_MotionPhoto = False\<rparr>"

record FailedMediaKeys =
  fk_Key :: "byte list"
  fk_Length :: "64 word"
  fk_Type :: string
  fk_SHA256 :: "byte list"
  fk_EncSHA256 :: "byte list"
  fk_DirectPath :: string
  fk_MimeType :: string

record PreparedMedia =
  pm_EvType :: EventType
  pm_Content :: MessageEventContent
  pm_Gif :: bool
  pm_FailedKeys :: "FailedMediaKeys option"
  pm_MentionedJID :: "string list"
  pm_TypeDescription :: string
  pm_ContextInfo :: "ContextInfo option"

datatype MediaKind = KImage | KDocument | KAudio | KSticker | KVideo

text \<open>
  \<open>mm_Dimensions\<close> is width and height; an absent option means that the message type does not
  have the accessor.
\<close>

record MediaMessage =
  mm_Kind :: MediaKind
  mm_Seconds :: "32 word option"
  mm_Dimensions :: "(32 word \<times> 32 word) option"
  mm_Caption :: "string option"
  mm_FileName :: string
  mm_PTT :: bool
  mm_Waveform :: "byte list"
  mm_GifPlayback :: bool
  mm_Keys :: FailedMediaKeys
  mm_ContextInfo :: "ContextInfo option"

text \<open>A converted part; \<open>part_FailedMedia\<close> and \<open>part_SourceBroadcast\<close> are entries of its
  extra map.\<close>

record ConvertedPart =
  part_Type :: EventType
  part_Content :: MessageEventContent
  part_Gif :: bool
  part_FailedMedia :: "PreparedMedia option"
  part_SourceBroadcast :: "string option"
  part_DBMetadata :: "MessageMetadata option"
  part_DontBridge :: bool

definition plain_part :: "EventType \<Rightarrow> MessageEventContent \<Rightarrow> ConvertedPart" where
  "plain_part t c = \<lparr>part_Type = t, part_Content = c, part_Gif = False, part_FailedMedia = None,
     part_SourceBroadcast = None, part_DBMetadata = None, part_DontBridge = False\<rparr>"

definition notice :: "string \<Rightarrow> MessageEventContent" where
  "notice body = empty_content\<lparr>ct_MsgType := MsgNotice, ct_Body := body\<rparr>"

datatype dl_error = FileLengthMismatch | InvalidMediaSHA256 | FailedWith403 | FailedWith404 | FailedWith410 | OtherDownloadError

datatype media_error = DownloadFailed dl_error | ReuploadFailed gerror | StickerFailed gerror

text \<open>
  The sticker converter: the configured target and arguments, whether lottieconverter is
  installed, Go's zip reader (an archive is a lookup of its files), the converters and the
  rendering of a size in MiB with two decimals. The file that FFmpeg wrote is read back.
\<close>

record zip_file =
  zf_Stat :: "gerror + int"
  zf_Data :: "gerror + byte list"

record sticker_env =
  sk_Target :: string
  sk_Width :: int
  sk_Height :: int
  sk_FPS :: int
  sk_supported :: bool
  sk_zip :: "byte list \<Rightarrow> gerror + (string \<Rightarrow> gerror + zip_file)"
  sk_convert :: "byte list \<Rightarrow> string \<Rightarrow> int \<Rightarrow> int \<Rightarrow> string \<Rightarrow> gerror + byte list"
  sk_ffmpeg :: "byte list \<Rightarrow> string \<Rightarrow> int \<Rightarrow> int \<Rightarrow> int \<Rightarrow> gerror + byte list option \<times> (gerror + byte list)"
  sk_mib :: "int \<Rightarrow> string"

record media_env =
  mv_L :: jid_lib
  mv_ext :: "string \<Rightarrow> string"
  mv_download :: "FailedMediaKeys \<Rightarrow> byte list \<times> dl_error option"
  mv_sticker :: sticker_env
  mv_detect :: "byte list \<Rightarrow> string"
  mv_upload :: "byte list \<Rightarrow> string \<Rightarrow> string \<Rightarrow> gerror + string"
  mv_generate_uri :: "byte list \<Rightarrow> gerror + string"
  mv_marshal_keys :: "FailedMediaKeys \<Rightarrow> gerror + string"
  mv_marshal_media :: "PreparedMedia \<Rightarrow> string option"
  mv_parse_formatting :: "MessageEventContent \<Rightarrow> MessageEventContent"
  mv_ensure_html :: "MessageEventContent \<Rightarrow> MessageEventContent"
  mv_DisableViewOnce :: bool
  mv_DirectMedia :: bool
  mv_OldMediaSuffix :: string

section \<open>Sizes\<close>

definition go_div :: "int \<Rightarrow> int \<Rightarrow> int outcome" where
  "go_div a b = (if b = 0 then Panic else Ok (a div b))"

definition WhatsAppStickerSize :: int where "WhatsAppStickerSize = 190"

definition sticker_size :: "int \<Rightarrow> int \<Rightarrow> (int \<times> int) outcome" where
  "sticker_size w h =
     (if w = h then Ok (WhatsAppStickerSize, WhatsAppStickerSize)
      else if w > h then obind (go_div h (w div WhatsAppStickerSize)) (\<lambda>h'. Ok (WhatsAppStickerSize, h'))
      else obind (go_div w (h div WhatsAppStickerSize)) (\<lambda>w'. Ok (w', WhatsAppStickerSize)))"

definition thumbnailMaxSize :: int where "thumbnailMaxSize = 72"
definition thumbnailMinSize :: int where "thumbnailMinSize = 24"

definition thumbnail_size :: "int \<Rightarrow> int \<Rightarrow> (int \<times> int) outcome" where
  "thumbnail_size width height =
     (if width \<le> thumbnailMaxSize \<and> height \<le> thumbnailMaxSize then Ok (width, height)
      else obind
        (if width = height then Ok (thumbnailMaxSize, thumbnailMaxSize)
         else if width < height then
           obind (go_div width (height div thumbnailMaxSize)) (\<lambda>w. Ok (w, thumbnailMaxSize))
         else obind (go_div height (width div thumbnailMaxSize)) (\<lambda>h. Ok (thumbnailMaxSize, h)))
        (\<lambda>(w, h). Ok (if w < thumbnailMinSize then thumbnailMinSize else w,
                      if h < thumbnailMinSize then thumbnailMinSize else h)))"

section \<open>Preparing a media message\<close>

definition prepareMediaMessage :: "media_env \<Rightarrow> MediaMessage \<Rightarrow> PreparedMedia outcome" where
  "prepareMediaMessage V m =
     (let mime = fk_MimeType (mm_Keys m);
          (w, h) = (case mm_Dimensions m of None \<Rightarrow> (0, 0) | Some (w, h) \<Rightarrow> (uint w, uint h));
          info = empty_info
            \<lparr>fi_Duration := (case mm_Seconds m of None \<Rightarrow> 0 | Some s \<Rightarrow> uint (s * 1000)),
             fi_Width := w, fi_Height := h,
             fi_Size := sint (fk_Length (mm_Keys m)), fi_MimeType := mime\<rparr>;
          body = (case mm_Caption m of Some c \<Rightarrow> if c \<noteq> [] then c else [] | None \<Rightarrow> []);
          content = empty_content\<lparr>ct_Body := body, ct_Info := info\<rparr>;
          data = (\<lambda>t c g. \<lparr>pm_EvType = t, pm_Content = c, pm_Gif = g, pm_FailedKeys = None, pm_MentionedJID = [],
                    pm_TypeDescription = [], pm_ContextInfo = mm_ContextInfo m\<rparr>)
      in case mm_Kind m of
           KImage \<Rightarrow> Ok (data EventMessage (content\<lparr>ct_MsgType := MsgImage, ct_FileName := ''image'' @ mv_ext V mime\<rparr>) False)
         | KDocument \<Rightarrow> Ok (data EventMessage (content\<lparr>ct_MsgType := MsgFile, ct_FileName := mm_FileName m\<rparr>) False)
         | KAudio \<Rightarrow> Ok (data EventMessage (content
               \<lparr>ct_MsgType := MsgAudio,
                ct_AudioDuration := Some (case mm_Seconds m of None \<Rightarrow> 0 | Some s \<Rightarrow> uint (s * 1000)),
                ct_Waveform := map unat (mm_Waveform m), ct_Voice := mm_PTT m,
                ct_FileName := (if mm_PTT m then ''Voice message'' else ''audio'') @ mv_ext V mime\<rparr>) False)
         | KSticker \<Rightarrow>
             (let fn = ''sticker'' @ mv_ext V mime;
                  fn' = (if mime = ''application/was'' \<and> fn = ''sticker'' then ''sticker.json'' else fn)
              in obind (sticker_size w h) (\<lambda>(w', h'). Ok (data EventSticker
                   (content\<lparr>ct_FileName := fn', ct_Info := info\<lparr>fi_Width := w', fi_Height := h'\<rparr>\<rparr>) False)))
         | KVideo \<Rightarrow>
             (let gif = (mm_GifPlayback m \<or> (case mm_ContextInfo m of None \<Rightarrow> False | Some ci \<Rightarrow> ci_MotionPhoto ci))
              in Ok (data EventMessage (content\<lparr>ct_MsgType := MsgVideo, ct_FileName := ''video'' @ mv_ext V mime\<rparr>) gif)))"

definition msgtype_name :: "MsgType \<Rightarrow> string" where
  "msgtype_name t = (case t of MsgNone \<Rightarrow> [] | MsgText \<Rightarrow> ''m.text'' | MsgNotice \<Rightarrow> ''m.notice'' | MsgImage \<Rightarrow> ''m.image''
     | MsgFile \<Rightarrow> ''m.file'' | MsgAudio \<Rightarrow> ''m.audio'' | MsgVideo \<Rightarrow> ''m.video'')"

definition FillFileName :: "media_env \<Rightarrow> PreparedMedia \<Rightarrow> PreparedMedia" where
  "FillFileName V pm =
     (let c = pm_Content pm in
      if ct_FileName c = []
      then pm\<lparr>pm_Content := c\<lparr>ct_FileName :=
             trim_prefix (msgtype_name (ct_MsgType c)) ''m.'' @ mv_ext V (fi_MimeType (ct_Info c))\<rparr>\<rparr>
      else pm)"

section \<open>Downloading and uploading\<close>

definition uploadFileThreshold :: int where "uploadFileThreshold = 5 * 1024 * 1024"

definition set_mime :: "string \<Rightarrow> PreparedMedia \<Rightarrow> PreparedMedia" where
  "set_mime m pm = pm\<lparr>pm_Content := (pm_Content pm)\<lparr>ct_Info := (ct_Info (pm_Content pm))\<lparr>fi_MimeType := m\<rparr>\<rparr>\<rparr>"

definition detect_mime :: "media_env \<Rightarrow> byte list \<Rightarrow> PreparedMedia \<Rightarrow> PreparedMedia" where
  "detect_mime V data pm =
     (if fi_MimeType (ct_Info (pm_Content pm)) = [] then set_mime (mv_detect V data) pm else pm)"

definition tolerated :: "dl_error \<Rightarrow> bool" where
  "tolerated e \<longleftrightarrow> e = FileLengthMismatch \<or> e = InvalidMediaSHA256"

definition fatal_error :: "dl_error option \<Rightarrow> dl_error option" where
  "fatal_error err = (case err of None \<Rightarrow> None | Some e \<Rightarrow> if tolerated e then None else Some e)"

definition set_url :: "string \<Rightarrow> PreparedMedia \<Rightarrow> PreparedMedia" where
  "set_url u pm = pm\<lparr>pm_Content := (pm_Content pm)\<lparr>ct_URL := u\<rparr>\<rparr>"

text \<open>
  The part is a pointer in Go: what was filled in stays filled in when a later step fails, so
  the steps return it together with their error.
\<close>

definition upload_part :: "media_env \<Rightarrow> byte list \<Rightarrow> PreparedMedia \<Rightarrow> PreparedMedia \<times> media_error option" where
  "upload_part V data pm =
     (let pm' = FillFileName V pm in
      case mv_upload V data (ct_FileName (pm_Content pm')) (fi_MimeType (ct_Info (pm_Content pm'))) of
        Inl e \<Rightarrow> (pm', Some (ReuploadFailed e))
      | Inr url \<Rightarrow> (set_url url pm', None))"

definition attach_thumbnail :: "media_env \<Rightarrow> (byte list \<times> FileInfo) option \<Rightarrow> PreparedMedia \<Rightarrow> PreparedMedia" where
  "attach_thumbnail V thumb pm =
     (case thumb of
        None \<Rightarrow> pm
      | Some (data, info) \<Rightarrow>
         (case mv_upload V data (''thumbnail'' @ mv_ext V (fi_MimeType info)) (fi_MimeType info) of
            Inl _ \<Rightarrow> pm
          | Inr url \<Rightarrow> pm\<lparr>pm_Content := (pm_Content pm)\<lparr>ct_Info := (ct_Info (pm_Content pm))\<lparr>fi_Thumbnail := Some (url, fi_MimeType info)\<rparr>\<rparr>\<rparr>))"

subsection \<open>Animated stickers\<close>

definition wrap_err :: "string \<Rightarrow> gerror + 'a \<Rightarrow> gerror + 'a" where
  "wrap_err m r = (case r of Inl e \<Rightarrow> Inl (Wrap m e) | Inr x \<Rightarrow> Inr x)"

definition andThen :: "gerror + 'a \<Rightarrow> ('a \<Rightarrow> gerror + 'b) \<Rightarrow> gerror + 'b" where
  "andThen r f = (case r of Inl e \<Rightarrow> Inl e | Inr x \<Rightarrow> f x)"

lemma andThen_Inr [simp]: "andThen r f = Inr y \<longleftrightarrow> (\<exists>x. r = Inr x \<and> f x = Inr y)"
  by (cases r) (simp_all add: andThen_def)

lemma wrap_err_Inr [simp]: "wrap_err m r = Inr y \<longleftrightarrow> r = Inr y"
  by (cases r) (simp_all add: wrap_err_def)

definition ExtractAnimatedSticker :: "sticker_env \<Rightarrow> byte list \<Rightarrow> gerror + byte list" where
  "ExtractAnimatedSticker K data =
     andThen (wrap_err ''failed to read sticker zip'' (sk_zip K data)) (\<lambda>files.
     andThen (wrap_err ''failed to open animation.json'' (files ''animation/animation.json'')) (\<lambda>f.
     andThen (wrap_err ''failed to stat animation.json'' (zf_Stat f)) (\<lambda>size.
     if size > uploadFileThreshold
     then Inl (Err (''animation.json is too large ('' @ sk_mib K size @ '' MiB)''))
     else wrap_err ''failed to read animation.json'' (zf_Data f))))"

definition set_sticker :: "string \<Rightarrow> string \<Rightarrow> PreparedMedia \<Rightarrow> PreparedMedia" where
  "set_sticker mime name pm =
     (set_mime mime pm)\<lparr>pm_Content := (pm_Content (set_mime mime pm))\<lparr>ct_FileName := name\<rparr>\<rparr>"

definition extractAnimatedSticker :: "sticker_env \<Rightarrow> PreparedMedia \<Rightarrow> byte list \<Rightarrow> PreparedMedia \<times> (gerror + byte list)" where
  "extractAnimatedSticker K pm data =
     (case ExtractAnimatedSticker K data of
        Inl e \<Rightarrow> (pm, Inl e)
      | Inr d \<Rightarrow> (set_sticker ''video/lottie+json'' ''sticker.json'' pm, Inr d))"

definition sticker_thumbnail :: "sticker_env \<Rightarrow> byte list option \<Rightarrow> (byte list \<times> FileInfo) option" where
  "sticker_thumbnail K thumb =
     (case thumb of
        None \<Rightarrow> None
      | Some d \<Rightarrow> Some (d, empty_info\<lparr>fi_MimeType := ''image/png'', fi_Width := sk_Width K, fi_Height := sk_Height K,
                           fi_Size := int (length d)\<rparr>))"

definition convert_to :: "sticker_env \<Rightarrow> byte list \<Rightarrow> gerror + byte list \<times> (byte list \<times> FileInfo) option" where
  "convert_to K input =
     (let T = sk_Target K in
      if T = ''png'' \<or> T = ''gif'' then
        andThen (sk_convert K input T (sk_Width K) (sk_Height K) (if T = ''png'' then ''1'' else format_int (sk_FPS K)))
          (\<lambda>out. Inr (out, None))
      else if T = ''webm'' \<or> T = ''webp'' then
        andThen (sk_ffmpeg K input T (sk_Width K) (sk_Height K) (sk_FPS K)) (\<lambda>(thumb, file).
        andThen (wrap_err ''failed to read converted file'' file) (\<lambda>out. Inr (out, sticker_thumbnail K thumb)))
      else Inl (Err (''unsupported target format '' @ T)))"

definition convertAnimatedSticker ::
  "sticker_env \<Rightarrow> PreparedMedia \<Rightarrow> byte list \<Rightarrow> PreparedMedia \<times> (gerror + byte list \<times> (byte list \<times> FileInfo) option)" where
  "convertAnimatedSticker K pm zipped =
     (case extractAnimatedSticker K pm zipped of
        (pm', Inl e) \<Rightarrow> (pm', Inl e)
      | (pm', Inr data) \<Rightarrow>
          if sk_Target K = ''disable'' \<or> \<not> sk_supported K then (pm', Inr (data, None))
          else (set_sticker (''image/'' @ sk_Target K) (''sticker.'' @ sk_Target K) pm', convert_to K data))"

subsection \<open>Attachments\<close>

definition attach_sticker :: "media_env \<Rightarrow> PreparedMedia \<Rightarrow> byte list \<Rightarrow> PreparedMedia \<times> media_error option" where
  "attach_sticker V part zipped =
     (case convertAnimatedSticker (mv_sticker V) part zipped of
        (pm, Inl e) \<Rightarrow> (pm, Some (StickerFailed e))
      | (pm, Inr (data, thumb)) \<Rightarrow>
          (case upload_part V data (detect_mime V data pm) of
             (pm', None) \<Rightarrow> (attach_thumbnail V thumb pm', None)
           | (pm', Some e) \<Rightarrow> (pm', Some e)))"

definition reuploadWhatsAppAttachment ::
  "media_env \<Rightarrow> FailedMediaKeys \<Rightarrow> PreparedMedia \<Rightarrow> PreparedMedia \<times> media_error option" where
  "reuploadWhatsAppAttachment V keys part =
     (case mv_download V keys of
        (data, err) \<Rightarrow>
          (case fatal_error err of
             Some e \<Rightarrow> (part, Some (DownloadFailed e))
           | None \<Rightarrow>
               if fi_Size (ct_Info (pm_Content part)) > uploadFileThreshold
               then upload_part V data (detect_mime V (take 512 data) part)
               else if pm_EvType part = EventSticker \<and> fi_MimeType (ct_Info (pm_Content part)) = ''application/was''
               then attach_sticker V part data
               else upload_part V data (detect_mime V data part)))"

section \<open>Failures\<close>

definition expired_media :: "media_error \<Rightarrow> bool" where
  "expired_media e \<longleftrightarrow> e \<in> {DownloadFailed FailedWith403, DownloadFailed FailedWith404, DownloadFailed FailedWith410}"

definition append_caption :: "media_env \<Rightarrow> MessageEventContent \<Rightarrow> MessageEventContent \<Rightarrow> MessageEventContent" where
  "append_caption V mediaInfo c =
     (if ct_FormattedBody mediaInfo \<noteq> [] then
        (let c' = mv_ensure_html V c in
         c'\<lparr>ct_FormattedBody := ct_FormattedBody c' @ ''<br><br>'' @ ct_FormattedBody mediaInfo,
            ct_Body := ct_Body c' @ [char_of (10::nat), char_of (10::nat)] @ ct_Body mediaInfo\<rparr>)
      else if ct_Body mediaInfo \<noteq> [] \<and> ct_FileName mediaInfo \<noteq> [] \<and> ct_Body mediaInfo \<noteq> ct_FileName mediaInfo
      then c\<lparr>ct_Body := ct_Body c @ [char_of (10::nat), char_of (10::nat)] @ ct_Body mediaInfo\<rparr>
      else c)"

definition makeMediaFailure ::
  "media_env \<Rightarrow> PreparedMedia \<Rightarrow> FailedMediaKeys option \<Rightarrow> media_error \<Rightarrow> ConvertedPart" where
  "makeMediaFailure V mediaInfo keys err =
     (case keys of
        Some k \<Rightarrow>
          if expired_media err then
            (let info = mediaInfo\<lparr>pm_FailedKeys := Some (k\<lparr>fk_DirectPath := []\<rparr>),
                   pm_MentionedJID := (case pm_ContextInfo mediaInfo of None \<Rightarrow> [] | Some ci \<Rightarrow> ci_MentionedJID ci)\<rparr>
             in (plain_part EventMessage (append_caption V (pm_Content mediaInfo)
                   (notice (''Old '' @ pm_TypeDescription mediaInfo @ ''. '' @ mv_OldMediaSuffix V))))
                \<lparr>part_FailedMedia := Some info,
                 part_DBMetadata := Some (empty_metadata\<lparr>md_Error := MsgErrMediaNotFound,
                   md_FailedMediaMeta := mv_marshal_media V info\<rparr>)\<rparr>)
          else plain_part EventMessage (append_caption V (pm_Content mediaInfo)
                 (notice (''Failed to bridge '' @ pm_TypeDescription mediaInfo @ '', please view it on the WhatsApp app'')))
      | None \<Rightarrow> plain_part EventMessage (append_caption V (pm_Content mediaInfo)
                 (notice (''Failed to bridge '' @ pm_TypeDescription mediaInfo @ '', please view it on the WhatsApp app''))))"

section \<open>Converting and retrying\<close>

definition view_once_notice :: "bool \<Rightarrow> MessageEventContent" where
  "view_once_notice fromMe = notice
     (if fromMe then ''You sent a view once message from another device.''
      else ''You received a view once message. For added privacy, you can only open it on the WhatsApp app.'')"

definition convertMediaMessage ::
  "media_env \<Rightarrow> MediaMessage \<Rightarrow> string \<Rightarrow> MessageInfo \<Rightarrow> string \<Rightarrow> string \<Rightarrow> bool \<Rightarrow> ConvertedPart option \<Rightarrow>
   (ConvertedPart \<times> ContextInfo option) outcome" where
  "convertMediaMessage V msg typeName info idOverride receiver isViewOnce cachedPart =
     (if mv_DisableViewOnce V \<and> isViewOnce
      then Ok (plain_part EventMessage (view_once_notice (mi_IsFromMe info)), None)
      else obind (prepareMediaMessage V msg) (\<lambda>pm0.
        let pm1 = pm0\<lparr>pm_TypeDescription := typeName\<rparr>;
            c = pm_Content pm1;
            pm = (if ct_FileName c \<noteq> [] \<and> ct_Body c \<noteq> ct_FileName c
                  then pm1\<lparr>pm_Content := mv_parse_formatting V c\<rparr> else pm1);
            keys = (mm_Keys msg)\<lparr>fk_DirectPath := []\<rparr>
        in case (if fk_DirectPath (mm_Keys msg) = [] then cachedPart else None) of
             Some cached \<Rightarrow> Ok (cached\<lparr>part_Content := (part_Content cached)
               \<lparr>ct_Body := ct_Body (pm_Content pm), ct_HTML := ct_HTML (pm_Content pm),
                ct_FormattedBody := ct_FormattedBody (pm_Content pm)\<rparr>\<rparr>, pm_ContextInfo pm)
           | None \<Rightarrow>
               if mv_DirectMedia V then
                 (let pm2 = FillFileName V pm;
                      pm3 = (if fi_MimeType (ct_Info (pm_Content pm2)) = ''application/was''
                             then (set_mime ''video/lottie+json'' pm2)\<lparr>pm_Content :=
                               (pm_Content (set_mime ''video/lottie+json'' pm2))\<lparr>ct_FileName := ''sticker.json''\<rparr>\<rparr>
                             else pm2)
                  in obind (MakeMediaID (mv_L V) info idOverride receiver) (\<lambda>mediaID.
                     case (mv_generate_uri V mediaID, mv_marshal_keys V (mm_Keys msg)) of
                       (Inr uri, Inr meta) \<Rightarrow>
                         Ok ((plain_part (pm_EvType pm3) (pm_Content (set_url uri pm3)))
                           \<lparr>part_Gif := pm_Gif pm3,
                            part_DBMetadata := Some (empty_metadata\<lparr>md_DirectMediaMeta := Some meta\<rparr>)\<rparr>, pm_ContextInfo pm)
                     | _ \<Rightarrow> Panic))
               else (case reuploadWhatsAppAttachment V (mm_Keys msg) pm of
                       (pm', Some err) \<Rightarrow> Ok (makeMediaFailure V pm' (Some keys) err, pm_ContextInfo pm)
                     | (pm', None) \<Rightarrow> Ok ((plain_part (pm_EvType pm') (pm_Content pm'))\<lparr>part_Gif := pm_Gif pm'\<rparr>, pm_ContextInfo pm))))"

text \<open>A retry without stored keys would dereference nil.\<close>

definition MediaRetryToMatrix :: "media_env \<Rightarrow> PreparedMedia \<Rightarrow> ConvertedPart outcome" where
  "MediaRetryToMatrix V part =
     (case pm_FailedKeys part of
        None \<Rightarrow> Panic
      | Some keys \<Rightarrow>
         (case reuploadWhatsAppAttachment V keys part of
            (part', Some err) \<Rightarrow> Ok (makeMediaFailure V part' None err)
          | (part', None) \<Rightarrow>
              (let c = pm_Content part';
                   c' = (if pm_EvType part' = EventSticker then c\<lparr>ct_MsgType := MsgImage\<rparr> else c)
               in Ok ((plain_part EventMessage c')\<lparr>part_Gif := pm_Gif part'\<rparr>))))"

section \<open>Lemmas\<close>

lemma go_div_eq [simp]: "go_div a b = Panic \<longleftrightarrow> b = 0" "b \<noteq> 0 \<Longrightarrow> go_div a b = Ok (a div b)"
  by (simp_all add: go_div_def)

lemma div_zero_iff: "0 \<le> n \<Longrightarrow> (0::int) < d \<Longrightarrow> n div d = 0 \<longleftrightarrow> n < d"
  by (auto simp: zdiv_eq_0_iff)

lemma sticker_size_Panic:
  "0 \<le> w \<Longrightarrow> 0 \<le> h \<Longrightarrow> sticker_size w h = Panic \<longleftrightarrow> w \<noteq> h \<and> max w h < WhatsAppStickerSize"
  by (auto simp: sticker_size_def outcome_simps div_zero_iff WhatsAppStickerSize_def)

text \<open>Dividing the short side by the truncated ratio can leave it longer than the limit.\<close>

lemma scaled_side_bound:
  assumes "0 \<le> a" "a < b" "(d::int) \<le> b" "0 < d"
  shows "a div (b div d) < 2 * d"
proof -
  let ?k = "b div d"
  have k: "1 \<le> ?k" using assms(3,4) by (simp add: int_one_le_iff_zero_less pos_imp_zdiv_pos_iff)
  have "b < d * (?k + 1)" using assms(4) by (metis add.commute mult.commute zmod_trivial_iff div_mult_mod_eq pos_mod_bound
        distrib_left mult.right_neutral add_less_cancel_left)
  also have "d * (?k + 1) \<le> 2 * d * ?k" using k assms(4) by (simp add: distrib_left mult.assoc)
  finally have "a < 2 * d * ?k" using assms(2) by simp
  have "a div ?k * ?k + a mod ?k = a" by (rule div_mult_mod_eq)
  moreover have "0 \<le> a mod ?k" using k by simp
  ultimately have "a div ?k * ?k < 2 * d * ?k" using \<open>a < 2 * d * ?k\<close> by linarith
  then show ?thesis using k by (simp add: mult_less_cancel_right)
qed

section \<open>Properties\<close>

text \<open>The thumbnail size computation never divides by zero, and a resized thumbnail has
  sides of at least 24; a side that is longer than 72 is always the shorter side of the source
  and is below 144.\<close>

theorem thumbnail_size_bounds:
  assumes "0 \<le> w" "0 \<le> h" and big: "72 < w \<or> 72 < h"
  shows "\<exists>w' h'. thumbnail_size w h = Ok (w', h') \<and> 24 \<le> w' \<and> 24 \<le> h' \<and> w' < 144 \<and> h' < 144
    \<and> (72 < w' \<longrightarrow> w < h) \<and> (72 < h' \<longrightarrow> h < w)"
proof -
  consider "w = h" | "w < h" "72 < h" | "h < w" "72 < w" using big by linarith
  then show ?thesis
  proof cases
    case 2
    with scaled_side_bound [OF assms(1) 2(1), of 72] have "w div (h div 72) < 144" "h div 72 \<noteq> 0"
      by (simp_all add: div_zero_iff)
    with 2 show ?thesis by (auto simp: thumbnail_size_def thumbnailMaxSize_def thumbnailMinSize_def)
  next
    case 3
    with scaled_side_bound [OF assms(2) 3(1), of 72] have "h div (w div 72) < 144" "w div 72 \<noteq> 0"
      by (simp_all add: div_zero_iff)
    with 3 show ?thesis by (auto simp: thumbnail_size_def thumbnailMaxSize_def thumbnailMinSize_def)
  qed (use big in \<open>auto simp: thumbnail_size_def thumbnailMaxSize_def thumbnailMinSize_def\<close>)
qed

theorem thumbnail_size_bounds_witness:
  "\<exists>w' h'. thumbnail_size 100 143 = Ok (w', h') \<and> 24 \<le> w' \<and> h' < 144 \<and> \<not> 72 < h'"
  using thumbnail_size_bounds [of 100 143] by auto

definition sample_media :: "MediaKind \<Rightarrow> int \<Rightarrow> int \<Rightarrow> MediaMessage" where
  "sample_media k w h = \<lparr>mm_Kind = k, mm_Seconds = None, mm_Dimensions = Some (of_int w, of_int h), mm_Caption = None,
     mm_FileName = [], mm_PTT = False, mm_Waveform = [], mm_GifPlayback = False,
     mm_Keys = \<lparr>fk_Key = [1], fk_Length = 100, fk_Type = [], fk_SHA256 = [], fk_EncSHA256 = [], fk_DirectPath = ''/v'', fk_MimeType = ''image/webp''\<rparr>,
     mm_ContextInfo = None\<rparr>"

definition sample_sticker_env :: sticker_env where
  "sample_sticker_env = \<lparr>sk_Target = ''webm'', sk_Width = 256, sk_Height = 256, sk_FPS = 25, sk_supported = True,
     sk_zip = (\<lambda>_. Inr (\<lambda>_. Inr \<lparr>zf_Stat = Inr 2, zf_Data = Inr [123, 125]\<rparr>)),
     sk_convert = (\<lambda>d _ _ _ _. Inr d), sk_ffmpeg = (\<lambda>d _ _ _ _. Inr (Some [1], Inr [2])), sk_mib = (\<lambda>_. ''6.00'')\<rparr>"

definition sample_media_env :: media_env where
  "sample_media_env = \<lparr>mv_L = sample_jid_lib, mv_ext = (\<lambda>_. ''.webp''), mv_download = (\<lambda>_. ([], Some FailedWith404)),
     mv_sticker = sample_sticker_env, mv_detect = (\<lambda>_. ''image/webp''), mv_upload = (\<lambda>_ _ _. Inr ''mxc://x''),
     mv_generate_uri = (\<lambda>_. Inr ''mxc://y''), mv_marshal_keys = (\<lambda>_. Inr ''{}''), mv_marshal_media = (\<lambda>_. Some ''{}''),
     mv_parse_formatting = (\<lambda>c. c), mv_ensure_html = (\<lambda>c. c), mv_DisableViewOnce = False, mv_DirectMedia = False,
     mv_OldMediaSuffix = ''Requesting old media is not enabled.''\<rparr>"

text \<open>
  An animated sticker that is bridged is labelled by the configured target: the lottie animation
  itself when the conversion is off or not installed, else an image of that subtype, also for
  WebM, which is a video. What is bridged never comes from an animation file that claims more
  than 5 MiB.
\<close>

lemma set_sticker_fields [simp]:
  "ct_FileName (pm_Content (set_sticker m n pm)) = n"
  "fi_MimeType (ct_Info (pm_Content (set_sticker m n pm))) = m"
  "pm_EvType (set_sticker m n pm) = pm_EvType pm" "ct_Body (pm_Content (set_sticker m n pm)) = ct_Body (pm_Content pm)"
  by (simp_all add: set_sticker_def set_mime_def)

theorem animated_sticker_label:
  assumes conv: "convertAnimatedSticker K pm zipped = (pm', Inr (data, thumb))"
  shows "(if sk_Target K = ''disable'' \<or> \<not> sk_supported K
          then fi_MimeType (ct_Info (pm_Content pm')) = ''video/lottie+json'' \<and> ct_FileName (pm_Content pm') = ''sticker.json''
               \<and> thumb = None \<and> ExtractAnimatedSticker K zipped = Inr data
          else sk_Target K \<in> {''png'', ''gif'', ''webm'', ''webp''}
               \<and> fi_MimeType (ct_Info (pm_Content pm')) = ''image/'' @ sk_Target K
               \<and> ct_FileName (pm_Content pm') = ''sticker.'' @ sk_Target K
               \<and> (thumb \<noteq> None \<longrightarrow> sk_Target K = ''webm'' \<or> sk_Target K = ''webp''))
    \<and> (\<exists>files f size. sk_zip K zipped = Inr files \<and> files ''animation/animation.json'' = Inr f
          \<and> zf_Stat f = Inr size \<and> size \<le> 5 * 1024 * 1024)"
proof -
  obtain d where d: "ExtractAnimatedSticker K zipped = Inr d"
    using conv by (cases "ExtractAnimatedSticker K zipped") (simp_all add: convertAnimatedSticker_def extractAnimatedSticker_def)
  then have "\<exists>files f size. sk_zip K zipped = Inr files \<and> files ''animation/animation.json'' = Inr f
          \<and> zf_Stat f = Inr size \<and> size \<le> 5 * 1024 * 1024"
    by (auto simp: ExtractAnimatedSticker_def uploadFileThreshold_def not_less split: if_splits)
  moreover have "convert_to K d = Inr (data, thumb) \<Longrightarrow> sk_Target K \<in> {''png'', ''gif'', ''webm'', ''webp''}
      \<and> (thumb \<noteq> None \<longrightarrow> sk_Target K = ''webm'' \<or> sk_Target K = ''webp'')"
    unfolding convert_to_def Let_def by (simp split: if_splits)
  ultimately show ?thesis
    using conv d by (auto simp: convertAnimatedSticker_def extractAnimatedSticker_def split: if_splits)
qed

theorem animated_sticker_label_witness:
  "\<exists>pm. convertAnimatedSticker sample_sticker_env pm [] =
     (set_sticker ''image/webm'' ''sticker.webm'' (set_sticker ''video/lottie+json'' ''sticker.json'' pm),
      Inr ([2], Some ([1], empty_info\<lparr>fi_MimeType := ''image/png'', fi_Width := 256, fi_Height := 256, fi_Size := 1\<rparr>)))
    \<and> sk_Target sample_sticker_env \<in> {''png'', ''gif'', ''webm'', ''webp''}"
proof -
  fix pm :: PreparedMedia
  have c: "convertAnimatedSticker sample_sticker_env pm [] =
     (set_sticker ''image/webm'' ''sticker.webm'' (set_sticker ''video/lottie+json'' ''sticker.json'' pm),
      Inr ([2], Some ([1], empty_info\<lparr>fi_MimeType := ''image/png'', fi_Width := 256, fi_Height := 256, fi_Size := 1\<rparr>)))"
    by (simp add: convertAnimatedSticker_def extractAnimatedSticker_def ExtractAnimatedSticker_def convert_to_def
        sample_sticker_env_def wrap_err_def andThen_def uploadFileThreshold_def sticker_thumbnail_def)
  show ?thesis using animated_sticker_label [OF c] c by (auto simp: sample_sticker_env_def)
qed

text \<open>Preparing a media message panics exactly for a sticker that is not square and smaller
  than 190 pixels on both sides: the truncated ratio it divides by is zero.\<close>

theorem sticker_dimensions_panic:
  assumes "mm_Dimensions m = Some (w, h)"
  shows "prepareMediaMessage V m = Panic \<longleftrightarrow> mm_Kind m = KSticker \<and> w \<noteq> h \<and> w < 190 \<and> h < 190"
proof -
  have "(uint w < 190) = (w < 190)" "(uint h < 190) = (h < 190)"
    by (simp_all add: word_less_def)
  then have "sticker_size (uint w) (uint h) = Panic \<longleftrightarrow> w \<noteq> h \<and> w < 190 \<and> h < 190"
    by (simp add: sticker_size_Panic WhatsAppStickerSize_def word_uint_eq_iff)
  then show ?thesis
    using assms by (cases "mm_Kind m") (auto simp: prepareMediaMessage_def Let_def outcome_simps)
qed

theorem sticker_dimensions_panic_witness:
  "prepareMediaMessage sample_media_env (sample_media KSticker 100 50) = Panic
   \<and> prepareMediaMessage sample_media_env (sample_media KSticker 400 200) \<noteq> Panic"
  using sticker_dimensions_panic [of "sample_media KSticker 100 50" 100 50 sample_media_env]
    sticker_dimensions_panic [of "sample_media KSticker 400 200" 400 200 sample_media_env]
  by (simp add: sample_media_def)

end
