(* ===== verification/ToMatrix.thy ===== *)
theory ToMatrix
  imports Media
begin

text \<open>
  Converting a WhatsApp message to Matrix: \<open>ToMatrix\<close> with \<open>getBasicUserInfo\<close> and
  \<open>addMentions\<close> of \<open>pkg/msgconv/from-whatsapp.go\<close>, and the ephemeral setting, invite,
  placeholder, pin and keep converters of \<open>pkg/msgconv/wa-misc.go\<close>. The other converters of
  single submessages are an argument. The package-level parts that the code returns by pointer
  are state: what a call writes into such a part is still there in the next call.
\<close>

section \<open>State\<close>

datatype DisappearType = NoDisappear | AfterSend

record DisappearingSetting =
  dis_Type :: DisappearType
  dis_Timer :: int

record Portal =
  pt_ID :: string
  pt_Receiver :: string
  pt_Disappear :: DisappearingSetting
  pt_Meta :: PortalMetadata

record ConvertedMessage =
  cm_Parts :: "ConvertedPart list"
  cm_ReplyTo :: "string option"
  cm_ThreadRoot :: "string option"
  cm_Disappear :: DisappearingSetting

text \<open>A converter returns a part of its own or points to one of the two package-level parts.\<close>

datatype PartRef = Fresh ConvertedPart | FailedComment | FailedPollUpdate

record shared_parts =
  sp_failedComment :: ConvertedPart
  sp_failedPollUpdate :: ConvertedPart

definition initial_parts :: shared_parts where
  "initial_parts =
     \<lparr>sp_failedComment = plain_part EventMessage (notice ''Failed to decrypt comment''),
      sp_failedPollUpdate = (plain_part EventUnstablePollResponse empty_content)\<lparr>part_DontBridge := True\<rparr>\<rparr>"

fun load_part :: "shared_parts \<Rightarrow> PartRef \<Rightarrow> ConvertedPart" where
  "load_part g (Fresh p) = p"
| "load_part g FailedComment = sp_failedComment g"
| "load_part g FailedPollUpdate = sp_failedPollUpdate g"

fun store_part :: "PartRef \<Rightarrow> ConvertedPart \<Rightarrow> shared_parts \<Rightarrow> shared_parts" where
  "store_part (Fresh _) p g = g"
| "store_part FailedComment p g = g\<lparr>sp_failedComment := p\<rparr>"
| "store_part FailedPollUpdate p g = g\<lparr>sp_failedPollUpdate := p\<rparr>"

text \<open>What the framework provides: ghosts, logins, HTML helpers, and the source's
  \<open>IsIncomingBroadcast\<close>.\<close>

record conv_env =
  ce_L :: jid_lib
  ce_store :: "client option"
  ce_ghost :: "string \<Rightarrow> gerror + string \<times> string"
  ce_login :: "string \<Rightarrow> (string \<times> string) option"
  ce_mention_html :: "string \<Rightarrow> string \<Rightarrow> string"
  ce_ensure_html :: "MessageEventContent \<Rightarrow> MessageEventContent"
  ce_is_incoming_broadcast :: "MessageInfo \<Rightarrow> bool"
  ce_convert :: "MsgField \<Rightarrow> WAMessage \<Rightarrow> PartRef \<times> ContextInfo option"
  ce_unknown :: "WAMessage option \<Rightarrow> ConvertedPart"

section \<open>Mentions\<close>

text \<open>\<open>strings.ReplaceAll\<close> with a needle that is not empty.\<close>

function replace_all :: "string \<Rightarrow> string \<Rightarrow> string \<Rightarrow> string" where
  "replace_all old new [] = []"
| "replace_all old new (c # s) =
     (if old \<noteq> [] \<and> has_prefix (c # s) old then new @ replace_all old new (drop (length old) (c # s))
      else c # replace_all old new s)"
  by pat_completeness auto

termination
  by (relation "measure (\<lambda>(_, _, s). length s)") (auto simp: Suc_le_eq)

definition getBasicUserInfo :: "conv_env \<Rightarrow> client \<Rightarrow> Portal \<Rightarrow> jid \<Rightarrow> gerror + string \<times> string" where
  "getBasicUserInfo C c portal user =
     (case ce_ghost C (MakeUserID user) of
        Inl e \<Rightarrow> Inl (Wrap ''failed to get ghost by ID'' e)
      | Inr (ghostMXID, ghostName) \<Rightarrow>
         (let pnJID =
            (if Server user = DefaultUserServer then user
             else if Server user = HiddenUserServer then
               (if User user = User (cl_LID c) then cl_JID c else fst (GetPNForLID c user))
             else EmptyJID)
          in if jid_is_empty (ce_L C) pnJID then Inr (ghostMXID, ghostName)
             else (case ce_login C (MakeUserLoginID pnJID) of
                     None \<Rightarrow> Inr (ghostMXID, ghostName)
                   | Some (loginID, userMXID) \<Rightarrow>
                       if pt_Receiver portal = [] \<or> pt_Receiver portal = loginID
                       then Inr (userMXID, ghostName) else Inr (ghostMXID, ghostName))))"

definition add_mention :: "conv_env \<Rightarrow> client \<Rightarrow> Portal \<Rightarrow> string \<Rightarrow> MessageEventContent \<Rightarrow> MessageEventContent" where
  "add_mention C c portal j into =
     (case parse_jid (ce_L C) j of
        Inl _ \<Rightarrow> into
      | Inr parsed \<Rightarrow>
         (case getBasicUserInfo C c portal parsed of
            Inl _ \<Rightarrow> into
          | Inr (mxid, displayname) \<Rightarrow>
              into\<lparr>ct_Mentions := ct_Mentions into @ [mxid],
                   ct_Body := replace_all (''@'' @ User parsed) displayname (ct_Body into),
                   ct_FormattedBody := replace_all (''@'' @ User parsed) (ce_mention_html C mxid displayname) (ct_FormattedBody into)\<rparr>))"

definition addMentions :: "conv_env \<Rightarrow> client \<Rightarrow> Portal \<Rightarrow> string list \<Rightarrow> MessageEventContent \<Rightarrow> MessageEventContent" where
  "addMentions C c portal mentionedJID into =
     (if mentionedJID = [] then into
      else fold (add_mention C c portal) mentionedJID (ce_ensure_html C into))"

section \<open>Choosing the converter\<close>

text \<open>The order of the switch.\<close>

definition conversion_order :: "MsgField list" where
  "conversion_order =
    [FConversation, FExtendedTextMessage, FTemplateMessage, FButtonsMessage, FButtonsResponseMessage,
     FInteractiveMessage, FInteractiveResponseMessage, FHighlyStructuredMessage, FTemplateButtonReplyMessage,
     FListMessage, FListResponseMessage, FPollCreationMessage, FPollCreationMessageV2, FPollCreationMessageV3,
     FPollUpdateMessage, FEventMessage, FPinInChatMessage, FKeepInChatMessage, FRichResponseMessage,
     FImageMessage, FStickerMessage, FVideoMessage, FPtvMessage, FAudioMessage, FDocumentMessage, FAlbumMessage,
     FLocationMessage, FLiveLocationMessage, FContactMessage, FContactsArrayMessage, FPlaceholderMessage,
     FGroupInviteMessage, FProtocolMessage, FEncCommentMessage]"

definition is_ephemeral_setting :: "WAMessage \<Rightarrow> bool" where
  "is_ephemeral_setting m = (case protocol m of None \<Rightarrow> False | Some p \<Rightarrow> pm_Type p = EPHEMERAL_SETTING)"

definition conversion_field :: "WAMessage \<Rightarrow> MsgField option" where
  "conversion_field m =
     find (\<lambda>f. has m f \<and> (f = FProtocolMessage \<longrightarrow> is_ephemeral_setting m)) conversion_order"

definition convert_message :: "conv_env \<Rightarrow> WAMessage \<Rightarrow> WAMessage option \<Rightarrow> PartRef \<times> ContextInfo option" where
  "convert_message C m raw =
     (case conversion_field m of
        None \<Rightarrow> (Fresh (ce_unknown C raw), None)
      | Some FEncCommentMessage \<Rightarrow> (FailedComment, None)
      | Some f \<Rightarrow> ce_convert C f m)"

section \<open>Completing the message\<close>

definition forwarded_text :: string where
  "forwarded_text = [CHR 0xE2, CHR 0x86, CHR 0xB7] @ '' Forwarded''"

definition forwarded_html :: string where
  "forwarded_html = ''<p data-mx-forwarded-notice><em>'' @ forwarded_text @ ''</em></p>''"

definition is_media :: "MsgType \<Rightarrow> bool" where
  "is_media t \<longleftrightarrow> t \<in> {MsgImage, MsgFile, MsgAudio, MsgVideo}"

definition is_text :: "MsgType \<Rightarrow> bool" where
  "is_text t \<longleftrightarrow> t \<in> {MsgText, MsgNotice}"

definition mark_forwarded :: "conv_env \<Rightarrow> MessageEventContent \<Rightarrow> MessageEventContent" where
  "mark_forwarded C c =
     (let hasCaption = (ct_FileName c \<noteq> [] \<and> ct_FileName c \<noteq> ct_Body c) in
      if is_media (ct_MsgType c) \<and> \<not> hasCaption
      then c\<lparr>ct_FileName := ct_Body c, ct_Body := forwarded_text, ct_HTML := True, ct_FormattedBody := forwarded_html\<rparr>
      else if is_text (ct_MsgType c) \<or> is_media (ct_MsgType c)
      then (let c' = ce_ensure_html C c in
            c'\<lparr>ct_Body := forwarded_text @ [char_of (10::nat), char_of (10::nat)] @ ct_Body c',
               ct_FormattedBody := forwarded_html @ ct_FormattedBody c'\<rparr>)
      else c)"

definition finish_metadata :: "conv_env \<Rightarrow> MessageInfo \<Rightarrow> ConvertedPart \<Rightarrow> ConvertedPart" where
  "finish_metadata C info part =
     (let md = (case part_DBMetadata part of None \<Rightarrow> empty_metadata | Some md \<Rightarrow> md)\<lparr>md_SenderDeviceID := Device (mi_Sender info)\<rparr>
      in if ce_is_incoming_broadcast C info
         then part\<lparr>part_DBMetadata := Some (md\<lparr>md_BroadcastListJID := Some (mi_Chat info)\<rparr>),
                   part_SourceBroadcast := Some (jid_string (ce_L C) (mi_Chat info))\<rparr>
         else part\<lparr>part_DBMetadata := Some md\<rparr>)"

definition disappear_of :: "ContextInfo \<Rightarrow> DisappearingSetting" where
  "disappear_of ci =
     (if ci_Expiration ci > 0 then \<lparr>dis_Type = AfterSend, dis_Timer = uint (ci_Expiration ci) * second\<rparr>
      else \<lparr>dis_Type = NoDisappear, dis_Timer = 0\<rparr>)"

text \<open>The first JID that parses, the portal's own chat where that gives none.\<close>

definition parsed_or_empty :: "jid_lib \<Rightarrow> string \<Rightarrow> jid" where
  "parsed_or_empty L s = (case parse_jid L s of Inl _ \<Rightarrow> EmptyJID | Inr j \<Rightarrow> j)"

definition target_chat :: "jid_lib \<Rightarrow> Portal \<Rightarrow> string \<Rightarrow> jid" where
  "target_chat L portal remote =
     (let chat = parsed_or_empty L remote in
      if jid_is_empty L chat then parsed_or_empty L (pt_ID portal) else chat)"

definition reply_target :: "conv_env \<Rightarrow> Portal \<Rightarrow> ContextInfo \<Rightarrow> string option" where
  "reply_target C portal ci =
     (if ci_StanzaID ci = [] then None
      else
        (let L = ce_L C;
             lid = (pmd_AddressingMode (pt_Meta portal) = AddressingModeLID);
             chat = target_chat L portal (ci_RemoteJID ci);
             pcp1 = rerouteMessageKey L (ce_store C) chat (parsed_or_empty L (ci_Participant ci)) lid;
             pcp2 = (case ce_store C of
               None \<Rightarrow> pcp1
             | Some c \<Rightarrow>
                 if Server chat = DefaultUserServer \<and> Server pcp1 = HiddenUserServer then
                   (let pn = fst (GetPNForLID c pcp1) in if \<not> jid_is_empty L pn then pn else pcp1)
                 else if Server chat = GroupServer \<and> Server pcp1 = DefaultUserServer \<and> lid then
                   (let l = fst (GetLIDForPN c pcp1) in if \<not> jid_is_empty L l then l else pcp1)
                 else pcp1)
         in Some (MakeMessageID L chat pcp2 (ci_StanzaID ci))))"

definition comment_root :: "conv_env \<Rightarrow> Portal \<Rightarrow> WAMessage \<Rightarrow> string option" where
  "comment_root C portal m =
     (case (case fst (comment_targets m) of None \<Rightarrow> snd (comment_targets m) | Some k \<Rightarrow> Some k) of
        None \<Rightarrow> None
      | Some k \<Rightarrow>
          (let L = ce_L C;
               pcp = parsed_or_empty L (get_str (mk_Participant k));
               chat = target_chat L portal (get_str (mk_RemoteJID k))
           in Some (MakeMessageID L chat pcp (get_str (mk_ID k)))))"

text \<open>
  The whole conversion: the message, the new disappearing setting the portal is updated with,
  if any, and the package-level parts afterwards. The client's store is there whenever a
  mention is looked up.
\<close>

definition ToMatrix ::
  "conv_env \<Rightarrow> Portal \<Rightarrow> WAMessage \<Rightarrow> WAMessage option \<Rightarrow> MessageInfo \<Rightarrow> shared_parts \<Rightarrow>
   ConvertedMessage \<times> DisappearingSetting option \<times> shared_parts" where
  "ToMatrix C portal waMsg rawWaMsg info g =
     (case convert_message C waMsg rawWaMsg of
        (ref, contextInfo) \<Rightarrow>
          (let ci = (case contextInfo of None \<Rightarrow> nil_context | Some ci \<Rightarrow> ci);
               p0 = load_part g ref;
               p1 = finish_metadata C info (p0\<lparr>part_Content := (part_Content p0)\<lparr>ct_Mentions := []\<rparr>\<rparr>);
               c2 = (case ce_store C of None \<Rightarrow> part_Content p1
                     | Some c \<Rightarrow> addMentions C c portal (ci_MentionedJID ci) (part_Content p1));
               c3 = (if ci_IsForwarded ci then mark_forwarded C c2 else c2);
               part = p1\<lparr>part_Content := c3\<rparr>;
               dis = disappear_of ci;
               update = (if dis_Timer (pt_Disappear portal) \<noteq> dis_Timer dis
                           \<and> pmd_DisappearingTimerSetAt (pt_Meta portal) < ci_EphemeralSettingTimestamp ci
                         then Some dis else None)
           in (\<lparr>cm_Parts = [part], cm_ReplyTo = reply_target C portal ci, cm_ThreadRoot = comment_root C portal waMsg,
                cm_Disappear = dis\<rparr>, update, store_part ref part g)))"

section \<open>Converters of single submessages\<close>

text \<open>The ephemeral setting: the portal's metadata and setting, and the notice. \<open>body\<close> is the
  framework's text for the new timer.\<close>

definition convertEphemeralSettingMessage ::
  "(int \<Rightarrow> MessageEventContent) \<Rightarrow> Portal \<Rightarrow> ProtocolMsg \<Rightarrow> bool \<Rightarrow> ConvertedPart \<times> Portal \<times> DisappearingSetting option" where
  "convertEphemeralSettingMessage notice_for portal msg isBackfill =
     (let timer = uint (pm_EphemeralExpiration msg) * second;
          disappear = \<lparr>dis_Type = (if timer = 0 then NoDisappear else AfterSend), dis_Timer = timer\<rparr>;
          dontBridge = (pt_Disappear portal = disappear);
          content = notice_for timer;
          ts = (case pm_EphemeralSettingTimestamp msg of None \<Rightarrow> 0 | Some t \<Rightarrow> t);
          meta = pt_Meta portal;
          part = (\<lambda>c. (plain_part EventMessage c)\<lparr>part_DontBridge := dontBridge\<rparr>)
      in if isBackfill then (part content, portal, None)
         else if pm_EphemeralSettingTimestamp msg = None \<or> pmd_DisappearingTimerSetAt meta < ts
         then (part content,
               portal\<lparr>pt_Meta := meta\<lparr>pmd_DisappearingTimerSetAt := ts\<rparr>, pt_Disappear := disappear\<rparr>, Some disappear)
         else (part (content\<lparr>ct_Body := ct_Body content @ '', but the change was ignored.''\<rparr>), portal, None))"

record GroupInviteMessage =
  gim_GroupJID :: string
  gim_InviteCode :: string
  gim_InviteExpiration :: int
  gim_GroupName :: string
  gim_IsParent :: bool

text \<open>The metadata that makes an invite acceptable, none for a group that does not parse.\<close>

definition groupInviteMeta :: "jid_lib \<Rightarrow> MessageInfo \<Rightarrow> GroupInviteMessage \<Rightarrow> GroupInviteMeta option" where
  "groupInviteMeta L info msg =
     (case parse_jid L (gim_GroupJID msg) of
        Inl _ \<Rightarrow> None
      | Inr j \<Rightarrow> Some \<lparr>gi_JID = j, gi_Code = gim_InviteCode msg, gi_Expiration = gim_InviteExpiration msg,
          gi_Inviter = to_non_ad L (mi_Sender info), gi_GroupName = gim_GroupName msg,
          gi_IsParentGroup = gim_IsParent msg\<rparr>)"

definition convertPinInChatMessage :: "bool \<Rightarrow> ConvertedPart" where
  "convertPinInChatMessage isUnpinForAll =
     plain_part EventMessage (notice (if isUnpinForAll then ''Unpinned a message'' else ''Pinned a message''))"

definition convertKeepInChatMessage :: "bool \<Rightarrow> ConvertedPart" where
  "convertKeepInChatMessage isUndoKeep =
     plain_part EventMessage (notice (if isUndoKeep then ''Unkept a message'' else ''Kept a message''))"

section \<open>Lemmas\<close>

lemma conversion_field_only:
  assumes "only m f"
  shows "conversion_field m =
    (if f \<in> set conversion_order \<and> (f = FProtocolMessage \<longrightarrow> is_ephemeral_setting m) then Some f else None)"
proof -
  let ?P = "\<lambda>g. has m g \<and> (g = FProtocolMessage \<longrightarrow> is_ephemeral_setting m)"
  have one: "?P g \<Longrightarrow> g = f" for g using assms by (simp add: only_def)
  have f: "?P f \<longleftrightarrow> (f = FProtocolMessage \<longrightarrow> is_ephemeral_setting m)" using assms by (simp add: only_def)
  show ?thesis
  proof (cases "conversion_field m")
    case None
    then show ?thesis using f by (auto simp: conversion_field_def find_None_iff)
  next
    case (Some g)
    then have g: "g \<in> set conversion_order" "?P g"
      by (auto simp: conversion_field_def find_Some_iff)
    with one have "g = f" by blast
    with g Some show ?thesis by simp
  qed
qed

lemma finish_metadata_simps:
  "part_Content (finish_metadata C info p) = part_Content p"
  "part_DBMetadata (finish_metadata C info p) = Some
     (let md = (case part_DBMetadata p of None \<Rightarrow> empty_metadata | Some md \<Rightarrow> md)\<lparr>md_SenderDeviceID := Device (mi_Sender info)\<rparr>
      in if ce_is_incoming_broadcast C info then md\<lparr>md_BroadcastListJID := Some (mi_Chat info)\<rparr> else md)"
  by (simp_all add: finish_metadata_def Let_def)

lemma ToMatrix_part:
  assumes "convert_message C m raw = (ref, ci)"
  shows "\<exists>part. cm_Parts (fst (ToMatrix C portal m raw info g)) = [part]
    \<and> part_DBMetadata part = part_DBMetadata (finish_metadata C info (load_part g ref))
    \<and> snd (snd (ToMatrix C portal m raw info g)) = store_part ref part g"
  using assms by (simp add: ToMatrix_def Let_def finish_metadata_simps)

lemma convert_comment:
  assumes "only m FEncCommentMessage"
  shows "convert_message C m raw = (FailedComment, None)"
  using conversion_field_only [OF assms] by (simp add: convert_message_def conversion_order_def)

section \<open>Properties\<close>

definition sample_conv_env :: conv_env where
  "sample_conv_env = \<lparr>ce_L = sample_jid_lib, ce_store = Some sample_client, ce_ghost = (\<lambda>u. Inr (''@wa_'' @ u, u)),
     ce_login = (\<lambda>_. None), ce_mention_html = (\<lambda>m d. d), ce_ensure_html = (\<lambda>c. c\<lparr>ct_HTML := True\<rparr>),
     ce_is_incoming_broadcast = (\<lambda>i. Server (mi_Chat i) = BroadcastServer),
     ce_convert = (\<lambda>f m. (Fresh (plain_part EventMessage empty_content), None)),
     ce_unknown = (\<lambda>_. plain_part EventMessage (notice ''Unknown message type''))\<rparr>"

definition sample_portal :: Portal where
  "sample_portal = \<lparr>pt_ID = ''1234-5678@g.us'', pt_Receiver = [], pt_Disappear = \<lparr>dis_Type = NoDisappear, dis_Timer = 0\<rparr>,
     pt_Meta = \<lparr>pmd_DisappearingTimerSetAt = 5, pmd_TopicID = [], pmd_LastSync = 0, pmd_CommunityAnnouncementGroup = False,
       pmd_AddressingMode = AddressingModePN, pmd_LIDMigrationAttempted = False\<rparr>\<rparr>"

text \<open>Whatever message history sync drops as ignorable, the converter would only have shown
  as an unknown message: a message with a single submessage whose type is skipped has no
  converter of its own.\<close>

theorem skipped_messages_not_convertible:
  assumes "only m f" and "skipped_type (getMessageType (Some m))"
  shows "convert_message C m raw = (Fresh (ce_unknown C raw), None)"
proof -
  have "f \<in> set ignored_fields \<or> (f = FProtocolMessage \<and> \<not> is_ephemeral_setting m)"
  proof (cases "f = FProtocolMessage")
    case True
    with assms(1) obtain p where p: "protocol m = Some p" using has_protocol [of m] by (auto simp: only_def)
    with assms True have "skipped_type (protocol_type p)"
      by (simp add: getMessageType_only message_type_cases_def)
    with p True show ?thesis by (auto simp: protocol_type_skipped is_ephemeral_setting_def)
  next
    case False
    with assms show ?thesis
      by (cases f) (simp_all add: getMessageType_only message_type_cases_def skipped_type_def has_prefix_def ignored_fields_def
          split: if_splits)
  qed
  then have "conversion_field m = None"
    using conversion_field_only [OF assms(1)] by (auto simp: ignored_fields_def conversion_order_def)
  then show ?thesis by (simp add: convert_message_def)
qed

theorem skipped_messages_not_convertible_witness:
  "convert_message sample_conv_env (bare_message FStickerSyncRmrMessage) None
    = (Fresh (plain_part EventMessage (notice ''Unknown message type'')), None)"
  using skipped_messages_not_convertible [of "bare_message FStickerSyncRmrMessage" FStickerSyncRmrMessage sample_conv_env None]
  by (simp add: only_def has_def bare_message_def getMessageType_def message_type_cases_def skipped_type_def sample_conv_env_def)

text \<open>The target of a reply is the identifier of the message under the chat's addressing: the
  participant is moved to the phone number in a direct chat and to the LID in a LID group, and
  doing that twice, as the code does, is the same as doing it once.\<close>

theorem reply_target_rerouted_once:
  assumes "jid_lib_ok (ce_L C)" and "\<forall>c. ce_store C = Some c \<longrightarrow> client_ok c" and "ci_StanzaID ci \<noteq> []"
  shows "reply_target C portal ci = Some (MakeMessageID (ce_L C) (target_chat (ce_L C) portal (ci_RemoteJID ci))
    (rerouteMessageKey (ce_L C) (ce_store C) (target_chat (ce_L C) portal (ci_RemoteJID ci))
       (parsed_or_empty (ce_L C) (ci_Participant ci)) (pmd_AddressingMode (pt_Meta portal) = AddressingModeLID))
    (ci_StanzaID ci))"
proof (cases "ce_store C")
  case None
  with assms(3) show ?thesis by (simp add: reply_target_def Let_def)
next
  case (Some c)
  let ?L = "ce_L C" and ?chat = "target_chat (ce_L C) portal (ci_RemoteJID ci)"
  let ?lid = "pmd_AddressingMode (pt_Meta portal) = AddressingModeLID"
  let ?p = "rerouteMessageKey ?L (Some c) ?chat (parsed_or_empty ?L (ci_Participant ci)) ?lid"
  have "rerouteMessageKey ?L (Some c) ?chat ?p ?lid = ?p"
    using assms(1,2) Some by (intro rerouteMessageKey_idem) simp_all
  moreover have "reply_target C portal ci = Some (MakeMessageID ?L ?chat (rerouteMessageKey ?L (Some c) ?chat ?p ?lid) (ci_StanzaID ci))"
    using assms(3) Some by (simp add: reply_target_def Let_def rerouteMessageKey_def [of ?L "Some c" ?chat ?p ?lid])
  ultimately show ?thesis using Some by simp
qed

theorem reply_target_rerouted_once_witness:
  "reply_target sample_conv_env sample_portal (nil_context\<lparr>ci_StanzaID := ''3EB0'', ci_Participant := ''44@s.whatsapp.net''\<rparr>)
    = Some (MakeMessageID sample_jid_lib sample_group (parsed_or_empty sample_jid_lib ''44@s.whatsapp.net'') ''3EB0'')"
proof -
  let ?ci = "nil_context\<lparr>ci_StanzaID := ''3EB0'', ci_Participant := ''44@s.whatsapp.net''\<rparr>"
  have "target_chat sample_jid_lib sample_portal [] = sample_group"
    by (simp add: target_chat_def parsed_or_empty_def sample_jid_lib_def sample_portal_def sample_group_def
        server_of_name_def split: if_splits)
  moreover have "\<forall>c. ce_store sample_conv_env = Some c \<longrightarrow> client_ok c" by (simp add: sample_conv_env_def)
  ultimately show ?thesis
    using reply_target_rerouted_once [of sample_conv_env ?ci sample_portal] sample_jid_lib_ok
    by (simp add: sample_conv_env_def nil_context_def rerouteMessageKey_def sample_group_def sample_portal_def)
qed

text \<open>The metadata stored with a converted message comes from that message alone when its
  converter made the part: the sender's device is this message's, and the broadcast list is set
  only if this message came from one or the converter set it.\<close>

theorem fresh_part_metadata:
  assumes "convert_message C m raw = (Fresh p, ci)"
  shows "\<exists>part md. cm_Parts (fst (ToMatrix C portal m raw info g)) = [part] \<and> part_DBMetadata part = Some md
    \<and> md_SenderDeviceID md = Device (mi_Sender info)
    \<and> md_BroadcastListJID md = (if ce_is_incoming_broadcast C info then Some (mi_Chat info)
        else case part_DBMetadata p of None \<Rightarrow> None | Some d \<Rightarrow> md_BroadcastListJID d)
    \<and> snd (snd (ToMatrix C portal m raw info g)) = g"
  using ToMatrix_part [OF assms, of portal info g]
  by (auto simp: finish_metadata_simps Let_def empty_metadata_def split: option.splits)

theorem fresh_part_metadata_witness:
  "\<exists>part md. cm_Parts (fst (ToMatrix sample_conv_env sample_portal (bare_message FContactMessage) None sample_info initial_parts)) = [part]
    \<and> part_DBMetadata part = Some md \<and> md_BroadcastListJID md = None"
proof -
  have "only (bare_message FContactMessage) FContactMessage" by (simp add: only_def has_def bare_message_def)
  then have "convert_message sample_conv_env (bare_message FContactMessage) None = (Fresh (plain_part EventMessage empty_content), None)"
    by (simp add: convert_message_def conversion_field_only conversion_order_def sample_conv_env_def)
  from fresh_part_metadata [OF this, of sample_portal sample_info initial_parts] show ?thesis
    by (auto simp: sample_conv_env_def sample_info_def sample_group_def plain_part_def)
qed

text \<open>The package-level part for comments that cannot be decrypted keeps what earlier
  messages wrote into it: after one encrypted comment from a broadcast list, every later one is
  stored with that broadcast list, although it did not come from one.\<close>

theorem comment_metadata_leaks:
  assumes "only m1 FEncCommentMessage" "only m2 FEncCommentMessage"
    and "ce_is_incoming_broadcast C info1" "\<not> ce_is_incoming_broadcast C info2"
    and "ToMatrix C portal m1 raw1 info1 g = (cm1, d1, g1)"
  shows "\<exists>part md. cm_Parts (fst (ToMatrix C portal' m2 raw2 info2 g1)) = [part] \<and> part_DBMetadata part = Some md
    \<and> md_BroadcastListJID md = Some (mi_Chat info1) \<and> md_SenderDeviceID md = Device (mi_Sender info2)"
proof -
  obtain p1 where p1: "part_DBMetadata p1 = part_DBMetadata (finish_metadata C info1 (load_part g FailedComment))"
    "g1 = store_part FailedComment p1 g"
    using ToMatrix_part [OF convert_comment [OF assms(1)], where C = C and raw = raw1 and portal = portal and info = info1 and g = g] assms(5) by auto
  then have "part_DBMetadata (load_part g1 FailedComment) = part_DBMetadata p1" by simp
  with p1 assms(3) have "\<exists>md. part_DBMetadata (load_part g1 FailedComment) = Some md \<and> md_BroadcastListJID md = Some (mi_Chat info1)"
    by (simp add: finish_metadata_simps Let_def)
  moreover obtain p2 where "cm_Parts (fst (ToMatrix C portal' m2 raw2 info2 g1)) = [p2]"
      "part_DBMetadata p2 = part_DBMetadata (finish_metadata C info2 (load_part g1 FailedComment))"
    using ToMatrix_part [OF convert_comment [OF assms(2)], where C = C and raw = raw2 and portal = portal' and info = info2 and g = g1] by auto
  ultimately show ?thesis using assms(4) by (auto simp: finish_metadata_simps Let_def)
qed

theorem comment_metadata_leaks_witness:
  "\<exists>g1 part md. g1 = snd (snd (ToMatrix sample_conv_env sample_portal (bare_message FEncCommentMessage) None
      (sample_info\<lparr>mi_Chat := \<lparr>User = ''list'', Server = BroadcastServer, Device = 0\<rparr>\<rparr>) initial_parts))
    \<and> cm_Parts (fst (ToMatrix sample_conv_env sample_portal (bare_message FEncCommentMessage) None sample_info g1)) = [part]
    \<and> part_DBMetadata part = Some md \<and> md_BroadcastListJID md = Some \<lparr>User = ''list'', Server = BroadcastServer, Device = 0\<rparr>"
proof -
  let ?m = "bare_message FEncCommentMessage" and ?i = "sample_info\<lparr>mi_Chat := \<lparr>User = ''list'', Server = BroadcastServer, Device = 0\<rparr>\<rparr>"
  obtain cm1 d1 g1 where t: "ToMatrix sample_conv_env sample_portal ?m None ?i initial_parts = (cm1, d1, g1)"
    by (metis prod_cases3)
  have o: "only ?m FEncCommentMessage" by (simp add: only_def has_def bare_message_def)
  have b: "ce_is_incoming_broadcast sample_conv_env ?i" "\<not> ce_is_incoming_broadcast sample_conv_env sample_info"
    by (simp_all add: sample_conv_env_def sample_info_def sample_group_def)
  from comment_metadata_leaks [OF o o b t, of sample_portal None] t show ?thesis by auto
qed

text \<open>A disappearing timer change is applied to the portal exactly when the message is live and
  its setting is newer than the portal's, or has no time; then the portal has the message's
  timer and time, and otherwise nothing of the portal changes. The notice is bridged exactly
  when the setting differs from the portal's.\<close>

theorem ephemeral_setting_ordered:
  fixes portal :: Portal and p :: ProtocolMsg and body :: "int \<Rightarrow> MessageEventContent" and isBackfill :: bool
  defines "r \<equiv> convertEphemeralSettingMessage body portal p isBackfill"
    and "newer \<equiv> pm_EphemeralSettingTimestamp p = None
        \<or> pmd_DisappearingTimerSetAt (pt_Meta portal) < the (pm_EphemeralSettingTimestamp p)"
  shows "(\<not> isBackfill \<and> newer \<longrightarrow>
      dis_Timer (pt_Disappear (fst (snd r))) = uint (pm_EphemeralExpiration p) * second
      \<and> pmd_DisappearingTimerSetAt (pt_Meta (fst (snd r)))
          = (case pm_EphemeralSettingTimestamp p of None \<Rightarrow> 0 | Some t \<Rightarrow> t))
    \<and> (isBackfill \<or> \<not> newer \<longrightarrow> fst (snd r) = portal \<and> snd (snd r) = None)
    \<and> (\<not> part_DontBridge (fst r) \<longleftrightarrow> pt_Disappear portal \<noteq>
        \<lparr>dis_Type = (if pm_EphemeralExpiration p = 0 then NoDisappear else AfterSend),
         dis_Timer = uint (pm_EphemeralExpiration p) * second\<rparr>)"
proof -
  have "second \<noteq> 0" by (simp add: second_def)
  then show ?thesis
    by (cases "pm_EphemeralSettingTimestamp p")
      (simp_all add: r_def newer_def convertEphemeralSettingMessage_def Let_def plain_part_def uint_0_iff)
qed

theorem ephemeral_setting_ordered_witness:
  "snd (snd (convertEphemeralSettingMessage (\<lambda>_. notice ''timer'') sample_portal (ProtocolMsg EPHEMERAL_SETTING None None 86400 (Some 4)) False)) = None
   \<and> dis_Timer (pt_Disappear (fst (snd (convertEphemeralSettingMessage (\<lambda>_. notice ''timer'') sample_portal
        (ProtocolMsg EPHEMERAL_SETTING None None 86400 (Some 6)) False)))) = 86400 * second"
  using ephemeral_setting_ordered [of False "ProtocolMsg EPHEMERAL_SETTING None None 86400 (Some 4)" sample_portal]
    ephemeral_setting_ordered [of False "ProtocolMsg EPHEMERAL_SETTING None None 86400 (Some 6)" sample_portal]
  by (simp add: sample_portal_def)

end
