(* ===== verification/MediaRequests.thy ===== *)
theory MediaRequests
  imports ToMatrix
begin

text \<open>
  Re-requesting media that the servers no longer have, \<open>pkg/connector/mediarequest.go\<close>, and
  the cache of converted media for edits, \<open>pkg/connector/mediaeditcache.go\<close>. The framework's
  message table and whatsmeow's receipts are arguments.
\<close>

section \<open>Failed media\<close>

record DBMessage =
  dbm_ID :: string
  dbm_MXID :: string
  dbm_Metadata :: MessageMetadata

datatype RequestMethod = MediaRequestMethodImmediate | MediaRequestMethodLocalTime

text \<open>The configuration of media requests, the message table's lookup and the receipt.\<close>

record request_env =
  rq_L :: jid_lib
  rq_bridge :: string
  rq_login :: string
  rq_JID :: jid
  rq_AutoRequestMedia :: bool
  rq_RequestMethod :: RequestMethod
  rq_get_part :: "string \<Rightarrow> gerror + DBMessage option"
  rq_send_receipt :: "MessageInfo \<Rightarrow> byte list \<Rightarrow> gerror option"
  rq_error_text :: "gerror \<Rightarrow> string"

definition first_failed :: "ConvertedMessage \<Rightarrow> PreparedMedia option" where
  "first_failed cm = (case cm_Parts cm of [] \<Rightarrow> None | p # _ \<Rightarrow> part_FailedMedia p)"

definition isFailedMedia :: "ConvertedMessage \<Rightarrow> bool" where
  "isFailedMedia converted \<longleftrightarrow> first_failed converted \<noteq> None"

definition sendMediaRequestDirect :: "request_env \<Rightarrow> string \<Rightarrow> byte list \<Rightarrow> gerror option" where
  "sendMediaRequestDirect R rawMsgID key =
     (case ParseMessageID (rq_L R) rawMsgID of
        Ok msgID \<Rightarrow> rq_send_receipt R
          \<lparr>mi_Chat = Chat msgID, mi_Sender = Sender msgID, mi_IsFromMe = (User (Sender msgID) = User (rq_JID R)),
           mi_IsGroup = (Server (Chat msgID) \<noteq> DefaultUserServer \<and> Server (Chat msgID) \<noteq> BotServer),
           mi_AddressingMode = AddressingModeNone, mi_SenderAlt = EmptyJID, mi_RecipientAlt = EmptyJID,
           mi_BroadcastListOwner = EmptyJID, mi_ID = ID msgID, mi_Timestamp = 0\<rparr> key
      | Fail e \<Rightarrow> Some (Wrap ''failed to parse message ID'' e)
      | Panic \<Rightarrow> None)"

definition request_outcome :: "request_env \<Rightarrow> MediaRequest \<Rightarrow> MediaRequest" where
  "request_outcome R req =
     (case rq_get_part R (mr_MessageID req) of
        Inl _ \<Rightarrow> req\<lparr>mr_Status := MediaBackfillRequestStatusRequestSkipped\<rparr>
      | Inr None \<Rightarrow> req\<lparr>mr_Status := MediaBackfillRequestStatusRequestSkipped\<rparr>
      | Inr (Some msg) \<Rightarrow>
          if md_Error (dbm_Metadata msg) \<noteq> MsgErrMediaNotFound
          then req\<lparr>mr_Status := MediaBackfillRequestStatusRequestSkipped\<rparr>
          else (case sendMediaRequestDirect R (mr_MessageID req) (mr_MediaKey req) of
                  Some e \<Rightarrow> req\<lparr>mr_Status := MediaBackfillRequestStatusRequestFailed, mr_Error := rq_error_text R e\<rparr>
                | None \<Rightarrow> req\<lparr>mr_Status := MediaBackfillRequestStatusRequested\<rparr>))"

definition sendMediaRequest :: "request_env \<Rightarrow> MediaRequest \<Rightarrow> wadb \<Rightarrow> wadb" where
  "sendMediaRequest R req db = MediaRequest_Put (rq_bridge R) (request_outcome R req) db"

definition sendMediaRequests :: "request_env \<Rightarrow> wadb \<Rightarrow> wadb" where
  "sendMediaRequests R db =
     fold (sendMediaRequest R) (MediaRequest_GetUnrequestedForUserLogin (rq_bridge R) (rq_login R) db) db"

definition immediate :: "request_env \<Rightarrow> bool" where
  "immediate R \<longleftrightarrow> rq_AutoRequestMedia R \<and> rq_RequestMethod R = MediaRequestMethodImmediate"

text \<open>The request that is returned in backfill, and the database after storing it otherwise.\<close>

definition processFailedMedia ::
  "request_env \<Rightarrow> PortalKey \<Rightarrow> string \<Rightarrow> ConvertedMessage \<Rightarrow> bool \<Rightarrow> wadb \<Rightarrow> (MediaRequest option \<times> wadb) outcome" where
  "processFailedMedia R portalKey msgID converted isBackfill db =
     (case first_failed converted of
        None \<Rightarrow> Ok (None, db)
      | Some field \<Rightarrow>
         (case pm_FailedKeys field of
            None \<Rightarrow> Panic
          | Some keys \<Rightarrow>
             (let req = \<lparr>mr_BridgeID = [], mr_UserLoginID = rq_login R, mr_MessageID = msgID, mr_PortalKey = portalKey,
                     mr_MediaKey = fk_Key keys, mr_Status = MediaBackfillRequestStatusNotRequested, mr_Error = []\<rparr>
              in if isBackfill then Ok (Some req, db)
                 else (let db1 = MediaRequest_Put (rq_bridge R) req db
                       in Ok (None, if immediate R then sendMediaRequest R req db1 else db1)))))"

text \<open>The times at which the loop sends requests: it waits until \<open>startIn\<close> and only then
  starts its daily ticker.\<close>

definition day :: int where "day = 24 * 60 * 60 * second"

definition mediaRequestLoop_send_time :: "gotime \<Rightarrow> int \<Rightarrow> nat \<Rightarrow> gotime" where
  "mediaRequestLoop_send_time now startIn k = now + startIn + day * (int k + 1)"

section \<open>The media edit cache\<close>

record MediaEditCacheEntry =
  me_MessageID :: string
  me_PortalMXID :: string
  me_Part :: ConvertedPart
  me_Expiry :: gotime

definition mec_key :: "MediaEditCacheEntry \<Rightarrow> string \<times> string" where
  "mec_key e = (me_MessageID e, me_PortalMXID e)"

definition EditMaxAge :: int where "EditMaxAge = 15 * 60 * second"

definition cacheable :: "ConvertedPart \<Rightarrow> bool" where
  "cacheable p \<longleftrightarrow> part_Type p = EventSticker \<or> is_media (ct_MsgType (part_Content p))"

definition mec_put :: "MediaEditCacheEntry \<Rightarrow> MediaEditCacheEntry list \<Rightarrow> MediaEditCacheEntry list" where
  "mec_put = tbl_upsert mec_key (\<lambda>old new. new)"

definition AddMediaEditCache ::
  "gotime \<Rightarrow> string \<Rightarrow> string \<Rightarrow> ConvertedPart \<Rightarrow> MediaEditCacheEntry list \<Rightarrow> MediaEditCacheEntry list" where
  "AddMediaEditCache now portalMXID messageID converted cache =
     (if \<not> cacheable converted then cache
      else mec_put \<lparr>me_MessageID = messageID, me_PortalMXID = portalMXID, me_Part = converted,
             me_Expiry = now + (EditMaxAge + 5 * 60 * second)\<rparr> cache)"

definition GetMediaEditCache :: "gotime \<Rightarrow> string \<Rightarrow> string \<Rightarrow> MediaEditCacheEntry list \<Rightarrow> ConvertedPart option" where
  "GetMediaEditCache now portalMXID messageID cache =
     (case tbl_lookup mec_key cache (messageID, portalMXID) of
        None \<Rightarrow> None
      | Some e \<Rightarrow> if time_sub (me_Expiry e) now < 0 then None else Some (me_Part e))"

definition expireMediaEditCache :: "gotime \<Rightarrow> MediaEditCacheEntry list \<Rightarrow> MediaEditCacheEntry list" where
  "expireMediaEditCache now cache = filter (\<lambda>e. \<not> time_sub (me_Expiry e) now < 0) cache"

interpretation mec_tbl: idem_upsert_store "tbl_keys_ok mec_key" "tbl_lookup mec_key" mec_key
  "\<lambda>old r. r" mec_put "\<lambda>k. tbl_delete (\<lambda>r. mec_key r = k)"
  by unfold_locales (auto simp: mec_put_def table_simps tbl_keys_ok_upsert tbl_keys_ok_delete split: option.splits)

section \<open>Lemmas\<close>

lemma request_outcome_simps [simp]:
  "mr_UserLoginID (request_outcome R req) = mr_UserLoginID req" "mr_MessageID (request_outcome R req) = mr_MessageID req"
  "mr_BridgeID (request_outcome R req) = mr_BridgeID req"
  by (simp_all add: request_outcome_def split: sum.splits option.splits)

text \<open>A round never takes a request back to an earlier status than it can have when it is sent.\<close>

lemma request_outcome_advances:
  "mr_Status req \<le> MediaBackfillRequestStatusNotRequested \<Longrightarrow> mr_Status req < mr_Status (request_outcome R req)"
  by (cases "mr_Status req")
    (auto simp: request_outcome_def less_eq_MediaBackfillRequestStatus_def less_MediaBackfillRequestStatus_def split: sum.split option.split)

lemma request_outcome_status: "mr_Status (request_outcome R req) \<noteq> MediaBackfillRequestStatusNotRequested"
  by (simp add: request_outcome_def split: sum.splits option.splits)

definition open_keys :: "wadb \<Rightarrow> (string \<times> string \<times> string) set" where
  "open_keys db = mr_key ` {r \<in> set (media_requests db). mr_Status r = MediaBackfillRequestStatusNotRequested}"

lemma sendMediaRequest_open:
  "open_keys (sendMediaRequest R req db) \<subseteq> open_keys db - {(rq_bridge R, mr_UserLoginID req, mr_MessageID req)}"
proof -
  let ?r = "request_outcome R req\<lparr>mr_BridgeID := rq_bridge R\<rparr>"
  have k: "mr_key ?r = (rq_bridge R, mr_UserLoginID req, mr_MessageID req)" by (simp add: mr_key_def)
  have s: "mr_Status ?r \<noteq> MediaBackfillRequestStatusNotRequested" by (simp add: request_outcome_status)
  have u: "mr_key x = mr_key ?r \<Longrightarrow> mr_key (mr_upsert_row x ?r) = mr_key ?r
      \<and> mr_Status (mr_upsert_row x ?r) \<noteq> MediaBackfillRequestStatusNotRequested" for x
    using s upsert_keys(2) by (simp add: mr_upsert_row_def mr_key_def)
  show ?thesis
    using s unfolding sendMediaRequest_def MediaRequest_Put_def open_keys_def k [symmetric]
    by (auto simp: tbl_upsert_def tbl_lookup_None u dest: u split: if_splits)
qed

lemma sendMediaRequests_open:
  "open_keys (fold (sendMediaRequest R) reqs db) \<subseteq>
     open_keys db - (\<lambda>r. (rq_bridge R, mr_UserLoginID r, mr_MessageID r)) ` set reqs"
proof (induction reqs arbitrary: db)
  case (Cons r reqs)
  from Cons [of "sendMediaRequest R r db"] sendMediaRequest_open [of R r db] show ?case by auto
qed simp

lemma open_keys_unrequested:
  "MediaRequest_GetUnrequestedForUserLogin b l db = [] \<longleftrightarrow> (\<forall>m. (b, l, m) \<notin> open_keys db)"
  by (auto simp: MediaRequest_GetUnrequestedForUserLogin_def open_keys_def mr_key_def filter_empty_conv)

lemma tbl_lookup_filter:
  "tbl_keys_ok key rows \<Longrightarrow> tbl_lookup key (filter P rows) k =
     (case tbl_lookup key rows k of None \<Rightarrow> None | Some r \<Rightarrow> if P r then Some r else None)"
proof (induction rows)
  case (Cons r rows)
  then have "tbl_lookup key (filter P rows) k = (case tbl_lookup key rows k of None \<Rightarrow> None | Some r \<Rightarrow> if P r then Some r else None)"
    "key r \<notin> key ` set rows"
    by (simp_all add: tbl_keys_ok_def)
  moreover from this(2) have "tbl_lookup key rows (key r) = None" by (rule tbl_lookup_None [THEN iffD2])
  ultimately show ?case by (auto simp: tbl_lookup_Cons)
qed simp

section \<open>Properties\<close>

definition sample_requests :: request_env where
  "sample_requests = \<lparr>rq_L = sample_jid_lib, rq_bridge = ''wa'', rq_login = ''358'', rq_JID = cl_JID sample_client,
     rq_AutoRequestMedia = True, rq_RequestMethod = MediaRequestMethodLocalTime,
     rq_get_part = (\<lambda>i. Inr (Some \<lparr>dbm_ID = i, dbm_MXID = ''$e'', dbm_Metadata = empty_metadata\<lparr>md_Error := MsgErrMediaNotFound\<rparr>\<rparr>)),
     rq_send_receipt = (\<lambda>_ _. None), rq_error_text = (\<lambda>_. ''error'')\<rparr>"

text \<open>C21: A run of the media request loop leaves no request of the login unanswered: every stored
  request that was not requested is marked as requested, failed or skipped, whatever the
  lookups and receipts do, and no request of another login is opened.\<close>

theorem media_requests_drained:
  "MediaRequest_GetUnrequestedForUserLogin (rq_bridge R) (rq_login R) (sendMediaRequests R db) = []
   \<and> open_keys (sendMediaRequests R db) \<subseteq> open_keys db"
proof -
  let ?reqs = "MediaRequest_GetUnrequestedForUserLogin (rq_bridge R) (rq_login R) db"
  have s: "open_keys (sendMediaRequests R db) \<subseteq>
      open_keys db - (\<lambda>r. (rq_bridge R, mr_UserLoginID r, mr_MessageID r)) ` set ?reqs"
    unfolding sendMediaRequests_def by (rule sendMediaRequests_open)
  have "(rq_bridge R, rq_login R, m) \<in> open_keys db \<Longrightarrow>
      (rq_bridge R, rq_login R, m) \<in> (\<lambda>r. (rq_bridge R, mr_UserLoginID r, mr_MessageID r)) ` set ?reqs" for m
    by (auto simp: open_keys_def mr_key_def MediaRequest_GetUnrequestedForUserLogin_def image_iff)
  with s show ?thesis by (auto simp: open_keys_unrequested)
qed

text \<open>With a daily request time the first requests are sent a whole day after that time, not
  at it: no run happens before, and runs are a day apart.\<close>

theorem media_request_loop_first_run:
  assumes "0 \<le> startIn"
  shows "mediaRequestLoop_send_time now startIn 0 = now + startIn + day
    \<and> (\<forall>k. now + startIn < mediaRequestLoop_send_time now startIn k
         \<and> mediaRequestLoop_send_time now startIn (Suc k) = mediaRequestLoop_send_time now startIn k + day)"
  using assms by (auto simp: mediaRequestLoop_send_time_def day_def second_def algebra_simps)

theorem media_request_loop_first_run_witness:
  "mediaRequestLoop_send_time 0 second 0 = second + day"
  using media_request_loop_first_run [of second 0] by (simp add: second_def)

text \<open>The media edit cache answers like a map whose entries live for the edit age plus five
  minutes: a part that was added is found, under its message and room only, until its expiry and
  not after it, parts that are not media never enter, and running the expiry changes no answer
  now or later.\<close>

theorem media_edit_cache_lookup:
  assumes ok: "tbl_keys_ok mec_key cache" and now: "now \<le> later"
    and range: "later - now < 2 ^ 62" and c: "cacheable part"
  shows "GetMediaEditCache later room msg (AddMediaEditCache now room msg part cache) =
      (if later \<le> now + EditMaxAge + 5 * 60 * second then Some part else None)
    \<and> (\<forall>r m. (m, r) \<noteq> (msg, room) \<longrightarrow>
        GetMediaEditCache later r m (AddMediaEditCache now room msg part cache) = GetMediaEditCache later r m cache)
    \<and> (\<forall>r m. GetMediaEditCache later r m (expireMediaEditCache now cache) = GetMediaEditCache later r m cache)"
proof -
  let ?e = "\<lparr>me_MessageID = msg, me_PortalMXID = room, me_Part = part, me_Expiry = now + (EditMaxAge + 5 * 60 * second)\<rparr>"
  have k: "mec_key ?e = (msg, room)" by (simp add: mec_key_def)
  have "time_sub (me_Expiry ?e) later < 0 \<longleftrightarrow> now + EditMaxAge + 5 * 60 * second < later"
    using range now by (auto simp: time_sub_def EditMaxAge_def second_def)
  then have "GetMediaEditCache later room msg (AddMediaEditCache now room msg part cache) =
      (if later \<le> now + EditMaxAge + 5 * 60 * second then Some part else None)"
    using mec_tbl.look_put_same [OF ok, of ?e, unfolded k] c by (simp add: GetMediaEditCache_def AddMediaEditCache_def)
  moreover have "(m, r) \<noteq> (msg, room) \<longrightarrow>
      GetMediaEditCache later r m (AddMediaEditCache now room msg part cache) = GetMediaEditCache later r m cache" for r m
    using mec_tbl.look_put_other [OF ok, of "(m, r)" ?e, unfolded k] c by (simp add: GetMediaEditCache_def AddMediaEditCache_def)
  moreover have "time_sub (me_Expiry e) now < 0 \<Longrightarrow> time_sub (me_Expiry e) later < 0" for e
    using now by (auto simp: time_sub_def)
  then have "GetMediaEditCache later r m (expireMediaEditCache now cache) = GetMediaEditCache later r m cache" for r m
    using tbl_lookup_filter [OF ok] by (auto simp: GetMediaEditCache_def expireMediaEditCache_def split: option.splits)
  ultimately show ?thesis by blast
qed

theorem media_edit_cache_lookup_witness:
  "GetMediaEditCache (60 * second) ''!r'' ''m'' (AddMediaEditCache 0 ''!r'' ''m'' (plain_part EventSticker empty_content) [])
    = Some (plain_part EventSticker empty_content)"
  using media_edit_cache_lookup [of "[]" 0 "60 * second" "plain_part EventSticker empty_content" "''!r''" "''m''"]
  by (simp add: tbl_keys_ok_def cacheable_def plain_part_def EditMaxAge_def second_def)

end
