(* ===== verification/Polls.thy ===== *)
theory Polls
  imports MediaRequests
begin

text \<open>
  Polls in both directions: \<open>convertPollCreationMessage\<close> and \<open>convertPollUpdateMessage\<close> of
  \<open>pkg/msgconv/wa-poll.go\<close>, \<open>PollStartToWhatsApp\<close>, \<open>PollVoteToWhatsApp\<close> and
  \<open>msc1767ToWhatsApp\<close> of \<open>pkg/msgconv/matrixpoll.go\<close>. SHA-256, the vote encryption and the
  HTML parser are arguments. An answer of a poll that was made on Matrix is known on WhatsApp by
  the hash of its text, and back by the stored identifier; on polls made on WhatsApp the
  identifier is the hash in hexadecimal.
\<close>

section \<open>Polls from WhatsApp\<close>

record PollCreationMessage =
  pcm_Name :: string
  pcm_Options :: "string list"
  pcm_SelectableOptionsCount :: "32 word"
  pcm_ContextInfo :: "ContextInfo option"

record PollPart =
  pp_Type :: EventType
  pp_Body :: string
  pp_FormattedBody :: string
  pp_OptionNames :: "string list"
  pp_SelectableOptionsCount :: "32 word"
  pp_MaxSelections :: int
  pp_Question :: string
  pp_Answers :: "(string \<times> string) list"

definition newline :: string where "newline = [char_of (10::nat)]"

fun join :: "string \<Rightarrow> string list \<Rightarrow> string" where
  "join sep [] = []"
| "join sep [x] = x"
| "join sep (x # y # xs) = x @ sep @ join sep (y # xs)"

definition convertPollCreationMessage ::
  "(byte list \<Rightarrow> byte list) \<Rightarrow> (string \<Rightarrow> string) \<Rightarrow> bool \<Rightarrow> PollCreationMessage \<Rightarrow> PollPart \<times> ContextInfo option" where
  "convertPollCreationMessage sha256 text_to_html extEvPolls msg =
     (let names = pcm_Options msg;
          texts = map (\<lambda>(i, n). format_nat (i + 1) @ ''. '' @ n @ newline) (enumerate 0 names);
          htmls = map (\<lambda>n. ''<li>'' @ text_to_html n @ ''</li>'') names;
          answers = map (\<lambda>n. (hex_encode (sha256 (bytes_of_string n)), n)) names;
          note = ''(This message is a poll. Please open WhatsApp to vote.)''
      in (\<lparr>pp_Type = (if extEvPolls then EventUnstablePollStart else EventMessage),
           pp_Body = pcm_Name msg @ newline @ newline @ join newline texts @ newline @ newline @ note,
           pp_FormattedBody = ''<p>'' @ text_to_html (pcm_Name msg) @ ''</p><ol>'' @ concat htmls @ ''</ol><p>'' @ note @ ''</p>'',
           pp_OptionNames = names, pp_SelectableOptionsCount = pcm_SelectableOptionsCount msg,
           pp_MaxSelections = (if uint (pcm_SelectableOptionsCount msg) \<le> 0 then int (length names)
                               else uint (pcm_SelectableOptionsCount msg)),
           pp_Question = pcm_Name msg, pp_Answers = answers\<rparr>, pcm_ContextInfo msg))"

text \<open>A vote that could not be handled, or the poll it is for and its answers.\<close>

datatype PollUpdate = FailedPollUpdatePart | PollResponse string "string list"

definition selected_answers_matrix :: "(byte list \<rightharpoonup> string) \<Rightarrow> byte list list \<Rightarrow> string list" where
  "selected_answers_matrix mappedAnswers opts =
     map (\<lambda>opt. if length opt \<noteq> 32 then [] else case mappedAnswers opt of None \<Rightarrow> [] | Some i \<Rightarrow> i) opts"

text \<open>
  \<open>get_part\<close> looks the poll up; a poll that is not there is a nil pointer, dereferenced
  after the vote has been decrypted.
\<close>

definition convertPollUpdateMessage ::
  "jid_lib \<Rightarrow> client \<Rightarrow> string \<Rightarrow> (string \<Rightarrow> gerror + DBMessage option) \<Rightarrow> (MessageInfo \<Rightarrow> gerror + byte list list) \<Rightarrow>
   MessageInfo \<Rightarrow> MessageKey option \<Rightarrow> wadb \<Rightarrow> PollUpdate outcome" where
  "convertPollUpdateMessage L c bridge get_part decrypt info pollKey db =
     (case get_part (KeyToMessageID L c (mi_Chat info) (mi_Sender info) pollKey) of
        Inl _ \<Rightarrow> Ok FailedPollUpdatePart
      | Inr pollMessage \<Rightarrow>
         (case decrypt info of
            Inl _ \<Rightarrow> Ok FailedPollUpdatePart
          | Inr opts \<Rightarrow>
             (case pollMessage of
                None \<Rightarrow> Panic
              | Some pm \<Rightarrow>
                  if md_IsMatrixPoll (dbm_Metadata pm) then
                    (case PollOption_GetIDs bridge (dbm_MXID pm) opts db of
                       Ok mapped \<Rightarrow> Ok (PollResponse (dbm_MXID pm) (selected_answers_matrix mapped opts))
                     | _ \<Rightarrow> Ok FailedPollUpdatePart)
                  else Ok (PollResponse (dbm_MXID pm) (map hex_encode opts)))))"

section \<open>Polls from Matrix\<close>

record MSC1767Message =
  mx_Text :: string
  mx_HTML :: string
  mx_Message :: "(string \<times> string) list"

text \<open>The first HTML and plain parts fill the fields that are empty; \<open>parse\<close> is the HTML parser
  with its mentions.\<close>

definition msc_fill :: "string \<times> string \<Rightarrow> string \<times> string \<Rightarrow> string \<times> string" where
  "msc_fill part acc =
     (case (part, acc) of ((mime, body), (html, text)) \<Rightarrow>
        if mime = ''text/html'' \<and> html = [] then (body, text)
        else if mime = ''text/plain'' \<and> text = [] then (html, body)
        else (html, text))"

definition msc1767ToWhatsApp :: "(string \<Rightarrow> string \<times> string list) \<Rightarrow> MSC1767Message \<Rightarrow> string \<times> string list" where
  "msc1767ToWhatsApp parse msg =
     (case fold msc_fill (mx_Message msg) (mx_HTML msg, mx_Text msg) of
        (html, text) \<Rightarrow> if html \<noteq> [] then parse html else (text, []))"

record PollStart =
  ps_MaxSelections :: int
  ps_Question :: MSC1767Message
  ps_Answers :: "(string \<times> MSC1767Message) list"

definition errPollMissingQuestion :: gerror where
  "errPollMissingQuestion = Err ''poll message is missing question''"

definition errPollDuplicateOption :: gerror where
  "errPollDuplicateOption = Err ''poll options must be unique''"

text \<open>The options so far and the map from hashes to identifiers, as the list of its entries.\<close>

fun poll_options_loop ::
  "(byte list \<Rightarrow> byte list) \<Rightarrow> (MSC1767Message \<Rightarrow> string) \<Rightarrow> (string \<times> MSC1767Message) list \<Rightarrow>
   string list \<Rightarrow> (byte list \<times> string) list \<Rightarrow> (string list \<times> (byte list \<times> string) list) outcome" where
  "poll_options_loop sha256 text [] options optionMap = Ok (options, optionMap)"
| "poll_options_loop sha256 text ((i, m) # rest) options optionMap =
     (let body = text m; hash = sha256 (bytes_of_string body) in
      if map_of optionMap hash \<noteq> None then Fail errPollDuplicateOption
      else poll_options_loop sha256 text rest (options @ [body]) (optionMap @ [(hash, i)]))"

definition PollStartToWhatsApp ::
  "(byte list \<Rightarrow> byte list) \<Rightarrow> (string \<Rightarrow> string \<times> string list) \<Rightarrow> (string \<Rightarrow> string \<times> string list) \<Rightarrow> PollStart \<Rightarrow>
   (PollCreationMessage \<times> string list \<times> (byte list \<times> string) list) outcome" where
  "PollStartToWhatsApp sha256 parse parse_no_mentions content =
     (let n = int (length (ps_Answers content));
          maxAnswers = (if ps_MaxSelections content \<ge> n \<or> ps_MaxSelections content < 0 then 0 else ps_MaxSelections content);
          (question, mentions) = msc1767ToWhatsApp parse (ps_Question content)
      in if question = [] then Fail errPollMissingQuestion
         else obind (poll_options_loop sha256 (\<lambda>m. fst (msc1767ToWhatsApp parse_no_mentions m)) (ps_Answers content) [] [])
           (\<lambda>(options, optionMap). Ok
             (\<lparr>pcm_Name = question, pcm_Options = options, pcm_SelectableOptionsCount = of_int maxAnswers,
               pcm_ContextInfo = None\<rparr>, mentions, optionMap)))"

text \<open>The hashes sent for a vote.\<close>

definition vote_hashes ::
  "string \<Rightarrow> DBMessage \<Rightarrow> string list \<Rightarrow> wadb \<Rightarrow> byte list list outcome" where
  "vote_hashes bridge pollMsg answers db =
     (if md_IsMatrixPoll (dbm_Metadata pollMsg) then
        (case PollOption_GetHashes bridge (dbm_MXID pollMsg) answers db of
           Ok mapped \<Rightarrow> Ok (List.map_filter mapped answers)
         | Fail _ \<Rightarrow> Fail (Err ''failed to get poll option hashes'')
         | Panic \<Rightarrow> Panic)
      else Ok (List.map_filter (\<lambda>s. case hex_decode s of
             None \<Rightarrow> None | Some h \<Rightarrow> if length h = 32 then Some h else None) answers))"

definition PollVoteToWhatsApp ::
  "jid_lib \<Rightarrow> client \<Rightarrow> string \<Rightarrow> (MessageInfo \<Rightarrow> byte list list \<Rightarrow> gerror + 'u) \<Rightarrow> DBMessage \<Rightarrow> string list \<Rightarrow> wadb \<Rightarrow> 'u outcome" where
  "PollVoteToWhatsApp L c bridge encrypt pollMsg answers db =
     (case ParseMessageID L (dbm_ID pollMsg) of
        Ok parsed \<Rightarrow> obind (vote_hashes bridge pollMsg answers db) (\<lambda>hashes. of_sum (encrypt (MessageIDToInfo c parsed) hashes))
      | Fail _ \<Rightarrow> Fail (Err ''failed to parse message ID'')
      | Panic \<Rightarrow> Panic)"

section \<open>Lemmas\<close>

lemma poll_options_loop_Ok:
  assumes "poll_options_loop sha tx rest opts om = Ok (opts', om')" and "distinct (map fst om)"
  shows "opts' = opts @ map (\<lambda>(_, m). tx m) rest
    \<and> om' = om @ map (\<lambda>(i, m). (sha (bytes_of_string (tx m)), i)) rest \<and> distinct (map fst om')"
  using assms
proof (induction sha tx rest opts om rule: poll_options_loop.induct)
  case (2 sha tx i m rest opts om)
  let ?h = "sha (bytes_of_string (tx m))"
  from "2.prems"(1) have n: "map_of om ?h = None" and l: "poll_options_loop sha tx rest (opts @ [tx m]) (om @ [(?h, i)]) = Ok (opts', om')"
    by (auto simp: Let_def split: if_splits)
  have "distinct (map fst (om @ [(?h, i)]))" using "2.prems"(2) n by (simp add: map_of_eq_None_iff)
  have ih: "opts' = (opts @ [tx m]) @ map (\<lambda>(_, m). tx m) rest
      \<and> om' = (om @ [(?h, i)]) @ map (\<lambda>(i, m). (sha (bytes_of_string (tx m)), i)) rest \<and> distinct (map fst om')"
    by (rule "2.IH" [OF refl refl _ l \<open>distinct (map fst (om @ [(?h, i)]))\<close>]) (simp add: n)
  then have "opts' = opts @ map (\<lambda>(_, m). tx m) ((i, m) # rest)"
    "om' = om @ map (\<lambda>(i, m). (sha (bytes_of_string (tx m)), i)) ((i, m) # rest)"
    by simp_all
  with ih show ?case by blast
qed simp

lemma poll_options_loop_step:
  "fst ` set om \<inter> {sha (bytes_of_string (tx m))} = {} \<Longrightarrow>
   poll_options_loop sha tx ((i, m) # rest) opts om =
   poll_options_loop sha tx rest (opts @ [tx m]) (om @ [(sha (bytes_of_string (tx m)), i)])"
  using map_of_eq_None_iff [of om "sha (bytes_of_string (tx m))"] by (simp add: Let_def)

lemma poll_options_loop_distinct:
  "distinct (map fst om @ map (\<lambda>(_, m). sha (bytes_of_string (tx m))) rest) \<Longrightarrow>
   \<exists>opts' om'. poll_options_loop sha tx rest opts om = Ok (opts', om')"
proof (induction rest arbitrary: opts om)
  case (Cons x rest)
  obtain i m where x: "x = (i, m)" by (cases x)
  have "distinct (map fst (om @ [(sha (bytes_of_string (tx m)), i)]) @ map (\<lambda>(_, m). sha (bytes_of_string (tx m))) rest)"
    using Cons.prems x by auto
  from Cons.IH [OF this, of "opts @ [tx m]"] Cons.prems x show ?case
    by (subst x, subst poll_options_loop_step) auto
qed simp

lemma poll_options_loop_dup:
  "distinct (map fst om) \<Longrightarrow> \<not> distinct (map fst om @ map (\<lambda>(_, m). sha (bytes_of_string (tx m))) rest) \<Longrightarrow>
   poll_options_loop sha tx rest opts om = Fail errPollDuplicateOption"
proof (induction rest arbitrary: opts om)
  case (Cons x rest)
  obtain i m where x: "x = (i, m)" by (cases x)
  let ?h = "sha (bytes_of_string (tx m))"
  show ?case
  proof (cases "map_of om ?h")
    case (Some a)
    then show ?thesis by (simp add: x Let_def)
  next
    case None
    then have n: "?h \<notin> fst ` set om" by (simp only: map_of_eq_None_iff) simp
    have "distinct (map fst (om @ [(?h, i)]))" using Cons.prems(1) n by simp
    moreover have "\<not> distinct (map fst (om @ [(?h, i)]) @ map (\<lambda>(_, m). sha (bytes_of_string (tx m))) rest)"
      using Cons.prems(2) n x by auto
    ultimately have "poll_options_loop sha tx rest (opts @ [tx m]) (om @ [(?h, i)]) = Fail errPollDuplicateOption"
      by (rule Cons.IH)
    with n show ?thesis by (subst x, subst poll_options_loop_step) auto
  qed
qed simp

lemma unat_lt_byte: "unat (b :: byte) < 256"
  using unsigned_less [of b] by simp

lemma hex_value_lower: "d < 16 \<Longrightarrow> hex_value (hex_digit_lower d) = Some d"
  by (simp add: hex_value_def hex_digit_lower_def Let_def)

lemma hex_decode_encode [simp]: "hex_decode (hex_encode bs) = Some bs"
proof (induction bs)
  case (Cons b bs)
  have "unat b < 256" using unat_lt_byte .
  then have "hex_value (hex_digit_lower (unat b div 16)) = Some (unat b div 16)"
    "hex_value (hex_digit_lower (unat b mod 16)) = Some (unat b mod 16)"
    by (simp_all add: hex_value_lower)
  then show ?case using Cons by (simp add: hex_encode_def)
qed (simp add: hex_encode_def)

section \<open>Properties\<close>

definition answer_texts :: "(string \<Rightarrow> string \<times> string list) \<Rightarrow> PollStart \<Rightarrow> string list" where
  "answer_texts parse content = map (\<lambda>(_, m). fst (msc1767ToWhatsApp parse m)) (ps_Answers content)"

text \<open>A Matrix poll with a question becomes a WhatsApp poll exactly when the hashes of its
  answers' texts are all different, and is refused as having duplicate options otherwise. The
  poll has the answers' texts in order, the map has each answer's identifier under the hash of
  its text, and the number of selectable options is the limit if it is below the number of
  answers and zero, for any number, otherwise.\<close>

theorem poll_start_options:
  assumes "fst (msc1767ToWhatsApp parse (ps_Question content)) \<noteq> []"
  shows "PollStartToWhatsApp sha parse pn content =
    (if distinct (map (\<lambda>t. sha (bytes_of_string t)) (answer_texts pn content))
     then Ok (\<lparr>pcm_Name = fst (msc1767ToWhatsApp parse (ps_Question content)), pcm_Options = answer_texts pn content,
          pcm_SelectableOptionsCount =
            (if 0 \<le> ps_MaxSelections content \<and> ps_MaxSelections content < int (length (ps_Answers content))
             then of_int (ps_MaxSelections content) else 0),
          pcm_ContextInfo = None\<rparr>, snd (msc1767ToWhatsApp parse (ps_Question content)),
        zip (map (\<lambda>t. sha (bytes_of_string t)) (answer_texts pn content)) (map fst (ps_Answers content)))
     else Fail errPollDuplicateOption)"
proof -
  let ?tx = "\<lambda>m. fst (msc1767ToWhatsApp pn m)"
  have hs: "map (\<lambda>(_, m). sha (bytes_of_string (?tx m))) (ps_Answers content) = map (\<lambda>t. sha (bytes_of_string t)) (answer_texts pn content)"
    by (simp add: answer_texts_def comp_def case_prod_unfold)
  show ?thesis
  proof (cases "distinct (map (\<lambda>t. sha (bytes_of_string t)) (answer_texts pn content))")
    case True
    obtain opts om where l: "poll_options_loop sha ?tx (ps_Answers content) [] [] = Ok (opts, om)"
      using poll_options_loop_distinct [of "[]" sha ?tx "ps_Answers content" "[]"] True hs by auto
    have "opts = answer_texts pn content"
      "om = zip (map (\<lambda>t. sha (bytes_of_string t)) (answer_texts pn content)) (map fst (ps_Answers content))"
      using poll_options_loop_Ok [OF l]
      by (simp_all add: answer_texts_def zip_map_map zip_same_conv_map comp_def case_prod_unfold)
    with l True assms show ?thesis
      by (auto simp: PollStartToWhatsApp_def Let_def case_prod_unfold)
  next
    case False
    then have "poll_options_loop sha ?tx (ps_Answers content) [] [] = Fail errPollDuplicateOption"
      using hs by (intro poll_options_loop_dup) simp_all
    with False assms show ?thesis by (simp add: PollStartToWhatsApp_def Let_def case_prod_unfold)
  qed
qed

definition sample_poll :: PollStart where
  "sample_poll = \<lparr>ps_MaxSelections = 1, ps_Question = \<lparr>mx_Text = ''Q?'', mx_HTML = [], mx_Message = []\<rparr>,
     ps_Answers = [(''a'', \<lparr>mx_Text = ''yes'', mx_HTML = [], mx_Message = []\<rparr>), (''b'', \<lparr>mx_Text = ''no'', mx_HTML = [], mx_Message = []\<rparr>)]\<rparr>"

definition sample_sha :: "byte list \<Rightarrow> byte list" where
  "sample_sha bs = take 32 (bs @ replicate 32 0)"

theorem poll_start_options_witness:
  "\<exists>pcm mentions. PollStartToWhatsApp sample_sha (\<lambda>h. (h, [])) (\<lambda>h. (h, [])) sample_poll =
     Ok (pcm, mentions, [(sample_sha (bytes_of_string ''yes''), ''a''), (sample_sha (bytes_of_string ''no''), ''b'')])"
proof -
  have "fst (msc1767ToWhatsApp (\<lambda>h. (h, [])) (ps_Question sample_poll)) \<noteq> []"
    by (simp add: msc1767ToWhatsApp_def sample_poll_def)
  moreover have "sample_sha (bytes_of_string ''yes'') \<noteq> sample_sha (bytes_of_string ''no'')"
    by (simp add: sample_sha_def bytes_of_string_def byte_of_char_def)
  moreover have "answer_texts (\<lambda>h. (h, [])) sample_poll = [''yes'', ''no'']"
    by (simp add: answer_texts_def sample_poll_def msc1767ToWhatsApp_def)
  ultimately show ?thesis
    using poll_start_options [of "\<lambda>h. (h, [])" sample_poll sample_sha "\<lambda>h. (h, [])"]
    by (simp add: sample_poll_def)
qed

text \<open>C24: Votes find their way back. On a poll made on Matrix whose options were stored, the
  hashes sent for a choice of its answers are those answers' hashes in order, and a WhatsApp
  vote with such hashes is shown with exactly these answers. On a poll made on WhatsApp the
  answers in hexadecimal and the hashes correspond the same way.\<close>

theorem poll_vote_roundtrip:
  assumes fresh: "\<forall>r \<in> set (poll_options db0). \<not> (po_bridge r = b \<and> po_msg r = dbm_MXID pm)"
    and opts: "distinct (map fst opts)" "\<forall>h \<in> fst ` set opts. length h = 32" "distinct (map snd opts)" "opts \<noteq> []"
    and stored: "PollOption_Put b (dbm_MXID pm) opts db0 = Ok db"
    and vote: "set votes \<subseteq> set opts"
  shows "vote_hashes b pm (if md_IsMatrixPoll (dbm_Metadata pm) then map snd votes else map hex_encode (map fst votes)) db
      = Ok (map fst votes)
    \<and> (\<exists>mapped. PollOption_GetIDs b (dbm_MXID pm) (map fst votes) db = Ok mapped
      \<and> selected_answers_matrix mapped (map fst votes) = map snd votes)"
proof -
  obtain mi mh where m: "PollOption_GetIDs b (dbm_MXID pm) (map fst votes) db = Ok mi"
    "PollOption_GetHashes b (dbm_MXID pm) (map snd votes) db = Ok mh"
    "\<And>h i. mi h = Some i \<longleftrightarrow> (h, i) \<in> set opts \<and> h \<in> set (map fst votes)"
    "\<And>h i. mh i = Some h \<longleftrightarrow> (h, i) \<in> set opts \<and> i \<in> set (map snd votes)"
    using stored poll_options_stored [OF fresh opts, of "map fst votes" "map snd votes"] by auto
  have mem: "mi (fst v) = Some (snd v) \<and> mh (snd v) = Some (fst v) \<and> length (fst v) = 32" if "v \<in> set votes" for v
  proof -
    from that vote have "(fst v, snd v) \<in> set opts" "fst v \<in> set (map fst votes)" "snd v \<in> set (map snd votes)" "fst v \<in> fst ` set opts"
      by auto
    with m(3,4) opts(2) show ?thesis by blast
  qed
  have "List.map_filter mh (map snd votes) = map fst votes"
    using mem by (induction votes) (auto simp: List.map_filter_simps)
  moreover have "List.map_filter (\<lambda>s. case hex_decode s of None \<Rightarrow> None | Some h \<Rightarrow> if length h = 32 then Some h else None)
      (map hex_encode (map fst votes)) = map fst votes"
    using mem by (induction votes) (auto simp: List.map_filter_simps)
  ultimately have "vote_hashes b pm (if md_IsMatrixPoll (dbm_Metadata pm) then map snd votes else map hex_encode (map fst votes)) db
      = Ok (map fst votes)"
    using m(2) by (simp add: vote_hashes_def)
  moreover have "selected_answers_matrix mi (map fst votes) = map snd votes"
    using mem by (simp add: selected_answers_matrix_def)
  ultimately show ?thesis using m(1) by blast
qed

theorem poll_vote_roundtrip_witness:
  "\<exists>db. PollOption_Put ''wa'' ''$poll'' [(replicate 32 1, ''yes''), (replicate 32 2, ''no'')] empty_wadb = Ok db
    \<and> vote_hashes ''wa'' \<lparr>dbm_ID = [], dbm_MXID = ''$poll'', dbm_Metadata = empty_metadata\<lparr>md_IsMatrixPoll := True\<rparr>\<rparr> [''no''] db
      = Ok [replicate 32 2]"
proof -
  let ?opts = "[(replicate 32 (1 :: byte), ''yes''), (replicate 32 2, ''no'')]"
  let ?pm = "\<lparr>dbm_ID = [], dbm_MXID = ''$poll'', dbm_Metadata = empty_metadata\<lparr>md_IsMatrixPoll := True\<rparr>\<rparr>"
  have h: "\<forall>r \<in> set (poll_options empty_wadb). \<not> (po_bridge r = ''wa'' \<and> po_msg r = dbm_MXID ?pm)" "distinct (map fst ?opts)"
    "\<forall>h \<in> fst ` set ?opts. length h = 32" "distinct (map snd ?opts)" "?opts \<noteq> []" "set [(replicate 32 2, ''no'')] \<subseteq> set ?opts"
    by (simp_all add: empty_wadb_def)
  obtain db where db: "PollOption_Put ''wa'' ''$poll'' ?opts empty_wadb = Ok db"
    using poll_options_stored [OF h(1-5), of "[]" "[]"] by auto
  then have db': "PollOption_Put ''wa'' (dbm_MXID ?pm) ?opts empty_wadb = Ok db" by simp
  from poll_vote_roundtrip [OF h(1-5) db' h(6)] db show ?thesis by (auto simp: empty_metadata_def)
qed

text \<open>Handling a vote panics exactly when the poll is looked up without an error but is not
  there and the vote can be decrypted, and in every other case gives a response or the failure
  part: a vote on a poll that the bridge does not know is not survived.\<close>

theorem unknown_poll_vote_panics:
  "convertPollUpdateMessage L c b get_part decrypt info key db = Panic \<longleftrightarrow>
     get_part (KeyToMessageID L c (mi_Chat info) (mi_Sender info) key) = Inr None \<and> (\<exists>opts. decrypt info = Inr opts)"
  by (simp add: convertPollUpdateMessage_def split: sum.splits option.splits outcome.splits)

end
