(* ===== verification/HistorySync.thy ===== *)
theory HistorySync
  imports WaMessage
begin

text \<open>
  Storing history sync payloads and the loop that drives it, the first half of
  \<open>pkg/connector/backfill.go\<close>. The downloads, the parser of historical messages and the
  protobuf codecs are whatsmeow's: fields of \<open>hist_env\<close>, with the errors that the
  database can return at each call. The state holds the bridge's database, the framework's set
  of unfinished backfill tasks, and the channels and timers of the loop.
\<close>

section \<open>Data\<close>

datatype SyncType = INITIAL_BOOTSTRAP | INITIAL_STATUS_V3 | FULL | RECENT | PUSH_NAME | NON_BLOCKING_DATA | ON_DEMAND

record WebReaction =
  wr_Key :: "MessageKey option"
  wr_Text :: string
  wr_SenderTimestampMS :: int

record WebMessageInfo =
  wm_ID :: string
  wm_MessageTimestamp :: "64 word"
  wm_Reactions :: "WebReaction list"
  wm_Payload :: "byte list"

text \<open>What \<open>ParseWebMessage\<close> returns.\<close>

record MessageEvent =
  me_Info :: MessageInfo
  me_Message :: "WAMessage option"
  me_RawMessage :: "WAMessage option"
  me_IsViewOnce :: bool
  me_IsViewOnceV2 :: bool
  me_IsViewOnceV2Extension :: bool

record HistorySync =
  hsy_SyncType :: "SyncType option"
  hsy_Conversations :: "(HSConversation \<times> WebMessageInfo list) list"

record 'n hist_env =
  he_L :: jid_lib
  he_client :: client
  he_bridge :: string
  he_chunk :: "nat \<Rightarrow> HistorySyncMessageTuple list \<Rightarrow> HistorySyncMessageTuple list list"
  he_now :: int
  he_parse :: "jid \<Rightarrow> WebMessageInfo \<Rightarrow> gerror + MessageEvent"
  he_marshal_msg :: "WebMessageInfo \<Rightarrow> gerror + byte list"
  he_marshal :: "'n \<Rightarrow> gerror + byte list"
  he_unmarshal :: "byte list \<Rightarrow> gerror + 'n"
  he_download :: "'n \<Rightarrow> gerror + HistorySync option"
  he_conv_put_err :: "jid \<Rightarrow> gerror option"
  he_msg_put_err :: "jid \<Rightarrow> gerror option"
  he_mark_err :: "jid \<Rightarrow> gerror option"
  he_delete_err :: "int \<Rightarrow> gerror option"

record hist_state =
  hst_db :: wadb
  hst_tasks :: "(PortalKey \<times> string) set"
  hst_pushNamesSynced :: bool

section \<open>Collecting the messages of a conversation\<close>

definition hist_chat_jid :: "'n hist_env \<Rightarrow> HSConversation \<Rightarrow> jid option" where
  "hist_chat_jid E conv =
     (case parse_jid (he_L E) (hc_ID conv) of
        Inl _ \<Rightarrow> None
      | Inr j \<Rightarrow>
          if Server j = BroadcastServer then None
          else if Server j = HiddenUserServer then
            (case GetPNForLID (he_client E) j of
               (_, Some _) \<Rightarrow> Some j
             | (pn, None) \<Rightarrow> if jid_is_empty (he_L E) pn then Some j else Some pn)
          else Some j)"

definition collect_message ::
  "'n hist_env \<Rightarrow> jid \<Rightarrow> WebMessageInfo \<Rightarrow> gotime \<times> HistorySyncMessageTuple list \<Rightarrow> gotime \<times> HistorySyncMessageTuple list" where
  "collect_message E j raw acc =
     (case acc of (maxTime, msgs) \<Rightarrow>
       (case he_parse E j raw of
          Inl _ \<Rightarrow> (maxTime, msgs)
        | Inr msgEvt \<Rightarrow>
            let ts = mi_Timestamp (me_Info msgEvt);
                maxTime' = (if maxTime = 0 \<or> maxTime < ts then ts else maxTime)
            in if skipped_type (getMessageType (me_Message msgEvt)) then (maxTime', msgs)
               else (case he_marshal_msg E raw of
                       Inl _ \<Rightarrow> (maxTime', msgs)
                     | Inr marshaled \<Rightarrow> (maxTime', msgs @ [\<lparr>tup_Info = me_Info msgEvt, tup_Message = marshaled\<rparr>]))))"

definition collect_messages :: "'n hist_env \<Rightarrow> jid \<Rightarrow> WebMessageInfo list \<Rightarrow> gotime \<times> HistorySyncMessageTuple list" where
  "collect_messages E j raws = fold (collect_message E j) raws (0, [])"

section \<open>Storing a payload\<close>

text \<open>Storing one conversation returns the new state, and the error that ends the loop, if any.\<close>

definition mark_backfill ::
  "'n hist_env \<Rightarrow> bool \<Rightarrow> jid \<Rightarrow> hist_state \<Rightarrow> hist_state \<times> gerror option" where
  "mark_backfill E stopOnError j st =
     (case he_mark_err E j of
        Some e \<Rightarrow> (st, if stopOnError then Some (Wrap ''failed to mark backfill task as not done'' e) else None)
      | None \<Rightarrow> (st\<lparr>hst_tasks := insert (makeWAPortalKey (he_L E) (he_client E) j, cl_UserLoginID (he_client E)) (hst_tasks st)\<rparr>, None))"

definition put_messages :: "'n hist_env \<Rightarrow> jid \<Rightarrow> HistorySyncMessageTuple list \<Rightarrow> wadb \<Rightarrow> wadb outcome" where
  "put_messages E j msgs db =
     (case he_msg_put_err E j of
        Some e \<Rightarrow> Fail e
      | None \<Rightarrow> Message_Put (he_L E) (he_chunk E) (he_now E) (he_bridge E) (cl_UserLoginID (he_client E)) j msgs db)"

definition save_conversation ::
  "'n hist_env \<Rightarrow> bool \<Rightarrow> HSConversation \<times> WebMessageInfo list \<Rightarrow> hist_state \<Rightarrow> hist_state \<times> gerror option" where
  "save_conversation E stopOnError x st =
     (case x of (conv, raws) \<Rightarrow>
      case hist_chat_jid E conv of
        None \<Rightarrow> (st, None)
      | Some j \<Rightarrow>
         (case collect_messages E j raws of (maxTime, msgs) \<Rightarrow>
            if msgs = [] then (st, None)
            else case he_conv_put_err E j of
              Some e \<Rightarrow> (st, if stopOnError then Some (Wrap ''failed to save conversation metadata'' e) else None)
            | None \<Rightarrow>
                (let st1 = st\<lparr>hst_db := Conversation_Put (he_bridge E)
                         (NewConversation (cl_UserLoginID (he_client E)) j conv maxTime) (hst_db st)\<rparr>
                 in case put_messages E j msgs (hst_db st1) of
                      Ok db2 \<Rightarrow> mark_backfill E stopOnError j (st1\<lparr>hst_db := db2\<rparr>)
                    | Fail e \<Rightarrow> (if stopOnError then (st1, Some (Wrap ''failed to save messages'' e))
                                else mark_backfill E stopOnError j st1)
                    | Panic \<Rightarrow> (st1, Some (Err ''panic'')))))"

fun save_conversations ::
  "'n hist_env \<Rightarrow> bool \<Rightarrow> (HSConversation \<times> WebMessageInfo list) list \<Rightarrow> hist_state \<Rightarrow> hist_state \<times> gerror option" where
  "save_conversations E stop [] st = (st, None)"
| "save_conversations E stop (x # xs) st =
     (case save_conversation E stop x st of
        (st', Some e) \<Rightarrow> (st', Some e)
      | (st', None) \<Rightarrow> save_conversations E stop xs st')"

definition handleWAHistorySync :: "'n hist_env \<Rightarrow> HistorySync option \<Rightarrow> bool \<Rightarrow> hist_state \<Rightarrow> hist_state \<times> (gerror + bool)" where
  "handleWAHistorySync E evt0 stopOnError st =
     (case evt0 of
        None \<Rightarrow> (st, Inr False)
      | Some evt \<Rightarrow>
         (case hsy_SyncType evt of
            None \<Rightarrow> (st, Inr False)
          | Some t \<Rightarrow>
              if t \<in> {INITIAL_STATUS_V3, PUSH_NAME, NON_BLOCKING_DATA}
              then (if t = PUSH_NAME then st\<lparr>hst_pushNamesSynced := True\<rparr> else st, Inr False)
              else (case save_conversations E stopOnError (hsy_Conversations evt) st of
                      (st', Some e) \<Rightarrow> (st', Inl e)
                    | (st', None) \<Rightarrow> (st', Inr (t = RECENT \<or> t = FULL)))))"

text \<open>
  \<open>DoTxn\<close> keeps nothing of what a failing function wrote to the database, the tasks
  included; the result variable keeps the value it had.
\<close>

definition downloadAndSaveWAHistorySyncData :: "'n hist_env \<Rightarrow> 'n \<Rightarrow> int \<Rightarrow> hist_state \<Rightarrow> hist_state \<times> bool" where
  "downloadAndSaveWAHistorySyncData E evt rowid st =
     (case he_download E evt of
        Inl _ \<Rightarrow> (st, False)
      | Inr blob \<Rightarrow>
         (case handleWAHistorySync E blob True st of
            (st', Inl e) \<Rightarrow> (st'\<lparr>hst_db := hst_db st, hst_tasks := hst_tasks st\<rparr>, False)
          | (st', Inr resetTimer) \<Rightarrow>
             (case he_delete_err E rowid of
                Some e \<Rightarrow> (st'\<lparr>hst_db := hst_db st, hst_tasks := hst_tasks st\<rparr>, resetTimer)
              | None \<Rightarrow> (st'\<lparr>hst_db := HSNotif_Delete rowid (hst_db st')\<rparr>, resetTimer))))"

section \<open>The loop\<close>

text \<open>
  The channels and timers: the queue of payloads, the wake-up channel with its one slot, the
  dispatch timer, the flag that a dispatch is due, and whether the portal creation goroutine is
  busy. One step is one round of a goroutine's select; both goroutines stop with the context.
\<close>

record loop_state = hist_state +
  ls_historySyncs :: "HistorySync list"
  ls_wakeup :: bool
  ls_timer :: bool
  ls_timerPending :: bool
  ls_creating :: bool

definition hist_part :: "loop_state \<Rightarrow> hist_state" where
  "hist_part s = hist_state.truncate s"

definition with_hist :: "loop_state \<Rightarrow> hist_state \<Rightarrow> loop_state" where
  "with_hist s h = s\<lparr>hst_db := hst_db h, hst_tasks := hst_tasks h, hst_pushNamesSynced := hst_pushNamesSynced h\<rparr>"

definition historySyncLoop_start :: "bool \<Rightarrow> bool \<Rightarrow> bool \<Rightarrow> loop_state \<Rightarrow> loop_state" where
  "historySyncLoop_start isNewLogin portalsNeedCreating manualDownload s =
     (let pending = (\<not> isNewLogin \<and> portalsNeedCreating)
      in s\<lparr>ls_timer := pending, ls_timerPending := pending, ls_creating := False,
           ls_wakeup := (ls_wakeup s \<or> manualDownload)\<rparr>)"

text \<open>The end of a round: a reset request makes the dispatch due, and what is due is timed.\<close>

definition end_round :: "bool \<Rightarrow> loop_state \<Rightarrow> loop_state" where
  "end_round resetTimer s =
     (let pending = (ls_timerPending s \<or> resetTimer)
      in s\<lparr>ls_timerPending := pending, ls_timer := (ls_timer s \<or> pending)\<rparr>)"

definition round_payload :: "'n hist_env \<Rightarrow> HistorySync \<Rightarrow> loop_state \<Rightarrow> loop_state" where
  "round_payload E evt s0 =
     (let s = s0\<lparr>ls_timer := False\<rparr> in
      case handleWAHistorySync E (Some evt) False (hist_part s) of
        (h, Inl _) \<Rightarrow> end_round False (with_hist s h)
      | (h, Inr resetTimer) \<Rightarrow> end_round resetTimer (with_hist s h))"

definition round_wakeup :: "'n hist_env \<Rightarrow> loop_state \<Rightarrow> loop_state" where
  "round_wakeup E s0 =
     (let s = s0\<lparr>ls_wakeup := False, ls_timer := False\<rparr> in
      case HSNotif_GetNext (he_unmarshal E) (he_bridge E) (cl_UserLoginID (he_client E)) (hst_db s) of
        Ok None \<Rightarrow> end_round False s
      | Ok (Some (notif, rowid)) \<Rightarrow>
          (case downloadAndSaveWAHistorySyncData E notif rowid (hist_part s) of
             (h, resetTimer) \<Rightarrow> end_round resetTimer ((with_hist s h)\<lparr>ls_wakeup := True\<rparr>))
      | _ \<Rightarrow> end_round False s)"

definition saveWAHistorySyncNotification :: "'n hist_env \<Rightarrow> 'n \<Rightarrow> loop_state \<Rightarrow> loop_state" where
  "saveWAHistorySyncNotification E evt s =
     (case HSNotif_Put (he_marshal E) (he_bridge E) (cl_UserLoginID (he_client E)) evt (hst_db s) of
        Ok db \<Rightarrow> s\<lparr>hst_db := db, ls_wakeup := True\<rparr>
      | _ \<Rightarrow> s)"

text \<open>
  Besides the rounds of the two goroutines, payloads and notifications arrive from the event
  handler, and the other operations of the bridge's database run at any time: the deletions and
  synced markers of the portal creation among them.
\<close>

inductive loop_step :: "'n hist_env \<Rightarrow> loop_state \<Rightarrow> loop_state \<Rightarrow> bool" for E where
  payload: "ls_historySyncs s = evt # rest \<Longrightarrow> loop_step E s (round_payload E evt (s\<lparr>ls_historySyncs := rest\<rparr>))"
| wakeup: "ls_wakeup s \<Longrightarrow> loop_step E s (round_wakeup E s)"
| timer: "ls_timer s \<Longrightarrow> \<not> ls_creating s \<Longrightarrow>
    loop_step E s (s\<lparr>ls_timer := False, ls_timerPending := False, ls_creating := True\<rparr>)"
| created: "ls_creating s \<Longrightarrow> loop_step E s (s\<lparr>ls_creating := False\<rparr>)"
| receive: "loop_step E s (s\<lparr>ls_historySyncs := ls_historySyncs s @ [evt]\<rparr>)"
| notification: "loop_step E s (saveWAHistorySyncNotification E notif s)"
| database: "db_step (he_L E) (he_chunk E) (hst_db s) db \<Longrightarrow> notifications db = notifications (hst_db s) \<Longrightarrow>
    next_rowid db = next_rowid (hst_db s) \<Longrightarrow> loop_step E s (s\<lparr>hst_db := db\<rparr>)"

inductive_cases loop_stepE: "loop_step E s s'"

section \<open>What storing keeps\<close>

definition stored_keys :: "wadb \<Rightarrow> (string \<times> string \<times> jid \<times> jid \<times> string) set" where
  "stored_keys db = hs_key ` set (messages db)"

text \<open>Storing never loses a message or a task, leaves the queue alone, and keeps integrity.\<close>

definition grows :: "hist_state \<Rightarrow> hist_state \<Rightarrow> bool" where
  "grows s t \<longleftrightarrow> stored_keys (hst_db s) \<subseteq> stored_keys (hst_db t) \<and> hst_tasks s \<subseteq> hst_tasks t \<and>
     notifications (hst_db t) = notifications (hst_db s) \<and> next_rowid (hst_db t) = next_rowid (hst_db s) \<and>
     (wadb_ok (hst_db s) \<longrightarrow> wadb_ok (hst_db t))"

lemma grows_refl [simp]: "grows s s"
  by (simp add: grows_def)

lemma grows_trans: "grows s t \<Longrightarrow> grows t u \<Longrightarrow> grows s u"
  by (auto simp: grows_def)

lemma grows_mark: "mark_backfill E stop j s = (t, e) \<Longrightarrow> grows s t"
  by (auto simp: mark_backfill_def grows_def split: option.splits)

lemma grows_conv_put: "grows s (s\<lparr>hst_db := Conversation_Put b c (hst_db s)\<rparr>)"
  by (simp add: grows_def wadb_ok_conv_ops stored_keys_def Conversation_Put_def)
    (auto simp: Conversation_Put_def [symmetric] wadb_ok_conv_ops)

lemma Message_Put_grows:
  assumes "Message_Put L chunk now b l j ms (hst_db s) = Ok db'"
  shows "grows s (s\<lparr>hst_db := db'\<rparr>)"
  using Message_Put_effect [OF assms] Message_Put_ok [OF assms]
  by (simp add: grows_def stored_keys_def hs_insert_fold_keys)

lemma put_messages_Ok:
  "put_messages E j ms db = Ok db' \<Longrightarrow>
   Message_Put (he_L E) (he_chunk E) (he_now E) (he_bridge E) (cl_UserLoginID (he_client E)) j ms db = Ok db'"
  by (simp add: put_messages_def split: option.splits)

lemma grows_put: "put_messages E j ms (hst_db s) = Ok db' \<Longrightarrow> grows s (s\<lparr>hst_db := db'\<rparr>)"
  by (rule Message_Put_grows) (rule put_messages_Ok)

lemma save_conversation_grows: "save_conversation E stop x s = (t, e) \<Longrightarrow> grows s t"
proof -
  assume a: "save_conversation E stop x s = (t, e)"
  obtain conv raws where x: "x = (conv, raws)" by (cases x)
  show ?thesis
  proof (cases "hist_chat_jid E conv")
    case None
    with a x show ?thesis by (simp add: save_conversation_def)
  next
    case (Some j)
    obtain mt ms where c: "collect_messages E j raws = (mt, ms)" by fastforce
    let ?s1 = "s\<lparr>hst_db := Conversation_Put (he_bridge E) (NewConversation (cl_UserLoginID (he_client E)) j conv mt) (hst_db s)\<rparr>"
    have g1: "grows s ?s1" by (rule grows_conv_put)
    consider "t = s" | "t = ?s1" | d where "put_messages E j ms (hst_db ?s1) = Ok d" "mark_backfill E stop j (?s1\<lparr>hst_db := d\<rparr>) = (t, e)"
      | "mark_backfill E stop j ?s1 = (t, e)"
      using a x Some c
      by (auto simp: save_conversation_def Let_def split: if_splits option.splits outcome.splits)
    then show ?thesis
    proof cases
      case (3 d)
      from grows_trans [OF g1 grows_put [OF 3(1)]] have "grows s (?s1\<lparr>hst_db := d\<rparr>)" .
      from grows_trans [OF this grows_mark [OF 3(2)]] show ?thesis .
    next
      case 4
      from grows_trans [OF g1 grows_mark [OF 4]] show ?thesis .
    qed (use g1 in simp_all)
  qed
qed

lemma save_conversations_grows: "save_conversations E stop xs s = (t, e) \<Longrightarrow> grows s t"
proof (induction xs arbitrary: s)
  case (Cons x xs)
  obtain s' e' where s': "save_conversation E stop x s = (s', e')" by fastforce
  note g = save_conversation_grows [OF s']
  show ?case
  proof (cases e')
    case None
    with Cons.prems s' have "save_conversations E stop xs s' = (t, e)" by simp
    from grows_trans [OF g Cons.IH [OF this]] show ?thesis .
  next
    case (Some e'')
    with Cons.prems s' g show ?thesis by simp
  qed
qed simp

lemma handle_grows: "handleWAHistorySync E evt stop s = (t, r) \<Longrightarrow> grows s t"
  using save_conversations_grows [of E stop _ s]
  by (fastforce simp: handleWAHistorySync_def grows_def split: option.splits if_splits prod.splits)

section \<open>What storing stores\<close>

definition env_ok :: "'n hist_env \<Rightarrow> bool" where
  "env_ok E \<longleftrightarrow> (\<forall>n xs. concat (he_chunk E n xs) = xs)"

text \<open>A conversation of a payload is stored when all the messages that are to be kept of it are
  rows of the message table and its backfill task is unfinished.\<close>

definition stored :: "'n hist_env \<Rightarrow> HSConversation \<times> WebMessageInfo list \<Rightarrow> hist_state \<Rightarrow> bool" where
  "stored E x s =
     (case hist_chat_jid E (fst x) of
        None \<Rightarrow> True
      | Some j \<Rightarrow>
          (let ms = snd (collect_messages E j (snd x)) in
           (\<forall>m \<in> set ms. hs_key (hs_row_of (he_L E) (he_now E) (he_bridge E) (cl_UserLoginID (he_client E)) j m)
              \<in> stored_keys (hst_db s)) \<and>
           (ms \<noteq> [] \<longrightarrow> (makeWAPortalKey (he_L E) (he_client E) j, cl_UserLoginID (he_client E)) \<in> hst_tasks s)))"

definition no_faults :: "'n hist_env \<Rightarrow> jid \<Rightarrow> bool" where
  "no_faults E j \<longleftrightarrow> he_conv_put_err E j = None \<and> he_msg_put_err E j = None \<and> he_mark_err E j = None"

lemma stored_grows: "stored E x s \<Longrightarrow> grows s t \<Longrightarrow> stored E x t"
  by (auto simp: stored_def grows_def Let_def split: option.splits)

lemma Conversation_Put_lookup:
  "tbl_lookup conv_key (conversations (Conversation_Put b (NewConversation l j conv mt) db)) (b, l, j) \<noteq> None"
proof -
  let ?r = "Conversation_sqlVariables (NewConversation l j conv mt\<lparr>c_BridgeID := b\<rparr>)"
  have "conv_key ?r = (b, l, j)"
    by (simp add: conv_key_def Conversation_sqlVariables_def NewConversation_def Let_def)
  then have "tbl_lookup conv_key (tbl_upsert conv_key conv_upsert_row ?r (conversations db)) (b, l, j) \<noteq> None"
    using tbl_lookup_upsert [where key = conv_key and upd = conv_upsert_row, OF upsert_keys(1), of ?r "conversations db"]
    by simp
  then show ?thesis by (simp add: Conversation_Put_def)
qed

lemma put_messages_stores:
  assumes "env_ok E" "put_messages E j ms db = Ok db'" "m \<in> set ms"
  shows "hs_key (hs_row_of (he_L E) (he_now E) (he_bridge E) (cl_UserLoginID (he_client E)) j m) \<in> stored_keys db'"
  using Message_Put_effect [OF put_messages_Ok [OF assms(2)]] assms(1,3)
  by (simp add: env_ok_def stored_keys_def hs_insert_fold_keys)

lemma put_messages_no_panic [simp]: "put_messages E j ms db \<noteq> Panic"
proof -
  have "ofold (Message_PutChunk L now b l j) cs d \<noteq> Panic" for L now b l cs d
    by (induction cs arbitrary: d) (auto simp: outcome_simps Message_PutChunk_def)
  then show ?thesis by (simp add: put_messages_def Message_Put_def split: option.splits)
qed

text \<open>Without an error for its chat, storing a conversation succeeds and stores it.\<close>

lemma save_conversation_no_faults:
  assumes E: "env_ok E" and nf: "\<And>j. hist_chat_jid E (fst x) = Some j \<Longrightarrow> no_faults E j"
  shows "\<exists>t. save_conversation E stop x s = (t, None) \<and> stored E x t"
proof (cases "hist_chat_jid E (fst x)")
  case None
  then show ?thesis by (cases x) (simp add: save_conversation_def stored_def)
next
  case (Some j)
  obtain conv raws where x: "x = (conv, raws)" by (cases x)
  obtain mt ms where c: "collect_messages E j raws = (mt, ms)" by fastforce
  let ?s1 = "s\<lparr>hst_db := Conversation_Put (he_bridge E) (NewConversation (cl_UserLoginID (he_client E)) j conv mt) (hst_db s)\<rparr>"
  from nf [OF Some] have f: "he_conv_put_err E j = None" "he_msg_put_err E j = None" "he_mark_err E j = None"
    by (simp_all add: no_faults_def)
  obtain d where "Message_Put (he_L E) (he_chunk E) (he_now E) (he_bridge E) (cl_UserLoginID (he_client E)) j ms (hst_db ?s1) = Ok d"
    using Message_Put_succeeds Conversation_Put_lookup by (metis hist_state.select_convs(1) hist_state.surjective hist_state.update_convs(1))
  then have p: "put_messages E j ms (hst_db ?s1) = Ok d" using f by (simp add: put_messages_def)
  show ?thesis
    using put_messages_stores [OF E p] x Some c p f
    by (cases "ms = []") (simp_all add: save_conversation_def stored_def mark_backfill_def)
qed

text \<open>With errors ending the loop, success means that every conversation is stored.\<close>

lemma save_conversation_strict:
  assumes E: "env_ok E" and s: "save_conversation E True x s = (t, None)"
  shows "stored E x t"
proof -
  have "\<exists>t. save_conversation E True x s = (t, None) \<and> stored E x t"
    if "\<And>j. hist_chat_jid E (fst x) = Some j \<Longrightarrow> snd (collect_messages E j (snd x)) \<noteq> [] \<Longrightarrow> no_faults E j"
  proof (cases "\<exists>j. hist_chat_jid E (fst x) = Some j \<and> snd (collect_messages E j (snd x)) = []")
    case True
    then show ?thesis by (cases x) (auto simp: save_conversation_def stored_def split: prod.splits)
  next
    case False
    with that show ?thesis by (intro save_conversation_no_faults [OF E]) auto
  qed
  moreover have "no_faults E j" if "hist_chat_jid E (fst x) = Some j" "snd (collect_messages E j (snd x)) \<noteq> []" for j
    using s that
    by (cases x) (auto simp: save_conversation_def no_faults_def mark_backfill_def put_messages_def Let_def
        split: if_splits option.splits prod.splits outcome.splits)
  ultimately show ?thesis using s by (metis fst_conv)
qed

lemma save_conversations_strict:
  "env_ok E \<Longrightarrow> save_conversations E True xs s = (t, None) \<Longrightarrow> x \<in> set xs \<Longrightarrow> stored E x t"
proof (induction xs arbitrary: s)
  case (Cons y ys)
  obtain s' where s': "save_conversation E True y s = (s', None)" "save_conversations E True ys s' = (t, None)"
    using Cons.prems(2) by (auto split: prod.splits option.splits)
  show ?case
  proof (cases "x = y")
    case True
    with save_conversation_strict [OF Cons.prems(1) s'(1)] save_conversations_grows [OF s'(2)] show ?thesis
      by (simp add: stored_grows)
  next
    case False
    with Cons.IH [OF Cons.prems(1) s'(2)] Cons.prems(3) show ?thesis by simp
  qed
qed simp

text \<open>Without errors ending the loop, it never ends early.\<close>

lemma mark_backfill_lenient: "snd (mark_backfill E False j s) = None"
  by (simp add: mark_backfill_def split: option.splits)

lemma save_conversation_lenient: "snd (save_conversation E False x s) = None"
  by (auto simp: save_conversation_def Let_def mark_backfill_lenient split: prod.splits option.splits outcome.splits)

lemma save_conversations_lenient: "snd (save_conversations E False xs s) = None"
proof (induction xs arbitrary: s)
  case (Cons x xs)
  then show ?case using save_conversation_lenient [of E x s]
    by (cases "save_conversation E False x s") simp
qed simp

lemma save_conversations_lenient_stores:
  assumes "env_ok E"
  shows "save_conversations E False xs s = (t, e) \<Longrightarrow> x \<in> set xs \<Longrightarrow>
    (\<And>j. hist_chat_jid E (fst x) = Some j \<Longrightarrow> no_faults E j) \<Longrightarrow> stored E x t"
proof (induction xs arbitrary: s)
  case (Cons y ys)
  obtain s' e' where y: "save_conversation E False y s = (s', e')" by fastforce
  then have s': "save_conversation E False y s = (s', None)" using save_conversation_lenient [of E y s] by simp
  then have ys: "save_conversations E False ys s' = (t, e)" using Cons.prems(1) by simp
  show ?case
  proof (cases "x \<in> set ys")
    case True
    from Cons.IH [OF ys True Cons.prems(3)] show ?thesis .
  next
    case False
    with Cons.prems(2) have "x = y" by simp
    moreover obtain u where "save_conversation E False x s = (u, None)" "stored E x u"
      using save_conversation_no_faults [OF assms Cons.prems(3)] by blast
    ultimately show ?thesis using s' save_conversations_grows [OF ys] by (simp add: stored_grows)
  qed
qed simp

text \<open>All conversations of a payload are stored, if it is of a type that has conversations.\<close>

definition payload_stored :: "'n hist_env \<Rightarrow> HistorySync option \<Rightarrow> hist_state \<Rightarrow> bool" where
  "payload_stored E blob s \<longleftrightarrow>
     (\<forall>evt st x. blob = Some evt \<and> hsy_SyncType evt = Some st \<and> st \<notin> {INITIAL_STATUS_V3, PUSH_NAME, NON_BLOCKING_DATA}
        \<and> x \<in> set (hsy_Conversations evt) \<longrightarrow> stored E x s)"

lemma handle_strict_stores:
  assumes "env_ok E" and "handleWAHistorySync E blob True s = (u, Inr b)"
  shows "payload_stored E blob u"
proof -
  have "stored E x u" if "blob = Some evt" "hsy_SyncType evt = Some st" "x \<in> set (hsy_Conversations evt)"
    "st \<notin> {INITIAL_STATUS_V3, PUSH_NAME, NON_BLOCKING_DATA}" for evt st x
    using assms(2) that save_conversations_strict [OF assms(1), of "hsy_Conversations evt" s u x]
    by (auto simp: handleWAHistorySync_def split: prod.splits option.splits if_splits)
  then show ?thesis by (auto simp: payload_stored_def)
qed

lemma stored_delete [simp]: "stored E x (u\<lparr>hst_db := HSNotif_Delete i (hst_db u)\<rparr>) = stored E x u"
  by (simp add: stored_def stored_keys_def HSNotif_Delete_def split: option.splits)

lemma payload_stored_delete [simp]: "payload_stored E b (u\<lparr>hst_db := HSNotif_Delete i (hst_db u)\<rparr>) = payload_stored E b u"
  by (simp add: payload_stored_def)

text \<open>A download changes nothing, or stores the payload and takes the notification from the queue.\<close>

lemma download_cases:
  assumes "env_ok E" and "downloadAndSaveWAHistorySyncData E n i s = (t, r)"
  shows "(hst_db t = hst_db s \<and> hst_tasks t = hst_tasks s) \<or>
    (notifications (hst_db t) = filter (\<lambda>x. nr_rowid x \<noteq> i) (notifications (hst_db s))
     \<and> stored_keys (hst_db s) \<subseteq> stored_keys (hst_db t)
     \<and> (\<exists>blob. he_download E n = Inr blob \<and> payload_stored E blob t))"
proof (cases "he_download E n")
  case (Inr blob)
  obtain u res where u: "handleWAHistorySync E blob True s = (u, res)" by fastforce
  show ?thesis
  proof (cases "\<exists>b. res = Inr b \<and> he_delete_err E i = None")
    case False
    with assms(2) Inr u show ?thesis
      by (auto simp: downloadAndSaveWAHistorySyncData_def split: sum.splits option.splits)
  next
    case True
    then obtain b where b: "res = Inr b" "he_delete_err E i = None" by blast
    with assms(2) Inr u have t: "t = u\<lparr>hst_db := HSNotif_Delete i (hst_db u)\<rparr>"
      by (simp add: downloadAndSaveWAHistorySyncData_def)
    have "notifications (hst_db t) = filter (\<lambda>x. nr_rowid x \<noteq> i) (notifications (hst_db s))" "stored_keys (hst_db s) \<subseteq> stored_keys (hst_db t)"
      using handle_grows [OF u] by (simp_all add: t grows_def HSNotif_Delete_def tbl_delete_def stored_keys_def)
    moreover have "payload_stored E blob t" using handle_strict_stores [OF assms(1) u [unfolded b(1)]] by (simp add: t)
    ultimately show ?thesis using Inr by blast
  qed
qed (use assms(2) in \<open>simp add: downloadAndSaveWAHistorySyncData_def\<close>)

section \<open>The invariant of the loop\<close>

definition next_notification :: "'n hist_env \<Rightarrow> wadb \<Rightarrow> ('n \<times> int) option outcome" where
  "next_notification E db = HSNotif_GetNext (he_unmarshal E) (he_bridge E) (cl_UserLoginID (he_client E)) db"

text \<open>A due dispatch is timed; a readable queued notification has a wake-up pending; the
  database is intact.\<close>

definition loop_ok :: "'n hist_env \<Rightarrow> loop_state \<Rightarrow> bool" where
  "loop_ok E s \<longleftrightarrow> (ls_timerPending s \<longrightarrow> ls_timer s) \<and>
     (\<not> ls_wakeup s \<longrightarrow> (\<forall>x. next_notification E (hst_db s) \<noteq> Ok (Some x))) \<and> wadb_ok (hst_db s)"

lemma next_notification_cong:
  "notifications db' = notifications db \<Longrightarrow> next_notification E db' = next_notification E db"
  by (simp add: next_notification_def HSNotif_GetNext_def)

lemma end_round_simps [simp]:
  "ls_timerPending (end_round r s) \<longrightarrow> ls_timer (end_round r s)"
  "ls_wakeup (end_round r s) = ls_wakeup s" "hst_db (end_round r s) = hst_db s"
  "hst_tasks (end_round r s) = hst_tasks s" "ls_timerPending (end_round r s) = (ls_timerPending s \<or> r)"
  by (simp_all add: end_round_def Let_def)

lemma with_hist_simps [simp]:
  "ls_wakeup (with_hist s h) = ls_wakeup s" "hst_db (with_hist s h) = hst_db h"
  "hst_db (hist_part s) = hst_db s" "ls_timerPending (with_hist s h) = ls_timerPending s"
  "hst_tasks (with_hist s h) = hst_tasks h" "hst_tasks (hist_part s) = hst_tasks s"
  by (simp_all add: with_hist_def hist_part_def hist_state.truncate_def)

lemma download_ok: "downloadAndSaveWAHistorySyncData E n i s = (t, r) \<Longrightarrow> wadb_ok (hst_db s) \<Longrightarrow> wadb_ok (hst_db t)"
  by (auto simp: downloadAndSaveWAHistorySyncData_def wadb_ok_other_ops grows_def
      split: sum.splits prod.splits option.splits dest!: handle_grows)

lemma loop_ok_payload:
  assumes "loop_ok E s"
  shows "loop_ok E (round_payload E evt (s\<lparr>ls_historySyncs := rest\<rparr>))"
proof -
  let ?s = "s\<lparr>ls_historySyncs := rest, ls_timer := False\<rparr>"
  obtain h r where h: "handleWAHistorySync E (Some evt) False (hist_part ?s) = (h, r)" by fastforce
  have g: "grows (hist_part ?s) h" using h by (rule handle_grows)
  then have n: "next_notification E (hst_db h) = next_notification E (hst_db s)" "wadb_ok (hst_db s) \<longrightarrow> wadb_ok (hst_db h)"
    by (auto simp: grows_def intro: next_notification_cong)
  have "\<exists>b. round_payload E evt (s\<lparr>ls_historySyncs := rest\<rparr>) = end_round b (with_hist ?s h)"
    using h by (cases r) (auto simp: round_payload_def Let_def)
  then show ?thesis using assms n by (auto simp: loop_ok_def)
qed

lemma loop_ok_wakeup:
  assumes "loop_ok E s"
  shows "loop_ok E (round_wakeup E s)"
proof -
  let ?s = "s\<lparr>ls_wakeup := False, ls_timer := False\<rparr>"
  show ?thesis
  proof (cases "\<exists>x. next_notification E (hst_db s) = Ok (Some x)")
    case True
    then obtain n i where n: "next_notification E (hst_db s) = Ok (Some (n, i))" by auto
    obtain h r where h: "downloadAndSaveWAHistorySyncData E n i (hist_part ?s) = (h, r)" by fastforce
    from n h have "round_wakeup E s = end_round r ((with_hist ?s h)\<lparr>ls_wakeup := True\<rparr>)"
      by (simp add: round_wakeup_def next_notification_def Let_def)
    with assms download_ok [OF h] show ?thesis by (simp add: loop_ok_def)
  next
    case False
    then have "round_wakeup E s = end_round False ?s"
      by (auto simp: round_wakeup_def next_notification_def Let_def split: outcome.splits option.splits)
    with assms False show ?thesis by (simp add: loop_ok_def)
  qed
qed

lemma loop_ok_notification: "loop_ok E s \<Longrightarrow> loop_ok E (saveWAHistorySyncNotification E n s)"
  by (auto simp: saveWAHistorySyncNotification_def loop_ok_def HSNotif_Put_ok split: outcome.splits)

lemma loop_ok_database:
  "loop_ok E s \<Longrightarrow> wadb_ok db \<Longrightarrow> notifications db = notifications (hst_db s) \<Longrightarrow> loop_ok E (s\<lparr>hst_db := db\<rparr>)"
  using next_notification_cong [of db "hst_db s" E] by (simp add: loop_ok_def)

lemma loop_ok_flags:
  "loop_ok E s \<Longrightarrow> loop_ok E (s\<lparr>ls_timer := False, ls_timerPending := False, ls_creating := True\<rparr>)"
  "loop_ok E s \<Longrightarrow> loop_ok E (s\<lparr>ls_creating := False\<rparr>)"
  "loop_ok E s \<Longrightarrow> loop_ok E (s\<lparr>ls_historySyncs := q\<rparr>)"
  by (simp_all add: loop_ok_def)

lemma loop_ok_step: "loop_step E s s' \<Longrightarrow> loop_ok E s \<Longrightarrow> loop_ok E s'"
proof (induction rule: loop_step.induct)
  case (database s db)
  then have "wadb_ok db" using db_step_ok by (auto simp: loop_ok_def)
  with database show ?case by (intro loop_ok_database) simp_all
qed (rule loop_ok_payload loop_ok_wakeup loop_ok_notification loop_ok_flags, assumption)+

text \<open>The loop starts from any intact database, with a wake-up or an empty queue.\<close>

definition loop_starts :: "'n hist_env \<Rightarrow> loop_state \<Rightarrow> bool" where
  "loop_starts E s \<longleftrightarrow> (\<exists>s0 isNew need manual. s = historySyncLoop_start isNew need manual s0 \<and> wadb_ok (hst_db s0)
     \<and> (manual \<or> ls_wakeup s0 \<or> next_notification E (hst_db s0) = Ok None))"

interpretation loop_system: invariant_system "loop_starts E" "loop_step E" "loop_ok E" for E
proof
  show "loop_starts E s \<Longrightarrow> loop_ok E s" for s
    by (auto simp: loop_starts_def loop_ok_def historySyncLoop_start_def Let_def)
qed (rule loop_ok_step)

section \<open>Properties\<close>

definition sample_env :: "nat hist_env" where
  "sample_env = \<lparr>he_L = sample_jid_lib, he_client = sample_client, he_bridge = ''wa'', he_chunk = one_chunk, he_now = 9,
     he_parse = (\<lambda>j w. Inr \<lparr>me_Info = sample_info\<lparr>mi_Chat := j, mi_ID := wm_ID w, mi_Timestamp := time_unix 1000\<rparr>,
       me_Message = Some (bare_message FConversation), me_RawMessage = None, me_IsViewOnce = False,
       me_IsViewOnceV2 = False, me_IsViewOnceV2Extension = False\<rparr>),
     he_marshal_msg = (\<lambda>w. Inr (wm_Payload w)), he_marshal = (\<lambda>n. Inr [of_nat n]), he_unmarshal = (\<lambda>bs. Inr (unat (hd bs))),
     he_download = (\<lambda>n. if n = 0 then Inl (Err ''404'') else Inr None),
     he_conv_put_err = (\<lambda>_. None), he_msg_put_err = (\<lambda>_. None), he_mark_err = (\<lambda>_. None), he_delete_err = (\<lambda>_. None)\<rparr>"

definition sample_hist :: hist_state where
  "sample_hist = \<lparr>hst_db = empty_wadb, hst_tasks = {}, hst_pushNamesSynced = False\<rparr>"

definition sample_payload :: HistorySync where
  "sample_payload = \<lparr>hsy_SyncType = Some RECENT, hsy_Conversations =
     [(\<lparr>hc_ID = ''1234-5678@g.us'', hc_Archived = None, hc_Pinned = None, hc_MuteEndTime = None, hc_LastMsgTimestamp = None,
        hc_EndOfHistoryTransferType = None, hc_EphemeralExpiration = None, hc_EphemeralSettingTimestamp = None,
        hc_MarkedAsUnread = None, hc_UnreadCount = None\<rparr>,
       [\<lparr>wm_ID = ''A1'', wm_MessageTimestamp = 1000, wm_Reactions = [], wm_Payload = [7]\<rparr>])]\<rparr>"

lemma sample_env_ok [simp]: "env_ok sample_env"
  by (simp add: env_ok_def sample_env_def one_chunk_def)

text \<open>C3: Processing a queued history sync notification is all or nothing: either the database
  and the backfill tasks are as before, or the notification's row, and no other, is gone from
  the queue and every conversation of the downloaded payload is stored, each message that is to
  be kept being a row and each conversation's backfill task unfinished. The tables stay intact.\<close>

theorem history_download_atomic:
  assumes "env_ok E" and "downloadAndSaveWAHistorySyncData E n i s = (t, r)"
  shows "((hst_db t = hst_db s \<and> hst_tasks t = hst_tasks s) \<or>
    (notifications (hst_db t) = filter (\<lambda>x. nr_rowid x \<noteq> i) (notifications (hst_db s))
     \<and> stored_keys (hst_db s) \<subseteq> stored_keys (hst_db t)
     \<and> (\<exists>blob. he_download E n = Inr blob \<and> payload_stored E blob t)))
    \<and> (wadb_ok (hst_db s) \<longrightarrow> wadb_ok (hst_db t))"
  using download_cases [OF assms] download_ok [OF assms(2)] by simp

theorem history_download_atomic_witness:
  "notifications (hst_db (fst (downloadAndSaveWAHistorySyncData sample_env 0 1 sample_hist))) = []"
  using history_download_atomic [OF sample_env_ok, of 0 1 sample_hist]
  by (simp add: downloadAndSaveWAHistorySyncData_def sample_env_def sample_hist_def empty_wadb_def)

text \<open>Storing a live payload never gives up: whatever errors single chats meet, the call
  succeeds, loses nothing that was stored, and stores every conversation whose own database
  calls work; portal creation is asked for exactly after a recent or full sync.\<close>

theorem history_sync_best_effort:
  assumes "env_ok E" and "hsy_SyncType evt = Some ty" and "ty \<notin> {INITIAL_STATUS_V3, PUSH_NAME, NON_BLOCKING_DATA}"
  shows "\<exists>t. handleWAHistorySync E (Some evt) False s = (t, Inr (ty = RECENT \<or> ty = FULL)) \<and> grows s t
    \<and> (\<forall>x \<in> set (hsy_Conversations evt). (\<forall>j. hist_chat_jid E (fst x) = Some j \<longrightarrow> no_faults E j) \<longrightarrow> stored E x t)"
proof -
  obtain t e where t: "save_conversations E False (hsy_Conversations evt) s = (t, e)" by fastforce
  then have e: "e = None" using save_conversations_lenient [of E "hsy_Conversations evt" s] by simp
  have "handleWAHistorySync E (Some evt) False s = (t, Inr (ty = RECENT \<or> ty = FULL))"
    using assms(2,3) t e by (simp add: handleWAHistorySync_def)
  with save_conversations_grows [OF t] save_conversations_lenient_stores [OF assms(1) t] show ?thesis by blast
qed

theorem history_sync_best_effort_witness:
  "\<exists>t. handleWAHistorySync sample_env (Some sample_payload) False sample_hist = (t, Inr True)
    \<and> (\<forall>x \<in> set (hsy_Conversations sample_payload). stored sample_env x t)"
proof -
  have nf: "no_faults sample_env j" for j by (simp add: no_faults_def sample_env_def)
  show ?thesis
    using history_sync_best_effort [OF sample_env_ok, of sample_payload RECENT sample_hist] nf
    by (auto simp: sample_payload_def)
qed


definition sample_loop :: loop_state where
  "sample_loop = \<lparr>hst_db = empty_wadb, hst_tasks = {}, hst_pushNamesSynced = False, ls_historySyncs = [],
     ls_wakeup = False, ls_timer = False, ls_timerPending = False, ls_creating = False\<rparr>"


text \<open>A notification whose download keeps failing blocks the queue: as long as it is the
  next one of the login, every round of the loop leaves the database as it is and asks for
  another round at once, so no later notification is ever processed.\<close>

theorem failing_download_blocks_queue:
  assumes "next_notification E (hst_db s) = Ok (Some (n, i))" and "he_download E n = Inl e" and "0 < k"
  shows "hst_db ((round_wakeup E ^^ k) s) = hst_db s \<and> ls_wakeup ((round_wakeup E ^^ k) s)
    \<and> next_notification E (hst_db ((round_wakeup E ^^ k) s)) = Ok (Some (n, i))"
proof -
  have step: "hst_db (round_wakeup E u) = hst_db s \<and> ls_wakeup (round_wakeup E u)" if "hst_db u = hst_db s" for u
    using assms(1,2) that
    by (simp add: round_wakeup_def next_notification_def downloadAndSaveWAHistorySyncData_def Let_def)
  have "hst_db ((round_wakeup E ^^ Suc m) s) = hst_db s \<and> ls_wakeup ((round_wakeup E ^^ Suc m) s)" for m
    by (induction m) (simp_all add: step)
  from this [of "k - 1"] assms(1,3) show ?thesis by simp
qed

theorem failing_download_blocks_queue_witness:
  "ls_wakeup ((round_wakeup sample_env ^^ 3) (saveWAHistorySyncNotification sample_env 0 sample_loop))"
proof -
  let ?s = "saveWAHistorySyncNotification sample_env 0 sample_loop"
  have "next_notification sample_env (hst_db ?s) = Ok (Some (0, 1))"
    by (simp add: saveWAHistorySyncNotification_def next_notification_def HSNotif_Put_def HSNotif_GetNext_def
        sample_env_def sample_loop_def empty_wadb_def)
  from failing_download_blocks_queue [OF this, of "Err ''404''" 3] show ?thesis by (simp add: sample_env_def)
qed

end
