(* ===== verification/Backfill.thy ===== *)
theory Backfill
  imports HistorySync MediaRequests
begin

text \<open>
  The second half of \<open>pkg/connector/backfill.go\<close>: creating portals for the recent
  conversations (\<open>createPortalsFromHistorySync\<close>), handing out stored messages page by page
  (\<open>FetchMessages\<close> with its completion callback) and converting one of them
  (\<open>convertHistorySyncMessage\<close>).
\<close>

section \<open>Creating portals\<close>

text \<open>
  What one round of the loop meets: whether the context or the client is gone, the answer of
  \<open>getChatInfo\<close>, and whether the event was queued. The waits between rounds end in a
  cancellation or not.
\<close>

datatype 'i ChatInfoResult = NotInGroup | RateOverLimit | InfoError | ChatInfo 'i

record 'i round =
  rd_ctx_done :: bool
  rd_client_nil :: bool
  rd_wait_cancelled :: bool
  rd_info :: "'i ChatInfoResult"
  rd_retry_cancelled :: bool
  rd_queued :: bool

record 'i create_state =
  crs_db :: wadb
  crs_events :: "(jid \<times> 'i \<times> gotime) list"
  crs_waiting :: nat
  crs_rateLimitErrors :: nat

datatype loop_result = Finished | Stopped

definition StatusBroadcastJID :: jid where
  "StatusBroadcastJID = \<lparr>User = ''status'', Server = BroadcastServer, Device = 0\<rparr>"

text \<open>\<open>psa\<close> holds the two PSA JIDs of whatsmeow.\<close>

definition skip_portal :: "bool \<Rightarrow> jid set \<Rightarrow> jid \<Rightarrow> bool" where
  "skip_portal enableStatus psa j \<longleftrightarrow> (j = StatusBroadcastJID \<and> \<not> enableStatus) \<or> j \<in> psa"

text \<open>
  The loop consumes one round per iteration; a rate limit error repeats the conversation. None
  is a loop that has not returned after the given rounds. \<open>crs_waiting\<close> is the wait group.
\<close>

function create_portals ::
  "string \<Rightarrow> string \<Rightarrow> bool \<Rightarrow> jid set \<Rightarrow> Conversation list \<Rightarrow> 'i round list \<Rightarrow> 'i create_state \<Rightarrow>
   (loop_result \<times> 'i create_state) option" where
  "create_portals b l es psa [] rds s = Some (Finished, s)"
| "create_portals b l es psa (conv # cs) [] s = None"
| "create_portals b l es psa (conv # cs) (r # rds) s =
     (if rd_ctx_done r \<or> rd_client_nil r then Some (Stopped, s)
      else if skip_portal es psa (c_ChatJID conv)
      then create_portals b l es psa cs rds (s\<lparr>crs_waiting := crs_waiting s - 1\<rparr>)
      else if rd_wait_cancelled r then Some (Stopped, s)
      else (case rd_info r of
              NotInGroup \<Rightarrow> create_portals b l es psa cs rds
                (s\<lparr>crs_db := Conversation_Delete b l (c_ChatJID conv) (crs_db s), crs_waiting := crs_waiting s - 1\<rparr>)
            | RateOverLimit \<Rightarrow>
                (let s' = s\<lparr>crs_rateLimitErrors := crs_rateLimitErrors s + 1\<rparr> in
                 if rd_retry_cancelled r then Some (Stopped, s')
                 else create_portals b l es psa (conv # cs) rds s')
            | InfoError \<Rightarrow> create_portals b l es psa cs rds (s\<lparr>crs_waiting := crs_waiting s - 1\<rparr>)
            | ChatInfo i \<Rightarrow>
                (let s' = s\<lparr>crs_events := crs_events s @ [(c_ChatJID conv, i, c_LastMessageTimestamp conv)]\<rparr> in
                 if rd_queued r then create_portals b l es psa cs rds s'
                 else Some (Stopped, s'))))"
  by pat_completeness auto

termination
  by (relation "measure (\<lambda>(_, _, _, _, cs, rds, _). length rds + length cs)") auto

definition createPortalsFromHistorySync ::
  "(conv_row list \<Rightarrow> conv_row list) \<Rightarrow> string \<Rightarrow> string \<Rightarrow> int \<Rightarrow> int \<Rightarrow> bool \<Rightarrow> jid set \<Rightarrow> 'i round list \<Rightarrow> wadb \<Rightarrow>
   (loop_result \<times> 'i create_state) option" where
  "createPortalsFromHistorySync order_desc b l limit loginTS es psa rds db =
     (let conversations = Conversation_GetRecent order_desc b l limit loginTS db
      in create_portals b l es psa conversations rds
           \<lparr>crs_db = db, crs_events = [], crs_waiting = length conversations, crs_rateLimitErrors = 0\<rparr>)"

section \<open>Converting a stored message\<close>

record BackfillReaction =
  bfr_Timestamp :: gotime
  bfr_Sender :: EventSender
  bfr_Emoji :: string

record BackfillMessage =
  bfm_Converted :: ConvertedMessage
  bfm_Sender :: EventSender
  bfm_ID :: string
  bfm_TxnID :: string
  bfm_Timestamp :: gotime
  bfm_StreamOrder :: int
  bfm_Reactions :: "BackfillReaction list"

definition reaction_sender :: "jid_lib \<Rightarrow> jid \<Rightarrow> jid \<Rightarrow> WebReaction \<Rightarrow> jid" where
  "reaction_sender L ownJID chat r =
     (let key = (case wr_Key r of None \<Rightarrow> nil_key | Some k \<Rightarrow> k) in
      if get_bool (mk_FromMe key) then ownJID
      else if get_str (mk_Participant key) \<noteq> [] then parsed_or_empty L (get_str (mk_Participant key))
      else if Server chat = DefaultUserServer \<or> Server chat = BotServer then chat
      else EmptyJID)"

definition convert_reaction :: "jid_lib \<Rightarrow> client \<Rightarrow> jid \<Rightarrow> WebReaction \<Rightarrow> BackfillReaction option" where
  "convert_reaction L c chat r =
     (let sender = reaction_sender L (cl_JID c) chat r in
      if jid_is_empty L sender then None
      else Some \<lparr>bfr_Timestamp = unix_epoch * second + wr_SenderTimestampMS r * 10 ^ 6,
             bfr_Sender = makeEventSender L c sender, bfr_Emoji = wr_Text r\<rparr>)"

text \<open>\<open>to_matrix\<close> is the converter, applied to the message inside an associated child message
  where there is one.\<close>

definition convertHistorySyncMessage ::
  "jid_lib \<Rightarrow> client \<Rightarrow> request_env \<Rightarrow> (WAMessage option \<Rightarrow> WAMessage option \<Rightarrow> MessageInfo \<Rightarrow> bool \<Rightarrow> ConvertedMessage) \<Rightarrow>
   PortalKey \<Rightarrow> MessageInfo \<Rightarrow> WAMessage option \<Rightarrow> WAMessage option \<Rightarrow> bool \<Rightarrow> WebReaction list \<Rightarrow> wadb \<Rightarrow>
   (BackfillMessage \<times> MediaRequest option) outcome" where
  "convertHistorySyncMessage L c R to_matrix portalKey info msg0 rawMsg isViewOnce reactions db =
     (let msg = (case msg0 of
            None \<Rightarrow> None
          | Some m \<Rightarrow> (case associated_child m of None \<Rightarrow> Some m | Some child \<Rightarrow> Some child));
          converted = to_matrix msg rawMsg info isViewOnce;
          msgID = MakeMessageID L (mi_Chat info) (mi_Sender info) (mi_ID info)
      in obind (processFailedMedia R portalKey msgID converted True db) (\<lambda>(mediaReq, _). Ok
         (\<lparr>bfm_Converted = converted, bfm_Sender = makeEventSender L c (mi_Sender info), bfm_ID = msgID,
           bfm_TxnID = msgID, bfm_Timestamp = mi_Timestamp info, bfm_StreamOrder = go_unix (mi_Timestamp info),
           bfm_Reactions = List.map_filter (convert_reaction L c (mi_Chat info)) reactions\<rparr>, mediaReq)))"

section \<open>Fetching messages\<close>

record fetch_params =
  fp_PortalID :: string
  fp_PortalKey :: PortalKey
  fp_Forward :: bool
  fp_Anchor :: "gotime option"
  fp_Cursor :: string
  fp_Count :: int

record 'n fetch_env =
  fe_hist :: "'n hist_env"
  fe_requests :: request_env
  fe_order :: "hs_row list \<Rightarrow> hs_row list"
  fe_unmarshal :: "byte list \<Rightarrow> gerror + WebMessageInfo"
  fe_to_matrix :: "WAMessage option \<Rightarrow> WAMessage option \<Rightarrow> MessageInfo \<Rightarrow> bool \<Rightarrow> ConvertedMessage"
  fe_queue_enabled :: bool
  fe_paginate_manually :: bool

text \<open>What the completion callback remembers.\<close>

record callback =
  cb_jid :: jid
  cb_newestTS :: "64 word"
  cb_oldestTS :: "64 word"
  cb_mediaRequests :: "MediaRequest list"

record FetchResponse =
  fr_Messages :: "BackfillMessage list"
  fr_Cursor :: string
  fr_HasMore :: bool
  fr_Forward :: bool
  fr_MarkRead :: bool
  fr_Callback :: "callback option"

text \<open>\<open>strconv.ParseInt s 10 64\<close>: an optional sign and digits within 64 bits.\<close>

definition parse_int64 :: "string \<Rightarrow> int option" where
  "parse_int64 s =
     (let neg = (has_prefix s ''-''); digits = (if neg \<or> has_prefix s ''+'' then tl s else s) in
      if digits = [] \<or> \<not> list_all is_digit digits then None
      else if neg then (if decimal_value digits \<le> 2 ^ 63 then Some (- int (decimal_value digits)) else None)
      else (if decimal_value digits < 2 ^ 63 then Some (int (decimal_value digits)) else None))"

text \<open>The messages that are kept of a page that is longer than asked for: those before the last
  message that is newer than the oldest one, if there is such a message.\<close>

definition cut_oldest :: "WebMessageInfo list \<Rightarrow> WebMessageInfo list" where
  "cut_oldest ms =
     (let oldest = wm_MessageTimestamp (last ms);
          newer = filter (\<lambda>i. wm_MessageTimestamp (ms ! i) > oldest) [0..<length ms - 1]
      in if newer = [] then ms else take (last newer + 1) ms)"

definition fetch_bounds :: "fetch_params \<Rightarrow> (gotime option \<times> gotime option) outcome" where
  "fetch_bounds P =
     (if fp_Forward P then Ok (fp_Anchor P, None)
      else if fp_Cursor P \<noteq> [] then
        (case parse_int64 (fp_Cursor P) of
           None \<Rightarrow> Fail (Err ''failed to parse cursor'')
         | Some t \<Rightarrow> Ok (None, Some (time_unix t)))
      else Ok (None, fp_Anchor P))"

definition convert_page_message ::
  "'n fetch_env \<Rightarrow> jid \<Rightarrow> PortalKey \<Rightarrow> wadb \<Rightarrow> WebMessageInfo \<Rightarrow> (BackfillMessage \<times> MediaRequest option) outcome" where
  "convert_page_message F portalJID pk db msg =
     (case he_parse (fe_hist F) portalJID msg of
        Inl e \<Rightarrow> Fail (Wrap ''failed to parse info of message'' e)
      | Inr evt \<Rightarrow>
          convertHistorySyncMessage (he_L (fe_hist F)) (he_client (fe_hist F)) (fe_requests F) (fe_to_matrix F) pk
            (me_Info evt) (me_Message evt) (me_RawMessage evt)
            (me_IsViewOnce evt \<or> me_IsViewOnceV2 evt \<or> me_IsViewOnceV2Extension evt) (wm_Reactions msg) db)"

definition mark_read :: "'n fetch_env \<Rightarrow> jid \<Rightarrow> fetch_params \<Rightarrow> wadb \<Rightarrow> bool" where
  "mark_read F portalJID P db =
     (fp_Forward P \<and>
      (case Conversation_Get (he_bridge (fe_hist F)) (cl_UserLoginID (he_client (fe_hist F))) portalJID db of
         None \<Rightarrow> False
       | Some conv \<Rightarrow> c_MarkedAsUnread conv \<noteq> Some True \<and> (c_UnreadCount conv = None \<or> c_UnreadCount conv = Some 0)))"

definition page_response ::
  "'n fetch_env \<Rightarrow> jid \<Rightarrow> fetch_params \<Rightarrow> gotime option \<Rightarrow> wadb \<Rightarrow> WebMessageInfo list \<Rightarrow> FetchResponse outcome" where
  "page_response F portalJID P endTime db ms =
     (let hasMore = (int (length ms) > fp_Count P);
          oldestTS = wm_MessageTimestamp (last ms);
          newestTS = wm_MessageTimestamp (hd ms);
          page = (if hasMore then cut_oldest ms else ms)
      in obind (omap (convert_page_message F portalJID (fp_PortalKey P) db) page) (\<lambda>converted. Ok
         \<lparr>fr_Messages = rev (map fst converted), fr_Cursor = format_nat (unat oldestTS), fr_HasMore = hasMore,
          fr_Forward = (endTime = None), fr_MarkRead = mark_read F portalJID P db,
          fr_Callback = Some \<lparr>cb_jid = portalJID, cb_newestTS = newestTS, cb_oldestTS = oldestTS,
            cb_mediaRequests = List.map_filter snd converted\<rparr>\<rparr>))"

definition FetchMessages :: "'n fetch_env \<Rightarrow> fetch_params \<Rightarrow> wadb \<Rightarrow> FetchResponse outcome" where
  "FetchMessages F P db =
     obind (ParsePortalID (he_L (fe_hist F)) (fp_PortalID P)) (\<lambda>portalJID.
     obind (fetch_bounds P) (\<lambda>(startTime, endTime).
     obind (owrap ''failed to load messages from database''
       (Message_GetBetween (fe_unmarshal F) (fe_order F) (he_bridge (fe_hist F)) (cl_UserLoginID (he_client (fe_hist F)))
          portalJID startTime endTime (fp_Count P + 1) db)) (\<lambda>ms.
     if ms = [] then Ok \<lparr>fr_Messages = [], fr_Cursor = [], fr_HasMore = False, fr_Forward = fp_Forward P,
                         fr_MarkRead = False, fr_Callback = None\<rparr>
     else page_response F portalJID P endTime db ms)))"

text \<open>The completion callback: what was handed out is deleted, failed media is noted.\<close>

definition delete_page :: "'n fetch_env \<Rightarrow> callback \<Rightarrow> wadb \<Rightarrow> wadb" where
  "delete_page F cb db =
     (let b = he_bridge (fe_hist F); l = cl_UserLoginID (he_client (fe_hist F)) in
      if \<not> fe_queue_enabled F \<and> \<not> fe_paginate_manually F then Message_DeleteAllInChat b l (cb_jid cb) db
      else Message_DeleteBetween b l (cb_jid cb) (uint (cb_newestTS cb)) (uint (cb_oldestTS cb)) db)"

definition store_media_request :: "request_env \<Rightarrow> MediaRequest \<Rightarrow> wadb \<Rightarrow> wadb" where
  "store_media_request R req db =
     (let db1 = MediaRequest_Put (rq_bridge R) req db in if immediate R then sendMediaRequest R req db1 else db1)"

definition CompleteCallback :: "'n fetch_env \<Rightarrow> callback \<Rightarrow> wadb \<Rightarrow> wadb" where
  "CompleteCallback F cb db = fold (store_media_request (fe_requests F)) (cb_mediaRequests cb) (delete_page F cb db)"

section \<open>Lemmas on pages\<close>

definition desc :: "WebMessageInfo list \<Rightarrow> bool" where
  "desc ms \<longleftrightarrow> sorted_wrt (\<lambda>a b. wm_MessageTimestamp b \<le> wm_MessageTimestamp a) ms"

lemma desc_nth: "desc ms \<Longrightarrow> i \<le> k \<Longrightarrow> k < length ms \<Longrightarrow> wm_MessageTimestamp (ms ! k) \<le> wm_MessageTimestamp (ms ! i)"
  by (cases "i = k") (auto simp: desc_def sorted_wrt_iff_nth_less)

lemma desc_last:
  assumes "desc ms" "m \<in> set ms"
  shows "wm_MessageTimestamp (last ms) \<le> wm_MessageTimestamp m"
proof -
  from assms(2) obtain i where i: "i < length ms" "m = ms ! i" by (auto simp: in_set_conv_nth)
  then have "i \<le> length ms - 1" "length ms - 1 < length ms" by simp_all
  from desc_nth [OF assms(1) this] have "wm_MessageTimestamp (ms ! (length ms - 1)) \<le> wm_MessageTimestamp m"
    unfolding i(2) .
  moreover have "ms \<noteq> []" using i(1) by auto
  ultimately show ?thesis using last_conv_nth [of ms] by metis
qed

text \<open>When a page spans several timestamps, the cut keeps messages newer than the oldest only.\<close>

lemma cut_oldest_newer:
  assumes d: "desc ms" and ne: "ms \<noteq> []" "wm_MessageTimestamp (hd ms) \<noteq> wm_MessageTimestamp (last ms)"
  shows "\<forall>m \<in> set (cut_oldest ms). wm_MessageTimestamp (last ms) < wm_MessageTimestamp m"
proof -
  let ?o = "wm_MessageTimestamp (last ms)"
  let ?newer = "filter (\<lambda>i. wm_MessageTimestamp (ms ! i) > ?o) [0..<length ms - 1]"
  have "0 < length ms - 1" using ne by (cases ms) auto
  moreover have "?o < wm_MessageTimestamp (ms ! 0)"
    using desc_last [OF d, of "ms ! 0"] ne by (simp add: hd_conv_nth [symmetric] order_less_le)
  ultimately have n: "?newer \<noteq> []" by (auto simp: filter_empty_conv)
  let ?k = "last ?newer"
  have "?k \<in> set ?newer" using n by (rule last_in_set)
  then have k: "?k < length ms" "?o < wm_MessageTimestamp (ms ! ?k)" by auto
  have "?o < wm_MessageTimestamp m" if "m \<in> set (take (?k + 1) ms)" for m
  proof -
    from that obtain i where "i < ?k + 1" "m = ms ! i" by (subst (asm) in_set_conv_nth) auto
    then have "i \<le> ?k" "m = ms ! i" by simp_all
    with desc_nth [OF d, of i ?k] k show ?thesis by auto
  qed
  moreover have "cut_oldest ms = take (?k + 1) ms"
    unfolding cut_oldest_def Let_def using n by (rule if_not_P)
  ultimately show ?thesis by metis
qed

lemma cut_oldest_subset: "set (cut_oldest ms) \<subseteq> set ms"
  by (auto simp: cut_oldest_def Let_def dest: in_set_takeD)

lemma cut_oldest_prefix: "\<exists>n. cut_oldest ms = take n ms"
proof (cases "cut_oldest ms = ms")
  case True
  then have "cut_oldest ms = take (length ms) ms" by simp
  then show ?thesis ..
qed (auto simp: cut_oldest_def Let_def)

text \<open>What the framework relies on: rows hold the message they were stored with.\<close>

definition rows_ok :: "'n fetch_env \<Rightarrow> wadb \<Rightarrow> bool" where
  "rows_ok F db \<longleftrightarrow> (\<forall>r \<in> set (messages db). \<exists>m. fe_unmarshal F (hs_data r) = Inr m
     \<and> uint (wm_MessageTimestamp m) = hs_ts r)"

definition parser_ok :: "'n fetch_env \<Rightarrow> bool" where
  "parser_ok F \<longleftrightarrow> (\<forall>j m evt. he_parse (fe_hist F) j m = Inr evt \<longrightarrow>
     go_unix (mi_Timestamp (me_Info evt)) = uint (wm_MessageTimestamp m))"

lemma FetchMessages_page:
  assumes "FetchMessages F P db = Ok resp" and "fr_Callback resp = Some cb"
  obtains j st et ms where "ParsePortalID (he_L (fe_hist F)) (fp_PortalID P) = Ok j" "fetch_bounds P = Ok (st, et)"
    "Message_GetBetween (fe_unmarshal F) (fe_order F) (he_bridge (fe_hist F)) (cl_UserLoginID (he_client (fe_hist F)))
       j st et (fp_Count P + 1) db = Ok ms"
    "ms \<noteq> []" "page_response F j P et db ms = Ok resp"
  using assms by (auto simp: FetchMessages_def outcome_simps split: if_splits prod.splits)

lemma page_response_Ok:
  assumes "page_response F j P et db ms = Ok resp"
  obtains conv where "omap (convert_page_message F j (fp_PortalKey P) db)
      (if int (length ms) > fp_Count P then cut_oldest ms else ms) = Ok conv"
    "fr_Messages resp = rev (map fst conv)" "fr_HasMore resp \<longleftrightarrow> int (length ms) > fp_Count P"
    "fr_Callback resp = Some \<lparr>cb_jid = j, cb_newestTS = wm_MessageTimestamp (hd ms),
       cb_oldestTS = wm_MessageTimestamp (last ms), cb_mediaRequests = List.map_filter snd conv\<rparr>"
  using assms by (auto simp: page_response_def outcome_simps Let_def)

lemma convert_page_message_order:
  assumes "parser_ok F" "convert_page_message F j pk db m = Ok (bm, mr)"
  shows "bfm_StreamOrder bm = uint (wm_MessageTimestamp m)"
  using assms by (auto simp: convert_page_message_def convertHistorySyncMessage_def parser_ok_def outcome_simps Let_def
      split: sum.splits)

lemma convert_page_orders:
  assumes "parser_ok F" "omap (convert_page_message F j pk db) ms = Ok conv"
  shows "map (\<lambda>x. bfm_StreamOrder (fst x)) conv = map (\<lambda>m. uint (wm_MessageTimestamp m)) ms"
proof -
  have "list_all2 (\<lambda>m x. convert_page_message F j pk db m = Ok x) ms conv"
    using assms(2) by (simp add: omap_Ok_iff)
  then show ?thesis
    by (induction rule: list_all2_induct)
      (auto dest: convert_page_message_order [OF assms(1), where bm = "fst x" and mr = "snd x" for x, simplified])
qed

lemma scan_timestamps:
  assumes "omap (scanWebMessageInfo (fe_unmarshal F)) rows = Ok ms" and "rows_ok F db" and "set rows \<subseteq> set (messages db)"
  shows "map (\<lambda>m. uint (wm_MessageTimestamp m)) ms = map hs_ts rows"
proof -
  have "list_all2 (\<lambda>r m. scanWebMessageInfo (fe_unmarshal F) r = Ok m) rows ms"
    using assms(1) by (simp add: omap_Ok_iff)
  then show ?thesis using assms(3)
    by (induction rule: list_all2_induct) (use assms(2) in \<open>auto simp: rows_ok_def scanWebMessageInfo_def\<close>)
qed

text \<open>A page, seen as rows of the table: the selected rows, newest first, up to the limit.\<close>

lemma page_rows:
  assumes get: "Message_GetBetween (fe_unmarshal F) (fe_order F) b l j st et (fp_Count P + 1) db = Ok ms"
    and "0 \<le> fp_Count P" "order_desc_ok hs_ts (fe_order F)" "rows_ok F db"
  obtains rows where "rows = take (nat (fp_Count P + 1)) (fe_order F (hs_select b l j (map_option go_unix st) (map_option go_unix et) db))"
    "map (\<lambda>m. uint (wm_MessageTimestamp m)) ms = map hs_ts rows" "desc ms"
    "set rows \<subseteq> {r \<in> set (messages db). hs_conv r = (b, l, j)}"
proof -
  let ?all = "fe_order F (hs_select b l j (map_option go_unix st) (map_option go_unix et) db)"
  let ?rows = "take (nat (fp_Count P + 1)) ?all"
  have sub: "set ?rows \<subseteq> {r \<in> set (messages db). hs_conv r = (b, l, j)}"
    using set_take_subset [of "nat (fp_Count P + 1)" ?all] order_desc_set [OF assms(3)] by (auto simp: hs_select_def)
  have "omap (scanWebMessageInfo (fe_unmarshal F)) ?rows = Ok ms"
    using get assms(2) by (simp add: Message_GetBetween_def Let_def)
  from scan_timestamps [OF this assms(4)] sub have ts: "map (\<lambda>m. uint (wm_MessageTimestamp m)) ms = map hs_ts ?rows" by auto
  have "sorted_wrt (\<lambda>a b. hs_ts b \<le> hs_ts a) ?rows"
    using order_desc_sorted [OF assms(3)] by (rule sorted_wrt_take)
  then have "sorted_wrt (\<lambda>a b. b \<le> a) (map hs_ts ?rows)" by (simp add: sorted_wrt_map)
  then have "sorted_wrt (\<lambda>a b. b \<le> a) (map (\<lambda>m. uint (wm_MessageTimestamp m)) ms)" by (simp only: ts)
  then have "desc ms" by (simp add: desc_def sorted_wrt_map word_le_def)
  with ts sub that show thesis by blast
qed

lemma page_last_row:
  assumes "map f ms = map g rows" "ms \<noteq> []"
  shows "rows \<noteq> []" "g (last rows) = f (last ms)" "g (hd rows) = f (hd ms)"
  using assms by (auto simp: last_map [symmetric] hd_map [symmetric] simp del: last_map hd_map)
    (metis last_map list.map_disc_iff, metis list.map_sel(1) list.map_disc_iff)

lemma store_media_requests_messages:
  "messages (fold (store_media_request R) rs db) = messages db"
  by (induction rs arbitrary: db) (simp_all add: store_media_request_def Let_def MediaRequest_Put_def sendMediaRequest_def)

lemma CompleteCallback_messages: "messages (CompleteCallback F cb db) = messages (delete_page F cb db)"
  by (simp add: CompleteCallback_def store_media_requests_messages)

lemma parse_int64_format_nat:
  assumes "n < 2 ^ 63"
  shows "parse_int64 (format_nat n) = Some (int n)"
proof -
  obtain c s where f: "format_nat n = c # s" by (cases "format_nat n") auto
  with format_nat_digits [of n] have "is_digit c" by simp
  then have "c \<noteq> CHR ''-''" "c \<noteq> CHR ''+''" by (auto simp: is_digit_def)
  then have "\<not> has_prefix (format_nat n) ''-''" "\<not> has_prefix (format_nat n) ''+''"
    by (simp_all add: has_prefix_def f)
  with assms show ?thesis by (simp add: parse_int64_def Let_def format_nat_digits)
qed

definition paginated :: "'n fetch_env \<Rightarrow> bool" where
  "paginated F \<longleftrightarrow> fe_queue_enabled F \<or> fe_paginate_manually F"

definition fetch_ok :: "'n fetch_env \<Rightarrow> fetch_params \<Rightarrow> wadb \<Rightarrow> bool" where
  "fetch_ok F P db \<longleftrightarrow> 0 \<le> fp_Count P \<and> order_desc_ok hs_ts (fe_order F) \<and> rows_ok F db \<and> parser_ok F"

text \<open>Everything that a successful fetch says about the rows of the table.\<close>

definition fetched ::
  "'n fetch_env \<Rightarrow> fetch_params \<Rightarrow> wadb \<Rightarrow> FetchResponse \<Rightarrow> callback \<Rightarrow> gotime option \<Rightarrow> gotime option \<Rightarrow>
   hs_row list \<Rightarrow> WebMessageInfo list \<Rightarrow> bool" where
  "fetched F P db resp cb st et rows ms \<longleftrightarrow>
    fetch_bounds P = Ok (st, et) \<and>
    rows = take (nat (fp_Count P + 1)) (fe_order F (hs_select (he_bridge (fe_hist F)) (cl_UserLoginID (he_client (fe_hist F)))
       (cb_jid cb) (map_option go_unix st) (map_option go_unix et) db)) \<and>
    rows \<noteq> [] \<and> hs_ts (last rows) = uint (cb_oldestTS cb) \<and> hs_ts (hd rows) = uint (cb_newestTS cb) \<and>
    (fr_HasMore resp \<longleftrightarrow> int (length rows) > fp_Count P) \<and>
    map hs_ts rows = map (\<lambda>m. uint (wm_MessageTimestamp m)) ms \<and> desc ms \<and>
    rev (map bfm_StreamOrder (fr_Messages resp)) = map (\<lambda>m. uint (wm_MessageTimestamp m)) (if fr_HasMore resp then cut_oldest ms else ms) \<and>
    ms \<noteq> [] \<and> cb_oldestTS cb = wm_MessageTimestamp (last ms) \<and> cb_newestTS cb = wm_MessageTimestamp (hd ms) \<and>
    fr_Cursor resp = format_nat (unat (cb_oldestTS cb)) \<and> ParsePortalID (he_L (fe_hist F)) (fp_PortalID P) = Ok (cb_jid cb)"

lemma fetchedD:
  assumes "fetched F P db resp cb st et rows ms"
  shows "fetch_bounds P = Ok (st, et)"
    "rows = take (nat (fp_Count P + 1)) (fe_order F (hs_select (he_bridge (fe_hist F)) (cl_UserLoginID (he_client (fe_hist F)))
       (cb_jid cb) (map_option go_unix st) (map_option go_unix et) db))"
    "rows \<noteq> []" "hs_ts (last rows) = uint (cb_oldestTS cb)" "hs_ts (hd rows) = uint (cb_newestTS cb)"
    "fr_HasMore resp \<longleftrightarrow> int (length rows) > fp_Count P"
    "map hs_ts rows = map (\<lambda>m. uint (wm_MessageTimestamp m)) ms" "desc ms"
    "rev (map bfm_StreamOrder (fr_Messages resp)) = map (\<lambda>m. uint (wm_MessageTimestamp m)) (if fr_HasMore resp then cut_oldest ms else ms)"
    "ms \<noteq> []" "cb_oldestTS cb = wm_MessageTimestamp (last ms)" "cb_newestTS cb = wm_MessageTimestamp (hd ms)"
    "fr_Cursor resp = format_nat (unat (cb_oldestTS cb))" "ParsePortalID (he_L (fe_hist F)) (fp_PortalID P) = Ok (cb_jid cb)"
  by (rule assms [unfolded fetched_def, THEN conjunct1] | (insert assms, unfold fetched_def, elim conjE, assumption))+

lemma fetch_facts:
  assumes ok: "fetch_ok F P db" and f: "FetchMessages F P db = Ok resp" "fr_Callback resp = Some cb"
  obtains st et rows ms where "fetched F P db resp cb st et rows ms"
proof -
  from FetchMessages_page [OF f] obtain j st et ms where a: "ParsePortalID (he_L (fe_hist F)) (fp_PortalID P) = Ok j"
    "fetch_bounds P = Ok (st, et)"
    "Message_GetBetween (fe_unmarshal F) (fe_order F) (he_bridge (fe_hist F)) (cl_UserLoginID (he_client (fe_hist F)))
       j st et (fp_Count P + 1) db = Ok ms" "ms \<noteq> []" "page_response F j P et db ms = Ok resp" .
  from page_response_Ok [OF a(5)] obtain conv where c: "omap (convert_page_message F j (fp_PortalKey P) db)
      (if int (length ms) > fp_Count P then cut_oldest ms else ms) = Ok conv"
    "fr_Messages resp = rev (map fst conv)" "fr_HasMore resp \<longleftrightarrow> int (length ms) > fp_Count P"
    "fr_Callback resp = Some \<lparr>cb_jid = j, cb_newestTS = wm_MessageTimestamp (hd ms),
       cb_oldestTS = wm_MessageTimestamp (last ms), cb_mediaRequests = List.map_filter snd conv\<rparr>" .
  have cb: "cb_jid cb = j" "cb_newestTS cb = wm_MessageTimestamp (hd ms)" "cb_oldestTS cb = wm_MessageTimestamp (last ms)"
    using c(4) f(2) by auto
  from ok have ok': "0 \<le> fp_Count P" "order_desc_ok hs_ts (fe_order F)" "rows_ok F db" "parser_ok F"
    by (simp_all add: fetch_ok_def)
  from page_rows [OF a(3) ok'(1-3)] obtain rows where r:
    "rows = take (nat (fp_Count P + 1)) (fe_order F (hs_select (he_bridge (fe_hist F)) (cl_UserLoginID (he_client (fe_hist F)))
        j (map_option go_unix st) (map_option go_unix et) db))"
    "map (\<lambda>m. uint (wm_MessageTimestamp m)) ms = map hs_ts rows" "desc ms" .
  note l = page_last_row [OF r(2) a(4)]
  have "length rows = length ms" using arg_cong [OF r(2), of length] by simp
  moreover have "rev (map bfm_StreamOrder (fr_Messages resp)) = map (\<lambda>m. uint (wm_MessageTimestamp m)) (if fr_HasMore resp then cut_oldest ms else ms)"
    using convert_page_orders [OF ok'(4) c(1)] c(2,3) by (simp add: rev_map comp_def)
  moreover have "fr_Cursor resp = format_nat (unat (cb_oldestTS cb))"
    using a(5) cb by (auto simp: page_response_def outcome_simps Let_def)
  ultimately have "fetched F P db resp cb st et rows ms"
    unfolding fetched_def using a r l c(3) cb by simp
  then show thesis by (rule that)
qed

lemma delete_page_messages:
  "paginated F \<Longrightarrow> set (messages (CompleteCallback F cb db)) = {r \<in> set (messages db).
     \<not> (hs_conv r = (he_bridge (fe_hist F), cl_UserLoginID (he_client (fe_hist F)), cb_jid cb)
        \<and> hs_ts r \<le> uint (cb_newestTS cb) \<and> uint (cb_oldestTS cb) \<le> hs_ts r)}"
  by (auto simp: CompleteCallback_messages delete_page_def paginated_def Let_def Message_DeleteBetween_def)

lemma rows_between:
  assumes "order_desc_ok hs_ts order" "rows = take n (order (hs_select b l j lo hi db))" "r \<in> set rows"
  shows "r \<in> set (messages db)" "hs_conv r = (b, l, j)" "in_range lo hi (hs_ts r)"
    "hs_ts (last rows) \<le> hs_ts r" "hs_ts r \<le> hs_ts (hd rows)"
proof -
  have "r \<in> set (hs_select b l j lo hi db)"
    using assms(2,3) order_desc_set [OF assms(1)] by (auto dest: in_set_takeD)
  then show "r \<in> set (messages db)" "hs_conv r = (b, l, j)" "in_range lo hi (hs_ts r)"
    by (auto simp: hs_select_def)
  have s: "sorted_wrt (\<lambda>a b. hs_ts b \<le> hs_ts a) rows"
    unfolding assms(2) using order_desc_sorted [OF assms(1)] by (rule sorted_wrt_take)
  obtain i where i: "i < length rows" "r = rows ! i" using assms(3) by (auto simp: in_set_conv_nth)
  have "\<And>x y. x \<le> y \<Longrightarrow> y < length rows \<Longrightarrow> hs_ts (rows ! y) \<le> hs_ts (rows ! x)"
    using s by (metis le_neq_implies_less order_refl sorted_wrt_iff_nth_less)
  from this [of i "length rows - 1"] this [of 0 i] i
  show "hs_ts (last rows) \<le> hs_ts r" "hs_ts r \<le> hs_ts (hd rows)"
    by (cases rows; auto simp: last_conv_nth hd_conv_nth)+
qed

lemma create_portals_waiting:
  assumes "create_portals b l es psa cs rds s = Some (Finished, t)" and "crs_waiting s = length (crs_events s) + length cs"
  shows "crs_waiting t = length (crs_events t)"
  using assms
proof (induction b l es psa cs rds s rule: create_portals.induct)
  case (3 b l es psa conv cs r rds s)
  then show ?case
    by (auto simp: Let_def split: if_splits ChatInfoResult.splits)
qed auto

lemma create_portals_returns:
  "length cs + length (filter (\<lambda>r. \<exists>i. rd_info r = RateOverLimit) rds) \<le> length rds \<Longrightarrow>
   create_portals b l es psa cs rds s \<noteq> None"
proof (induction b l es psa cs rds s rule: create_portals.induct)
  case (3 b l es psa conv cs r rds s)
  then show ?case
    by (cases "skip_portal es psa (c_ChatJID conv)") (auto simp: Let_def split: ChatInfoResult.splits if_splits)
qed auto

lemma create_portals_events:
  assumes "create_portals b l es psa cs rds s = Some (res, t)"
    and "list_all (\<lambda>e. \<not> skip_portal es psa (fst e) \<and> fst e \<in> A) (crs_events s)"
    and "list_all (\<lambda>c. c_ChatJID c \<in> A) cs"
  shows "list_all (\<lambda>e. \<not> skip_portal es psa (fst e) \<and> fst e \<in> A) (crs_events t)"
  using assms
proof (induction b l es psa cs rds s rule: create_portals.induct)
  case (3 b l es psa conv cs r rds s)
  then show ?case
    by (auto simp: Let_def split: if_splits ChatInfoResult.splits)
qed auto

section \<open>Properties\<close>

definition sample_web :: "byte list \<Rightarrow> WebMessageInfo" where
  "sample_web bs = \<lparr>wm_ID = string_of_bytes bs, wm_MessageTimestamp = of_nat (unat (hd bs)), wm_Reactions = [], wm_Payload = bs\<rparr>"

definition sample_fetch_env :: "nat fetch_env" where
  "sample_fetch_env = \<lparr>
     fe_hist = sample_env\<lparr>he_parse := (\<lambda>j w. Inr \<lparr>me_Info = sample_info\<lparr>mi_Chat := j, mi_ID := wm_ID w,
         mi_Timestamp := time_unix (uint (wm_MessageTimestamp w))\<rparr>, me_Message = None, me_RawMessage = None,
         me_IsViewOnce = False, me_IsViewOnceV2 = False, me_IsViewOnceV2Extension = False\<rparr>)\<rparr>,
     fe_requests = sample_requests, fe_order = stable_desc hs_ts, fe_unmarshal = (\<lambda>bs. Inr (sample_web bs)),
     fe_to_matrix = (\<lambda>_ _ _ _. \<lparr>cm_Parts = [], cm_ReplyTo = None, cm_ThreadRoot = None,
        cm_Disappear = \<lparr>dis_Type = NoDisappear, dis_Timer = 0\<rparr>\<rparr>),
     fe_queue_enabled = True, fe_paginate_manually = False\<rparr>"

definition sample_row :: "nat \<Rightarrow> hs_row" where
  "sample_row t = \<lparr>hs_bridge = ''wa'', hs_login = ''358'', hs_chat = sample_group, hs_sender = sample_user,
     hs_mid = [char_of t], hs_ts = int t, hs_data = [of_nat t], hs_inserted = 0\<rparr>"

definition sample_page_db :: wadb where
  "sample_page_db = empty_wadb\<lparr>messages := [sample_row 10, sample_row 20, sample_row 30]\<rparr>"

definition sample_fetch :: "int \<Rightarrow> string \<Rightarrow> fetch_params" where
  "sample_fetch n cursor = \<lparr>fp_PortalID = jid_string sample_jid_lib sample_group, fp_PortalKey = \<lparr>pk_ID = [], pk_Receiver = []\<rparr>,
     fp_Forward = False, fp_Anchor = None, fp_Cursor = cursor, fp_Count = n\<rparr>"

lemma sample_fetch_ok:
  assumes "set (messages db) \<subseteq> set (messages sample_page_db)" "0 \<le> n"
  shows "fetch_ok sample_fetch_env (sample_fetch n c) db"
proof -
  have "\<forall>r \<in> set (messages sample_page_db). uint (of_nat (unat (hd (hs_data r))) :: 64 word) = hs_ts r"
    by (simp add: sample_page_db_def sample_row_def)
  with assms show ?thesis
    by (auto simp: fetch_ok_def sample_fetch_def sample_fetch_env_def stable_desc_ok rows_ok_def parser_ok_def sample_web_def)
qed

lemma sample_portal_parses: "parse_jid sample_jid_lib (jid_string sample_jid_lib sample_group) = Inr sample_group"
  by (rule parse_jid_string [OF sample_jid_lib_ok]) simp

lemma sample_page:
  "\<exists>resp cb. FetchMessages sample_fetch_env (sample_fetch n []) sample_page_db = Ok resp \<and> fr_Callback resp = Some cb
     \<and> fr_HasMore resp = (n < 3) \<and> cb_newestTS cb = 30 \<and> cb_oldestTS cb = (if n = 1 then 20 else 10)"
  if "n = 1 \<or> n = 2 \<or> n = 5"
proof -
  have rows: "take (nat (n + 1)) (stable_desc hs_ts (hs_select ''wa'' ''358'' sample_group None None sample_page_db))
      = (if n = 1 then [sample_row 30, sample_row 20] else [sample_row 30, sample_row 20, sample_row 10])"
    using that by (auto simp: stable_desc_def hs_select_def hs_conv_def in_range_def sample_page_db_def sample_row_def)
  have get: "Message_GetBetween (fe_unmarshal sample_fetch_env) (fe_order sample_fetch_env) ''wa'' ''358'' sample_group None None (n + 1) sample_page_db
      = Ok (map sample_web (if n = 1 then [[30], [20]] else [[30], [20], [10]]))"
    using that rows by (auto simp: Message_GetBetween_def Let_def sample_fetch_env_def scanWebMessageInfo_def sample_row_def)
  have conv: "\<exists>x. convert_page_message sample_fetch_env j pk db m = Ok x" for j pk db m
    by (simp add: convert_page_message_def sample_fetch_env_def convertHistorySyncMessage_def processFailedMedia_def
        first_failed_def Let_def)
  have all: "\<exists>xs. omap (convert_page_message sample_fetch_env j pk db) ms = Ok xs" for j pk db ms
    using conv by (induction ms) (auto, metis obind.simps(1))
  have fb: "fetch_bounds (sample_fetch n []) = Ok (None, None)" by (simp add: fetch_bounds_def sample_fetch_def)
  have env: "he_bridge (fe_hist sample_fetch_env) = ''wa''" "cl_UserLoginID (he_client (fe_hist sample_fetch_env)) = ''358''"
    "he_L (fe_hist sample_fetch_env) = sample_jid_lib"
    by (simp_all add: sample_fetch_env_def sample_env_def sample_client_def)
  have "ParsePortalID sample_jid_lib (fp_PortalID (sample_fetch n [])) = Ok sample_group"
    by (simp add: ParsePortalID_def sample_fetch_def sample_portal_parses)
  moreover have "fp_Count (sample_fetch n []) = n" by (simp add: sample_fetch_def)
  ultimately have F: "FetchMessages sample_fetch_env (sample_fetch n []) sample_page_db =
      page_response sample_fetch_env sample_group (sample_fetch n []) None sample_page_db
        (map sample_web (if n = 1 then [[30], [20]] else [[30], [20], [10]]))"
    by (simp add: FetchMessages_def env fb get)
  let ?ms = "map sample_web (if n = 1 then [[30], [20]] else [[30], [20], [10]])"
  obtain xs where "omap (convert_page_message sample_fetch_env sample_group (fp_PortalKey (sample_fetch n [])) sample_page_db)
      (if int (length ?ms) > n then cut_oldest ?ms else ?ms) = Ok xs" using all by blast
  then show ?thesis
    using that unfolding F page_response_def Let_def by (auto simp: sample_fetch_def sample_web_def)
qed

text \<open>A page of stored messages is handed out oldest first and within the limit plus one
  message, and in paginated mode two pages never overlap: after the first page's completion, the
  page fetched with its cursor has only messages that are strictly older than every message of
  the first.\<close>

theorem fetch_pages_disjoint:
  assumes ok: "fetch_ok F P db" and f: "FetchMessages F P db = Ok resp" "fr_Callback resp = Some cb"
    and pg: "paginated F" and small: "unat (cb_oldestTS cb) < 2 ^ 63"
    and P': "fp_PortalID P' = fp_PortalID P" "\<not> fp_Forward P'" "fp_Cursor P' = fr_Cursor resp" "0 \<le> fp_Count P'"
    and f': "FetchMessages F P' (CompleteCallback F cb db) = Ok resp'" "fr_Callback resp' = Some cb'"
  shows "sorted_wrt (\<le>) (map bfm_StreamOrder (fr_Messages resp)) \<and> int (length (fr_Messages resp)) \<le> fp_Count P + 1
    \<and> (\<forall>x \<in> set (fr_Messages resp'). \<forall>y \<in> set (fr_Messages resp). bfm_StreamOrder x < bfm_StreamOrder y)"
proof -
  let ?b = "he_bridge (fe_hist F)" and ?l = "cl_UserLoginID (he_client (fe_hist F))"
  from ok have ord: "order_desc_ok hs_ts (fe_order F)" by (simp add: fetch_ok_def)
  from fetch_facts [OF ok f] obtain st et rows ms where "fetched F P db resp cb st et rows ms" .
  note r = fetchedD [OF this]
  let ?page = "if fr_HasMore resp then cut_oldest ms else ms"
  have sub: "set ?page \<subseteq> set ms" using cut_oldest_subset by auto
  obtain n where n: "?page = take n ms" using cut_oldest_prefix [of ms] by (metis take_all order_refl)
  have orders: "map bfm_StreamOrder (fr_Messages resp) = rev (map (\<lambda>m. uint (wm_MessageTimestamp m)) ?page)"
    using r(9) by (metis rev_rev_ident)
  have "desc ?page" using r(8) unfolding n desc_def by (rule sorted_wrt_take)
  then have sorted: "sorted_wrt (\<le>) (map bfm_StreamOrder (fr_Messages resp))"
    by (simp add: orders sorted_wrt_rev sorted_wrt_map desc_def word_le_def del: rev_map)
  have "length (fr_Messages resp) = length ?page" using arg_cong [OF orders, of length] by simp
  also have "\<dots> \<le> length ms" by (simp add: n)
  also have "length ms = length rows" using arg_cong [OF r(7), of length] by simp
  finally have "length (fr_Messages resp) \<le> nat (fp_Count P + 1)" using r(2) by simp
  then have len: "int (length (fr_Messages resp)) \<le> fp_Count P + 1"
    using ok unfolding fetch_ok_def by linarith
  have lower: "uint (cb_oldestTS cb) \<le> bfm_StreamOrder y" if "y \<in> set (fr_Messages resp)" for y
  proof -
    from that have "bfm_StreamOrder y \<in> (\<lambda>m. uint (wm_MessageTimestamp m)) ` set ?page"
      by (metis orders set_rev set_map image_eqI)
    with sub obtain m where "m \<in> set ms" "bfm_StreamOrder y = uint (wm_MessageTimestamp m)" by auto
    with desc_last [OF r(8)] r(11) show ?thesis by (simp add: word_le_def)
  qed
  let ?db' = "CompleteCallback F cb db"
  have ok': "fetch_ok F P' ?db'"
    using ok P'(4) delete_page_messages [OF pg, of cb db] by (auto simp: fetch_ok_def rows_ok_def)
  from fetch_facts [OF ok' f'] obtain st' et' rows' ms' where "fetched F P' ?db' resp' cb' st' et' rows' ms'" .
  note r' = fetchedD [OF this]
  have j: "cb_jid cb' = cb_jid cb" using r(14) r'(14) P'(1) by simp
  have et': "st' = None \<and> et' = Some (time_unix (uint (cb_oldestTS cb)))"
  proof -
    have "parse_int64 (fp_Cursor P') = Some (uint (cb_oldestTS cb))"
      using parse_int64_format_nat [OF small] P'(3) r(13) by simp
    moreover have "fp_Cursor P' \<noteq> []" using P'(3) r(13) by simp
    ultimately show ?thesis using r'(1) P'(2) by (simp add: fetch_bounds_def)
  qed
  have older: "hs_ts x < uint (cb_oldestTS cb)" if "x \<in> set rows'" for x
  proof -
    have "uint (cb_oldestTS cb) \<le> uint (cb_newestTS cb)"
      using rows_between(5) [OF ord r(2), of "last rows"] r(3-5) by simp
    moreover have "hs_ts x \<le> uint (cb_oldestTS cb)"
      using rows_between(3) [OF ord r'(2) that] et' by (simp add: in_range_def)
    moreover have "hs_conv x = (?b, ?l, cb_jid cb)" using rows_between(2) [OF ord r'(2) that] j by simp
    moreover have "x \<in> set (messages (CompleteCallback F cb db))" using rows_between(1) [OF ord r'(2) that] .
    ultimately show ?thesis unfolding delete_page_messages [OF pg] by auto
  qed
  have "bfm_StreamOrder x < uint (cb_oldestTS cb)" if "x \<in> set (fr_Messages resp')" for x
  proof -
    have "bfm_StreamOrder x \<in> set (rev (map bfm_StreamOrder (fr_Messages resp')))" using that by simp
    also have "\<dots> \<subseteq> set (map (\<lambda>m. uint (wm_MessageTimestamp m)) ms')"
      unfolding r'(9) using cut_oldest_subset [of ms'] by auto
    finally have "bfm_StreamOrder x \<in> set (map hs_ts rows')" unfolding r'(7) .
    with older show ?thesis by auto
  qed
  with lower sorted len show ?thesis by (meson order_less_le_trans)
qed

theorem fetch_pages_disjoint_witness:
  "\<exists>resp cb. FetchMessages sample_fetch_env (sample_fetch 1 []) sample_page_db = Ok resp \<and> fr_Callback resp = Some cb
    \<and> (\<forall>resp' cb'. FetchMessages sample_fetch_env (sample_fetch 1 (fr_Cursor resp)) (CompleteCallback sample_fetch_env cb sample_page_db) = Ok resp'
        \<and> fr_Callback resp' = Some cb' \<longrightarrow> (\<forall>x \<in> set (fr_Messages resp'). \<forall>y \<in> set (fr_Messages resp). bfm_StreamOrder x < bfm_StreamOrder y))"
proof -
  obtain resp cb where r: "FetchMessages sample_fetch_env (sample_fetch 1 []) sample_page_db = Ok resp" "fr_Callback resp = Some cb"
    "cb_oldestTS cb = 20" using sample_page [of 1] by auto
  have "paginated sample_fetch_env" by (simp add: paginated_def sample_fetch_env_def)
  moreover have "unat (cb_oldestTS cb) < 2 ^ 63" by (simp add: r(3))
  moreover have "fp_PortalID (sample_fetch 1 (fr_Cursor resp)) = fp_PortalID (sample_fetch 1 [])"
    "\<not> fp_Forward (sample_fetch 1 (fr_Cursor resp))" "fp_Cursor (sample_fetch 1 (fr_Cursor resp)) = fr_Cursor resp"
    "0 \<le> fp_Count (sample_fetch 1 (fr_Cursor resp))" by (simp_all add: sample_fetch_def)
  ultimately show ?thesis
    using fetch_pages_disjoint [OF sample_fetch_ok [OF order_refl, of 1 "[]"] r(1,2)] r(1,2) by (metis zero_le_one)
qed

text \<open>C15: The last page of a chat is handed out completely before it is deleted: when a fetch
  reports no more messages, the rows that its completion deletes are exactly the rows whose
  messages it handed out, with their times.\<close>

theorem last_page_complete:
  assumes ok: "fetch_ok F P db" and f: "FetchMessages F P db = Ok resp" "fr_Callback resp = Some cb"
    and "paginated F" "\<not> fr_HasMore resp"
  shows "\<exists>rows. rev (map bfm_StreamOrder (fr_Messages resp)) = map hs_ts rows
    \<and> set rows = set (messages db) - set (messages (CompleteCallback F cb db))"
proof -
  let ?b = "he_bridge (fe_hist F)" and ?l = "cl_UserLoginID (he_client (fe_hist F))"
  from ok have ord: "order_desc_ok hs_ts (fe_order F)" by (simp add: fetch_ok_def)
  from fetch_facts [OF ok f] obtain st et rows ms where "fetched F P db resp cb st et rows ms" .
  note r = fetchedD [OF this]
  let ?sel = "hs_select ?b ?l (cb_jid cb) (map_option go_unix st) (map_option go_unix et) db"
  have "length rows < nat (fp_Count P + 1)" using r(6) assms(5) ok by (simp add: fetch_ok_def)
  then have "rows = fe_order F ?sel" using r(2) by (metis length_take min_def nat_less_le take_all nat_le_linear)
  then have sel: "set rows = set ?sel" using order_desc_set [OF ord] by simp
  have in1: "in_range (map_option go_unix st) (map_option go_unix et) (hs_ts (last rows))"
    "in_range (map_option go_unix st) (map_option go_unix et) (hs_ts (hd rows))"
    using rows_between(3) [OF ord r(2)] r(3) by simp_all
  have "set rows = {r \<in> set (messages db). hs_conv r = (?b, ?l, cb_jid cb)
      \<and> hs_ts r \<le> uint (cb_newestTS cb) \<and> uint (cb_oldestTS cb) \<le> hs_ts r}" (is "_ = ?R")
  proof
    show "set rows \<subseteq> ?R" using rows_between [OF ord r(2)] r(4,5) by auto
    show "?R \<subseteq> set rows"
      using in1 r(4,5) by (auto simp: sel hs_select_def in_range_def split: option.splits)
  qed
  then have "set rows = set (messages db) - set (messages (CompleteCallback F cb db))"
    using delete_page_messages [OF assms(4), of cb db] by auto
  with r(7,9) assms(5) show ?thesis by (intro exI [of _ rows]) simp
qed

theorem last_page_complete_witness:
  "\<exists>resp cb rows. FetchMessages sample_fetch_env (sample_fetch 5 []) sample_page_db = Ok resp \<and> fr_Callback resp = Some cb
    \<and> rev (map bfm_StreamOrder (fr_Messages resp)) = map hs_ts rows
    \<and> set rows = set (messages sample_page_db) - set (messages (CompleteCallback sample_fetch_env cb sample_page_db))"
proof -
  obtain resp cb where r: "FetchMessages sample_fetch_env (sample_fetch 5 []) sample_page_db = Ok resp" "fr_Callback resp = Some cb"
    "\<not> fr_HasMore resp" using sample_page [of 5] by auto
  have "paginated sample_fetch_env" by (simp add: paginated_def sample_fetch_env_def)
  from last_page_complete [OF sample_fetch_ok [OF order_refl, of 5 "[]"] r(1,2) this r(3)] r(1,2) show ?thesis by auto
qed

text \<open>C7: A page with more to follow loses messages: when it spans several timestamps, the
  messages with the oldest one are cut from it so that the next page can bring them, but the
  completion deletes that timestamp too. A row with that time was in the table, is in no
  message handed out, all of which are newer, and is gone afterwards.\<close>

theorem cut_messages_deleted:
  assumes ok: "fetch_ok F P db" and f: "FetchMessages F P db = Ok resp" "fr_Callback resp = Some cb"
    and "paginated F" "fr_HasMore resp" "cb_newestTS cb \<noteq> cb_oldestTS cb"
  shows "\<exists>r \<in> set (messages db). hs_ts r = uint (cb_oldestTS cb)
    \<and> (\<forall>x \<in> set (fr_Messages resp). hs_ts r < bfm_StreamOrder x) \<and> r \<notin> set (messages (CompleteCallback F cb db))"
proof -
  let ?b = "he_bridge (fe_hist F)" and ?l = "cl_UserLoginID (he_client (fe_hist F))"
  from ok have ord: "order_desc_ok hs_ts (fe_order F)" by (simp add: fetch_ok_def)
  from fetch_facts [OF ok f] obtain st et rows ms where "fetched F P db resp cb st et rows ms" .
  note r = fetchedD [OF this]
  have l: "last rows \<in> set rows" using r(3) by simp
  note row = rows_between [OF ord r(2) l]
  have "hs_ts (last rows) < bfm_StreamOrder x" if "x \<in> set (fr_Messages resp)" for x
  proof -
    have "bfm_StreamOrder x \<in> set (rev (map bfm_StreamOrder (fr_Messages resp)))" using that by simp
    then have "bfm_StreamOrder x \<in> (\<lambda>m. uint (wm_MessageTimestamp m)) ` set (cut_oldest ms)"
      unfolding r(9) using assms(5) by simp
    with cut_oldest_newer [OF r(8,10)] assms(6) r(4,11,12) show ?thesis by (auto simp: word_less_def)
  qed
  moreover have "last rows \<notin> set (messages (CompleteCallback F cb db))"
    using row r(4,5) delete_page_messages [OF assms(4), of cb db] by auto
  ultimately show ?thesis using row(1) r(4) by blast
qed

theorem cut_messages_deleted_witness:
  "\<exists>resp cb r. FetchMessages sample_fetch_env (sample_fetch 2 []) sample_page_db = Ok resp \<and> fr_Callback resp = Some cb
    \<and> r \<in> set (messages sample_page_db) \<and> (\<forall>x \<in> set (fr_Messages resp). hs_ts r < bfm_StreamOrder x)
    \<and> r \<notin> set (messages (CompleteCallback sample_fetch_env cb sample_page_db))"
proof -
  obtain resp cb where r: "FetchMessages sample_fetch_env (sample_fetch 2 []) sample_page_db = Ok resp" "fr_Callback resp = Some cb"
    "fr_HasMore resp" "cb_newestTS cb \<noteq> cb_oldestTS cb" using sample_page [of 2] by auto
  have "paginated sample_fetch_env" by (simp add: paginated_def sample_fetch_env_def)
  from cut_messages_deleted [OF sample_fetch_ok [OF order_refl, of 2 "[]"] r(1,2) this r(3,4)] r(1,2) show ?thesis by auto
qed

text \<open>C20: Creating portals returns once the rate limit errors stop: with as many rounds as there
  are conversations and rate limit errors it has returned. It only asks for chats that were
  recent and are not excluded, and when it finishes the wait group stands at the number of
  queued events, so that it reaches zero when each has been handled.\<close>

theorem portal_creation_waits_for_events:
  assumes "length (Conversation_GetRecent order b l limit loginTS db)
      + length (filter (\<lambda>r. rd_info r = RateOverLimit) rds) \<le> length rds"
  shows "\<exists>res t. createPortalsFromHistorySync order b l limit loginTS es psa rds db = Some (res, t)
    \<and> (res = Finished \<longrightarrow> crs_waiting t = length (crs_events t))
    \<and> (\<forall>e \<in> set (crs_events t). \<not> skip_portal es psa (fst e)
          \<and> fst e \<in> c_ChatJID ` set (Conversation_GetRecent order b l limit loginTS db))"
proof -
  let ?cs = "Conversation_GetRecent order b l limit loginTS db"
  let ?s = "\<lparr>crs_db = db, crs_events = [], crs_waiting = length ?cs, crs_rateLimitErrors = 0\<rparr>"
  have "create_portals b l es psa ?cs rds ?s \<noteq> None"
    using assms by (intro create_portals_returns) simp
  then obtain res t where t: "create_portals b l es psa ?cs rds ?s = Some (res, t)" by auto
  then have "res = Finished \<longrightarrow> crs_waiting t = length (crs_events t)"
    using create_portals_waiting [of b l es psa ?cs rds ?s t] by simp
  moreover have "set (crs_events t) \<subseteq> {e. \<not> skip_portal es psa (fst e) \<and> fst e \<in> c_ChatJID ` set ?cs}"
    using create_portals_events [OF t, of "c_ChatJID ` set ?cs"] by (simp add: list_all_iff subset_eq)
  ultimately show ?thesis using t by (auto simp: createPortalsFromHistorySync_def Let_def)
qed

theorem portal_creation_waits_for_events_witness:
  "\<exists>t. createPortalsFromHistorySync (\<lambda>rs. rs) ''wa'' ''358'' (-1) 7 True {}
      [\<lparr>rd_ctx_done = False, rd_client_nil = False, rd_wait_cancelled = False, rd_info = RateOverLimit, rd_retry_cancelled = False, rd_queued = True\<rparr>,
       \<lparr>rd_ctx_done = False, rd_client_nil = False, rd_wait_cancelled = False, rd_info = ChatInfo (), rd_retry_cancelled = False, rd_queued = True\<rparr>]
      (Conversation_Put ''wa'' sample_conv empty_wadb) = Some (Finished, t) \<and> crs_waiting t = 1"
proof -
  let ?rds = "[\<lparr>rd_ctx_done = False, rd_client_nil = False, rd_wait_cancelled = False, rd_info = RateOverLimit, rd_retry_cancelled = False, rd_queued = True\<rparr>,
       \<lparr>rd_ctx_done = False, rd_client_nil = False, rd_wait_cancelled = False, rd_info = ChatInfo (), rd_retry_cancelled = False, rd_queued = True\<rparr>]"
  let ?db = "Conversation_Put ''wa'' sample_conv empty_wadb"
  let ?cs = "Conversation_GetRecent (\<lambda>rs. rs) ''wa'' ''358'' (-1) 7 ?db"
  have cs: "?cs = [Conversation_Scan (Conversation_sqlVariables (sample_conv\<lparr>c_BridgeID := ''wa''\<rparr>))]"
    by (simp add: Conversation_GetRecent_def Conversation_Put_def empty_wadb_def tbl_upsert_def limit_rows_def
        Conversation_sqlVariables_def sample_conv_def)
  have "length ?cs + length (filter (\<lambda>r. rd_info r = RateOverLimit) ?rds) \<le> length ?rds" by (simp add: cs)
  from portal_creation_waits_for_events [OF this, of True "{}"] obtain res t where
    t: "createPortalsFromHistorySync (\<lambda>rs. rs) ''wa'' ''358'' (-1) 7 True {} ?rds ?db = Some (res, t)"
    "res = Finished \<longrightarrow> crs_waiting t = length (crs_events t)" by blast
  moreover have "res = Finished \<and> length (crs_events t) = 1"
    using t(1) unfolding createPortalsFromHistorySync_def cs Let_def by (auto simp: skip_portal_def)
  ultimately show ?thesis by auto
qed

end
