(* ===== verification/Avatars.thy ===== *)
theory Avatars
  imports MediaRequests
begin

text \<open>
  Avatars of users and chats: the part of \<open>pkg/connector/userinfo.go\<close> and
  \<open>pkg/connector/chatinfo.go\<close> that asks WhatsApp for a picture and turns the answer into an
  avatar, the cache entries for direct media with their expiry, and serving such an avatar,
  \<open>downloadAvatarDirectMedia\<close> of \<open>pkg/connector/directmedia.go\<close>. Asking for the picture,
  making content URIs and hashing are arguments.
\<close>

section \<open>Avatars\<close>

text \<open>The answer of \<open>GetProfilePictureInfo\<close>: a picture has an identifier, a path and a hash.\<close>

datatype picture_answer =
    PictureNotSet
  | PictureUnauthorized
  | PictureError gerror
  | NoPicture
  | Picture string string "byte list"

text \<open>An avatar is removed, or it has a content URI (direct media) or a path to download.\<close>

record AvatarUpdate =
  av_ID :: string
  av_Remove :: bool
  av_Path :: "string option"
  av_MXC :: "string option"
  av_Hash :: "byte list"

definition removed_avatar :: "string \<Rightarrow> AvatarUpdate" where
  "removed_avatar i = \<lparr>av_ID = i, av_Remove = True, av_Path = None, av_MXC = None, av_Hash = []\<rparr>"

definition path_avatar :: "string \<Rightarrow> string \<Rightarrow> AvatarUpdate" where
  "path_avatar i path = \<lparr>av_ID = i, av_Remove = False, av_Path = Some path, av_MXC = None, av_Hash = []\<rparr>"

record avatar_env =
  ae_L :: jid_lib
  ae_login :: string
  ae_DirectMedia :: bool
  ae_generate_uri :: "byte list \<Rightarrow> gerror + string"
  ae_sha256 :: "byte list \<Rightarrow> byte list"

section \<open>Cache entries\<close>

text \<open>The first match of \<open>oe=([0-9A-Fa-f]+)\<close>: its hexadecimal digits.\<close>

fun find_expiry :: "string \<Rightarrow> string option" where
  "find_expiry [] = None"
| "find_expiry (c # s) =
     (let digits = takeWhile (\<lambda>d. hex_value d \<noteq> None) (drop 2 s) in
      if has_prefix (c # s) ''oe='' \<and> digits \<noteq> [] then Some digits else find_expiry s)"

definition hex_number :: "string \<Rightarrow> nat" where
  "hex_number s = foldl (\<lambda>a c. a * 16 + the (hex_value c)) 0 s"

text \<open>A number beyond 64 signed bits does not parse.\<close>

definition parse_hex_int64 :: "string \<Rightarrow> int option" where
  "parse_hex_int64 s = (if hex_number s < 2 ^ 63 then Some (int (hex_number s)) else None)"

definition avatar_expiry :: "gotime \<Rightarrow> string \<Rightarrow> gotime" where
  "avatar_expiry now path =
     (let default = now + 24 * 3600 * second in
      case find_expiry path of
        None \<Rightarrow> default
      | Some digits \<Rightarrow> (case parse_hex_int64 digits of None \<Rightarrow> default | Some t \<Rightarrow> time_unix t))"

definition avatarInfoToCacheEntry :: "gotime \<Rightarrow> jid \<Rightarrow> string \<Rightarrow> string \<Rightarrow> AvatarCacheEntry" where
  "avatarInfoToCacheEntry now j i path =
     \<lparr>ac_EntityJID = j, ac_AvatarID = i, ac_DirectPath = path, ac_Expiry = avatar_expiry now path, ac_Gone = False\<rparr>"

definition makeDirectMediaAvatar ::
  "avatar_env \<Rightarrow> gotime \<Rightarrow> jid \<Rightarrow> string \<Rightarrow> string \<Rightarrow> byte list \<Rightarrow> bool \<Rightarrow> wadb \<Rightarrow> (AvatarUpdate \<times> wadb) outcome" where
  "makeDirectMediaAvatar A now j i path hash community db =
     obind (MakeAvatarMediaID (ae_L A) j i (ae_login A) community) (\<lambda>mediaID.
       case ae_generate_uri A mediaID of
         Inl e \<Rightarrow> Fail (Wrap ''failed to generate MXC URI'' e)
       | Inr mxc \<Rightarrow>
           Ok (\<lparr>av_ID = i, av_Remove = False, av_Path = None, av_MXC = Some mxc,
                av_Hash = (if length hash = 32 then hash else ae_sha256 A (bytes_of_string i))\<rparr>,
               AvatarCache_Put (avatarInfoToCacheEntry now j i path) db))"

text \<open>None is an answer that leaves the avatar as it is.\<close>

definition wrap_avatar ::
  "avatar_env \<Rightarrow> gotime \<Rightarrow> jid \<Rightarrow> bool \<Rightarrow> picture_answer \<Rightarrow> wadb \<Rightarrow> (AvatarUpdate option \<times> wadb) outcome" where
  "wrap_avatar A now j community answer db =
     (case answer of
        PictureNotSet \<Rightarrow> Ok (Some (removed_avatar ''remove''), db)
      | PictureUnauthorized \<Rightarrow> Ok (Some (removed_avatar ''unauthorized''), db)
      | PictureError _ \<Rightarrow> Ok (None, db)
      | NoPicture \<Rightarrow> Ok (None, db)
      | Picture i path hash \<Rightarrow>
          if ae_DirectMedia A then
            (case makeDirectMediaAvatar A now j i path hash community db of
               Ok (avatar, db') \<Rightarrow> Ok (Some avatar, db')
             | Fail _ \<Rightarrow> Ok (None, db)
             | Panic \<Rightarrow> Panic)
          else Ok (Some (path_avatar i path), db))"

text \<open>The identifier that WhatsApp is told of: the two placeholders count as none.\<close>

definition known_avatar :: "string \<Rightarrow> string" where
  "known_avatar existing = (if existing = ''remove'' \<or> existing = ''unauthorized'' then [] else existing)"

text \<open>\<open>fetchGhostAvatar\<close>: the avatar the ghost is updated with.\<close>

definition fetchGhostAvatar ::
  "avatar_env \<Rightarrow> (jid \<Rightarrow> string \<Rightarrow> picture_answer) \<Rightarrow> gotime \<Rightarrow> string \<Rightarrow> string \<Rightarrow> wadb \<Rightarrow> (AvatarUpdate option \<times> wadb) outcome" where
  "fetchGhostAvatar A ask now ghostID avatarID db =
     (let j = ParseUserID (ae_L A) ghostID
      in wrap_avatar A now j False (ask j (known_avatar avatarID)) db)"

text \<open>\<open>makePortalAvatarFetcher\<close>; \<open>can_send\<close> is whether the portal has an intent for the sender.\<close>

definition portal_avatar ::
  "avatar_env \<Rightarrow> (jid \<Rightarrow> string \<Rightarrow> bool \<Rightarrow> picture_answer) \<Rightarrow> bool \<Rightarrow> gotime \<Rightarrow> string \<Rightarrow> string \<Rightarrow> string \<Rightarrow> bool \<Rightarrow> wadb \<Rightarrow>
   (AvatarUpdate option \<times> wadb) outcome" where
  "portal_avatar A ask can_send now portalID wantedID existingID is_space db =
     (if wantedID \<noteq> [] \<and> wantedID = existingID then Ok (None, db)
      else (let j = (case ParsePortalID (ae_L A) portalID of Ok p \<Rightarrow> p | _ \<Rightarrow> EmptyJID)
            in obind (wrap_avatar A now j is_space (ask j (known_avatar existingID) is_space) db)
                 (\<lambda>(avatar, db'). Ok (if can_send then avatar else None, db'))))"

section \<open>Serving direct media avatars\<close>

datatype login_state = NoLogin | NoClient | HasClient

datatype avatar_response = AvatarGone bool | AvatarFailed gerror | AvatarFile string

text \<open>A new answer is cached; one that is not the wanted picture marks it as gone. \<open>True\<close> in
  \<open>AvatarGone\<close> is the cached response.\<close>

definition gone_entry :: "jid \<Rightarrow> string \<Rightarrow> AvatarCacheEntry" where
  "gone_entry j i = \<lparr>ac_EntityJID = j, ac_AvatarID = i, ac_DirectPath = [], ac_Expiry = 0, ac_Gone = True\<rparr>"

definition refresh_avatar :: "gotime \<Rightarrow> jid \<Rightarrow> string \<Rightarrow> picture_answer \<Rightarrow> wadb \<Rightarrow> avatar_response \<times> wadb" where
  "refresh_avatar now j i answer db =
     (let gone = (AvatarGone False, AvatarCache_Put (gone_entry j i) db) in
      case answer of
        PictureNotSet \<Rightarrow> gone
      | PictureUnauthorized \<Rightarrow> gone
      | NoPicture \<Rightarrow> gone
      | PictureError e \<Rightarrow> (AvatarFailed (Wrap ''failed to refresh avatar url'' e), db)
      | Picture got path _ \<Rightarrow>
          if got \<noteq> i then gone
          else (AvatarFile path, AvatarCache_Put (avatarInfoToCacheEntry now j got path) db))"

definition fresh_entry :: "gotime \<Rightarrow> AvatarCacheEntry \<Rightarrow> bool" where
  "fresh_entry now entry \<longleftrightarrow> \<not> ac_Expiry entry < now + 5 * 60 * second"

definition downloadAvatarDirectMedia ::
  "(string \<Rightarrow> login_state) \<Rightarrow> (jid \<Rightarrow> bool \<Rightarrow> picture_answer) \<Rightarrow> gotime \<Rightarrow> string \<Rightarrow> AvatarMediaInfo \<Rightarrow> wadb \<Rightarrow>
   avatar_response \<times> wadb" where
  "downloadAvatarDirectMedia logins ask now login info db =
     (let j = TargetJID info; i = AvatarID info in
      case logins login of
        NoLogin \<Rightarrow> (AvatarFailed (Wrap (''user login '' @ login @ '' not found'') (Err ''bridgev2.ErrNotLoggedIn'')), db)
      | NoClient \<Rightarrow> (AvatarFailed (Err (''no WhatsApp client found on login '' @ login)), db)
      | HasClient \<Rightarrow>
          (case AvatarCache_Get j i db of
             None \<Rightarrow> refresh_avatar now j i (ask j (Community info)) db
           | Some entry \<Rightarrow>
               if ac_Gone entry then (AvatarGone True, db)
               else if fresh_entry now entry then (AvatarFile (ac_DirectPath entry), db)
               else refresh_avatar now j i (ask j (Community info)) db))"

section \<open>Lemmas\<close>

lemma AvatarCache_Put_Get [simp]:
  "AvatarCache_Get j i (AvatarCache_Put e db) = (if (j, i) = ac_key e then Some e else AvatarCache_Get j i db)"
proof -
  have "tbl_lookup ac_key (tbl_upsert ac_key (\<lambda>old new. new) e (avatar_cache db)) (j, i) =
      (if (j, i) = ac_key e then Some e else tbl_lookup ac_key (avatar_cache db) (j, i))"
    by (auto simp: table_simps split: option.split)
  then show ?thesis by (simp add: AvatarCache_Get_def AvatarCache_Put_def)
qed

lemma gone_entry_sel [simp]: "ac_key (gone_entry j i) = (j, i)" "ac_Gone (gone_entry j i)"
  by (simp_all add: gone_entry_def ac_key_def)

lemma cache_entry_sel [simp]:
  "ac_key (avatarInfoToCacheEntry now j i path) = (j, i)" "\<not> ac_Gone (avatarInfoToCacheEntry now j i path)"
  "ac_DirectPath (avatarInfoToCacheEntry now j i path) = path"
  "ac_Expiry (avatarInfoToCacheEntry now j i path) = avatar_expiry now path"
  by (simp_all add: avatarInfoToCacheEntry_def ac_key_def)

lemma makeDirectMediaAvatar_cached:
  assumes "makeDirectMediaAvatar A now j i path hash community db = Ok (avatar, db')"
  shows "db' = AvatarCache_Put (avatarInfoToCacheEntry now j i path) db"
proof -
  obtain m where m: "MakeAvatarMediaID (ae_L A) j i (ae_login A) community = Ok m"
    using assms by (cases "MakeAvatarMediaID (ae_L A) j i (ae_login A) community") (simp_all add: makeDirectMediaAvatar_def)
  then show ?thesis
    using assms by (cases "ae_generate_uri A m") (simp_all add: makeDirectMediaAvatar_def)
qed

section \<open>Properties\<close>

text \<open>How long a direct media avatar is served. Once the avatar was made, its downloads get the
  path that WhatsApp gave without asking again until five minutes before the expiry in the
  path, or a day where the path has none. After that WhatsApp is asked, and the answer decides:
  the same picture brings a new path, any other definite answer is remembered, so that every
  later download finds the avatar gone without asking, and an error changes nothing.\<close>

theorem direct_avatar_lifetime:
  assumes "makeDirectMediaAvatar A t0 (TargetJID info) (AvatarID info) path hash community db = Ok (avatar, db1)"
    and "logins login = HasClient"
  shows "if now + 5 * 60 * second \<le> avatar_expiry t0 path
    then downloadAvatarDirectMedia logins ask now login info db1 = (AvatarFile path, db1)
    else (case ask (TargetJID info) (Community info) of
        PictureError e \<Rightarrow> downloadAvatarDirectMedia logins ask now login info db1 =
          (AvatarFailed (Wrap ''failed to refresh avatar url'' e), db1)
      | answer \<Rightarrow>
        (\<exists>db2. (case answer of
             Picture got path2 h \<Rightarrow> got = AvatarID info \<and>
               downloadAvatarDirectMedia logins ask now login info db1 = (AvatarFile path2, db2)
           | _ \<Rightarrow> False)
         \<or> (downloadAvatarDirectMedia logins ask now login info db1 = (AvatarGone False, db2) \<and>
            (\<forall>ask' now'. downloadAvatarDirectMedia logins ask' now' login info db2 = (AvatarGone True, db2)))))"
proof -
  have "db1 = AvatarCache_Put (avatarInfoToCacheEntry t0 (TargetJID info) (AvatarID info) path) db"
    by (rule makeDirectMediaAvatar_cached[OF assms(1)])
  then have e: "AvatarCache_Get (TargetJID info) (AvatarID info) db1 =
      Some (avatarInfoToCacheEntry t0 (TargetJID info) (AvatarID info) path)"
    by simp
  have gone: "\<forall>ask' now'. downloadAvatarDirectMedia logins ask' now' login info
      (AvatarCache_Put (gone_entry (TargetJID info) (AvatarID info)) db1) =
      (AvatarGone True, AvatarCache_Put (gone_entry (TargetJID info) (AvatarID info)) db1)"
    using assms(2) by (simp add: downloadAvatarDirectMedia_def)
  show ?thesis
  proof (cases "now + 5 * 60 * second \<le> avatar_expiry t0 path")
    case True
    then show ?thesis using e assms(2) by (simp add: downloadAvatarDirectMedia_def fresh_entry_def)
  next
    case False
    then have "downloadAvatarDirectMedia logins ask now login info db1 =
        refresh_avatar now (TargetJID info) (AvatarID info) (ask (TargetJID info) (Community info)) db1"
      using e assms(2) by (simp add: downloadAvatarDirectMedia_def fresh_entry_def Let_def)
    then show ?thesis
      using False gone by (cases "ask (TargetJID info) (Community info)") (auto simp: refresh_avatar_def Let_def)
  qed
qed

definition sample_avatar_env :: avatar_env where
  "sample_avatar_env = \<lparr>ae_L = sample_jid_lib, ae_login = ''358'', ae_DirectMedia = True, ae_generate_uri = (\<lambda>_. Inr ''mxc://a''),
     ae_sha256 = (\<lambda>_. [])\<rparr>"

definition sample_avatar_info :: AvatarMediaInfo where
  "sample_avatar_info = \<lparr>TargetJID = sample_user, AvatarID = ''1699'', Community = False\<rparr>"

lemma sample_avatar_made:
  "\<exists>avatar db1. makeDirectMediaAvatar sample_avatar_env 0 sample_user ''1699'' ''/p?oe=ff'' [] False empty_wadb = Ok (avatar, db1)"
  by (simp add: makeDirectMediaAvatar_def sample_avatar_env_def MakeAvatarMediaID_def compactJID_def sample_user_def
      sample_jid_lib_def ParseUserLoginID_def outcome_simps Let_def
      split: option.split)

theorem direct_avatar_lifetime_witness:
  "avatar_expiry 0 ''/p?oe=ff'' = time_unix 255 \<and>
   (\<exists>db1. downloadAvatarDirectMedia (\<lambda>_. HasClient) (\<lambda>_ _. NoPicture) 0 ''358'' sample_avatar_info db1 = (AvatarFile ''/p?oe=ff'', db1))"
proof -
  have e: "avatar_expiry 0 ''/p?oe=ff'' = time_unix 255"
    by (simp add: avatar_expiry_def has_prefix_def hex_value_def parse_hex_int64_def hex_number_def Let_def)
  obtain avatar db1 where m: "makeDirectMediaAvatar sample_avatar_env 0 (TargetJID sample_avatar_info) (AvatarID sample_avatar_info)
      ''/p?oe=ff'' [] False empty_wadb = Ok (avatar, db1)"
    using sample_avatar_made by (auto simp: sample_avatar_info_def)
  from direct_avatar_lifetime[OF m, of "\<lambda>_. HasClient" "''358''" 0 "\<lambda>_ _. NoPicture"] e show ?thesis
    by (auto simp: time_unix_def second_def unix_epoch_def)
qed

end
