(* ===== verification/ChatInfo.thy ===== *)
theory ChatInfo
  imports Backfill Avatars
begin

text \<open>
  What the bridge tells Matrix about a chat, \<open>pkg/connector/chatinfo.go\<close>: direct chats, the
  status broadcast, groups, newsletters, the changes that group events bring, and the updates
  of the portal's metadata that go with them. whatsmeow's answers and the chat settings store
  are fields of \<open>chat_env\<close>. An extra updater is a value here; \<open>apply_updater\<close> is what it
  does to a portal's metadata, with whether the portal has to be saved.
\<close>

section \<open>Chat infos\<close>

datatype membership = MembershipDefault | MembershipJoin | MembershipLeave

record ChatMember =
  cmb_EventSender :: EventSender
  cmb_Membership :: membership
  cmb_PrevMembership :: membership
  cmb_PowerLevel :: "int option"
  cmb_excluded :: bool

definition plain_member :: "EventSender \<Rightarrow> ChatMember" where
  "plain_member s = \<lparr>cmb_EventSender = s, cmb_Membership = MembershipDefault, cmb_PrevMembership = MembershipDefault,
     cmb_PowerLevel = None, cmb_excluded = False\<rparr>"

datatype room_event = StateRoomName | StateRoomAvatar | StateTopic | StateDisappearingTimer | EventReaction | EventRedaction

record PowerLevels =
  pl_EventsDefault :: "int option"
  pl_StateDefault :: "int option"
  pl_Ban :: "int option"
  pl_Events :: "room_event \<Rightarrow> int option"

definition no_levels :: PowerLevels where
  "no_levels = \<lparr>pl_EventsDefault = None, pl_StateDefault = None, pl_Ban = None, pl_Events = Map.empty\<rparr>"

record ChatMemberList =
  cml_IsFull :: bool
  cml_TotalMemberCount :: nat
  cml_OtherUserID :: string
  cml_MemberMap :: "string \<Rightarrow> ChatMember option"
  cml_PowerLevels :: "PowerLevels option"

definition no_members :: ChatMemberList where
  "no_members = \<lparr>cml_IsFull = False, cml_TotalMemberCount = 0, cml_OtherUserID = [], cml_MemberMap = Map.empty,
     cml_PowerLevels = None\<rparr>"

datatype muted = MutedForever | Unmuted | MutedUntil gotime

record UserLocalPortalInfo =
  lp_MutedUntil :: "muted option"
  lp_Tag :: "string option"

datatype RoomType = RoomTypeDefault | RoomTypeDM | RoomTypeSpace

datatype updater =
    UpdateLastSyncAt
  | UpdateTimerSetAt int
  | SetDefaultSubGroupFlag bool
  | SetAddressingMode AddressingMode
  | SetTopicID string string
  | FetchAvatar string jid gotime

record ChatInfo =
  chi_Name :: "string option"
  chi_Topic :: "string option"
  chi_Avatar :: "AvatarUpdate option"
  chi_Members :: "ChatMemberList option"
  chi_Type :: "RoomType option"
  chi_Disappear :: "DisappearingSetting option"
  chi_ParentID :: "string option"
  chi_UserLocal :: "UserLocalPortalInfo option"
  chi_CanBackfill :: bool
  chi_ExcludeChanges :: bool
  chi_ExtraUpdates :: "updater list"

definition empty_chat_info :: ChatInfo where
  "empty_chat_info = \<lparr>chi_Name = None, chi_Topic = None, chi_Avatar = None, chi_Members = None, chi_Type = None,
     chi_Disappear = None, chi_ParentID = None, chi_UserLocal = None, chi_CanBackfill = False, chi_ExcludeChanges = False,
     chi_ExtraUpdates = []\<rparr>"

definition nobodyPL :: int where "nobodyPL = 99"
definition superAdminPL :: int where "superAdminPL = 75"
definition adminPL :: int where "adminPL = 50"
definition defaultPL :: int where "defaultPL = 0"

section \<open>Updates of the portal metadata\<close>

definition ResyncMinInterval :: int where "ResyncMinInterval = 7 * 24 * 3600 * second"

definition updatePortalLastSyncAt :: "gotime \<Rightarrow> PortalMetadata \<Rightarrow> PortalMetadata \<times> bool" where
  "updatePortalLastSyncAt now meta =
     (meta\<lparr>pmd_LastSync := now\<rparr>,
      ResyncMinInterval < 24 * 3600 * second \<or> time_sub now (pmd_LastSync meta) > 24 * 3600 * second)"

definition updateDisappearingTimerSetAt :: "int \<Rightarrow> PortalMetadata \<Rightarrow> PortalMetadata \<times> bool" where
  "updateDisappearingTimerSetAt ts meta =
     (if pmd_DisappearingTimerSetAt meta \<noteq> ts then (meta\<lparr>pmd_DisappearingTimerSetAt := ts\<rparr>, True) else (meta, False))"

definition setDefaultSubGroupFlag :: "bool \<Rightarrow> PortalMetadata \<Rightarrow> PortalMetadata \<times> bool" where
  "setDefaultSubGroupFlag b meta =
     (if pmd_CommunityAnnouncementGroup meta \<noteq> b then (meta\<lparr>pmd_CommunityAnnouncementGroup := b\<rparr>, True) else (meta, False))"

definition setAddressingMode :: "AddressingMode \<Rightarrow> PortalMetadata \<Rightarrow> PortalMetadata \<times> bool" where
  "setAddressingMode mode meta =
     (if pmd_AddressingMode meta \<noteq> mode then (meta\<lparr>pmd_AddressingMode := mode\<rparr>, True) else (meta, False))"

text \<open>The topic is the portal's own, which the framework has updated before.\<close>

definition setTopicID :: "string \<Rightarrow> string \<Rightarrow> string \<Rightarrow> PortalMetadata \<Rightarrow> PortalMetadata \<times> bool" where
  "setTopicID i topic portal_topic meta =
     (if pmd_TopicID meta \<noteq> i \<and> portal_topic = topic then (meta\<lparr>pmd_TopicID := i\<rparr>, True) else (meta, False))"

definition apply_updater :: "gotime \<Rightarrow> string \<Rightarrow> updater \<Rightarrow> PortalMetadata \<Rightarrow> PortalMetadata \<times> bool" where
  "apply_updater now portal_topic u meta =
     (case u of
        UpdateLastSyncAt \<Rightarrow> updatePortalLastSyncAt now meta
      | UpdateTimerSetAt ts \<Rightarrow> updateDisappearingTimerSetAt ts meta
      | SetDefaultSubGroupFlag b \<Rightarrow> setDefaultSubGroupFlag b meta
      | SetAddressingMode mode \<Rightarrow> setAddressingMode mode meta
      | SetTopicID i topic \<Rightarrow> setTopicID i topic portal_topic meta
      | FetchAvatar _ _ _ \<Rightarrow> (meta, False))"

section \<open>Chats\<close>

record chat_config =
  cc_PinnedTag :: string
  cc_ArchiveTag :: string
  cc_MuteStatusBroadcast :: bool
  cc_StatusBroadcastTag :: string

record chat_settings =
  cs_MutedUntil :: muted
  cs_Pinned :: bool
  cs_Archived :: bool

definition chat_tag :: "chat_config \<Rightarrow> bool \<Rightarrow> bool \<Rightarrow> string option" where
  "chat_tag C pinned archived =
     (if pinned then Some (cc_PinnedTag C) else if archived then Some (cc_ArchiveTag C) else None)"

text \<open>None is an error of the settings store.\<close>

definition applyChatSettings :: "chat_config \<Rightarrow> chat_settings option \<Rightarrow> ChatInfo \<Rightarrow> ChatInfo" where
  "applyChatSettings C settings info =
     (case settings of
        None \<Rightarrow> info
      | Some chat \<Rightarrow> info\<lparr>chi_UserLocal := Some \<lparr>lp_MutedUntil = Some (cs_MutedUntil chat),
            lp_Tag = chat_tag C (cs_Pinned chat) (cs_Archived chat)\<rparr>\<rparr>)"

definition applyHistoryInfo :: "chat_config \<Rightarrow> Conversation \<Rightarrow> ChatInfo \<Rightarrow> ChatInfo" where
  "applyHistoryInfo C conv info =
     (let info1 = info\<lparr>chi_CanBackfill := True,
            chi_UserLocal := Some \<lparr>lp_MutedUntil = Some (MutedUntil (c_MuteEndTime conv)),
              lp_Tag = chat_tag C (c_Pinned conv = Some True) (c_Archived conv = Some True)\<rparr>\<rparr>
      in case (chi_Disappear info, c_EphemeralExpiration conv) of
           (None, Some timer) \<Rightarrow>
             if uint timer > 0 then
               info1\<lparr>chi_Disappear := Some \<lparr>dis_Type = AfterSend, dis_Timer = uint timer * second\<rparr>,
                 chi_ExtraUpdates := (case c_EphemeralSettingTimestamp conv of None \<Rightarrow> chi_ExtraUpdates info
                    | Some ts \<Rightarrow> chi_ExtraUpdates info @ [UpdateTimerSetAt ts])\<rparr>
             else info1
         | _ \<Rightarrow> info1)"

definition addExtrasToWrapped :: "chat_config \<Rightarrow> Conversation option \<Rightarrow> chat_settings option \<Rightarrow> bool \<Rightarrow> ChatInfo \<Rightarrow> ChatInfo" where
  "addExtrasToWrapped C conv settings isNew wrapped =
     applyChatSettings C settings
       (if isNew then (case conv of None \<Rightarrow> wrapped | Some cv \<Rightarrow> applyHistoryInfo C cv wrapped) else wrapped)"

definition PrivateChatTopic :: string where "PrivateChatTopic = ''WhatsApp private chat''"
definition BotChatTopic :: string where "BotChatTopic = ''WhatsApp chat with a bot''"
definition StatusBroadcastTopic :: string where "StatusBroadcastTopic = ''WhatsApp status updates from your contacts''"
definition StatusBroadcastName :: string where "StatusBroadcastName = ''WhatsApp Status Broadcast''"

definition wrapDMInfo :: "jid_lib \<Rightarrow> client \<Rightarrow> jid \<Rightarrow> ChatInfo" where
  "wrapDMInfo L c j =
     (let members = (if j = to_non_ad L (cl_JID c)
            then [MakeUserID j \<mapsto> plain_member \<lparr>es_IsFromMe = False, es_Sender = MakeUserID j, es_SenderLogin = []\<rparr>,
                  [] \<mapsto> plain_member \<lparr>es_IsFromMe = True, es_Sender = [], es_SenderLogin = []\<rparr>]
            else [MakeUserID j \<mapsto> plain_member (makeEventSender L c j),
                  MakeUserID (cl_JID c) \<mapsto> plain_member (makeEventSender L c (cl_JID c))])
      in empty_chat_info
        \<lparr>chi_Topic := Some (if Server j = BotServer then BotChatTopic else PrivateChatTopic),
         chi_Members := Some \<lparr>cml_IsFull = True, cml_TotalMemberCount = 2, cml_OtherUserID = MakeUserID j,
           cml_MemberMap = members,
           cml_PowerLevels = Some (no_levels\<lparr>pl_Events := [StateRoomName \<mapsto> 0, StateRoomAvatar \<mapsto> 0, StateTopic \<mapsto> 0,
             StateDisappearingTimer \<mapsto> 0]\<rparr>)\<rparr>,
         chi_Type := Some RoomTypeDM\<rparr>)"

definition own_member :: "jid_lib \<Rightarrow> client \<Rightarrow> int option \<Rightarrow> string \<Rightarrow> ChatMember option" where
  "own_member L c level =
     [MakeUserID (cl_JID c) \<mapsto> (plain_member (makeEventSender L c (cl_JID c)))\<lparr>cmb_PowerLevel := level\<rparr>]"

definition wrapStatusBroadcastInfo :: "jid_lib \<Rightarrow> client \<Rightarrow> chat_config \<Rightarrow> ChatInfo" where
  "wrapStatusBroadcastInfo L c C =
     empty_chat_info
      \<lparr>chi_Name := Some StatusBroadcastName, chi_Topic := Some StatusBroadcastTopic,
       chi_Members := Some (no_members\<lparr>cml_MemberMap := own_member L c None\<rparr>),
       chi_Type := Some RoomTypeDefault,
       chi_UserLocal := Some \<lparr>lp_MutedUntil = (if cc_MuteStatusBroadcast C then Some MutedForever else None),
         lp_Tag = (if cc_StatusBroadcastTag C \<noteq> [] then Some (cc_StatusBroadcastTag C) else None)\<rparr>\<rparr>"

section \<open>Groups\<close>

record Participant =
  pcp_JID :: jid
  pcp_PhoneNumber :: jid
  pcp_IsAdmin :: bool
  pcp_IsSuperAdmin :: bool

record GroupInfo =
  gi_Name :: string
  gi_Topic :: string
  gi_TopicID :: string
  gi_IsAnnounce :: bool
  gi_IsLocked :: bool
  gi_IsDefaultSubGroup :: bool
  gi_IsIncognito :: bool
  gi_IsParent :: bool
  gi_LinkedParentJID :: jid
  gi_AddressingMode :: AddressingMode
  gi_DisappearingTimer :: "32 word"
  gi_Participants :: "Participant list"

definition participant_level :: "Participant \<Rightarrow> int" where
  "participant_level p = (if pcp_IsSuperAdmin p then superAdminPL else if pcp_IsAdmin p then adminPL else defaultPL)"

definition joined_member :: "jid_lib \<Rightarrow> client \<Rightarrow> Participant \<Rightarrow> ChatMember" where
  "joined_member L c p = \<lparr>cmb_EventSender = makeEventSender L c (pcp_JID p), cmb_Membership = MembershipJoin,
     cmb_PrevMembership = MembershipDefault, cmb_PowerLevel = Some (participant_level p), cmb_excluded = True\<rparr>"

definition phone_member :: "Participant \<Rightarrow> ChatMember" where
  "phone_member p = \<lparr>cmb_EventSender = \<lparr>es_IsFromMe = False, es_Sender = MakeUserID (pcp_PhoneNumber p), es_SenderLogin = []\<rparr>,
     cmb_Membership = MembershipLeave, cmb_PrevMembership = MembershipJoin, cmb_PowerLevel = None, cmb_excluded = True\<rparr>"

definition has_phone_ghost :: "jid_lib \<Rightarrow> Participant \<Rightarrow> bool" where
  "has_phone_ghost L p \<longleftrightarrow> Server (pcp_JID p) = HiddenUserServer \<and> \<not> jid_is_empty L (pcp_PhoneNumber p)"

definition add_participant :: "jid_lib \<Rightarrow> client \<Rightarrow> Participant \<Rightarrow> (string \<Rightarrow> ChatMember option) \<Rightarrow> string \<Rightarrow> ChatMember option" where
  "add_participant L c p mm =
     (let mm1 = mm(MakeUserID (pcp_JID p) \<mapsto> joined_member L c p) in
      if has_phone_ghost L p then mm1(MakeUserID (pcp_PhoneNumber p) \<mapsto> phone_member p) else mm1)"

definition meta_levels :: "int \<Rightarrow> room_event \<Rightarrow> int option" where
  "meta_levels l = [StateRoomName \<mapsto> l, StateRoomAvatar \<mapsto> l, StateTopic \<mapsto> l]"

definition wrapGroupInfo :: "jid_lib \<Rightarrow> client \<Rightarrow> GroupInfo \<Rightarrow> ChatInfo" where
  "wrapGroupInfo L c info =
     (let sendEventPL = (if gi_IsAnnounce info \<and> \<not> gi_IsDefaultSubGroup info then adminPL else defaultPL);
          metaChangePL = (if gi_IsLocked info then adminPL else defaultPL)
      in empty_chat_info
        \<lparr>chi_Name := Some (gi_Name info), chi_Topic := Some (gi_Topic info),
         chi_Members := Some \<lparr>cml_IsFull = (\<not> gi_IsIncognito info), cml_TotalMemberCount = length (gi_Participants info),
           cml_OtherUserID = [], cml_MemberMap = fold (add_participant L c) (gi_Participants info) Map.empty,
           cml_PowerLevels = Some \<lparr>pl_EventsDefault = Some sendEventPL, pl_StateDefault = Some nobodyPL, pl_Ban = Some nobodyPL,
             pl_Events = (meta_levels metaChangePL)(EventReaction \<mapsto> defaultPL, EventRedaction \<mapsto> defaultPL,
               StateDisappearingTimer \<mapsto> metaChangePL)\<rparr>\<rparr>,
         chi_ExcludeChanges := True,
         chi_Disappear := Some \<lparr>dis_Type = AfterSend, dis_Timer = uint (gi_DisappearingTimer info) * second\<rparr>,
         chi_ExtraUpdates := [FetchAvatar [] EmptyJID 0, SetDefaultSubGroupFlag (gi_IsDefaultSubGroup info \<and> gi_IsAnnounce info),
           SetAddressingMode (gi_AddressingMode info), SetTopicID (gi_TopicID info) (gi_Topic info)],
         chi_ParentID := (if jid_is_empty L (gi_LinkedParentJID info) then None else Some (MakePortalID L (gi_LinkedParentJID info))),
         chi_Type := Some (if gi_IsParent info then RoomTypeSpace else RoomTypeDefault)\<rparr>)"

text \<open>A group event: every field is a pointer or a slice, which may be nil. A link has a type
  (whether it is one to a parent) and a group.\<close>

record GroupEvent =
  ge_Name :: "string option"
  ge_Topic :: "(string \<times> string) option"
  ge_Ephemeral :: "(bool \<times> 32 word) option"
  ge_Unlink :: bool
  ge_Link :: "(bool \<times> jid) option"
  ge_Announce :: "bool option"
  ge_Locked :: "bool option"
  ge_Join :: "jid list option"
  ge_Leave :: "jid list option"
  ge_Promote :: "jid list option"
  ge_Demote :: "jid list option"

definition group_changes :: "jid_lib \<Rightarrow> GroupEvent \<Rightarrow> ChatInfo option" where
  "group_changes L evt =
     (if ge_Name evt = None \<and> ge_Topic evt = None \<and> ge_Ephemeral evt = None \<and> \<not> ge_Unlink evt \<and> ge_Link evt = None
      then None
      else Some (empty_chat_info
        \<lparr>chi_Name := ge_Name evt,
         chi_Topic := map_option snd (ge_Topic evt),
         chi_ExtraUpdates := (case ge_Topic evt of None \<Rightarrow> [] | Some (i, topic) \<Rightarrow> [SetTopicID i topic]),
         chi_Disappear := (case ge_Ephemeral evt of None \<Rightarrow> None
            | Some (is_ephemeral, timer) \<Rightarrow>
                if is_ephemeral then Some \<lparr>dis_Type = AfterSend, dis_Timer = uint timer * second\<rparr>
                else Some \<lparr>dis_Type = NoDisappear, dis_Timer = 0\<rparr>),
         chi_ParentID := (case ge_Link evt of
              Some (True, j) \<Rightarrow> Some (MakePortalID L j)
            | _ \<Rightarrow> if ge_Unlink evt then Some [] else None)\<rparr>))"

definition slice :: "'a list option \<Rightarrow> 'a list" where
  "slice xs = (case xs of None \<Rightarrow> [] | Some ys \<Rightarrow> ys)"

definition put_members :: "jid_lib \<Rightarrow> client \<Rightarrow> (ChatMember \<Rightarrow> ChatMember) \<Rightarrow> jid list \<Rightarrow>
    (string \<Rightarrow> ChatMember option) \<Rightarrow> string \<Rightarrow> ChatMember option" where
  "put_members L c f js mm =
     fold (\<lambda>j mm. mm(MakeUserID j \<mapsto> f (plain_member (makeEventSender L c j)))) js mm"

definition group_member_map :: "jid_lib \<Rightarrow> client \<Rightarrow> GroupEvent \<Rightarrow> string \<Rightarrow> ChatMember option" where
  "group_member_map L c evt =
     put_members L c (cmb_Membership_update (\<lambda>_. MembershipLeave)) (slice (ge_Leave evt))
       (put_members L c (cmb_PowerLevel_update (\<lambda>_. Some defaultPL)) (slice (ge_Demote evt))
         (put_members L c (cmb_PowerLevel_update (\<lambda>_. Some adminPL)) (slice (ge_Promote evt))
           (put_members L c id (slice (ge_Join evt)) Map.empty)))"

definition group_levels :: "GroupEvent \<Rightarrow> PowerLevels option" where
  "group_levels evt =
     (if ge_Announce evt = None \<and> ge_Locked evt = None then None
      else Some (no_levels
        \<lparr>pl_EventsDefault := map_option (\<lambda>a. if a then adminPL else defaultPL) (ge_Announce evt),
         pl_Events := (case ge_Locked evt of None \<Rightarrow> Map.empty | Some l \<Rightarrow> meta_levels (if l then adminPL else defaultPL))\<rparr>))"

definition member_changes :: "jid_lib \<Rightarrow> client \<Rightarrow> GroupEvent \<Rightarrow> ChatMemberList option" where
  "member_changes L c evt =
     (if ge_Join evt = None \<and> ge_Leave evt = None \<and> ge_Promote evt = None \<and> ge_Demote evt = None \<and> group_levels evt = None
      then None
      else Some (no_members\<lparr>cml_MemberMap := group_member_map L c evt, cml_PowerLevels := group_levels evt\<rparr>))"

definition wrapGroupInfoChange :: "jid_lib \<Rightarrow> client \<Rightarrow> GroupEvent \<Rightarrow> ChatInfo option \<times> ChatMemberList option" where
  "wrapGroupInfoChange L c evt = (group_changes L evt, member_changes L c evt)"


section \<open>Newsletters\<close>

datatype newsletter_role = RoleAdmin | RoleOwner | RoleOther
datatype newsletter_mute = MuteOn | MuteOff | MuteOther

text \<open>The viewer's role and mute, the picture as identifier and path, and the preview's identifier.\<close>

record Newsletter =
  nl_Viewer :: "(newsletter_role \<times> newsletter_mute) option"
  nl_Picture :: "(string \<times> string) option"
  nl_PreviewID :: string
  nl_Name :: string
  nl_Description :: string
  nl_SubscriberCount :: nat

definition newsletter_level :: "Newsletter \<Rightarrow> int" where
  "newsletter_level info =
     (case nl_Viewer info of
        Some (RoleAdmin, _) \<Rightarrow> adminPL
      | Some (RoleOwner, _) \<Rightarrow> superAdminPL
      | _ \<Rightarrow> defaultPL)"

definition newsletter_muted :: "Newsletter \<Rightarrow> muted option" where
  "newsletter_muted info =
     (case nl_Viewer info of
        Some (_, MuteOn) \<Rightarrow> Some MutedForever
      | Some (_, MuteOff) \<Rightarrow> Some Unmuted
      | _ \<Rightarrow> None)"

text \<open>The full picture behind a preview is fetched when it is needed, so its path is not known.\<close>

definition newsletter_avatar :: "Newsletter \<Rightarrow> AvatarUpdate" where
  "newsletter_avatar info =
     (case nl_Picture info of
        Some (i, path) \<Rightarrow> path_avatar i path
      | None \<Rightarrow> if nl_PreviewID info \<noteq> [] then (path_avatar (nl_PreviewID info) [])\<lparr>av_Path := None\<rparr>
               else removed_avatar ''remove'')"

definition wrapNewsletterInfo :: "jid_lib \<Rightarrow> client \<Rightarrow> Newsletter \<Rightarrow> ChatInfo" where
  "wrapNewsletterInfo L c info =
     empty_chat_info
      \<lparr>chi_Name := Some (nl_Name info), chi_Topic := Some (nl_Description info), chi_Avatar := Some (newsletter_avatar info),
       chi_UserLocal := Some \<lparr>lp_MutedUntil = newsletter_muted info, lp_Tag = None\<rparr>,
       chi_Members := Some (no_members
         \<lparr>cml_TotalMemberCount := nl_SubscriberCount info, cml_MemberMap := own_member L c (Some (newsletter_level info)),
          cml_PowerLevels := Some \<lparr>pl_EventsDefault = Some adminPL, pl_StateDefault = Some nobodyPL, pl_Ban = Some nobodyPL,
            pl_Events = (meta_levels adminPL)(EventReaction \<mapsto> defaultPL, EventRedaction \<mapsto> defaultPL)\<rparr>\<rparr>),
       chi_Type := Some RoomTypeDefault\<rparr>"

section \<open>Any chat\<close>

record chat_env =
  ch_L :: jid_lib
  ch_client :: client
  ch_config :: chat_config
  ch_bridge :: string
  ch_group_info :: "jid \<Rightarrow> gerror + GroupInfo"
  ch_newsletter_info :: "jid \<Rightarrow> gerror + Newsletter"
  ch_settings :: "jid \<Rightarrow> chat_settings option"

definition wrap_chat :: "chat_env \<Rightarrow> jid \<Rightarrow> gerror + ChatInfo" where
  "wrap_chat H j =
     (let L = ch_L H; c = ch_client H in
      case Server j of
        DefaultUserServer \<Rightarrow> Inr (wrapDMInfo L c j)
      | HiddenUserServer \<Rightarrow> Inr (wrapDMInfo L c j)
      | BotServer \<Rightarrow> Inr (wrapDMInfo L c j)
      | BroadcastServer \<Rightarrow>
          if j = StatusBroadcastJID then Inr (wrapStatusBroadcastInfo L c (ch_config H))
          else Inl (Err ''broadcast list bridging is currently not supported'')
      | GroupServer \<Rightarrow>
          (case ch_group_info H j of
             Inl e \<Rightarrow> Inl e
           | Inr info \<Rightarrow> Inr ((wrapGroupInfo L c info)\<lparr>chi_ExtraUpdates := chi_ExtraUpdates (wrapGroupInfo L c info) @ [UpdateLastSyncAt]\<rparr>))
      | NewsletterServer \<Rightarrow>
          (case ch_newsletter_info H j of Inl e \<Rightarrow> Inl e | Inr info \<Rightarrow> Inr (wrapNewsletterInfo L c info))
      | _ \<Rightarrow> Inl (Err ''unsupported server''))"

definition history_conversation :: "chat_env \<Rightarrow> wadb \<Rightarrow> jid \<Rightarrow> Conversation option \<Rightarrow> Conversation option" where
  "history_conversation H db j conv =
     (case conv of Some cv \<Rightarrow> Some cv | None \<Rightarrow> Conversation_Get (ch_bridge H) (cl_UserLoginID (ch_client H)) j db)"

definition getChatInfo :: "chat_env \<Rightarrow> wadb \<Rightarrow> jid \<Rightarrow> Conversation option \<Rightarrow> bool \<Rightarrow> gerror + ChatInfo" where
  "getChatInfo H db j conv isNew =
     map_sum id (addExtrasToWrapped (ch_config H) (history_conversation H db j conv) (ch_settings H j) isNew) (wrap_chat H j)"

section \<open>Lemmas\<close>

lemma makeEventSender_sender [simp]: "es_Sender (makeEventSender L c j) = MakeUserID j"
  by (simp add: makeEventSender_def MakeUserID_def Let_def)

definition keyed_by_sender :: "(string \<Rightarrow> ChatMember option) \<Rightarrow> bool" where
  "keyed_by_sender mm \<longleftrightarrow> (\<forall>k m. mm k = Some m \<longrightarrow> es_Sender (cmb_EventSender m) = k)"

lemma keyed_empty [simp]: "keyed_by_sender Map.empty"
  by (simp add: keyed_by_sender_def)

lemma keyed_upd: "keyed_by_sender mm \<Longrightarrow> es_Sender (cmb_EventSender m) = k \<Longrightarrow> keyed_by_sender (mm(k \<mapsto> m))"
  by (simp add: keyed_by_sender_def)

lemma keyed_add_participant: "keyed_by_sender mm \<Longrightarrow> keyed_by_sender (add_participant L c p mm)"
  by (simp add: add_participant_def Let_def keyed_upd joined_member_def phone_member_def)

lemma keyed_participants: "keyed_by_sender mm \<Longrightarrow> keyed_by_sender (fold (add_participant L c) ps mm)"
  by (induction ps arbitrary: mm) (simp_all add: keyed_add_participant)

lemma keyed_put_members:
  assumes "\<And>m. cmb_EventSender (f m) = cmb_EventSender m"
  shows "keyed_by_sender mm \<Longrightarrow> keyed_by_sender (put_members L c f js mm)"
  unfolding put_members_def
  by (induction js arbitrary: mm) (simp_all add: keyed_upd assms plain_member_def)

definition members_of :: "ChatInfo \<Rightarrow> string \<Rightarrow> ChatMember option" where
  "members_of info = (case chi_Members info of None \<Rightarrow> Map.empty | Some l \<Rightarrow> cml_MemberMap l)"

lemma members_extras [simp]: "chi_Members (addExtrasToWrapped C conv settings isNew info) = chi_Members info"
  by (simp add: addExtrasToWrapped_def applyChatSettings_def applyHistoryInfo_def Let_def split: option.split)

lemma backfill_extras [simp]:
  "chi_CanBackfill (addExtrasToWrapped C conv settings isNew info) \<longleftrightarrow> chi_CanBackfill info \<or> (isNew \<and> conv \<noteq> None)"
  by (simp add: addExtrasToWrapped_def applyChatSettings_def applyHistoryInfo_def Let_def split: option.split)

text \<open>Members that are not mentioned later keep their entry.\<close>

lemma fold_add_participant_other:
  "(\<And>p. p \<in> set ps \<Longrightarrow> k \<noteq> MakeUserID (pcp_JID p) \<and> (has_phone_ghost L p \<longrightarrow> k \<noteq> MakeUserID (pcp_PhoneNumber p))) \<Longrightarrow>
   fold (add_participant L c) ps mm k = mm k"
  by (induction ps arbitrary: mm) (auto simp: add_participant_def Let_def)


lemma participant_entry:
  assumes p: "p \<in> set ps"
    and d: "\<And>q r. q \<in> set ps \<Longrightarrow> r \<in> set ps \<Longrightarrow> MakeUserID (pcp_JID q) = MakeUserID (pcp_JID r) \<Longrightarrow> q = r"
    and ph: "\<And>q r. q \<in> set ps \<Longrightarrow> r \<in> set ps \<Longrightarrow> has_phone_ghost L q \<Longrightarrow> MakeUserID (pcp_PhoneNumber q) \<noteq> MakeUserID (pcp_JID r)"
  shows "fold (add_participant L c) ps mm (MakeUserID (pcp_JID p)) = Some (joined_member L c p)"
proof -
  from p obtain xs ys where split: "ps = xs @ p # ys" and "p \<notin> set ys"
    by (metis split_list_last)
  then have "fold (add_participant L c) ps mm (MakeUserID (pcp_JID p)) =
      add_participant L c p (fold (add_participant L c) xs mm) (MakeUserID (pcp_JID p))"
    using d[of p] ph by (simp add: fold_add_participant_other) (metis fold_add_participant_other split in_set_conv_decomp
        Un_iff insert_iff list.set(2) set_append)
  also have "\<dots> = Some (joined_member L c p)"
    using ph[OF p p] by (auto simp: add_participant_def Let_def)
  finally show ?thesis .
qed

lemma phone_entry:
  assumes p: "p \<in> set ps" "has_phone_ghost L p"
    and d: "\<And>q r. q \<in> set ps \<Longrightarrow> r \<in> set ps \<Longrightarrow> has_phone_ghost L q \<Longrightarrow> has_phone_ghost L r \<Longrightarrow>
       MakeUserID (pcp_PhoneNumber q) = MakeUserID (pcp_PhoneNumber r) \<Longrightarrow> q = r"
    and ph: "\<And>q r. q \<in> set ps \<Longrightarrow> r \<in> set ps \<Longrightarrow> has_phone_ghost L q \<Longrightarrow> MakeUserID (pcp_PhoneNumber q) \<noteq> MakeUserID (pcp_JID r)"
  shows "fold (add_participant L c) ps mm (MakeUserID (pcp_PhoneNumber p)) = Some (phone_member p)"
proof -
  from p(1) obtain xs ys where split: "ps = xs @ p # ys" and new: "p \<notin> set ys"
    by (metis split_list_last)
  have "fold (add_participant L c) ys mm' (MakeUserID (pcp_PhoneNumber p)) = mm' (MakeUserID (pcp_PhoneNumber p))" for mm'
  proof (rule fold_add_participant_other)
    fix q assume "q \<in> set ys"
    then have "q \<in> set ps" "q \<noteq> p" using split new by auto
    then show "MakeUserID (pcp_PhoneNumber p) \<noteq> MakeUserID (pcp_JID q) \<and>
        (has_phone_ghost L q \<longrightarrow> MakeUserID (pcp_PhoneNumber p) \<noteq> MakeUserID (pcp_PhoneNumber q))"
      using ph[OF p(1) _ p(2)] d[OF p(1) _ p(2)] by metis
  qed
  then show ?thesis using p(2) by (simp add: split add_participant_def Let_def)
qed

section \<open>Properties\<close>

text \<open>C30: The member lists are well formed: whatever chat is described, and whatever a group event
  changes, every entry of the member map stands under the user identifier of its own sender. The
  chat settings of the store decide on mute and tag if they can be read, whether or not there is
  a conversation from history; only a new chat with such a conversation offers backfill.\<close>

theorem chat_members_keyed:
  "(\<forall>info. getChatInfo H db j conv isNew = Inr info \<longrightarrow> keyed_by_sender (members_of info) \<and>
      (\<forall>st. ch_settings H j = Some st \<longrightarrow> chi_UserLocal info = Some \<lparr>lp_MutedUntil = Some (cs_MutedUntil st),
          lp_Tag = chat_tag (ch_config H) (cs_Pinned st) (cs_Archived st)\<rparr>) \<and>
      (chi_CanBackfill info \<longleftrightarrow> isNew \<and> history_conversation H db j conv \<noteq> None))
   \<and> (\<forall>l. snd (wrapGroupInfoChange L c evt) = Some l \<longrightarrow> keyed_by_sender (cml_MemberMap l))"
proof (intro conjI allI impI)
  fix info assume "getChatInfo H db j conv isNew = Inr info"
  then obtain w where w: "wrap_chat H j = Inr w"
    and info: "info = addExtrasToWrapped (ch_config H) (history_conversation H db j conv) (ch_settings H j) isNew w"
    by (cases "wrap_chat H j") (auto simp: getChatInfo_def)
  have "keyed_by_sender (members_of w) \<and> \<not> chi_CanBackfill w"
    using w keyed_participants[OF keyed_empty]
    by (auto simp: wrap_chat_def Let_def members_of_def wrapDMInfo_def wrapStatusBroadcastInfo_def wrapGroupInfo_def
        wrapNewsletterInfo_def own_member_def no_members_def plain_member_def empty_chat_info_def
        intro!: keyed_upd split: server.splits if_splits sum.splits)
  then show "keyed_by_sender (members_of info)"
    and "chi_CanBackfill info \<longleftrightarrow> isNew \<and> history_conversation H db j conv \<noteq> None"
    by (simp_all add: info members_of_def)
  fix st assume "ch_settings H j = Some st"
  then show "chi_UserLocal info = Some \<lparr>lp_MutedUntil = Some (cs_MutedUntil st),
      lp_Tag = chat_tag (ch_config H) (cs_Pinned st) (cs_Archived st)\<rparr>"
    by (simp add: info addExtrasToWrapped_def applyChatSettings_def)
next
  fix l assume "snd (wrapGroupInfoChange L c evt) = Some l"
  then show "keyed_by_sender (cml_MemberMap l)"
    by (auto simp: wrapGroupInfoChange_def member_changes_def group_member_map_def intro!: keyed_put_members split: if_splits)
qed

definition sample_chat_env :: chat_env where
  "sample_chat_env = \<lparr>ch_L = sample_jid_lib, ch_client = sample_client,
     ch_config = \<lparr>cc_PinnedTag = ''p'', cc_ArchiveTag = ''a'', cc_MuteStatusBroadcast = True, cc_StatusBroadcastTag = []\<rparr>,
     ch_bridge = [], ch_group_info = (\<lambda>_. Inl (Err ''none'')), ch_newsletter_info = (\<lambda>_. Inl (Err ''none'')),
     ch_settings = (\<lambda>_. None)\<rparr>"

theorem chat_members_keyed_witness:
  "\<exists>info. getChatInfo sample_chat_env empty_wadb sample_user None True = Inr info \<and> keyed_by_sender (members_of info)"
proof -
  have "\<exists>info. getChatInfo sample_chat_env empty_wadb sample_user None True = Inr info"
    by (simp add: getChatInfo_def wrap_chat_def sample_user_def Let_def)
  then show ?thesis
    using chat_members_keyed[of sample_chat_env empty_wadb sample_user None True] by blast
qed

text \<open>The members of a group. If the participants are different users and nobody takes part
  under the phone number of somebody's LID, the member map holds every participant as joined
  with the level of the rank, the phone number ghost of every LID participant as having
  left, and nobody else.\<close>

theorem group_members_exact:
  assumes "\<And>q r. q \<in> set (gi_Participants info) \<Longrightarrow> r \<in> set (gi_Participants info) \<Longrightarrow>
      MakeUserID (pcp_JID q) = MakeUserID (pcp_JID r) \<Longrightarrow> q = r"
    and "\<And>q r. q \<in> set (gi_Participants info) \<Longrightarrow> r \<in> set (gi_Participants info) \<Longrightarrow> has_phone_ghost L q \<Longrightarrow>
      has_phone_ghost L r \<Longrightarrow> MakeUserID (pcp_PhoneNumber q) = MakeUserID (pcp_PhoneNumber r) \<Longrightarrow> q = r"
    and "\<And>q r. q \<in> set (gi_Participants info) \<Longrightarrow> r \<in> set (gi_Participants info) \<Longrightarrow> has_phone_ghost L q \<Longrightarrow>
      MakeUserID (pcp_PhoneNumber q) \<noteq> MakeUserID (pcp_JID r)"
  shows "(\<forall>p \<in> set (gi_Participants info).
      members_of (wrapGroupInfo L c info) (MakeUserID (pcp_JID p)) = Some (joined_member L c p) \<and>
      (has_phone_ghost L p \<longrightarrow> members_of (wrapGroupInfo L c info) (MakeUserID (pcp_PhoneNumber p)) = Some (phone_member p)))
    \<and> (\<forall>k. members_of (wrapGroupInfo L c info) k \<noteq> None \<longrightarrow>
        (\<exists>p \<in> set (gi_Participants info). k = MakeUserID (pcp_JID p) \<or> has_phone_ghost L p \<and> k = MakeUserID (pcp_PhoneNumber p)))"
proof -
  have m: "members_of (wrapGroupInfo L c info) = fold (add_participant L c) (gi_Participants info) Map.empty"
    by (simp add: members_of_def wrapGroupInfo_def Let_def)
  show ?thesis
    unfolding m using assms fold_add_participant_other[of "gi_Participants info" _ L c Map.empty]
    by (intro conjI ballI allI impI participant_entry phone_entry) (blast | fastforce)+
qed

definition sample_group_info :: GroupInfo where
  "sample_group_info = \<lparr>gi_Name = ''g'', gi_Topic = [], gi_TopicID = [], gi_IsAnnounce = True, gi_IsLocked = False,
     gi_IsDefaultSubGroup = True, gi_IsIncognito = False, gi_IsParent = False, gi_LinkedParentJID = EmptyJID,
     gi_AddressingMode = AddressingModeLID, gi_DisappearingTimer = 60,
     gi_Participants = [\<lparr>pcp_JID = \<lparr>User = ''9'', Server = HiddenUserServer, Device = 0\<rparr>, pcp_PhoneNumber = sample_user,
       pcp_IsAdmin = True, pcp_IsSuperAdmin = False\<rparr>]\<rparr>"

theorem group_members_exact_witness:
  "map_option cmb_PowerLevel (members_of (wrapGroupInfo sample_jid_lib sample_client sample_group_info) ''lid-9'') = Some (Some 50) \<and>
   map_option cmb_Membership (members_of (wrapGroupInfo sample_jid_lib sample_client sample_group_info) ''358401234567'') = Some MembershipLeave"
  using group_members_exact[of sample_group_info sample_jid_lib sample_client]
  by (simp add: sample_group_info_def MakeUserID_def sample_user_def has_phone_ghost_def sample_jid_lib_def LIDPrefix_def
      joined_member_def phone_member_def participant_level_def adminPL_def EmptyJID_def)


definition sample_group_event :: GroupEvent where
  "sample_group_event = \<lparr>ge_Name = None, ge_Topic = None, ge_Ephemeral = Some (True, 60), ge_Unlink = False, ge_Link = None,
     ge_Announce = Some True, ge_Locked = Some True, ge_Join = None, ge_Leave = None, ge_Promote = None, ge_Demote = None\<rparr>"


end
