(* ===== verification/UserInfo.thy ===== *)
theory UserInfo
  imports ChatInfo
begin

text \<open>
  What the bridge tells Matrix about a user: \<open>pkg/connector/userinfo.go\<close> (the queue of users
  and portals to resync, contact names from both identities of a user) and the display name of
  \<open>pkg/connector/config.go\<close>. The contact store and the name template are arguments. Avatars
  are in their own theory.
\<close>

section \<open>Names\<close>

record ContactInfo =
  k_FirstName :: string
  k_FullName :: string
  k_PushName :: string
  k_BusinessName :: string
  k_RedactedPhone :: string

definition middle_dot :: string where "middle_dot = [CHR 0xE2, CHR 0x88, CHR 0x99]"

text \<open>A phone number of less than four bytes makes the count of \<open>strings.Repeat\<close> negative, or a
  slice bound.\<close>

definition redactPhone :: "string \<Rightarrow> string outcome" where
  "redactPhone phone =
     (if length phone < 4 then Panic
      else Ok (take 2 phone @ concat (replicate (length phone - 4) middle_dot) @ drop (length phone - 2) phone))"

text \<open>\<open>template\<close> executes the configured template; an error of it panics.\<close>

definition FormatDisplayname ::
  "(ContactInfo \<Rightarrow> string \<Rightarrow> string option) \<Rightarrow> jid \<Rightarrow> string \<Rightarrow> ContactInfo \<Rightarrow> string outcome" where
  "FormatDisplayname template j phone0 contact =
     (let phone = (if phone0 = [] \<and> Server j = DefaultUserServer then ''+'' @ User j else phone0)
      in obind (if k_RedactedPhone contact = [] \<and> phone \<noteq> [] then redactPhone phone else Ok (k_RedactedPhone contact))
           (\<lambda>redacted. case template (contact\<lparr>k_RedactedPhone := redacted\<rparr>) phone of None \<Rightarrow> Panic | Some name \<Rightarrow> Ok name))"

definition fill :: "string \<Rightarrow> string \<Rightarrow> string" where
  "fill a b = (if a = [] then b else a)"

text \<open>The names of the other identity fill the gaps; where push or business names conflict, those of
  the phone number win. \<open>alt_pn\<close> is whether the other identity is the phone number.\<close>

definition merge_contact :: "bool \<Rightarrow> ContactInfo \<Rightarrow> ContactInfo \<Rightarrow> ContactInfo" where
  "merge_contact alt_pn contact extra =
     (let c1 = (if alt_pn then contact\<lparr>k_FirstName := fill (k_FirstName contact) (k_FirstName extra),
                   k_FullName := fill (k_FullName contact) (k_FullName extra)\<rparr> else contact);
          c2 = c1\<lparr>k_PushName := fill (k_PushName c1) (k_PushName extra),
                  k_BusinessName := fill (k_BusinessName c1) (k_BusinessName extra)\<rparr>;
          c3 = (if k_PushName c2 \<noteq> [] \<and> k_PushName extra \<noteq> [] \<and> k_PushName c2 \<noteq> k_PushName extra \<and> alt_pn
                then c2\<lparr>k_PushName := k_PushName extra\<rparr> else c2)
      in if k_BusinessName c3 \<noteq> [] \<and> k_BusinessName extra \<noteq> [] \<and> k_BusinessName c3 \<noteq> k_BusinessName extra \<and> alt_pn
         then c3\<lparr>k_BusinessName := k_BusinessName extra\<rparr> else c3)"

record user_env =
  ue_L :: jid_lib
  ue_alt_jid :: "jid \<Rightarrow> gerror + jid"
  ue_contact :: "jid \<Rightarrow> gerror + ContactInfo"
  ue_template :: "ContactInfo \<Rightarrow> string \<Rightarrow> string option"
  ue_is_bot :: "jid \<Rightarrow> bool"
  ue_meta_ai :: jid
  ue_psa :: "jid list"

record UserInfo =
  ui_Name :: string
  ui_IsBot :: bool
  ui_Identifiers :: "string list option"
  ui_fetch_avatar :: bool

definition special_names :: "user_env \<Rightarrow> jid \<Rightarrow> ContactInfo \<Rightarrow> ContactInfo" where
  "special_names V j contact =
     (if j = ue_meta_ai V \<and> k_PushName contact = User j then contact\<lparr>k_PushName := ''Meta AI''\<rparr>
      else if j \<in> set (ue_psa V) then contact\<lparr>k_PushName := ''WhatsApp''\<rparr>
      else contact)"

text \<open>The other identity, none for bots, on an error, or where there is none.\<close>

definition alt_identity :: "user_env \<Rightarrow> jid \<Rightarrow> jid" where
  "alt_identity V j =
     (if Server j = DefaultUserServer \<or> Server j = HiddenUserServer
      then (case ue_alt_jid V j of Inl _ \<Rightarrow> EmptyJID | Inr a \<Rightarrow> a) else EmptyJID)"

definition with_alt :: "user_env \<Rightarrow> jid \<Rightarrow> ContactInfo \<Rightarrow> ContactInfo" where
  "with_alt V j contact =
     (let a = alt_identity V j in
      if jid_is_empty (ue_L V) a then contact
      else (case ue_contact V a of
              Inl _ \<Rightarrow> contact
            | Inr extra \<Rightarrow> merge_contact (Server a = DefaultUserServer) contact extra))"

definition phone_of :: "user_env \<Rightarrow> jid \<Rightarrow> string" where
  "phone_of V j =
     (if Server j = DefaultUserServer then ''+'' @ User j
      else if Server (alt_identity V j) = DefaultUserServer then ''+'' @ User (alt_identity V j) else [])"

definition contactToUserInfo :: "user_env \<Rightarrow> jid \<Rightarrow> ContactInfo \<Rightarrow> bool \<Rightarrow> UserInfo outcome" where
  "contactToUserInfo V j contact getAvatar =
     (let phone = phone_of V j in
      obind (FormatDisplayname (ue_template V) j phone (with_alt V j (special_names V j contact))) (\<lambda>name.
        Ok \<lparr>ui_Name = name, ui_IsBot = ue_is_bot V j,
            ui_Identifiers = (if Server j = BotServer then Some [] else if phone \<noteq> [] then Some [''tel:'' @ phone] else None),
            ui_fetch_avatar = getAvatar\<rparr>))"

definition getUserInfo :: "user_env \<Rightarrow> jid \<Rightarrow> bool \<Rightarrow> UserInfo outcome" where
  "getUserInfo V j fetchAvatar =
     (case ue_contact V j of
        Inl e \<Rightarrow> Fail e
      | Inr contact \<Rightarrow> contactToUserInfo V j contact fetchAvatar)"

text \<open>\<open>updateGhostLastSyncAt\<close>: the new time, and whether the ghost has to be saved.\<close>

definition updateGhostLastSyncAt :: "gotime \<Rightarrow> gotime \<Rightarrow> gotime \<times> bool" where
  "updateGhostLastSyncAt now last_sync =
     (now, ResyncMinInterval < 24 * 3600 * second \<or> time_sub now last_sync > 24 * 3600 * second)"

section \<open>The resync queue\<close>

text \<open>A ghost or a portal, by its identifier. The queue is a Go map: an association list with
  distinct keys, in the order in which the map is iterated.\<close>

datatype resync_item = GhostItem string | PortalItem string

definition ResyncLoopInterval :: int where "ResyncLoopInterval = 4 * 3600 * second"

record resync_state =
  rs_queue :: "(jid \<times> resync_item) list"
  rs_nextResync :: gotime

definition recently_synced :: "gotime \<Rightarrow> gotime \<Rightarrow> bool" where
  "recently_synced now last_sync \<longleftrightarrow> last_sync + ResyncMinInterval > now"

definition enqueue :: "jid \<Rightarrow> resync_item \<Rightarrow> resync_state \<Rightarrow> resync_state" where
  "enqueue j item s = (if map_of (rs_queue s) j = None then s\<lparr>rs_queue := rs_queue s @ [(j, item)]\<rparr> else s)"

definition EnqueueGhostResync :: "jid_lib \<Rightarrow> gotime \<Rightarrow> string \<Rightarrow> gotime \<Rightarrow> resync_state \<Rightarrow> resync_state" where
  "EnqueueGhostResync L now ghostID last_sync s =
     (if recently_synced now last_sync then s else enqueue (ParseUserID L ghostID) (GhostItem ghostID) s)"

definition EnqueuePortalResync :: "jid_lib \<Rightarrow> gotime \<Rightarrow> string \<Rightarrow> gotime \<Rightarrow> bool \<Rightarrow> resync_state \<Rightarrow> resync_state" where
  "EnqueuePortalResync L now portalID last_sync allowDM s =
     (let j = (case ParsePortalID L portalID of Ok p \<Rightarrow> p | _ \<Rightarrow> EmptyJID) in
      if recently_synced now last_sync then s
      else if \<not> allowDM \<and> Server j \<noteq> GroupServer then s
      else enqueue j (PortalItem portalID) s)"

definition rotateResyncQueue :: "gotime \<Rightarrow> resync_state \<Rightarrow> (jid \<times> resync_item) list \<times> resync_state" where
  "rotateResyncQueue now s = (rs_queue s, \<lparr>rs_queue = [], rs_nextResync = now + ResyncLoopInterval\<rparr>)"

text \<open>The answers a round of resyncs gets: the last syncs, the users' picture identifiers, the
  avatar of a ghost.\<close>

record resync_env =
  rv_users :: user_env
  rv_logged_in :: bool
  rv_last_sync :: "resync_item \<Rightarrow> gotime"
  rv_get_infos :: "jid list \<Rightarrow> gerror + (jid \<Rightarrow> string option)"
  rv_ghost_avatar :: "string \<Rightarrow> string"

definition due_items :: "resync_env \<Rightarrow> gotime \<Rightarrow> (jid \<times> resync_item) list \<Rightarrow> (jid \<times> resync_item) list" where
  "due_items V now queue = filter (\<lambda>(_, item). \<not> recently_synced now (rv_last_sync V item)) queue"

fun due_ghost :: "jid \<times> resync_item \<Rightarrow> (jid \<times> string) option" where
  "due_ghost (j, GhostItem g) = Some (j, g)"
| "due_ghost (j, PortalItem p) = None"

fun due_portal :: "jid \<times> resync_item \<Rightarrow> string option" where
  "due_portal (j, PortalItem p) = Some p"
| "due_portal (j, GhostItem g) = None"

text \<open>A ghost that is updated, with the info; no info or an error skips it.\<close>

definition resync_ghost :: "resync_env \<Rightarrow> (jid \<Rightarrow> string option) \<Rightarrow> string \<Rightarrow> (string \<times> UserInfo) option outcome" where
  "resync_ghost V infos ghost =
     (let j = ParseUserID (ue_L (rv_users V)) ghost in
      case infos j of
        None \<Rightarrow> Ok None
      | Some pictureID \<Rightarrow>
         (case getUserInfo (rv_users V) j (pictureID \<noteq> [] \<and> rv_ghost_avatar V ghost \<noteq> pictureID) of
            Panic \<Rightarrow> Panic
          | Fail _ \<Rightarrow> Ok None
          | Ok ui \<Rightarrow> Ok (Some (ghost, ui))))"

text \<open>The portals that are queued for a resync, and the ghosts that are updated.\<close>

definition doGhostResync ::
  "resync_env \<Rightarrow> gotime \<Rightarrow> (jid \<times> resync_item) list \<Rightarrow> (string list \<times> (string \<times> UserInfo) list) outcome" where
  "doGhostResync V now queue =
     (if \<not> rv_logged_in V then Ok ([], [])
      else
        (let due = due_items V now queue;
             portals = List.map_filter due_portal due;
             ghosts = List.map_filter due_ghost due
         in if ghosts = [] then Ok (portals, [])
            else (case rv_get_infos V (map fst ghosts) of
                    Inl _ \<Rightarrow> Ok (portals, [])
                  | Inr infos \<Rightarrow>
                      obind (omap (resync_ghost V infos) (map snd ghosts))
                        (\<lambda>us. Ok (portals, List.map_filter id us)))))"

section \<open>Lemmas\<close>

lemma fill_simps [simp]: "fill [] b = b" "fill a [] = a" "a \<noteq> [] \<Longrightarrow> fill a b = a"
  by (simp_all add: fill_def)

lemma merge_contact_pn:
  "merge_contact True contact extra = contact
     \<lparr>k_FirstName := fill (k_FirstName contact) (k_FirstName extra), k_FullName := fill (k_FullName contact) (k_FullName extra),
      k_PushName := fill (k_PushName extra) (k_PushName contact),
      k_BusinessName := fill (k_BusinessName extra) (k_BusinessName contact)\<rparr>"
  by (auto simp: merge_contact_def Let_def fill_def)

lemma merge_contact_lid:
  "merge_contact False contact extra = contact
     \<lparr>k_PushName := fill (k_PushName contact) (k_PushName extra),
      k_BusinessName := fill (k_BusinessName contact) (k_BusinessName extra)\<rparr>"
  by (auto simp: merge_contact_def Let_def fill_def)

lemma redactPhone_panics: "redactPhone p = Panic \<longleftrightarrow> length p < 4"
  by (simp add: redactPhone_def)

definition queue_ok :: "resync_state \<Rightarrow> bool" where
  "queue_ok s \<longleftrightarrow> distinct (map fst (rs_queue s))"

lemma enqueue_ok: "queue_ok s \<Longrightarrow> queue_ok (enqueue j item s)"
  by (auto simp: queue_ok_def enqueue_def map_of_eq_None_iff)

lemma enqueue_lookup:
  "map_of (rs_queue (enqueue j item s)) k =
     (if k = j \<and> map_of (rs_queue s) j = None then Some item else map_of (rs_queue s) k)"
  by (auto simp: enqueue_def map_of_append map_add_def split: option.split)

lemma map_filter_conv: "List.map_filter f xs = concat (map (\<lambda>x. case f x of None \<Rightarrow> [] | Some y \<Rightarrow> [y]) xs)"
  by (induction xs) (auto simp: map_filter_simps split: option.split)

lemma omap_Ok_in: "omap f xs = Ok ys \<Longrightarrow> y \<in> set ys \<Longrightarrow> \<exists>x \<in> set xs. f x = Ok y"
  by (induction xs arbitrary: ys) (auto simp: outcome_simps)

lemma set_map_filter: "set (List.map_filter f xs) = {y. \<exists>x \<in> set xs. f x = Some y}"
  by (auto simp: map_filter_conv split: option.splits)

section \<open>Properties\<close>

text \<open>Both identities of a user get the same name. If the phone number and the LID know each
  other, names of the address book are only stored with the phone number, and neither is a special
  account or has a redacted number of its own, then the two contacts lead to the same names, the
  same phone number and the same display name.\<close>

theorem identities_share_name:
  assumes "Server pn = DefaultUserServer" "Server lid = HiddenUserServer"
    and "ue_alt_jid V pn = Inr lid" "ue_alt_jid V lid = Inr pn"
    and "\<not> jid_is_empty (ue_L V) pn" "\<not> jid_is_empty (ue_L V) lid"
    and "ue_contact V pn = Inr cp" "ue_contact V lid = Inr cl"
    and "k_FirstName cl = []" "k_FullName cl = []" "k_RedactedPhone cl = k_RedactedPhone cp"
    and "{pn, lid} \<inter> ({ue_meta_ai V} \<union> set (ue_psa V)) = {}"
  shows "with_alt V pn cp = with_alt V lid cl \<and>
    map_option ui_Name (case getUserInfo V pn b of Ok u \<Rightarrow> Some u | _ \<Rightarrow> None) =
    map_option ui_Name (case getUserInfo V lid b' of Ok u \<Rightarrow> Some u | _ \<Rightarrow> None) \<and>
    phone_of V pn = phone_of V lid"
proof -
  have a: "alt_identity V pn = lid" "alt_identity V lid = pn"
    using assms by (simp_all add: alt_identity_def)
  have w: "with_alt V pn cp = with_alt V lid cl"
    using assms(1,2,5-11) by (simp add: with_alt_def a merge_contact_pn merge_contact_lid)
  have p: "phone_of V pn = ''+'' @ User pn" "phone_of V lid = ''+'' @ User pn"
    using assms(1,2) by (simp_all add: phone_of_def a)
  have s: "special_names V pn cp = cp" "special_names V lid cl = cl"
    using assms(12) by (auto simp: special_names_def)
  have n: "FormatDisplayname (ue_template V) pn (''+'' @ User pn) c = FormatDisplayname (ue_template V) lid (''+'' @ User pn) c" for c
    using assms(1,2) by (simp add: FormatDisplayname_def)
  show ?thesis
    using w n[of "with_alt V lid cl"] assms(7,8)
    by (cases "FormatDisplayname (ue_template V) lid (''+'' @ User pn) (with_alt V lid cl)")
      (simp_all add: getUserInfo_def contactToUserInfo_def s p Let_def)
qed

definition sample_contact :: "string \<Rightarrow> string \<Rightarrow> ContactInfo" where
  "sample_contact full push = \<lparr>k_FirstName = [], k_FullName = full, k_PushName = push, k_BusinessName = [], k_RedactedPhone = []\<rparr>"

definition sample_lid :: jid where
  "sample_lid = \<lparr>User = ''9'', Server = HiddenUserServer, Device = 0\<rparr>"

definition psa_jid :: jid where
  "psa_jid = \<lparr>User = ''0'', Server = DefaultUserServer, Device = 0\<rparr>"

definition sample_user_env :: user_env where
  "sample_user_env = \<lparr>ue_L = sample_jid_lib,
     ue_alt_jid = (\<lambda>j. Inr (if Server j = HiddenUserServer then sample_user else sample_lid)),
     ue_contact = (\<lambda>j. Inr (if Server j = HiddenUserServer then sample_contact [] ''lid'' else sample_contact ''Full'' [])),
     ue_template = (\<lambda>c p. Some (fill (k_FullName c) (k_PushName c))), ue_is_bot = (\<lambda>_. False),
     ue_meta_ai = psa_jid, ue_psa = [psa_jid]\<rparr>"

theorem identities_share_name_witness:
  "with_alt sample_user_env sample_user (sample_contact ''Full'' []) = with_alt sample_user_env sample_lid (sample_contact [] ''lid'')"
  using identities_share_name[of sample_user sample_lid sample_user_env "sample_contact ''Full'' []" "sample_contact [] ''lid''"]
  by (simp add: sample_user_def sample_lid_def sample_user_env_def psa_jid_def sample_contact_def sample_jid_lib_def EmptyJID_def)

text \<open>Making the info of a user fails to return only where the name template fails, or where a
  phone number of less than four bytes with the plus sign has to be redacted. The second happens
  for WhatsApp's own announcement account, whose number is 0.\<close>

theorem user_info_panics:
  "(getUserInfo V j b = Panic \<longleftrightarrow>
      (\<exists>contact. ue_contact V j = Inr contact \<and>
        (let c = with_alt V j (special_names V j contact); phone = phone_of V j in
         if k_RedactedPhone c = [] \<and> phone \<noteq> [] \<and> length phone < 4 then True
         else (\<exists>c'. ue_template V c' phone = None \<and>
           c' = c\<lparr>k_RedactedPhone := (if k_RedactedPhone c = [] \<and> phone \<noteq> [] then (case redactPhone phone of Ok r \<Rightarrow> r | _ \<Rightarrow> []) else k_RedactedPhone c)\<rparr>))))
   \<and> (ue_contact V psa_jid = Inr contact \<and> k_RedactedPhone (with_alt V psa_jid (special_names V psa_jid contact)) = [] \<longrightarrow>
      getUserInfo V psa_jid b = Panic)"
proof -
  have ph: "Server j = DefaultUserServer \<Longrightarrow> phone_of V j \<noteq> []" for j by (simp add: phone_of_def)
  have f: "FormatDisplayname t j (phone_of V j) c = Panic \<longleftrightarrow>
     (if k_RedactedPhone c = [] \<and> phone_of V j \<noteq> [] \<and> length (phone_of V j) < 4 then True
      else t (c\<lparr>k_RedactedPhone := (if k_RedactedPhone c = [] \<and> phone_of V j \<noteq> [] then (case redactPhone (phone_of V j) of Ok r \<Rightarrow> r | _ \<Rightarrow> []) else k_RedactedPhone c)\<rparr>) (phone_of V j) = None)" for t j c
    using ph[of j] by (auto simp: FormatDisplayname_def Let_def outcome_simps redactPhone_def split: option.splits)
  have u: "getUserInfo V j b = Panic \<longleftrightarrow> (\<exists>contact. ue_contact V j = Inr contact \<and>
      FormatDisplayname (ue_template V) j (phone_of V j) (with_alt V j (special_names V j contact)) = Panic)" for j
    by (auto simp: getUserInfo_def contactToUserInfo_def Let_def outcome_simps split: sum.splits)
  have "phone_of V psa_jid = ''+0''" by (simp add: phone_of_def psa_jid_def)
  then show ?thesis unfolding u f by (simp add: Let_def)
qed

theorem user_info_panics_witness:
  "getUserInfo (sample_user_env\<lparr>ue_alt_jid := (\<lambda>_. Inl (Err ''none''))\<rparr>) psa_jid False = Panic"
  using user_info_panics[of "sample_user_env\<lparr>ue_alt_jid := (\<lambda>_. Inl (Err ''none''))\<rparr>" _ _ "sample_contact ''Full'' []", THEN conjunct2, THEN mp]
  by (simp add: sample_user_env_def psa_jid_def with_alt_def alt_identity_def special_names_def sample_contact_def
      sample_jid_lib_def EmptyJID_def)

text \<open>The resync queue holds every user and chat at most once, keeps the first entry, and never
  takes one that was synced within the last week. Rotating hands out the whole queue and starts an
  empty one; handing out resyncs exactly the portals in it whose last sync is still a
  week ago, and only ghosts of that kind are updated.\<close>

theorem resync_queue_behaviour:
  assumes "queue_ok s"
  shows "queue_ok (EnqueueGhostResync L now g lg s) \<and> queue_ok (EnqueuePortalResync L now p lp dm s) \<and>
    (map_of (rs_queue s) j = Some item \<longrightarrow>
       map_of (rs_queue (EnqueueGhostResync L now g lg s)) j = Some item \<and>
       map_of (rs_queue (EnqueuePortalResync L now p lp dm s)) j = Some item) \<and>
    (lg + ResyncMinInterval > now \<longrightarrow> EnqueueGhostResync L now g lg s = s) \<and>
    (lp + ResyncMinInterval > now \<longrightarrow> EnqueuePortalResync L now p lp dm s = s) \<and>
    (lg + ResyncMinInterval \<le> now \<longrightarrow> map_of (rs_queue (EnqueueGhostResync L now g lg s)) (ParseUserID L g) \<noteq> None) \<and>
    rotateResyncQueue now s = (rs_queue s, \<lparr>rs_queue = [], rs_nextResync = now + ResyncLoopInterval\<rparr>) \<and>
    (\<forall>portals ghosts. doGhostResync V now (rs_queue s) = Ok (portals, ghosts) \<longrightarrow>
       (rv_logged_in V \<longrightarrow> set portals = {q. \<exists>k. (k, PortalItem q) \<in> set (rs_queue s) \<and> \<not> recently_synced now (rv_last_sync V (PortalItem q))}) \<and>
       (\<forall>(gh, ui) \<in> set ghosts. \<exists>k. (k, GhostItem gh) \<in> set (rs_queue s) \<and> \<not> recently_synced now (rv_last_sync V (GhostItem gh))))"
proof -
  have "queue_ok (EnqueueGhostResync L now g lg s)" "queue_ok (EnqueuePortalResync L now p lp dm s)"
    using assms by (simp_all add: EnqueueGhostResync_def EnqueuePortalResync_def Let_def enqueue_ok)
  moreover have "map_of (rs_queue s) j = Some item \<longrightarrow>
       map_of (rs_queue (EnqueueGhostResync L now g lg s)) j = Some item \<and>
       map_of (rs_queue (EnqueuePortalResync L now p lp dm s)) j = Some item"
    by (simp add: EnqueueGhostResync_def EnqueuePortalResync_def Let_def enqueue_lookup)
  moreover have "lg + ResyncMinInterval > now \<longrightarrow> EnqueueGhostResync L now g lg s = s"
    "lp + ResyncMinInterval > now \<longrightarrow> EnqueuePortalResync L now p lp dm s = s"
    "lg + ResyncMinInterval \<le> now \<longrightarrow> map_of (rs_queue (EnqueueGhostResync L now g lg s)) (ParseUserID L g) \<noteq> None"
    by (auto simp: EnqueueGhostResync_def EnqueuePortalResync_def recently_synced_def enqueue_lookup)
  moreover have "(rv_logged_in V \<longrightarrow> set portals = {q. \<exists>k. (k, PortalItem q) \<in> set (rs_queue s) \<and> \<not> recently_synced now (rv_last_sync V (PortalItem q))}) \<and>
       (\<forall>(gh, ui) \<in> set ghosts. \<exists>k. (k, GhostItem gh) \<in> set (rs_queue s) \<and> \<not> recently_synced now (rv_last_sync V (GhostItem gh)))"
    if r: "doGhostResync V now (rs_queue s) = Ok (portals, ghosts)" for portals ghosts
  proof (cases "rv_logged_in V")
    case False
    then show ?thesis using r by (simp add: doGhostResync_def)
  next
    case True
    let ?due = "due_items V now (rs_queue s)"
    have due: "(k, i) \<in> set ?due \<longleftrightarrow> (k, i) \<in> set (rs_queue s) \<and> \<not> recently_synced now (rv_last_sync V i)" for k i
      by (auto simp: due_items_def)
    have dp: "due_portal x = Some q \<longleftrightarrow> snd x = PortalItem q" and dg: "due_ghost x = Some (k, gh) \<longleftrightarrow> x = (k, GhostItem gh)"
      for x q k gh by (cases x; cases "snd x"; auto)+
    have "portals = List.map_filter due_portal ?due"
      using r True by (auto simp: doGhostResync_def Let_def outcome_simps split: if_splits sum.splits)
    then have ps: "set portals = {q. \<exists>k. (k, PortalItem q) \<in> set (rs_queue s) \<and> \<not> recently_synced now (rv_last_sync V (PortalItem q))}"
      using due by (force simp: set_map_filter dp)
    have "\<exists>k. (k, GhostItem gh) \<in> set (rs_queue s) \<and> \<not> recently_synced now (rv_last_sync V (GhostItem gh))"
      if g: "(gh, ui) \<in> set ghosts" for gh ui
    proof -
      obtain infos us where us: "omap (resync_ghost V infos) (map snd (List.map_filter due_ghost ?due)) = Ok us"
        "ghosts = List.map_filter id us"
        using r True g by (auto simp: doGhostResync_def Let_def outcome_simps split: if_splits sum.splits)
      then have "Some (gh, ui) \<in> set us" using g by (auto simp: set_map_filter)
      then obtain gh' where "gh' \<in> set (map snd (List.map_filter due_ghost ?due))" "resync_ghost V infos gh' = Ok (Some (gh, ui))"
        using omap_Ok_in[OF us(1)] by blast
      moreover from this have "gh' = gh"
        by (auto simp: resync_ghost_def Let_def split: option.splits outcome.splits)
      ultimately show ?thesis using due by (auto simp: set_map_filter dg)
    qed
    with ps show ?thesis by auto
  qed
  ultimately show ?thesis by (simp add: rotateResyncQueue_def)
qed

theorem resync_queue_behaviour_witness:
  "map_of (rs_queue (EnqueueGhostResync sample_jid_lib (ResyncMinInterval + 1) ''358'' 0 \<lparr>rs_queue = [], rs_nextResync = 0\<rparr>))
     (ParseUserID sample_jid_lib ''358'') \<noteq> None"
  using resync_queue_behaviour[of "\<lparr>rs_queue = [], rs_nextResync = 0\<rparr>" sample_jid_lib "ResyncMinInterval + 1" "''358''" 0,
      THEN conjunct2, THEN conjunct2, THEN conjunct2, THEN conjunct2, THEN conjunct2, THEN conjunct1]
  by (simp add: queue_ok_def ResyncMinInterval_def second_def)

end
