(* ===== verification/Events.thy ===== *)
theory Events
  imports MediaRequests
begin

text \<open>
  The remote events of \<open>pkg/connector/events.go\<close>: messages, edits, reactions and removals, the
  notice for a message that cannot be decrypted and its replacement, and media retries. The
  framework calls the methods of an event; \<open>event_env\<close> holds what they call outside: the
  converter, the framework's edit parts and the group info of whatsmeow.
\<close>

section \<open>Message events\<close>

datatype RemoteEventType =
    RemoteEventUnknown
  | RemoteEventMessage
  | RemoteEventMessageUpsert
  | RemoteEventEdit
  | RemoteEventReaction
  | RemoteEventReactionRemove
  | RemoteEventMessageRemove

text \<open>\<open>ev_post\<close> is the pending post handler: the failed media it is going to process.\<close>

record wa_event =
  ev_Info :: MessageInfo
  ev_Message :: "WAMessage option"
  ev_Raw :: "WAMessage option"
  ev_IsViewOnce :: bool
  ev_IsViewOnceV2 :: bool
  ev_IsViewOnceV2Extension :: bool
  ev_parsedMessageType :: string
  ev_upsert_sub :: bool
  ev_post :: "(PortalKey \<times> string \<times> ConvertedMessage) option"

record EditPart =
  ep_Part :: DBMessage
  ep_Type :: EventType
  ep_Content :: MessageEventContent
  ep_DontRenderEdited :: bool

record 'g event_env =
  ee_L :: jid_lib
  ee_client :: client
  ee_is_incoming_broadcast :: "MessageInfo \<Rightarrow> bool"
  ee_to_matrix :: "WAMessage option \<Rightarrow> WAMessage option \<Rightarrow> MessageInfo \<Rightarrow> string \<Rightarrow> bool \<Rightarrow> ConvertedPart option \<Rightarrow> ConvertedMessage"
  ee_to_edit_part :: "ConvertedPart \<Rightarrow> DBMessage \<Rightarrow> EditPart"
  ee_group_info :: "jid \<Rightarrow> gerror + AddressingMode \<times> 'g"
  ee_update_info :: "'g \<Rightarrow> Portal \<Rightarrow> Portal"
  ee_undecryptable :: MessageEventContent

definition GetID :: "jid_lib \<Rightarrow> MessageInfo \<Rightarrow> string" where
  "GetID L info = MakeMessageID L (mi_Chat info) (mi_Sender info) (mi_ID info)"

definition GetPortalKey :: "'g event_env \<Rightarrow> MessageInfo \<Rightarrow> PortalKey" where
  "GetPortalKey E info = getPortalKeyByMessageSource (ee_L E) (ee_is_incoming_broadcast E) (ee_client E) info"

definition GetSender :: "'g event_env \<Rightarrow> MessageInfo \<Rightarrow> EventSender" where
  "GetSender E info = makeEventSender (ee_L E) (ee_client E) (mi_Sender info)"

definition GetStreamOrder :: "MessageInfo \<Rightarrow> int" where
  "GetStreamOrder info = go_unix (mi_Timestamp info)"

definition isViewOnce :: "wa_event \<Rightarrow> bool" where
  "isViewOnce e \<longleftrightarrow> ev_IsViewOnce e \<or> ev_IsViewOnceV2 e \<or> ev_IsViewOnceV2Extension e"

definition ev_reaction :: "wa_event \<Rightarrow> ReactionMessage option" where
  "ev_reaction e = (case ev_Message e of None \<Rightarrow> None | Some m \<Rightarrow> reaction m)"

definition ev_protocol :: "wa_event \<Rightarrow> ProtocolMsg option" where
  "ev_protocol e = (case ev_Message e of None \<Rightarrow> None | Some m \<Rightarrow> protocol m)"

definition GetTargetMessage :: "'g event_env \<Rightarrow> wa_event \<Rightarrow> string" where
  "GetTargetMessage E e =
     (let target = KeyToMessageID (ee_L E) (ee_client E) (mi_Chat (ev_Info e)) (mi_Sender (ev_Info e)) in
      case ev_reaction e of
        Some r \<Rightarrow> target (rm_Key r)
      | None \<Rightarrow> (case ev_protocol e of Some p \<Rightarrow> target (pm_Key p) | None \<Rightarrow> []))"

definition GetReactionEmoji :: "wa_event \<Rightarrow> string" where
  "GetReactionEmoji e = (case ev_reaction e of None \<Rightarrow> [] | Some r \<Rightarrow> rm_Text r)"

definition GetType :: "wa_event \<Rightarrow> RemoteEventType" where
  "GetType e =
     (let t = ev_parsedMessageType e in
      if t = ''reaction'' \<or> t = ''encrypted reaction'' then RemoteEventReaction
      else if t = ''reaction remove'' then RemoteEventReactionRemove
      else if t = ''edit'' then RemoteEventEdit
      else if t = ''revoke'' then RemoteEventMessageRemove
      else if t = ''ignore'' then RemoteEventUnknown
      else RemoteEventMessageUpsert)"

section \<open>Before the event is handled\<close>

text \<open>The group is asked for its addressing mode once; a portal that turns out to have moved to
  LIDs is resynced, and the sender of the event becomes the LID.\<close>

definition mark_attempted :: "Portal \<Rightarrow> Portal" where
  "mark_attempted portal = portal\<lparr>pt_Meta := (pt_Meta portal)\<lparr>pmd_LIDMigrationAttempted := True\<rparr>\<rparr>"

definition sender_to_lid :: "MessageInfo \<Rightarrow> MessageInfo" where
  "sender_to_lid info =
     (if Server (mi_Sender info) = DefaultUserServer \<and> Server (mi_SenderAlt info) = HiddenUserServer
      then info\<lparr>mi_Sender := mi_SenderAlt info, mi_SenderAlt := mi_Sender info\<rparr> else info)"

definition PreHandle :: "'g event_env \<Rightarrow> wa_event \<Rightarrow> Portal \<Rightarrow> wa_event \<times> Portal" where
  "PreHandle E e portal =
     (let info = ev_Info e in
      if mi_AddressingMode info \<noteq> AddressingModeLID \<or> Server (mi_Chat info) \<noteq> GroupServer then (e, portal)
      else (case ParsePortalID (ee_L E) (pt_ID portal) of
          Ok portalJID \<Rightarrow>
            if pmd_AddressingMode (pt_Meta portal) = AddressingModeLID \<or> pmd_LIDMigrationAttempted (pt_Meta portal)
            then (e, portal)
            else (case ee_group_info E portalJID of
                Inl _ \<Rightarrow> (e, mark_attempted portal)
              | Inr (mode, g) \<Rightarrow>
                  if mode \<noteq> AddressingModeLID then (e, mark_attempted portal)
                  else (e\<lparr>ev_Info := sender_to_lid info\<rparr>, ee_update_info E g (mark_attempted portal)))
        | _ \<Rightarrow> (e, portal)))"

text \<open>The post handler runs once.\<close>

definition PostHandle :: "request_env \<Rightarrow> wa_event \<Rightarrow> wadb \<Rightarrow> (wa_event \<times> wadb) outcome" where
  "PostHandle R e db =
     (case ev_post e of
        None \<Rightarrow> Ok (e, db)
      | Some (pk, i, cm) \<Rightarrow>
          obind (processFailedMedia R pk i cm False db) (\<lambda>(_, db'). Ok (e\<lparr>ev_post := None\<rparr>, db')))"

section \<open>Converting\<close>

definition ErrIgnoringRemoteEvent :: gerror where
  "ErrIgnoringRemoteEvent = Err ''bridgev2.ErrIgnoringRemoteEvent''"

definition ConvertMessage ::
  "'g event_env \<Rightarrow> gotime \<Rightarrow> Portal \<Rightarrow> PortalKey \<Rightarrow> string \<Rightarrow> wa_event \<Rightarrow> MediaEditCacheEntry list \<Rightarrow>
   ConvertedMessage \<times> wa_event \<times> MediaEditCacheEntry list" where
  "ConvertMessage E now portal pk portalMXID e cache =
     (let converted = ee_to_matrix E (ev_Message e) (ev_Raw e) (ev_Info e) [] (isViewOnce e) None;
          i = GetID (ee_L E) (ev_Info e)
      in if isFailedMedia converted then (converted, e\<lparr>ev_post := Some (pk, i, converted)\<rparr>, cache)
         else (case cm_Parts converted of
                 [] \<Rightarrow> (converted, e, cache)
               | part # _ \<Rightarrow> (converted, e, AddMediaEditCache now portalMXID i part cache)))"

definition edit_target_id :: "wa_event \<Rightarrow> string" where
  "edit_target_id e =
     (case ev_protocol e of None \<Rightarrow> [] | Some p \<Rightarrow>
        (case pm_Key p of None \<Rightarrow> [] | Some k \<Rightarrow> get_str (mk_ID k)))"

definition add_edit :: "string \<Rightarrow> DBMessage \<Rightarrow> DBMessage" where
  "add_edit i m = m\<lparr>dbm_Metadata := (dbm_Metadata m)\<lparr>md_Edits := md_Edits (dbm_Metadata m) @ [i]\<rparr>\<rparr>"

definition edit_of :: "'g event_env \<Rightarrow> bool \<Rightarrow> ConvertedMessage \<Rightarrow> DBMessage \<Rightarrow> EditPart outcome" where
  "edit_of E dont_render cm target =
     (case cm_Parts cm of
        [] \<Rightarrow> Panic
      | part # _ \<Rightarrow>
          (let ep = ee_to_edit_part E part target in
           Ok (if dont_render then ep\<lparr>ep_DontRenderEdited := True\<rparr> else ep)))"

text \<open>The edit, the event with its post handler, and the first target message as it is then.\<close>

definition ConvertEdit ::
  "'g event_env \<Rightarrow> gotime \<Rightarrow> PortalKey \<Rightarrow> string \<Rightarrow> MediaEditCacheEntry list \<Rightarrow> DBMessage list \<Rightarrow> wa_event \<Rightarrow>
   (EditPart \<times> wa_event \<times> DBMessage) outcome" where
  "ConvertEdit E now pk portalMXID cache existing e =
     (case existing of
        [] \<Rightarrow> Panic
      | first # _ \<Rightarrow>
          if ev_upsert_sub e then
            (let cm = ee_to_matrix E (ev_Message e) (ev_Raw e) (ev_Info e) (edit_target_id e) (isViewOnce e) None;
                 e' = (if isFailedMedia cm then e\<lparr>ev_post := Some (pk, GetID (ee_L E) (ev_Info e), cm)\<rparr> else e)
             in obind (edit_of E True cm first) (\<lambda>ep. Ok (ep, e', first)))
          else if mi_ID (ev_Info e) \<in> set (md_Edits (dbm_Metadata first))
          then Fail (Wrap ''edit already handled'' ErrIgnoringRemoteEvent)
          else
            (let first' = add_edit (mi_ID (ev_Info e)) first;
                 editedMsg = (case ev_protocol e of None \<Rightarrow> None | Some p \<Rightarrow> pm_EditedMessage p);
                 cached = GetMediaEditCache now portalMXID (GetTargetMessage E e) cache;
                 cm = ee_to_matrix E editedMsg (ev_Raw e) (ev_Info e) (edit_target_id e) (isViewOnce e) cached
             in obind (edit_of E False cm first') (\<lambda>ep. Ok (ep, e, first'))))"

text \<open>A message whose identifier is known: the decryptable version of an undecryptable one
  becomes an edit of its parts (the second result), any other is a duplicate.\<close>

definition HandleExisting :: "DBMessage list \<Rightarrow> wa_event \<Rightarrow> (wa_event \<times> DBMessage list option) outcome" where
  "HandleExisting existing e =
     (case existing of
        [] \<Rightarrow> Panic
      | first # _ \<Rightarrow>
          if md_Error (dbm_Metadata first) = MsgErrDecryptionFailed
          then Ok (e\<lparr>ev_upsert_sub := True\<rparr>, Some existing)
          else Ok (e, None))"

section \<open>Undecryptable messages\<close>

definition undecryptable_message ::
  "'g event_env \<Rightarrow> bool \<Rightarrow> MessageInfo \<Rightarrow> Portal \<Rightarrow> ConvertedMessage" where
  "undecryptable_message E view_once info portal =
     (let broadcast = ee_is_incoming_broadcast E info;
          content = (if view_once then view_once_notice (mi_IsFromMe info) else ee_undecryptable E)
      in \<lparr>cm_Parts = [(plain_part EventMessage content)
             \<lparr>part_SourceBroadcast := (if broadcast then Some (jid_string (ee_L E) (mi_Chat info)) else None),
              part_DBMetadata := Some (empty_metadata\<lparr>md_SenderDeviceID := Device (mi_Sender info),
                md_Error := MsgErrDecryptionFailed,
                md_BroadcastListJID := (if broadcast then Some (mi_Chat info) else None)\<rparr>)\<rparr>],
          cm_ReplyTo = None, cm_ThreadRoot = None, cm_Disappear = pt_Disappear portal\<rparr>)"

section \<open>Media retries\<close>

record MediaRetry =
  mt_MessageID :: string
  mt_ChatID :: jid
  mt_SenderID :: jid
  mt_FromMe :: bool
  mt_Timestamp :: gotime

datatype retry_result = RetrySuccess | RetryNotFound | RetryOther nat

text \<open>The answers of whatsmeow and JSON, the lock, and the text of an error and of a result.\<close>

record retry_env =
  re_media :: media_env
  re_unmarshal :: "string \<Rightarrow> gerror + PreparedMedia"
  re_decrypt :: "byte list \<Rightarrow> gerror + retry_result \<times> string"
  re_lock :: "gerror option"
  re_error_text :: "gerror \<Rightarrow> string"
  re_result_name :: "retry_result \<Rightarrow> string"
  re_not_on_phone :: gerror

definition getRealSender :: "jid_lib \<Rightarrow> client \<Rightarrow> MediaRetry \<Rightarrow> jid" where
  "getRealSender L c evt =
     (if mt_FromMe evt then to_non_ad L (cl_JID c)
      else if jid_is_empty L (mt_SenderID evt) \<and> (Server (mt_ChatID evt) = DefaultUserServer \<or> Server (mt_ChatID evt) = BotServer)
      then to_non_ad L (mt_ChatID evt) else mt_SenderID evt)"

definition retry_target :: "jid_lib \<Rightarrow> client \<Rightarrow> MediaRetry \<Rightarrow> string" where
  "retry_target L c evt = MakeMessageID L (mt_ChatID evt) (getRealSender L c evt) (mt_MessageID evt)"

definition newlines :: string where "newlines = [char_of (10::nat), char_of (10::nat)]"

definition makeErrorEdit :: "retry_env \<Rightarrow> PreparedMedia \<Rightarrow> gerror \<Rightarrow> MessageEventContent" where
  "makeErrorEdit T meta err =
     (let content = notice (''Failed to bridge media after re-requesting it from your phone: '' @ re_error_text T err);
          m = pm_Content meta
      in if ct_FormattedBody m \<noteq> [] then
           (let c = mv_ensure_html (re_media T) content in
            c\<lparr>ct_Body := ct_Body c @ newlines @ ct_Body m,
              ct_FormattedBody := ct_FormattedBody c @ ''<br><br>'' @ ct_FormattedBody m\<rparr>)
         else if ct_Body m \<noteq> ct_FileName m \<and> ct_FileName m \<noteq> []
         then content\<lparr>ct_Body := ct_Body content @ newlines @ ct_Body m\<rparr>
         else content)"

datatype retry_edit = DirectRetry | ErrorEdit MessageEventContent | RetriedPart ConvertedPart

text \<open>The keys with the new download path.\<close>

definition with_path :: "string \<Rightarrow> FailedMediaKeys \<Rightarrow> PreparedMedia \<Rightarrow> PreparedMedia" where
  "with_path path keys media = media\<lparr>pm_FailedKeys := Some (keys\<lparr>fk_DirectPath := path\<rparr>)\<rparr>"

definition phone_error :: "retry_env \<Rightarrow> retry_result \<Rightarrow> gerror" where
  "phone_error T res =
     (if res = RetryNotFound then re_not_on_phone T
      else Err (''phone sent error response: '' @ re_result_name T res))"

text \<open>\<open>DirectRetry\<close> hands the notification to the direct media code and ignores the event.\<close>

definition retry_ConvertEdit :: "retry_env \<Rightarrow> DBMessage list \<Rightarrow> retry_edit outcome" where
  "retry_ConvertEdit T existing =
     (case existing of
        [] \<Rightarrow> Panic
      | first # _ \<Rightarrow>
         (let meta = dbm_Metadata first in
          if md_DirectMediaMeta meta \<noteq> None then Ok DirectRetry
          else if md_Error meta \<noteq> MsgErrMediaNotFound
          then Fail (Wrap ''message doesn't have media error'' ErrIgnoringRemoteEvent)
          else (case md_FailedMediaMeta meta of
             None \<Rightarrow> Fail (Wrap ''message doesn't have media metadata'' ErrIgnoringRemoteEvent)
           | Some raw \<Rightarrow>
              (case re_unmarshal T raw of
                 Inl e \<Rightarrow> Fail (Wrap ''failed to unmarshal media metadata'' e)
               | Inr media \<Rightarrow>
                  (case pm_FailedKeys media of
                     None \<Rightarrow> Panic
                   | Some keys \<Rightarrow>
                      (case re_decrypt T (fk_Key keys) of
                         Inl e \<Rightarrow> Ok (ErrorEdit (makeErrorEdit T media e))
                       | Inr (res, path) \<Rightarrow>
                          if res \<noteq> RetrySuccess \<and> path = []
                          then Ok (ErrorEdit (makeErrorEdit T media (phone_error T res)))
                          else (case re_lock T of
                              Some e \<Rightarrow> Fail (Wrap ''failed to acquire media retry lock'' e)
                            | None \<Rightarrow> obind (MediaRetryToMatrix (re_media T) (with_path path keys media))
                                        (\<lambda>p. Ok (RetriedPart p)))))))))"


section \<open>Lemmas\<close>

lemma edit_of_Ok_iff:
  "edit_of E d cm m = Ok ep \<longleftrightarrow>
     (\<exists>part parts. cm_Parts cm = part # parts \<and>
        ep = (if d then (ee_to_edit_part E part m)\<lparr>ep_DontRenderEdited := True\<rparr> else ee_to_edit_part E part m))"
  by (auto simp: edit_of_def Let_def split: list.split)

lemma add_edit_sel [simp]:
  "md_Edits (dbm_Metadata (add_edit i m)) = md_Edits (dbm_Metadata m) @ [i]"
  "md_Error (dbm_Metadata (add_edit i m)) = md_Error (dbm_Metadata m)"
  "dbm_ID (add_edit i m) = dbm_ID m" "dbm_MXID (add_edit i m) = dbm_MXID m"
  by (simp_all add: add_edit_def)

lemma ConvertEdit_plain:
  "\<not> ev_upsert_sub e \<Longrightarrow> ConvertEdit E now pk mx cache (m # rest) e =
     (if mi_ID (ev_Info e) \<in> set (md_Edits (dbm_Metadata m)) then Fail (Wrap ''edit already handled'' ErrIgnoringRemoteEvent)
      else obind (edit_of E False
           (ee_to_matrix E (case ev_protocol e of None \<Rightarrow> None | Some p \<Rightarrow> pm_EditedMessage p) (ev_Raw e) (ev_Info e)
              (edit_target_id e) (isViewOnce e) (GetMediaEditCache now mx (GetTargetMessage E e) cache))
           (add_edit (mi_ID (ev_Info e)) m)) (\<lambda>ep. Ok (ep, e, add_edit (mi_ID (ev_Info e)) m)))"
  by (simp add: ConvertEdit_def Let_def)

lemma makeMediaFailure_expired:
  "expired_media err \<Longrightarrow>
   \<exists>info md. part_FailedMedia (makeMediaFailure V pm (Some k) err) = Some info \<and>
      pm_FailedKeys info = Some (k\<lparr>fk_DirectPath := []\<rparr>) \<and>
      part_DBMetadata (makeMediaFailure V pm (Some k) err) = Some md \<and> md_Error md = MsgErrMediaNotFound \<and>
      md_FailedMediaMeta md = mv_marshal_media V info \<and> md_DirectMediaMeta md = None"
  by (auto simp: makeMediaFailure_def Let_def empty_metadata_def)

lemma MediaRetryToMatrix_with_path [simp]: "MediaRetryToMatrix V (with_path path keys media) \<noteq> Panic"
  by (simp add: MediaRetryToMatrix_def with_path_def Let_def split: option.split prod.split)

section \<open>Properties\<close>

text \<open>C29: An edit is applied once. An edit event that is converted was not recorded with the message
  yet, is recorded at the end of its edits, which stay free of duplicates, and leaves the rest
  of the message alone; after that every edit event with the same identifier is refused as
  already handled, whatever it contains and whenever it comes.\<close>

theorem edit_applied_once:
  assumes "\<not> ev_upsert_sub e" and "ConvertEdit E now pk mx cache (m # rest) e = Ok (ep, e', m')"
  shows "mi_ID (ev_Info e) \<notin> set (md_Edits (dbm_Metadata m)) \<and> m' = add_edit (mi_ID (ev_Info e)) m \<and> e' = e \<and>
    (distinct (md_Edits (dbm_Metadata m)) \<longrightarrow> distinct (md_Edits (dbm_Metadata m'))) \<and>
    (\<forall>E' now' pk' mx' cache' rest' e2. \<not> ev_upsert_sub e2 \<and> mi_ID (ev_Info e2) = mi_ID (ev_Info e) \<longrightarrow>
       ConvertEdit (E' :: 'b event_env) now' pk' mx' cache' (m' # rest') e2 =
         Fail (Wrap ''edit already handled'' ErrIgnoringRemoteEvent))"
proof -
  have new: "mi_ID (ev_Info e) \<notin> set (md_Edits (dbm_Metadata m))"
    using assms by (auto simp: ConvertEdit_plain split: if_splits)
  with assms have m': "m' = add_edit (mi_ID (ev_Info e)) m" and "e' = e"
    by (auto simp: ConvertEdit_plain outcome_simps)
  with new show ?thesis by (simp add: ConvertEdit_plain)
qed

definition sample_event :: "string \<Rightarrow> wa_event" where
  "sample_event i = \<lparr>ev_Info = sample_info\<lparr>mi_ID := i\<rparr>, ev_Message = None, ev_Raw = None, ev_IsViewOnce = False,
     ev_IsViewOnceV2 = False, ev_IsViewOnceV2Extension = False, ev_parsedMessageType = ''edit'', ev_upsert_sub = False,
     ev_post = None\<rparr>"

definition sample_converted :: ConvertedMessage where
  "sample_converted = \<lparr>cm_Parts = [(plain_part EventMessage (notice ''hi''))\<lparr>part_DBMetadata := Some empty_metadata\<rparr>],
     cm_ReplyTo = None, cm_ThreadRoot = None, cm_Disappear = \<lparr>dis_Type = NoDisappear, dis_Timer = 0\<rparr>\<rparr>"

text \<open>The framework's edit part merges the metadata of the new part into the message.\<close>

definition merge_part :: "ConvertedPart \<Rightarrow> DBMessage \<Rightarrow> EditPart" where
  "merge_part part m =
     \<lparr>ep_Part = (case part_DBMetadata part of None \<Rightarrow> m
        | Some md \<Rightarrow> m\<lparr>dbm_Metadata := CopyFrom (dbm_Metadata m) md\<rparr>),
      ep_Type = part_Type part, ep_Content = part_Content part, ep_DontRenderEdited = False\<rparr>"

definition sample_event_env :: "unit event_env" where
  "sample_event_env = \<lparr>ee_L = sample_jid_lib, ee_client = sample_client, ee_is_incoming_broadcast = (\<lambda>_. False),
     ee_to_matrix = (\<lambda>_ _ _ _ _ _. sample_converted), ee_to_edit_part = merge_part,
     ee_group_info = (\<lambda>_. Inl (Err ''offline'')), ee_update_info = (\<lambda>_ p. p), ee_undecryptable = notice ''waiting''\<rparr>"

definition sample_message :: DBMessage where
  "sample_message = \<lparr>dbm_ID = ''m'', dbm_MXID = ''mx'', dbm_Metadata = empty_metadata\<rparr>"

theorem edit_applied_once_witness:
  "ConvertEdit sample_event_env 0 \<lparr>pk_ID = [], pk_Receiver = []\<rparr> [] [] [add_edit ''E1'' sample_message] (sample_event ''E1'') =
     Fail (Wrap ''edit already handled'' ErrIgnoringRemoteEvent)"
proof -
  have "ConvertEdit sample_event_env 0 \<lparr>pk_ID = [], pk_Receiver = []\<rparr> [] [] [sample_message] (sample_event ''E1'') =
     Ok (merge_part (hd (cm_Parts sample_converted)) (add_edit ''E1'' sample_message), sample_event ''E1'', add_edit ''E1'' sample_message)"
    by (simp add: ConvertEdit_plain sample_event_def sample_event_env_def sample_message_def empty_metadata_def
        sample_converted_def edit_of_def)
  note r = edit_applied_once[OF _ this, THEN conjunct2, THEN conjunct2, THEN conjunct2, THEN conjunct2, rule_format]
  show ?thesis by (rule r) (simp_all add: sample_event_def)
qed

text \<open>A message that could not be decrypted is resolved once. The notice is stored with the
  decryption error; when the message arrives decrypted, it becomes an edit of the notice that is
  not shown as edited, and if the framework merges the metadata of the part into the message,
  the error is the one of the conversion; so unless the conversion fails to decrypt again, the
  next copy of the message is ignored as a duplicate.\<close>

theorem undecryptable_resolved_once:
  assumes merge: "\<And>part m md. part_DBMetadata part = Some md \<Longrightarrow>
      ep_Part (ee_to_edit_part E part m) = m\<lparr>dbm_Metadata := CopyFrom (dbm_Metadata m) md\<rparr>"
    and stored: "part_DBMetadata (hd (cm_Parts (undecryptable_message E vo info portal))) = Some (dbm_Metadata m)"
    and converts: "cm_Parts (ee_to_matrix E (ev_Message e) (ev_Raw e) (ev_Info e) (edit_target_id e) (isViewOnce e) None) = part # parts"
      "part_DBMetadata part = Some md"
  shows "HandleExisting [m] e = Ok (e\<lparr>ev_upsert_sub := True\<rparr>, Some [m]) \<and>
    (\<exists>ep e'. ConvertEdit E now pk mx cache [m] (e\<lparr>ev_upsert_sub := True\<rparr>) = Ok (ep, e', m) \<and>
       ep_DontRenderEdited ep \<and> md_Error (dbm_Metadata (ep_Part ep)) = md_Error md \<and>
       md_BroadcastListJID (dbm_Metadata (ep_Part ep)) = coalesce (md_BroadcastListJID md) (md_BroadcastListJID (dbm_Metadata m)) \<and>
       (md_Error md \<noteq> MsgErrDecryptionFailed \<longrightarrow> HandleExisting [ep_Part ep] dup = Ok (dup, None)))"
proof -
  have "md_Error (the (part_DBMetadata (hd (cm_Parts (undecryptable_message E vo info portal))))) = MsgErrDecryptionFailed"
    by (simp add: undecryptable_message_def Let_def)
  with stored have "md_Error (dbm_Metadata m) = MsgErrDecryptionFailed" by simp
  then have h: "HandleExisting [m] e = Ok (e\<lparr>ev_upsert_sub := True\<rparr>, Some [m])"
    by (simp add: HandleExisting_def)
  let ?ep = "(ee_to_edit_part E part m)\<lparr>ep_DontRenderEdited := True\<rparr>"
  have same: "edit_target_id (e\<lparr>ev_upsert_sub := True\<rparr>) = edit_target_id e"
    "isViewOnce (e\<lparr>ev_upsert_sub := True\<rparr>) = isViewOnce e"
    by (simp_all add: edit_target_id_def ev_protocol_def isViewOnce_def)
  have "\<exists>e'. ConvertEdit E now pk mx cache [m] (e\<lparr>ev_upsert_sub := True\<rparr>) = Ok (?ep, e', m)"
    using converts(1) by (simp add: ConvertEdit_def Let_def same edit_of_def)
  moreover have "dbm_Metadata (ep_Part ?ep) = CopyFrom (dbm_Metadata m) md"
    using merge[OF converts(2), of m] by simp
  ultimately show ?thesis using h by (auto simp: CopyFrom_def HandleExisting_def)
qed

theorem undecryptable_resolved_once_witness:
  "\<exists>ep e'. ConvertEdit sample_event_env 0 \<lparr>pk_ID = [], pk_Receiver = []\<rparr> [] []
      [sample_message\<lparr>dbm_Metadata := empty_metadata\<lparr>md_SenderDeviceID := Device (mi_Sender sample_info), md_Error := MsgErrDecryptionFailed\<rparr>\<rparr>]
      ((sample_event ''E1'')\<lparr>ev_upsert_sub := True\<rparr>) = Ok (ep, e', sample_message\<lparr>dbm_Metadata := empty_metadata\<lparr>md_SenderDeviceID := Device (mi_Sender sample_info), md_Error := MsgErrDecryptionFailed\<rparr>\<rparr>)
     \<and> HandleExisting [ep_Part ep] (sample_event ''E1'') = Ok (sample_event ''E1'', None)"
proof -
  let ?m = "sample_message\<lparr>dbm_Metadata := empty_metadata\<lparr>md_SenderDeviceID := Device (mi_Sender sample_info), md_Error := MsgErrDecryptionFailed\<rparr>\<rparr>"
  let ?p = "\<lparr>pt_ID = [], pt_Receiver = [], pt_Disappear = \<lparr>dis_Type = NoDisappear, dis_Timer = 0\<rparr>,
     pt_Meta = \<lparr>pmd_DisappearingTimerSetAt = 0, pmd_TopicID = [], pmd_LastSync = 0, pmd_CommunityAnnouncementGroup = False,
       pmd_AddressingMode = AddressingModeNone, pmd_LIDMigrationAttempted = False\<rparr>\<rparr>"
  have "part_DBMetadata (hd (cm_Parts (undecryptable_message sample_event_env False sample_info ?p))) = Some (dbm_Metadata ?m)"
    by (simp add: undecryptable_message_def sample_event_env_def Let_def empty_metadata_def)
  moreover have "ep_Part (ee_to_edit_part sample_event_env part m) = m\<lparr>dbm_Metadata := CopyFrom (dbm_Metadata m) md\<rparr>"
    if "part_DBMetadata part = Some md" for part m md
    using that by (simp add: sample_event_env_def merge_part_def)
  moreover have "cm_Parts (ee_to_matrix sample_event_env (ev_Message (sample_event ''E1'')) (ev_Raw (sample_event ''E1''))
      (ev_Info (sample_event ''E1'')) (edit_target_id (sample_event ''E1'')) (isViewOnce (sample_event ''E1'')) None) =
      [hd (cm_Parts sample_converted)]"
    by (simp add: sample_event_env_def sample_converted_def)
  moreover have "part_DBMetadata (hd (cm_Parts sample_converted)) = Some empty_metadata"
    by (simp add: sample_converted_def)
  ultimately have "\<exists>ep e'. ConvertEdit sample_event_env 0 \<lparr>pk_ID = [], pk_Receiver = []\<rparr> [] [] [?m]
      ((sample_event ''E1'')\<lparr>ev_upsert_sub := True\<rparr>) = Ok (ep, e', ?m) \<and> ep_DontRenderEdited ep \<and>
      md_Error (dbm_Metadata (ep_Part ep)) = md_Error empty_metadata \<and>
      md_BroadcastListJID (dbm_Metadata (ep_Part ep)) = coalesce (md_BroadcastListJID empty_metadata) (md_BroadcastListJID (dbm_Metadata ?m)) \<and>
      (md_Error empty_metadata \<noteq> MsgErrDecryptionFailed \<longrightarrow> HandleExisting [ep_Part ep] (sample_event ''E1'') = Ok (sample_event ''E1'', None))"
    by (intro undecryptable_resolved_once[THEN conjunct2]) assumption+
  then show ?thesis by (fastforce simp: empty_metadata_def)
qed

text \<open>Media that had expired can be retried. A message whose conversion failed because its
  media was gone is stored with what is needed: if JSON gives back what was written, a retry
  notification that can be decrypted with the media's key and succeeds, or brings a new path
  nevertheless, downloads and converts the media with that path; one that fails, or cannot be
  decrypted, only explains why; and the handler does not crash.\<close>

theorem expired_media_retry:
  assumes "expired_media err"
    and "part_DBMetadata (makeMediaFailure (re_media T) pm (Some k) err) = Some (dbm_Metadata m)"
    and "mv_marshal_media (re_media T) (the (part_FailedMedia (makeMediaFailure (re_media T) pm (Some k) err))) = Some raw"
    and json: "re_unmarshal T raw = Inr (the (part_FailedMedia (makeMediaFailure (re_media T) pm (Some k) err)))"
  shows "retry_ConvertEdit T (m # rest) =
    (let media = the (part_FailedMedia (makeMediaFailure (re_media T) pm (Some k) err)) in
     case re_decrypt T (fk_Key k) of
       Inl e \<Rightarrow> Ok (ErrorEdit (makeErrorEdit T media e))
     | Inr (res, path) \<Rightarrow>
         if res \<noteq> RetrySuccess \<and> path = [] then Ok (ErrorEdit (makeErrorEdit T media (phone_error T res)))
         else (case re_lock T of Some e \<Rightarrow> Fail (Wrap ''failed to acquire media retry lock'' e)
           | None \<Rightarrow> obind (MediaRetryToMatrix (re_media T) (with_path path k media)) (\<lambda>p. Ok (RetriedPart p))))
   \<and> retry_ConvertEdit T (m # rest) \<noteq> Panic"
proof -
  obtain info md where i: "part_FailedMedia (makeMediaFailure (re_media T) pm (Some k) err) = Some info"
    "pm_FailedKeys info = Some (k\<lparr>fk_DirectPath := []\<rparr>)"
    "part_DBMetadata (makeMediaFailure (re_media T) pm (Some k) err) = Some md" "md_Error md = MsgErrMediaNotFound"
    "md_FailedMediaMeta md = mv_marshal_media (re_media T) info" "md_DirectMediaMeta md = None"
    using makeMediaFailure_expired[OF assms(1)] by blast
  have md: "dbm_Metadata m = md" using assms(2) i(3) by simp
  have w: "with_path path (k\<lparr>fk_DirectPath := []\<rparr>) info = with_path path k info" for path
    by (simp add: with_path_def)
  have eq: "retry_ConvertEdit T (m # rest) =
    (let media = the (part_FailedMedia (makeMediaFailure (re_media T) pm (Some k) err)) in
     case re_decrypt T (fk_Key k) of
       Inl e \<Rightarrow> Ok (ErrorEdit (makeErrorEdit T media e))
     | Inr (res, path) \<Rightarrow>
         if res \<noteq> RetrySuccess \<and> path = [] then Ok (ErrorEdit (makeErrorEdit T media (phone_error T res)))
         else (case re_lock T of Some e \<Rightarrow> Fail (Wrap ''failed to acquire media retry lock'' e)
           | None \<Rightarrow> obind (MediaRetryToMatrix (re_media T) (with_path path k media)) (\<lambda>p. Ok (RetriedPart p))))"
    using assms(3) json i md by (simp add: retry_ConvertEdit_def w split: sum.split option.split)
  moreover have "\<dots> \<noteq> Panic"
    by (auto simp: i(1) outcome_simps split: sum.splits option.splits)
  ultimately show ?thesis by simp
qed


definition sample_prepared :: PreparedMedia where
  "sample_prepared = \<lparr>pm_EvType = EventMessage, pm_Content = empty_content, pm_Gif = False, pm_FailedKeys = None,
     pm_MentionedJID = [], pm_TypeDescription = ''image'', pm_ContextInfo = None\<rparr>"

definition sample_keys :: FailedMediaKeys where
  "sample_keys = \<lparr>fk_Key = [1], fk_Length = 100, fk_Type = [], fk_SHA256 = [], fk_EncSHA256 = [], fk_DirectPath = ''/v'', fk_MimeType = ''image/webp''\<rparr>"

text \<open>JSON of a single value: it only has to give back what was written.\<close>

definition sample_retry :: "retry_env" where
  "sample_retry = \<lparr>re_media = sample_media_env,
     re_unmarshal = (\<lambda>_. Inr (the (part_FailedMedia (makeMediaFailure sample_media_env sample_prepared (Some sample_keys) (DownloadFailed FailedWith404))))),
     re_decrypt = (\<lambda>_. Inr (RetryNotFound, [])), re_lock = None, re_error_text = (\<lambda>_. ''gone''), re_result_name = (\<lambda>_. ''NOT_FOUND''),
     re_not_on_phone = Err ''not on phone''\<rparr>"

theorem expired_media_retry_witness:
  "retry_ConvertEdit sample_retry [sample_message\<lparr>dbm_Metadata := empty_metadata\<lparr>md_Error := MsgErrMediaNotFound, md_FailedMediaMeta := Some ''{}''\<rparr>\<rparr>] =
     Ok (ErrorEdit (makeErrorEdit sample_retry
       (the (part_FailedMedia (makeMediaFailure sample_media_env sample_prepared (Some sample_keys) (DownloadFailed FailedWith404))))
       (Err ''not on phone'')))"
proof -
  have s: "re_media sample_retry = sample_media_env" by (simp add: sample_retry_def)
  have "expired_media (DownloadFailed FailedWith404)" by (simp add: expired_media_def)
  note r = expired_media_retry[OF this, of sample_retry sample_prepared sample_keys
      "sample_message\<lparr>dbm_Metadata := empty_metadata\<lparr>md_Error := MsgErrMediaNotFound, md_FailedMediaMeta := Some ''{}''\<rparr>\<rparr>" "''{}''" "[]",
      THEN conjunct1]
  have "part_DBMetadata (makeMediaFailure sample_media_env sample_prepared (Some sample_keys) (DownloadFailed FailedWith404)) =
      Some (empty_metadata\<lparr>md_Error := MsgErrMediaNotFound, md_FailedMediaMeta := Some ''{}''\<rparr>)"
    by (simp add: makeMediaFailure_def expired_media_def sample_media_env_def)
  then show ?thesis
    by (subst r) (simp_all add: s, simp_all add: sample_retry_def phone_error_def sample_media_env_def)
qed

end
