(* ===== verification/DirectMedia.thy ===== *)
theory DirectMedia
  imports Avatars Events
begin

text \<open>
  Direct media, \<open>pkg/connector/directmedia.go\<close>: answering a download of a media identifier, and
  the protocol that re-requests expired media from the phone and waits for its answer. The
  state of the protocol is the map \<open>directMediaRetries\<close>; sent requests are kept in the order
  they are sent. JSON, decryption, downloads and the framework's lookups are arguments.
\<close>

section \<open>The retry states\<close>

record retry_state =
  dr_resultURL :: string
  dr_wait :: bool
  dr_requested :: bool
  dr_resultType :: retry_result

definition new_retry :: retry_state where
  "new_retry = \<lparr>dr_resultURL = [], dr_wait = False, dr_requested = False, dr_resultType = RetryOther 0\<rparr>"

record direct_state =
  ds_retries :: "string \<Rightarrow> retry_state option"
  ds_sent :: "string list"

definition getDirectMediaRetryState :: "string \<Rightarrow> bool \<Rightarrow> direct_state \<Rightarrow> retry_state option \<times> direct_state" where
  "getDirectMediaRetryState msgID create s =
     (case ds_retries s msgID of
        Some st \<Rightarrow> (Some st, s)
      | None \<Rightarrow> if create then (Some new_retry, s\<lparr>ds_retries := (ds_retries s)(msgID \<mapsto> new_retry)\<rparr>) else (None, s))"

definition put_retry :: "string \<Rightarrow> retry_state \<Rightarrow> direct_state \<Rightarrow> direct_state" where
  "put_retry msgID st s = s\<lparr>ds_retries := (ds_retries s)(msgID \<mapsto> st)\<rparr>"

definition requestDirectMedia :: "request_env \<Rightarrow> string \<Rightarrow> byte list \<Rightarrow> direct_state \<Rightarrow> gerror option \<times> direct_state" where
  "requestDirectMedia R msgID key s =
     (case getDirectMediaRetryState msgID True s of
        (None, s1) \<Rightarrow> (None, s1)
      | (Some st, s1) \<Rightarrow>
          if dr_requested st then (None, s1)
          else (case sendMediaRequestDirect R msgID key of
                  Some e \<Rightarrow> (Some (Wrap ''failed to send media retry request'' e), s1)
                | None \<Rightarrow> (None, put_retry msgID (st\<lparr>dr_requested := True\<rparr>) (s1\<lparr>ds_sent := ds_sent s1 @ [msgID]\<rparr>))))"

section \<open>Answers of the phone\<close>

text \<open>An answer names its message; \<open>an_decrypt\<close> decrypts it with the media key. The JSON codec of
  the keys is \<open>jc_unmarshal\<close> and \<open>jc_marshal\<close>.\<close>

record key_codec =
  jc_unmarshal :: "string \<Rightarrow> gerror + FailedMediaKeys"
  jc_marshal :: "FailedMediaKeys \<Rightarrow> gerror + string"

record retry_answer =
  an_message :: DBMessage
  an_decrypt :: "byte list \<Rightarrow> gerror + retry_result \<times> string"

text \<open>What an answer does to the message: its result and its new path, if it brings one.\<close>

definition read_answer :: "key_codec \<Rightarrow> retry_answer \<Rightarrow> (retry_result \<times> (string \<times> FailedMediaKeys) option) option" where
  "read_answer J a =
     (case md_DirectMediaMeta (dbm_Metadata (an_message a)) of
        None \<Rightarrow> None
      | Some raw \<Rightarrow>
         (case jc_unmarshal J raw of
            Inl _ \<Rightarrow> None
          | Inr keys \<Rightarrow>
             (case an_decrypt a (fk_Key keys) of
                Inl _ \<Rightarrow> None
              | Inr (res, path) \<Rightarrow>
                  if res \<noteq> RetrySuccess \<and> path = [] then Some (res, None)
                  else Some (res, Some (path, keys\<lparr>fk_DirectPath := path\<rparr>)))))"

text \<open>The message as it is stored afterwards. An error of the codec leaves it.\<close>

definition answered_message :: "key_codec \<Rightarrow> retry_answer \<Rightarrow> DBMessage" where
  "answered_message J a =
     (case read_answer J a of
        Some (_, Some (_, keys)) \<Rightarrow>
          (case jc_marshal J keys of
             Inl _ \<Rightarrow> an_message a
           | Inr raw \<Rightarrow> (an_message a)\<lparr>dbm_Metadata := (dbm_Metadata (an_message a))\<lparr>md_DirectMediaMeta := Some raw\<rparr>\<rparr>)
      | _ \<Rightarrow> an_message a)"

definition answered_state :: "(retry_result \<times> (string \<times> FailedMediaKeys) option) option \<Rightarrow> retry_state \<Rightarrow> retry_state" where
  "answered_state r st =
     (case r of
        None \<Rightarrow> st\<lparr>dr_wait := True\<rparr>
      | Some (res, None) \<Rightarrow> st\<lparr>dr_wait := True, dr_resultType := res\<rparr>
      | Some (res, Some (path, _)) \<Rightarrow> st\<lparr>dr_wait := True, dr_resultType := res, dr_resultURL := path\<rparr>)"

definition receiveDirectMediaRetry :: "key_codec \<Rightarrow> retry_answer \<Rightarrow> direct_state \<Rightarrow> DBMessage \<times> direct_state" where
  "receiveDirectMediaRetry J a s =
     (answered_message J a,
      (case fst (getDirectMediaRetryState (dbm_ID (an_message a)) False s) of
         None \<Rightarrow> s
       | Some st \<Rightarrow> put_retry (dbm_ID (an_message a)) (answered_state (read_answer J a) st) s))"

section \<open>Waiting\<close>

datatype wait_end = Answered | WaitTimeout | WaitCancelled gerror

definition not_found :: "string \<Rightarrow> gerror" where
  "not_found txt = Wrap txt (Err ''mautrix.MNotFound'')"

text \<open>The answers that arrive during the wait, and how it ends.\<close>

definition receive_all :: "key_codec \<Rightarrow> retry_answer list \<Rightarrow> direct_state \<Rightarrow> direct_state" where
  "receive_all J answers s = fold (\<lambda>a s. snd (receiveDirectMediaRetry J a s)) answers s"

definition wait_possible_direct :: "string \<Rightarrow> wait_end \<Rightarrow> direct_state \<Rightarrow> bool" where
  "wait_possible_direct msgID w s \<longleftrightarrow>
     (\<exists>st. ds_retries s msgID = Some st \<and> (if w = Answered then dr_wait st else \<not> dr_wait st))"

definition requestAndWaitDirectMedia ::
  "request_env \<Rightarrow> key_codec \<Rightarrow> string \<Rightarrow> FailedMediaKeys \<Rightarrow> retry_answer list \<Rightarrow> wait_end \<Rightarrow> direct_state \<Rightarrow>
   (gerror + FailedMediaKeys) \<times> direct_state" where
  "requestAndWaitDirectMedia R J msgID keys answers w s =
     (case requestDirectMedia R msgID (fk_Key keys) s of
        (Some e, s1) \<Rightarrow> (Inl e, s1)
      | (None, s1) \<Rightarrow>
         (let s2 = receive_all J answers s1;
              st = (case ds_retries s2 msgID of None \<Rightarrow> new_retry | Some st \<Rightarrow> st)
          in (case w of
                Answered \<Rightarrow>
                  if dr_resultURL st \<noteq> [] then Inr (keys\<lparr>fk_DirectPath := dr_resultURL st\<rparr>)
                  else if dr_resultType st = RetryNotFound then Inl (not_found ''Media not found on phone'')
                  else Inl (not_found ''Phone returned error response'')
              | WaitTimeout \<Rightarrow> Inl (not_found ''Phone did not respond in time'')
              | WaitCancelled e \<Rightarrow> Inl e, s2)))"

section \<open>Downloading\<close>

datatype direct_error = DownloadErr dl_error | ErrNoURLPresent

datatype file_response = FileMeta string | FileFailed gerror | ReloadNeeded

definition needs_reload :: "direct_error \<Rightarrow> bool" where
  "needs_reload e \<longleftrightarrow> e \<in> {DownloadErr FailedWith403, DownloadErr FailedWith404, DownloadErr FailedWith410, ErrNoURLPresent}"

text \<open>\<open>dl\<close> is \<open>DownloadToFile\<close>, \<open>dl_text\<close> the error it stands for and \<open>sticker\<close> unpacking an animated
  sticker in the file.\<close>

record download_env =
  de_R :: request_env
  de_J :: key_codec
  de_dl :: "FailedMediaKeys \<Rightarrow> direct_error option"
  de_error :: "direct_error \<Rightarrow> gerror"
  de_sticker :: "gerror option"
  de_auto_request :: bool

definition finish_download :: "download_env \<Rightarrow> FailedMediaKeys \<Rightarrow> direct_error option \<Rightarrow> file_response" where
  "finish_download D keys err =
     (let ok = (if fk_MimeType keys = ''application/was''
                then (case de_sticker D of Some e \<Rightarrow> FileFailed e | None \<Rightarrow> FileMeta ''video/lottie+json'')
                else FileMeta (fk_MimeType keys))
      in case err of
           None \<Rightarrow> ok
         | Some (DownloadErr e) \<Rightarrow> if tolerated e then ok else FileFailed (de_error D (DownloadErr e))
         | Some e \<Rightarrow> FileFailed (de_error D e))"

definition download_file ::
  "download_env \<Rightarrow> string option \<Rightarrow> string \<Rightarrow> FailedMediaKeys \<Rightarrow> retry_answer list \<Rightarrow> wait_end \<Rightarrow> direct_state \<Rightarrow>
   file_response \<times> direct_state" where
  "download_file D reload msgID keys answers w s =
     (case de_dl D keys of
        Some e \<Rightarrow>
          if needs_reload e then
            (if reload = Some ''false'' \<or> (\<not> de_auto_request D \<and> reload \<noteq> Some ''true'') then (ReloadNeeded, s)
             else (case requestAndWaitDirectMedia (de_R D) (de_J D) msgID keys answers w s of
                     (Inl e', s') \<Rightarrow> (FileFailed e', s')
                   | (Inr keys', s') \<Rightarrow> (finish_download D keys' (de_dl D keys'), s')))
          else (finish_download D keys (Some e), s)
      | None \<Rightarrow> (finish_download D keys None, s))"

text \<open>The logins of a portal, with whether they are logged in and have a client.\<close>

record portal_login =
  pl_ID :: string
  pl_LoggedIn :: bool
  pl_HasClient :: bool

definition pick_login :: "(string \<Rightarrow> portal_login option) \<Rightarrow> (gerror + portal_login list) \<Rightarrow> string \<Rightarrow> gerror + portal_login" where
  "pick_login by_id in_portal login =
     (case (if login \<noteq> [] then Inr (by_id login) else map_sum (Wrap ''failed to get user logins in portal'') (find pl_LoggedIn) in_portal) of
        Inl e \<Rightarrow> Inl e
      | Inr None \<Rightarrow> Inl (Err ''no logged in user found'')
      | Inr (Some ul) \<Rightarrow>
          if \<not> pl_LoggedIn ul then Inl (Err ''no logged in user found'')
          else if \<not> pl_HasClient ul then Inl (Err ''no WhatsApp client found on login'')
          else Inr ul)"

text \<open>The message, its keys and the login that downloads it.\<close>

definition downloadMessageDirectMedia ::
  "key_codec \<Rightarrow> (string \<Rightarrow> string \<Rightarrow> gerror + DBMessage option) \<Rightarrow> (string \<Rightarrow> portal_login option) \<Rightarrow> (gerror + portal_login list) \<Rightarrow>
   string \<Rightarrow> string \<Rightarrow> gerror + DBMessage \<times> FailedMediaKeys \<times> portal_login" where
  "downloadMessageDirectMedia J get_part by_id in_portal login msgID =
     (case get_part login msgID of
        Inl e \<Rightarrow> Inl (Wrap ''failed to get message'' e)
      | Inr None \<Rightarrow> Inl (Err ''message not found'')
      | Inr (Some msg) \<Rightarrow>
         (case md_DirectMediaMeta (dbm_Metadata msg) of
            None \<Rightarrow> Inl (Err ''message does not have direct media metadata'')
          | Some dmm \<Rightarrow>
             (case jc_unmarshal J dmm of
                Inl e \<Rightarrow> Inl (Wrap ''failed to unmarshal media keys'' e)
              | Inr keys \<Rightarrow>
                 (case pick_login by_id in_portal login of Inl e \<Rightarrow> Inl e | Inr ul \<Rightarrow> Inr (msg, keys, ul)))))"

datatype media_dispatch = ServeMessage string string | ServeAvatar string AvatarMediaInfo

definition Download :: "jid_lib \<Rightarrow> byte list \<Rightarrow> media_dispatch outcome" where
  "Download L mediaID =
     obind (ParseMediaID L mediaID) (\<lambda>p.
       case Message p of
         Some m \<Rightarrow> Ok (ServeMessage (UserLogin p) (ParsedMessageID_String L m))
       | None \<Rightarrow> (case Avatar p of
             Some a \<Rightarrow> Ok (ServeAvatar (UserLogin p) a)
           | None \<Rightarrow> Fail (Err ''unexpected media ID parsing result'')))"

section \<open>Lemmas\<close>

text \<open>Requests are sent once per message, and exactly those sent are marked.\<close>

definition direct_inv :: "direct_state \<Rightarrow> bool" where
  "direct_inv s \<longleftrightarrow> distinct (ds_sent s) \<and>
     (\<forall>m. m \<in> set (ds_sent s) \<longleftrightarrow> (\<exists>st. ds_retries s m = Some st \<and> dr_requested st))"

lemma answered_state_sel [simp]:
  "dr_requested (answered_state r st) = dr_requested st" "dr_wait (answered_state r st)"
  by (auto simp: answered_state_def split: option.split prod.split)

lemma answered_state_url:
  "dr_resultURL (answered_state r st) =
     (case r of Some (res, Some (path, keys)) \<Rightarrow> path | _ \<Rightarrow> dr_resultURL st)"
  by (auto simp: answered_state_def split: option.split prod.split)

lemma receive_sel:
  "ds_sent (snd (receiveDirectMediaRetry J a s)) = ds_sent s"
  "ds_retries (snd (receiveDirectMediaRetry J a s)) m =
     (if m = dbm_ID (an_message a) then map_option (answered_state (read_answer J a)) (ds_retries s m) else ds_retries s m)"
  by (auto simp: receiveDirectMediaRetry_def getDirectMediaRetryState_def put_retry_def split: option.split)

lemma receive_inv: "direct_inv s \<Longrightarrow> direct_inv (snd (receiveDirectMediaRetry J a s))"
  by (auto simp: direct_inv_def receive_sel)

lemma receive_all_simps [simp]:
  "receive_all J [] s = s"
  "receive_all J (a # as) s = receive_all J as (snd (receiveDirectMediaRetry J a s))"
  by (simp_all add: receive_all_def)

lemma receive_all_inv: "direct_inv s \<Longrightarrow> direct_inv (receive_all J as s)"
  by (induction as arbitrary: s) (simp_all add: receive_inv)

lemma receive_all_sent [simp]: "ds_sent (receive_all J as s) = ds_sent s"
  by (induction as arbitrary: s) (simp_all add: receive_sel)

lemma request_inv: "direct_inv s \<Longrightarrow> direct_inv (snd (requestDirectMedia R m key s))"
  by (auto simp: direct_inv_def requestDirectMedia_def getDirectMediaRetryState_def put_retry_def new_retry_def
      split: option.splits)

lemma request_cases:
  "requestDirectMedia R m key s = (None, s') \<Longrightarrow> \<exists>st. ds_retries s' m = Some st \<and> dr_requested st"
  by (auto simp: requestDirectMedia_def getDirectMediaRetryState_def put_retry_def split: option.splits if_splits)

lemma request_again:
  "ds_retries s m = Some st \<Longrightarrow> dr_requested st \<Longrightarrow> requestDirectMedia R m key s = (None, s)"
  by (simp add: requestDirectMedia_def getDirectMediaRetryState_def)

lemma request_first:
  "ds_retries s m = None \<Longrightarrow> sendMediaRequestDirect R m key = None \<Longrightarrow>
   requestDirectMedia R m key s = (None, \<lparr>ds_retries = (ds_retries s)(m \<mapsto> new_retry\<lparr>dr_requested := True\<rparr>), ds_sent = ds_sent s @ [m]\<rparr>)"
  by (simp add: requestDirectMedia_def getDirectMediaRetryState_def put_retry_def new_retry_def)

lemma wait_state:
  "snd (requestAndWaitDirectMedia R J m keys as w s) =
     (case requestDirectMedia R m (fk_Key keys) s of (Some e, s1) \<Rightarrow> s1 | (None, s1) \<Rightarrow> receive_all J as s1)"
  by (simp add: requestAndWaitDirectMedia_def Let_def split: prod.split option.split)

lemma wait_inv:
  assumes "direct_inv s"
  shows "direct_inv (snd (requestAndWaitDirectMedia R J m keys as w s))"
proof -
  obtain e s1 where r: "requestDirectMedia R m (fk_Key keys) s = (e, s1)" by fastforce
  with request_inv[OF assms, of R m "fk_Key keys"] have "direct_inv s1" by simp
  then show ?thesis unfolding wait_state r by (cases e) (simp_all add: receive_all_inv)
qed

text \<open>A download either leaves the state or is that of one wait.\<close>

lemma download_file_state:
  "snd (download_file D reload m keys as w s) =
     (if fst (download_file D reload m keys as w s) \<noteq> ReloadNeeded \<and> (\<exists>e. de_dl D keys = Some e \<and> needs_reload e)
      then snd (requestAndWaitDirectMedia (de_R D) (de_J D) m keys as w s) else s)"
proof -
  have f: "finish_download D k e \<noteq> ReloadNeeded" for k e
    by (auto simp: finish_download_def Let_def split: option.split direct_error.split)
  obtain q s1 where w: "requestAndWaitDirectMedia (de_R D) (de_J D) m keys as w s = (q, s1)" by fastforce
  show ?thesis
    by (cases "de_dl D keys"; cases q) (simp_all add: download_file_def w f)
qed

lemma download_file_reload:
  "fst (download_file D reload m keys as w s) = ReloadNeeded \<longleftrightarrow>
       (\<exists>e. de_dl D keys = Some e \<and> needs_reload e) \<and> (reload = Some ''false'' \<or> \<not> de_auto_request D \<and> reload \<noteq> Some ''true'')"
proof -
  have f: "finish_download D k e \<noteq> ReloadNeeded" for k e
    by (auto simp: finish_download_def Let_def split: option.split direct_error.split)
  obtain q s1 where w: "requestAndWaitDirectMedia (de_R D) (de_J D) m keys as w s = (q, s1)" by fastforce
  show ?thesis
    by (cases "de_dl D keys"; cases q) (simp_all add: download_file_def w f)
qed

section \<open>Properties\<close>

text \<open>C32: However downloads and answers of the phone are interleaved, a request for a message is sent
  at most once, and exactly the messages marked as requested were. A download asks for a
  reload, without any effect, exactly if the media had expired and neither the configuration
  nor the caller allows to request it.\<close>

theorem direct_requests_once:
  assumes "direct_inv s"
  shows "direct_inv (snd (receiveDirectMediaRetry J a s)) \<and>
    direct_inv (snd (download_file D reload m keys as w s)) \<and> distinct (ds_sent (snd (download_file D reload m keys as w s))) \<and>
    (fst (download_file D reload m keys as w s) = ReloadNeeded \<longleftrightarrow>
       (\<exists>e. de_dl D keys = Some e \<and> needs_reload e) \<and> (reload = Some ''false'' \<or> \<not> de_auto_request D \<and> reload \<noteq> Some ''true'')) \<and>
    (fst (download_file D reload m keys as w s) = ReloadNeeded \<longrightarrow> snd (download_file D reload m keys as w s) = s)"
proof -
  have i: "direct_inv (snd (download_file D reload m keys as w s))"
    unfolding download_file_state using assms wait_inv[OF assms] by simp
  then show ?thesis
    using receive_inv[OF assms] unfolding download_file_reload by (simp add: direct_inv_def download_file_state download_file_reload)
qed

definition no_retries :: direct_state where
  "no_retries = \<lparr>ds_retries = Map.empty, ds_sent = []\<rparr>"

lemma no_retries_inv: "direct_inv no_retries"
  by (simp add: direct_inv_def no_retries_def)

definition sample_request_env :: request_env where
  "sample_request_env = \<lparr>rq_L = sample_jid_lib, rq_bridge = [], rq_login = ''358'', rq_JID = sample_user, rq_AutoRequestMedia = True,
     rq_RequestMethod = MediaRequestMethodImmediate, rq_get_part = (\<lambda>_. Inr None), rq_send_receipt = (\<lambda>_ _. None), rq_error_text = (\<lambda>_. [])\<rparr>"

definition sample_codec :: key_codec where
  "sample_codec = \<lparr>jc_unmarshal = (\<lambda>_. Inr sample_keys), jc_marshal = (\<lambda>_. Inr ''{}'')\<rparr>"

definition sample_download :: download_env where
  "sample_download = \<lparr>de_R = sample_request_env, de_J = sample_codec,
     de_dl = (\<lambda>k. if fk_DirectPath k = ''/v'' then Some (DownloadErr FailedWith404) else None),
     de_error = (\<lambda>_. Err ''gone''), de_sticker = None, de_auto_request = False\<rparr>"

theorem direct_requests_once_witness:
  "fst (download_file sample_download None ''m'' sample_keys [] WaitTimeout no_retries) = ReloadNeeded"
  using direct_requests_once[OF no_retries_inv, of sample_codec _ sample_download None "''m''" sample_keys "[]" WaitTimeout]
  by (simp add: sample_download_def sample_keys_def needs_reload_def)

text \<open>What a successful answer is worth. The first download that finds the media expired sends one
  request, and when the phone answers with a new path, the file is downloaded with it and the
  stored keys have it too. But the answer is kept for good: as long as no other answer
  arrives, every later download that finds its media expired sends no request, and is sent
  to the same path, also when that path has expired as well.\<close>

theorem direct_answer_is_final:
  assumes "ds_retries s m = None" and "sendMediaRequestDirect R m (fk_Key keys) = None"
    and "dbm_ID (an_message a) = m" and "read_answer J a = Some (res, Some (path, keys'))" and "path \<noteq> []"
    and "requestAndWaitDirectMedia R J m keys [a] Answered s = (r, s1)"
  shows "r = Inr (keys\<lparr>fk_DirectPath := path\<rparr>) \<and> ds_sent s1 = ds_sent s @ [m] \<and>
    (\<forall>raw. jc_marshal J keys' = Inr raw \<longrightarrow> md_DirectMediaMeta (dbm_Metadata (answered_message J a)) = Some raw) \<and>
    (\<forall>k. requestAndWaitDirectMedia R J m k [] Answered s1 = (Inr (k\<lparr>fk_DirectPath := path\<rparr>), s1)) \<and>
    wait_possible_direct m Answered s1 \<and>
    (\<forall>D k e e2. de_R D = R \<and> de_J D = J \<and> de_dl D k = Some e \<and> needs_reload e \<and> de_auto_request D \<and>
        de_dl D (k\<lparr>fk_DirectPath := path\<rparr>) = Some e2 \<and> needs_reload e2 \<longrightarrow>
        download_file D None m k [] Answered s1 = (FileFailed (de_error D e2), s1))"
proof -
  let ?s1 = "snd (receiveDirectMediaRetry J a \<lparr>ds_retries = (ds_retries s)(m \<mapsto> new_retry\<lparr>dr_requested := True\<rparr>), ds_sent = ds_sent s @ [m]\<rparr>)"
  have st: "ds_retries ?s1 m = Some (answered_state (read_answer J a) (new_retry\<lparr>dr_requested := True\<rparr>))"
    using assms(3) by (simp add: receive_sel)
  have url: "dr_resultURL (answered_state (read_answer J a) (new_retry\<lparr>dr_requested := True\<rparr>)) = path"
    using assms(4) by (simp add: answered_state_url)
  have s1: "r = Inr (keys\<lparr>fk_DirectPath := path\<rparr>)" "s1 = ?s1"
    using assms(5,6) st url by (simp_all add: requestAndWaitDirectMedia_def request_first[OF assms(1,2)] Let_def)
  have again: "requestAndWaitDirectMedia R J m k [] Answered s1 = (Inr (k\<lparr>fk_DirectPath := path\<rparr>), s1)" for k
    using assms(5) st url by (simp add: requestAndWaitDirectMedia_def request_again s1(2) Let_def)
  have "finish_download D k (Some e) = FileFailed (de_error D e)" if "needs_reload e" for D k e
    using that by (auto simp: finish_download_def needs_reload_def tolerated_def Let_def)
  then have "download_file D None m k [] Answered s1 = (FileFailed (de_error D e2), s1)"
    if "de_R D = R" "de_J D = J" "de_dl D k = Some e" "needs_reload e" "de_auto_request D"
      "de_dl D (k\<lparr>fk_DirectPath := path\<rparr>) = Some e2" "needs_reload e2" for D k e e2
    using that by (simp add: download_file_def again)
  moreover have "ds_sent s1 = ds_sent s @ [m]" by (simp add: s1(2) receive_sel)
  moreover have "wait_possible_direct m Answered s1"
    using st by (simp add: wait_possible_direct_def s1(2))
  ultimately show ?thesis
    using again s1(1) assms(4) by (simp add: answered_message_def)
qed

definition sample_answer :: retry_answer where
  "sample_answer = \<lparr>an_message = sample_message\<lparr>dbm_ID := ''1@s.whatsapp.net:2@s.whatsapp.net:AB'', dbm_Metadata := empty_metadata\<lparr>md_DirectMediaMeta := Some ''{}''\<rparr>\<rparr>,
     an_decrypt = (\<lambda>_. Inr (RetrySuccess, ''/new''))\<rparr>"

theorem direct_answer_is_final_witness:
  "fst (requestAndWaitDirectMedia sample_request_env sample_codec (dbm_ID (an_message sample_answer)) sample_keys [sample_answer] Answered no_retries)
     = Inr (sample_keys\<lparr>fk_DirectPath := ''/new''\<rparr>)"
proof -
  let ?m = "dbm_ID (an_message sample_answer)"
  have parts: "split_n CHR '':'' 3 ''1@s.whatsapp.net:2@s.whatsapp.net:AB'' = [''1@s.whatsapp.net'', ''2@s.whatsapp.net'', ''AB'']"
    by code_simp
  have "\<exists>p. ParseMessageID sample_jid_lib ''1@s.whatsapp.net:2@s.whatsapp.net:AB'' = Ok p"
    by (simp add: ParseMessageID_def parts has_prefix_def sample_jid_lib_def)
  then obtain p where "ParseMessageID sample_jid_lib ''1@s.whatsapp.net:2@s.whatsapp.net:AB'' = Ok p" ..
  then have send: "sendMediaRequestDirect sample_request_env ?m (fk_Key sample_keys) = None"
    by (simp add: sendMediaRequestDirect_def sample_request_env_def sample_answer_def)
  have read: "read_answer sample_codec sample_answer = Some (RetrySuccess, Some (''/new'', sample_keys\<lparr>fk_DirectPath := ''/new''\<rparr>))"
    by (simp add: read_answer_def sample_answer_def sample_codec_def)
  obtain r s1 where w: "requestAndWaitDirectMedia sample_request_env sample_codec ?m sample_keys [sample_answer] Answered no_retries = (r, s1)"
    by (cases "requestAndWaitDirectMedia sample_request_env sample_codec ?m sample_keys [sample_answer] Answered no_retries") simp
  from direct_answer_is_final[OF _ send refl read _ w] show ?thesis
    using w by (simp add: no_retries_def)
qed

end
