(* ===== verification/Login.thy ===== *)
theory Login
  imports Waid
begin

text \<open>
  The login process of \<open>pkg/connector/login.go\<close>: starting a pairing with QR codes or a phone
  number, the handler of the events that whatsmeow emits meanwhile, and \<open>Wait\<close>, which shows
  the codes one after the other until the pairing ends.
\<close>

section \<open>Steps, errors and the state of a login\<close>

record RespError =
  ErrCode :: string
  ErrText :: string
  StatusCode :: nat

definition ErrLoginClientOutdated :: RespError where
  "ErrLoginClientOutdated = \<lparr>ErrCode = ''FI.MAU.WHATSAPP.CLIENT_OUTDATED'',
     ErrText = ''Got client outdated error while waiting for QRs. The bridge must be updated to continue.'',
     StatusCode = 500\<rparr>"

definition ErrLoginMultideviceNotEnabled :: RespError where
  "ErrLoginMultideviceNotEnabled = \<lparr>ErrCode = ''FI.MAU.WHATSAPP.MULTIDEVICE_NOT_ENABLED'',
     ErrText = ''Please enable WhatsApp web multidevice and scan the QR code again.'', StatusCode = 400\<rparr>"

definition ErrLoginTimeout :: RespError where
  "ErrLoginTimeout = \<lparr>ErrCode = ''FI.MAU.WHATSAPP.LOGIN_TIMEOUT'',
     ErrText = ''Entering code or scanning QR timed out. Please try again.'', StatusCode = 400\<rparr>"

definition ErrUnexpectedDisconnect :: RespError where
  "ErrUnexpectedDisconnect = \<lparr>ErrCode = ''FI.MAU.WHATSAPP.LOGIN_UNEXPECTED_EVENT'',
     ErrText = ''Unexpected event while waiting for login'', StatusCode = 500\<rparr>"

definition ErrPhoneNumberTooShort :: RespError where
  "ErrPhoneNumberTooShort = \<lparr>ErrCode = ''FI.MAU.WHATSAPP.PHONE_NUMBER_TOO_SHORT'',
     ErrText = ''Phone number too short'', StatusCode = 400\<rparr>"

definition ErrPhoneNumberIsNotInternational :: RespError where
  "ErrPhoneNumberIsNotInternational = \<lparr>ErrCode = ''FI.MAU.WHATSAPP.PHONE_NUMBER_NOT_INTERNATIONAL'',
     ErrText = ''Phone number must be in international format'', StatusCode = 400\<rparr>"

definition ErrRateLimitedByWhatsApp :: RespError where
  "ErrRateLimitedByWhatsApp = \<lparr>ErrCode = ''FI.MAU.WHATSAPP.RATE_LIMITED'',
     ErrText = ''Rate limited by WhatsApp'', StatusCode = 429\<rparr>"

datatype login_error = RespErr RespError | GoErr gerror

text \<open>
  The four steps by their step identifiers: the phone number form, a QR code, a pairing code,
  and the end with the name and the identifier of the new login.
\<close>

datatype LoginStep =
    StepPhoneNumber
  | StepQR string
  | StepCode string
  | StepComplete string string

datatype LoginResult = Step LoginStep | LoginFails login_error | LoginPanics

record PairSuccess =
  ps_ID :: jid
  ps_BusinessName :: string

text \<open>Events are booleans: whether they are set. The client is what the login does to it.\<close>

record WALogin =
  wl_PhoneCode :: bool
  wl_Timezone :: string
  wl_QRs :: "string list"
  wl_StartTime :: gotime
  wl_LoginError :: "RespError option"
  wl_LoginSuccess :: "PairSuccess option"
  wl_WaitForQRs :: bool
  wl_LoginComplete :: bool
  wl_Received515 :: bool
  wl_PrevQRIndex :: int
  wl_Closed :: bool
  wl_handler :: bool
  wl_connected :: bool

definition LoginFlowIDPhone :: string where "LoginFlowIDPhone = ''phone''"

definition CreateLogin :: "string \<Rightarrow> WALogin" where
  "CreateLogin flowID =
     \<lparr>wl_PhoneCode = (flowID = LoginFlowIDPhone), wl_Timezone = [], wl_QRs = [], wl_StartTime = 0,
      wl_LoginError = None, wl_LoginSuccess = None, wl_WaitForQRs = False, wl_LoginComplete = False,
      wl_Received515 = False, wl_PrevQRIndex = 0, wl_Closed = False, wl_handler = False, wl_connected = False\<rparr>"

definition Cancel :: "WALogin \<Rightarrow> WALogin" where
  "Cancel s = s\<lparr>wl_Closed := True, wl_handler := False, wl_connected := False\<rparr>"

section \<open>Events\<close>

datatype login_event =
    EvQR "string list"
  | EvQRScannedWithoutMultidevice
  | EvClientOutdated
  | EvPairSuccess PairSuccess
  | EvPairError string
  | EvDisconnected
  | EvConnected
  | EvConnectFailure
  | EvLoggedOut
  | EvTemporaryBan
  | EvManualLoginReconnect
  | EvOther

definition pair_error :: "string \<Rightarrow> RespError" where
  "pair_error e = \<lparr>ErrCode = ''FI.MAU.WHATSAPP.PAIR_ERROR'', ErrText = e, StatusCode = 500\<rparr>"

definition handleEvent :: "gotime \<Rightarrow> login_event \<Rightarrow> WALogin \<Rightarrow> WALogin" where
  "handleEvent now evt s =
     (if wl_Closed s then s
      else let complete = (\<lambda>s. s\<lparr>wl_LoginComplete := True\<rparr>) in
        (case evt of
           EvQR codes \<Rightarrow> s\<lparr>wl_QRs := codes, wl_StartTime := now, wl_WaitForQRs := True\<rparr>
         | EvQRScannedWithoutMultidevice \<Rightarrow> complete (s\<lparr>wl_LoginError := Some ErrLoginMultideviceNotEnabled\<rparr>)
         | EvClientOutdated \<Rightarrow> complete (s\<lparr>wl_LoginError := Some ErrLoginClientOutdated\<rparr>)
         | EvPairSuccess ps \<Rightarrow> complete (s\<lparr>wl_LoginSuccess := Some ps\<rparr>)
         | EvPairError e \<Rightarrow> complete (s\<lparr>wl_LoginError := Some (pair_error e)\<rparr>)
         | EvDisconnected \<Rightarrow> complete (s\<lparr>wl_LoginError := Some ErrLoginTimeout\<rparr>)
         | EvConnected \<Rightarrow> complete (s\<lparr>wl_LoginError := Some ErrUnexpectedDisconnect\<rparr>)
         | EvConnectFailure \<Rightarrow> complete (s\<lparr>wl_LoginError := Some ErrUnexpectedDisconnect\<rparr>)
         | EvLoggedOut \<Rightarrow> complete (s\<lparr>wl_LoginError := Some ErrUnexpectedDisconnect\<rparr>)
         | EvTemporaryBan \<Rightarrow> complete (s\<lparr>wl_LoginError := Some ErrUnexpectedDisconnect\<rparr>)
         | EvManualLoginReconnect \<Rightarrow> complete (s\<lparr>wl_Received515 := True\<rparr>)
         | EvOther \<Rightarrow> s))"

text \<open>The events that arrive while a call waits, each with its time.\<close>

definition handle_events :: "(gotime \<times> login_event) list \<Rightarrow> WALogin \<Rightarrow> WALogin" where
  "handle_events evs s = fold (\<lambda>(t, e). handleEvent t e) evs s"

section \<open>Which code is current\<close>

definition qrIntervals :: "int list" where
  "qrIntervals = [60 * second, 20 * second, 20 * second, 20 * second, 20 * second, 20 * second]"

fun qr_index_loop :: "int \<Rightarrow> int \<Rightarrow> int \<Rightarrow> int list \<Rightarrow> int \<times> int" where
  "qr_index_loop t i acc [] = (-1, 0)"
| "qr_index_loop t i acc (interval # rest) =
     (if t > acc + interval then qr_index_loop t (i + 1) (acc + interval) rest
      else (i, interval - (t - acc)))"

definition getQRIndex :: "gotime \<Rightarrow> WALogin \<Rightarrow> int \<times> int" where
  "getQRIndex now s = qr_index_loop (time_sub now (wl_StartTime s)) 0 0 qrIntervals"

section \<open>Starting\<close>

text \<open>
  The answers of the library while a login starts: of \<open>updateProxy\<close>, \<open>Connect\<close>, of
  the wait for the first codes (an error, or the events that came in), and of \<open>PairPhone\<close>.
\<close>

datatype pair_phone_error = PhoneTooShort | PhoneNotInternational | IQRateOverLimit | PairPhoneOther gerror

record start_env =
  se_proxy :: "gerror option"
  se_connect :: "gerror option"
  se_events :: "(gotime \<times> login_event) list"
  se_wait :: "gerror option"
  se_pair :: "string \<Rightarrow> pair_phone_error + string"

definition Start :: "start_env \<Rightarrow> WALogin \<Rightarrow> LoginResult \<times> WALogin" where
  "Start E s0 =
     (let s = s0\<lparr>wl_handler := True\<rparr> in
      case se_proxy E of Some e \<Rightarrow> (LoginFails (GoErr e), s)
      | None \<Rightarrow>
        if wl_PhoneCode s then (Step StepPhoneNumber, s)
        else (case se_connect E of Some e \<Rightarrow> (LoginFails (GoErr e), s)
          | None \<Rightarrow>
            (let s' = handle_events (se_events E) (s\<lparr>wl_connected := True\<rparr>) in
             case se_wait E of
               Some e \<Rightarrow> (LoginFails (GoErr e), Cancel s')
             | None \<Rightarrow> (case wl_QRs s' of [] \<Rightarrow> (LoginPanics, s') | qr # _ \<Rightarrow> (Step (StepQR qr), s')))))"

definition SubmitUserInput :: "start_env \<Rightarrow> string \<Rightarrow> WALogin \<Rightarrow> LoginResult \<times> WALogin" where
  "SubmitUserInput E phone_number s =
     (case se_connect E of Some e \<Rightarrow> (LoginFails (GoErr e), s)
      | None \<Rightarrow>
        (let s' = handle_events (se_events E) (s\<lparr>wl_connected := True\<rparr>) in
         case se_wait E of
           Some e \<Rightarrow> (LoginFails (GoErr (Wrap ''failed to wait for connection'' e)), s')
         | None \<Rightarrow>
           (case se_pair E phone_number of
              Inl PhoneTooShort \<Rightarrow> (LoginFails (RespErr ErrPhoneNumberTooShort), s')
            | Inl PhoneNotInternational \<Rightarrow> (LoginFails (RespErr ErrPhoneNumberIsNotInternational), s')
            | Inl IQRateOverLimit \<Rightarrow> (LoginFails (RespErr ErrRateLimitedByWhatsApp), s')
            | Inl (PairPhoneOther e) \<Rightarrow> (LoginFails (GoErr e), s')
            | Inr pairingCode \<Rightarrow> (Step (StepCode pairingCode), s'))))"

definition StartWithOverride :: "start_env \<Rightarrow> string option \<Rightarrow> WALogin \<Rightarrow> LoginResult \<times> WALogin" where
  "StartWithOverride E old s =
     (case Start E s of
        (Step StepPhoneNumber, s') \<Rightarrow>
          (case old of None \<Rightarrow> (Step StepPhoneNumber, s')
           | Some old_id \<Rightarrow> SubmitUserInput E (''+'' @ old_id) s')
      | r \<Rightarrow> r)"

section \<open>Waiting\<close>

text \<open>How the wait for the pairing ends; \<open>Completed\<close> can only be picked when the event is set.\<close>

datatype wake = TimerFired | CtxDone gerror | Completed

record UserLogin =
  ul_ID :: string
  ul_RemoteName :: string
  ul_Phone :: string
  ul_ProfileName :: string
  ul_WADeviceID :: "16 word"
  ul_LoggedInAt :: int
  ul_Timezone :: string
  ul_HistorySyncPortalsNeedCreating :: bool
  ul_isNewLogin :: bool

record wait_env =
  we_now :: gotime
  we_events :: "(gotime \<times> login_event) list"
  we_wake :: wake
  we_events515 :: "(gotime \<times> login_event) list"
  we_timeout515 :: "gerror option"
  we_created :: gotime
  we_new_login :: "UserLogin \<Rightarrow> gerror + UserLogin"

definition new_user_login :: "gotime \<Rightarrow> string \<Rightarrow> PairSuccess \<Rightarrow> UserLogin" where
  "new_user_login now timezone ps =
     \<lparr>ul_ID = MakeUserLoginID (ps_ID ps), ul_RemoteName = ''+'' @ User (ps_ID ps),
      ul_Phone = ''+'' @ User (ps_ID ps), ul_ProfileName = ps_BusinessName ps,
      ul_WADeviceID = Device (ps_ID ps), ul_LoggedInAt = go_unix now, ul_Timezone = timezone,
      ul_HistorySyncPortalsNeedCreating = True, ul_isNewLogin = False\<rparr>"

text \<open>The last component is the login whose client was marked new and connected.\<close>

type_synonym wait_result = "LoginResult \<times> WALogin \<times> UserLogin option"

definition finish_login :: "wait_env \<Rightarrow> WALogin \<Rightarrow> wait_result" where
  "finish_login E s =
     (case wl_LoginError s of
        Some e \<Rightarrow> (LoginFails (RespErr e), Cancel s, None)
      | None \<Rightarrow>
        (let s' = Cancel (handle_events (we_events515 E) s) in
         case we_timeout515 E of
           Some e \<Rightarrow> (LoginFails (GoErr (Wrap ''timed out waiting for 515'' e)), s', None)
         | None \<Rightarrow>
           (case wl_LoginSuccess s' of
              None \<Rightarrow> (LoginPanics, s', None)
            | Some ps \<Rightarrow>
              (case we_new_login E (new_user_login (we_created E) (wl_Timezone s') ps) of
                 Inl e \<Rightarrow> (LoginFails (GoErr (Wrap ''failed to create user login'' e)), s', None)
               | Inr ul \<Rightarrow>
                   (Step (StepComplete (''Successfully logged in as '' @ ul_RemoteName ul) (ul_ID ul)), s',
                    Some (ul\<lparr>ul_isNewLogin := True\<rparr>))))))"

definition show_qr :: "int \<Rightarrow> WALogin \<Rightarrow> wait_result" where
  "show_qr i s =
     (let s' = s\<lparr>wl_PrevQRIndex := i\<rparr> in
      if 0 \<le> i \<and> i < int (length (wl_QRs s')) then (Step (StepQR (wl_QRs s' ! nat i)), s', None)
      else (LoginPanics, s', None))"

definition Wait :: "wait_env \<Rightarrow> WALogin \<Rightarrow> wait_result" where
  "Wait E s =
     (if wl_PhoneCode s then
        (let s' = handle_events (we_events E) s in
         case we_wake E of
           CtxDone e \<Rightarrow> (LoginFails (GoErr e), Cancel s', None)
         | _ \<Rightarrow> finish_login E s')
      else
        (let prevIndex = wl_PrevQRIndex s;
             currentIndex = fst (getQRIndex (we_now E) s);
             nextIndex = currentIndex + 1
         in if currentIndex > prevIndex then show_qr currentIndex s
         else let s' = handle_events (we_events E) s in
           (case we_wake E of
              TimerFired \<Rightarrow>
                if nextIndex < 0 \<or> nextIndex \<ge> int (length (wl_QRs s'))
                then (LoginFails (RespErr ErrLoginTimeout), Cancel s', None)
                else show_qr nextIndex s'
            | CtxDone e \<Rightarrow> (LoginFails (GoErr e), Cancel s', None)
            | Completed \<Rightarrow> finish_login E s')))"

text \<open>
  The environments the waits allow: a phone login has no timer, \<open>LoginComplete\<close> was set when
  the wait ends by it, and the second wait ends without an error when 515 was received.
\<close>

definition wait_possible :: "wait_env \<Rightarrow> WALogin \<Rightarrow> bool" where
  "wait_possible E s \<longleftrightarrow>
     (let s' = handle_events (we_events E) s in
      (wl_PhoneCode s \<longrightarrow> we_wake E \<noteq> TimerFired) \<and>
      (we_wake E = Completed \<longrightarrow> wl_LoginComplete s') \<and>
      (we_timeout515 E = None \<longrightarrow> wl_Received515 (handle_events (we_events515 E) s')))"


section \<open>Properties of the events\<close>

text \<open>A completed login has a reason: an error, a pairing, or the 515 event.\<close>

definition login_inv :: "WALogin \<Rightarrow> bool" where
  "login_inv s \<longleftrightarrow>
     (wl_LoginComplete s \<longleftrightarrow> wl_LoginError s \<noteq> None \<or> wl_LoginSuccess s \<noteq> None \<or> wl_Received515 s) \<and>
     (wl_QRs s \<noteq> [] \<longrightarrow> wl_WaitForQRs s)"

lemma handle_events_simps [simp]:
  "handle_events [] s = s"
  "handle_events (te # evs) s = handle_events evs (handleEvent (fst te) (snd te) s)"
  by (simp_all add: handle_events_def split_beta)

lemma handleEvent_closed [simp]: "wl_Closed s \<Longrightarrow> handleEvent t e s = s"
  by (simp add: handleEvent_def)

lemma handle_events_closed [simp]: "wl_Closed s \<Longrightarrow> handle_events evs s = s"
  by (induction evs arbitrary: s) auto

lemma handleEvent_frame [simp]:
  "wl_Closed (handleEvent t e s) = wl_Closed s" "wl_PhoneCode (handleEvent t e s) = wl_PhoneCode s"
  "wl_handler (handleEvent t e s) = wl_handler s" "wl_connected (handleEvent t e s) = wl_connected s"
  "wl_PrevQRIndex (handleEvent t e s) = wl_PrevQRIndex s" "wl_Timezone (handleEvent t e s) = wl_Timezone s"
  by (simp_all add: handleEvent_def Let_def split: login_event.splits)

lemma handle_events_frame [simp]:
  "wl_Closed (handle_events evs s) = wl_Closed s" "wl_PhoneCode (handle_events evs s) = wl_PhoneCode s"
  "wl_handler (handle_events evs s) = wl_handler s" "wl_connected (handle_events evs s) = wl_connected s"
  "wl_PrevQRIndex (handle_events evs s) = wl_PrevQRIndex s" "wl_Timezone (handle_events evs s) = wl_Timezone s"
  by (induction evs arbitrary: s) simp_all

lemma login_inv_create: "login_inv (CreateLogin flow)"
  by (simp add: login_inv_def CreateLogin_def)

lemma login_inv_event: "login_inv s \<Longrightarrow> login_inv (handleEvent t e s)"
  by (cases e) (simp_all add: login_inv_def handleEvent_def)

lemma login_inv_events: "login_inv s \<Longrightarrow> login_inv (handle_events evs s)"
  by (induction evs arbitrary: s) (simp_all add: login_inv_event)

lemma login_inv_Cancel [simp]: "login_inv (Cancel s) = login_inv s"
  by (simp add: login_inv_def Cancel_def)

lemma login_inv_prev [simp]: "login_inv (s\<lparr>wl_PrevQRIndex := i\<rparr>) = login_inv s"
  by (simp add: login_inv_def)

lemma login_inv_connected [simp]: "login_inv (s\<lparr>wl_connected := b\<rparr>) = login_inv s"
  "login_inv (s\<lparr>wl_handler := b\<rparr>) = login_inv s"
  by (simp_all add: login_inv_def)

text \<open>What has been set stays set.\<close>

lemma handleEvent_515: "wl_Received515 s \<Longrightarrow> wl_Received515 (handleEvent t e s)"
  by (simp add: handleEvent_def Let_def split: login_event.splits)

section \<open>Properties of the codes\<close>

lemma qr_index_loop_found:
  assumes "0 \<le> i" "acc < t \<or> (ivs \<noteq> [] \<and> t = acc)" "t \<le> acc + sum_list ivs" "list_all (\<lambda>d. 0 \<le> d) ivs"
  shows "\<exists>k. qr_index_loop t i acc ivs = (i + int k, acc + sum_list (take (Suc k) ivs) - t) \<and> k < length ivs \<and>
           acc + sum_list (take k ivs) \<le> t \<and> t \<le> acc + sum_list (take (Suc k) ivs)"
  using assms
proof (induction ivs arbitrary: i acc)
  case Nil
  then show ?case by simp
next
  case (Cons d rest)
  show ?case
  proof (cases "t > acc + d")
    case True
    with Cons.prems Cons.IH[of "i + 1" "acc + d"] obtain k where k:
      "qr_index_loop t (i + 1) (acc + d) rest = (i + 1 + int k, acc + d + sum_list (take (Suc k) rest) - t)"
      "k < length rest" "acc + d + sum_list (take k rest) \<le> t" "t \<le> acc + d + sum_list (take (Suc k) rest)"
      by auto
    then show ?thesis using True by (intro exI[of _ "Suc k"]) (simp add: algebra_simps)
  next
    case False
    then show ?thesis using Cons.prems by (intro exI[of _ 0]) auto
  qed
qed

lemma qr_index_loop_expired:
  "list_all (\<lambda>d. 0 \<le> d) ivs \<Longrightarrow> t > acc + sum_list ivs \<Longrightarrow> qr_index_loop t i acc ivs = (-1, 0)"
proof (induction ivs arbitrary: i acc)
  case Nil
  then show ?case by simp
next
  case (Cons d rest)
  then have "0 \<le> sum_list rest" by (intro sum_list_nonneg) (simp add: list_all_iff)
  with Cons show ?case by (simp add: algebra_simps)
qed

lemma qrIntervals_total: "sum_list qrIntervals = 160 * second"
  by (simp add: qrIntervals_def)

lemma qrIntervals_nonneg: "list_all (\<lambda>d. 0 \<le> d) qrIntervals"
  by (simp add: qrIntervals_def second_def)

lemma getQRIndex_in_time:
  assumes "0 \<le> time_sub now (wl_StartTime s)" "time_sub now (wl_StartTime s) \<le> 160 * second"
  shows "\<exists>k. getQRIndex now s = (int k, sum_list (take (Suc k) qrIntervals) - time_sub now (wl_StartTime s)) \<and> k < 6 \<and>
           sum_list (take k qrIntervals) \<le> time_sub now (wl_StartTime s) \<and>
           time_sub now (wl_StartTime s) \<le> sum_list (take (Suc k) qrIntervals)"
  using qr_index_loop_found[of 0 0 "time_sub now (wl_StartTime s)" qrIntervals] assms
  by (auto simp: getQRIndex_def qrIntervals_total qrIntervals_nonneg) (auto simp: qrIntervals_def)

lemma getQRIndex_expired:
  "time_sub now (wl_StartTime s) > 160 * second \<Longrightarrow> getQRIndex now s = (-1, 0)"
  by (simp add: getQRIndex_def qr_index_loop_expired qrIntervals_total qrIntervals_nonneg)


section \<open>Properties of the wait\<close>

definition login_over :: "WALogin \<Rightarrow> bool" where
  "login_over s \<longleftrightarrow> wl_Closed s \<and> \<not> wl_handler s \<and> \<not> wl_connected s"

lemma login_over_Cancel [simp]: "login_over (Cancel s)"
  by (simp add: login_over_def Cancel_def)

lemma Cancel_sel [simp]:
  "wl_LoginSuccess (Cancel s) = wl_LoginSuccess s" "wl_Timezone (Cancel s) = wl_Timezone s" "wl_Closed (Cancel s)"
  by (simp_all add: Cancel_def)

text \<open>What a paired login has to show for itself.\<close>

definition paired :: "wait_env \<Rightarrow> WALogin \<Rightarrow> string \<Rightarrow> UserLogin option \<Rightarrow> bool" where
  "paired E s i u \<longleftrightarrow>
     (\<exists>ps ul. wl_LoginError (handle_events (we_events E) s) = None \<and>
        wl_LoginSuccess (handle_events (we_events515 E) (handle_events (we_events E) s)) = Some ps \<and>
        we_new_login E (new_user_login (we_created E) (wl_Timezone s) ps) = Inr ul \<and>
        i = ul_ID ul \<and> u = Some (ul\<lparr>ul_isNewLogin := True\<rparr>))"

text \<open>The two ways to crash: a code that does not exist, and a pairing that is missing.\<close>

definition pairing_missing :: "wait_env \<Rightarrow> WALogin \<Rightarrow> bool" where
  "pairing_missing E s \<longleftrightarrow>
     we_wake E = Completed \<and> we_timeout515 E = None \<and> wl_LoginError (handle_events (we_events E) s) = None \<and>
     wl_LoginSuccess (handle_events (we_events515 E) (handle_events (we_events E) s)) = None"

definition wait_outcome_ok :: "wait_env \<Rightarrow> WALogin \<Rightarrow> wait_result \<Rightarrow> bool" where
  "wait_outcome_ok E s res =
     (case res of (r, s', u) \<Rightarrow>
       (case r of
          Step (StepQR qr) \<Rightarrow> \<not> wl_PhoneCode s \<and> wl_Closed s' = wl_Closed s \<and> u = None
        | Step (StepComplete txt i) \<Rightarrow> login_over s' \<and> paired E s i u
        | LoginFails e \<Rightarrow> login_over s' \<and> u = None
        | LoginPanics \<Rightarrow> u = None
        | _ \<Rightarrow> False))"

lemma finish_login_ok: "wait_outcome_ok E s (finish_login E (handle_events (we_events E) s))"
  by (auto simp: finish_login_def wait_outcome_ok_def paired_def Let_def split: option.splits sum.splits)

lemma show_qr_ok: "\<not> wl_PhoneCode s \<Longrightarrow> wl_Closed s' = wl_Closed s \<Longrightarrow> wait_outcome_ok E s (show_qr i s')"
  by (simp add: show_qr_def wait_outcome_ok_def Let_def)

lemma Wait_ok: "wait_outcome_ok E s (Wait E s)"
proof -
  have fail: "wait_outcome_ok E s (LoginFails e, Cancel x, None)" for e x
    by (simp add: wait_outcome_ok_def)
  show ?thesis
    by (simp add: Wait_def Let_def fail finish_login_ok show_qr_ok split: wake.split)
qed

lemma finish_login_panic:
  "fst (finish_login E (handle_events (we_events E) s)) = LoginPanics \<longleftrightarrow>
   we_timeout515 E = None \<and> wl_LoginError (handle_events (we_events E) s) = None \<and>
   wl_LoginSuccess (handle_events (we_events515 E) (handle_events (we_events E) s)) = None"
  by (auto simp: finish_login_def Let_def split: option.splits sum.splits)

lemma show_qr_panic:
  "fst (show_qr i s) = LoginPanics \<longleftrightarrow> \<not> (0 \<le> i \<and> i < int (length (wl_QRs s)))"
  by (simp add: show_qr_def Let_def)

lemma show_qr_step:
  "show_qr i s = (Step (StepQR qr), s', u) \<Longrightarrow>
   s' = s\<lparr>wl_PrevQRIndex := i\<rparr> \<and> 0 \<le> i \<and> i < int (length (wl_QRs s')) \<and> qr = wl_QRs s' ! nat i"
  by (auto simp: show_qr_def Let_def split: if_splits)

lemma finish_login_no_qr: "finish_login E s \<noteq> (Step (StepQR qr), s', u)"
  by (simp add: finish_login_def Let_def split: option.split sum.split)

text \<open>C27: What \<open>Wait\<close> of the login comes back with. A code is only shown in a QR login and leaves
  the login open; an error always closes the login, removes its event handler and disconnects
  the client; the final step is only reached when no error event came and a device was paired,
  and then the login that was created for this device is connected and marked as new. No other
  step is returned, and the login keeps its invariant.\<close>

theorem wait_outcome:
  assumes "login_inv s" and "Wait E s = (r, s', u)"
  shows "wait_outcome_ok E s (r, s', u) \<and> login_inv s'"
proof -
  have "login_inv (fst (snd (finish_login E x)))" if "login_inv x" for x
    using that by (simp add: finish_login_def Let_def login_inv_events split: option.split sum.split)
  moreover have "login_inv (fst (snd (show_qr i x)))" if "login_inv x" for i x
    using that by (simp add: show_qr_def Let_def)
  ultimately have "login_inv (fst (snd (Wait E s)))"
    using assms(1) by (simp add: Wait_def Let_def login_inv_events split: wake.split)
  then show ?thesis using Wait_ok[of E s] assms(2) by simp
qed

definition sample_wait :: "wake \<Rightarrow> (gotime \<times> login_event) list \<Rightarrow> gotime \<Rightarrow> wait_env" where
  "sample_wait w evs now = \<lparr>we_now = now, we_events = evs, we_wake = w, we_events515 = [(now, EvManualLoginReconnect)],
     we_timeout515 = None, we_created = now, we_new_login = Inr\<rparr>"

definition sample_login :: WALogin where
  "sample_login = handleEvent 0 (EvQR [''one'', ''two'', ''three'']) ((CreateLogin ''qr'')\<lparr>wl_handler := True\<rparr>)"

lemma sample_login_inv: "login_inv sample_login"
  by (simp add: sample_login_def login_inv_event login_inv_create)

theorem wait_outcome_witness:
  "fst (Wait (sample_wait Completed [(1, EvPairSuccess \<lparr>ps_ID = sample_user, ps_BusinessName = []\<rparr>)] 1) sample_login) =
     Step (StepComplete ''Successfully logged in as +358401234567'' ''358401234567'') \<and>
   login_over (fst (snd (Wait (sample_wait Completed [(1, EvPairSuccess \<lparr>ps_ID = sample_user, ps_BusinessName = []\<rparr>)] 1) sample_login)))"
proof -
  let ?E = "sample_wait Completed [(1, EvPairSuccess \<lparr>ps_ID = sample_user, ps_BusinessName = []\<rparr>)] 1"
  have r: "fst (Wait ?E sample_login) = Step (StepComplete ''Successfully logged in as +358401234567'' ''358401234567'')"
    by (simp add: Wait_def Let_def sample_wait_def sample_login_def CreateLogin_def handleEvent_def LoginFlowIDPhone_def
        getQRIndex_def qrIntervals_def time_sub_def second_def finish_login_def new_user_login_def MakeUserLoginID_def sample_user_def)
  obtain s' u where w: "Wait ?E sample_login = (fst (Wait ?E sample_login), s', u)"
    by (cases "Wait ?E sample_login") simp
  have "login_over s'"
    using wait_outcome[OF sample_login_inv w] unfolding r by (simp add: wait_outcome_ok_def)
  with r w show ?thesis by (metis fst_conv snd_conv)
qed

text \<open>\<open>Wait\<close> of the login crashes in two cases only: it is to show a code that is current by the
  clock although WhatsApp sent fewer codes, or the login completed and 515 was received while
  no device was paired, which happens when the 515 event is the one that completes it.\<close>

theorem wait_panics:
  "fst (Wait E s) = LoginPanics \<longleftrightarrow>
     (if \<not> wl_PhoneCode s \<and> wl_PrevQRIndex s < fst (getQRIndex (we_now E) s)
      then \<not> (0 \<le> fst (getQRIndex (we_now E) s) \<and> fst (getQRIndex (we_now E) s) < int (length (wl_QRs s)))
      else (if wl_PhoneCode s then (\<forall>e. we_wake E \<noteq> CtxDone e) else we_wake E = Completed) \<and>
        we_timeout515 E = None \<and> wl_LoginError (handle_events (we_events E) s) = None \<and>
        wl_LoginSuccess (handle_events (we_events515 E) (handle_events (we_events E) s)) = None)"
  by (cases "we_wake E") (simp_all add: Wait_def Let_def finish_login_panic show_qr_panic)

text \<open>The codes a QR login shows. Within the 160 seconds that the intervals cover, the current
  code is the one whose interval contains the time. If \<open>Wait\<close> then shows a code, its index is
  greater than the last one shown and at most one beyond the current one, it is recorded, and
  the code is the one WhatsApp sent at this index. After the 160 seconds there is no current
  code, yet a call then shows the first code again instead of the timeout.\<close>

theorem wait_shows_codes:
  assumes "\<not> wl_PhoneCode s" and "0 \<le> wl_PrevQRIndex s" and "0 \<le> time_sub (we_now E) (wl_StartTime s)"
  shows "if time_sub (we_now E) (wl_StartTime s) \<le> 160 * second
    then (\<exists>k < 6. fst (getQRIndex (we_now E) s) = int k \<and>
            sum_list (take k qrIntervals) \<le> time_sub (we_now E) (wl_StartTime s) \<and>
            time_sub (we_now E) (wl_StartTime s) \<le> sum_list (take (Suc k) qrIntervals) \<and>
            (\<forall>qr s' u. wl_PrevQRIndex s \<le> int k \<and> Wait E s = (Step (StepQR qr), s', u) \<longrightarrow>
               wl_PrevQRIndex s < wl_PrevQRIndex s' \<and> wl_PrevQRIndex s' \<le> int k + 1 \<and>
               wl_PrevQRIndex s' < int (length (wl_QRs s')) \<and> qr = wl_QRs s' ! nat (wl_PrevQRIndex s')))
    else (we_wake E = TimerFired \<and> wl_QRs (handle_events (we_events E) s) \<noteq> [] \<longrightarrow>
            fst (Wait E s) = Step (StepQR (wl_QRs (handle_events (we_events E) s) ! 0)))"
proof (cases "time_sub (we_now E) (wl_StartTime s) \<le> 160 * second")
  case True
  from getQRIndex_in_time[OF assms(3) True] obtain k where k:
    "fst (getQRIndex (we_now E) s) = int k" "k < 6"
    "sum_list (take k qrIntervals) \<le> time_sub (we_now E) (wl_StartTime s)"
    "time_sub (we_now E) (wl_StartTime s) \<le> sum_list (take (Suc k) qrIntervals)"
    by auto
  have "wl_PrevQRIndex s < wl_PrevQRIndex s' \<and> wl_PrevQRIndex s' \<le> int k + 1 \<and>
        wl_PrevQRIndex s' < int (length (wl_QRs s')) \<and> qr = wl_QRs s' ! nat (wl_PrevQRIndex s')"
    if "wl_PrevQRIndex s \<le> int k" and "Wait E s = (Step (StepQR qr), s', u)" for qr s' u
    using that assms(1)
    by (auto simp: Wait_def Let_def k(1) finish_login_no_qr dest!: show_qr_step split: if_splits wake.splits)
  with k True show ?thesis by auto
next
  case False
  then have "fst (getQRIndex (we_now E) s) = -1" by (simp add: getQRIndex_expired)
  then show ?thesis using False assms(1,2) by (simp add: Wait_def Let_def show_qr_def)
qed

theorem wait_shows_codes_witness:
  "fst (Wait (sample_wait TimerFired [] (61 * second)) sample_login) = Step (StepQR ''two'') \<and>
   wl_PrevQRIndex (fst (snd (Wait (sample_wait TimerFired [] (61 * second)) sample_login))) = 1 \<and>
   fst (Wait (sample_wait TimerFired [] (200 * second)) sample_login) = Step (StepQR ''one'')"
proof -
  have s: "\<not> wl_PhoneCode sample_login" "wl_PrevQRIndex sample_login = 0" "wl_StartTime sample_login = 0"
    "wl_QRs sample_login = [''one'', ''two'', ''three'']"
    by (simp_all add: sample_login_def CreateLogin_def handleEvent_def LoginFlowIDPhone_def)
  have late: "fst (Wait (sample_wait TimerFired [] (200 * second)) sample_login) = Step (StepQR ''one'')"
    using wait_shows_codes[of sample_login "sample_wait TimerFired [] (200 * second)"] s
    by (simp add: sample_wait_def time_sub_def second_def)
  have w: "Wait (sample_wait TimerFired [] (61 * second)) sample_login =
      (Step (StepQR ''two''), sample_login\<lparr>wl_PrevQRIndex := 1\<rparr>, None)"
    using s by (simp add: Wait_def Let_def sample_wait_def getQRIndex_def qrIntervals_def time_sub_def second_def show_qr_def)
  from late w show ?thesis by simp
qed

end
