(* ===== verification/Connection.thy ===== *)
theory Connection
  imports Login Transitions
begin

text \<open>
  The life of a connection: \<open>pkg/connector/client.go\<close> (loading a login, connecting, the
  background loops, disconnecting and logging out), \<open>pkg/connector/phoneping.go\<close> (when the
  phone was last seen) and the connection events of \<open>handleWAEvent\<close> and \<open>handleWALogout\<close>
  in \<open>pkg/connector/handlewhatsapp.go\<close>. The whatsmeow client, the device store and the bridge
  state queue are library code: their answers are arguments, and what the code tells them is
  kept in the state.
\<close>

section \<open>Bridge states\<close>

datatype StateEvent =
    StateConnecting
  | StateConnected
  | StateTransientDisconnect
  | StateBadCredentials
  | StateUnknownError

datatype UserAction = UserActionOpenNative

record BridgeState =
  bs_StateEvent :: StateEvent
  bs_Error :: string
  bs_Message :: string
  bs_UserAction :: "UserAction option"

definition bridge_state :: "StateEvent \<Rightarrow> string \<Rightarrow> BridgeState" where
  "bridge_state ev err = \<lparr>bs_StateEvent = ev, bs_Error = err, bs_Message = [], bs_UserAction = None\<rparr>"

definition WANotLoggedIn :: string where "WANotLoggedIn = ''wa-not-logged-in''"
definition WALoggedOut :: string where "WALoggedOut = ''wa-logged-out''"
definition WAMainDeviceGone :: string where "WAMainDeviceGone = ''wa-main-device-gone''"
definition WAUnknownLogout :: string where "WAUnknownLogout = ''wa-unknown-logout''"
definition WAKeepaliveTimeout :: string where "WAKeepaliveTimeout = ''wa-keepalive-timeout''"
definition WAPhoneOffline :: string where "WAPhoneOffline = ''wa-phone-offline''"
definition WAConnectionFailed :: string where "WAConnectionFailed = ''wa-connection-failed''"
definition WADisconnected :: string where "WADisconnected = ''wa-transient-disconnect''"
definition WAStreamReplaced :: string where "WAStreamReplaced = ''wa-stream-replaced''"
definition WAStreamError :: string where "WAStreamError = ''wa-stream-error''"
definition WAClientOutdated :: string where "WAClientOutdated = ''wa-client-outdated''"
definition WATemporaryBan :: string where "WATemporaryBan = ''wa-temporary-ban''"

section \<open>The state of a client\<close>

text \<open>
  \<open>nc_payload\<close> tells whether \<open>GetClientPayload\<close> is set. A call of \<open>startLoops\<close>
  makes a context: the contexts have numbers, \<open>wc_stopLoops\<close> is the one whose cancel
  function is kept and \<open>wc_running\<close> are those not cancelled. The offline sync waiter is a
  channel of capacity one. \<open>wc_sent\<close> are the states sent, newest first, \<open>wc_pings\<close>
  counts the pings of the phone that were started.
\<close>

record net_client =
  nc_connected :: bool
  nc_logged_in :: bool
  nc_payload :: bool

record LoginMetadata =
  lm_WADeviceID :: "16 word"
  lm_PhoneLastSeen :: gotime
  lm_PhoneLastPinged :: gotime

record wa_client =
  wc_LoginID :: string
  wc_Metadata :: LoginMetadata
  wc_Client :: "net_client option"
  wc_JID :: jid
  wc_stopLoops :: "nat option"
  wc_running :: "nat list"
  wc_contexts :: nat
  wc_offlineSyncWaiter :: "gerror option list option"
  wc_sent :: "BridgeState list"
  wc_pings :: nat

definition send_state :: "BridgeState \<Rightarrow> wa_client \<Rightarrow> wa_client" where
  "send_state b s = s\<lparr>wc_sent := b # wc_sent s\<rparr>"

text \<open>\<open>get_device\<close> is the device store.\<close>

definition LoadUserLogin :: "(jid \<Rightarrow> gerror + bool) \<Rightarrow> string \<Rightarrow> LoginMetadata \<Rightarrow> gerror option \<times> wa_client" where
  "LoadUserLogin get_device login_id meta =
     (let w = \<lparr>wc_LoginID = login_id, wc_Metadata = meta, wc_Client = None, wc_JID = EmptyJID, wc_stopLoops = None,
               wc_running = [], wc_contexts = 0, wc_offlineSyncWaiter = None, wc_sent = [], wc_pings = 0\<rparr>
      in if lm_WADeviceID meta = 0 then (None, w)
      else let w' = w\<lparr>wc_JID := ParseUserLoginID login_id (lm_WADeviceID meta)\<rparr> in
        (case get_device (wc_JID w') of
           Inl e \<Rightarrow> (Some e, w')
         | Inr True \<Rightarrow> (None, w'\<lparr>wc_Client := Some \<lparr>nc_connected = False, nc_logged_in = False, nc_payload = False\<rparr>\<rparr>)
         | Inr False \<Rightarrow> (None, w')))"

definition startLoops :: "wa_client \<Rightarrow> wa_client" where
  "startLoops s =
     (let n = wc_contexts s;
          running = (case wc_stopLoops s of None \<Rightarrow> wc_running s | Some old \<Rightarrow> removeAll old (wc_running s))
      in s\<lparr>wc_stopLoops := Some n, wc_running := n # running, wc_contexts := n + 1\<rparr>)"

definition Disconnect :: "wa_client \<Rightarrow> wa_client" where
  "Disconnect s =
     (let s' = (case wc_stopLoops s of None \<Rightarrow> s
                | Some n \<Rightarrow> s\<lparr>wc_stopLoops := None, wc_running := removeAll n (wc_running s)\<rparr>)
      in s'\<lparr>wc_Client := map_option (nc_connected_update (\<lambda>_. False)) (wc_Client s')\<rparr>)"

text \<open>The result of \<open>Logout\<close> is only logged.\<close>

definition LogoutRemote :: "wa_client \<Rightarrow> wa_client" where
  "LogoutRemote s = (Disconnect s)\<lparr>wc_Client := None\<rparr>"

definition IsLoggedIn :: "wa_client \<Rightarrow> bool" where
  "IsLoggedIn s = (case wc_Client s of None \<Rightarrow> False | Some c \<Rightarrow> nc_logged_in c)"

text \<open>\<open>ctx_err\<close> tells whether the context is done, \<open>conn_err\<close> is the answer of
  \<open>ConnectContext\<close>; an error of \<open>updateProxy\<close> is only logged.\<close>

definition Connect :: "bool \<Rightarrow> gerror option \<Rightarrow> wa_client \<Rightarrow> wa_client" where
  "Connect ctx_err conn_err s =
     (case wc_Client s of
        None \<Rightarrow> send_state (bridge_state StateBadCredentials WANotLoggedIn) s
      | Some c \<Rightarrow>
        (let s1 = send_state (bridge_state StateConnecting []) s in
         if ctx_err then s1
         else let s2 = startLoops s1 in
           (case conn_err of
              None \<Rightarrow> s2\<lparr>wc_Client := Some (c\<lparr>nc_connected := True\<rparr>)\<rparr>
            | Some e \<Rightarrow> send_state (bridge_state StateUnknownError WAConnectionFailed) s2)))"

text \<open>A full channel drops the value.\<close>

definition notifyOfflineSyncWaiter :: "gerror option \<Rightarrow> wa_client \<Rightarrow> wa_client" where
  "notifyOfflineSyncWaiter err s =
     (case wc_offlineSyncWaiter s of
        None \<Rightarrow> s
      | Some ch \<Rightarrow> if length ch < 1 then s\<lparr>wc_offlineSyncWaiter := Some (ch @ [err])\<rparr> else s)"

section \<open>When the phone was seen\<close>

definition PhoneDisconnectWarningTime :: int where "PhoneDisconnectWarningTime = 12 * 24 * 3600 * second"
definition PhoneDisconnectPingTime :: int where "PhoneDisconnectPingTime = 10 * 24 * 3600 * second"
definition PhoneMinPingInterval :: int where "PhoneMinPingInterval = 24 * 3600 * second"

definition needs_ping :: "gotime \<Rightarrow> LoginMetadata \<Rightarrow> bool" where
  "needs_ping now m \<longleftrightarrow> lm_PhoneLastSeen m \<noteq> 0 \<and> time_sub now (lm_PhoneLastSeen m) > PhoneDisconnectPingTime \<and>
     time_sub now (lm_PhoneLastPinged m) > PhoneMinPingInterval"

definition recently_seen :: "gotime \<Rightarrow> LoginMetadata \<Rightarrow> bool" where
  "recently_seen now m \<longleftrightarrow> lm_PhoneLastSeen m = 0 \<or> time_sub now (lm_PhoneLastSeen m) < PhoneDisconnectWarningTime"

text \<open>The second result tells whether a ping is started.\<close>

definition PhoneRecentlySeen :: "gotime \<Rightarrow> bool \<Rightarrow> LoginMetadata \<Rightarrow> bool \<times> bool" where
  "PhoneRecentlySeen now doPing m = (recently_seen now m, doPing \<and> needs_ping now m)"

text \<open>
  \<open>lastKeyID\<close> is the row of the query, \<open>send\<close> the answer of \<open>SendMessage\<close> to a
  request with the given key identifiers: an error or the server's timestamp.
\<close>

definition sendHackyPhonePing ::
  "gotime \<Rightarrow> gerror + byte list option \<Rightarrow> (byte list list \<Rightarrow> gerror + gotime) \<Rightarrow> LoginMetadata \<Rightarrow> LoginMetadata" where
  "sendHackyPhonePing now lastKeyID send m =
     (let m' = m\<lparr>lm_PhoneLastPinged := now\<rparr>;
          keyIDs = (case lastKeyID of Inr (Some k) \<Rightarrow> [k] | _ \<Rightarrow> [])
      in case send keyIDs of Inl e \<Rightarrow> m' | Inr ts \<Rightarrow> m'\<lparr>lm_PhoneLastPinged := ts\<rparr>)"

definition FillBridgeState :: "gotime \<Rightarrow> LoginMetadata \<Rightarrow> BridgeState \<Rightarrow> BridgeState" where
  "FillBridgeState now m b =
     (if \<not> fst (PhoneRecentlySeen now False m) \<and> bs_StateEvent b = StateConnected
      then b\<lparr>bs_StateEvent := StateTransientDisconnect, bs_Error := WAPhoneOffline, bs_UserAction := Some UserActionOpenNative\<rparr>
      else b)"

text \<open>\<open>prev_error\<close> is the error of the previous state of the queue.\<close>

definition phoneSeen :: "gotime \<Rightarrow> string \<Rightarrow> gotime \<Rightarrow> wa_client \<Rightarrow> wa_client" where
  "phoneSeen now prev_error ts s =
     (if lm_PhoneLastSeen (wc_Metadata s) + 3600 * second > ts then s
      else let hadBeenSeen = fst (PhoneRecentlySeen now False (wc_Metadata s));
               s' = s\<lparr>wc_Metadata := (wc_Metadata s)\<lparr>lm_PhoneLastSeen := ts\<rparr>\<rparr>;
               isConnected = (IsLoggedIn s' \<and> (case wc_Client s' of None \<Rightarrow> False | Some c \<Rightarrow> nc_connected c))
           in if \<not> hadBeenSeen \<and> prev_error = WAPhoneOffline \<and> isConnected
              then send_state (bridge_state StateConnected []) s' else s')"

section \<open>Connection events\<close>

text \<open>
  The connection events of \<open>handleWAEvent\<close>. Texts that whatsmeow makes (of a reason, a ban)
  are arguments of the events.
\<close>

datatype conn_event =
    EvtConnected
  | EvtOfflineSyncPreview
  | EvtOfflineSyncCompleted
  | EvtLoggedOut logout_reason string
  | EvtDisconnected
  | EvtStreamError string "string list"
  | EvtStreamReplaced
  | EvtKeepAliveTimeout
  | EvtKeepAliveRestored
  | EvtConnectFailure int string string
  | EvtClientOutdated
  | EvtTemporaryBan string
and logout_reason = ReasonLoggedOut | ReasonMainDeviceGone | ReasonOther

definition handleWALogout :: "logout_reason \<Rightarrow> wa_client \<Rightarrow> wa_client" where
  "handleWALogout reason s =
     (let errorCode = (case reason of ReasonLoggedOut \<Rightarrow> WALoggedOut | ReasonMainDeviceGone \<Rightarrow> WAMainDeviceGone
                       | ReasonOther \<Rightarrow> WAUnknownLogout)
      in send_state (bridge_state StateBadCredentials errorCode)
           (s\<lparr>wc_Client := None, wc_JID := EmptyJID, wc_Metadata := (wc_Metadata s)\<lparr>lm_WADeviceID := 0\<rparr>\<rparr>))"

definition stream_error_message :: "string \<Rightarrow> string list \<Rightarrow> string" where
  "stream_error_message code children =
     (if code \<noteq> [] then ''Unknown stream error with code '' @ code
      else case children of tag # _ \<Rightarrow> ''Unknown stream error (contains '' @ tag @ '' node)''
      | [] \<Rightarrow> ''Unknown stream error'')"

text \<open>\<open>EvtConnected\<close> also starts the initial presence and the profile sync, which change no
  state modelled here. \<open>prev_error\<close> is the error of the previous state of the queue.\<close>

definition handle_conn_event :: "gotime \<Rightarrow> string \<Rightarrow> conn_event \<Rightarrow> wa_client \<Rightarrow> wa_client" where
  "handle_conn_event now prev_error evt s =
     (case evt of
        EvtConnected \<Rightarrow> send_state (bridge_state StateConnected []) s
      | EvtOfflineSyncPreview \<Rightarrow> s
      | EvtOfflineSyncCompleted \<Rightarrow>
          (let s' = (if snd (PhoneRecentlySeen now True (wc_Metadata s)) then s\<lparr>wc_pings := wc_pings s + 1\<rparr> else s)
           in notifyOfflineSyncWaiter None (send_state (bridge_state StateConnected []) s'))
      | EvtLoggedOut reason txt \<Rightarrow>
          notifyOfflineSyncWaiter (Some (Err (''logged out: '' @ txt))) (handleWALogout reason s)
      | EvtDisconnected \<Rightarrow>
          notifyOfflineSyncWaiter (Some (Err ''disconnected''))
            (if prev_error \<noteq> WAPhoneOffline \<and> fst (PhoneRecentlySeen now False (wc_Metadata s))
             then send_state (bridge_state StateTransientDisconnect WADisconnected) s else s)
      | EvtStreamError code children \<Rightarrow>
          (let message = stream_error_message code children in
           notifyOfflineSyncWaiter (Some (Err (''stream error: '' @ message)))
             (send_state ((bridge_state StateUnknownError WAStreamError)\<lparr>bs_Message := message\<rparr>) s))
      | EvtStreamReplaced \<Rightarrow>
          notifyOfflineSyncWaiter (Some (Err ''stream replaced''))
            (send_state (bridge_state StateUnknownError WAStreamReplaced) s)
      | EvtKeepAliveTimeout \<Rightarrow> send_state (bridge_state StateTransientDisconnect WAKeepaliveTimeout) s
      | EvtKeepAliveRestored \<Rightarrow> send_state (bridge_state StateConnected []) s
      | EvtConnectFailure reason reason_txt msg \<Rightarrow>
          notifyOfflineSyncWaiter (Some (Err (''connection failure: '' @ reason_txt @ '' ('' @ msg @ '')'')))
            (send_state ((bridge_state StateUnknownError (''wa-connect-failure-'' @ format_int reason))
               \<lparr>bs_Message := ''Unknown connection failure: '' @ reason_txt @ '' ('' @ msg @ '')''\<rparr>) s)
      | EvtClientOutdated \<Rightarrow>
          notifyOfflineSyncWaiter (Some (Err ''client outdated''))
            (send_state (bridge_state StateUnknownError WAClientOutdated) s)
      | EvtTemporaryBan txt \<Rightarrow>
          notifyOfflineSyncWaiter (Some (Err (''temporary ban: '' @ txt)))
            (send_state ((bridge_state StateBadCredentials WATemporaryBan)\<lparr>bs_Message := txt\<rparr>) s))"

section \<open>Connecting in the background\<close>

text \<open>
  The answer of \<open>ConnectContext\<close>, the events that are handled while the call waits, whether
  the context ends the wait, and \<open>json.Unmarshal\<close> of the notification, giving its \<open>pn\<close>.
\<close>

record background_env =
  be_connect :: "gerror option"
  be_events :: "(gotime \<times> string \<times> conn_event) list"
  be_ctx_done :: "gerror option"
  be_unmarshal :: "string \<Rightarrow> gerror + string"

definition ErrNotLoggedIn :: gerror where "ErrNotLoggedIn = Err ''bridgev2.ErrNotLoggedIn''"

definition set_payload :: "bool \<Rightarrow> net_client \<Rightarrow> net_client" where
  "set_payload b c = c\<lparr>nc_payload := b\<rparr>"

text \<open>The deferred calls: \<open>GetClientPayload\<close> is reset through the client, which may be gone,
  and the waiter is removed in any case.\<close>

definition reset_background :: "'a outcome \<Rightarrow> wa_client \<Rightarrow> 'a outcome \<times> wa_client" where
  "reset_background r s =
     (let s' = s\<lparr>wc_offlineSyncWaiter := None\<rparr> in
      case wc_Client s' of None \<Rightarrow> (Panic, s')
      | Some c \<Rightarrow> (r, s'\<lparr>wc_Client := Some (set_payload False c)\<rparr>))"

definition conn_events :: "(gotime \<times> string \<times> conn_event) list \<Rightarrow> wa_client \<Rightarrow> wa_client" where
  "conn_events evs s = fold (\<lambda>(t, prev, e). handle_conn_event t prev e) evs s"

text \<open>None means that the call still waits. The second result is the \<open>pn\<close> that is sent.\<close>

definition ConnectBackground ::
  "background_env \<Rightarrow> string \<Rightarrow> wa_client \<Rightarrow> (unit outcome \<times> string option \<times> wa_client) option" where
  "ConnectBackground E raw s =
     (case wc_Client s of
        None \<Rightarrow> Some (Fail ErrNotLoggedIn, None, s)
      | Some c \<Rightarrow>
        (let s1 = s\<lparr>wc_offlineSyncWaiter := Some [], wc_Client := Some (set_payload True c)\<rparr> in
         case be_connect E of
           Some e \<Rightarrow> (let (r, s') = reset_background (Fail e) s1 in Some (r, None, s'))
         | None \<Rightarrow>
           (let s2 = conn_events (be_events E) (s1\<lparr>wc_Client := Some ((set_payload True c)\<lparr>nc_connected := True\<rparr>)\<rparr>);
                finish = (\<lambda>r pn. let (r', s') = reset_background r (Disconnect s2) in Some (r', pn, s'))
            in case be_ctx_done E of
                 Some e \<Rightarrow> finish (Fail e) None
               | None \<Rightarrow>
                 (case wc_offlineSyncWaiter s2 of
                    Some (Some e # _) \<Rightarrow> finish (Fail e) None
                  | Some (None # _) \<Rightarrow>
                      (case be_unmarshal E raw of
                         Inl e \<Rightarrow> finish (Fail e) None
                       | Inr pn \<Rightarrow> finish (Ok ()) (if pn \<noteq> [] then Some pn else None))
                  | _ \<Rightarrow> None))))"

section \<open>Steps and reachable states\<close>

inductive conn_step :: "wa_client \<Rightarrow> wa_client \<Rightarrow> bool" where
  connect: "conn_step s (Connect ctx_err conn_err s)"
| background: "ConnectBackground E raw s = Some (r, pn, s') \<Longrightarrow> conn_step s s'"
| disconnect: "conn_step s (Disconnect s)"
| logout: "conn_step s (LogoutRemote s)"
| event: "conn_step s (handle_conn_event now prev evt s)"
| seen: "conn_step s (phoneSeen now prev ts s)"
| ping: "conn_step s (s\<lparr>wc_Metadata := sendHackyPhonePing now key send (wc_Metadata s)\<rparr>)"

inductive conn_reachable :: "wa_client \<Rightarrow> bool" where
  start: "LoadUserLogin get_device i m = (err, s) \<Longrightarrow> conn_reachable s"
| step: "conn_reachable s \<Longrightarrow> conn_step s s' \<Longrightarrow> conn_reachable s'"

inductive_cases conn_stepE: "conn_step s s'"

text \<open>
  At most one context of loops runs, the one that can be stopped; a login without a device has
  no client; outside of a background connection nobody waits.
\<close>

definition loops_ok :: "wa_client \<Rightarrow> bool" where
  "loops_ok s \<longleftrightarrow> wc_running s = (case wc_stopLoops s of None \<Rightarrow> [] | Some n \<Rightarrow> [n]) \<and>
     (\<forall>n. wc_stopLoops s = Some n \<longrightarrow> n < wc_contexts s)"

definition device_ok :: "wa_client \<Rightarrow> bool" where
  "device_ok s \<longleftrightarrow> (lm_WADeviceID (wc_Metadata s) = 0 \<longrightarrow> wc_Client s = None)"

definition conn_inv :: "wa_client \<Rightarrow> bool" where
  "conn_inv s \<longleftrightarrow> loops_ok s \<and> device_ok s \<and> wc_offlineSyncWaiter s = None"

lemma send_state_sel [simp]:
  "wc_running (send_state b s) = wc_running s" "wc_stopLoops (send_state b s) = wc_stopLoops s"
  "wc_contexts (send_state b s) = wc_contexts s" "wc_Metadata (send_state b s) = wc_Metadata s"
  "wc_Client (send_state b s) = wc_Client s" "wc_offlineSyncWaiter (send_state b s) = wc_offlineSyncWaiter s"
  by (simp_all add: send_state_def)

lemma notify_sel [simp]:
  "wc_running (notifyOfflineSyncWaiter b s) = wc_running s" "wc_stopLoops (notifyOfflineSyncWaiter b s) = wc_stopLoops s"
  "wc_contexts (notifyOfflineSyncWaiter b s) = wc_contexts s" "wc_Metadata (notifyOfflineSyncWaiter b s) = wc_Metadata s"
  "wc_Client (notifyOfflineSyncWaiter b s) = wc_Client s"
  by (simp_all add: notifyOfflineSyncWaiter_def split: option.split)

lemma handleWALogout_sel [simp]:
  "wc_running (handleWALogout r s) = wc_running s" "wc_stopLoops (handleWALogout r s) = wc_stopLoops s"
  "wc_contexts (handleWALogout r s) = wc_contexts s" "wc_Client (handleWALogout r s) = None"
  "wc_offlineSyncWaiter (handleWALogout r s) = wc_offlineSyncWaiter s"
  "lm_WADeviceID (wc_Metadata (handleWALogout r s)) = 0"
  by (simp_all add: handleWALogout_def Let_def)

fun is_logout :: "conn_event \<Rightarrow> bool" where
  "is_logout (EvtLoggedOut r txt) = True"
| "is_logout _ = False"

lemma event_sel [simp]:
  "wc_running (handle_conn_event t p e s) = wc_running s" "wc_stopLoops (handle_conn_event t p e s) = wc_stopLoops s"
  "wc_contexts (handle_conn_event t p e s) = wc_contexts s"
  "wc_Client (handle_conn_event t p e s) = (if is_logout e then None else wc_Client s)"
  by (cases e; simp add: handle_conn_event_def Let_def)+

lemma event_device_ok: "device_ok s \<Longrightarrow> device_ok (handle_conn_event t p e s)"
  by (cases e) (simp_all add: device_ok_def handle_conn_event_def Let_def)

text \<open>What an event tells the waiter.\<close>

fun event_result :: "conn_event \<Rightarrow> gerror option option" where
  "event_result EvtOfflineSyncCompleted = Some None"
| "event_result (EvtLoggedOut r txt) = Some (Some (Err (''logged out: '' @ txt)))"
| "event_result EvtDisconnected = Some (Some (Err ''disconnected''))"
| "event_result (EvtStreamError c ch) = Some (Some (Err (''stream error: '' @ stream_error_message c ch)))"
| "event_result EvtStreamReplaced = Some (Some (Err ''stream replaced''))"
| "event_result (EvtConnectFailure r txt msg) = Some (Some (Err (''connection failure: '' @ txt @ '' ('' @ msg @ '')'')))"
| "event_result EvtClientOutdated = Some (Some (Err ''client outdated''))"
| "event_result (EvtTemporaryBan txt) = Some (Some (Err (''temporary ban: '' @ txt)))"
| "event_result _ = None"

definition tell_waiter :: "gerror option option \<Rightarrow> gerror option list option \<Rightarrow> gerror option list option" where
  "tell_waiter r w =
     (case (r, w) of (Some v, Some []) \<Rightarrow> Some [v] | _ \<Rightarrow> w)"

lemma notify_waiter [simp]:
  "wc_offlineSyncWaiter (notifyOfflineSyncWaiter v s) = tell_waiter (Some v) (wc_offlineSyncWaiter s)"
  by (auto simp: notifyOfflineSyncWaiter_def tell_waiter_def split: option.split list.split)

lemma tell_waiter_simps [simp]:
  "tell_waiter None w = w" "tell_waiter r None = None" "tell_waiter r (Some (v # vs)) = Some (v # vs)"
  "tell_waiter (Some v) (Some []) = Some [v]"
  by (auto simp: tell_waiter_def split: option.split list.split)

lemma event_waiter [simp]:
  "wc_offlineSyncWaiter (handle_conn_event t p e s) = tell_waiter (event_result e) (wc_offlineSyncWaiter s)"
  by (cases e) (simp_all add: handle_conn_event_def Let_def)

lemma conn_events_simps [simp]:
  "conn_events [] s = s"
  "conn_events (te # evs) s = conn_events evs (handle_conn_event (fst te) (fst (snd te)) (snd (snd te)) s)"
  by (simp_all add: conn_events_def split_beta)

lemma conn_events_sel [simp]:
  "wc_running (conn_events evs s) = wc_running s" "wc_stopLoops (conn_events evs s) = wc_stopLoops s"
  "wc_contexts (conn_events evs s) = wc_contexts s"
  "wc_Client (conn_events evs s) = (if list_ex (\<lambda>(_, _, e). is_logout e) evs then None else wc_Client s)"
  by (induction evs arbitrary: s) (auto simp: split_beta)

lemma conn_events_device_ok: "device_ok s \<Longrightarrow> device_ok (conn_events evs s)"
  by (induction evs arbitrary: s) (simp_all add: event_device_ok)

lemma conn_events_waiter_full [simp]:
  "wc_offlineSyncWaiter s = Some (v # vs) \<Longrightarrow> wc_offlineSyncWaiter (conn_events evs s) = Some (v # vs)"
  by (induction evs arbitrary: s) simp_all

text \<open>The first event that has something to tell decides what the waiter gets.\<close>

lemma conn_events_waiter:
  "wc_offlineSyncWaiter s = Some [] \<Longrightarrow>
   wc_offlineSyncWaiter (conn_events evs s) =
     Some (take 1 (List.map_filter (\<lambda>(_, _, e). event_result e) evs))"
proof (induction evs arbitrary: s)
  case Nil
  then show ?case by (simp add: map_filter_simps)
next
  case (Cons te evs)
  then show ?case
    by (cases "event_result (snd (snd te))") (simp_all add: map_filter_simps split_beta)
qed


section \<open>Invariants\<close>

lemma loops_ok_eq:
  "wc_running s' = wc_running s \<Longrightarrow> wc_stopLoops s' = wc_stopLoops s \<Longrightarrow> wc_contexts s' = wc_contexts s \<Longrightarrow>
   loops_ok s' = loops_ok s"
  by (simp add: loops_ok_def)

lemma startLoops_ok: "loops_ok s \<Longrightarrow> loops_ok (startLoops s)"
  by (auto simp: loops_ok_def startLoops_def Let_def split: option.splits)

lemma startLoops_sel [simp]:
  "wc_Metadata (startLoops s) = wc_Metadata s" "wc_Client (startLoops s) = wc_Client s"
  "wc_offlineSyncWaiter (startLoops s) = wc_offlineSyncWaiter s"
  by (simp_all add: startLoops_def Let_def)

lemma Disconnect_ok: "loops_ok s \<Longrightarrow> loops_ok (Disconnect s)"
  by (auto simp: loops_ok_def Disconnect_def Let_def split: option.splits)

lemma Disconnect_sel [simp]:
  "wc_Metadata (Disconnect s) = wc_Metadata s" "wc_offlineSyncWaiter (Disconnect s) = wc_offlineSyncWaiter s"
  "wc_Client (Disconnect s) = map_option (nc_connected_update (\<lambda>_. False)) (wc_Client s)"
  "wc_stopLoops (Disconnect s) = None"
  by (simp_all add: Disconnect_def Let_def split: option.split)

lemma Connect_inv: "conn_inv s \<Longrightarrow> conn_inv (Connect ctx_err conn_err s)"
  by (auto simp: conn_inv_def Connect_def Let_def device_ok_def loops_ok_eq[of "send_state b x" x for b x] startLoops_ok
      loops_ok_eq[of "wc_Client_update f x" x for f x] split: option.split)

lemma reset_background_sel:
  "wc_running (snd (reset_background r s)) = wc_running s" "wc_stopLoops (snd (reset_background r s)) = wc_stopLoops s"
  "wc_contexts (snd (reset_background r s)) = wc_contexts s" "wc_Metadata (snd (reset_background r s)) = wc_Metadata s"
  "wc_offlineSyncWaiter (snd (reset_background r s)) = None"
  "wc_Client (snd (reset_background r s)) = map_option (set_payload False) (wc_Client s)"
  "fst (reset_background r s) = (if wc_Client s = None then Panic else r)"
  by (simp_all add: reset_background_def Let_def split: option.split)

lemma reset_background_inv: "loops_ok s \<Longrightarrow> device_ok s \<Longrightarrow> conn_inv (snd (reset_background r s))"
  by (simp add: conn_inv_def device_ok_def reset_background_sel loops_ok_eq[of "snd (reset_background r s)" s])

text \<open>A background connection in terms of its parts: the state when the wait ends, and the result.\<close>

definition background_state :: "background_env \<Rightarrow> wa_client \<Rightarrow> net_client \<Rightarrow> wa_client" where
  "background_state E s c =
     conn_events (be_events E)
       (s\<lparr>wc_offlineSyncWaiter := Some [], wc_Client := Some ((set_payload True c)\<lparr>nc_connected := True\<rparr>)\<rparr>)"

definition background_result :: "background_env \<Rightarrow> string \<Rightarrow> (unit outcome \<times> string option) option" where
  "background_result E raw =
     (case be_ctx_done E of
        Some e \<Rightarrow> Some (Fail e, None)
      | None \<Rightarrow>
        (case List.map_filter (\<lambda>(_, _, e). event_result e) (be_events E) of
           [] \<Rightarrow> None
         | Some e # _ \<Rightarrow> Some (Fail e, None)
         | None # _ \<Rightarrow> (case be_unmarshal E raw of Inl e \<Rightarrow> Some (Fail e, None)
                        | Inr pn \<Rightarrow> Some (Ok (), if pn \<noteq> [] then Some pn else None))))"

lemma ConnectBackground_unfold:
  "ConnectBackground E raw s =
     (case wc_Client s of
        None \<Rightarrow> Some (Fail ErrNotLoggedIn, None, s)
      | Some c \<Rightarrow>
        (case be_connect E of
           Some e \<Rightarrow> (let b = reset_background (Fail e) (s\<lparr>wc_offlineSyncWaiter := Some [], wc_Client := Some (set_payload True c)\<rparr>)
                     in Some (fst b, None, snd b))
         | None \<Rightarrow> map_option (\<lambda>(r, pn). let b = reset_background r (Disconnect (background_state E s c)) in (fst b, pn, snd b))
                     (background_result E raw)))"
proof -
  have "wc_offlineSyncWaiter (background_state E s c) =
      Some (take 1 (List.map_filter (\<lambda>(_, _, e). event_result e) (be_events E)))" for c
    unfolding background_state_def by (rule conn_events_waiter) simp
  then show ?thesis
    by (simp add: ConnectBackground_def background_result_def background_state_def Let_def split_beta
        split: option.split list.split sum.split)
qed

lemma background_state_ok:
  assumes "wc_Client s = Some c" and "conn_inv s"
  shows "loops_ok (background_state E s c) \<and> device_ok (background_state E s c)"
proof -
  have "loops_ok (background_state E s c)"
    using assms by (simp add: background_state_def conn_inv_def loops_ok_def)
  moreover have "device_ok (background_state E s c)"
    unfolding background_state_def
    by (rule conn_events_device_ok) (use assms in \<open>simp add: conn_inv_def device_ok_def\<close>)
  ultimately show ?thesis ..
qed

lemma ConnectBackground_inv:
  assumes "conn_inv s" and "ConnectBackground E raw s = Some (r, pn, s')"
  shows "conn_inv s'"
proof (cases "wc_Client s")
  case None
  with assms show ?thesis by (simp add: ConnectBackground_unfold)
next
  case (Some c)
  show ?thesis
  proof (cases "be_connect E")
    case None
    obtain r0 :: "unit outcome" where "s' = snd (reset_background r0 (Disconnect (background_state E s c)))"
      using assms(2) Some None by (auto simp: ConnectBackground_unfold Let_def)
    moreover have "loops_ok (Disconnect (background_state E s c))" "device_ok (Disconnect (background_state E s c))"
      using background_state_ok[OF Some assms(1)] by (simp_all add: Disconnect_ok device_ok_def)
    ultimately show ?thesis using reset_background_inv by simp
  next
    fix e assume e: "be_connect E = Some e"
    have "s' = snd (reset_background (Fail e :: unit outcome) (s\<lparr>wc_offlineSyncWaiter := Some [], wc_Client := Some (set_payload True c)\<rparr>))"
      using assms(2) Some e by (auto simp: ConnectBackground_unfold Let_def)
    moreover have "loops_ok (s\<lparr>wc_offlineSyncWaiter := Some [], wc_Client := Some (set_payload True c)\<rparr>)"
      "device_ok (s\<lparr>wc_offlineSyncWaiter := Some [], wc_Client := Some (set_payload True c)\<rparr>)"
      using assms(1) Some by (simp_all add: conn_inv_def loops_ok_def device_ok_def)
    ultimately show ?thesis using reset_background_inv by simp
  qed
qed

lemma phoneSeen_sel [simp]:
  "wc_running (phoneSeen t p ts s) = wc_running s" "wc_stopLoops (phoneSeen t p ts s) = wc_stopLoops s"
  "wc_contexts (phoneSeen t p ts s) = wc_contexts s" "wc_Client (phoneSeen t p ts s) = wc_Client s"
  "wc_offlineSyncWaiter (phoneSeen t p ts s) = wc_offlineSyncWaiter s"
  "lm_WADeviceID (wc_Metadata (phoneSeen t p ts s)) = lm_WADeviceID (wc_Metadata s)"
  by (simp_all add: phoneSeen_def Let_def)

lemma sendHackyPhonePing_device [simp]:
  "lm_WADeviceID (sendHackyPhonePing now key send m) = lm_WADeviceID m"
  "lm_PhoneLastSeen (sendHackyPhonePing now key send m) = lm_PhoneLastSeen m"
  by (simp_all add: sendHackyPhonePing_def Let_def split: sum.split)

lemma conn_step_inv:
  assumes "conn_step s s'" and "conn_inv s"
  shows "conn_inv s'"
  using assms
proof (induction rule: conn_step.induct)
  case (connect s ctx_err conn_err)
  then show ?case by (rule Connect_inv)
next
  case (background E raw s r pn s')
  then show ?case by (metis ConnectBackground_inv)
next
  case (disconnect s)
  then show ?case by (simp add: conn_inv_def Disconnect_ok device_ok_def)
next
  case (logout s)
  then show ?case
    using Disconnect_ok[of s] by (simp add: LogoutRemote_def conn_inv_def device_ok_def loops_ok_def)
next
  case (event s now prev evt)
  then show ?case
    by (simp add: conn_inv_def event_device_ok loops_ok_eq[of "handle_conn_event now prev evt s" s])
next
  case (seen s now prev ts)
  then show ?case by (simp add: conn_inv_def device_ok_def loops_ok_def)
next
  case (ping s now key send)
  then show ?case by (simp add: conn_inv_def device_ok_def loops_ok_def)
qed

lemma LoadUserLogin_inv: "conn_inv (snd (LoadUserLogin get_device i m))"
  by (simp add: LoadUserLogin_def Let_def conn_inv_def loops_ok_def device_ok_def split: sum.split bool.split)

definition loaded :: "wa_client \<Rightarrow> bool" where
  "loaded s \<longleftrightarrow> (\<exists>get_device i m err. LoadUserLogin get_device i m = (err, s))"

interpretation conn_system: invariant_system loaded conn_step conn_inv
proof
  show "loaded s \<Longrightarrow> conn_inv s" for s
    unfolding loaded_def using LoadUserLogin_inv by (metis snd_conv)
qed (rule conn_step_inv)

lemma conn_reachable_steps: "conn_reachable s \<Longrightarrow> \<exists>s0. loaded s0 \<and> conn_step\<^sup>*\<^sup>* s0 s"
proof (induction rule: conn_reachable.induct)
  case (start get_device i m err s)
  then show ?case unfolding loaded_def by blast
next
  case (step s s')
  then show ?case using rtranclp.rtrancl_into_rtrancl [of conn_step] by blast
qed

text \<open>C4: However a login is loaded, connected, connected in the background, disconnected, logged
  out and hit by connection events, at most one set of its background loops runs, and it is the
  one whose cancel function is kept, so disconnecting stops every loop; a login whose device
  was removed has no client; and no background connection leaves its waiter behind.\<close>

theorem connection_invariant:
  assumes "conn_reachable s"
  shows "wc_running s = (case wc_stopLoops s of None \<Rightarrow> [] | Some n \<Rightarrow> [n]) \<and>
         wc_running (Disconnect s) = [] \<and>
         (lm_WADeviceID (wc_Metadata s) = 0 \<longrightarrow> wc_Client s = None) \<and> wc_offlineSyncWaiter s = None"
proof -
  from assms have "conn_inv s" using conn_reachable_steps conn_system.reached by blast
  moreover from this have "wc_running (Disconnect s) = []"
    using Disconnect_ok[of s] by (simp add: conn_inv_def loops_ok_def)
  ultimately show ?thesis by (simp add: conn_inv_def loops_ok_def device_ok_def)
qed

definition sample_metadata :: LoginMetadata where
  "sample_metadata = \<lparr>lm_WADeviceID = 3, lm_PhoneLastSeen = 0, lm_PhoneLastPinged = 0\<rparr>"

definition sample_wa_client :: wa_client where
  "sample_wa_client = snd (LoadUserLogin (\<lambda>_. Inr True) ''358401234567'' sample_metadata)"

lemma sample_reachable: "conn_reachable sample_wa_client"
  unfolding sample_wa_client_def by (rule conn_reachable.start[where err = "fst (LoadUserLogin (\<lambda>_. Inr True) ''358401234567'' sample_metadata)"]) simp

theorem connection_invariant_witness:
  "wc_running (Connect False None (Connect False None sample_wa_client)) = [1] \<and>
   wc_running (Disconnect (Connect False None (Connect False None sample_wa_client))) = []"
proof -
  have "conn_reachable (Connect False None (Connect False None sample_wa_client))"
    by (intro conn_reachable.step[OF _ conn_step.connect] sample_reachable)
  from connection_invariant[OF this] show ?thesis
    by (simp add: Connect_def sample_wa_client_def LoadUserLogin_def sample_metadata_def startLoops_def send_state_def Let_def)
qed


section \<open>Background connections\<close>

text \<open>C28: How a background connection ends. Without a client it fails at once; an error of the
  connection is returned. Otherwise the context, or the first event that tells anything
  about the sync, decides: the call succeeds only if this is the end of the offline sync and
  the notification can be read, and then sends the notification's \<open>pn\<close> if there is one; it goes on
  waiting if nothing has happened. But if a logout event was handled meanwhile, the deferred
  reset of the client payload crashes on the missing client.\<close>

theorem background_connection_result:
  assumes "wc_Client s = Some c"
  shows "ConnectBackground E raw (s\<lparr>wc_Client := None\<rparr>) = Some (Fail ErrNotLoggedIn, None, s\<lparr>wc_Client := None\<rparr>) \<and>
    (\<forall>e. be_connect E = Some e \<longrightarrow> map_option fst (ConnectBackground E raw s) = Some (Fail e)) \<and>
    (be_connect E = None \<longrightarrow>
       map_option (\<lambda>(r, pn, s'). (r, pn)) (ConnectBackground E raw s) =
         map_option (\<lambda>(r, pn). (if list_ex (\<lambda>(_, _, e). is_logout e) (be_events E) then Panic else r, pn))
           (background_result E raw)) \<and>
    (\<forall>r pn s'. be_connect E = None \<and> ConnectBackground E raw s = Some (r, pn, s') \<longrightarrow>
       wc_stopLoops s' = None \<and> wc_offlineSyncWaiter s' = None \<and>
       (\<forall>c'. wc_Client s' = Some c' \<longrightarrow> \<not> nc_connected c' \<and> \<not> nc_payload c'))"
proof (intro conjI allI impI)
  show "ConnectBackground E raw (s\<lparr>wc_Client := None\<rparr>) = Some (Fail ErrNotLoggedIn, None, s\<lparr>wc_Client := None\<rparr>)"
    by (simp add: ConnectBackground_unfold)
next
  fix e assume "be_connect E = Some e"
  then show "map_option fst (ConnectBackground E raw s) = Some (Fail e)"
    using assms by (simp add: ConnectBackground_unfold Let_def reset_background_sel)
next
  assume "be_connect E = None"
  then show "map_option (\<lambda>(r, pn, s'). (r, pn)) (ConnectBackground E raw s) =
      map_option (\<lambda>(r, pn). (if list_ex (\<lambda>(_, _, e). is_logout e) (be_events E) then Panic else r, pn)) (background_result E raw)"
    using assms by (cases "background_result E raw")
      (simp_all add: ConnectBackground_unfold Let_def reset_background_sel background_state_def split_beta)
next
  fix r pn s' assume a: "be_connect E = None \<and> ConnectBackground E raw s = Some (r, pn, s')"
  then obtain r0 :: "unit outcome" where s': "s' = snd (reset_background r0 (Disconnect (background_state E s c)))"
    using assms by (auto simp: ConnectBackground_unfold Let_def)
  show "wc_stopLoops s' = None" and "wc_offlineSyncWaiter s' = None"
    by (simp_all add: s' reset_background_sel)
  fix c' assume "wc_Client s' = Some c'"
  then show "\<not> nc_connected c'" and "\<not> nc_payload c'"
    by (auto simp: s' reset_background_sel set_payload_def)
qed

definition sample_background :: "conn_event list \<Rightarrow> background_env" where
  "sample_background evs = \<lparr>be_connect = None, be_events = map (\<lambda>e. (0, [], e)) evs, be_ctx_done = None,
     be_unmarshal = Inr\<rparr>"

theorem background_connection_result_witness:
  "map_option (\<lambda>(r, pn, s'). (r, pn)) (ConnectBackground (sample_background [EvtConnected, EvtOfflineSyncCompleted]) ''pn'' sample_wa_client)
     = Some (Ok (), Some ''pn'') \<and>
   map_option (\<lambda>(r, pn, s'). (r, pn)) (ConnectBackground (sample_background [EvtLoggedOut ReasonLoggedOut []]) ''pn'' sample_wa_client)
     = Some (Panic, None)"
proof -
  have c: "wc_Client sample_wa_client = Some \<lparr>nc_connected = False, nc_logged_in = False, nc_payload = False\<rparr>"
    by (simp add: sample_wa_client_def LoadUserLogin_def sample_metadata_def Let_def)
  note r = background_connection_result[OF c, THEN conjunct2, THEN conjunct2, THEN conjunct1, THEN mp]
  show ?thesis
    using r[of "sample_background [EvtConnected, EvtOfflineSyncCompleted]" "''pn''"]
      r[of "sample_background [EvtLoggedOut ReasonLoggedOut []]" "''pn''"]
    by (simp add: sample_background_def background_result_def map_filter_simps)
qed

section \<open>The phone\<close>

lemma no_ping_within_day:
  "now \<le> lm_PhoneLastPinged m \<Longrightarrow> d \<le> 24 * 3600 * second \<Longrightarrow> \<not> needs_ping (now + d) m"
  using PhoneMinPingInterval_def by (auto simp: needs_ping_def time_sub_def second_def max_def min_def)

lemma sendHackyPhonePing_time:
  "(\<forall>ks t. send ks = Inr t \<longrightarrow> now \<le> t) \<Longrightarrow> now \<le> lm_PhoneLastPinged (sendHackyPhonePing now key send m)"
  by (auto simp: sendHackyPhonePing_def Let_def split: sum.split)

text \<open>What the bridge knows about the phone. Recording a sighting never moves it back, ignores
  one within an hour of the last, and afterwards the phone counts as recently seen for twelve
  days; a ping is only started when the phone was seen before, but not for ten days, and none was
  sent for a day, and sending it, whether it succeeds or not, stops the next one. A connected
  state is reported as phone offline exactly when the phone was not seen for twelve days; it is
  reported as connected again when the phone is seen while that state is shown.\<close>

theorem phone_sightings:
  "lm_PhoneLastSeen (wc_Metadata s) \<le> lm_PhoneLastSeen (wc_Metadata (phoneSeen now prev ts s)) \<and>
   (lm_PhoneLastSeen (wc_Metadata s) + 3600 * second \<le> ts \<and> time_sub now ts < PhoneDisconnectWarningTime \<longrightarrow>
      fst (PhoneRecentlySeen now False (wc_Metadata (phoneSeen now prev ts s)))) \<and>
   (ts < lm_PhoneLastSeen (wc_Metadata s) + 3600 * second \<longrightarrow> phoneSeen now prev ts s = s) \<and>
   (snd (PhoneRecentlySeen now True m) \<longrightarrow> lm_PhoneLastSeen m \<noteq> 0 \<and> time_sub now (lm_PhoneLastSeen m) > 10 * 24 * 3600 * second) \<and>
   ((\<forall>ks t. send ks = Inr t \<longrightarrow> t \<ge> now) \<longrightarrow> 0 \<le> d \<and> d \<le> 24 * 3600 * second \<longrightarrow>
      \<not> snd (PhoneRecentlySeen (now + d) True (sendHackyPhonePing now key send m))) \<and>
   (bs_Error (FillBridgeState now m (bridge_state StateConnected [])) = WAPhoneOffline \<longleftrightarrow>
      lm_PhoneLastSeen m \<noteq> 0 \<and> time_sub now (lm_PhoneLastSeen m) \<ge> 12 * 24 * 3600 * second) \<and>
   (lm_PhoneLastSeen (wc_Metadata s) \<noteq> 0 \<and> time_sub now (lm_PhoneLastSeen (wc_Metadata s)) \<ge> PhoneDisconnectWarningTime \<and>
      lm_PhoneLastSeen (wc_Metadata s) + 3600 * second \<le> ts \<and>
      wc_Client s = Some \<lparr>nc_connected = True, nc_logged_in = True, nc_payload = b\<rparr> \<longrightarrow>
      wc_sent (phoneSeen now WAPhoneOffline ts s) = bridge_state StateConnected [] # wc_sent s)"
proof (intro conjI)
  show "lm_PhoneLastSeen (wc_Metadata s) \<le> lm_PhoneLastSeen (wc_Metadata (phoneSeen now prev ts s))"
    by (simp add: phoneSeen_def Let_def send_state_def second_def)
  show "lm_PhoneLastSeen (wc_Metadata s) + 3600 * second \<le> ts \<and> time_sub now ts < PhoneDisconnectWarningTime \<longrightarrow>
      fst (PhoneRecentlySeen now False (wc_Metadata (phoneSeen now prev ts s)))"
    by (simp add: phoneSeen_def Let_def send_state_def PhoneRecentlySeen_def recently_seen_def)
  show "ts < lm_PhoneLastSeen (wc_Metadata s) + 3600 * second \<longrightarrow> phoneSeen now prev ts s = s"
    by (simp add: phoneSeen_def)
  show "snd (PhoneRecentlySeen now True m) \<longrightarrow>
      lm_PhoneLastSeen m \<noteq> 0 \<and> time_sub now (lm_PhoneLastSeen m) > 10 * 24 * 3600 * second"
    by (simp add: PhoneRecentlySeen_def needs_ping_def PhoneDisconnectPingTime_def)
  show "(\<forall>ks t. send ks = Inr t \<longrightarrow> t \<ge> now) \<longrightarrow> 0 \<le> d \<and> d \<le> 24 * 3600 * second \<longrightarrow>
      \<not> snd (PhoneRecentlySeen (now + d) True (sendHackyPhonePing now key send m))"
    by (simp add: PhoneRecentlySeen_def no_ping_within_day sendHackyPhonePing_time)
  show "bs_Error (FillBridgeState now m (bridge_state StateConnected [])) = WAPhoneOffline \<longleftrightarrow>
      lm_PhoneLastSeen m \<noteq> 0 \<and> time_sub now (lm_PhoneLastSeen m) \<ge> 12 * 24 * 3600 * second"
    by (auto simp: FillBridgeState_def PhoneRecentlySeen_def recently_seen_def PhoneDisconnectWarningTime_def
        bridge_state_def WAPhoneOffline_def)
  show "lm_PhoneLastSeen (wc_Metadata s) \<noteq> 0 \<and> time_sub now (lm_PhoneLastSeen (wc_Metadata s)) \<ge> PhoneDisconnectWarningTime \<and>
      lm_PhoneLastSeen (wc_Metadata s) + 3600 * second \<le> ts \<and>
      wc_Client s = Some \<lparr>nc_connected = True, nc_logged_in = True, nc_payload = b\<rparr> \<longrightarrow>
      wc_sent (phoneSeen now WAPhoneOffline ts s) = bridge_state StateConnected [] # wc_sent s"
    by (simp add: phoneSeen_def Let_def send_state_def PhoneRecentlySeen_def recently_seen_def IsLoggedIn_def)
qed

theorem phone_sightings_witness:
  "wc_sent (phoneSeen (13 * 24 * 3600 * second + 1) WAPhoneOffline (13 * 24 * 3600 * second)
     (sample_wa_client\<lparr>wc_Metadata := sample_metadata\<lparr>lm_PhoneLastSeen := 1\<rparr>,
        wc_Client := Some \<lparr>nc_connected = True, nc_logged_in = True, nc_payload = False\<rparr>\<rparr>))
   = [bridge_state StateConnected []]"
  using phone_sightings[of "sample_wa_client\<lparr>wc_Metadata := sample_metadata\<lparr>lm_PhoneLastSeen := 1\<rparr>,
        wc_Client := Some \<lparr>nc_connected = True, nc_logged_in = True, nc_payload = False\<rparr>\<rparr>"
      "13 * 24 * 3600 * second + 1" WAPhoneOffline "13 * 24 * 3600 * second" undefined undefined undefined undefined False,
      THEN conjunct2, THEN conjunct2, THEN conjunct2, THEN conjunct2, THEN conjunct2, THEN conjunct2]
  by (simp add: time_sub_def second_def PhoneDisconnectWarningTime_def sample_metadata_def sample_wa_client_def
      LoadUserLogin_def Let_def)

section \<open>A paired device is loaded\<close>

text \<open>The login that a successful pairing creates is found again when the bridge starts: for a
  device of a phone number with a device number, loading its identifier and device number
  yields the JID that was paired and a client if the store has the device; without a device
  number there is no client and the store is not asked.\<close>

theorem paired_login_loads:
  assumes "Server (ps_ID ps) = DefaultUserServer" and "User (ps_ID ps) \<noteq> []"
  shows "if Device (ps_ID ps) = 0
    then (\<forall>store. LoadUserLogin store (ul_ID (new_user_login now tz ps))
           \<lparr>lm_WADeviceID = ul_WADeviceID (new_user_login now tz ps), lm_PhoneLastSeen = 0, lm_PhoneLastPinged = 0\<rparr> =
         (None, snd (LoadUserLogin (\<lambda>_. Inr False) (User (ps_ID ps)) \<lparr>lm_WADeviceID = 0, lm_PhoneLastSeen = 0, lm_PhoneLastPinged = 0\<rparr>)))
    else (\<forall>store. store (ps_ID ps) = Inr True \<longrightarrow>
         (case LoadUserLogin store (ul_ID (new_user_login now tz ps))
            \<lparr>lm_WADeviceID = ul_WADeviceID (new_user_login now tz ps), lm_PhoneLastSeen = 0, lm_PhoneLastPinged = 0\<rparr> of
          (err, s) \<Rightarrow> err = None \<and> wc_JID s = ps_ID ps \<and> wc_Client s \<noteq> None \<and> MakeUserID (wc_JID s) = wc_LoginID s))"
proof -
  have j: "ParseUserLoginID (User (ps_ID ps)) (Device (ps_ID ps)) = ps_ID ps"
    using assms by (simp add: ParseUserLoginID_def)
  show ?thesis
    using assms by (auto simp: LoadUserLogin_def new_user_login_def MakeUserLoginID_def Let_def j MakeUserID_def)
qed

theorem paired_login_loads_witness:
  "wc_JID (snd (LoadUserLogin (\<lambda>_. Inr True) (ul_ID (new_user_login 0 [] \<lparr>ps_ID = sample_user, ps_BusinessName = []\<rparr>))
     \<lparr>lm_WADeviceID = ul_WADeviceID (new_user_login 0 [] \<lparr>ps_ID = sample_user, ps_BusinessName = []\<rparr>),
      lm_PhoneLastSeen = 0, lm_PhoneLastPinged = 0\<rparr>)) = sample_user"
  using paired_login_loads[of "\<lparr>ps_ID = sample_user, ps_BusinessName = []\<rparr>" 0 "[]"]
  by (simp add: sample_user_def split_beta)

end
