(* ===== verification/Trace.thy ===== *)
theory Trace
  imports Prelude
begin

text \<open>
  Effects as traces. A handler that calls WhatsApp, the database or the bridge framework is a
  pair: the calls it made, in their order, and its outcome. What each call answers is an
  argument of the handler, so the trace is exactly what the code does to the outside, errors
  and early returns included. \<open>tbind\<close> runs one step after another and stops at an error
  like \<open>obind\<close>; the calls made before the error stay in the trace.
\<close>

type_synonym ('c, 'a) traced = "'c list \<times> 'a outcome"

definition tlift :: "'a outcome \<Rightarrow> ('c, 'a) traced" where
  "tlift r = ([], r)"

definition temit :: "'c \<Rightarrow> ('c, unit) traced" where
  "temit c = ([c], Ok ())"

definition tcall :: "'c \<Rightarrow> gerror + 'a \<Rightarrow> ('c, 'a) traced" where
  "tcall c r = ([c], of_sum r)"

definition tbind :: "('c, 'a) traced \<Rightarrow> ('a \<Rightarrow> ('c, 'b) traced) \<Rightarrow> ('c, 'b) traced" where
  "tbind m f =
     (case snd m of
        Ok x \<Rightarrow> (fst m @ fst (f x), snd (f x))
      | Fail e \<Rightarrow> (fst m, Fail e)
      | Panic \<Rightarrow> (fst m, Panic))"

definition twrap :: "string \<Rightarrow> ('c, 'a) traced \<Rightarrow> ('c, 'a) traced" where
  "twrap msg m = (fst m, owrap msg (snd m))"

section \<open>Laws\<close>

named_theorems trace_simps

lemma tlift_simps [simp, trace_simps]: "fst (tlift r) = []" "snd (tlift r) = r"
  by (simp_all add: tlift_def)

lemma temit_simps [simp, trace_simps]: "fst (temit c) = [c]" "snd (temit c) = Ok ()"
  by (simp_all add: temit_def)

lemma tcall_simps [simp, trace_simps]: "fst (tcall c r) = [c]" "snd (tcall c r) = of_sum r"
  by (simp_all add: tcall_def)

lemma twrap_simps [simp, trace_simps]: "fst (twrap m t) = fst t" "snd (twrap m t) = owrap m (snd t)"
  by (simp_all add: twrap_def)

lemma tbind_tlift_Ok [simp]: "tbind (tlift (Ok x)) f = f x"
  by (simp add: tbind_def)

lemma tbind_tlift_Fail [simp]: "tbind (tlift (Fail e)) f = tlift (Fail e)"
  by (simp add: tbind_def tlift_def)

lemma tbind_tlift_Panic [simp]: "tbind (tlift Panic) f = tlift Panic"
  by (simp add: tbind_def tlift_def)

lemma tbind_temit [simp]: "fst (tbind (temit c) f) = c # fst (f ())" "snd (tbind (temit c) f) = snd (f ())"
  by (simp_all add: tbind_def)

lemma tbind_tcall_Inr [simp]:
  "fst (tbind (tcall c (Inr x)) f) = c # fst (f x)" "snd (tbind (tcall c (Inr x)) f) = snd (f x)"
  by (simp_all add: tbind_def)

lemma tbind_tcall_Inl [simp]:
  "fst (tbind (tcall c (Inl e)) f) = [c]" "snd (tbind (tcall c (Inl e)) f) = Fail e"
  by (simp_all add: tbind_def)

lemma snd_tbind: "snd (tbind m f) = obind (snd m) (\<lambda>x. snd (f x))"
  by (simp add: tbind_def split: outcome.split)

lemma snd_tbind_Ok [trace_simps]: "snd (tbind m f) = Ok y \<longleftrightarrow> (\<exists>x. snd m = Ok x \<and> snd (f x) = Ok y)"
  by (simp add: snd_tbind obind_eq_Ok)

lemma fst_tbind_Ok: "snd m = Ok x \<Longrightarrow> fst (tbind m f) = fst m @ fst (f x)"
  by (simp add: tbind_def)

lemma fst_tbind: "fst (tbind m f) = fst m @ (case snd m of Ok x \<Rightarrow> fst (f x) | _ \<Rightarrow> [])"
  by (simp add: tbind_def split: outcome.split)

lemma tbind_assoc: "tbind (tbind m f) g = tbind m (\<lambda>x. tbind (f x) g)"
  by (simp add: tbind_def split: outcome.split)

text \<open>Every call of a bind is a call of its first step, or of the step that follows its result.\<close>

lemma set_fst_tbind: "set (fst (tbind m f)) = set (fst m) \<union> (case snd m of Ok x \<Rightarrow> set (fst (f x)) | _ \<Rightarrow> {})"
  by (simp add: fst_tbind split: outcome.split)

lemma filter_fst_tbind:
  "filter P (fst (tbind m f)) = filter P (fst m) @ (case snd m of Ok x \<Rightarrow> filter P (fst (f x)) | _ \<Rightarrow> [])"
  by (simp add: fst_tbind split: outcome.split)

text \<open>A loop over a list whose body may fail: it stops at the first error.\<close>

fun tmap :: "('a \<Rightarrow> ('c, 'b) traced) \<Rightarrow> 'a list \<Rightarrow> ('c, 'b list) traced" where
  "tmap f [] = tlift (Ok [])"
| "tmap f (x # xs) = tbind (f x) (\<lambda>y. tbind (tmap f xs) (\<lambda>ys. tlift (Ok (y # ys))))"

end
