(* ===== verification/MatrixMessages.thy ===== *)
theory MatrixMessages
  imports Polls Backfill Trace
begin

text \<open>
  Sending from Matrix, the first half of \<open>pkg/connector/handlematrix.go\<close>: messages, polls
  and votes, reactions, edits, deletions and read receipts. Each handler is the trace of the
  calls it makes (to the bridge framework's list of pending messages and to whatsmeow) and its
  outcome. What whatsmeow answers, and the two encryption calls, are the fields of
  \<open>send_env\<close>. The converted messages themselves are the type \<open>'m\<close>: the handlers
  never look into them.
\<close>

section \<open>Calls and environment\<close>

record OutReaction =
  or_Key :: MessageKey
  or_Text :: string
  or_SenderTimestampMS :: int

text \<open>
  What is handed to \<open>SendMessage\<close>: a converted message, a reaction, an encrypted
  reaction, or the arguments given to whatsmeow's \<open>BuildEdit\<close> (with the timestamp the
  handler overrides) and \<open>BuildRevoke\<close>.
\<close>

datatype ('m, 'e) OutMessage =
    OutConverted 'm
  | OutReact OutReaction
  | OutEncReact 'e
  | OutEdit jid string 'm "int option"
  | OutRevoke jid jid string

text \<open>The message ID, and the metadata: the thread a comment belongs to and the flag that is set with it.\<close>

record SendRequestExtra =
  sre_ID :: string
  sre_ThreadMessageID :: string
  sre_ThreadMessageSender :: jid
  sre_DeprecatedLIDSession :: "bool option"

definition empty_extra :: SendRequestExtra where
  "empty_extra = \<lparr>sre_ID = [], sre_ThreadMessageID = [], sre_ThreadMessageSender = EmptyJID, sre_DeprecatedLIDSession = None\<rparr>"

record SendResponse =
  sr_Sender :: jid
  sr_Timestamp :: gotime

datatype ('m, 'e) send_call =
    AddPendingToIgnore string
  | RemovePending string
  | SendMessage jid "('m, 'e) OutMessage" SendRequestExtra
  | MarkRead "string list" gotime jid jid

record ('m, 'e) send_env =
  se_L :: jid_lib
  se_client :: client
  se_WebMessageIDPrefix :: string
  se_GenerateMessageID :: string
  se_SendMessage :: "jid \<Rightarrow> ('m, 'e) OutMessage \<Rightarrow> SendRequestExtra \<Rightarrow> gerror + SendResponse"
  se_EncryptReaction :: "MessageInfo \<Rightarrow> OutReaction \<Rightarrow> gerror + 'e"
  se_DisableStatusBroadcastSend :: bool

text \<open>The portal, transaction ID and timestamp (in milliseconds) of the Matrix event.\<close>

record MatrixEvent =
  mx_Portal :: Portal
  mx_InputTransactionID :: string
  mx_Timestamp :: int

record MatrixMessageResponse =
  mr_ID :: string
  mr_SenderID :: string
  mr_Timestamp :: gotime
  mr_Metadata :: MessageMetadata
  mr_StreamOrder :: int
  mr_RemovePending :: string
  mr_PostSave :: "(byte list \<times> string) list option"

definition ErrBroadcastSendDisabled :: gerror where
  "ErrBroadcastSendDisabled = Err ''sending status messages is disabled''"

definition ErrBroadcastReactionUnsupported :: gerror where
  "ErrBroadcastReactionUnsupported = Err ''reacting to status messages is not currently supported''"

section \<open>Messages, polls and votes\<close>

text \<open>A transaction ID that looks like a WhatsApp message ID is used as one.\<close>

definition chosen_id :: "('m, 'e) send_env \<Rightarrow> MatrixEvent \<Rightarrow> string option" where
  "chosen_id E ev =
     (if has_prefix (mx_InputTransactionID ev) (se_WebMessageIDPrefix E)
      then Some (mx_InputTransactionID ev) else None)"

definition new_message_id :: "('m, 'e) send_env \<Rightarrow> MatrixEvent \<Rightarrow> string" where
  "new_message_id E ev = (case chosen_id E ev of Some i \<Rightarrow> i | None \<Rightarrow> se_GenerateMessageID E)"

definition send_message ::
  "('m, 'e) send_env \<Rightarrow> jid \<Rightarrow> ('m, 'e) OutMessage \<Rightarrow> SendRequestExtra \<Rightarrow> (('m, 'e) send_call, SendResponse) traced" where
  "send_message E chat m extra = tcall (SendMessage chat m extra) (se_SendMessage E chat m extra)"

definition sent_with_lid :: "client \<Rightarrow> jid \<Rightarrow> SendResponse \<Rightarrow> bool" where
  "sent_with_lid c chat resp \<longleftrightarrow> sr_Sender resp = cl_LID c \<and> Server chat \<noteq> DefaultUserServer"

definition message_response :: "client \<Rightarrow> string \<Rightarrow> SendResponse \<Rightarrow> MatrixMessageResponse" where
  "message_response c picked resp =
     \<lparr>mr_ID = picked, mr_SenderID = MakeUserID (sr_Sender resp), mr_Timestamp = sr_Timestamp resp,
      mr_Metadata = empty_metadata\<lparr>md_SenderDeviceID := Device (cl_JID c)\<rparr>,
      mr_StreamOrder = go_unix (sr_Timestamp resp), mr_RemovePending = picked, mr_PostSave = None\<rparr>"

definition handleConvertedMatrixMessage ::
  "('m, 'e) send_env \<Rightarrow> MatrixEvent \<Rightarrow> 'm \<Rightarrow> SendRequestExtra option \<Rightarrow>
   (('m, 'e) send_call, MatrixMessageResponse) traced" where
  "handleConvertedMatrixMessage E ev waMsg extra =
     (let L = se_L E; c = se_client E;
          req = (case extra of None \<Rightarrow> empty_extra | Some r \<Rightarrow> r)\<lparr>sre_ID := new_message_id E ev\<rparr>
      in tbind (tlift (ParsePortalID L (pt_ID (mx_Portal ev)))) (\<lambda>chatJID.
         if chatJID = StatusBroadcastJID \<and> se_DisableStatusBroadcastSend E then tlift (Fail ErrBroadcastSendDisabled)
         else
           let wrapped = MakeMessageID L chatJID (cl_JID c) (sre_ID req);
               wrapped_lid = MakeMessageID L chatJID (cl_LID c) (sre_ID req)
           in tbind (temit (AddPendingToIgnore wrapped)) (\<lambda>_.
              tbind (temit (AddPendingToIgnore wrapped_lid)) (\<lambda>_.
              tbind (send_message E chatJID (OutConverted waMsg) req) (\<lambda>resp.
              if sent_with_lid c chatJID resp
              then tbind (temit (RemovePending wrapped)) (\<lambda>_. tlift (Ok (message_response c wrapped_lid resp)))
              else tbind (temit (RemovePending wrapped_lid)) (\<lambda>_. tlift (Ok (message_response c wrapped resp))))))))"

definition HandleMatrixMessage ::
  "('m, 'e) send_env \<Rightarrow> MatrixEvent \<Rightarrow> ('m \<times> SendRequestExtra option) outcome \<Rightarrow>
   (('m, 'e) send_call, MatrixMessageResponse) traced" where
  "HandleMatrixMessage E ev converted =
     tbind (tlift (owrap ''failed to convert message'' converted)) (\<lambda>(waMsg, req).
     handleConvertedMatrixMessage E ev waMsg req)"

text \<open>\<open>to_msg\<close> wraps the poll of \<open>PollStartToWhatsApp\<close> and its mentions in a message.\<close>

definition HandleMatrixPollStart ::
  "('m, 'e) send_env \<Rightarrow> MatrixEvent \<Rightarrow> (PollCreationMessage \<Rightarrow> string list \<Rightarrow> 'm) \<Rightarrow>
   (PollCreationMessage \<times> string list \<times> (byte list \<times> string) list) outcome \<Rightarrow>
   (('m, 'e) send_call, MatrixMessageResponse) traced" where
  "HandleMatrixPollStart E ev to_msg converted =
     tbind (tlift (owrap ''failed to convert poll vote'' converted)) (\<lambda>(poll, mentions, optionMap).
     tbind (handleConvertedMatrixMessage E ev (to_msg poll mentions) None) (\<lambda>resp.
     tlift (Ok (resp\<lparr>mr_Metadata := (mr_Metadata resp)\<lparr>md_IsMatrixPoll := True\<rparr>,
                     mr_PostSave := Some optionMap\<rparr>))))"

text \<open>The framework calls \<open>PostSave\<close> with the saved message; an error is only logged.\<close>

definition run_post_save :: "string \<Rightarrow> MatrixMessageResponse \<Rightarrow> string \<Rightarrow> wadb \<Rightarrow> wadb" where
  "run_post_save bridge resp mxid db =
     (case mr_PostSave resp of
        None \<Rightarrow> db
      | Some optionMap \<Rightarrow> (case PollOption_Put bridge mxid optionMap db of Ok db' \<Rightarrow> db' | _ \<Rightarrow> db))"

definition HandleMatrixPollVote ::
  "('m, 'e) send_env \<Rightarrow> MatrixEvent \<Rightarrow> 'm outcome \<Rightarrow> (('m, 'e) send_call, MatrixMessageResponse) traced" where
  "HandleMatrixPollVote E ev converted =
     tbind (tlift (owrap ''failed to convert poll vote'' converted)) (\<lambda>waMsg.
     handleConvertedMatrixMessage E ev waMsg None)"

section \<open>Reactions\<close>

record ReactionPreResponse =
  rp_SenderID :: string
  rp_Emoji :: string
  rp_MaxReactions :: nat

text \<open>\<open>remove_variation\<close> is \<open>variationselector.Remove\<close> of go.mau.fi/util.\<close>

definition PreHandleMatrixReaction ::
  "('m, 'e) send_env \<Rightarrow> (string \<Rightarrow> string) \<Rightarrow> Portal \<Rightarrow> string \<Rightarrow> ReactionPreResponse outcome" where
  "PreHandleMatrixReaction E remove_variation portal emoji =
     obind (owrap ''failed to parse portal ID'' (ParsePortalID (se_L E) (pt_ID portal))) (\<lambda>portalJID.
     if portalJID = StatusBroadcastJID then Fail ErrBroadcastReactionUnsupported
     else
       let sender = (if Server portalJID = HiddenUserServer \<or> pmd_CommunityAnnouncementGroup (pt_Meta portal) \<or>
                        pmd_AddressingMode (pt_Meta portal) = AddressingModeLID
                     then cl_LID (se_client E) else cl_JID (se_client E))
       in Ok \<lparr>rp_SenderID = MakeUserID sender, rp_Emoji = remove_variation emoji, rp_MaxReactions = 1\<rparr>)"

text \<open>The result carries the sender's device ID; the send error is returned beside it.\<close>

definition HandleMatrixReaction ::
  "('m, 'e) send_env \<Rightarrow> MatrixEvent \<Rightarrow> string \<Rightarrow> string \<Rightarrow> (('m, 'e) send_call, 16 word) traced" where
  "HandleMatrixReaction E ev targetID emoji =
     (let L = se_L E; c = se_client E in
      tbind (tlift (owrap ''failed to parse target message ID'' (ParseMessageID L targetID))) (\<lambda>messageID.
      tbind (tlift (owrap ''failed to parse portal ID'' (ParsePortalID L (pt_ID (mx_Portal ev))))) (\<lambda>portalJID.
      let reaction = \<lparr>or_Key = messageIDToKey L c messageID, or_Text = emoji, or_SenderTimestampMS = mx_Timestamp ev\<rparr>
      in tbind
           (if pmd_CommunityAnnouncementGroup (pt_Meta (mx_Portal ev))
            then tbind (tlift (owrap ''failed to encrypt reaction''
                        (of_sum (se_EncryptReaction E (MessageIDToInfo c messageID) reaction))))
                   (\<lambda>enc. send_message E portalJID (OutEncReact enc) (empty_extra\<lparr>sre_DeprecatedLIDSession := Some False\<rparr>))
            else send_message E portalJID (OutReact reaction) empty_extra)
           (\<lambda>_. tlift (Ok (Device (cl_JID c)))))))"

definition optional_id :: "('m, 'e) send_env \<Rightarrow> MatrixEvent \<Rightarrow> SendRequestExtra" where
  "optional_id E ev =
     (case chosen_id E ev of Some i \<Rightarrow> empty_extra\<lparr>sre_ID := i\<rparr> | None \<Rightarrow> empty_extra)"

definition HandleMatrixReactionRemove ::
  "('m, 'e) send_env \<Rightarrow> MatrixEvent \<Rightarrow> string \<Rightarrow> (('m, 'e) send_call, unit) traced" where
  "HandleMatrixReactionRemove E ev targetID =
     (let L = se_L E; c = se_client E in
      tbind (tlift (owrap ''failed to parse target message ID'' (ParseMessageID L targetID))) (\<lambda>messageID.
      tbind (tlift (owrap ''failed to parse portal ID'' (ParsePortalID L (pt_ID (mx_Portal ev))))) (\<lambda>portalJID.
      tbind (send_message E portalJID
               (OutReact \<lparr>or_Key = messageIDToKey L c messageID, or_Text = [], or_SenderTimestampMS = mx_Timestamp ev\<rparr>)
               (optional_id E ev)) (\<lambda>_.
      tlift (Ok ())))))"

section \<open>Edits and deletions\<close>

definition HandleMatrixEdit ::
  "('m, 'e) send_env \<Rightarrow> MatrixEvent \<Rightarrow> string \<Rightarrow> bool \<Rightarrow> ('m \<times> SendRequestExtra option) outcome \<Rightarrow>
   (('m, 'e) send_call, unit) traced" where
  "HandleMatrixEdit E ev targetID has_orig_sender converted =
     (let L = se_L E; editID = new_message_id E ev in
      tbind (tlift (owrap ''failed to parse target message ID'' (ParseMessageID L targetID))) (\<lambda>messageID.
      tbind (tlift (owrap ''failed to parse portal ID'' (ParsePortalID L (pt_ID (mx_Portal ev))))) (\<lambda>portalJID.
      tbind (tlift (owrap ''failed to convert message'' converted)) (\<lambda>(waMsg, _).
      tbind (send_message E portalJID
               (OutEdit (Chat messageID) (ID messageID) waMsg (if has_orig_sender then None else Some (mx_Timestamp ev)))
               (empty_extra\<lparr>sre_ID := editID\<rparr>)) (\<lambda>_.
      tlift (Ok ()))))))"

definition HandleMatrixMessageRemove ::
  "('m, 'e) send_env \<Rightarrow> MatrixEvent \<Rightarrow> string \<Rightarrow> (('m, 'e) send_call, unit) traced" where
  "HandleMatrixMessageRemove E ev targetID =
     (let L = se_L E in
      tbind (tlift (owrap ''failed to parse target message ID'' (ParseMessageID L targetID))) (\<lambda>messageID.
      tbind (tlift (owrap ''failed to parse portal ID'' (ParsePortalID L (pt_ID (mx_Portal ev))))) (\<lambda>portalJID.
      tbind (send_message E portalJID (OutRevoke (Chat messageID) (Sender messageID) (ID messageID)) (optional_id E ev)) (\<lambda>_.
      tlift (Ok ())))))"

section \<open>Read receipts\<close>

text \<open>The blank key is used when the sender is the chat itself, as in a direct chat.\<close>

definition read_key :: "ParsedMessageID \<Rightarrow> jid" where
  "read_key p = (if Sender p \<noteq> Chat p then Sender p else EmptyJID)"

text \<open>The Go map from sender to message IDs, in the order its keys were first used.\<close>

fun add_read :: "jid \<Rightarrow> string \<Rightarrow> (jid \<times> string list) list \<Rightarrow> (jid \<times> string list) list" where
  "add_read k i [] = [(k, [i])]"
| "add_read k i ((k', ids) # groups) =
     (if k' = k then (k', ids @ [i]) # groups else (k', ids) # add_read k i groups)"

fun group_reads :: "jid_lib \<Rightarrow> client \<Rightarrow> string list \<Rightarrow> (jid \<times> string list) list \<Rightarrow> (jid \<times> string list) list" where
  "group_reads L c [] groups = groups"
| "group_reads L c (m # ms) groups =
     (case ParseMessageID L m of
        Ok p \<Rightarrow> if is_me c (Sender p) then group_reads L c ms groups
                else group_reads L c ms (add_read (read_key p) (ID p) groups)
      | _ \<Rightarrow> group_reads L c ms groups)"

text \<open>
  The loop over the map: an error is logged and overwritten by the next call's result.
  \<open>mark\<close> is what \<open>MarkRead\<close> answers for a sender and its IDs.
\<close>

fun mark_groups ::
  "(jid \<Rightarrow> string list \<Rightarrow> gerror option) \<Rightarrow> gotime \<Rightarrow> jid \<Rightarrow> (jid \<times> string list) list \<Rightarrow> gerror option \<Rightarrow>
   ('m, 'e) send_call list \<times> gerror option" where
  "mark_groups mark ts portalJID [] err = ([], err)"
| "mark_groups mark ts portalJID ((sender, ids) # groups) err =
     (let (calls, last) = mark_groups mark ts portalJID groups (mark sender ids)
      in (MarkRead ids ts portalJID sender # calls, last))"

record read_receipt =
  rr_Portal :: Portal
  rr_LastRead :: gotime
  rr_ReadUpTo :: gotime
  rr_Timestamp :: gotime

text \<open>
  \<open>between\<close> is the framework's query for the IDs of the portal's messages between two
  times, and \<open>order\<close> the order in which Go iterates over the map.
\<close>

definition HandleMatrixReadReceipt ::
  "jid_lib \<Rightarrow> client \<Rightarrow> (gotime \<Rightarrow> gotime \<Rightarrow> gerror + string list) \<Rightarrow>
   ((jid \<times> string list) list \<Rightarrow> (jid \<times> string list) list) \<Rightarrow> (jid \<Rightarrow> string list \<Rightarrow> gerror option) \<Rightarrow>
   read_receipt \<Rightarrow> (('m, 'e) send_call, unit) traced" where
  "HandleMatrixReadReceipt L c between order mark receipt =
     (if \<not> rr_LastRead receipt < rr_ReadUpTo receipt then tlift (Ok ())
      else
        let lastRead = (if rr_LastRead receipt = 0 then rr_ReadUpTo receipt - 5 * second else rr_LastRead receipt)
        in tbind (tlift (owrap ''failed to parse portal ID'' (ParsePortalID L (pt_ID (rr_Portal receipt))))) (\<lambda>portalJID.
           tbind (tlift (owrap ''failed to get messages to mark as read'' (of_sum (between lastRead (rr_ReadUpTo receipt))))) (\<lambda>messages.
           if messages = [] then tlift (Ok ())
           else
             let (calls, err) = mark_groups mark (rr_Timestamp receipt) portalJID (order (group_reads L c messages [])) None
             in (calls, case err of None \<Rightarrow> Ok () | Some e \<Rightarrow> Fail e))))"

section \<open>Sending: one message, one pending ID\<close>

fun pending_after :: "string set \<Rightarrow> ('m, 'e) send_call list \<Rightarrow> string set" where
  "pending_after S [] = S"
| "pending_after S (AddPendingToIgnore i # cs) = pending_after (insert i S) cs"
| "pending_after S (RemovePending i # cs) = pending_after (S - {i}) cs"
| "pending_after S (_ # cs) = pending_after S cs"

fun sends :: "('m, 'e) send_call list \<Rightarrow> (jid \<times> ('m, 'e) OutMessage \<times> SendRequestExtra) list" where
  "sends [] = []"
| "sends (SendMessage j m x # cs) = (j, m, x) # sends cs"
| "sends (_ # cs) = sends cs"

lemma sends_append [simp]: "sends (cs @ ds) = sends cs @ sends ds"
  by (induction cs rule: sends.induct) simp_all

text \<open>The two shapes of a handler's trace: nothing sent and an error, or one message to the portal.\<close>

definition sends_once :: "jid_lib \<Rightarrow> MatrixEvent \<Rightarrow> (('m, 'e) send_call, 'a) traced \<Rightarrow> bool" where
  "sends_once L ev t \<longleftrightarrow>
     (sends (fst t) = [] \<and> (\<nexists>x. snd t = Ok x)) \<or>
     (\<exists>chat m x. ParsePortalID L (pt_ID (mx_Portal ev)) = Ok chat \<and> sends (fst t) = [(chat, m, x)])"

lemma sends_once_fail [simp, intro]: "sends_once L ev (tlift (Fail e))" "sends_once L ev (tlift Panic)"
  by (simp_all add: sends_once_def)

lemma sends_once_lift:
  assumes "\<And>x. r = Ok x \<Longrightarrow> sends_once L ev (f x)"
  shows "sends_once L ev (tbind (tlift r) f)"
  using assms by (cases r) simp_all

lemma sends_once_send:
  assumes "ParsePortalID L (pt_ID (mx_Portal ev)) = Ok chat" and "\<And>x. sends (fst (f x)) = []"
  shows "sends_once L ev (tbind (send_message E chat m extra) f)"
proof -
  have "sends (fst (tbind (send_message E chat m extra) f)) = [(chat, m, extra)]"
    using assms(2) by (simp add: fst_tbind send_message_def split: outcome.split)
  with assms(1) show ?thesis unfolding sends_once_def by blast
qed

lemma sends_once_quiet:
  assumes "sends_once L ev t" and "\<And>x. sends (fst (f x)) = []"
  shows "sends_once L ev (tbind t f)"
proof -
  have s: "sends (fst (tbind t f)) = sends (fst t)"
    using assms(2) by (simp add: fst_tbind split: outcome.split)
  have ok: "\<exists>y. snd t = Ok y" if "snd (tbind t f) = Ok x" for x
    using that by (auto simp: snd_tbind_Ok)
  show ?thesis using assms(1) s ok unfolding sends_once_def by metis
qed

lemma sends_once_message:
  "ParsePortalID L (pt_ID (mx_Portal ev)) = Ok chat \<Longrightarrow> sends_once L ev (send_message E chat m extra)"
  by (simp add: sends_once_def send_message_def)

lemma HandleMatrixReaction_sends_once: "sends_once (se_L E) ev (HandleMatrixReaction E ev t e)"
  unfolding HandleMatrixReaction_def Let_def
  by (rule sends_once_lift, rule sends_once_lift, rule sends_once_quiet)
    (auto intro!: sends_once_message sends_once_lift simp: owrap_eq_Ok)

lemma handleConverted_sends_once:
  fixes E :: "('m, 'e) send_env"
  shows "sends_once (se_L E) ev (handleConvertedMatrixMessage E ev m extra)"
proof -
  have pend: "sends_once (se_L E) ev (tbind (temit (AddPendingToIgnore i)) (\<lambda>_. t))"
    if "sends_once (se_L E) ev t" for i and t :: "(('m, 'e) send_call, MatrixMessageResponse) traced"
    using that by (simp add: sends_once_def)
  show ?thesis
    unfolding handleConvertedMatrixMessage_def Let_def
    by (intro sends_once_lift) (auto intro!: pend sends_once_send)
qed

datatype 'm MatrixRequest =
    ReqMessage "('m \<times> SendRequestExtra option) outcome"
  | ReqPollStart "PollCreationMessage \<Rightarrow> string list \<Rightarrow> 'm" "(PollCreationMessage \<times> string list \<times> (byte list \<times> string) list) outcome"
  | ReqPollVote "'m outcome"
  | ReqReaction string string
  | ReqReactionRemove string
  | ReqEdit string bool "('m \<times> SendRequestExtra option) outcome"
  | ReqRemove string

fun handle_request :: "('m, 'e) send_env \<Rightarrow> MatrixEvent \<Rightarrow> 'm MatrixRequest \<Rightarrow> (('m, 'e) send_call, unit) traced" where
  "handle_request E ev (ReqMessage m) = tbind (HandleMatrixMessage E ev m) (\<lambda>_. tlift (Ok ()))"
| "handle_request E ev (ReqPollStart f p) = tbind (HandleMatrixPollStart E ev f p) (\<lambda>_. tlift (Ok ()))"
| "handle_request E ev (ReqPollVote m) = tbind (HandleMatrixPollVote E ev m) (\<lambda>_. tlift (Ok ()))"
| "handle_request E ev (ReqReaction t e) = tbind (HandleMatrixReaction E ev t e) (\<lambda>_. tlift (Ok ()))"
| "handle_request E ev (ReqReactionRemove t) = HandleMatrixReactionRemove E ev t"
| "handle_request E ev (ReqEdit t b m) = HandleMatrixEdit E ev t b m"
| "handle_request E ev (ReqRemove t) = HandleMatrixMessageRemove E ev t"

text \<open>Whatever a Matrix user does (a message, a poll, a vote, a reaction, its removal, an
  edit or a deletion), at most one WhatsApp message is sent for it: one to the chat of the portal,
  or none, and then the user is told the error.\<close>

theorem matrix_request_sends_once: "sends_once (se_L E) ev (handle_request E ev r)"
proof (cases r)
  case (ReqReaction t e)
  then show ?thesis by (auto intro: sends_once_quiet HandleMatrixReaction_sends_once)
next
  case (ReqReactionRemove t)
  show ?thesis unfolding ReqReactionRemove handle_request.simps HandleMatrixReactionRemove_def Let_def
    by (intro sends_once_lift sends_once_send) (simp_all add: owrap_eq_Ok)
next
  case (ReqEdit t b m)
  show ?thesis unfolding ReqEdit handle_request.simps HandleMatrixEdit_def Let_def
    by (intro sends_once_lift) (auto intro!: sends_once_send simp: owrap_eq_Ok)
next
  case (ReqRemove t)
  show ?thesis unfolding ReqRemove handle_request.simps HandleMatrixMessageRemove_def Let_def
    by (intro sends_once_lift sends_once_send) (simp_all add: owrap_eq_Ok)
qed (auto simp: HandleMatrixMessage_def HandleMatrixPollStart_def HandleMatrixPollVote_def
  intro!: sends_once_quiet sends_once_lift handleConverted_sends_once)

lemma handleConverted_Ok:
  assumes "snd (handleConvertedMatrixMessage E ev m extra) = Ok resp"
  shows "\<exists>chat sr. ParsePortalID (se_L E) (pt_ID (mx_Portal ev)) = Ok chat \<and>
    (let c = se_client E; i = new_message_id E ev;
         w = MakeMessageID (se_L E) chat (cl_JID c) i; w' = MakeMessageID (se_L E) chat (cl_LID c) i;
         used = (if sent_with_lid c chat sr then w' else w); unused = (if sent_with_lid c chat sr then w else w') in
     resp = message_response c used sr \<and>
     pending_after S (fst (handleConvertedMatrixMessage E ev m extra)) = insert w' (insert w S) - {unused})"
proof -
  obtain chat where chat: "ParsePortalID (se_L E) (pt_ID (mx_Portal ev)) = Ok chat"
    using assms by (auto simp: handleConvertedMatrixMessage_def Let_def snd_tbind_Ok)
  define x where "x = (case extra of None \<Rightarrow> empty_extra | Some r \<Rightarrow> r)\<lparr>sre_ID := new_message_id E ev\<rparr>"
  have i: "sre_ID x = new_message_id E ev" by (simp add: x_def)
  have dis: "\<not> (chat = StatusBroadcastJID \<and> se_DisableStatusBroadcastSend E)"
    using assms chat by (auto simp: handleConvertedMatrixMessage_def Let_def)
  obtain sr where sr: "se_SendMessage E chat (OutConverted m) x = Inr sr"
    using assms chat dis
    by (cases "se_SendMessage E chat (OutConverted m) x")
      (auto simp: handleConvertedMatrixMessage_def Let_def send_message_def x_def)
  show ?thesis
    using assms chat dis sr i
    by (intro exI [of _ chat] exI [of _ sr])
      (auto simp: handleConvertedMatrixMessage_def Let_def send_message_def x_def [symmetric])
qed

lemma MakeMessageID_sender_inj:
  assumes L: "jid_lib_ok L" and p: "plain_jid (a\<lparr>Device := 0\<rparr>)" "plain_jid (b\<lparr>Device := 0\<rparr>)"
    and eq: "MakeMessageID L chat a i = MakeMessageID L chat b i"
  shows "a\<lparr>Device := 0\<rparr> = b\<lparr>Device := 0\<rparr>"
proof -
  have "jid_string L (a\<lparr>Device := 0\<rparr>) = jid_string L (b\<lparr>Device := 0\<rparr>)"
    using eq by (simp add: MakeMessageID_def to_non_ad [OF L])
  then have "parse_jid L (jid_string L (a\<lparr>Device := 0\<rparr>)) = parse_jid L (jid_string L (b\<lparr>Device := 0\<rparr>))"
    by (rule arg_cong)
  then show ?thesis unfolding parse_jid_string [OF L p(1)] parse_jid_string [OF L p(2)] by (rule sum.inject(2) [THEN iffD1])
qed

text \<open>The sample: a group message answered by the server under the user's LID.\<close>

definition sample_send_env :: "(string, string) send_env" where
  "sample_send_env = \<lparr>se_L = sample_jid_lib, se_client = sample_client, se_WebMessageIDPrefix = ''3EB0'',
     se_GenerateMessageID = ''3EB0AA'',
     se_SendMessage = (\<lambda>_ _ _. Inr \<lparr>sr_Sender = cl_LID sample_client, sr_Timestamp = time_unix 1700000000\<rparr>),
     se_EncryptReaction = (\<lambda>_ _. Inr ''encrypted''), se_DisableStatusBroadcastSend = True\<rparr>"

definition sample_matrix_event :: MatrixEvent where
  "sample_matrix_event = \<lparr>mx_Portal = sample_portal, mx_InputTransactionID = ''txn1'', mx_Timestamp = 1700000000000\<rparr>"


lemma sample_clients_plain: "plain_jid ((cl_JID sample_client)\<lparr>Device := 0\<rparr>)" "plain_jid ((cl_LID sample_client)\<lparr>Device := 0\<rparr>)"
  by (simp_all add: sample_client_def plain_jid_def plain_user_def)

lemma sample_portal_jid: "ParsePortalID sample_jid_lib (pt_ID sample_portal) = Ok sample_group"
  by code_simp


text \<open>
  In a community announcement group a reaction is sent encrypted, and its removal is not.
\<close>

lemma announcement_reaction_removal_plain:
  assumes "pmd_CommunityAnnouncementGroup (pt_Meta (mx_Portal ev))"
    and "ParseMessageID (se_L E) target = Ok p" and "ParsePortalID (se_L E) (pt_ID (mx_Portal ev)) = Ok chat"
    and "se_EncryptReaction E (MessageIDToInfo (se_client E) p)
      \<lparr>or_Key = messageIDToKey (se_L E) (se_client E) p, or_Text = emoji, or_SenderTimestampMS = mx_Timestamp ev\<rparr> = Inr enc"
  shows "map (fst \<circ> snd) (sends (fst (HandleMatrixReaction E ev target emoji))) = [OutEncReact enc]
    \<and> map (fst \<circ> snd) (sends (fst (HandleMatrixReactionRemove E ev target)))
      = [OutReact \<lparr>or_Key = messageIDToKey (se_L E) (se_client E) p, or_Text = [], or_SenderTimestampMS = mx_Timestamp ev\<rparr>]"
  using assms
  by (simp add: HandleMatrixReaction_def HandleMatrixReactionRemove_def Let_def fst_tbind send_message_def
    split: outcome.split sum.split)

section \<open>Read receipts: every foreign message once, under its sender\<close>

text \<open>What has to be marked: the messages with a usable ID that the user did not send.\<close>

definition foreign_reads :: "jid_lib \<Rightarrow> client \<Rightarrow> string list \<Rightarrow> (jid \<times> string) list" where
  "foreign_reads L c = List.map_filter (\<lambda>m. case ParseMessageID L m of
     Ok p \<Rightarrow> if is_me c (Sender p) then None else Some (read_key p, ID p) | _ \<Rightarrow> None)"

definition group_of :: "(jid \<times> string list) list \<Rightarrow> jid \<Rightarrow> string list" where
  "group_of groups k = (case map_of groups k of Some ids \<Rightarrow> ids | None \<Rightarrow> [])"

lemma group_reads_fold:
  "group_reads L c ms groups = fold (\<lambda>(k, i). add_read k i) (foreign_reads L c ms) groups"
  by (induction ms arbitrary: groups) (auto simp: foreign_reads_def List.map_filter_simps split: outcome.split)

lemma add_read_keys: "fst ` set (add_read k i groups) = insert k (fst ` set groups)"
  by (induction k i groups rule: add_read.induct) (simp_all add: insert_commute)

lemma add_read_distinct: "distinct (map fst groups) \<Longrightarrow> distinct (map fst (add_read k i groups))"
  by (induction k i groups rule: add_read.induct) (auto simp: add_read_keys)

lemma group_of_simps [simp]: "group_of [] k = []"
  "group_of ((k', ids) # groups) k = (if k' = k then ids else group_of groups k)"
  by (simp_all add: group_of_def)

lemma add_read_group: "group_of (add_read k i groups) k' = (if k' = k then group_of groups k @ [i] else group_of groups k')"
  by (induction k i groups rule: add_read.induct) auto

lemma add_read_nonempty: "\<forall>g\<in>set groups. snd g \<noteq> [] \<Longrightarrow> \<forall>g\<in>set (add_read k i groups). snd g \<noteq> []"
  by (induction k i groups rule: add_read.induct) simp_all

lemma fold_add_read:
  assumes "distinct (map fst groups)" and "\<forall>g\<in>set groups. snd g \<noteq> []"
  shows "distinct (map fst (fold (\<lambda>(k, i). add_read k i) ps groups))
    \<and> (\<forall>g\<in>set (fold (\<lambda>(k, i). add_read k i) ps groups). snd g \<noteq> [])
    \<and> (\<forall>k. group_of (fold (\<lambda>(k, i). add_read k i) ps groups) k = group_of groups k @ map snd (filter (\<lambda>p. fst p = k) ps))"
  using assms
proof (induction ps arbitrary: groups)
  case (Cons p ps)
  obtain k i where p: "p = (k, i)" by (cases p)
  have ih: "distinct (map fst (add_read k i groups))" "\<forall>g\<in>set (add_read k i groups). snd g \<noteq> []"
    using Cons.prems add_read_distinct add_read_nonempty by blast+
  show ?case using Cons.IH [OF ih] by (auto simp: p add_read_group)
qed simp

lemma mark_groups_calls:
  "fst (mark_groups mark ts chat groups err) = map (\<lambda>(s, ids). MarkRead ids ts chat s) groups"
  by (induction groups arbitrary: err) (auto simp: case_prod_beta Let_def)

lemma mark_groups_error:
  "snd (mark_groups mark ts chat groups err) = (if groups = [] then err else mark (fst (last groups)) (snd (last groups)))"
  by (induction groups arbitrary: err) (auto simp: case_prod_beta Let_def)

lemma group_of_perm:
  assumes "mset gs = mset groups" and "distinct (map fst groups)"
  shows "distinct (map fst gs) \<and> set gs = set groups \<and> group_of gs k = group_of groups k"
proof -
  have m: "mset (map fst gs) = mset (map fst groups)" using assms(1) by simp
  then have d: "distinct (map fst gs)" using assms(2) mset_eq_imp_distinct_iff by blast
  have s: "set gs = set groups" using assms(1) mset_eq_setD by blast
  have "map_of gs k = map_of groups k"
    using d assms(2) s by (metis map_of_eq_Some_iff not_Some_eq)
  with d s show ?thesis by (simp add: group_of_def)
qed

text \<open>C14: A Matrix read receipt marks exactly the messages of the covered time span that have a
  WhatsApp identifier and were not sent by the user: with one \<open>MarkRead\<close> call per sender
  (the blank sender in direct chats), each with that sender's messages in their order, all in
  the portal's chat and with the receipt's time, whatever order Go iterates over the map in.\<close>

theorem read_receipt_marks_foreign:
  assumes "rr_LastRead r < rr_ReadUpTo r"
    and "between (if rr_LastRead r = 0 then rr_ReadUpTo r - 5 * second else rr_LastRead r) (rr_ReadUpTo r) = Inr ms"
    and "ParsePortalID L (pt_ID (rr_Portal r)) = Ok chat" and "\<And>gs. mset (order gs) = mset gs"
  shows "\<exists>groups. fst (HandleMatrixReadReceipt L c between order mark r)
      = map (\<lambda>(s, ids). MarkRead ids (rr_Timestamp r) chat s) groups
    \<and> distinct (map fst groups) \<and> [] \<notin> snd ` set groups
    \<and> (\<forall>s. group_of groups s = map snd (filter (\<lambda>p. fst p = s) (foreign_reads L c ms)))"
proof (cases "ms = []")
  case True
  with assms show ?thesis
    by (intro exI [of _ "[]"]) (simp add: HandleMatrixReadReceipt_def Let_def foreign_reads_def List.map_filter_simps group_of_def)
next
  case False
  let ?gs = "group_reads L c ms []"
  have calls: "fst (HandleMatrixReadReceipt L c between order mark r)
      = map (\<lambda>(s, ids). MarkRead ids (rr_Timestamp r) chat s) (order ?gs)"
    using assms(1-3) False by (simp add: HandleMatrixReadReceipt_def Let_def mark_groups_calls case_prod_beta)
  have g: "distinct (map fst ?gs)" "\<forall>g\<in>set ?gs. snd g \<noteq> []"
    "\<forall>k. group_of ?gs k = map snd (filter (\<lambda>p. fst p = k) (foreign_reads L c ms))"
    using fold_add_read [of "[]" "foreign_reads L c ms"] by (simp_all add: group_reads_fold group_of_def)
  show ?thesis using calls g group_of_perm [OF assms(4) g(1)]
    by (intro exI [of _ "order ?gs"]) auto
qed

definition sample_read_receipt :: read_receipt where
  "sample_read_receipt = \<lparr>rr_Portal = sample_portal, rr_LastRead = 0, rr_ReadUpTo = time_unix 1700000000, rr_Timestamp = time_unix 1700000001\<rparr>"

definition sample_reads :: "string list" where
  "sample_reads = [''1234-5678@g.us:77@lid:A1'', ''1234-5678@g.us:358@s.whatsapp.net:B1'', ''bogus'', ''1234-5678@g.us:77@lid:A2'']"

lemma sample_foreign_reads:
  "foreign_reads sample_jid_lib sample_client sample_reads =
    [(\<lparr>User = ''77'', Server = HiddenUserServer, Device = 0\<rparr>, ''A1''), (\<lparr>User = ''77'', Server = HiddenUserServer, Device = 0\<rparr>, ''A2'')]"
  by code_simp

theorem read_receipt_marks_foreign_witness:
  "\<exists>groups. fst (HandleMatrixReadReceipt sample_jid_lib sample_client (\<lambda>_ _. Inr sample_reads) rev (\<lambda>_ _. None) sample_read_receipt)
      = map (\<lambda>(s, ids). MarkRead ids (time_unix 1700000001) sample_group s) groups
    \<and> group_of groups \<lparr>User = ''77'', Server = HiddenUserServer, Device = 0\<rparr> = [''A1'', ''A2'']"
proof -
  have lt: "rr_LastRead sample_read_receipt < rr_ReadUpTo sample_read_receipt"
    by (simp add: sample_read_receipt_def time_unix_def unix_epoch_def second_def)
  have p: "ParsePortalID sample_jid_lib (pt_ID (rr_Portal sample_read_receipt)) = Ok sample_group"
    using sample_portal_jid by (simp add: sample_read_receipt_def)
  have ts: "rr_Timestamp sample_read_receipt = time_unix 1700000001" by (simp add: sample_read_receipt_def)
  show ?thesis
    using read_receipt_marks_foreign [where between = "\<lambda>_ _. Inr sample_reads" and order = rev and mark = "\<lambda>_ _. None"
        and c = sample_client, OF lt refl p mset_rev] sample_foreign_reads ts by auto
qed

text \<open>
  The handler's own result is the last call's alone: a receipt that failed for one sender and
  succeeded for the sender the map yields last is reported as delivered.
\<close>

lemma read_receipt_error_lost:
  "snd (mark_groups mark ts chat [(s, ids), (s', ids')] None) = mark s' ids'"
  by (simp add: mark_groups_error)

end
