(* ===== verification/MatrixRooms.thy ===== *)
theory MatrixRooms
  imports MatrixMessages ChatInfo
begin

text \<open>
  Room changes from Matrix, the second half of \<open>pkg/connector/handlematrix.go\<close>: typing,
  disappearing timers, membership, the room's name, topic and avatar, and the user's own mute,
  tag, unread mark and deletion of a chat. A handler that changes the portal returns the calls
  it made with its outcome, and the portal as it leaves it, errors included. The answers of
  whatsmeow and of the bridge framework are arguments.
\<close>

section \<open>Calls and the portal\<close>

datatype ChatPresence = Composing | Paused
datatype PresenceMedia = PresenceText | PresenceAudio
datatype TypingType = TypingText | TypingRecordingMedia | TypingUploadingMedia
datatype ParticipantChange = ParticipantAdd | ParticipantRemove

datatype room_call =
    UpdatePresenceAvailable
  | SendChatPresence jid ChatPresence PresenceMedia
  | SetDisappearingTimer jid int gotime
  | UpdateGroupParticipants jid "jid list" ParticipantChange
  | SetGroupName jid string
  | SetGroupTopic jid string string string
  | SetGroupPhoto jid "byte list option"
  | AppMute jid bool "int option"
  | AppPin jid bool
  | AppMarkChatAsRead jid bool gotime "MessageKey option"
  | AppDeleteChat jid gotime MessageKey
  | LeaveGroup jid

record Room =
  rm_Portal :: Portal
  rm_RoomType :: RoomType
  rm_Name :: string
  rm_NameSet :: bool
  rm_Topic :: string
  rm_TopicSet :: bool
  rm_AvatarMXC :: string
  rm_AvatarHash :: "byte list"
  rm_AvatarID :: string
  rm_AvatarSet :: bool

type_synonym 'a room_result = "(room_call, 'a) traced \<times> Room"

definition room_jid :: "jid_lib \<Rightarrow> Room \<Rightarrow> jid outcome" where
  "room_jid L rm = ParsePortalID L (pt_ID (rm_Portal rm))"

text \<open>A Unix time in milliseconds.\<close>

definition milli :: int where "milli = 10 ^ 6"

definition time_unix_milli :: "int \<Rightarrow> gotime" where
  "time_unix_milli ms = ms * milli + unix_epoch * second"

definition go_unix_milli :: "gotime \<Rightarrow> int" where
  "go_unix_milli t = (t - unix_epoch * second) div milli"

section \<open>Typing and disappearing timers\<close>

definition HandleMatrixTyping ::
  "jid_lib \<Rightarrow> bool \<Rightarrow> (jid \<Rightarrow> ChatPresence \<Rightarrow> PresenceMedia \<Rightarrow> gerror + unit) \<Rightarrow> Room \<Rightarrow> bool \<Rightarrow> TypingType \<Rightarrow>
   (room_call, unit) traced" where
  "HandleMatrixTyping L sendPresenceOnTyping send rm isTyping typ =
     tbind (tlift (room_jid L rm)) (\<lambda>portalJID.
       let chatPresence = (if isTyping then Composing else Paused);
           media = (case typ of TypingText \<Rightarrow> Some PresenceText | TypingRecordingMedia \<Rightarrow> Some PresenceAudio
                    | TypingUploadingMedia \<Rightarrow> None)
       in case media of
            None \<Rightarrow> tlift (Ok ())
          | Some m \<Rightarrow>
              tbind (if sendPresenceOnTyping then temit UpdatePresenceAvailable else tlift (Ok ())) (\<lambda>_.
              tcall (SendChatPresence portalJID chatPresence m) (send portalJID chatPresence m)))"

text \<open>The durations WhatsApp accepts: off, 24 hours, 7 days and 90 days.\<close>

definition day :: int where "day = 24 * 3600 * second"

definition allowed_timers :: "int list" where
  "allowed_timers = [0, day, 7 * day, 90 * day]"

definition errUnsupportedDisappearingTimer :: gerror where
  "errUnsupportedDisappearingTimer = Err ''invalid value for disappearing timer''"

definition HandleMatrixDisappearingTimer ::
  "jid_lib \<Rightarrow> (jid \<Rightarrow> int \<Rightarrow> gotime \<Rightarrow> gerror + unit) \<Rightarrow> Room \<Rightarrow> int \<Rightarrow> int \<Rightarrow> bool room_result" where
  "HandleMatrixDisappearingTimer L set_timer rm timer event_ts =
     (case room_jid L rm of
        Fail e \<Rightarrow> (tlift (Fail e), rm)
      | Panic \<Rightarrow> (tlift Panic, rm)
      | Ok portalJID \<Rightarrow>
          if timer \<notin> set allowed_timers then (tlift (Fail errUnsupportedDisappearingTimer), rm)
          else
            let settingTS = time_unix_milli event_ts; call = SetDisappearingTimer portalJID timer settingTS
            in case set_timer portalJID timer settingTS of
                 Inl e \<Rightarrow> (([call], Fail e), rm)
               | Inr _ \<Rightarrow>
                   let p = rm_Portal rm;
                       p' = p\<lparr>pt_Meta := (pt_Meta p)\<lparr>pmd_DisappearingTimerSetAt := go_unix settingTS\<rparr>,
                              pt_Disappear := \<lparr>dis_Type = (if timer = 0 then NoDisappear else AfterSend), dis_Timer = timer\<rparr>\<rparr>
                   in (([call], Ok True), rm\<lparr>rm_Portal := p'\<rparr>))"

section \<open>Membership\<close>

datatype MembershipType = Invite | Leave | Kick | OtherMembership string

text \<open>The target is a ghost, a login (with the framework's lookup of its ghost) or neither.\<close>

datatype MembershipTarget = TargetGhost string | TargetLogin "gerror + string" | TargetOther string

definition membership_target :: "jid_lib \<Rightarrow> MembershipTarget \<Rightarrow> jid outcome" where
  "membership_target L t =
     (case t of
        TargetGhost i \<Rightarrow> Ok (ParseUserID L i)
      | TargetLogin r \<Rightarrow> obind (owrap ''failed to get ghost for user'' (of_sum r)) (\<lambda>i. Ok (ParseUserID L i))
      | TargetOther typ \<Rightarrow> Fail (Err (''cannot get target intent: unknown type: '' @ typ)))"

fun participant_change :: "MembershipType \<Rightarrow> ParticipantChange option" where
  "participant_change Invite = Some ParticipantAdd"
| "participant_change Leave = Some ParticipantRemove"
| "participant_change Kick = Some ParticipantRemove"
| "participant_change (OtherMembership _) = None"

text \<open>
  \<open>update\<close> answers the changed participants with their error codes. The result is the user
  the invite is redirected to, or nothing.
\<close>

definition HandleMatrixMembership ::
  "jid_lib \<Rightarrow> (jid \<Rightarrow> jid list \<Rightarrow> ParticipantChange \<Rightarrow> gerror + (jid \<times> nat) list) \<Rightarrow> Room \<Rightarrow> MembershipType \<Rightarrow>
   MembershipTarget \<Rightarrow> (room_call, string option) traced" where
  "HandleMatrixMembership L update rm typ target =
     tbind (tlift (room_jid L rm)) (\<lambda>portalJID.
     if rm_RoomType rm = RoomTypeDM then
       if typ = Invite then tlift (Fail (Err ''cannot invite additional user to dm'')) else tlift (Ok None)
     else case participant_change typ of
         None \<Rightarrow> tlift (Ok None)
       | Some action \<Rightarrow>
           tbind (tlift (membership_target L target)) (\<lambda>j.
           tbind (tcall (UpdateGroupParticipants portalJID [j] action) (update portalJID [j] action)) (\<lambda>resp.
           case resp of
             [] \<Rightarrow> tlift (Fail (Err ''no response for participant change''))
           | (changed, code) # _ \<Rightarrow>
               if code \<noteq> 0 then tlift (Fail (Err (''failed to change participant: code '' @ format_nat code)))
               else tlift (Ok (Some (MakeUserID changed))))))"

section \<open>Name, topic and avatar\<close>

definition HandleMatrixRoomName ::
  "jid_lib \<Rightarrow> (jid \<Rightarrow> string \<Rightarrow> gerror + unit) \<Rightarrow> Room \<Rightarrow> string \<Rightarrow> bool room_result" where
  "HandleMatrixRoomName L set_name rm name =
     (case room_jid L rm of
        Fail e \<Rightarrow> (tlift (Fail e), rm)
      | Panic \<Rightarrow> (tlift Panic, rm)
      | Ok portalJID \<Rightarrow>
          if rm_RoomType rm = RoomTypeDM then (tlift (Fail (Err ''cannot set room name for DM'')), rm)
          else case set_name portalJID name of
                 Inl e \<Rightarrow> (([SetGroupName portalJID name], Fail e), rm)
               | Inr _ \<Rightarrow> (([SetGroupName portalJID name], Ok True), rm\<lparr>rm_Name := name, rm_NameSet := True\<rparr>))"

definition topic_id :: "Room \<Rightarrow> string" where
  "topic_id rm = pmd_TopicID (pt_Meta (rm_Portal rm))"

text \<open>\<open>newID\<close> is the message ID whatsmeow generates for the change.\<close>

definition HandleMatrixRoomTopic ::
  "jid_lib \<Rightarrow> (jid \<Rightarrow> string \<Rightarrow> string \<Rightarrow> string \<Rightarrow> gerror + unit) \<Rightarrow> string \<Rightarrow> Room \<Rightarrow> string \<Rightarrow> bool room_result" where
  "HandleMatrixRoomTopic L set_topic newID rm topic =
     (case room_jid L rm of
        Fail e \<Rightarrow> (tlift (Fail e), rm)
      | Panic \<Rightarrow> (tlift Panic, rm)
      | Ok portalJID \<Rightarrow>
          if rm_RoomType rm = RoomTypeDM then (tlift (Fail (Err ''cannot set room topic for DM'')), rm)
          else
            let oldID = topic_id rm; call = SetGroupTopic portalJID oldID newID topic
            in case set_topic portalJID oldID newID topic of
                 Inl e \<Rightarrow> (([call], Fail e), rm)
               | Inr _ \<Rightarrow>
                   let p = rm_Portal rm
                   in (([call], Ok True),
                       rm\<lparr>rm_Topic := topic, rm_TopicSet := True,
                          rm_Portal := p\<lparr>pt_Meta := (pt_Meta p)\<lparr>pmd_TopicID := newID\<rparr>\<rparr>\<rparr>))"

text \<open>
  Go's image packages: the size and format of some data, its decoding, the scaling of a
  rectangle onto a square of a size, and the JPEG encoder.
\<close>

type_synonym rect = "int \<times> int \<times> int \<times> int"

record 'i image_lib =
  il_DecodeConfig :: "byte list \<Rightarrow> gerror + int \<times> int \<times> string"
  il_Decode :: "byte list \<Rightarrow> gerror + 'i"
  il_Scale :: "int \<Rightarrow> rect \<Rightarrow> 'i \<Rightarrow> 'i"
  il_EncodeJPEG :: "'i \<Rightarrow> gerror + byte list"

definition avatarMaxSize :: int where "avatarMaxSize = 720"
definition avatarMinSize :: int where "avatarMinSize = 190"

text \<open>The size of the result and the rectangle (left, top, right, bottom) it is scaled from.\<close>

definition avatar_crop :: "int \<Rightarrow> int \<Rightarrow> int \<times> rect" where
  "avatar_crop width height =
     (if width > height then
        let offset = (width - height) div 2
        in (max avatarMinSize (min height avatarMaxSize), (offset, 0, width - offset, height))
      else
        let offset = (height - width) div 2
        in (max avatarMinSize (min width avatarMaxSize), (0, offset, width, height - offset)))"

definition is_correct_size :: "int \<Rightarrow> int \<Rightarrow> bool" where
  "is_correct_size width height \<longleftrightarrow> width = height \<and> avatarMinSize < width \<and> width < avatarMaxSize"

definition convertRoomAvatar :: "'i image_lib \<Rightarrow> byte list \<Rightarrow> byte list outcome" where
  "convertRoomAvatar I data =
     obind (owrap ''failed to decode avatar'' (of_sum (il_DecodeConfig I data))) (\<lambda>(width, height, imageType).
     if is_correct_size width height \<and> imageType = ''jpeg'' then Ok data
     else if length data > 10 * 1024 * 1024 \<or> width > 12000 \<or> height > 12000
     then Fail (Err ''avatar is too large for re-encoding'')
     else
       obind (owrap ''failed to decode avatar'' (of_sum (il_Decode I data))) (\<lambda>img.
       let img' = (if is_correct_size width height then img
                   else let (dst, crop) = avatar_crop width height in il_Scale I dst crop img)
       in owrap ''failed to re-encode avatar'' (of_sum (il_EncodeJPEG I img'))))"

definition avatar_data :: "'i image_lib \<Rightarrow> (string \<Rightarrow> gerror + byte list) \<Rightarrow> string \<Rightarrow> byte list option outcome" where
  "avatar_data I download url =
     (if url = [] then Ok None
      else obind (owrap ''failed to download avatar'' (of_sum (download url))) (\<lambda>data.
           obind (convertRoomAvatar I data) (\<lambda>jpeg. Ok (Some jpeg))))"

definition HandleMatrixRoomAvatar ::
  "jid_lib \<Rightarrow> 'i image_lib \<Rightarrow> (byte list \<Rightarrow> byte list) \<Rightarrow> (string \<Rightarrow> gerror + byte list) \<Rightarrow>
   (jid \<Rightarrow> byte list option \<Rightarrow> gerror + string) \<Rightarrow> Room \<Rightarrow> string \<Rightarrow> bool room_result" where
  "HandleMatrixRoomAvatar L I sha256 download set_photo rm url =
     (case room_jid L rm of
        Fail e \<Rightarrow> (tlift (Fail e), rm)
      | Panic \<Rightarrow> (tlift Panic, rm)
      | Ok portalJID \<Rightarrow>
          if rm_RoomType rm = RoomTypeDM then (tlift (Fail (Err ''cannot set room avatar for DM'')), rm)
          else case avatar_data I download url of
                 Fail e \<Rightarrow> (tlift (Fail e), rm)
               | Panic \<Rightarrow> (tlift Panic, rm)
               | Ok data \<Rightarrow>
                   (case set_photo portalJID data of
                      Inl e \<Rightarrow> (([SetGroupPhoto portalJID data], Fail e), rm)
                    | Inr avatarID \<Rightarrow>
                        (([SetGroupPhoto portalJID data], Ok True),
                         (case data of
                            None \<Rightarrow> rm\<lparr>rm_AvatarMXC := url, rm_AvatarHash := replicate 32 0, rm_AvatarID := ''remove'', rm_AvatarSet := True\<rparr>
                          | Some d \<Rightarrow> rm\<lparr>rm_AvatarMXC := url, rm_AvatarHash := sha256 d, rm_AvatarID := avatarID, rm_AvatarSet := True\<rparr>))))"

section \<open>The user's own settings\<close>

definition HandleMute ::
  "jid_lib \<Rightarrow> (room_call \<Rightarrow> gerror + unit) \<Rightarrow> gotime \<Rightarrow> Room \<Rightarrow> muted \<Rightarrow> (room_call, unit) traced" where
  "HandleMute L send_app_state now rm mutedUntil =
     tbind (tlift (room_jid L rm)) (\<lambda>chatJID.
       let muted = (case mutedUntil of MutedForever \<Rightarrow> True | Unmuted \<Rightarrow> False | MutedUntil t \<Rightarrow> now < t);
           muteTS = (case mutedUntil of MutedUntil t \<Rightarrow> if muted then Some (go_unix_milli t) else None | _ \<Rightarrow> None);
           call = AppMute chatJID muted muteTS
       in tcall call (send_app_state call))"

definition HandleRoomTag ::
  "jid_lib \<Rightarrow> (room_call \<Rightarrow> gerror + unit) \<Rightarrow> Room \<Rightarrow> string set \<Rightarrow> (room_call, unit) traced" where
  "HandleRoomTag L send_app_state rm tags =
     tbind (tlift (room_jid L rm)) (\<lambda>chatJID.
       let call = AppPin chatJID (''m.favourite'' \<in> tags) in tcall call (send_app_state call))"

text \<open>\<open>last_msgs\<close> is the framework's query for the last message of the portal.\<close>

definition last_key :: "jid_lib \<Rightarrow> client \<Rightarrow> jid \<Rightarrow> ParsedMessageID \<Rightarrow> MessageKey" where
  "last_key L c chatJID parsed =
     \<lparr>mk_RemoteJID = Some (jid_string L chatJID),
      mk_FromMe = Some (to_non_ad L (Sender parsed) = to_non_ad L (cl_JID c) \<or> to_non_ad L (Sender parsed) = to_non_ad L (cl_LID c)),
      mk_ID = Some (ID parsed),
      mk_Participant = (if Server chatJID = GroupServer then Some (jid_string L (Sender parsed)) else None)\<rparr>"

definition getLastMessageInfo ::
  "jid_lib \<Rightarrow> client \<Rightarrow> gerror + (string \<times> gotime) list \<Rightarrow> jid \<Rightarrow> (gotime \<times> MessageKey option) outcome" where
  "getLastMessageInfo L c last_msgs chatJID =
     obind (owrap ''failed to get last message in portal'' (of_sum last_msgs)) (\<lambda>msgs.
     case msgs of
       [(i, ts)] \<Rightarrow> (case ParseMessageID L i of
                      Ok parsed \<Rightarrow> Ok (ts, Some (last_key L c chatJID parsed))
                    | _ \<Rightarrow> Ok (ts, None))
     | _ \<Rightarrow> Ok (0, None))"

definition HandleMarkedUnread ::
  "jid_lib \<Rightarrow> client \<Rightarrow> (room_call \<Rightarrow> gerror + unit) \<Rightarrow> gerror + (string \<times> gotime) list \<Rightarrow> Room \<Rightarrow> bool \<Rightarrow>
   (room_call, unit) traced" where
  "HandleMarkedUnread L c send_app_state last_msgs rm unread =
     tbind (tlift (room_jid L rm)) (\<lambda>chatJID.
     tbind (tlift (getLastMessageInfo L c last_msgs chatJID)) (\<lambda>(lastTS, lastKey).
       let call = AppMarkChatAsRead chatJID unread lastTS lastKey in tcall call (send_app_state call)))"

text \<open>\<open>joined\<close> is the framework's answer whether the user is still joined to the room.\<close>

definition HandleMatrixDeleteChat ::
  "jid_lib \<Rightarrow> client \<Rightarrow> (room_call \<Rightarrow> gerror + unit) \<Rightarrow> gerror + bool \<Rightarrow> (jid \<Rightarrow> gerror + unit) \<Rightarrow>
   gerror + (string \<times> gotime) list \<Rightarrow> Room \<Rightarrow> (room_call, unit) traced" where
  "HandleMatrixDeleteChat L c send_app_state joined leave last_msgs rm =
     tbind (tlift (room_jid L rm)) (\<lambda>chatJID.
     tbind
       (if Server chatJID = GroupServer then
          tbind (tlift (owrap ''failed to get own member info'' (of_sum joined))) (\<lambda>j.
          if j then twrap ''failed to leave group before deleting chat'' (tcall (LeaveGroup chatJID) (leave chatJID))
          else tlift (Ok ()))
        else tlift (Ok ())) (\<lambda>_.
     tbind (tlift (getLastMessageInfo L c last_msgs chatJID)) (\<lambda>(lastTS, lastKey).
     case lastKey of
       None \<Rightarrow> tlift (Fail (Err ''failed to delete chat: no messages found''))
     | Some k \<Rightarrow> let call = AppDeleteChat chatJID lastTS k in tcall call (send_app_state call))))"

section \<open>Avatars\<close>

text \<open>What the crop must be for an image of a size: a rectangle inside it that keeps the whole
  shorter side and is square up to one pixel, scaled to a size WhatsApp accepts.\<close>

definition good_crop :: "int \<Rightarrow> int \<Rightarrow> int \<times> rect \<Rightarrow> bool" where
  "good_crop width height c \<longleftrightarrow>
     (let (dst, l, t, r, b) = c in
      avatarMinSize \<le> dst \<and> dst \<le> avatarMaxSize \<and>
      0 \<le> l \<and> l < r \<and> r \<le> width \<and> 0 \<le> t \<and> t < b \<and> b \<le> height \<and>
      min (r - l) (b - t) = min width height \<and> \<bar>(r - l) - (b - t)\<bar> \<le> 1)"

lemma avatar_crop_good:
  assumes "0 < width" "0 < height"
  shows "good_crop width height (avatar_crop width height)"
proof -
  have h: "(d :: int) = 2 * (d div 2) \<or> d = 2 * (d div 2) + 1" for d by linarith
  show ?thesis
    using assms h [of "width - height"] h [of "height - width"]
    by (auto simp: good_crop_def avatar_crop_def Let_def avatarMinSize_def avatarMaxSize_def)
qed

text \<open>An avatar uploaded from Matrix reaches WhatsApp as a JPEG of an accepted size: it is
  passed on untouched only if it is one already, and otherwise it is the encoding of the decoded
  image itself (when only the format is wrong) or of a crop of it that lies inside the image,
  keeps its shorter side and is square up to a pixel, scaled to between 190 and 720 pixels; the
  images that are decoded never exceed 12000 pixels a side or 10 MiB.\<close>

theorem room_avatar_accepted:
  assumes "convertRoomAvatar I data = Ok jpeg" and "il_DecodeConfig I data = Inr (width, height, format)"
    and "0 < width" and "0 < height"
  shows "(jpeg = data \<and> format = ''jpeg'' \<and> is_correct_size width height)
    \<or> (width \<le> 12000 \<and> height \<le> 12000 \<and> length data \<le> 10 * 1024 * 1024
       \<and> (\<exists>img. il_Decode I data = Inr img
           \<and> (if is_correct_size width height then il_EncodeJPEG I img = Inr jpeg
              else (\<exists>dst crop. il_EncodeJPEG I (il_Scale I dst crop img) = Inr jpeg \<and> good_crop width height (dst, crop)))))"
proof (cases "is_correct_size width height \<and> format = ''jpeg''")
  case True
  with assms(1,2) show ?thesis by (simp add: convertRoomAvatar_def)
next
  case False
  note conv = assms(1) [unfolded convertRoomAvatar_def assms(2)]
  have small: "\<not> (length data > 10 * 1024 * 1024 \<or> width > 12000 \<or> height > 12000)"
    using conv False by (auto split: if_splits)
  obtain img where img: "il_Decode I data = Inr img"
    using conv False small by (cases "il_Decode I data") auto
  obtain dst crop where c: "avatar_crop width height = (dst, crop)"
    using surj_pair [of "avatar_crop width height"] by blast
  have enc: "il_EncodeJPEG I (if is_correct_size width height then img else il_Scale I dst crop img) = Inr jpeg"
    using conv False small img c by (auto simp: Let_def outcome_simps)
  have good: "good_crop width height (dst, crop)"
    using avatar_crop_good [OF assms(3,4)] c by simp
  from small have s: "width \<le> 12000" "height \<le> 12000" "length data \<le> 10 * 1024 * 1024" by simp_all
  show ?thesis
  proof (cases "is_correct_size width height")
    case True
    with s img enc show ?thesis by simp
  next
    case False
    with enc have "il_EncodeJPEG I (il_Scale I dst crop img) = Inr jpeg" by simp
    with False s img good show ?thesis by (simp del: split_paired_Ex) blast
  qed
qed

definition sample_image_lib :: "nat image_lib" where
  "sample_image_lib = \<lparr>il_DecodeConfig = (\<lambda>_. Inr (1001, 300, ''png'')), il_Decode = (\<lambda>d. Inr (length d)),
     il_Scale = (\<lambda>n _ img. img + nat n), il_EncodeJPEG = (\<lambda>img. Inr [word_of_nat img])\<rparr>"

theorem room_avatar_accepted_witness:
  "convertRoomAvatar sample_image_lib [7, 7] = Ok [46] \<and>
   (\<exists>dst crop. il_EncodeJPEG sample_image_lib (il_Scale sample_image_lib dst crop 2) = Inr [46] \<and> good_crop 1001 300 (dst, crop))"
proof -
  have c: "convertRoomAvatar sample_image_lib [7, 7] = Ok [46]"
    by (simp add: convertRoomAvatar_def sample_image_lib_def is_correct_size_def avatar_crop_def
      avatarMinSize_def avatarMaxSize_def Let_def)
  have d: "il_DecodeConfig sample_image_lib [7, 7] = Inr (1001, 300, ''png'')" "\<not> is_correct_size 1001 300"
    "il_Decode sample_image_lib [7, 7] = Inr 2"
    by (simp_all add: sample_image_lib_def is_correct_size_def)
  show ?thesis using room_avatar_accepted [OF c d(1)] c d(2,3) by auto
qed

section \<open>Topics\<close>

text \<open>
  A session of topic changes: the ID generated for each, the new topic and what WhatsApp
  answers. It gives the calls and the portal at the end.
\<close>

fun topic_session ::
  "jid_lib \<Rightarrow> (string \<times> string \<times> (gerror + unit)) list \<Rightarrow> Room \<Rightarrow> room_call list \<times> Room" where
  "topic_session L [] rm = ([], rm)"
| "topic_session L ((newID, topic, answer) # rest) rm =
     (let ((calls, _), rm') = HandleMatrixRoomTopic L (\<lambda>_ _ _ _. answer) newID rm topic;
          (calls', rm'') = topic_session L rest rm'
      in (calls @ calls', rm''))"

text \<open>The calls that keep the chain: each names the ID of the last change that was accepted.\<close>

fun topic_chain :: "jid \<Rightarrow> string \<Rightarrow> (string \<times> string \<times> (gerror + unit)) list \<Rightarrow> room_call list" where
  "topic_chain chat old [] = []"
| "topic_chain chat old ((newID, topic, answer) # rest) =
     SetGroupTopic chat old newID topic # topic_chain chat (case answer of Inr _ \<Rightarrow> newID | Inl _ \<Rightarrow> old) rest"

fun last_accepted :: "string \<Rightarrow> (string \<times> string \<times> (gerror + unit)) list \<Rightarrow> string" where
  "last_accepted old [] = old"
| "last_accepted old ((newID, topic, answer) # rest) = last_accepted (case answer of Inr _ \<Rightarrow> newID | Inl _ \<Rightarrow> old) rest"

lemma HandleMatrixRoomTopic_step:
  assumes "room_jid L rm = Ok chat" and "rm_RoomType rm \<noteq> RoomTypeDM"
  shows "\<exists>r rm'. HandleMatrixRoomTopic L (\<lambda>_ _ _ _. answer) newID rm topic = (([SetGroupTopic chat (topic_id rm) newID topic], r), rm')
    \<and> room_jid L rm' = Ok chat \<and> rm_RoomType rm' \<noteq> RoomTypeDM
    \<and> topic_id rm' = (case answer of Inr _ \<Rightarrow> newID | Inl _ \<Rightarrow> topic_id rm)"
  using assms by (cases answer) (simp_all add: HandleMatrixRoomTopic_def Let_def topic_id_def room_jid_def)

text \<open>Over any sequence of topic changes from Matrix, some accepted by WhatsApp and some
  refused, every call names the ID of the last accepted change as the one it replaces, and that
  ID is what the portal stores at the end: a refused change never breaks the chain WhatsApp
  checks.\<close>

theorem topic_changes_chain:
  assumes "room_jid L rm = Ok chat" and "rm_RoomType rm \<noteq> RoomTypeDM"
  shows "fst (topic_session L changes rm) = topic_chain chat (topic_id rm) changes
    \<and> topic_id (snd (topic_session L changes rm)) = last_accepted (topic_id rm) changes"
  using assms
proof (induction changes arbitrary: rm)
  case (Cons c changes)
  obtain newID topic answer where c: "c = (newID, topic, answer)" by (cases c)
  obtain r rm' where step: "HandleMatrixRoomTopic L (\<lambda>_ _ _ _. answer) newID rm topic = (([SetGroupTopic chat (topic_id rm) newID topic], r), rm')"
    and rm': "room_jid L rm' = Ok chat" "rm_RoomType rm' \<noteq> RoomTypeDM"
    and t: "topic_id rm' = (case answer of Inr _ \<Rightarrow> newID | Inl _ \<Rightarrow> topic_id rm)"
    using HandleMatrixRoomTopic_step [OF Cons.prems] by blast
  show ?case using Cons.IH [OF rm'] step t by (simp add: c case_prod_beta Let_def)
qed simp

definition sample_room :: Room where
  "sample_room = \<lparr>rm_Portal = sample_portal, rm_RoomType = RoomTypeDefault, rm_Name = ''Family'', rm_NameSet = True,
     rm_Topic = [], rm_TopicSet = False, rm_AvatarMXC = [], rm_AvatarHash = [], rm_AvatarID = [], rm_AvatarSet = False\<rparr>"

lemma sample_room_jid: "room_jid sample_jid_lib sample_room = Ok sample_group"
  using sample_portal_jid by (simp add: room_jid_def sample_room_def)

theorem topic_changes_chain_witness:
  "fst (topic_session sample_jid_lib [(''A'', ''one'', Inr ()), (''B'', ''two'', Inl (Err ''conflict'')), (''C'', ''three'', Inr ())] sample_room)
   = [SetGroupTopic sample_group [] ''A'' ''one'', SetGroupTopic sample_group ''A'' ''B'' ''two'', SetGroupTopic sample_group ''A'' ''C'' ''three'']"
proof -
  have "rm_RoomType sample_room \<noteq> RoomTypeDM" "topic_id sample_room = []"
    by (simp_all add: sample_room_def topic_id_def sample_portal_def)
  with topic_changes_chain [OF sample_room_jid] show ?thesis by (simp del: topic_session.simps)
qed

section \<open>Timers and deletion\<close>

text \<open>A refused timer changes nothing; an accepted one is a duration WhatsApp knows.\<close>

lemma disappearing_timer_accepted:
  assumes "HandleMatrixDisappearingTimer L set_timer rm timer ts = ((calls, r), rm')"
  shows "(rm' = rm \<and> (\<nexists>b. r = Ok b)) \<or>
    (r = Ok True \<and> timer \<in> set allowed_timers \<and> length calls = 1
     \<and> pt_Disappear (rm_Portal rm') = \<lparr>dis_Type = (if timer = 0 then NoDisappear else AfterSend), dis_Timer = timer\<rparr>
     \<and> pmd_DisappearingTimerSetAt (pt_Meta (rm_Portal rm')) = ts div 1000)"
proof -
  have ms: "go_unix (time_unix_milli ts) = ts div 1000"
  proof -
    have "time_unix_milli ts = 10 ^ 6 * ts + 10 ^ 9 * unix_epoch" by (simp add: time_unix_milli_def milli_def second_def)
    then have "time_unix_milli ts div 10 ^ 9 = ts div 1000 + unix_epoch" by (simp add: unix_epoch_def)
    then show ?thesis by (simp add: go_unix_def second_def)
  qed
  show ?thesis
    using assms ms
    by (cases "room_jid L rm"; cases "timer \<in> set allowed_timers")
      (auto simp: HandleMatrixDisappearingTimer_def Let_def tlift_def split: sum.splits)
qed

lemma getLastMessageInfo_not_Panic: "getLastMessageInfo L c last_msgs chat \<noteq> Panic"
  by (auto simp: getLastMessageInfo_def outcome_simps split: list.splits prod.splits outcome.splits)

lemma prepend_if: "(if P then [a] else []) @ [b] = (if P then [a, b] else [b])"
  by simp

text \<open>A chat is deleted on WhatsApp only after the user is out of it: the deletion is the
  last call, at most once; for a group it is preceded by a successful \<open>LeaveGroup\<close> unless the user
  had already left the room, no other call is made, and nothing but a group is ever left.\<close>

theorem delete_chat_after_leaving:
  assumes "AppDeleteChat chat ts k \<in> set (fst (HandleMatrixDeleteChat L c send joined leave last_msgs rm))"
  shows "room_jid L rm = Ok chat \<and> getLastMessageInfo L c last_msgs chat = Ok (ts, Some k)
    \<and> fst (HandleMatrixDeleteChat L c send joined leave last_msgs rm) =
      (if Server chat = GroupServer \<and> joined = Inr True then [LeaveGroup chat, AppDeleteChat chat ts k] else [AppDeleteChat chat ts k])
    \<and> (Server chat = GroupServer \<and> joined \<noteq> Inr False \<longrightarrow> joined = Inr True \<and> leave chat = Inr ())"
proof -
  obtain j where j: "room_jid L rm = Ok j"
    using assms by (cases "room_jid L rm") (simp_all add: HandleMatrixDeleteChat_def)
  let ?left = "if Server j = GroupServer then
       tbind (tlift (owrap ''failed to get own member info'' (of_sum joined))) (\<lambda>b.
       if b then twrap ''failed to leave group before deleting chat'' (tcall (LeaveGroup j) (leave j)) else tlift (Ok ()))
     else tlift (Ok ())"
  let ?rest = "tbind (tlift (getLastMessageInfo L c last_msgs j)) (\<lambda>(lastTS, lastKey).
     case lastKey of None \<Rightarrow> tlift (Fail (Err ''failed to delete chat: no messages found''))
     | Some k \<Rightarrow> let call = AppDeleteChat j lastTS k in tcall call (send call))"
  have t: "fst (HandleMatrixDeleteChat L c send joined leave last_msgs rm) = fst ?left @ (case snd ?left of Ok _ \<Rightarrow> fst ?rest | _ \<Rightarrow> [])"
    by (simp add: HandleMatrixDeleteChat_def j fst_tbind)
  have left_calls: "fst ?left = (if Server j = GroupServer \<and> joined = Inr True then [LeaveGroup j] else [])"
    by (cases joined) (simp_all add: tbind_def)
  have rest: "fst ?rest = (case getLastMessageInfo L c last_msgs j of Ok (ts, Some k) \<Rightarrow> [AppDeleteChat j ts k] | _ \<Rightarrow> [])"
    by (simp add: fst_tbind Let_def split: outcome.split option.split)
  have in_rest: "snd ?left = Ok () \<and> AppDeleteChat chat ts k \<in> set (fst ?rest)"
    using assms left_calls by (cases "snd ?left") (simp_all only: t, auto split: if_splits)
  have info: "chat = j \<and> getLastMessageInfo L c last_msgs j = Ok (ts, Some k)"
    using in_rest unfolding rest by (auto split: outcome.splits option.splits)
  have ok: "Server j = GroupServer \<and> joined \<noteq> Inr False \<longrightarrow> joined = Inr True \<and> leave j = Inr ()"
    using in_rest by (cases joined; cases "leave j") (auto simp: tbind_def)
  have "fst (HandleMatrixDeleteChat L c send joined leave last_msgs rm) = fst ?left @ [AppDeleteChat j ts k]"
    using t in_rest rest info by simp
  then have "fst (HandleMatrixDeleteChat L c send joined leave last_msgs rm)
      = (if Server j = GroupServer \<and> joined = Inr True then [LeaveGroup j] else []) @ [AppDeleteChat j ts k]"
    unfolding left_calls .
  then have "fst (HandleMatrixDeleteChat L c send joined leave last_msgs rm)
      = (if Server j = GroupServer \<and> joined = Inr True then [LeaveGroup j, AppDeleteChat j ts k] else [AppDeleteChat j ts k])"
    by (rule trans) (rule prepend_if)
  with j info ok show ?thesis by (intro conjI) (simp_all only:)
qed

theorem delete_chat_after_leaving_witness:
  "fst (HandleMatrixDeleteChat sample_jid_lib sample_client (\<lambda>_. Inr ()) (Inr True) (\<lambda>_. Inr ())
     (Inr [(''1234-5678@g.us:77@lid:A1'', 5)]) sample_room)
   = [LeaveGroup sample_group, AppDeleteChat sample_group 5 (last_key sample_jid_lib sample_client sample_group
        \<lparr>Chat = sample_group, Sender = \<lparr>User = ''77'', Server = HiddenUserServer, Device = 0\<rparr>, ID = ''A1''\<rparr>)]"
proof -
  let ?k = "last_key sample_jid_lib sample_client sample_group
        \<lparr>Chat = sample_group, Sender = \<lparr>User = ''77'', Server = HiddenUserServer, Device = 0\<rparr>, ID = ''A1''\<rparr>"
  have p: "ParseMessageID sample_jid_lib ''1234-5678@g.us:77@lid:A1''
      = Ok \<lparr>Chat = sample_group, Sender = \<lparr>User = ''77'', Server = HiddenUserServer, Device = 0\<rparr>, ID = ''A1''\<rparr>"
    by code_simp
  have "AppDeleteChat sample_group 5 ?k \<in> set (fst (HandleMatrixDeleteChat sample_jid_lib sample_client (\<lambda>_. Inr ()) (Inr True)
      (\<lambda>_. Inr ()) (Inr [(''1234-5678@g.us:77@lid:A1'', 5)]) sample_room))"
    by (simp add: HandleMatrixDeleteChat_def sample_room_jid getLastMessageInfo_def p Let_def fst_tbind sample_group_def)
  from delete_chat_after_leaving [OF this] show ?thesis by (simp add: sample_group_def)
qed

end
