(* ===== verification/WAHandlers.thy ===== *)
theory WAHandlers
  imports MatrixRooms Events Connection
begin

text \<open>
  Events from WhatsApp, \<open>pkg/connector/handlewhatsapp.go\<close>: what each one is turned into
  for the bridge framework. A handler is the list of its calls (events queued for the framework,
  goroutines started, state it hands on) and the success it reports to whatsmeow, which is what
  the framework answered for the queued event. \<open>rerouteWAMessage\<close> is in \<open>MsgKeys\<close>, the
  message event's own methods in \<open>Events\<close>, and the connection events in \<open>Connection\<close>.
\<close>

section \<open>Queued events\<close>

definition no_sender :: EventSender where
  "no_sender = \<lparr>es_IsFromMe = False, es_Sender = [], es_SenderLogin = []\<rparr>"

record EventMeta =
  em_PortalKey :: PortalKey
  em_Sender :: EventSender
  em_CreatePortal :: bool
  em_Timestamp :: gotime

definition plain_meta :: "PortalKey \<Rightarrow> gotime \<Rightarrow> EventMeta" where
  "plain_meta key ts = \<lparr>em_PortalKey = key, em_Sender = no_sender, em_CreatePortal = False, em_Timestamp = ts\<rparr>"

datatype receipt_kind = ReadReceipt | DeliveryReceipt

datatype 'm remote_event =
    RemoteMessage wa_event
  | RemoteUndecryptable MessageInfo string
  | RemoteReceipt EventMeta receipt_kind "string list"
  | RemoteReadUpTo EventMeta gotime
  | RemoteTyping EventMeta int TypingType
  | RemoteCallStart EventMeta string string
  | RemoteIdentityChange EventMeta jid bool string
  | RemoteChatDelete EventMeta bool bool
  | RemoteMessageRemove EventMeta string
  | RemoteChatInfoChange EventMeta "ChatInfo option" "ChatMemberList option"
  | RemoteChatResync EventMeta ChatInfo
  | RemoteMediaRetry 'm

datatype ('n, 'm) wa_call =
    Queue "'m remote_event"
  | SaveHistoryNotification 'n
  | PushHistorySync 'n
  | TrackUndecryptable MessageInfo
  | PhoneSeen gotime
  | SyncGhost jid string "string option"
  | SyncRemoteProfile
  | ResyncContacts bool bool
  | PutPushName jid string
  | UpdatePresenceUnavailable
  | ConnectionEvent conn_event

text \<open>
  \<open>wh_queue\<close> is whether the framework accepts a queued event. The decryption calls and
  \<open>UnwrapRaw\<close> belong to whatsmeow.
\<close>

record ('n, 'm) handler_env =
  wh_L :: jid_lib
  wh_client :: client
  wh_queue :: "'m remote_event \<Rightarrow> bool"
  wh_now :: gotime
  wh_EnableStatusBroadcast :: bool
  wh_BackfillEnabled :: bool
  wh_ManualHistorySyncDownload :: bool
  wh_CallStartNotices :: bool
  wh_IdentityChangeNotices :: bool
  wh_ArchiveTag :: string
  wh_PinnedTag :: string
  wh_PushName :: string
  wh_DecryptReaction :: "wa_event \<Rightarrow> gerror + ReactionMessage"
  wh_DecryptComment :: "wa_event \<Rightarrow> gerror + WAMessage"
  wh_DecryptSecret :: "wa_event \<Rightarrow> gerror + WAMessage"
  wh_UnwrapRaw :: "wa_event \<Rightarrow> wa_event"

definition queue_event :: "('n, 'm) handler_env \<Rightarrow> 'm remote_event \<Rightarrow> ('n, 'm) wa_call list \<times> bool" where
  "queue_event E r = ([Queue r], wh_queue E r)"

definition portal_key :: "('n, 'm) handler_env \<Rightarrow> jid \<Rightarrow> PortalKey" where
  "portal_key E j = makeWAPortalKey (wh_L E) (wh_client E) j"

definition sender_of :: "('n, 'm) handler_env \<Rightarrow> jid \<Rightarrow> EventSender" where
  "sender_of E j = makeEventSender (wh_L E) (wh_client E) j"

section \<open>Messages\<close>

text \<open>
  What the handler reads of a message beside the fields of the event: the history sync
  notification of a protocol message, the association with another message and its key, and the
  target of an encrypted reaction.
\<close>

datatype association = NoAssociation | HDDualUpload "MessageKey option" | MotionPhoto | OtherAssociation

record 'n message_event =
  me_Event :: wa_event
  me_HistoryNotification :: "'n option"
  me_Association :: association
  me_EncReactionTarget :: "MessageKey option"

text \<open>The edit an HD replacement is turned into: the associated message edits its parent.\<close>

definition hd_edit :: "MessageKey option \<Rightarrow> WAMessage option \<Rightarrow> WAMessage" where
  "hd_edit parentKey child =
     WAMessage (\<lambda>_. False) (\<lambda>_. []) None (Some (ProtocolMsg MESSAGE_EDIT parentKey child 0 None)) (None, None) None"

definition child_message :: "WAMessage option \<Rightarrow> WAMessage option" where
  "child_message m = (case m of None \<Rightarrow> None | Some w \<Rightarrow> associated_child w)"

definition has_field :: "wa_event \<Rightarrow> MsgField \<Rightarrow> bool" where
  "has_field e f = (case ev_Message e of None \<Rightarrow> False | Some m \<Rightarrow> has m f)"

definition with_reaction :: "ReactionMessage \<Rightarrow> WAMessage \<Rightarrow> WAMessage" where
  "with_reaction r m = WAMessage (plain_fields m) (media_mime m) (Some r) (protocol m) (comment_targets m) (associated_child m)"

definition with_enc_comment :: "WAMessage \<Rightarrow> WAMessage \<Rightarrow> WAMessage" where
  "with_enc_comment orig m = WAMessage ((plain_fields m)(FEncCommentMessage := True)) (media_mime m) (reaction m) (protocol m)
     (fst (comment_targets orig), snd (comment_targets m)) (associated_child m)"

text \<open>None when a decryption error makes the handler drop the message.\<close>

definition decrypt_reaction :: "('n, 'm) handler_env \<Rightarrow> MessageKey option \<Rightarrow> wa_event \<Rightarrow> wa_event option" where
  "decrypt_reaction E target e =
     (if \<not> has_field e FEncReactionMessage then Some e
      else case wh_DecryptReaction E e of
             Inl _ \<Rightarrow> None
           | Inr decrypted \<Rightarrow> Some (e\<lparr>ev_Message := map_option (with_reaction (decrypted\<lparr>rm_Key := target\<rparr>)) (ev_Message e)\<rparr>))"

definition decrypt_comment :: "('n, 'm) handler_env \<Rightarrow> wa_event \<Rightarrow> wa_event" where
  "decrypt_comment E e =
     (if \<not> has_field e FEncCommentMessage then e
      else case wh_DecryptComment E e of
             Inl _ \<Rightarrow> e
           | Inr decrypted \<Rightarrow> e\<lparr>ev_Message := map_option (\<lambda>orig. with_enc_comment orig decrypted) (ev_Message e)\<rparr>)"

definition decrypt_secret :: "('n, 'm) handler_env \<Rightarrow> wa_event \<Rightarrow> wa_event option" where
  "decrypt_secret E e =
     (if \<not> has_field e FSecretEncryptedMessage then Some e
      else case wh_DecryptSecret E e of
             Inl _ \<Rightarrow> None
           | Inr decrypted \<Rightarrow>
               let e' = wh_UnwrapRaw E (e\<lparr>ev_Raw := Some decrypted\<rparr>)
               in Some (e'\<lparr>ev_parsedMessageType := getMessageType (ev_Message e')\<rparr>))"

text \<open>The event after rerouting and after an HD replacement has become an edit.\<close>

definition rerouted :: "('n, 'm) handler_env \<Rightarrow> wa_event \<Rightarrow> wa_event" where
  "rerouted E e = e\<lparr>ev_Info := rerouteWAMessage (wh_L E) (wh_client E) (ev_Info e)\<rparr>"

definition apply_association :: "association \<Rightarrow> wa_event \<Rightarrow> wa_event" where
  "apply_association a e =
     (case a of HDDualUpload parentKey \<Rightarrow> e\<lparr>ev_Message := Some (hd_edit parentKey (child_message (ev_Message e)))\<rparr> | _ \<Rightarrow> e)"

definition typed :: "wa_event \<Rightarrow> wa_event" where
  "typed e = e\<lparr>ev_parsedMessageType := getMessageType (ev_Message e)\<rparr>"

definition handleWAMessage :: "('n, 'm) handler_env \<Rightarrow> 'n message_event \<Rightarrow> ('n, 'm) wa_call list \<times> bool" where
  "handleWAMessage E evt =
     (let e = rerouted E (me_Event evt) in
      if mi_Chat (ev_Info e) = StatusBroadcastJID \<and> \<not> wh_EnableStatusBroadcast E then ([], True)
      else
        let saved = (case me_HistoryNotification evt of
              Some n \<Rightarrow> if mi_IsFromMe (ev_Info e) \<and> wh_BackfillEnabled E \<and> wh_ManualHistorySyncDownload E
                        then [SaveHistoryNotification n] else []
            | None \<Rightarrow> [])
        in if me_Association evt = MotionPhoto then (saved, True)
           else
             let e = typed (apply_association (me_Association evt) e) in
             if skipped_type (ev_parsedMessageType e) then (saved, True)
             else case decrypt_reaction E (me_EncReactionTarget evt) e of
                    None \<Rightarrow> (saved, True)
                  | Some e \<Rightarrow>
                      (case decrypt_secret E (decrypt_comment E e) of
                         None \<Rightarrow> (saved, True)
                       | Some e \<Rightarrow> let (calls, success) = queue_event E (RemoteMessage e) in (saved @ calls, success)))"

definition handleWAUndecryptableMessage ::
  "('n, 'm) handler_env \<Rightarrow> MessageInfo \<Rightarrow> bool \<Rightarrow> string \<Rightarrow> ('n, 'm) wa_call list \<times> bool" where
  "handleWAUndecryptableMessage E info hide unavailableType =
     (let i = rerouteWAMessage (wh_L E) (wh_client E) info in
      if hide \<or> (mi_Chat i = StatusBroadcastJID \<and> \<not> wh_EnableStatusBroadcast E) then ([TrackUndecryptable i], True)
      else let (calls, success) = queue_event E (RemoteUndecryptable i unavailableType)
           in (TrackUndecryptable i # calls, success))"

section \<open>Receipts and typing\<close>

datatype receipt_type = ReceiptRead | ReceiptReadSelf | ReceiptDelivered | ReceiptSender | ReceiptOther string

record Receipt =
  rc_Source :: MessageInfo
  rc_MessageIDs :: "string list"
  rc_MessageSender :: jid
  rc_Type :: receipt_type
  rc_Timestamp :: gotime

fun receipt_kind_of :: "receipt_type \<Rightarrow> receipt_kind option" where
  "receipt_kind_of ReceiptRead = Some ReadReceipt"
| "receipt_kind_of ReceiptReadSelf = Some ReadReceipt"
| "receipt_kind_of ReceiptDelivered = Some DeliveryReceipt"
| "receipt_kind_of _ = None"

definition receipt_message_sender :: "('n, 'm) handler_env \<Rightarrow> MessageInfo \<Rightarrow> jid \<Rightarrow> jid" where
  "receipt_message_sender E src messageSender =
     (if \<not> jid_is_empty (wh_L E) messageSender then messageSender
      else if Server (mi_Chat src) = GroupServer \<and> Server (mi_Sender src) = HiddenUserServer
              \<and> \<not> jid_is_empty (wh_L E) (cl_LID (wh_client E))
      then cl_LID (wh_client E) else cl_JID (wh_client E))"

definition handleWAReceipt :: "('n, 'm) handler_env \<Rightarrow> Receipt \<Rightarrow> ('n, 'm) wa_call list \<times> bool" where
  "handleWAReceipt E evt =
     (let src = rerouteWAMessage (wh_L E) (wh_client E) (rc_Source evt);
          seen = (if mi_IsFromMe src \<and> Device (mi_Sender src) = 0 then [PhoneSeen (rc_Timestamp evt)] else [])
      in case receipt_kind_of (rc_Type evt) of
           None \<Rightarrow> (seen, True)
         | Some kind \<Rightarrow>
             let messageSender = receipt_message_sender E src (rc_MessageSender evt);
                 targets = map (MakeMessageID (wh_L E) (mi_Chat src) messageSender) (rc_MessageIDs evt);
                 meta = (plain_meta (portal_key E (mi_Chat src)) (rc_Timestamp evt))\<lparr>em_Sender := sender_of E (mi_Sender src)\<rparr>;
                 (calls, success) = queue_event E (RemoteReceipt meta kind targets)
             in (seen @ calls, success))"

text \<open>A presence in a LID chat is moved to the phone number's chat where that is known.\<close>

definition reroute_presence :: "('n, 'm) handler_env \<Rightarrow> MessageInfo \<Rightarrow> MessageInfo" where
  "reroute_presence E src =
     (if Server (mi_Chat src) = HiddenUserServer \<and> to_non_ad (wh_L E) (mi_Sender src) = mi_Chat src then
        let alt = (if jid_is_empty (wh_L E) (mi_SenderAlt src) then fst (GetPNForLID (wh_client E) (mi_Sender src)) else mi_SenderAlt src)
        in if Server alt = DefaultUserServer
           then src\<lparr>mi_Sender := alt, mi_SenderAlt := mi_Sender src, mi_Chat := to_non_ad (wh_L E) alt\<rparr>
           else src\<lparr>mi_SenderAlt := alt\<rparr>
      else src)"

definition handleWAChatPresence :: "('n, 'm) handler_env \<Rightarrow> MessageInfo \<Rightarrow> bool \<Rightarrow> bool \<Rightarrow> ('n, 'm) wa_call list" where
  "handleWAChatPresence E source audio paused =
     (let src = reroute_presence E source;
          meta = (plain_meta (portal_key E (mi_Chat src)) (wh_now E))\<lparr>em_Sender := sender_of E (mi_Sender src)\<rparr>
      in fst (queue_event E (RemoteTyping meta (if paused then 0 else 15 * second)
                (if audio then TypingRecordingMedia else TypingText))))"

section \<open>Calls and identity changes\<close>

definition callEventMaxAge :: int where "callEventMaxAge = 15 * 60 * second"

definition call_caller :: "jid \<Rightarrow> jid \<Rightarrow> jid" where
  "call_caller sender senderAlt =
     (if Server sender = HiddenUserServer \<and> Server senderAlt = DefaultUserServer then senderAlt else sender)"

definition handleWACallStart ::
  "('n, 'm) handler_env \<Rightarrow> jid \<Rightarrow> jid \<Rightarrow> jid \<Rightarrow> string \<Rightarrow> string \<Rightarrow> gotime \<Rightarrow> ('n, 'm) wa_call list \<times> bool" where
  "handleWACallStart E groupJID sender senderAlt callID callType ts =
     (if \<not> wh_CallStartNotices E \<or> time_sub (wh_now E) ts > callEventMaxAge then ([], True)
      else
        let caller = call_caller sender senderAlt;
            chat = (if jid_is_empty (wh_L E) groupJID then caller else groupJID);
            meta = \<lparr>em_PortalKey = portal_key E chat, em_Sender = sender_of E caller, em_CreatePortal = True, em_Timestamp = ts\<rparr>
        in queue_event E (RemoteCallStart meta callType (MakeFakeMessageID (wh_L E) chat caller (''call-'' @ callID))))"

definition convertCallStart :: "string \<Rightarrow> string" where
  "convertCallStart callType =
     (if callType \<noteq> [] then ''Incoming '' @ callType @ '' call. Use the WhatsApp app to answer.''
      else ''Incoming call. Use the WhatsApp app to answer.'')"

definition handleWAIdentityChange :: "('n, 'm) handler_env \<Rightarrow> jid \<Rightarrow> bool \<Rightarrow> gotime \<Rightarrow> ('n, 'm) wa_call list" where
  "handleWAIdentityChange E j implicit ts =
     (if \<not> wh_IdentityChangeNotices E then []
      else fst (queue_event E (RemoteIdentityChange
             ((plain_meta (portal_key E j) ts)\<lparr>em_Sender := sender_of E j\<rparr>) j implicit
             (MakeFakeMessageID (wh_L E) j j (''idchange-'' @ format_int (go_unix_milli ts))))))"

definition convertIdentityChange :: "(string \<Rightarrow> gerror + string) \<Rightarrow> jid \<Rightarrow> bool \<Rightarrow> string outcome" where
  "convertIdentityChange ghost_name j implicit =
     obind (of_sum (ghost_name (MakeUserID j))) (\<lambda>name.
     Ok (if implicit then ''Your security code with '' @ name @ '' (device #'' @ format_nat (unat (Device j)) @ '') changed.''
         else ''Your security code with '' @ name @ '' changed.''))"

section \<open>Chats and groups\<close>

definition handleWADeleteChat :: "('n, 'm) handler_env \<Rightarrow> jid \<Rightarrow> gotime \<Rightarrow> ('n, 'm) wa_call list \<times> bool" where
  "handleWADeleteChat E j ts = queue_event E (RemoteChatDelete (plain_meta (portal_key E j) ts) True True)"

definition handleWADeleteForMe :: "('n, 'm) handler_env \<Rightarrow> jid \<Rightarrow> jid \<Rightarrow> string \<Rightarrow> gotime \<Rightarrow> ('n, 'm) wa_call list \<times> bool" where
  "handleWADeleteForMe E chat sender messageID ts =
     queue_event E (RemoteMessageRemove (plain_meta (portal_key E chat) ts) (MakeMessageID (wh_L E) chat sender messageID))"

definition handleWAMarkChatAsRead :: "('n, 'm) handler_env \<Rightarrow> jid \<Rightarrow> gotime \<Rightarrow> ('n, 'm) wa_call list \<times> bool" where
  "handleWAMarkChatAsRead E j ts =
     queue_event E (RemoteReadUpTo
       ((plain_meta (portal_key E j) ts)\<lparr>em_Sender := sender_of E (cl_JID (wh_client E))\<rparr>) ts)"

definition handleWAPictureUpdate ::
  "('n, 'm) handler_env \<Rightarrow> jid \<Rightarrow> jid \<Rightarrow> bool \<Rightarrow> string \<Rightarrow> gotime \<Rightarrow> ('n, 'm) wa_call list \<times> bool" where
  "handleWAPictureUpdate E j author removed pictureID ts =
     (if Server j \<in> {DefaultUserServer, HiddenUserServer, BotServer}
      then ([SyncGhost j ''picture event'' (Some pictureID)], True)
      else
        let changes = (if removed then empty_chat_info\<lparr>chi_Avatar := Some (removed_avatar ''remove'')\<rparr>
                       else empty_chat_info\<lparr>chi_ExtraUpdates := [FetchAvatar pictureID author ts]\<rparr>)
        in queue_event E (RemoteChatInfoChange
             ((plain_meta (portal_key E j) ts)\<lparr>em_Sender := sender_of E author\<rparr>) (Some changes) None))"

definition handleWAGroupInfoChange ::
  "('n, 'm) handler_env \<Rightarrow> jid \<Rightarrow> jid option \<Rightarrow> gotime \<Rightarrow> bool \<Rightarrow> GroupEvent \<Rightarrow> ('n, 'm) wa_call list \<times> bool" where
  "handleWAGroupInfoChange E j sender ts deleted evt =
     (let meta = \<lparr>em_PortalKey = portal_key E j,
                  em_Sender = (case sender of None \<Rightarrow> no_sender | Some s \<Rightarrow> sender_of E s),
                  em_CreatePortal = True, em_Timestamp = ts\<rparr>
      in if deleted then queue_event E (RemoteChatDelete meta False False)
         else let (info, members) = wrapGroupInfoChange (wh_L E) (wh_client E) evt
              in queue_event E (RemoteChatInfoChange meta info members))"

text \<open>
  The set of keys of groups the bridge itself has just created: the event of such a group is
  taken out of the set and not queued.
\<close>

definition handleWAJoinedGroup ::
  "('n, 'm) handler_env \<Rightarrow> jid \<Rightarrow> string \<Rightarrow> GroupInfo \<Rightarrow> string set \<Rightarrow> (('n, 'm) wa_call list \<times> bool) \<times> string set" where
  "handleWAJoinedGroup E j createKey info createDedup =
     (if createKey \<in> createDedup then (([], True), createDedup - {createKey})
      else (queue_event E (RemoteChatResync
              ((plain_meta (portal_key E j) 0)\<lparr>em_CreatePortal := True\<rparr>) (wrapGroupInfo (wh_L E) (wh_client E) info)),
            createDedup))"

definition handleWANewsletterJoin :: "('n, 'm) handler_env \<Rightarrow> jid \<Rightarrow> Newsletter \<Rightarrow> ('n, 'm) wa_call list \<times> bool" where
  "handleWANewsletterJoin E j info =
     queue_event E (RemoteChatResync ((plain_meta (portal_key E j) 0)\<lparr>em_CreatePortal := True\<rparr>)
       (wrapNewsletterInfo (wh_L E) (wh_client E) info))"

definition handleWANewsletterLeave :: "('n, 'm) handler_env \<Rightarrow> jid \<Rightarrow> ('n, 'm) wa_call list \<times> bool" where
  "handleWANewsletterLeave E j = queue_event E (RemoteChatDelete (plain_meta (portal_key E j) 0) True False)"

section \<open>The user's settings of a chat\<close>

definition handleWAUserLocalPortalInfo ::
  "('n, 'm) handler_env \<Rightarrow> jid \<Rightarrow> gotime \<Rightarrow> UserLocalPortalInfo \<Rightarrow> ('n, 'm) wa_call list \<times> bool" where
  "handleWAUserLocalPortalInfo E chat ts info =
     queue_event E (RemoteChatInfoChange (plain_meta (portal_key E chat) ts)
       (Some (empty_chat_info\<lparr>chi_UserLocal := Some info\<rparr>)) None)"

definition muted_until :: "bool \<Rightarrow> int \<Rightarrow> muted" where
  "muted_until m endTimestamp =
     (if m then if endTimestamp > 0 then MutedUntil (time_unix endTimestamp) else MutedForever else Unmuted)"

definition handleWAMute :: "('n, 'm) handler_env \<Rightarrow> jid \<Rightarrow> gotime \<Rightarrow> bool \<Rightarrow> int \<Rightarrow> ('n, 'm) wa_call list \<times> bool" where
  "handleWAMute E j ts m endTimestamp =
     handleWAUserLocalPortalInfo E j ts \<lparr>lp_MutedUntil = Some (muted_until m endTimestamp), lp_Tag = None\<rparr>"

definition handleWAArchive :: "('n, 'm) handler_env \<Rightarrow> jid \<Rightarrow> gotime \<Rightarrow> bool \<Rightarrow> ('n, 'm) wa_call list \<times> bool" where
  "handleWAArchive E j ts archived =
     handleWAUserLocalPortalInfo E j ts \<lparr>lp_MutedUntil = None, lp_Tag = Some (if archived then wh_ArchiveTag E else [])\<rparr>"

definition handleWAPin :: "('n, 'm) handler_env \<Rightarrow> jid \<Rightarrow> gotime \<Rightarrow> bool \<Rightarrow> ('n, 'm) wa_call list \<times> bool" where
  "handleWAPin E j ts pinned =
     handleWAUserLocalPortalInfo E j ts \<lparr>lp_MutedUntil = None, lp_Tag = Some (if pinned then wh_PinnedTag E else [])\<rparr>"

section \<open>Every event\<close>

datatype ('n, 'm) wa_raw_event =
    EvtMessage "'n message_event"
  | EvtReceipt Receipt
  | EvtChatPresence MessageInfo bool bool
  | EvtUndecryptable MessageInfo bool string
  | EvtCallOffer jid jid jid string gotime
  | EvtCallOfferNotice jid jid jid string string gotime
  | EvtIgnoredCall
  | EvtIdentityChange jid bool gotime
  | EvtMarkChatAsRead jid gotime
  | EvtDeleteForMe jid jid string gotime
  | EvtDeleteChat jid gotime
  | EvtMute jid gotime bool int
  | EvtArchive jid gotime bool
  | EvtPin jid gotime bool
  | EvtHistorySync 'n
  | EvtMediaRetry 'm gotime
  | EvtGroupInfo jid "jid option" gotime bool GroupEvent
  | EvtJoinedGroup jid string GroupInfo
  | EvtNewsletterJoin jid Newsletter
  | EvtNewsletterLeave jid
  | EvtPicture jid jid bool string gotime
  | EvtAppStateSyncComplete bool bool
  | EvtAppState
  | EvtPushNameSetting string
  | EvtContact jid
  | EvtPushName jid
  | EvtBusinessName jid
  | EvtConnection conn_event
  | EvtUnknown

text \<open>
  \<open>EvtAppStateSyncComplete\<close> carries whether its patch is the critical block, and whether it
  is the critical unblock-low one. On \<open>Connected\<close> the presence and the profile are sent in
  goroutines of their own, after the state.
\<close>

definition handleWAEvent ::
  "('n, 'm) handler_env \<Rightarrow> ('n, 'm) wa_raw_event \<Rightarrow> string set \<Rightarrow> (('n, 'm) wa_call list \<times> bool) \<times> string set" where
  "handleWAEvent E evt dedup =
     (let L = wh_L E; c = wh_client E;
          done = (\<lambda>calls. ((calls, True), dedup)); keep = (\<lambda>r. (r, dedup))
      in case evt of
        EvtMessage m \<Rightarrow> keep (handleWAMessage E m)
      | EvtReceipt r \<Rightarrow> keep (handleWAReceipt E r)
      | EvtChatPresence src audio paused \<Rightarrow> done (handleWAChatPresence E src audio paused)
      | EvtUndecryptable info hide typ \<Rightarrow> keep (handleWAUndecryptableMessage E info hide typ)
      | EvtCallOffer groupJID creator alt callID ts \<Rightarrow> keep (handleWACallStart E groupJID creator alt callID [] ts)
      | EvtCallOfferNotice groupJID creator alt callID typ ts \<Rightarrow> keep (handleWACallStart E groupJID creator alt callID typ ts)
      | EvtIgnoredCall \<Rightarrow> done []
      | EvtIdentityChange j implicit ts \<Rightarrow> done (handleWAIdentityChange E j implicit ts)
      | EvtMarkChatAsRead j ts \<Rightarrow> keep (handleWAMarkChatAsRead E j ts)
      | EvtDeleteForMe chat sender i ts \<Rightarrow> keep (handleWADeleteForMe E chat sender i ts)
      | EvtDeleteChat j ts \<Rightarrow> keep (handleWADeleteChat E j ts)
      | EvtMute j ts m endTS \<Rightarrow> keep (handleWAMute E j ts m endTS)
      | EvtArchive j ts a \<Rightarrow> keep (handleWAArchive E j ts a)
      | EvtPin j ts p \<Rightarrow> keep (handleWAPin E j ts p)
      | EvtHistorySync h \<Rightarrow> done (if wh_BackfillEnabled E then [PushHistorySync h] else [])
      | EvtMediaRetry r ts \<Rightarrow>
          (let (calls, success) = queue_event E (RemoteMediaRetry r) in keep (PhoneSeen ts # calls, success))
      | EvtGroupInfo j sender ts deleted g \<Rightarrow> keep (handleWAGroupInfoChange E j sender ts deleted g)
      | EvtJoinedGroup j key info \<Rightarrow> handleWAJoinedGroup E j key info dedup
      | EvtNewsletterJoin j n \<Rightarrow> keep (handleWANewsletterJoin E j n)
      | EvtNewsletterLeave j \<Rightarrow> keep (handleWANewsletterLeave E j)
      | EvtPicture j author removed pic ts \<Rightarrow> keep (handleWAPictureUpdate E j author removed pic ts)
      | EvtAppStateSyncComplete critical_block unblock_low \<Rightarrow>
          done (if wh_PushName E \<noteq> [] \<and> critical_block then [UpdatePresenceUnavailable, SyncRemoteProfile]
                else if unblock_low then [ResyncContacts False True] else [])
      | EvtAppState \<Rightarrow> done []
      | EvtPushNameSetting name \<Rightarrow>
          done [UpdatePresenceUnavailable, PutPushName (to_non_ad L (cl_JID c)) name, PutPushName (to_non_ad L (cl_LID c)) name,
                SyncGhost (to_non_ad L (cl_JID c)) ''push name setting'' None]
      | EvtContact j \<Rightarrow> done [SyncGhost j ''contact event'' None]
      | EvtPushName j \<Rightarrow> done [SyncGhost j ''push name event'' None]
      | EvtBusinessName j \<Rightarrow> done [SyncGhost j ''business name event'' None]
      | EvtConnection ce \<Rightarrow>
          done (ConnectionEvent ce # (if ce = EvtConnected \<and> wh_PushName E \<noteq> [] then [UpdatePresenceUnavailable, SyncRemoteProfile] else []))
      | EvtUnknown \<Rightarrow> done [])"

section \<open>What is queued and acknowledged\<close>

fun queued :: "('n, 'm) wa_call list \<Rightarrow> 'm remote_event list" where
  "queued [] = []"
| "queued (Queue r # cs) = r # queued cs"
| "queued (_ # cs) = queued cs"

lemma queued_append [simp]: "queued (cs @ ds) = queued cs @ queued ds"
  by (induction cs rule: queued.induct) simp_all

text \<open>A handler that reports what the framework answered for at most one queued event.\<close>

definition reports :: "('n, 'm) handler_env \<Rightarrow> ('n, 'm) wa_call list \<times> bool \<Rightarrow> bool" where
  "reports E r \<longleftrightarrow> length (queued (fst r)) \<le> 1 \<and> (snd r \<longleftrightarrow> list_all (wh_queue E) (queued (fst r)))"

lemma reports_queue [simp]: "reports E (queue_event E r)"
  by (simp add: reports_def queue_event_def)

lemma reports_quiet: "queued calls = [] \<Longrightarrow> reports E (calls, True)"
  by (simp add: reports_def)

lemma reports_after [simp]:
  "reports E (SaveHistoryNotification n # fst (queue_event E r), snd (queue_event E r))"
  "reports E (PhoneSeen ts # fst (queue_event E r), snd (queue_event E r))"
  by (simp_all add: reports_def queue_event_def)

lemma handleWAMessage_reports: "reports E (handleWAMessage E m)"
proof -
  have quiet: "queued (case me_HistoryNotification m of
      Some n \<Rightarrow> if P n then [SaveHistoryNotification n] else [] | None \<Rightarrow> []) = []" for P
    by (simp split: option.split)
  show ?thesis
    unfolding handleWAMessage_def Let_def case_prod_beta
    by (auto simp: quiet intro!: reports_quiet split: option.split)
qed

lemma handleWAReceipt_reports: "reports E (handleWAReceipt E r)"
  unfolding handleWAReceipt_def Let_def case_prod_beta
  by (auto intro!: reports_quiet split: option.split)

lemma handleWAUndecryptableMessage_reports: "reports E (handleWAUndecryptableMessage E i h t)"
  by (simp add: handleWAUndecryptableMessage_def Let_def reports_def queue_event_def)

text \<open>The two events whose answer the code does not look at.\<close>

fun best_effort :: "('n, 'm) wa_raw_event \<Rightarrow> bool" where
  "best_effort (EvtChatPresence _ _ _) = True"
| "best_effort (EvtIdentityChange _ _ _) = True"
| "best_effort _ = False"

text \<open>C10: Every event from WhatsApp queues at most one event for the framework, and it is
  acknowledged exactly when the framework accepted it (typing notices and security code notices
  aside, which are always acknowledged): an event that could not be queued is reported as failed
  to whatsmeow, and one that is dropped on purpose is not delivered again.\<close>

theorem wa_event_acknowledged:
  "length (queued (fst (fst (handleWAEvent E evt dedup)))) \<le> 1
   \<and> (snd (fst (handleWAEvent E evt dedup)) \<longleftrightarrow>
      best_effort evt \<or> list_all (wh_queue E) (queued (fst (fst (handleWAEvent E evt dedup)))))"
proof (cases "best_effort evt")
  case True
  then show ?thesis
    by (cases evt) (simp_all add: handleWAEvent_def Let_def handleWAChatPresence_def handleWAIdentityChange_def queue_event_def)
next
  case False
  have "reports E (fst (handleWAEvent E evt dedup))"
  proof (cases evt)
    case (EvtMediaRetry r ts)
    then show ?thesis by (simp add: handleWAEvent_def reports_def queue_event_def)
  next
    case (EvtJoinedGroup j key info)
    then show ?thesis
      by (simp add: handleWAEvent_def handleWAJoinedGroup_def reports_quiet)
  qed (use False in \<open>simp_all add: handleWAEvent_def Let_def handleWAMessage_reports handleWAReceipt_reports
      handleWAUndecryptableMessage_reports handleWACallStart_def handleWAMarkChatAsRead_def handleWADeleteForMe_def
      handleWADeleteChat_def handleWAMute_def handleWAArchive_def handleWAPin_def handleWAUserLocalPortalInfo_def
      handleWAGroupInfoChange_def case_prod_beta handleWANewsletterJoin_def handleWANewsletterLeave_def
      handleWAPictureUpdate_def reports_quiet\<close>)
  with False show ?thesis by (simp add: reports_def)
qed

section \<open>Receipts for messages sent from Matrix\<close>

definition receipt_targets :: "('n, 'm) wa_call list \<Rightarrow> string list list" where
  "receipt_targets calls = List.map_filter (\<lambda>r. case r of RemoteReceipt _ _ targets \<Rightarrow> Some targets | _ \<Rightarrow> None) (queued calls)"

lemma handleWAReceipt_targets:
  assumes "Server (mi_Chat (rc_Source r)) \<noteq> HiddenUserServer" and "receipt_kind_of (rc_Type r) = Some k"
  shows "receipt_targets (fst (handleWAReceipt E r)) =
    [map (MakeMessageID (wh_L E) (mi_Chat (rc_Source r))
       (receipt_message_sender E (rc_Source r) (rc_MessageSender r))) (rc_MessageIDs r)]"
  using assms by (simp add: handleWAReceipt_def Let_def reroute_not_lid case_prod_beta queue_event_def receipt_targets_def
    List.map_filter_simps)

lemma handleConverted_response:
  assumes "snd (handleConvertedMatrixMessage S ev m extra) = Ok resp"
    and "ParsePortalID (se_L S) (pt_ID (mx_Portal ev)) = Ok chat"
    and "\<And>x. se_SendMessage S chat (OutConverted m) x = Inr sr"
  shows "mr_ID resp = MakeMessageID (se_L S) chat
    (if sent_with_lid (se_client S) chat sr then cl_LID (se_client S) else cl_JID (se_client S)) (new_message_id S ev)"
proof -
  have "\<not> (chat = StatusBroadcastJID \<and> se_DisableStatusBroadcastSend S)"
    using assms(1,2) by (auto simp: handleConvertedMatrixMessage_def Let_def)
  with assms show ?thesis
    by (auto simp: handleConvertedMatrixMessage_def Let_def send_message_def message_response_def split: if_splits)
qed


definition sample_handler_env :: "(unit, unit) handler_env" where
  "sample_handler_env = \<lparr>wh_L = sample_jid_lib, wh_client = sample_client, wh_queue = (\<lambda>_. True), wh_now = time_unix 1700000100,
     wh_EnableStatusBroadcast = True, wh_BackfillEnabled = True, wh_ManualHistorySyncDownload = True, wh_CallStartNotices = True,
     wh_IdentityChangeNotices = True, wh_ArchiveTag = ''m.lowpriority'', wh_PinnedTag = ''m.favourite'', wh_PushName = ''me'',
     wh_DecryptReaction = (\<lambda>_. Inr \<lparr>rm_Key = None, rm_Text = []\<rparr>), wh_DecryptComment = (\<lambda>_. Inl (Err ''no key'')),
     wh_DecryptSecret = (\<lambda>_. Inl (Err ''no key'')), wh_UnwrapRaw = (\<lambda>e. e)\<rparr>"

definition sample_receipt :: Receipt where
  "sample_receipt = \<lparr>rc_Source = sample_info\<lparr>mi_Chat := sample_group, mi_Sender := \<lparr>User = ''77'', Server = HiddenUserServer, Device = 2\<rparr>\<rparr>,
     rc_MessageIDs = [''3EB0AA''], rc_MessageSender = EmptyJID, rc_Type = ReceiptRead, rc_Timestamp = time_unix 1700000050\<rparr>"


section \<open>Two divergences\<close>

text \<open>
  The end of a mute is sent to WhatsApp in milliseconds and read from it in seconds: the mute the
  user sets on Matrix comes back, from the user's other device, later than it was set, for every
  end after 1970.
\<close>

lemma mute_echo_misread:
  assumes "0 < ms"
  shows "muted_until True (go_unix_milli (time_unix_milli ms)) = MutedUntil (time_unix ms) \<and> time_unix_milli ms < time_unix ms"
proof -
  have "go_unix_milli (time_unix_milli ms) = ms" by (simp add: go_unix_milli_def time_unix_milli_def milli_def)
  with assms show ?thesis
    by (simp add: muted_until_def time_unix_def time_unix_milli_def milli_def second_def)
qed

text \<open>
  The type of an encrypted reaction is taken before it is decrypted, so the removal of one is
  handled as a new reaction with no emoji.
\<close>

lemma encrypted_reaction_removal:
  assumes "decrypt_reaction E target (typed e) = Some e'" and "ev_parsedMessageType (typed e) = ''encrypted reaction''"
    and "has_field (typed e) FEncReactionMessage" and "wh_DecryptReaction E (typed e) = Inr decrypted" and "rm_Text decrypted = []"
  shows "GetType e' = RemoteEventReaction \<and> GetReactionEmoji e' = []"
proof -
  have e': "e' = (typed e)\<lparr>ev_Message := map_option (with_reaction (decrypted\<lparr>rm_Key := target\<rparr>)) (ev_Message (typed e))\<rparr>"
    using assms(1,3,4) by (simp add: decrypt_reaction_def)
  have t: "ev_parsedMessageType e' = ''encrypted reaction''" using assms(2) e' by simp
  have "GetReactionEmoji e' = []"
    using assms(5) e' by (cases "ev_Message (typed e)") (simp_all add: GetReactionEmoji_def ev_reaction_def with_reaction_def)
  with t show ?thesis by (simp add: GetType_def)
qed

end
