(* ===== verification/FromMatrix.thy ===== *)
theory FromMatrix
  imports MatrixMessages
begin

text \<open>
  Conversion from Matrix, \<open>pkg/msgconv/from-matrix.go\<close>: the context of a message (its
  reply and disappearing timer), text, group invites, mentions, media with their conversions,
  locations and comments. The HTML parser, the codecs and ffmpeg, whatsmeow's upload and
  encryption, the URL preview and the thumbnail are fields of \<open>from_env\<close>. The media message,
  its context and the group invite are the records the other direction converts from.
\<close>

section \<open>Data\<close>

datatype MatrixMsgType =
    MText | MNotice | MEmote | MSticker | MImage | MVideo | MAudio | MFile | MLocation | MOther string

text \<open>
  The content of a Matrix message. \<open>mc_Audio\<close> is the duration and the waveform of the
  extensible audio event, \<open>mc_GroupInvite\<close> the raw invite field after it went through JSON.
\<close>

record MatrixContent =
  mc_MsgType :: MatrixMsgType
  mc_IsStickerEvent :: bool
  mc_Body :: string
  mc_HTML :: bool
  mc_FormattedBody :: string
  mc_FileName :: string
  mc_URL :: string
  mc_Info :: FileInfo
  mc_MauGIF :: bool
  mc_Audio :: "(int \<times> int list) option"
  mc_Voice :: bool
  mc_GeoURI :: string
  mc_GroupInvite :: "(gerror + GroupInviteMeta) option"
  mc_PerMessageTimer :: "int option"

text \<open>An image as Go's \<open>image.Image\<close>: its bounds and its pixels.\<close>

record 'c image =
  im_MinX :: int
  im_MinY :: int
  im_MaxX :: int
  im_MaxY :: int
  im_At :: "int \<Rightarrow> int \<Rightarrow> 'c"

datatype UploadType = UploadImage | UploadVideo | UploadAudio | UploadDocument

text \<open>The message that is built; \<open>'f\<close> is a floating point number and \<open>'p\<close> a URL preview.
  A captioned document is wrapped in a document-with-caption message.\<close>

datatype ('f, 'p) FromMessage =
    FText string 'p ContextInfo
  | FInvite GroupInviteMessage string ContextInfo
  | FMedia MediaMessage "byte list"
  | FCaptionedDocument MediaMessage "byte list"
  | FLocation 'f 'f string ContextInfo

datatype ('f, 'p, 'e) WhatsAppOut =
    PlainOut "('f, 'p) FromMessage"
  | SecretOut "('f, 'p) FromMessage" "byte list"
  | CommentOut 'e

record ('c, 'f, 'p, 'e) from_env =
  fv_L :: jid_lib
  fv_client :: client
  fv_parse_html :: "string \<Rightarrow> string \<times> string list"
  fv_preview :: "MatrixContent \<Rightarrow> 'p"
  fv_download :: "string \<Rightarrow> gerror + byte list"
  fv_detect :: "byte list \<Rightarrow> string"
  fv_decode :: "byte list \<Rightarrow> gerror + 'c image"
  fv_transparent :: 'c
  fv_encode_webp :: "'c image \<Rightarrow> gerror + byte list"
  fv_encode_jpeg :: "'c image \<Rightarrow> gerror + byte list"
  fv_ffmpeg :: "string \<Rightarrow> byte list \<Rightarrow> gerror + byte list"
  fv_upload :: "byte list \<Rightarrow> UploadType \<Rightarrow> gerror + FailedMediaKeys"
  fv_thumbnail :: "byte list \<Rightarrow> FileInfo \<Rightarrow> bool \<Rightarrow> byte list"
  fv_parse_float :: "string \<Rightarrow> gerror + 'f"
  fv_encrypt_comment :: "MessageInfo \<Rightarrow> ('f, 'p) FromMessage \<Rightarrow> gerror + 'e"
  fv_secret :: "byte list"

section \<open>Context\<close>

definition reply_context :: "jid_lib \<Rightarrow> DBMessage option \<Rightarrow> ContextInfo" where
  "reply_context L replyTo =
     (case replyTo of
        None \<Rightarrow> nil_context
      | Some m \<Rightarrow> (case ParseMessageID L (dbm_ID m) of
            Ok p \<Rightarrow> nil_context\<lparr>ci_StanzaID := ID p, ci_Participant := jid_string L (Sender p)\<rparr>
          | _ \<Rightarrow> nil_context))"

definition generateContextInfo :: "jid_lib \<Rightarrow> DBMessage option \<Rightarrow> Portal \<Rightarrow> int option \<Rightarrow> ContextInfo" where
  "generateContextInfo L replyTo portal perMessageTimer =
     (let ci = reply_context L replyTo;
          timer = (case perMessageTimer of Some t \<Rightarrow> t | None \<Rightarrow> dis_Timer (pt_Disappear portal));
          setAt = pmd_DisappearingTimerSetAt (pt_Meta portal)
      in if timer > 0
         then ci\<lparr>ci_Expiration := word_of_int (timer div second),
                 ci_EphemeralSettingTimestamp := (if setAt > 0 then setAt else 0)\<rparr>
         else ci)"

section \<open>Text, invites and mentions\<close>

definition parseText :: "('c, 'f, 'p, 'e) from_env \<Rightarrow> MatrixContent \<Rightarrow> string \<times> string list" where
  "parseText V c = (if mc_HTML c then fv_parse_html V (mc_FormattedBody c) else (mc_Body c, []))"

definition with_mentions :: "string list \<Rightarrow> ContextInfo \<Rightarrow> ContextInfo" where
  "with_mentions mentions ci = (if mentions \<noteq> [] then ci\<lparr>ci_MentionedJID := mentions\<rparr> else ci)"

definition constructGroupInviteMessage ::
  "('c, 'f, 'p, 'e) from_env \<Rightarrow> MatrixContent \<Rightarrow> gerror + GroupInviteMeta \<Rightarrow> ContextInfo \<Rightarrow> ('f, 'p) FromMessage outcome" where
  "constructGroupInviteMessage V c invite ci =
     obind (owrap ''failed to parse invite meta'' (of_sum invite)) (\<lambda>meta.
       let (txt, mentions) = parseText V c
       in Ok (FInvite \<lparr>gim_GroupJID = jid_string (fv_L V) (gi_JID meta), gim_InviteCode = gi_Code meta,
                gim_InviteExpiration = gi_Expiration meta, gim_GroupName = gi_GroupName meta,
                gim_IsParent = gi_IsParentGroup meta\<rparr> txt (with_mentions mentions ci)))"

definition constructTextMessage ::
  "('c, 'f, 'p, 'e) from_env \<Rightarrow> MatrixContent \<Rightarrow> ContextInfo \<Rightarrow> ('f, 'p) FromMessage outcome" where
  "constructTextMessage V c ci =
     (case mc_GroupInvite c of
        Some invite \<Rightarrow> constructGroupInviteMessage V c invite ci
      | None \<Rightarrow> let (txt, mentions) = parseText V c in Ok (FText txt (fv_preview V c) (with_mentions mentions ci)))"

text \<open>
  A pill of the HTML parser. \<open>ghost\<close> and \<open>login\<close> are the framework's lookups: the ghost
  with a Matrix ID; and, for a user of the bridge, the login that is preferred in the portal
  (the user, and perhaps its login). \<open>allowed\<close> is the message's mention list, if it has one.
  The result is the text and the mention to add.
\<close>

definition convertPill ::
  "jid_lib \<Rightarrow> (string \<Rightarrow> gerror + string option) \<Rightarrow> (string \<Rightarrow> gerror + string option option) \<Rightarrow> string list option \<Rightarrow>
   string \<Rightarrow> string \<Rightarrow> string \<Rightarrow> string \<times> string list" where
  "convertPill L ghost login allowed default_pill displayname mxid =
     (let pill = (\<lambda>j. (''@'' @ User j, [jid_string L j]))
      in if mxid = [] \<or> hd mxid \<noteq> CHR ''@'' then (default_pill, [])
         else if (case allowed of None \<Rightarrow> False | Some ms \<Rightarrow> mxid \<notin> set ms) then (displayname, [])
         else case ghost mxid of
                Inl _ \<Rightarrow> (displayname, [])
              | Inr (Some i) \<Rightarrow> pill (ParseUserID L i)
              | Inr None \<Rightarrow>
                  (case login mxid of
                     Inr (Some (Some i)) \<Rightarrow> pill (ParseUserLoginID i 0)
                   | _ \<Rightarrow> (displayname, [])))"

section \<open>Images\<close>

definition im_Dx :: "'c image \<Rightarrow> int" where "im_Dx im = im_MaxX im - im_MinX im"
definition im_Dy :: "'c image \<Rightarrow> int" where "im_Dy im = im_MaxY im - im_MinY im"

text \<open>\<open>PaddedImage\<close>: the bounds and pixels of a smaller image on a transparent square.\<close>

definition padded_image :: "'c \<Rightarrow> 'c image \<Rightarrow> int \<Rightarrow> int \<Rightarrow> int \<Rightarrow> 'c image" where
  "padded_image transparent im side offX offY =
     \<lparr>im_MinX = 0, im_MinY = 0, im_MaxX = side, im_MaxY = side,
      im_At = (\<lambda>x y. if x < offX \<or> y < offY \<or> x \<ge> offX + im_Dx im \<or> y \<ge> offY + im_Dy im
                     then transparent else im_At im (x - offX) (y - offY))\<rparr>"

definition webp_canvas :: "'c \<Rightarrow> 'c image \<Rightarrow> 'c image \<times> int" where
  "webp_canvas transparent im =
     (let width = im_Dx im; height = im_Dy im in
      if width = height then (im, 0)
      else if width > height
        then (padded_image transparent im width (im_MinY im) (im_MinX im + (width - height) div 2), width)
      else (padded_image transparent im height (im_MinY im + (height - width) div 2) (im_MinX im), height))"

definition convertToWebP :: "('c, 'f, 'p, 'e) from_env \<Rightarrow> byte list \<Rightarrow> gerror + byte list \<times> int" where
  "convertToWebP V data =
     (case fv_decode V data of
        Inl e \<Rightarrow> Inl (Wrap ''failed to decode image'' e)
      | Inr im \<Rightarrow>
          (let (canvas, side) = webp_canvas (fv_transparent V) im
           in case fv_encode_webp V canvas of
                Inl e \<Rightarrow> Inl (Wrap ''failed to encode webp image'' e)
              | Inr webp \<Rightarrow> Inr (webp, side)))"

definition convertToJPEG :: "('c, 'f, 'p, 'e) from_env \<Rightarrow> byte list \<Rightarrow> gerror + byte list" where
  "convertToJPEG V data =
     (case fv_decode V data of
        Inl e \<Rightarrow> Inl (Wrap ''failed to decode webp image'' e)
      | Inr im \<Rightarrow> (case fv_encode_jpeg V im of
            Inl e \<Rightarrow> Inl (Wrap ''failed to encode png image'' e)
          | Inr jpeg \<Rightarrow> Inr jpeg))"

section \<open>Media\<close>

definition set_size :: "int \<Rightarrow> MatrixContent \<Rightarrow> MatrixContent" where
  "set_size side c = c\<lparr>mc_Info := (mc_Info c)\<lparr>fi_Width := side, fi_Height := side\<rparr>\<rparr>"

definition convert_sticker :: "('c, 'f, 'p, 'e) from_env \<Rightarrow> MatrixContent \<Rightarrow> string \<Rightarrow> byte list \<Rightarrow>
   (byte list \<times> string \<times> MatrixContent) outcome" where
  "convert_sticker V c mime data =
     (if mime \<noteq> ''image/webp'' \<or> fi_Width (mc_Info c) \<noteq> fi_Height (mc_Info c) then
        (case convertToWebP V data of
           Inl e \<Rightarrow> if mime \<noteq> ''image/webp'' then Fail (Wrap ''media convert failed (to webp)'' e)
                     else Ok (data, mime, c)
         | Inr (webp, side) \<Rightarrow> Ok (webp, ''image/webp'', set_size side c))
      else Ok (data, mime, c))"

definition convert_image :: "('c, 'f, 'p, 'e) from_env \<Rightarrow> string \<Rightarrow> byte list \<Rightarrow> (byte list \<times> string) outcome" where
  "convert_image V mime data =
     (if mime = ''image/jpeg'' then Ok (data, mime)
      else if mime = ''image/webp'' \<or> mime = ''image/png'' then
        obind (owrap ''media convert failed (webp to png)'' (of_sum (convertToJPEG V data))) (\<lambda>jpeg. Ok (jpeg, ''image/jpeg''))
      else Fail (Err (''unsupported media type '' @ mime @ '' in image message'')))"

definition convert_video :: "('c, 'f, 'p, 'e) from_env \<Rightarrow> string \<Rightarrow> byte list \<Rightarrow> (byte list \<times> string) outcome" where
  "convert_video V mime data =
     (let ffmpeg = (\<lambda>source. obind (owrap (''media convert failed ('' @ source @ '' to mp4)'') (of_sum (fv_ffmpeg V source data)))
                       (\<lambda>mp4. Ok (mp4, ''video/mp4'')))
      in if mime = ''video/mp4'' \<or> mime = ''video/3gpp'' then Ok (data, mime)
         else if mime = ''video/webm'' then ffmpeg ''webm''
         else if mime = ''video/quicktime'' then ffmpeg ''mov''
         else if mime = ''image/gif'' then ffmpeg ''gif''
         else Fail (Err (''unsupported media type '' @ mime @ '' in video message'')))"

definition accepted_audio :: "string list" where
  "accepted_audio = [''audio/aac'', ''audio/mp4'', ''audio/amr'', ''audio/mpeg'', ''audio/ogg; codecs=opus'']"

definition convert_audio :: "string \<Rightarrow> string outcome" where
  "convert_audio mime =
     (if mime \<in> set accepted_audio then Ok mime
      else if mime = ''audio/ogg'' then Ok ''audio/ogg; codecs=opus''
      else Fail (Err (''unsupported media type '' @ mime @ '' in audio message'')))"

text \<open>The data to upload, its MIME type, the content and the upload type, by the message type.\<close>

definition convert_media :: "('c, 'f, 'p, 'e) from_env \<Rightarrow> MatrixContent \<Rightarrow> string \<Rightarrow> byte list \<Rightarrow>
   (byte list \<times> string \<times> MatrixContent \<times> UploadType) outcome" where
  "convert_media V c mime data =
     (case mc_MsgType c of
        MSticker \<Rightarrow> obind (convert_sticker V c mime data) (\<lambda>(d, m, c'). Ok (d, m, c', UploadImage))
      | MImage \<Rightarrow> obind (convert_image V mime data) (\<lambda>(d, m). Ok (d, m, c, UploadImage))
      | MVideo \<Rightarrow> obind (convert_video V mime data) (\<lambda>(d, m). Ok (d, m, c, UploadVideo))
      | MAudio \<Rightarrow> obind (convert_audio mime) (\<lambda>m. Ok (data, m, c, UploadAudio))
      | _ \<Rightarrow> Ok (data, mime, c, UploadDocument))"

definition reuploadFileToWhatsApp :: "('c, 'f, 'p, 'e) from_env \<Rightarrow> MatrixContent \<Rightarrow>
   (FailedMediaKeys \<times> byte list \<times> string \<times> MatrixContent) outcome" where
  "reuploadFileToWhatsApp V content =
     obind (owrap ''media download failed'' (of_sum (fv_download V (mc_URL content)))) (\<lambda>original.
       let mime0 = fi_MimeType (mc_Info content);
           mime = (if mime0 = [] then fv_detect V original else mime0);
           c = (if mime = ''image/gif'' then content\<lparr>mc_MsgType := MVideo\<rparr> else content)
       in obind (convert_media V c mime original) (\<lambda>(data, mime', c', mediaType).
          obind (owrap ''media reupload failed'' (of_sum (fv_upload V data mediaType))) (\<lambda>uploaded.
          Ok (uploaded,
              if mediaType = UploadAudio then [] else fv_thumbnail V data (mc_Info c') (mc_MsgType c = MSticker), mime', c'))))"

definition go_trunc :: "int \<Rightarrow> int \<Rightarrow> int" where
  "go_trunc a b = (if a \<ge> 0 then a div b else - ((- a) div b))"

definition waveform_byte :: "int \<Rightarrow> int \<Rightarrow> byte" where
  "waveform_byte maxVal part = word_of_int (min (if maxVal \<le> 256 then part else go_trunc part 4) 255)"

definition getAudioInfo :: "MatrixContent \<Rightarrow> byte list \<times> 32 word" where
  "getAudioInfo c =
     (let duration = word_of_int (go_trunc (fi_Duration (mc_Info c)) 1000) :: 32 word in
      case mc_Audio c of
        None \<Rightarrow> ([], duration)
      | Some (audioDuration, waveform) \<Rightarrow>
          (let duration' = (if duration = 0 \<and> audioDuration \<noteq> 0 then word_of_int (go_trunc audioDuration 1000) else duration)
           in (if waveform = [] then [] else map (waveform_byte (Max (set waveform))) waveform, duration')))"

definition caption_of :: "('c, 'f, 'p, 'e) from_env \<Rightarrow> MatrixContent \<Rightarrow> ContextInfo \<Rightarrow> string \<times> ContextInfo" where
  "caption_of V c ci =
     (if mc_FileName c \<noteq> [] \<and> mc_Body c \<noteq> mc_FileName c
      then let (caption, mentions) = parseText V c in (caption, ci\<lparr>ci_MentionedJID := mentions\<rparr>)
      else ([], ci))"

definition constructMediaMessage :: "('c, 'f, 'p, 'e) from_env \<Rightarrow> MatrixContent \<Rightarrow> FailedMediaKeys \<Rightarrow> byte list \<Rightarrow> ContextInfo \<Rightarrow>
   string \<Rightarrow> ('f, 'p) FromMessage option" where
  "constructMediaMessage V c uploaded thumbnail contextInfo mime =
     (let (caption, ci) = caption_of V c contextInfo;
          dims = Some (word_of_int (fi_Width (mc_Info c)), word_of_int (fi_Height (mc_Info c)));
          base = \<lparr>mm_Kind = KImage, mm_Seconds = None, mm_Dimensions = None, mm_Caption = None, mm_FileName = [], mm_PTT = False,
                  mm_Waveform = [], mm_GifPlayback = False, mm_Keys = uploaded\<lparr>fk_MimeType := mime\<rparr>, mm_ContextInfo = Some ci\<rparr>
      in case mc_MsgType c of
           MSticker \<Rightarrow> Some (FMedia (base\<lparr>mm_Kind := KSticker, mm_Dimensions := dims\<rparr>) thumbnail)
         | MAudio \<Rightarrow>
             (let (waveform, seconds) = getAudioInfo c
              in Some (FMedia (base\<lparr>mm_Kind := KAudio, mm_Seconds := Some seconds, mm_Waveform := waveform,
                                     mm_PTT := mc_Voice c\<rparr>) []))
         | MImage \<Rightarrow> Some (FMedia (base\<lparr>mm_Kind := KImage, mm_Dimensions := dims, mm_Caption := Some caption\<rparr>) thumbnail)
         | MVideo \<Rightarrow>
             Some (FMedia (base\<lparr>mm_Kind := KVideo, mm_Dimensions := dims, mm_Caption := Some caption,
               mm_GifPlayback := (mime = ''video/mp4'' \<and> (fi_MimeType (mc_Info c) = ''image/gif'' \<or> mc_MauGIF c)),
               mm_Seconds := Some (word_of_int (go_trunc (fi_Duration (mc_Info c)) 1000))\<rparr>) thumbnail)
         | MFile \<Rightarrow>
             (let doc = base\<lparr>mm_Kind := KDocument, mm_Caption := Some caption,
                    mm_FileName := (if mc_FileName c = [] then mc_Body c else mc_FileName c)\<rparr>
              in Some (if caption \<noteq> [] then FCaptionedDocument doc thumbnail else FMedia doc thumbnail))
         | _ \<Rightarrow> None)"

section \<open>Locations\<close>

definition parseGeoURI :: "('c, 'f, 'p, 'e) from_env \<Rightarrow> string \<Rightarrow> ('f \<times> 'f) outcome" where
  "parseGeoURI V uri =
     (if \<not> has_prefix uri ''geo:'' then Fail (Err ''uri doesn't have geo: prefix'')
      else
        let coordinates = takeWhile (\<lambda>ch. ch \<noteq> CHR '';'') (trim_prefix uri ''geo:'');
            lat = takeWhile (\<lambda>ch. ch \<noteq> CHR '','') coordinates; rest = dropWhile (\<lambda>ch. ch \<noteq> CHR '','') coordinates
        in if rest = [] \<or> CHR '','' \<in> set (tl rest)
           then Fail (Err ''didn't find exactly two numbers separated by a comma'')
           else obind (owrap ''latitude is not a number'' (of_sum (fv_parse_float V lat))) (\<lambda>la.
                obind (owrap ''longitude is not a number'' (of_sum (fv_parse_float V (tl rest)))) (\<lambda>lo. Ok (la, lo))))"

section \<open>The whole message\<close>

definition effective_type :: "MatrixContent \<Rightarrow> MatrixContent" where
  "effective_type c = (if mc_IsStickerEvent c then c\<lparr>mc_MsgType := MSticker\<rparr> else c)"

text \<open>A media message that has no constructor is a nil message.\<close>

definition convert_content :: "('c, 'f, 'p, 'e) from_env \<Rightarrow> MatrixContent \<Rightarrow> ContextInfo \<Rightarrow> ('f, 'p) FromMessage option outcome" where
  "convert_content V c ci =
     (case mc_MsgType c of
        MText \<Rightarrow> obind (constructTextMessage V c ci) (\<lambda>m. Ok (Some m))
      | MNotice \<Rightarrow> obind (constructTextMessage V c ci) (\<lambda>m. Ok (Some m))
      | MEmote \<Rightarrow> obind (constructTextMessage V c ci) (\<lambda>m. Ok (Some m))
      | MLocation \<Rightarrow> obind (parseGeoURI V (mc_GeoURI c)) (\<lambda>(lat, long). Ok (Some (FLocation lat long (mc_Body c) ci)))
      | MOther t \<Rightarrow> Fail (Err (''unsupported message type '' @ t))
      | _ \<Rightarrow> obind (reuploadFileToWhatsApp V c) (\<lambda>(uploaded, thumbnail, mime, c').
              Ok (constructMediaMessage V c' uploaded thumbnail ci mime)))"

text \<open>\<open>comment_extra\<close> is the metadata of a comment: the LID of the thread's sender.\<close>

definition comment_extra :: "('c, 'f, 'p, 'e) from_env \<Rightarrow> ParsedMessageID \<Rightarrow> SendRequestExtra outcome" where
  "comment_extra V root =
     obind (if Server (Sender root) = DefaultUserServer
            then (case GetLIDForPN (fv_client V) (Sender root) of
                    (_, Some e) \<Rightarrow> Fail (Wrap ''failed to get LID for PN'' e)
                  | (lid, None) \<Rightarrow> Ok lid)
            else Ok (Sender root)) (\<lambda>lid.
     Ok (empty_extra\<lparr>sre_ThreadMessageID := ID root, sre_ThreadMessageSender := lid, sre_DeprecatedLIDSession := Some False\<rparr>))"

definition ToWhatsApp :: "('c, 'f, 'p, 'e) from_env \<Rightarrow> MatrixContent \<Rightarrow> DBMessage option \<Rightarrow> DBMessage option \<Rightarrow> Portal \<Rightarrow>
   (('f, 'p, 'e) WhatsAppOut \<times> SendRequestExtra option) outcome" where
  "ToWhatsApp V content replyTo threadRoot portal =
     (let ci = generateContextInfo (fv_L V) replyTo portal (mc_PerMessageTimer content)
      in obind (convert_content V (effective_type content) ci) (\<lambda>message.
         case message of
           None \<Rightarrow> Panic
         | Some msg \<Rightarrow>
             if \<not> pmd_CommunityAnnouncementGroup (pt_Meta portal) then Ok (PlainOut msg, Some empty_extra)
             else case threadRoot of
                    None \<Rightarrow> Ok (SecretOut msg (fv_secret V), Some empty_extra)
                  | Some root \<Rightarrow>
                      obind (owrap ''failed to parse message ID'' (ParseMessageID (fv_L V) (dbm_ID root))) (\<lambda>parsedID.
                      obind (owrap ''failed to encrypt comment''
                               (of_sum (fv_encrypt_comment V (MessageIDToInfo (fv_client V) parsedID) msg))) (\<lambda>enc.
                      obind (comment_extra V parsedID) (\<lambda>extra. Ok (CommentOut enc, Some extra))))))"

section \<open>Lemmas\<close>

lemma constructMediaMessage_total:
  "mc_MsgType c \<in> {MSticker, MImage, MVideo, MAudio, MFile} \<Longrightarrow> constructMediaMessage V c up th ci mime \<noteq> None"
  by (auto simp: constructMediaMessage_def Let_def case_prod_beta)

lemma convert_media_type:
  assumes "convert_media V c mime data = Ok (d, m, c', t)"
  shows "mc_MsgType c' = mc_MsgType c"
  using assms
  by (cases "mc_MsgType c")
    (auto simp: convert_media_def outcome_simps convert_sticker_def set_size_def split: if_splits sum.splits prod.splits)

text \<open>Every media type has a constructor, so no message is ever nil.\<close>

lemma convert_content_total: "convert_content V c ci \<noteq> Ok None"
proof
  assume a: "convert_content V c ci = Ok None"
  then have t: "mc_MsgType c \<in> {MSticker, MImage, MVideo, MAudio, MFile}"
    by (cases "mc_MsgType c") (auto simp: convert_content_def outcome_simps)
  with a obtain up th mime c' where r: "reuploadFileToWhatsApp V c = Ok (up, th, mime, c')"
    and n: "constructMediaMessage V c' up th ci mime = None"
    by (cases "reuploadFileToWhatsApp V c") (auto simp: convert_content_def split: prod.splits)
  have "mc_MsgType c' \<in> {MSticker, MImage, MVideo, MAudio, MFile}"
    using r t by (auto simp: reuploadFileToWhatsApp_def Let_def outcome_simps dest!: convert_media_type split: if_splits)
  with n constructMediaMessage_total show False by metis
qed

lemma generateContextInfo_reply [simp]:
  "ci_StanzaID (generateContextInfo L r portal t) = ci_StanzaID (reply_context L r)"
  "ci_Participant (generateContextInfo L r portal t) = ci_Participant (reply_context L r)"
  "ci_RemoteJID (generateContextInfo L r portal t) = []"
  by (simp_all add: generateContextInfo_def Let_def reply_context_def nil_context_def split: option.split outcome.split)

lemma reply_context_timer [simp]: "ci_Expiration (reply_context L r) = 0" "ci_EphemeralSettingTimestamp (reply_context L r) = 0"
  by (simp_all add: reply_context_def nil_context_def split: option.split outcome.split)

section \<open>Replies and timers come back unchanged\<close>

text \<open>C25: A reply written on Matrix, read back from WhatsApp by the converter of the other
  direction, is a reply to the same message: in any chat whose identifier the portal has, for a
  sender that needs no rerouting there.\<close>

theorem own_reply_roundtrip:
  assumes "jid_lib_ok (ce_L C)" and "plain_jid chat" and "plain_jid sender"
    and "dbm_ID m = MakeMessageID (ce_L C) chat sender i" and "pt_ID portal = MakePortalID (ce_L C) chat"
    and "i \<noteq> []" and "\<not> has_prefix i ''FAKE::''" and "jid_string (ce_L C) chat \<noteq> ''fake''"
    and "parsed_or_empty (ce_L C) [] = EmptyJID"
    and "\<not> (Server chat = DefaultUserServer \<and> Server sender = HiddenUserServer)"
    and "\<not> (Server chat = GroupServer \<and> Server sender = DefaultUserServer \<and> pmd_AddressingMode (pt_Meta portal) = AddressingModeLID)"
  shows "reply_target C portal (generateContextInfo (ce_L C) (Some m) portal timer) = Some (dbm_ID m)"
proof -
  let ?L = "ce_L C"
  have d: "chat\<lparr>Device := 0\<rparr> = chat" "sender\<lparr>Device := 0\<rparr> = sender"
    using assms(2,3) by (simp_all add: plain_jid_Device)
  have p: "ParseMessageID ?L (dbm_ID m) = Ok \<lparr>Chat = chat, Sender = sender, ID = i\<rparr>"
    using ParseMessageID_MakeMessageID [OF assms(1), of chat sender i] assms(2-4,7,8) d by simp
  have rc: "ci_StanzaID (reply_context ?L (Some m)) = i" "ci_Participant (reply_context ?L (Some m)) = jid_string ?L sender"
    using p by (simp_all add: reply_context_def)
  have portal: "parsed_or_empty ?L (pt_ID portal) = chat"
    using assms(1,2,5) by (simp add: parsed_or_empty_def MakePortalID_def plain_jid_non_ad parse_jid_string)
  have sender: "parsed_or_empty ?L (jid_string ?L sender) = sender"
    using assms(1,3) by (simp add: parsed_or_empty_def parse_jid_string)
  have chat: "target_chat ?L portal [] = chat"
    using assms(9) portal by (simp add: target_chat_def jid_is_empty [OF assms(1)])
  have keep: "rerouteMessageKey ?L (ce_store C) chat sender (pmd_AddressingMode (pt_Meta portal) = AddressingModeLID) = sender"
    using assms(10,11) by (auto simp: rerouteMessageKey_def split: option.split)
  show ?thesis
    using assms(4,6,10,11) rc chat sender keep
    by (auto simp: reply_target_def Let_def split: option.split)
qed

theorem own_reply_roundtrip_witness:
  "reply_target sample_conv_env sample_portal
     (generateContextInfo sample_jid_lib (Some \<lparr>dbm_ID = ''1234-5678@g.us:77@lid:A1'', dbm_MXID = [], dbm_Metadata = empty_metadata\<rparr>)
        sample_portal None) = Some ''1234-5678@g.us:77@lid:A1''"
proof -
  let ?m = "\<lparr>dbm_ID = ''1234-5678@g.us:77@lid:A1'', dbm_MXID = [], dbm_Metadata = empty_metadata\<rparr>"
  let ?s = "\<lparr>User = ''77'', Server = HiddenUserServer, Device = 0\<rparr>"
  have L: "ce_L sample_conv_env = sample_jid_lib" by (simp add: sample_conv_env_def)
  have s: "plain_jid ?s" by (simp add: plain_jid_def plain_user_def)
  have m: "dbm_ID ?m = MakeMessageID (ce_L sample_conv_env) sample_group ?s ''A1''" unfolding L by code_simp
  have p: "pt_ID sample_portal = MakePortalID (ce_L sample_conv_env) sample_group" unfolding L by code_simp
  have f: "jid_string (ce_L sample_conv_env) sample_group \<noteq> ''fake''" unfolding L by code_simp
  have e: "parsed_or_empty (ce_L sample_conv_env) [] = EmptyJID"
    unfolding L by (simp add: parsed_or_empty_def sample_jid_lib_def server_of_name_def EmptyJID_def)
  have ok: "jid_lib_ok (ce_L sample_conv_env)" by (simp add: L sample_jid_lib_ok)
  have "reply_target sample_conv_env sample_portal (generateContextInfo (ce_L sample_conv_env) (Some ?m) sample_portal None) = Some (dbm_ID ?m)"
    by (rule own_reply_roundtrip [OF ok plain_samples(2) s m p _ _ f e]) (simp_all add: has_prefix_def sample_group_def)
  then show ?thesis by (simp add: L)
qed

text \<open>The disappearing timer survives the way to WhatsApp and back: a message sent from
  Matrix carries the portal's own setting (a whole number of seconds below 2^32), so reading it
  back gives that setting, and whatever timer the message itself asked for, its echo never
  changes the setting the portal stores.\<close>

theorem own_message_keeps_timer:
  assumes "dis_Type (pt_Disappear portal) = (if dis_Timer (pt_Disappear portal) = 0 then NoDisappear else AfterSend)"
    and "0 \<le> dis_Timer (pt_Disappear portal)" and "dis_Timer (pt_Disappear portal) < 2 ^ 32 * second"
    and "dis_Timer (pt_Disappear portal) mod second = 0" and "0 \<le> pmd_DisappearingTimerSetAt (pt_Meta portal)"
    and "convert_message C waMsg raw = (ref, Some ci)"
    and "ci_Expiration ci = ci_Expiration (generateContextInfo L r portal t)"
    and "ci_EphemeralSettingTimestamp ci = ci_EphemeralSettingTimestamp (generateContextInfo L r portal t)"
  shows "disappear_of (generateContextInfo L r portal None) = pt_Disappear portal
    \<and> fst (snd (ToMatrix C portal waMsg raw info g)) = None"
proof
  let ?d = "dis_Timer (pt_Disappear portal)"
  obtain k where k: "?d = second * k" using assms(4) by (metis mod_0_imp_dvd dvdE)
  have pos: "(0 :: int) < second" by (simp add: second_def)
  have kb: "0 \<le> k" "k < 2 ^ 32" using assms(2,3) pos unfolding k by (simp_all add: zero_le_mult_iff)
  then have u: "uint (word_of_int k :: 32 word) = k" by (simp add: uint_word_of_int)
  have div: "?d div second = k" using pos by (simp add: k)
  show "disappear_of (generateContextInfo L r portal None) = pt_Disappear portal"
  proof (cases "?d = 0")
    case True
    with assms(1) show ?thesis
      by (cases "pt_Disappear portal") (simp add: disappear_of_def generateContextInfo_def)
  next
    case False
    with k pos kb have "0 < k" "0 < ?d" by auto
    then have w: "(word_of_int k :: 32 word) \<noteq> 0" using u by (metis uint_0_eq less_irrefl)
    with False \<open>0 < ?d\<close> assms(1) div u k show ?thesis
      by (cases "pt_Disappear portal") (simp add: disappear_of_def generateContextInfo_def Let_def word_gt_0 mult.commute)
  qed
  have "ci_EphemeralSettingTimestamp (generateContextInfo L r portal t) \<le> pmd_DisappearingTimerSetAt (pt_Meta portal)"
    using assms(5) by (simp add: generateContextInfo_def Let_def)
  with assms(6,8) show "fst (snd (ToMatrix C portal waMsg raw info g)) = None"
    by (simp add: ToMatrix_def Let_def)
qed

definition week_portal :: Portal where
  "week_portal = sample_portal\<lparr>pt_Disappear := \<lparr>dis_Type = AfterSend, dis_Timer = 604800 * second\<rparr>\<rparr>"

definition echo_env :: "ContextInfo \<Rightarrow> conv_env" where
  "echo_env ci = sample_conv_env\<lparr>ce_convert := (\<lambda>f m. (Fresh (plain_part EventMessage empty_content), Some ci))\<rparr>"

lemma echo_convert:
  "convert_message (echo_env ci) (bare_message FConversation) raw = (Fresh (plain_part EventMessage empty_content), Some ci)"
  by (simp add: convert_message_def conversion_field_def conversion_order_def bare_message_def has_def echo_env_def)

theorem own_message_keeps_timer_witness:
  "disappear_of (generateContextInfo sample_jid_lib None week_portal None) = \<lparr>dis_Type = AfterSend, dis_Timer = 604800 * second\<rparr>
   \<and> fst (snd (ToMatrix (echo_env (generateContextInfo sample_jid_lib None week_portal (Some (86400 * second)))) week_portal
       (bare_message FConversation) None sample_info initial_parts)) = None"
proof -
  have "pt_Disappear week_portal = \<lparr>dis_Type = AfterSend, dis_Timer = 604800 * second\<rparr>"
    "pmd_DisappearingTimerSetAt (pt_Meta week_portal) = 5"
    by (simp_all add: week_portal_def sample_portal_def)
  then show ?thesis
    using own_message_keeps_timer [where portal = week_portal and L = sample_jid_lib and r = None and t = "Some (86400 * second)",
        OF _ _ _ _ _ echo_convert refl refl]
    by (simp add: second_def)
qed

section \<open>Media come back as they were sent\<close>

fun media_of :: "('f, 'p) FromMessage \<Rightarrow> MediaMessage option" where
  "media_of (FMedia m t) = Some m"
| "media_of (FCaptionedDocument m t) = Some m"
| "media_of _ = None"

fun read_type :: "MatrixMsgType \<Rightarrow> MsgType" where
  "read_type MImage = MsgImage"
| "read_type MVideo = MsgVideo"
| "read_type MAudio = MsgAudio"
| "read_type MFile = MsgFile"
| "read_type _ = MsgNone"

text \<open>What of a content has to be readable from the message: the fields its type has.\<close>

definition same_media :: "('c, 'f, 'p, 'e) from_env \<Rightarrow> MatrixContent \<Rightarrow> string \<Rightarrow> MessageEventContent \<Rightarrow> bool" where
  "same_media V c mime r \<longleftrightarrow>
     ct_MsgType r = read_type (mc_MsgType c) \<and> fi_MimeType (ct_Info r) = mime \<and>
     (if mc_MsgType c \<in> {MImage, MVideo}
      then fi_Width (ct_Info r) = fi_Width (mc_Info c) \<and> fi_Height (ct_Info r) = fi_Height (mc_Info c) else True) \<and>
     (if mc_MsgType c \<in> {MVideo, MAudio} then fi_Duration (ct_Info r) = fi_Duration (mc_Info c) else True) \<and>
     (if mc_MsgType c = MAudio then ct_Voice r = mc_Voice c else True) \<and>
     (if mc_MsgType c = MFile then ct_FileName r = (if mc_FileName c = [] then mc_Body c else mc_FileName c) else True) \<and>
     (if mc_MsgType c \<in> {MImage, MVideo, MFile} then ct_Body r = fst (caption_of V c nil_context) else True)"

lemma caption_of_text: "fst (caption_of V c ci) = fst (caption_of V c ci')"
  by (simp add: caption_of_def case_prod_beta)

lemma uint_dim: "0 \<le> w \<Longrightarrow> w < 2 ^ 32 \<Longrightarrow> uint (word_of_int w :: 32 word) = w"
  by (simp add: uint_word_of_int)

lemma uint_seconds:
  assumes "0 \<le> d" and "d < 2 ^ 32" and "d mod 1000 = 0"
  shows "uint ((word_of_int (go_trunc d 1000) :: 32 word) * 1000) = d"
proof -
  have "go_trunc d 1000 * 1000 = d" using assms(1,3) div_mult_mod_eq [of d 1000] by (simp only: go_trunc_def if_True add_0_right)
  then have "word_of_int d = (word_of_int (go_trunc d 1000 * 1000) :: 32 word)" by simp
  also have "\<dots> = word_of_int (go_trunc d 1000) * word_of_int 1000" by (rule of_int_mult)
  also have "(word_of_int 1000 :: 32 word) = 1000" by (rule of_int_numeral)
  finally have "(word_of_int (go_trunc d 1000) :: 32 word) * 1000 = word_of_int d" by (rule sym)
  then show ?thesis using uint_dim [OF assms(1,2)] by simp
qed


definition sample_uploaded :: FailedMediaKeys where
  "sample_uploaded = \<lparr>fk_Key = [1], fk_Length = 3, fk_Type = [], fk_SHA256 = [2], fk_EncSHA256 = [3], fk_DirectPath = ''/v'', fk_MimeType = []\<rparr>"

definition sample_from_env :: "(nat, nat, unit, string) from_env" where
  "sample_from_env = \<lparr>fv_L = sample_jid_lib, fv_client = sample_client, fv_parse_html = (\<lambda>h. (h, [])), fv_preview = (\<lambda>_. ()),
     fv_download = (\<lambda>_. Inr [1, 2, 3]), fv_detect = (\<lambda>_. ''video/mp4''), fv_decode = (\<lambda>_. Inl (Err ''not an image'')),
     fv_transparent = 0, fv_encode_webp = (\<lambda>_. Inr [9]), fv_encode_jpeg = (\<lambda>_. Inr [8]), fv_ffmpeg = (\<lambda>_ d. Inr d),
     fv_upload = (\<lambda>_ _. Inr sample_uploaded),
     fv_thumbnail = (\<lambda>_ _ _. []), fv_parse_float = (\<lambda>_. Inr 1), fv_encrypt_comment = (\<lambda>_ _. Inr ''enc''), fv_secret = [7]\<rparr>"

definition sample_video :: MatrixContent where
  "sample_video = \<lparr>mc_MsgType = MVideo, mc_IsStickerEvent = False, mc_Body = ''look'', mc_HTML = False, mc_FormattedBody = [],
     mc_FileName = ''clip.mp4'', mc_URL = ''mxc://a/b'', mc_Info = empty_info\<lparr>fi_MimeType := ''video/mp4'', fi_Width := 640,
       fi_Height := 360, fi_Duration := 12000\<rparr>, mc_MauGIF = False, mc_Audio = None, mc_Voice = False, mc_GeoURI = [],
     mc_GroupInvite = None, mc_PerMessageTimer = None\<rparr>"


section \<open>Invites\<close>

text \<open>A group invite sent from Matrix carries the metadata a recipient needs to accept it; the
  inviter becomes the sender of the message.\<close>

lemma group_invite_roundtrip:
  assumes "jid_lib_ok (fv_L V)" and "plain_jid (gi_JID meta)"
    and "constructGroupInviteMessage V c (Inr meta) ci = Ok (FInvite gim txt ci')"
  shows "groupInviteMeta (fv_L V) info gim = Some (meta\<lparr>gi_Inviter := to_non_ad (fv_L V) (mi_Sender info)\<rparr>)"
  using assms by (cases meta) (auto simp: constructGroupInviteMessage_def groupInviteMeta_def case_prod_beta Let_def parse_jid_string)

section \<open>Stickers\<close>

text \<open>An image that is not square is centred on a transparent square as large as its longer side.\<close>

lemma sticker_padding_centred:
  assumes "im_MinX im = 0" "im_MinY im = 0" "im_MaxX im \<noteq> im_MaxY im" "0 < im_MaxX im" "0 < im_MaxY im"
    and "webp_canvas t im = (canvas, side)"
  shows "\<exists>ox oy. side = max (im_MaxX im) (im_MaxY im) \<and> im_Dx canvas = side \<and> im_Dy canvas = side
    \<and> 0 \<le> ox \<and> 0 \<le> oy \<and> \<bar>ox - (side - im_MaxX im - ox)\<bar> \<le> 1 \<and> \<bar>oy - (side - im_MaxY im - oy)\<bar> \<le> 1
    \<and> (\<forall>x y. im_At canvas x y = (if ox \<le> x \<and> x < ox + im_MaxX im \<and> oy \<le> y \<and> y < oy + im_MaxY im then im_At im (x - ox) (y - oy) else t))"
proof (cases "im_MaxX im > im_MaxY im")
  case True
  with assms show ?thesis
    by (intro exI [of _ 0] exI [of _ "(im_MaxX im - im_MaxY im) div 2"])
      (auto simp: webp_canvas_def Let_def im_Dx_def im_Dy_def padded_image_def)
next
  case False
  with assms show ?thesis
    by (intro exI [of _ "(im_MaxY im - im_MaxX im) div 2"] exI [of _ 0])
      (auto simp: webp_canvas_def Let_def im_Dx_def im_Dy_def padded_image_def)
qed

text \<open>
  An image that is square already is reported with size 0, and the sticker loses its dimensions:
  a square PNG sticker is sent with width and height 0.
\<close>

lemma square_sticker_loses_size:
  assumes "mime \<noteq> ''image/webp''" and "fv_decode V data = Inr im" and "im_Dx im = im_Dy im" and "fv_encode_webp V im = Inr webp"
  shows "convert_sticker V c mime data = Ok (webp, ''image/webp'', set_size 0 c)"
  using assms by (simp add: convert_sticker_def convertToWebP_def webp_canvas_def)

end
