(* ===== verification/Capabilities.thy ===== *)
theory Capabilities
  imports FromMatrix MatrixRooms
begin

text \<open>
  What the bridge tells clients it supports, \<open>pkg/connector/capabilities.go\<close>: the general
  capabilities, the features of a room and the choice between them, with the proof that what is
  declared is what the converters accept. Whether ffmpeg is installed is an argument.
\<close>

section \<open>Data\<close>

datatype CapLevel = Rejected | Dropped | Unsupported | PartialSupport | FullySupported

datatype CapMsgType = CapImage | CapAudio | CapVoice | CapSticker | CapGIF | CapVideo | CapFile

datatype FormattingFeature =
    FmtBold | FmtItalic | FmtStrikethrough | FmtInlineCode | FmtCodeBlock | FmtUserLink | FmtUnorderedList
  | FmtOrderedList | FmtListStart | FmtBlockquote | FmtInlineLink | FmtHeaders

datatype StateFeature = StateRoomName | StateRoomAvatar | StateTopic | StateDisappearingTimer

datatype MemberAction = MemberInvite | MemberKick | MemberLeave

record FileFeatures =
  ff_MimeTypes :: "(string \<times> CapLevel) list"
  ff_Caption :: CapLevel
  ff_MaxCaptionLength :: nat
  ff_MaxSize :: nat

record RoomFeatures =
  rf_ID :: string
  rf_Formatting :: "(FormattingFeature \<times> CapLevel) list"
  rf_File :: "(CapMsgType \<times> FileFeatures) list"
  rf_State :: "(StateFeature \<times> CapLevel) list"
  rf_MemberActions :: "(MemberAction \<times> CapLevel) list"
  rf_MaxTextLength :: nat
  rf_LocationMessage :: CapLevel
  rf_Poll :: CapLevel
  rf_Reply :: CapLevel
  rf_Thread :: CapLevel
  rf_Edit :: CapLevel
  rf_EditMaxAge :: int
  rf_Delete :: CapLevel
  rf_DeleteForMe :: bool
  rf_DeleteMaxAge :: int
  rf_Reaction :: CapLevel
  rf_ReactionCount :: nat
  rf_ReadReceipts :: bool
  rf_TypingNotifications :: bool
  rf_DisappearTimers :: "int list"
  rf_DeleteChat :: bool

text \<open>A field of group creation: whether it is allowed and required, and its limits.\<close>

record GroupField =
  gf_Allowed :: bool
  gf_Required :: bool
  gf_MinLength :: nat
  gf_MaxLength :: nat
  gf_Timers :: "int list"

record GeneralCaps =
  gc_DisappearingMessages :: bool
  gc_AggressiveUpdateInfo :: bool
  gc_ImplicitReadReceipts :: bool
  gc_CreateDM :: bool
  gc_LookupPhone :: bool
  gc_ContactList :: bool
  gc_GroupDescription :: string
  gc_Name :: GroupField
  gc_Disappear :: GroupField
  gc_Participants :: GroupField
  gc_Parent :: GroupField

section \<open>Declarations\<close>

text \<open>\<open>WAMaxFileSize\<close>, \<open>EditMaxAge\<close> and \<open>MaxTextLength\<close>.\<close>

definition WAMaxFileSize :: nat where "WAMaxFileSize = 2000 * 1024 * 1024"
definition EditMaxAge :: int where "EditMaxAge = 15 * 60 * second"
definition MaxTextLength :: nat where "MaxTextLength = 65536"

definition waDisappearingCap :: "int list" where
  "waDisappearingCap = [24 * 3600 * second, 7 * 24 * 3600 * second, 90 * 24 * 3600 * second]"

definition allowed_field :: GroupField where
  "allowed_field = \<lparr>gf_Allowed = True, gf_Required = False, gf_MinLength = 0, gf_MaxLength = 0, gf_Timers = []\<rparr>"

definition WhatsAppGeneralCaps :: GeneralCaps where
  "WhatsAppGeneralCaps =
     \<lparr>gc_DisappearingMessages = True, gc_AggressiveUpdateInfo = True, gc_ImplicitReadReceipts = True,
      gc_CreateDM = True, gc_LookupPhone = True, gc_ContactList = True, gc_GroupDescription = ''a group chat'',
      gc_Name = allowed_field\<lparr>gf_MaxLength := 100\<rparr>,
      gc_Disappear = allowed_field\<lparr>gf_Timers := waDisappearingCap\<rparr>,
      gc_Participants = allowed_field\<lparr>gf_Required := True, gf_MinLength := 1\<rparr>,
      gc_Parent = allowed_field\<rparr>"

definition GetBridgeInfoVersion :: "nat \<times> nat" where "GetBridgeInfoVersion = (1, 7)"

definition supportedIfFFmpeg :: "bool \<Rightarrow> CapLevel" where
  "supportedIfFFmpeg ffmpeg = (if ffmpeg then PartialSupport else Rejected)"

definition capID :: "bool \<Rightarrow> string" where
  "capID ffmpeg = ''fi.mau.whatsapp.capabilities.2025_12_15'' @ (if ffmpeg then ''+ffmpeg'' else [])"

definition with_caption :: "(string \<times> CapLevel) list \<Rightarrow> FileFeatures" where
  "with_caption mimes = \<lparr>ff_MimeTypes = mimes, ff_Caption = FullySupported, ff_MaxCaptionLength = MaxTextLength,
     ff_MaxSize = WAMaxFileSize\<rparr>"

definition without_caption :: "(string \<times> CapLevel) list \<Rightarrow> FileFeatures" where
  "without_caption mimes = \<lparr>ff_MimeTypes = mimes, ff_Caption = Dropped, ff_MaxCaptionLength = 0, ff_MaxSize = WAMaxFileSize\<rparr>"

definition file_features :: "bool \<Rightarrow> (CapMsgType \<times> FileFeatures) list" where
  "file_features ffmpeg =
     [(CapImage, with_caption [(''image/jpeg'', FullySupported), (''image/png'', PartialSupport), (''image/webp'', PartialSupport),
         (''image/gif'', supportedIfFFmpeg ffmpeg)]),
      (CapAudio, without_caption [(''audio/mpeg'', FullySupported), (''audio/mp4'', FullySupported), (''audio/ogg'', FullySupported),
         (''audio/aac'', FullySupported), (''audio/amr'', FullySupported)]),
      (CapVoice, without_caption [(''audio/ogg; codecs=opus'', FullySupported), (''audio/ogg'', Unsupported)]),
      (CapSticker, without_caption [(''image/webp'', FullySupported), (''image/png'', PartialSupport), (''image/jpeg'', PartialSupport)]),
      (CapGIF, with_caption [(''video/mp4'', FullySupported), (''image/gif'', supportedIfFFmpeg ffmpeg)]),
      (CapVideo, with_caption [(''video/mp4'', FullySupported), (''video/3gpp'', FullySupported),
         (''video/webm'', supportedIfFFmpeg ffmpeg), (''video/quicktime'', supportedIfFFmpeg ffmpeg)]),
      (CapFile, with_caption [(''*/*'', FullySupported)])]"

definition whatsappCaps :: "bool \<Rightarrow> RoomFeatures" where
  "whatsappCaps ffmpeg =
     \<lparr>rf_ID = capID ffmpeg,
      rf_Formatting = map (\<lambda>f. (f, FullySupported)) [FmtBold, FmtItalic, FmtStrikethrough, FmtInlineCode, FmtCodeBlock, FmtUserLink,
          FmtUnorderedList, FmtOrderedList, FmtListStart, FmtBlockquote] @ [(FmtInlineLink, PartialSupport), (FmtHeaders, PartialSupport)],
      rf_File = file_features ffmpeg,
      rf_State = map (\<lambda>s. (s, FullySupported)) [StateRoomName, StateRoomAvatar, StateTopic, StateDisappearingTimer],
      rf_MemberActions = map (\<lambda>a. (a, FullySupported)) [MemberInvite, MemberKick, MemberLeave],
      rf_MaxTextLength = MaxTextLength,
      rf_LocationMessage = FullySupported,
      rf_Poll = FullySupported,
      rf_Reply = FullySupported,
      rf_Thread = Unsupported,
      rf_Edit = FullySupported,
      rf_EditMaxAge = EditMaxAge,
      rf_Delete = FullySupported,
      rf_DeleteForMe = False,
      rf_DeleteMaxAge = 2 * 24 * 3600 * second,
      rf_Reaction = FullySupported,
      rf_ReactionCount = 1,
      rf_ReadReceipts = True,
      rf_TypingNotifications = True,
      rf_DisappearTimers = waDisappearingCap,
      rf_DeleteChat = True\<rparr>"

definition whatsappDMCaps :: "bool \<Rightarrow> RoomFeatures" where
  "whatsappDMCaps ffmpeg = (whatsappCaps ffmpeg)\<lparr>rf_ID := capID ffmpeg @ ''+dm'',
     rf_State := [(StateDisappearingTimer, FullySupported)], rf_MemberActions := []\<rparr>"

definition whatsappCAGCaps :: "bool \<Rightarrow> RoomFeatures" where
  "whatsappCAGCaps ffmpeg = (whatsappCaps ffmpeg)\<lparr>rf_ID := capID ffmpeg @ ''+cag'', rf_Reply := Unsupported, rf_Thread := FullySupported\<rparr>"

text \<open>The features of a portal, from its metadata and whether its room is a direct chat.\<close>

definition GetCapabilities :: "bool \<Rightarrow> PortalMetadata \<Rightarrow> bool \<Rightarrow> RoomFeatures" where
  "GetCapabilities ffmpeg meta isDM =
     (if pmd_CommunityAnnouncementGroup meta then whatsappCAGCaps ffmpeg
      else if isDM then whatsappDMCaps ffmpeg else whatsappCaps ffmpeg)"

section \<open>What is declared is accepted\<close>

text \<open>The MIME types declared for any of some kinds of files.\<close>

definition declared :: "RoomFeatures \<Rightarrow> CapMsgType list \<Rightarrow> string list" where
  "declared caps kinds = concat (map (\<lambda>(k, ff). if k \<in> set kinds then map fst (ff_MimeTypes ff) else []) (rf_File caps))"

definition with_type :: "MatrixMsgType \<Rightarrow> string \<Rightarrow> MatrixContent \<Rightarrow> MatrixContent" where
  "with_type t mime c = c\<lparr>mc_MsgType := t, mc_Info := (mc_Info c)\<lparr>fi_MimeType := mime\<rparr>\<rparr>"

text \<open>A file is refused for its type: the error is the one of the converter itself and not one of a
  transfer or of converting the data, which are wrapped.\<close>

definition refused :: "('c, 'f, 'p, 'e) from_env \<Rightarrow> MatrixContent \<Rightarrow> bool" where
  "refused V c = (case reuploadFileToWhatsApp V c of Fail (Err _) \<Rightarrow> True | _ \<Rightarrow> False)"

lemma owrap_not_Err: "owrap m r \<noteq> Fail (Err s)"
  by (cases r) simp_all

lemma obind_Fail_iff: "obind r f = Fail e \<longleftrightarrow> r = Fail e \<or> (\<exists>x. r = Ok x \<and> f x = Fail e)"
  by (cases r) auto

lemma declared_files:
  "declared (GetCapabilities ffmpeg meta isDM) kinds = declared (whatsappCaps ffmpeg) kinds"
  by (simp add: GetCapabilities_def whatsappCAGCaps_def whatsappDMCaps_def declared_def)

lemma declared_kinds:
  "set (declared (whatsappCaps ffmpeg) [CapImage]) = {''image/jpeg'', ''image/png'', ''image/webp'', ''image/gif''}"
  "set (declared (whatsappCaps ffmpeg) [CapVideo, CapGIF]) = {''video/mp4'', ''video/3gpp'', ''video/webm'', ''video/quicktime'', ''image/gif''}"
  "set (declared (whatsappCaps ffmpeg) [CapAudio, CapVoice]) =
     {''audio/mpeg'', ''audio/mp4'', ''audio/ogg'', ''audio/aac'', ''audio/amr'', ''audio/ogg; codecs=opus''}"
  by (auto simp: declared_def whatsappCaps_def file_features_def with_caption_def without_caption_def)

lemma image_refused:
  "(\<exists>s. convert_image V mime data = Fail (Err s)) \<longleftrightarrow> mime \<notin> {''image/jpeg'', ''image/png'', ''image/webp''}"
  by (auto simp: convert_image_def obind_Fail_iff owrap_not_Err)

lemma video_refused:
  "(\<exists>s. convert_video V mime data = Fail (Err s))
   \<longleftrightarrow> mime \<notin> {''video/mp4'', ''video/3gpp'', ''video/webm'', ''video/quicktime'', ''image/gif''}"
  by (auto simp: convert_video_def Let_def obind_Fail_iff owrap_not_Err)

lemma audio_refused:
  "(\<exists>s. convert_audio mime = Fail (Err s))
   \<longleftrightarrow> mime \<notin> {''audio/mpeg'', ''audio/mp4'', ''audio/ogg'', ''audio/aac'', ''audio/amr'', ''audio/ogg; codecs=opus''}"
  by (auto simp: convert_audio_def accepted_audio_def)

lemma obind_refused: "(\<And>x s. f x \<noteq> Fail (Err s)) \<Longrightarrow> (\<exists>s. obind r f = Fail (Err s)) \<longleftrightarrow> (\<exists>s. r = Fail (Err s))"
  by (cases r) auto

lemma conj_cong': "(Q \<Longrightarrow> P = P') \<Longrightarrow> (P \<and> Q) = (P' \<and> Q)"
  by auto

lemma retyped: "(with_type t mime c)\<lparr>mc_MsgType := t'\<rparr> = with_type t' mime c"
  by (cases c) (simp add: with_type_def)

lemma refused_iff:
  assumes "fv_download V (mc_URL c) = Inr data" and "mime \<noteq> []"
  shows "refused V (with_type t mime c) \<longleftrightarrow> (\<exists>s. convert_media V (with_type (if mime = ''image/gif'' then MVideo else t) mime c) mime data = Fail (Err s))"
proof -
  define c' where "c' = with_type (if mime = ''image/gif'' then MVideo else t) mime c"
  define rest where "rest = (\<lambda>(data, mime', c'' :: MatrixContent, mediaType).
      obind (owrap ''media reupload failed'' (of_sum (fv_upload V data mediaType))) (\<lambda>uploaded.
      Ok (uploaded, if mediaType = UploadAudio then [] else fv_thumbnail V data (mc_Info c'') (mc_MsgType c' = MSticker), mime' :: string, c'')))"
  have c': "(if mime = ''image/gif'' then (with_type t mime c)\<lparr>mc_MsgType := MVideo\<rparr> else with_type t mime c) = c'"
    by (simp add: c'_def retyped)
  have "reuploadFileToWhatsApp V (with_type t mime c) = obind (convert_media V c' mime data) rest"
  proof -
    have m: "fi_MimeType (mc_Info (with_type t mime c)) = mime" "mc_URL (with_type t mime c) = mc_URL c"
      by (simp_all add: with_type_def)
    show ?thesis
      unfolding reuploadFileToWhatsApp_def m assms(1) of_sum.simps owrap.simps obind.simps Let_def rest_def
      by (simp only: assms(2) if_False c')
  qed
  moreover have "rest x \<noteq> Fail (Err s)" for x s
    by (auto simp: rest_def obind_Fail_iff owrap_not_Err split: prod.split)
  moreover have "refused V d \<longleftrightarrow> (\<exists>s. reuploadFileToWhatsApp V d = Fail (Err s))" for d
    by (auto simp: refused_def split: outcome.splits gerror.splits)
  ultimately show ?thesis unfolding c'_def [symmetric] by (simp add: obind_refused)
qed

lemma convert_media_refused:
  "(\<exists>s. convert_media V (with_type MImage mime c) m data = Fail (Err s)) \<longleftrightarrow> (\<exists>s. convert_image V m data = Fail (Err s))"
  "(\<exists>s. convert_media V (with_type MVideo mime c) m data = Fail (Err s)) \<longleftrightarrow> (\<exists>s. convert_video V m data = Fail (Err s))"
  "(\<exists>s. convert_media V (with_type MAudio mime c) m data = Fail (Err s)) \<longleftrightarrow> (\<exists>s. convert_audio m = Fail (Err s))"
  "\<not> (\<exists>s. convert_media V (with_type MSticker mime c) m data = Fail (Err s))"
  "\<not> (\<exists>s. convert_media V (with_type MFile mime c) m data = Fail (Err s))"
proof -
  have sticker: "convert_sticker V c' m data \<noteq> Fail (Err s)" for c' s
    by (auto simp: convert_sticker_def split: if_splits sum.splits)
  have type: "mc_MsgType (with_type t mime c) = t" for t by (simp add: with_type_def)
  note defs = convert_media_def type MatrixMsgType.case
  show "(\<exists>s. convert_media V (with_type MImage mime c) m data = Fail (Err s)) \<longleftrightarrow> (\<exists>s. convert_image V m data = Fail (Err s))"
    unfolding defs by (rule obind_refused) (simp add: case_prod_beta)
  show "(\<exists>s. convert_media V (with_type MVideo mime c) m data = Fail (Err s)) \<longleftrightarrow> (\<exists>s. convert_video V m data = Fail (Err s))"
    unfolding defs by (rule obind_refused) (simp add: case_prod_beta)
  show "(\<exists>s. convert_media V (with_type MAudio mime c) m data = Fail (Err s)) \<longleftrightarrow> (\<exists>s. convert_audio m = Fail (Err s))"
    unfolding defs by (rule obind_refused) simp
  show "\<not> (\<exists>s. convert_media V (with_type MSticker mime c) m data = Fail (Err s))"
    unfolding defs using sticker by (auto simp: obind_Fail_iff)
  show "\<not> (\<exists>s. convert_media V (with_type MFile mime c) m data = Fail (Err s))"
    unfolding defs by simp
qed

text \<open>The media types declared for a room are exactly those the bridge accepts: an image, a
  video or GIF, and an audio or voice message is refused for its type exactly when its type is not
  declared for that kind, in every kind of room; stickers and files are never refused; and the
  disappearing timers declared are the ones the handler accepts beside turning it off.\<close>

theorem declared_is_accepted:
  assumes "fv_download V (mc_URL c) = Inr data" and "mime \<noteq> []"
  shows "refused V (with_type MImage mime c) = (mime \<notin> set (declared (GetCapabilities ffmpeg meta isDM) [CapImage]))
    \<and> refused V (with_type MVideo mime c) = (mime \<notin> set (declared (GetCapabilities ffmpeg meta isDM) [CapVideo, CapGIF]))
    \<and> (refused V (with_type MAudio mime c) \<and> mime \<noteq> ''image/gif'')
        = (mime \<notin> set (declared (GetCapabilities ffmpeg meta isDM) [CapAudio, CapVoice]) \<and> mime \<noteq> ''image/gif'')
    \<and> \<not> refused V (with_type MSticker mime c) \<and> \<not> refused V (with_type MFile mime c)
    \<and> set allowed_timers = insert 0 (set (rf_DisappearTimers (GetCapabilities ffmpeg meta isDM)))"
proof -
  note ref = refused_iff [OF assms] and kinds = convert_media_refused image_refused video_refused audio_refused
  have gif: "refused V (with_type t mime c) \<longleftrightarrow> False" if "mime = ''image/gif''" for t
    unfolding ref using that by (simp only: kinds simp_thms if_True) simp
  have image: "refused V (with_type MImage mime c) \<longleftrightarrow> mime \<notin> {''image/jpeg'', ''image/png'', ''image/webp'', ''image/gif''}"
  proof (cases "mime = ''image/gif''")
    case True
    then show ?thesis using gif [of MImage] by simp
  next
    case False
    then show ?thesis unfolding ref by (simp only: kinds if_False) simp
  qed
  have video: "refused V (with_type MVideo mime c)
      \<longleftrightarrow> mime \<notin> {''video/mp4'', ''video/3gpp'', ''video/webm'', ''video/quicktime'', ''image/gif''}"
    unfolding ref by (simp only: kinds if_cancel)
  have audio: "refused V (with_type MAudio mime c)
      \<longleftrightarrow> mime \<notin> {''audio/mpeg'', ''audio/mp4'', ''audio/ogg'', ''audio/aac'', ''audio/amr'', ''audio/ogg; codecs=opus''}"
    if "mime \<noteq> ''image/gif''"
    unfolding ref using that by (simp only: kinds if_False)
  have other: "\<not> refused V (with_type MSticker mime c) \<and> \<not> refused V (with_type MFile mime c)" if "mime \<noteq> ''image/gif''"
    unfolding ref using that by (simp only: kinds if_False simp_thms)
  have "\<not> refused V (with_type MSticker mime c) \<and> \<not> refused V (with_type MFile mime c)"
  proof (cases "mime = ''image/gif''")
    case True
    show ?thesis unfolding gif [OF True] by simp
  next
    case False
    then show ?thesis by (rule other)
  qed
  moreover have "set allowed_timers = insert 0 (set (rf_DisappearTimers (GetCapabilities ffmpeg meta isDM)))"
    by (simp add: allowed_timers_def GetCapabilities_def whatsappCAGCaps_def whatsappDMCaps_def whatsappCaps_def
        waDisappearingCap_def MatrixRooms.day_def)
  moreover have "(refused V (with_type MAudio mime c) \<and> mime \<noteq> ''image/gif'')
      = (mime \<notin> set (declared (GetCapabilities ffmpeg meta isDM) [CapAudio, CapVoice]) \<and> mime \<noteq> ''image/gif'')"
    unfolding declared_files declared_kinds by (rule conj_cong') (rule audio)
  ultimately show ?thesis
    unfolding image video declared_files declared_kinds by (simp only: simp_thms)
qed

theorem declared_is_accepted_witness:
  "refused sample_from_env (with_type MImage ''image/bmp'' sample_video)
   \<and> \<not> refused sample_from_env (with_type MImage ''image/gif'' sample_video)"
proof -
  have d: "fv_download sample_from_env (mc_URL sample_video) = Inr [1, 2, 3]" by (simp add: sample_from_env_def)
  show ?thesis
    using declared_is_accepted [OF d, of "''image/bmp''" False _ False] declared_is_accepted [OF d, of "''image/gif''" False _ False]
    unfolding declared_files declared_kinds by simp
qed

end
