(* ===== verification/Startup.thy ===== *)
theory Startup
  imports MatrixRooms MediaRequests
begin

text \<open>
  Setting the bridge up: the configuration and its upgrade (\<open>pkg/connector/config.go\<close>), what
  \<open>Init\<close>, \<open>Start\<close> and the first connection do, the deletion of duplicate direct chats
  (\<open>pkg/connector/connector.go\<close>), the proxy (\<open>proxy.go\<close>) and the defaults of the message converter
  (\<open>pkg/msgconv/msgconv.go\<close>). Databases, HTTP and the version parser of whatsmeow are arguments.
\<close>

section \<open>Configuration\<close>

text \<open>The kinds of values a key of the configuration can have.\<close>

datatype yaml_kind = YStr | YBool | YInt | YNull

datatype go_kind = GoString | GoBool | GoInt | GoDuration

text \<open>The keys of the configuration as the YAML names of the fields, with the Go type of the field;
  whether a key may be empty is not part of the Go type.\<close>

definition config_fields :: "(string list \<times> go_kind) list" where
  "config_fields =
     [([''os_name''], GoString), ([''browser_name''], GoString),
      ([''proxy''], GoString), ([''get_proxy_url''], GoString), ([''proxy_only_login''], GoBool),
      ([''displayname_template''], GoString),
      ([''call_start_notices''], GoBool), ([''identity_change_notices''], GoBool), ([''send_presence_on_typing''], GoBool),
      ([''enable_status_broadcast''], GoBool), ([''disable_status_broadcast_send''], GoBool),
      ([''mute_status_broadcast''], GoBool), ([''status_broadcast_tag''], GoString), ([''pinned_tag''], GoString),
      ([''archive_tag''], GoString), ([''whatsapp_thumbnail''], GoBool), ([''url_previews''], GoBool),
      ([''extev_polls''], GoBool), ([''disable_view_once''], GoBool), ([''force_active_delivery_receipts''], GoBool),
      ([''direct_media_auto_request''], GoBool), ([''initial_auto_reconnect''], GoBool),
      ([''animated_sticker'', ''target''], GoString), ([''animated_sticker'', ''args'', ''width''], GoInt),
      ([''animated_sticker'', ''args'', ''height''], GoInt), ([''animated_sticker'', ''args'', ''fps''], GoInt),
      ([''history_sync'', ''max_initial_conversations''], GoInt), ([''history_sync'', ''request_full_sync''], GoBool),
      ([''history_sync'', ''dispatch_wait''], GoDuration),
      ([''history_sync'', ''full_sync_config'', ''days_limit''], GoInt),
      ([''history_sync'', ''full_sync_config'', ''size_mb_limit''], GoInt),
      ([''history_sync'', ''full_sync_config'', ''storage_quota_mb''], GoInt),
      ([''history_sync'', ''media_requests'', ''auto_request_media''], GoBool),
      ([''history_sync'', ''media_requests'', ''request_method''], GoString),
      ([''history_sync'', ''media_requests'', ''request_local_time''], GoInt),
      ([''history_sync'', ''media_requests'', ''max_async_handle''], GoInt)]"

text \<open>What \<open>upgradeConfig\<close> copies from the old file into the example configuration.\<close>

definition upgradeConfig :: "(string list \<times> yaml_kind list) list" where
  "upgradeConfig =
     [([''os_name''], [YStr]), ([''browser_name''], [YStr]),
      ([''proxy''], [YStr, YNull]), ([''get_proxy_url''], [YStr, YNull]), ([''proxy_only_login''], [YBool]),
      ([''displayname_template''], [YStr]),
      ([''call_start_notices''], [YBool]), ([''identity_change_notices''], [YBool]), ([''send_presence_on_typing''], [YBool]),
      ([''enable_status_broadcast''], [YBool]), ([''disable_status_broadcast_send''], [YBool]),
      ([''mute_status_broadcast''], [YBool]), ([''status_broadcast_tag''], [YStr, YNull]), ([''pinned_tag''], [YStr, YNull]),
      ([''archive_tag''], [YStr, YNull]), ([''whatsapp_thumbnail''], [YBool]), ([''url_previews''], [YBool]),
      ([''extev_polls''], [YBool]), ([''disable_view_once''], [YBool]), ([''force_active_delivery_receipts''], [YBool]),
      ([''direct_media_auto_request''], [YBool]), ([''initial_auto_reconnect''], [YBool]),
      ([''animated_sticker'', ''target''], [YStr]), ([''animated_sticker'', ''args'', ''width''], [YInt]),
      ([''animated_sticker'', ''args'', ''height''], [YInt]), ([''animated_sticker'', ''args'', ''fps''], [YInt]),
      ([''history_sync'', ''max_initial_conversations''], [YInt]), ([''history_sync'', ''request_full_sync''], [YBool]),
      ([''history_sync'', ''dispatch_wait''], [YStr, YInt]),
      ([''history_sync'', ''full_sync_config'', ''days_limit''], [YInt, YNull]),
      ([''history_sync'', ''full_sync_config'', ''size_mb_limit''], [YInt, YNull]),
      ([''history_sync'', ''full_sync_config'', ''storage_quota_mb''], [YInt, YNull]),
      ([''history_sync'', ''media_requests'', ''auto_request_media''], [YBool]),
      ([''history_sync'', ''media_requests'', ''request_method''], [YStr]),
      ([''history_sync'', ''media_requests'', ''request_local_time''], [YInt]),
      ([''history_sync'', ''media_requests'', ''max_async_handle''], [YInt])]"

text \<open>\<open>UnmarshalYAML\<close> and \<open>PostProcess\<close>: \<open>decode\<close> is the YAML decoder, \<open>parse\<close> the template parser.\<close>

record ('cfg, 'tpl) decoded_config =
  dc_config :: 'cfg
  dc_template :: "'tpl option"

definition PostProcess :: "(string \<Rightarrow> gerror + 'tpl) \<Rightarrow> ('cfg \<Rightarrow> string) \<Rightarrow> 'cfg \<Rightarrow> ('cfg, 'tpl) decoded_config outcome" where
  "PostProcess parse DisplaynameTemplate c =
     (case parse (DisplaynameTemplate c) of
        Inl e \<Rightarrow> Fail e
      | Inr t \<Rightarrow> Ok \<lparr>dc_config = c, dc_template = Some t\<rparr>)"

definition UnmarshalYAML ::
  "('node \<Rightarrow> gerror + 'cfg) \<Rightarrow> (string \<Rightarrow> gerror + 'tpl) \<Rightarrow> ('cfg \<Rightarrow> string) \<Rightarrow> 'node \<Rightarrow> ('cfg, 'tpl) decoded_config outcome" where
  "UnmarshalYAML decode parse DisplaynameTemplate node =
     obind (of_sum (decode node)) (PostProcess parse DisplaynameTemplate)"

text \<open>The part of the configuration that \<open>Init\<close> and the proxy read.\<close>

record Config =
  cf_OSName :: string
  cf_BrowserName :: string
  cf_Proxy :: string
  cf_GetProxyURL :: string
  cf_ProxyOnlyLogin :: bool
  cf_URLPreviews :: bool
  cf_ExtEvPolls :: bool
  cf_DisableViewOnce :: bool
  cf_RequestFullSync :: bool
  cf_DaysLimit :: "32 word"
  cf_SizeLimit :: "32 word"
  cf_StorageQuota :: "32 word"
  cf_AutoRequestMedia :: bool
  cf_RequestMethod :: string

section \<open>The message converter\<close>

record MessageConverter =
  mc_MaxFileSize :: int
  mc_FetchURLPreviews :: bool
  mc_ExtEvPolls :: bool
  mc_DisableViewOnce :: bool
  mc_DirectMedia :: bool
  mc_OldMediaSuffix :: string

definition msgconv_New :: MessageConverter where
  "msgconv_New = \<lparr>mc_MaxFileSize = 50 * 1024 * 1024, mc_FetchURLPreviews = False, mc_ExtEvPolls = False,
     mc_DisableViewOnce = False, mc_DirectMedia = False, mc_OldMediaSuffix = []\<rparr>"

text \<open>The converters of the HTML parser for the inline styles and code blocks.\<close>

definition tick :: char where "tick = char_of (96 :: nat)"

definition BoldConverter :: "string \<Rightarrow> string" where "BoldConverter s = ''*'' @ s @ ''*''"
definition ItalicConverter :: "string \<Rightarrow> string" where "ItalicConverter s = ''_'' @ s @ ''_''"
definition StrikethroughConverter :: "string \<Rightarrow> string" where "StrikethroughConverter s = ''~'' @ s @ ''~''"
definition MonospaceConverter :: "string \<Rightarrow> string" where "MonospaceConverter s = tick # s @ [tick]"
definition MonospaceBlockConverter :: "string \<Rightarrow> string" where
  "MonospaceBlockConverter code = [tick, tick, tick] @ newline @ code @ newline @ [tick, tick, tick]"

section \<open>The connector\<close>

record BridgeName =
  bn_DisplayName :: string
  bn_NetworkURL :: string
  bn_NetworkID :: string
  bn_BeeperBridgeType :: string
  bn_DefaultPort :: nat
  bn_DefaultCommandPrefix :: string

definition GetName :: BridgeName where
  "GetName = \<lparr>bn_DisplayName = ''WhatsApp'', bn_NetworkURL = ''https://whatsapp.com'', bn_NetworkID = ''whatsapp'',
     bn_BeeperBridgeType = ''whatsapp'', bn_DefaultPort = 29318, bn_DefaultCommandPrefix = ''!wa''\<rparr>"

text \<open>What the code keeps: the converter, the registered commands, the device properties that
  whatsmeow sends when a device is linked, the version it reports, the key-value store of the
  bridge, and the cache loop that \<open>Stop\<close> cancels, if it runs.\<close>

record DeviceProps =
  dp_Os :: string
  dp_RequireFullSync :: bool
  dp_HistorySyncConfig :: "(32 word \<times> 32 word \<times> 32 word) option"
  dp_PlatformType :: int

record connector =
  co_MsgConv :: MessageConverter
  co_Commands :: "string list"
  co_DeviceProps :: DeviceProps
  co_WAVersion :: string
  co_KV :: "string \<rightharpoonup> string"
  co_stopCacheLoop :: "nat option"
  co_cacheLoops :: "nat list"
  co_contexts :: nat

definition SetMaxFileSize :: "int \<Rightarrow> connector \<Rightarrow> connector" where
  "SetMaxFileSize maxSize co = co\<lparr>co_MsgConv := (co_MsgConv co)\<lparr>mc_MaxFileSize := maxSize\<rparr>\<rparr>"

definition old_media_suffix :: "Config \<Rightarrow> string" where
  "old_media_suffix cfg =
     (if cf_AutoRequestMedia cfg \<and> cf_RequestMethod cfg = ''immediate''
      then ''Media will be requested from your phone automatically soon.''
      else if cf_AutoRequestMedia cfg \<and> cf_RequestMethod cfg = ''local_time''
      then ''Media will be requested from your phone automatically overnight.''
      else ''Requesting old media is not enabled on this bridge.'')"

definition init_device_props :: "(string \<Rightarrow> string) \<Rightarrow> (string \<rightharpoonup> int) \<Rightarrow> Config \<Rightarrow> DeviceProps \<Rightarrow> DeviceProps" where
  "init_device_props upper platform cfg dp =
     (let dp1 = dp\<lparr>dp_Os := cf_OSName cfg, dp_RequireFullSync := cf_RequestFullSync cfg\<rparr>;
          dp2 = (if cf_DaysLimit cfg > 0 \<and> cf_SizeLimit cfg > 0 \<and> cf_StorageQuota cfg > 0
                 then dp1\<lparr>dp_HistorySyncConfig := Some (cf_DaysLimit cfg, cf_SizeLimit cfg, cf_StorageQuota cfg)\<rparr> else dp1)
      in case platform (upper (cf_BrowserName cfg)) of None \<Rightarrow> dp2 | Some p \<Rightarrow> dp2\<lparr>dp_PlatformType := p\<rparr>)"

definition command_names :: "string list" where
  "command_names = [''accept'', ''sync'', ''invite-link'', ''resolve-link'', ''join'']"

definition Init :: "(string \<Rightarrow> string) \<Rightarrow> (string \<rightharpoonup> int) \<Rightarrow> Config \<Rightarrow> connector \<Rightarrow> connector" where
  "Init upper platform cfg co = co
     \<lparr>co_MsgConv := msgconv_New\<lparr>mc_ExtEvPolls := cf_ExtEvPolls cfg, mc_DisableViewOnce := cf_DisableViewOnce cfg,
        mc_OldMediaSuffix := old_media_suffix cfg, mc_FetchURLPreviews := cf_URLPreviews cfg\<rparr>,
      co_Commands := co_Commands co @ command_names,
      co_DeviceProps := init_device_props upper platform cfg (co_DeviceProps co)\<rparr>"

definition kvWAVersion :: string where "kvWAVersion = ''whatsapp_web_version''"

text \<open>\<open>parse\<close> gives the version in its own text.\<close>

definition onFirstBackgroundConnect :: "(string \<Rightarrow> gerror + string) \<Rightarrow> connector \<Rightarrow> connector" where
  "onFirstBackgroundConnect parse co =
     (case co_KV co kvWAVersion of
        None \<Rightarrow> co
      | Some verStr \<Rightarrow>
          if verStr = [] then co
          else (case parse verStr of Inl _ \<Rightarrow> co | Inr ver \<Rightarrow> co\<lparr>co_WAVersion := ver\<rparr>))"

definition onFirstClientConnect :: "gerror + string \<Rightarrow> connector \<Rightarrow> connector" where
  "onFirstClientConnect latest co =
     (let co' = (case latest of
            Inl _ \<Rightarrow> co
          | Inr ver \<Rightarrow> co\<lparr>co_WAVersion := ver, co_KV := (co_KV co)(kvWAVersion \<mapsto> ver)\<rparr>);
          n = co_contexts co'
      in co'\<lparr>co_stopCacheLoop := Some n, co_cacheLoops := n # co_cacheLoops co', co_contexts := n + 1\<rparr>)"

definition Stop :: "connector \<Rightarrow> connector" where
  "Stop co =
     (case co_stopCacheLoop co of
        None \<Rightarrow> co
      | Some n \<Rightarrow> co\<lparr>co_stopCacheLoop := None, co_cacheLoops := removeAll n (co_cacheLoops co)\<rparr>)"

text \<open>\<open>upper\<close> is \<open>strings.ToUpper\<close> and \<open>WebMessageIDPrefix\<close> whatsmeow's prefix of message IDs.\<close>

definition GenerateTransactionID :: "(string \<Rightarrow> string) \<Rightarrow> string \<Rightarrow> byte list \<Rightarrow> string" where
  "GenerateTransactionID upper WebMessageIDPrefix random9 = WebMessageIDPrefix @ upper (hex_encode random9)"

section \<open>Duplicate direct chats\<close>

text \<open>A portal with a room: its key, whether its room is a direct chat, and the room.\<close>

record portal_row =
  pr_Key :: PortalKey
  pr_DM :: bool
  pr_MXID :: string

datatype migration_call = DeletePortal PortalKey | DeleteRoom string

definition portals_by_key :: "portal_row list \<Rightarrow> PortalKey \<rightharpoonup> portal_row" where
  "portals_by_key ps = map_of (rev (map (\<lambda>p. (pr_Key p, p)) (filter (\<lambda>p. pk_Receiver (pr_Key p) \<noteq> [] \<and> pr_DM p) ps)))"

text \<open>The chat with the phone number that a LID chat is a duplicate of; \<open>pn_of\<close> is the query of
  the LID map, with its error.\<close>

definition pn_key :: "jid_lib \<Rightarrow> (string \<Rightarrow> gerror + string) \<Rightarrow> PortalKey \<Rightarrow> PortalKey option" where
  "pn_key L pn_of key =
     (case ParsePortalID L (pk_ID key) of
        Ok parsedID \<Rightarrow>
          if Server parsedID \<noteq> HiddenUserServer then None
          else (case pn_of (User parsedID) of
                  Inl _ \<Rightarrow> None
                | Inr pn \<Rightarrow> Some (key\<lparr>pk_ID := MakePortalID L (EmptyJID\<lparr>User := pn, Server := DefaultUserServer\<rparr>)\<rparr>))
      | _ \<Rightarrow> None)"

text \<open>One round of the loop. The state is the portals in the database and the calls made, newest
  first.\<close>

definition delete_duplicate ::
  "jid_lib \<Rightarrow> (string \<Rightarrow> gerror + string) \<Rightarrow> (PortalKey \<Rightarrow> gerror option) \<Rightarrow> (PortalKey \<rightharpoonup> portal_row) \<Rightarrow> portal_row \<Rightarrow>
   portal_row list \<times> migration_call list \<Rightarrow> portal_row list \<times> migration_call list" where
  "delete_duplicate L pn_of delete_err byKey p st =
     (case pn_key L pn_of (pr_Key p) of
        None \<Rightarrow> st
      | Some k \<Rightarrow>
          if byKey k = None then st
          else (case delete_err (pr_Key p) of
                  Some _ \<Rightarrow> (fst st, DeletePortal (pr_Key p) # snd st)
                | None \<Rightarrow> (filter (\<lambda>q. pr_Key q \<noteq> pr_Key p) (fst st), DeleteRoom (pr_MXID p) # DeletePortal (pr_Key p) # snd st)))"

text \<open>The order of the map, \<open>order\<close>, is any list of its values. A failure of the query that
  deletes the stored conversations is only logged: \<open>deleted\<close> tells whether it succeeded, and
  \<open>load_err\<close> whether the portals with a room could not be loaded.\<close>

record migration_state =
  ms_portals :: "portal_row list"
  ms_conversations :: "jid list"
  ms_kv :: "string \<rightharpoonup> string"
  ms_calls :: "migration_call list"

definition kvLIDDMsDeleted :: string where "kvLIDDMsDeleted = ''whatsapp_lid_dms_deleted''"

definition deleteLIDDMsMigration ::
  "jid_lib \<Rightarrow> (string \<Rightarrow> gerror + string) \<Rightarrow> (PortalKey \<Rightarrow> gerror option) \<Rightarrow> bool \<Rightarrow> (portal_row list \<Rightarrow> portal_row list) \<Rightarrow>
   gerror option \<Rightarrow> migration_state \<Rightarrow> migration_state" where
  "deleteLIDDMsMigration L pn_of delete_err deleted order load_err st =
     (case load_err of
        Some _ \<Rightarrow> st
      | None \<Rightarrow>
          (let portals = filter (\<lambda>p. pr_MXID p \<noteq> []) (ms_portals st);
               st1 = st\<lparr>ms_kv := (ms_kv st)(kvLIDDMsDeleted \<mapsto> ''true'')\<rparr> in
           if portals = [] then st1
           else (let byKey = portals_by_key portals;
                     convs = (if deleted then filter (\<lambda>j. Server j \<noteq> HiddenUserServer) (ms_conversations st) else ms_conversations st);
                     (ps, calls) = fold (delete_duplicate L pn_of delete_err byKey)
                       (order (filter (\<lambda>p. byKey (pr_Key p) = Some p) portals)) (ms_portals st, ms_calls st)
                 in st1\<lparr>ms_portals := ps, ms_conversations := convs, ms_calls := calls\<rparr>)))"

text \<open>The steps of \<open>Start\<close>: what each upgrade answers, and the migration.\<close>

definition Start ::
  "bool \<Rightarrow> gerror option \<Rightarrow> gerror option \<Rightarrow> gerror option \<Rightarrow> (migration_state \<Rightarrow> migration_state) \<Rightarrow> migration_state \<Rightarrow>
   gerror option \<times> migration_state" where
  "Start background store_upgrade fill_cache db_upgrade migrate st =
     (case store_upgrade of
        Some e \<Rightarrow> (Some (Wrap ''whatsmeow'' e), st)
      | None \<Rightarrow>
          (case (if background then None else fill_cache) of
             Some e \<Rightarrow> (Some (Wrap ''failed to fill LID cache'' e), st)
           | None \<Rightarrow>
               (case db_upgrade of
                  Some e \<Rightarrow> (Some (Wrap ''whatsapp'' e), st)
                | None \<Rightarrow> (None, if \<not> background \<and> ms_kv st kvLIDDMsDeleted = Some ''false'' then migrate st else st))))"

section \<open>The proxy\<close>

text \<open>The answer of the proxy service: an error of the URL, of the request or of sending it, or a
  status code and the decoded body.\<close>

datatype proxy_answer = BadURL gerror | BadRequest gerror | NotSent gerror | ProxyAnswer int "gerror + string"

definition getProxy :: "(string \<Rightarrow> string \<Rightarrow> proxy_answer) \<Rightarrow> Config \<Rightarrow> string \<Rightarrow> gerror + string" where
  "getProxy fetch cfg reason =
     (if cf_GetProxyURL cfg = [] then Inr (cf_Proxy cfg)
      else (case fetch (cf_GetProxyURL cfg) reason of
              BadURL e \<Rightarrow> Inl (Wrap ''failed to parse address'' e)
            | BadRequest e \<Rightarrow> Inl (Wrap ''failed to prepare request'' e)
            | NotSent e \<Rightarrow> Inl (Wrap ''failed to send request'' e)
            | ProxyAnswer code body \<Rightarrow>
                if code \<ge> 300 \<or> code < 200 then Inl (Err (''unexpected status code '' @ (if code < 0 then ''-'' else []) @ format_nat (nat \<bar>code\<bar>)))
                else (case body of Inl e \<Rightarrow> Inl (Wrap ''failed to decode response'' e) | Inr url \<Rightarrow> Inr url)))"

text \<open>The call of \<open>SetProxyAddress\<close> with its two options, and the error that is returned.\<close>

definition updateProxy ::
  "(string \<Rightarrow> string \<Rightarrow> proxy_answer) \<Rightarrow> (string \<Rightarrow> bool \<Rightarrow> bool \<Rightarrow> gerror option) \<Rightarrow> Config \<Rightarrow> bool \<Rightarrow>
   (string \<times> bool \<times> bool) option \<times> gerror option" where
  "updateProxy fetch set_proxy cfg isLogin =
     (if cf_ProxyOnlyLogin cfg \<and> \<not> isLogin then (None, None)
      else (case getProxy fetch cfg (if isLogin then ''login'' else ''connect'') of
              Inl e \<Rightarrow> (None, Some (Wrap ''failed to get proxy address'' e))
            | Inr proxy \<Rightarrow>
                (Some (proxy, cf_ProxyOnlyLogin cfg, cf_ProxyOnlyLogin cfg),
                 map_option (Wrap ''failed to set proxy address'') (set_proxy proxy (cf_ProxyOnlyLogin cfg) (cf_ProxyOnlyLogin cfg)))))"

section \<open>The migration keeps one of each chat\<close>

lemma portals_by_key_Some:
  "portals_by_key ps k = Some r \<Longrightarrow> r \<in> set ps \<and> pr_Key r = k \<and> pk_Receiver k \<noteq> [] \<and> pr_DM r"
  unfolding portals_by_key_def by (auto dest: map_of_SomeD)

lemma delete_lost:
  assumes "q \<in> set (fst st)" and "q \<notin> set (fst (fold (delete_duplicate L pn_of err byKey) ps st))"
  shows "\<exists>p\<in>set ps. pr_Key p = pr_Key q \<and> (\<exists>k. pn_key L pn_of (pr_Key p) = Some k \<and> byKey k \<noteq> None)"
  using assms
proof (induction ps arbitrary: st)
  case (Cons p ps)
  let ?st = "delete_duplicate L pn_of err byKey p st"
  show ?case
  proof (cases "q \<in> set (fst ?st)")
    case True
    with Cons.IH [OF this] Cons.prems(2) show ?thesis by simp
  next
    case False
    with Cons.prems(1) show ?thesis
      by (auto simp: delete_duplicate_def split: option.splits if_splits)
  qed
qed simp

lemma delete_subset: "set (fst (fold (delete_duplicate L pn_of err byKey) ps st)) \<subseteq> set (fst st)"
proof (induction ps arbitrary: st)
  case (Cons p ps)
  have "set (fst (delete_duplicate L pn_of err byKey p st)) \<subseteq> set (fst st)"
    by (auto simp: delete_duplicate_def split: option.split)
  with Cons.IH [of "delete_duplicate L pn_of err byKey p st"] show ?case by (simp only: fold_simps)
qed simp

text \<open>The phone numbers in whatsmeow's LID map are user parts of identifiers.\<close>

definition lid_map_ok :: "(string \<Rightarrow> gerror + string) \<Rightarrow> bool" where
  "lid_map_ok pn_of \<longleftrightarrow> (\<forall>l pn. pn_of l = Inr pn \<longrightarrow> plain_user pn)"

lemma pn_key_form:
  assumes "jid_lib_ok L" and plain: "lid_map_ok pn_of" and k: "pn_key L pn_of key = Some k"
  shows "pk_Receiver k = pk_Receiver key \<and> (\<exists>lid pn. ParsePortalID L (pk_ID key) = Ok lid \<and> Server lid = HiddenUserServer
      \<and> pn_of (User lid) = Inr pn \<and> ParsePortalID L (pk_ID k) = Ok (EmptyJID\<lparr>User := pn, Server := DefaultUserServer\<rparr>))
    \<and> pn_key L pn_of k = None"
proof -
  from k obtain lid pn where lid: "ParsePortalID L (pk_ID key) = Ok lid" "Server lid = HiddenUserServer"
    and pn: "pn_of (User lid) = Inr pn"
    and k': "k = key\<lparr>pk_ID := MakePortalID L (EmptyJID\<lparr>User := pn, Server := DefaultUserServer\<rparr>)\<rparr>"
    by (auto simp: pn_key_def split: outcome.splits if_splits sum.splits)
  define j where "j = EmptyJID\<lparr>User := pn, Server := DefaultUserServer\<rparr>"
  have "plain_jid (j\<lparr>Device := 0\<rparr>)" using plain pn by (simp add: plain_jid_def j_def lid_map_ok_def)
  then have parse: "ParsePortalID L (pk_ID k) = Ok j"
    using assms(1) by (simp add: ParsePortalID_def MakePortalID_def jid_lib k' j_def EmptyJID_def)
  moreover have "pn_key L pn_of k = None" unfolding pn_key_def parse by (simp add: j_def)
  ultimately show ?thesis using lid pn k' unfolding j_def by auto
qed

lemma migration_portals:
  "ms_portals (deleteLIDDMsMigration L pn_of err deleted order (Some e) st) = ms_portals st"
  "filter (\<lambda>p. pr_MXID p \<noteq> []) (ms_portals st) = [] \<Longrightarrow>
     ms_portals (deleteLIDDMsMigration L pn_of err deleted order None st) = ms_portals st"
  "filter (\<lambda>p. pr_MXID p \<noteq> []) (ms_portals st) \<noteq> [] \<Longrightarrow>
     ms_portals (deleteLIDDMsMigration L pn_of err deleted order None st) =
     fst (fold (delete_duplicate L pn_of err (portals_by_key (filter (\<lambda>p. pr_MXID p \<noteq> []) (ms_portals st))))
       (order (filter (\<lambda>p. portals_by_key (filter (\<lambda>p. pr_MXID p \<noteq> []) (ms_portals st)) (pr_Key p) = Some p)
         (filter (\<lambda>p. pr_MXID p \<noteq> []) (ms_portals st)))) (ms_portals st, ms_calls st))"
proof -
  define P where "P = filter (\<lambda>p. pr_MXID p \<noteq> []) (ms_portals st)"
  show "ms_portals (deleteLIDDMsMigration L pn_of err deleted order (Some e) st) = ms_portals st"
    by (simp add: deleteLIDDMsMigration_def)
  show "P = [] \<Longrightarrow> ms_portals (deleteLIDDMsMigration L pn_of err deleted order None st) = ms_portals st"
    unfolding deleteLIDDMsMigration_def P_def [symmetric] by simp
  show "P \<noteq> [] \<Longrightarrow> ms_portals (deleteLIDDMsMigration L pn_of err deleted order None st) =
      fst (fold (delete_duplicate L pn_of err (portals_by_key P)) (order (filter (\<lambda>p. portals_by_key P (pr_Key p) = Some p) P))
        (ms_portals st, ms_calls st))"
    unfolding deleteLIDDMsMigration_def P_def [symmetric] by (simp add: case_prod_beta Let_def)
qed

text \<open>The loop deletes only chats whose other chat it keeps.\<close>

lemma delete_loop_safe:
  fixes ps :: "portal_row list"
  defines "P \<equiv> filter (\<lambda>p. pr_MXID p \<noteq> []) ps"
  assumes "jid_lib_ok L" and "lid_map_ok pn_of" and "distinct (map pr_Key ps)"
    and picked: "set picked = {p \<in> set P. portals_by_key P (pr_Key p) = Some p}"
    and left: "left = fst (fold (delete_duplicate L pn_of delete_err (portals_by_key P)) picked (ps, calls))"
    and p: "p \<in> set ps - set left"
  shows "pr_DM p \<and> (\<exists>lid pn q. ParsePortalID L (pk_ID (pr_Key p)) = Ok lid \<and> Server lid = HiddenUserServer \<and> pn_of (User lid) = Inr pn
      \<and> q \<in> set left \<and> pr_DM q \<and> pr_MXID q \<noteq> [] \<and> pk_Receiver (pr_Key q) = pk_Receiver (pr_Key p)
      \<and> ParsePortalID L (pk_ID (pr_Key q)) = Ok (EmptyJID\<lparr>User := pn, Server := DefaultUserServer\<rparr>))"
proof -
  note lost = delete_lost [of _ "(ps, calls)" L pn_of delete_err "portals_by_key P" picked, folded left, simplified fst_conv]
  from p lost [of p] obtain p' k where p': "p' \<in> set picked" "pr_Key p' = pr_Key p"
    and k: "pn_key L pn_of (pr_Key p') = Some k" and in_map: "portals_by_key P k \<noteq> None" by auto
  have p'P: "p' \<in> set ps" "portals_by_key P (pr_Key p') = Some p'" using p'(1) by (simp_all add: picked P_def)
  with p p'(2) assms(4) have same: "p' = p" by (auto simp: distinct_map inj_on_def)
  from in_map obtain q where q: "portals_by_key P k = Some q" by blast
  note qP = portals_by_key_Some [OF q] and form = pn_key_form [OF assms(2,3) k]
  have "q \<in> set left"
  proof (rule ccontr)
    assume "q \<notin> set left"
    moreover have "q \<in> set ps" using qP by (simp add: P_def)
    ultimately obtain r :: portal_row and k' where "pr_Key r = pr_Key q" "pn_key L pn_of (pr_Key r) = Some k'"
      using lost [of q] by blast
    with qP form show False by simp
  qed
  with qP form same portals_by_key_Some [OF p'P(2)] show ?thesis by (auto simp: P_def)
qed

text \<open>C16: Deleting duplicate direct chats loses no conversation: a portal that is gone afterwards was a
  direct chat with a LID, and the direct chat of the same login with the phone number of that LID is
  still there and has a room; no portal is added, the other portals stay, and the migration is
  marked as done unless the portals could not be loaded.\<close>

theorem lid_migration_safe:
  assumes "jid_lib_ok L" and plain: "lid_map_ok pn_of"
    and order: "\<And>ps. set (order ps) = set ps" and distinct: "distinct (map pr_Key (ms_portals st))"
    and st': "st' = deleteLIDDMsMigration L pn_of delete_err deleted order load_err st"
  shows "set (ms_portals st') \<subseteq> set (ms_portals st)
    \<and> (load_err = None \<longrightarrow> ms_kv st' kvLIDDMsDeleted = Some ''true'')
    \<and> (\<forall>p\<in>set (ms_portals st) - set (ms_portals st'). pr_DM p
        \<and> (\<exists>lid pn q. ParsePortalID L (pk_ID (pr_Key p)) = Ok lid \<and> Server lid = HiddenUserServer \<and> pn_of (User lid) = Inr pn
            \<and> q \<in> set (ms_portals st') \<and> pr_DM q \<and> pr_MXID q \<noteq> [] \<and> pk_Receiver (pr_Key q) = pk_Receiver (pr_Key p)
            \<and> ParsePortalID L (pk_ID (pr_Key q)) = Ok (EmptyJID\<lparr>User := pn, Server := DefaultUserServer\<rparr>)))"
proof -
  let ?P = "filter (\<lambda>p. pr_MXID p \<noteq> []) (ms_portals st)"
  let ?ps = "order (filter (\<lambda>p. portals_by_key ?P (pr_Key p) = Some p) ?P)"
  consider (same) "ms_portals st' = ms_portals st"
    | (loop) "ms_portals st' = fst (fold (delete_duplicate L pn_of delete_err (portals_by_key ?P)) ?ps (ms_portals st, ms_calls st))"
    unfolding st' by (cases load_err; cases "?P = []") (simp_all only: migration_portals option.distinct simp_thms)
  then have "set (ms_portals st') \<subseteq> set (ms_portals st) \<and> (\<forall>p\<in>set (ms_portals st) - set (ms_portals st'). pr_DM p
        \<and> (\<exists>lid pn q. ParsePortalID L (pk_ID (pr_Key p)) = Ok lid \<and> Server lid = HiddenUserServer \<and> pn_of (User lid) = Inr pn
            \<and> q \<in> set (ms_portals st') \<and> pr_DM q \<and> pr_MXID q \<noteq> [] \<and> pk_Receiver (pr_Key q) = pk_Receiver (pr_Key p)
            \<and> ParsePortalID L (pk_ID (pr_Key q)) = Ok (EmptyJID\<lparr>User := pn, Server := DefaultUserServer\<rparr>)))"
  proof cases
    case loop
    have "set ?ps = {p \<in> set ?P. portals_by_key ?P (pr_Key p) = Some p}" by (simp only: order) auto
    note safe = delete_loop_safe [OF assms(1,2) distinct this loop]
    have "set (ms_portals st') \<subseteq> set (ms_portals st)"
      unfolding loop using delete_subset [of L pn_of delete_err "portals_by_key ?P" ?ps "(ms_portals st, ms_calls st)"] by simp
    with safe show ?thesis by blast
  qed simp
  moreover have "load_err = None \<Longrightarrow> ms_kv st' kvLIDDMsDeleted = Some ''true''"
    unfolding st' deleteLIDDMsMigration_def by (simp add: Let_def case_prod_beta)
  ultimately show ?thesis by blast
qed

definition sample_migration :: migration_state where
  "sample_migration = \<lparr>ms_portals =
       [\<lparr>pr_Key = \<lparr>pk_ID = ''77@lid'', pk_Receiver = ''me''\<rparr>, pr_DM = True, pr_MXID = ''!lid''\<rparr>,
        \<lparr>pr_Key = \<lparr>pk_ID = ''123@s.whatsapp.net'', pk_Receiver = ''me''\<rparr>, pr_DM = True, pr_MXID = ''!pn''\<rparr>,
        \<lparr>pr_Key = \<lparr>pk_ID = ''88@lid'', pk_Receiver = ''me''\<rparr>, pr_DM = True, pr_MXID = ''!other''\<rparr>],
     ms_conversations = [], ms_kv = [kvLIDDMsDeleted \<mapsto> ''false''], ms_calls = []\<rparr>"

theorem lid_migration_safe_witness:
  "map pr_MXID (ms_portals (deleteLIDDMsMigration sample_jid_lib (\<lambda>l. Inr ''123'') (\<lambda>_. None) True (\<lambda>ps. ps) None sample_migration)) = [''!pn'']
   \<and> {p \<in> set (ms_portals sample_migration) - set (ms_portals
        (deleteLIDDMsMigration sample_jid_lib (\<lambda>l. Inr ''123'') (\<lambda>_. None) True (\<lambda>ps. ps) None sample_migration)). \<not> pr_DM p} = {}"
proof -
  have plain: "lid_map_ok (\<lambda>l. Inr ''123'')" by (simp add: lid_map_ok_def plain_user_def)
  have d: "distinct (map pr_Key (ms_portals sample_migration))" by (simp add: sample_migration_def)
  have "map pr_MXID (ms_portals (deleteLIDDMsMigration sample_jid_lib (\<lambda>l. Inr ''123'') (\<lambda>_. None) True (\<lambda>ps. ps) None sample_migration)) = [''!pn'']"
    by code_simp
  moreover note lid_migration_safe [where pn_of = "\<lambda>l. Inr ''123''" and order = "\<lambda>ps. ps" and delete_err = "\<lambda>_. None"
      and deleted = True and load_err = None, OF sample_jid_lib_ok plain refl d refl]
  ultimately
  show ?thesis by blast
qed

text \<open>Every key of the configuration survives an upgrade of the file: each field is copied, with its own type.\<close>

definition yaml_kinds :: "go_kind \<Rightarrow> yaml_kind list" where
  "yaml_kinds k = (case k of GoString \<Rightarrow> [YStr] | GoBool \<Rightarrow> [YBool] | GoInt \<Rightarrow> [YInt] | GoDuration \<Rightarrow> [YStr, YInt])"

lemma config_upgrade_complete:
  "map (\<lambda>(key, ks). (key, filter (\<lambda>k. k \<noteq> YNull) ks)) upgradeConfig = map (\<lambda>(key, k). (key, yaml_kinds k)) config_fields"
  "distinct (map fst upgradeConfig)"
  by code_simp+

end
