(* ===== verification/StartChat.thy ===== *)
theory StartChat
  imports WAHandlers UserInfo
begin

text \<open>
  Starting chats and creating groups, \<open>pkg/connector/startchat.go\<close>, and the operations of
  \<open>pkg/connector/userinfo.go\<close> and \<open>handlewhatsapp.go\<close> that sync a contact together with
  its other identity. The framework's ghosts are the lookup \<open>ghost\<close> (their avatar ID, or an
  error); whatsmeow's answers are arguments.
\<close>

section \<open>Identifiers\<close>

definition looksEmaily :: "string \<Rightarrow> bool" where
  "looksEmaily str \<longleftrightarrow>
     list_ex (\<lambda>ch. let n = (of_char ch :: nat) in (97 \<le> n \<and> n \<le> 122) \<or> (65 \<le> n \<and> n \<le> 90) \<or> ch = CHR ''@'') str"

definition isOnlyNumbers :: "string \<Rightarrow> bool" where
  "isOnlyNumbers user \<longleftrightarrow> list_all is_digit user"

definition has_suffix :: "string \<Rightarrow> string \<Rightarrow> bool" where
  "has_suffix s t \<longleftrightarrow> length t \<le> length s \<and> drop (length s - length t) s = t"

definition ErrInputLooksLikeEmail :: gerror where
  "ErrInputLooksLikeEmail = Err ''WhatsApp only supports phone numbers as user identifiers. Number looks like email''"

text \<open>
  \<open>suffix\<close> is the text of a server after the at sign, \<open>is_on_whatsapp\<close> the query: for each
  number of the answer whether it is registered, and its JID.
\<close>

record start_env =
  st_L :: jid_lib
  st_client :: client
  st_suffix :: "server \<Rightarrow> string"
  st_has_client :: bool
  st_logged_in :: bool
  st_is_on_whatsapp :: "string \<Rightarrow> gerror + (bool \<times> jid) list"
  st_ghost :: "string \<Rightarrow> gerror + string"

definition validateIdentifer :: "start_env \<Rightarrow> string \<Rightarrow> jid outcome" where
  "validateIdentifer S number =
     (if has_suffix number (''@'' @ st_suffix S BotServer) \<or> has_suffix number (''@'' @ st_suffix S HiddenUserServer)
      then of_sum (parse_jid (st_L S) number)
      else if has_prefix number BotPrefix \<or> has_prefix number LIDPrefix then Ok (ParseUserID (st_L S) number)
      else
        let n = (if has_suffix number (''@'' @ st_suffix S DefaultUserServer)
                 then ''+'' @ User (parsed_or_empty (st_L S) number) else number)
        in if looksEmaily n then Fail ErrInputLooksLikeEmail
           else if \<not> (st_has_client S \<and> st_logged_in S) then Fail ErrNotLoggedIn
           else case st_is_on_whatsapp S n of
                  Inl e \<Rightarrow> Fail (Wrap ''failed to check if number is on WhatsApp'' e)
                | Inr [] \<Rightarrow> Fail (Err ''the server did not respond to the query'')
                | Inr ((isIn, j) # _) \<Rightarrow>
                    if \<not> isIn then Fail (Err (''the server said +'' @ User j @ '' is not on WhatsApp'')) else Ok j)"

definition ValidateUserID :: "jid_lib \<Rightarrow> string \<Rightarrow> bool" where
  "ValidateUserID L i =
     (let j = ParseUserID L i in
      if Server j = DefaultUserServer
      then length (User j) \<le> 13 \<and> (User j = ''0'' \<or> length (User j) \<ge> 7) \<and> isOnlyNumbers (User j)
      else if Server j = HiddenUserServer \<or> Server j = BotServer then length (User j) \<ge> 12
      else False)"

section \<open>Starting a chat\<close>

definition startChatLIDToPN :: "start_env \<Rightarrow> jid \<Rightarrow> jid outcome" where
  "startChatLIDToPN S j =
     (if Server j = HiddenUserServer then
        (case GetPNForLID (st_client S) j of
           (_, Some e) \<Rightarrow> Fail (Wrap ''failed to get phone number for lid'' e)
         | (pn, None) \<Rightarrow> if jid_is_empty (st_L S) pn then Fail (Err ''phone number not found'') else Ok pn)
      else Ok j)"

record CreateChatResponse =
  ccr_PortalKey :: PortalKey
  ccr_PortalInfo :: "ChatInfo option"
  ccr_DMRedirectedTo :: string

definition makeCreateChatResponse :: "start_env \<Rightarrow> jid \<Rightarrow> jid \<Rightarrow> CreateChatResponse" where
  "makeCreateChatResponse S j origJID =
     \<lparr>ccr_PortalKey = makeWAPortalKey (st_L S) (st_client S) j,
      ccr_PortalInfo = Some (wrapDMInfo (st_L S) (st_client S) j),
      ccr_DMRedirectedTo = (if origJID \<noteq> j then MakeUserID j else [])\<rparr>"

definition CreateChatWithGhost :: "start_env \<Rightarrow> string \<Rightarrow> CreateChatResponse outcome" where
  "CreateChatWithGhost S ghostID =
     (let origJID = ParseUserID (st_L S) ghostID
      in obind (startChatLIDToPN S origJID) (\<lambda>j. Ok (makeCreateChatResponse S j origJID)))"

text \<open>The user ID of a resolved identifier and the chat with it.\<close>

definition ResolveIdentifier :: "start_env \<Rightarrow> string \<Rightarrow> (string \<times> CreateChatResponse) outcome" where
  "ResolveIdentifier S identifier =
     obind (validateIdentifer S identifier) (\<lambda>origJID.
     obind (startChatLIDToPN S origJID) (\<lambda>j.
     obind (owrap ''failed to get ghost'' (of_sum (st_ghost S (MakeUserID j)))) (\<lambda>_.
     Ok (MakeUserID j, makeCreateChatResponse S j origJID))))"

section \<open>Listing contacts\<close>

text \<open>\<open>lower\<close> is Go's \<open>strings.ToLower\<close> and \<open>sub\<close> its \<open>strings.Contains\<close>.\<close>

definition matchesQuery :: "(string \<Rightarrow> string) \<Rightarrow> (string \<Rightarrow> string \<Rightarrow> bool) \<Rightarrow> string \<Rightarrow> string \<Rightarrow> bool" where
  "matchesQuery lower sub str query \<longleftrightarrow> query = [] \<or> sub (lower str) query"

definition listed :: "(string \<Rightarrow> string) \<Rightarrow> (string \<Rightarrow> string \<Rightarrow> bool) \<Rightarrow> string \<Rightarrow> bool \<Rightarrow> jid \<times> ContactInfo \<Rightarrow> bool" where
  "listed lower sub flt onlyContacts p \<longleftrightarrow>
     \<not> (onlyContacts \<and> k_FirstName (snd p) = []) \<and>
     (matchesQuery lower sub (k_PushName (snd p)) flt \<or> matchesQuery lower sub (k_FullName (snd p)) flt
       \<or> matchesQuery lower sub (User (fst p)) flt)"

definition getContactList ::
  "start_env \<Rightarrow> user_env \<Rightarrow> (string \<Rightarrow> string) \<Rightarrow> (string \<Rightarrow> string \<Rightarrow> bool) \<Rightarrow> gerror + (jid \<times> ContactInfo) list \<Rightarrow> string \<Rightarrow> bool \<Rightarrow>
   (string \<times> UserInfo \<times> PortalKey) list outcome" where
  "getContactList S V lower sub contacts flt onlyContacts =
     (if \<not> (st_has_client S \<and> st_logged_in S) then Fail (Err ''You must be logged in to list contacts'')
      else obind (of_sum contacts) (\<lambda>cs.
        omap (\<lambda>(j, contact). obind (contactToUserInfo V j contact False) (\<lambda>ui.
                Ok (MakeUserID j, ui, makeWAPortalKey (st_L S) (st_client S) j)))
          (filter (listed lower sub flt onlyContacts) cs)))"

definition GetContactList ::
  "start_env \<Rightarrow> user_env \<Rightarrow> (string \<Rightarrow> string) \<Rightarrow> (string \<Rightarrow> string \<Rightarrow> bool) \<Rightarrow> gerror + (jid \<times> ContactInfo) list \<Rightarrow>
   (string \<times> UserInfo \<times> PortalKey) list outcome" where
  "GetContactList S V lower sub contacts = getContactList S V lower sub contacts [] True"

definition SearchUsers ::
  "start_env \<Rightarrow> user_env \<Rightarrow> (string \<Rightarrow> string) \<Rightarrow> (string \<Rightarrow> string \<Rightarrow> bool) \<Rightarrow> gerror + (jid \<times> ContactInfo) list \<Rightarrow> string \<Rightarrow>
   (string \<times> UserInfo \<times> PortalKey) list outcome" where
  "SearchUsers S V lower sub contacts query = getContactList S V lower sub contacts (lower query) False"

section \<open>Creating a group\<close>

record CreateParams =
  gp_Name :: string
  gp_Participants :: "string list"
  gp_Parent :: "string option"
  gp_Timer :: "int option"
  gp_AvatarURL :: string
  gp_Topic :: "string option"
  gp_RoomID :: string

record CreateRequest =
  gq_Name :: string
  gq_Participants :: "jid list"
  gq_CreateKey :: string
  gq_Parent :: jid
  gq_IsEphemeral :: bool
  gq_Timer :: "32 word"

text \<open>A participant of the answer, its error code and the invite it was given instead.\<close>

record CreatedParticipant =
  cp_Participant :: Participant
  cp_Error :: nat
  cp_AddRequest :: "(string \<times> int) option"

record FailedParticipant =
  fp_Reason :: string
  fp_Invite :: "GroupInviteMeta option"

datatype create_call =
    CreateGroupCall CreateRequest
  | UpdateMatrixRoomID string
  | SetCreatedPhoto jid "byte list"
  | SetCreatedTopic jid string string
  | SavePortal

text \<open>
  What whatsmeow and the framework answer: the two message IDs that are generated, the creation
  (the group's JID, its info, and the participants with their errors), the portal of the new
  group, and the updates.
\<close>

record group_env =
  ge_CreateKey :: string
  ge_TopicID :: string
  ge_avatar :: "string \<Rightarrow> byte list outcome"
  ge_create :: "CreateRequest \<Rightarrow> gerror + jid \<times> GroupInfo \<times> CreatedParticipant list"
  ge_portal :: "PortalKey \<Rightarrow> gerror + Room"
  ge_update_room :: "gerror + unit"
  ge_set_photo :: "gerror + string"
  ge_set_topic :: "gerror + unit"
  ge_sha256 :: "byte list \<Rightarrow> byte list"

definition create_request :: "start_env \<Rightarrow> group_env \<Rightarrow> CreateParams \<Rightarrow> CreateRequest outcome" where
  "create_request S G params =
     obind (omap (\<lambda>p. owrap (''failed to normalize participant '' @ p) (startChatLIDToPN S (ParseUserID (st_L S) p))) (gp_Participants params)) (\<lambda>jids.
     obind (case gp_Parent params of
              None \<Rightarrow> Ok EmptyJID
            | Some parent \<Rightarrow> owrap ''failed to parse parent ID'' (ParsePortalID (st_L S) parent)) (\<lambda>parent.
     Ok \<lparr>gq_Name = gp_Name params, gq_Participants = jids, gq_CreateKey = ge_CreateKey G, gq_Parent = parent,
         gq_IsEphemeral = (gp_Timer params \<noteq> None),
         gq_Timer = (case gp_Timer params of None \<Rightarrow> 0 | Some t \<Rightarrow> word_of_int (t div second))\<rparr>))"

definition created_avatar :: "group_env \<Rightarrow> CreateParams \<Rightarrow> byte list option outcome" where
  "created_avatar G params =
     (if gp_AvatarURL params = [] then Ok None else obind (ge_avatar G (gp_AvatarURL params)) (\<lambda>d. Ok (Some d)))"

text \<open>The participants that could not be added, with the invite they can be sent.\<close>

definition failed_participant :: "start_env \<Rightarrow> jid \<Rightarrow> GroupInfo \<Rightarrow> CreatedParticipant \<Rightarrow> FailedParticipant" where
  "failed_participant S groupJID info p =
     \<lparr>fp_Reason = ''error '' @ format_nat (cp_Error p),
      fp_Invite = (case cp_AddRequest p of
          None \<Rightarrow> None
        | Some (code, expiration) \<Rightarrow> Some \<lparr>gi_JID = groupJID, gi_Code = code, gi_Expiration = expiration,
            gi_Inviter = to_non_ad (st_L S) (cl_JID (st_client S)), gi_GroupName = gi_Name info,
            gi_IsParentGroup = gi_IsParent info\<rparr>)\<rparr>"

definition failed_participants :: "start_env \<Rightarrow> jid \<Rightarrow> GroupInfo \<Rightarrow> CreatedParticipant list \<Rightarrow> (string \<Rightarrow> FailedParticipant option)" where
  "failed_participants S groupJID info ps =
     fold (\<lambda>p m. if cp_Error p \<noteq> 0 then m(MakeUserID (pcp_JID (cp_Participant p)) \<mapsto> failed_participant S groupJID info p) else m) ps Map.empty"

definition added_participants :: "CreatedParticipant list \<Rightarrow> Participant list" where
  "added_participants ps = map cp_Participant (filter (\<lambda>p. cp_Error p = 0) ps)"

text \<open>The callback that the framework runs when a room that exists becomes the portal's room; the
  portal of the model has no parent key, which the callback sets as well.\<close>

definition sync_room :: "group_env \<Rightarrow> CreateParams \<Rightarrow> CreateRequest \<Rightarrow> byte list option \<Rightarrow> Room \<Rightarrow> Room" where
  "sync_room G params req avatar rm =
     (let rm1 = rm\<lparr>rm_Name := gq_Name req, rm_NameSet := True\<rparr>;
          rm2 = (case avatar of None \<Rightarrow> rm1
                 | Some d \<Rightarrow> rm1\<lparr>rm_AvatarSet := True, rm_AvatarHash := ge_sha256 G d, rm_AvatarMXC := gp_AvatarURL params\<rparr>)
      in if gq_Timer req > 0
         then rm2\<lparr>rm_Portal := (rm_Portal rm2)\<lparr>pt_Disappear := \<lparr>dis_Type = AfterSend, dis_Timer = uint (gq_Timer req) * second\<rparr>\<rparr>\<rparr>
         else rm2)"

text \<open>The photo: the calls, the portal, the info and whether anything changed.\<close>

definition set_created_photo :: "group_env \<Rightarrow> CreateParams \<Rightarrow> jid \<Rightarrow> byte list option \<Rightarrow> Room \<times> ChatInfo \<Rightarrow>
   create_call list \<times> Room \<times> ChatInfo \<times> bool" where
  "set_created_photo G params j avatar p =
     (let (rm, info) = p in
      case avatar of
        None \<Rightarrow> ([], rm, info, False)
      | Some d \<Rightarrow>
          (case ge_set_photo G of
             Inl _ \<Rightarrow> ([SetCreatedPhoto j d], rm, info, False)
           | Inr avatarID \<Rightarrow>
               ([SetCreatedPhoto j d],
                rm\<lparr>rm_AvatarID := avatarID, rm_AvatarHash := ge_sha256 G d, rm_AvatarMXC := gp_AvatarURL params, rm_AvatarSet := True\<rparr>,
                info\<lparr>chi_Avatar := Some \<lparr>av_ID = avatarID, av_Remove = False, av_Path = None, av_MXC = Some (gp_AvatarURL params),
                       av_Hash = ge_sha256 G d\<rparr>\<rparr>, True)))"

definition set_created_topic :: "group_env \<Rightarrow> CreateParams \<Rightarrow> jid \<Rightarrow> Room \<times> ChatInfo \<Rightarrow>
   create_call list \<times> Room \<times> ChatInfo \<times> bool" where
  "set_created_topic G params j p =
     (let (rm, info) = p in
      case gp_Topic params of
        None \<Rightarrow> ([], rm, info, False)
      | Some topic \<Rightarrow>
          (case ge_set_topic G of
             Inl _ \<Rightarrow> ([SetCreatedTopic j (ge_TopicID G) topic], rm, info, False)
           | Inr _ \<Rightarrow>
               ([SetCreatedTopic j (ge_TopicID G) topic],
                rm\<lparr>rm_Topic := topic, rm_TopicSet := (gp_RoomID params \<noteq> []),
                   rm_Portal := (rm_Portal rm)\<lparr>pt_Meta := (pt_Meta (rm_Portal rm))\<lparr>pmd_TopicID := ge_TopicID G\<rparr>\<rparr>\<rparr>,
                info\<lparr>chi_Topic := Some topic\<rparr>, True)))"

record CreatedGroup =
  cg_PortalKey :: PortalKey
  cg_Room :: Room
  cg_Info :: ChatInfo
  cg_Failed :: "string \<Rightarrow> FailedParticipant option"

text \<open>After the group exists: the portal, the room, the photo and the topic.\<close>

definition finish_group :: "start_env \<Rightarrow> group_env \<Rightarrow> CreateParams \<Rightarrow> CreateRequest \<Rightarrow> byte list option \<Rightarrow>
   jid \<times> GroupInfo \<times> CreatedParticipant list \<Rightarrow> (create_call, CreatedGroup) traced" where
  "finish_group S G params req avatar resp =
     (let (j, info, ps) = resp; key = makeWAPortalKey (st_L S) (st_client S) j;
          groupInfo = wrapGroupInfo (st_L S) (st_client S) (info\<lparr>gi_Participants := added_participants ps\<rparr>)
      in tbind (tlift (owrap ''failed to get portal'' (of_sum (ge_portal G key)))) (\<lambda>rm0.
         tbind (if gp_RoomID params = [] then tlift (Ok rm0)
                else tbind (twrap ''failed to update room ID after creating group''
                       (tcall (UpdateMatrixRoomID (gp_RoomID params)) (ge_update_room G)))
                     (\<lambda>_. tlift (Ok (sync_room G params req avatar rm0)))) (\<lambda>rm1.
         let (photo_calls, rm2, info2, changed_photo) = set_created_photo G params j avatar (rm1, groupInfo);
             (topic_calls, rm3, info3, changed_topic) = set_created_topic G params j (rm2, info2)
         in (photo_calls @ topic_calls @ (if changed_photo \<or> changed_topic then [SavePortal] else []),
             Ok \<lparr>cg_PortalKey = key, cg_Room = rm3, cg_Info = info3,
                 cg_Failed = failed_participants S j info ps\<rparr>))))"

text \<open>The create key is remembered before anything can fail, when the group is made for a room
  that exists already.\<close>

definition CreateGroup :: "start_env \<Rightarrow> group_env \<Rightarrow> CreateParams \<Rightarrow> string set \<Rightarrow> (create_call, CreatedGroup) traced \<times> string set" where
  "CreateGroup S G params createDedup =
     (let dedup = (if gp_RoomID params \<noteq> [] then insert (ge_CreateKey G) createDedup else createDedup)
      in (tbind (tlift (create_request S G params)) (\<lambda>req.
          tbind (tlift (created_avatar G params)) (\<lambda>avatar.
          tbind (twrap ''failed to create group'' (tcall (CreateGroupCall req) (ge_create G req))) (\<lambda>resp.
          finish_group S G params req avatar resp))), dedup))"

section \<open>Syncing contacts with their other identity\<close>

text \<open>
  The updates of ghosts, as pairs of user ID and info. \<open>GetUserInfo\<close> queues a known ghost for a
  resync and gives nothing.
\<close>

definition alt_ghost :: "jid_lib \<Rightarrow> client \<Rightarrow> jid \<Rightarrow> jid option" where
  "alt_ghost L c j =
     (let (alt, err) = (if Server j = HiddenUserServer then GetPNForLID c j
                        else if Server j = DefaultUserServer then GetLIDForPN c j else (EmptyJID, None))
      in if err \<noteq> None \<or> jid_is_empty L alt then None else Some alt)"

definition syncAltGhostWithInfo :: "jid_lib \<Rightarrow> client \<Rightarrow> (string \<Rightarrow> gerror + string) \<Rightarrow> jid \<Rightarrow> UserInfo \<Rightarrow> (string \<times> UserInfo) list" where
  "syncAltGhostWithInfo L c ghost j info =
     (case alt_ghost L c j of
        None \<Rightarrow> []
      | Some alt \<Rightarrow> (case ghost (MakeUserID alt) of Inl _ \<Rightarrow> [] | Inr _ \<Rightarrow> [(MakeUserID alt, info)]))"

definition syncGhost :: "user_env \<Rightarrow> client \<Rightarrow> (string \<Rightarrow> gerror + string) \<Rightarrow> jid \<Rightarrow> string option \<Rightarrow> (string \<times> UserInfo) list outcome" where
  "syncGhost V c ghost j pictureID =
     (case ghost (MakeUserID j) of
        Inl _ \<Rightarrow> Ok []
      | Inr avatarID \<Rightarrow>
          if (case pictureID of None \<Rightarrow> False | Some p \<Rightarrow> p \<noteq> [] \<and> avatarID = p) then Ok []
          else (case getUserInfo V j (pictureID \<noteq> None) of
                  Panic \<Rightarrow> Panic
                | Fail _ \<Rightarrow> Ok []
                | Ok info \<Rightarrow> Ok ((MakeUserID j, info) # syncAltGhostWithInfo (ue_L V) c ghost j info)))"

definition resync_contact :: "user_env \<Rightarrow> client \<Rightarrow> (string \<Rightarrow> gerror + string) \<Rightarrow> bool \<Rightarrow> jid \<Rightarrow> (string \<times> UserInfo) list outcome" where
  "resync_contact V c ghost forceAvatarSync j =
     (case ghost (MakeUserID j) of
        Inl _ \<Rightarrow> Ok []
      | Inr avatarID \<Rightarrow>
          (case ue_contact V j of
             Inl _ \<Rightarrow> Ok []
           | Inr contact \<Rightarrow>
               obind (contactToUserInfo V j contact (forceAvatarSync \<or> avatarID = [])) (\<lambda>info.
               Ok ((MakeUserID j, info) # syncAltGhostWithInfo (ue_L V) c ghost j info))))"

text \<open>The loop over all cached contacts.\<close>

definition resyncContacts :: "user_env \<Rightarrow> client \<Rightarrow> (string \<Rightarrow> gerror + string) \<Rightarrow> bool \<Rightarrow> gerror + jid list \<Rightarrow> (string \<times> UserInfo) list outcome" where
  "resyncContacts V c ghost forceAvatarSync contacts =
     (case contacts of
        Inl _ \<Rightarrow> Ok []
      | Inr js \<Rightarrow> obind (omap (resync_contact V c ghost forceAvatarSync) js) (\<lambda>us. Ok (concat us)))"

section \<open>No chat is started with a LID\<close>

lemma startChatLIDToPN_not_lid:
  assumes "startChatLIDToPN S j = Ok j'" and "client_ok (st_client S)" and "jid_lib_ok (st_L S)"
  shows "Server j' \<noteq> HiddenUserServer"
proof (cases "Server j = HiddenUserServer")
  case True
  obtain pn e where r: "GetPNForLID (st_client S) j = (pn, e)" by (cases "GetPNForLID (st_client S) j")
  with assms(1) True have "j' = pn" and n: "\<not> jid_is_empty (st_L S) pn"
    by (auto simp: startChatLIDToPN_def split: option.splits if_splits)
  with client_ok_PN [OF assms(2) r] show ?thesis by (auto simp: jid_is_empty [OF assms(3)])
next
  case False
  with assms(1) show ?thesis by (simp add: startChatLIDToPN_def)
qed

lemma create_request_participants:
  assumes "create_request S G params = Ok req" and "client_ok (st_client S)" and "jid_lib_ok (st_L S)"
  shows "\<forall>j\<in>set (gq_Participants req). Server j \<noteq> HiddenUserServer"
proof -
  have "omap (\<lambda>p. owrap (''failed to normalize participant '' @ p) (startChatLIDToPN S (ParseUserID (st_L S) p)))
      (gp_Participants params) = Ok (gq_Participants req)"
    using assms(1) by (auto simp: create_request_def outcome_simps)
  then have "list_all2 (\<lambda>p j. startChatLIDToPN S (ParseUserID (st_L S) p) = Ok j) (gp_Participants params) (gq_Participants req)"
    by (simp add: omap_Ok_iff owrap_eq_Ok)
  then show ?thesis
    using startChatLIDToPN_not_lid [OF _ assms(2,3)] by (auto simp: list_all2_conv_all_nth set_conv_nth)
qed

text \<open>Every call that creates a group on WhatsApp.\<close>

definition created_requests :: "create_call list \<Rightarrow> CreateRequest list" where
  "created_requests = List.map_filter (\<lambda>c. case c of CreateGroupCall req \<Rightarrow> Some req | _ \<Rightarrow> None)"

lemma finish_group_quiet: "created_requests (fst (finish_group S G params req avatar resp)) = []"
proof -
  have quiet: "created_requests (fst (set_created_photo G params j avatar p)) = []"
    "created_requests (fst (set_created_topic G params j q)) = []" for j p q
    by (simp_all add: set_created_photo_def set_created_topic_def case_prod_beta created_requests_def List.map_filter_simps
      split: option.split sum.split)
  have app: "created_requests (xs @ ys) = created_requests xs @ created_requests ys" for xs ys
    by (simp add: created_requests_def List.map_filter_def)
  have lits: "created_requests [SavePortal] = []" "created_requests [UpdateMatrixRoomID r] = []" "created_requests [] = []" for r
    by (simp_all add: created_requests_def List.map_filter_simps)
  show ?thesis
    by (auto simp: finish_group_def Let_def case_prod_beta fst_tbind app lits quiet split: outcome.split)
qed

lemma CreateGroup_requests:
  "created_requests (fst (fst (CreateGroup S G params dedup))) = [] \<or>
   (\<exists>req. create_request S G params = Ok req \<and> created_requests (fst (fst (CreateGroup S G params dedup))) = [req])"
proof -
  have app: "created_requests (CreateGroupCall req # xs) = req # created_requests xs" for req xs
    by (simp add: created_requests_def List.map_filter_simps)
  have nil: "created_requests [] = []" by (simp add: created_requests_def List.map_filter_simps)
  show ?thesis
  proof (cases "create_request S G params")
    case (Ok req)
    then show ?thesis
      by (cases "created_avatar G params"; cases "ge_create G req")
        (auto simp: CreateGroup_def tbind_def twrap_def tcall_def tlift_def app nil finish_group_quiet)
  qed (simp_all add: CreateGroup_def nil)
qed

lemma ResolveIdentifier_not_lid:
  assumes "ResolveIdentifier S i = Ok (u, r)" and "client_ok (st_client S)" and "jid_lib_ok (st_L S)"
  shows "\<exists>j. Server j \<noteq> HiddenUserServer \<and> u = MakeUserID j
    \<and> ccr_PortalKey r = makeWAPortalKey (st_L S) (st_client S) j"
proof -
  obtain j j0 where "startChatLIDToPN S j0 = Ok j" "u = MakeUserID j" "r = makeCreateChatResponse S j j0"
    using assms(1) by (auto simp: ResolveIdentifier_def outcome_simps)
  with startChatLIDToPN_not_lid [OF _ assms(2,3)]
  show ?thesis by (intro exI [of _ j]) (simp add: makeCreateChatResponse_def)
qed


definition sample_start_env :: start_env where
  "sample_start_env = \<lparr>st_L = sample_jid_lib, st_client = sample_client, st_suffix = server_name, st_has_client = True,
     st_logged_in = True, st_is_on_whatsapp = (\<lambda>_. Inr [(True, \<lparr>User = ''44'', Server = DefaultUserServer, Device = 0\<rparr>)]),
     st_ghost = (\<lambda>_. Inr [])\<rparr>"


section \<open>Groups the bridge creates\<close>

text \<open>
  The event WhatsApp sends for a group that was created for a room that exists already is
  swallowed once, and the set of keys is what it was before; the event of any other group is
  still queued.
\<close>

lemma created_group_event_skipped:
  assumes "ge_CreateKey G \<notin> dedup" and "gp_RoomID params \<noteq> []"
  shows "handleWAJoinedGroup E j (ge_CreateKey G) info (snd (CreateGroup S G params dedup)) = (([], True), dedup)
    \<and> (key \<notin> dedup \<longrightarrow> key \<noteq> ge_CreateKey G \<longrightarrow>
        length (queued (fst (fst (handleWAJoinedGroup E j key info (snd (CreateGroup S G params dedup)))))) = 1)"
  using assms by (simp add: CreateGroup_def handleWAJoinedGroup_def queue_event_def)

text \<open>A group creation that fails leaves its key in the set.\<close>

lemma failed_creation_keeps_key:
  assumes "gp_RoomID params \<noteq> []"
  shows "ge_CreateKey G \<in> snd (CreateGroup S G params dedup)"
  using assms by (simp add: CreateGroup_def)

text \<open>Both identities of a contact are updated with the same info.\<close>

lemma syncAltGhostWithInfo_info: "(u, i) \<in> set (syncAltGhostWithInfo L c ghost j info) \<Longrightarrow> i = info"
  by (auto simp: syncAltGhostWithInfo_def split: option.splits sum.splits)

lemma resync_contact_same_info:
  assumes "resync_contact V c ghost force j = Ok us"
  shows "\<exists>info. \<forall>(u, i)\<in>set us. i = info"
proof (cases "us = []")
  case False
  with assms obtain info where "us = (MakeUserID j, info) # syncAltGhostWithInfo (ue_L V) c ghost j info"
    by (auto simp: resync_contact_def outcome_simps split: sum.splits)
  then show ?thesis by (auto dest: syncAltGhostWithInfo_info)
qed simp

end
