(* ===== verification/ClientOps.thy ===== *)
theory ClientOps
  imports StartChat
begin

text \<open>
  The other operations of a client in \<open>pkg/connector/client.go\<close>: push notifications, the remote
  profile, viewing a chat and presence. The whatsmeow client, key generation and the saving of a
  login are arguments.
\<close>

section \<open>Push notifications\<close>

datatype PushType = PushTypeFCM | PushTypeWeb | PushTypeAPNs | OtherPush string

datatype PushConfig =
    FCMPushConfig string
  | WebPushConfig string "byte list" "byte list"
  | APNsPushConfig string "byte list"

record PushKeys =
  pk_P256DH :: "byte list"
  pk_Auth :: "byte list"
  pk_Private :: "byte list"

record push_meta =
  um_PushKeys :: "PushKeys option"
  um_APNSEncKeys :: "(byte list \<times> byte list) option"

text \<open>The metadata of the login in memory, and as it was last saved.\<close>

record push_state =
  ps_meta :: push_meta
  ps_saved :: push_meta

definition save_login :: "gerror option \<Rightarrow> push_state \<Rightarrow> gerror option \<times> push_state" where
  "save_login err s = (err, if err = None then s\<lparr>ps_saved := ps_meta s\<rparr> else s)"

definition web_push_keys :: "PushKeys \<Rightarrow> gerror option \<Rightarrow> push_state \<Rightarrow> PushKeys outcome \<times> push_state" where
  "web_push_keys fresh save_err s =
     (case um_PushKeys (ps_meta s) of
        Some k \<Rightarrow> (Ok k, s)
      | None \<Rightarrow>
          (case save_login save_err (s\<lparr>ps_meta := (ps_meta s)\<lparr>um_PushKeys := Some fresh\<rparr>\<rparr>) of
             (Some e, s') \<Rightarrow> (Fail (Wrap ''failed to save push key'' e), s')
           | (None, s') \<Rightarrow> (Ok fresh, s')))"

definition apns_push_key :: "byte list \<times> byte list \<Rightarrow> gerror option \<Rightarrow> push_state \<Rightarrow> byte list outcome \<times> push_state" where
  "apns_push_key fresh save_err s =
     (case um_APNSEncKeys (ps_meta s) of
        Some (pub, _) \<Rightarrow> (Ok pub, s)
      | None \<Rightarrow>
          (case save_login save_err (s\<lparr>ps_meta := (ps_meta s)\<lparr>um_APNSEncKeys := Some fresh\<rparr>\<rparr>) of
             (Some e, s') \<Rightarrow> (Fail (Wrap ''failed to save push enc key'' e), s')
           | (None, s') \<Rightarrow> (Ok (fst fresh), s')))"

definition push_config ::
  "PushKeys \<Rightarrow> byte list \<times> byte list \<Rightarrow> gerror option \<Rightarrow> PushType \<Rightarrow> string \<Rightarrow> push_state \<Rightarrow> PushConfig outcome \<times> push_state" where
  "push_config fresh_web fresh_apns save_err pushType token s =
     (case pushType of
        PushTypeFCM \<Rightarrow> (Ok (FCMPushConfig token), s)
      | PushTypeWeb \<Rightarrow>
          (let (r, s') = web_push_keys fresh_web save_err s
           in (obind r (\<lambda>k. Ok (WebPushConfig token (pk_Auth k) (pk_P256DH k))), s'))
      | PushTypeAPNs \<Rightarrow>
          (let (r, s') = apns_push_key fresh_apns save_err s in (obind r (\<lambda>k. Ok (APNsPushConfig token k)), s'))
      | OtherPush t \<Rightarrow> (Fail (Err (''unsupported push type '' @ t)), s))"

text \<open>The configuration that is registered with the server, and the server's answer.\<close>

definition RegisterPushNotifications ::
  "bool \<Rightarrow> PushKeys \<Rightarrow> byte list \<times> byte list \<Rightarrow> gerror option \<Rightarrow> (PushConfig \<Rightarrow> gerror option) \<Rightarrow> PushType \<Rightarrow> string \<Rightarrow> push_state \<Rightarrow>
   PushConfig option \<times> unit outcome \<times> push_state" where
  "RegisterPushNotifications has_client fresh_web fresh_apns save_err register pushType token s =
     (if \<not> has_client then (None, Fail ErrNotLoggedIn, s)
      else (case push_config fresh_web fresh_apns save_err pushType token s of
              (Ok pc, s') \<Rightarrow> (Some pc, (case register pc of None \<Rightarrow> Ok () | Some e \<Rightarrow> Fail e), s')
            | (Fail e, s') \<Rightarrow> (None, Fail e, s')
            | (Panic, s') \<Rightarrow> (None, Panic, s')))"

text \<open>The answer of the query for a push name: an error, no \<open>cat\<close> element, one whose content is not
  bytes, or its bytes; \<open>send\<close> is \<open>SendNode\<close>.\<close>

definition sendPNData :: "(string \<Rightarrow> gerror + byte list option option) \<Rightarrow> (byte list \<Rightarrow> gerror option) \<Rightarrow> string \<Rightarrow> gerror option" where
  "sendPNData query send pn =
     (case query pn of
        Inl e \<Rightarrow> Some (Wrap ''failed to send pn'' e)
      | Inr None \<Rightarrow> Some (Err ''cat element not found in response'')
      | Inr (Some None) \<Rightarrow> Some (Err ''cat element content is not a byte slice'')
      | Inr (Some (Some cat)) \<Rightarrow> map_option (Wrap ''failed to broadcast cat'') (send cat))"

section \<open>The user's own profile\<close>

definition IsThisUser :: "jid \<Rightarrow> string \<Rightarrow> bool" where
  "IsThisUser own userID \<longleftrightarrow> userID = MakeUserID own"

text \<open>The device of the client, or whatsmeow's device that does nothing.\<close>

definition GetStore :: "'d \<Rightarrow> 'd option option \<Rightarrow> 'd" where
  "GetStore noop cli = (case cli of Some (Some device) \<Rightarrow> device | _ \<Rightarrow> noop)"

record own_ghost =
  og_ID :: string
  og_AvatarMXC :: string

record own_device =
  od_JID :: jid
  od_BusinessName :: string
  od_PushName :: string

record RemoteProfile =
  rp_Name :: string
  rp_Avatar :: string

text \<open>The new profile if it changed, and whether the connected state is sent again. The ghost is the
  argument or, where there is none, the existing ghost of the user.\<close>

definition syncRemoteProfile ::
  "own_device \<Rightarrow> bool \<Rightarrow> (string \<Rightarrow> gerror + own_ghost option) \<Rightarrow> own_ghost option \<Rightarrow> RemoteProfile \<Rightarrow> RemoteProfile option \<times> bool" where
  "syncRemoteProfile dev connected get_ghost ghost profile =
     (let ownID = MakeUserID (od_JID dev) in
      case (case ghost of Some g \<Rightarrow> Some g | None \<Rightarrow> (case get_ghost ownID of Inl _ \<Rightarrow> None | Inr g \<Rightarrow> g)) of
        None \<Rightarrow> (None, False)
      | Some g \<Rightarrow>
          if og_ID g \<noteq> ownID then (None, False)
          else (let name = (if od_BusinessName dev = [] then od_PushName dev else od_BusinessName dev) in
                if name = [] \<or> rp_Name profile = name \<and> rp_Avatar profile = og_AvatarMXC g then (None, False)
                else (Some \<lparr>rp_Name = name, rp_Avatar = og_AvatarMXC g\<rparr>, connected)))"

section \<open>Viewing a chat\<close>

datatype Presence = PresenceAvailable | PresenceUnavailable | NoPresence

record view_state =
  vs_resync :: resync_state
  vs_lastPresence :: Presence
  vs_portal_sync :: "string \<Rightarrow> gotime"
  vs_ghost_sync :: "string \<Rightarrow> gotime"

definition updatePresence :: "(Presence \<Rightarrow> gerror option) \<Rightarrow> Presence \<Rightarrow> view_state \<Rightarrow> gerror option \<times> view_state" where
  "updatePresence send p s =
     (case send p of None \<Rightarrow> (None, s\<lparr>vs_lastPresence := p\<rparr>) | Some e \<Rightarrow> (Some e, s))"

definition viewed_presence :: "(Presence \<Rightarrow> gerror option) \<Rightarrow> bool \<Rightarrow> view_state \<Rightarrow> view_state" where
  "viewed_presence send viewing s =
     (let presence = (if viewing then PresenceAvailable else PresenceUnavailable)
      in if vs_lastPresence s \<noteq> presence then snd (updatePresence send presence s) else s)"

text \<open>The portal with its last sync reset, queued.\<close>

definition queue_portal :: "jid_lib \<Rightarrow> gotime \<Rightarrow> string \<Rightarrow> view_state \<Rightarrow> view_state" where
  "queue_portal L now pid s =
     s\<lparr>vs_portal_sync := (vs_portal_sync s)(pid := 0), vs_resync := EnqueuePortalResync L now pid 0 True (vs_resync s)\<rparr>"

definition queue_ghost :: "jid_lib \<Rightarrow> gotime \<Rightarrow> string \<Rightarrow> view_state \<Rightarrow> view_state" where
  "queue_ghost L now gid s =
     s\<lparr>vs_ghost_sync := (vs_ghost_sync s)(gid := 0), vs_resync := EnqueueGhostResync L now gid 0 (vs_resync s)\<rparr>"

text \<open>A chat is the identifier of its portal and of the other user, empty in a group; \<open>get_ghost\<close>
  tells whether the ghost exists.\<close>

definition HandleMatrixViewingChat ::
  "jid_lib \<Rightarrow> gotime \<Rightarrow> (Presence \<Rightarrow> gerror option) \<Rightarrow> (string \<Rightarrow> gerror + bool) \<Rightarrow> (string \<times> string) option \<Rightarrow> view_state \<Rightarrow>
   unit outcome \<times> view_state" where
  "HandleMatrixViewingChat L now send get_ghost chat s =
     (let s1 = viewed_presence send (chat \<noteq> None) s in
      case chat of
        None \<Rightarrow> (Ok (), s1)
      | Some (pid, otherUser) \<Rightarrow>
          if vs_portal_sync s1 pid + 5 * 60 * second > now then (Ok (), s1)
          else (let s2 = queue_portal L now pid s1 in
                if otherUser = [] then (Ok (), s2)
                else (case get_ghost otherUser of
                        Inl e \<Rightarrow> (Fail (Wrap ''failed to get ghost for sync'' e), s2)
                      | Inr False \<Rightarrow> (Ok (), s2)
                      | Inr True \<Rightarrow> (Ok (), queue_ghost L now otherUser s2))))"

section \<open>Lemmas\<close>

lemma viewed_presence_queue: "vs_resync (viewed_presence send b s) = vs_resync s"
  "vs_portal_sync (viewed_presence send b s) = vs_portal_sync s"
  by (simp_all add: viewed_presence_def updatePresence_def Let_def split: option.split)

lemma enqueue_portal_key:
  assumes "ParsePortalID L pid = Ok j" and "\<not> recently_synced now 0"
  shows "map_of (rs_queue (EnqueuePortalResync L now pid 0 True r)) k =
    (if k = j \<and> map_of (rs_queue r) j = None then Some (PortalItem pid) else map_of (rs_queue r) k)"
  using assms by (simp add: EnqueuePortalResync_def enqueue_lookup)

lemma enqueue_ghost_known: "map_of (rs_queue r) (ParseUserID L g) \<noteq> None \<Longrightarrow> EnqueueGhostResync L now g t r = r"
  by (simp add: EnqueueGhostResync_def enqueue_def)

text \<open>Viewing a direct chat never queues the sync of the other user: the portal and the ghost have
  the same key in the queue and the portal is queued first, so the ghost is dropped, although its
  last sync is reset. The only entry that can be new is the portal's.\<close>

theorem viewing_dm_drops_ghost:
  assumes "ParsePortalID L pid = Ok j" and "ParseUserID L otherUser = j"
    and "vs_portal_sync s pid + 5 * 60 * second \<le> now" and "ResyncMinInterval \<le> now"
    and run: "HandleMatrixViewingChat L now send get_ghost (Some (pid, otherUser)) s = (r, s')"
  shows "map_of (rs_queue (vs_resync s')) k =
    (if k = j \<and> map_of (rs_queue (vs_resync s)) j = None then Some (PortalItem pid) else map_of (rs_queue (vs_resync s)) k)"
proof -
  define s1 where "s1 = viewed_presence send True s"
  define s2 where "s2 = queue_portal L now pid s1"
  have old: "\<not> recently_synced now 0" using assms(4) by (simp add: recently_synced_def)
  have q2: "map_of (rs_queue (vs_resync s2)) k =
      (if k = j \<and> map_of (rs_queue (vs_resync s)) j = None then Some (PortalItem pid) else map_of (rs_queue (vs_resync s)) k)" for k
    using enqueue_portal_key [OF assms(1) old] by (simp add: s2_def queue_portal_def s1_def viewed_presence_queue)
  have "map_of (rs_queue (vs_resync s2)) (ParseUserID L otherUser) \<noteq> None"
    unfolding assms(2) q2 by simp
  then have "vs_resync (queue_ghost L now otherUser s2) = vs_resync s2"
    by (simp add: queue_ghost_def enqueue_ghost_known)
  moreover have "s' = s2 \<or> s' = queue_ghost L now otherUser s2"
    using run assms(3) unfolding HandleMatrixViewingChat_def s2_def s1_def
    by (auto simp: Let_def viewed_presence_queue split: if_splits sum.splits bool.splits)
  ultimately have "vs_resync s' = vs_resync s2" by auto
  with q2 show ?thesis by simp
qed

definition sample_view :: view_state where
  "sample_view = \<lparr>vs_resync = \<lparr>rs_queue = [], rs_nextResync = 0\<rparr>, vs_lastPresence = NoPresence, vs_portal_sync = (\<lambda>_. 0), vs_ghost_sync = (\<lambda>_. 7)\<rparr>"

theorem viewing_dm_drops_ghost_witness:
  "\<exists>r s'. HandleMatrixViewingChat sample_jid_lib (30 * 24 * 3600 * second) (\<lambda>_. None) (\<lambda>_. Inr True)
        (Some (''123@s.whatsapp.net'', ''123'')) sample_view = (r, s')
     \<and> map_of (rs_queue (vs_resync s')) \<lparr>User = ''123'', Server = DefaultUserServer, Device = 0\<rparr> = Some (PortalItem ''123@s.whatsapp.net'')"
proof -
  define j where "j = \<lparr>User = ''123'', Server = DefaultUserServer, Device = 0\<rparr>"
  have pid: "ParsePortalID sample_jid_lib ''123@s.whatsapp.net'' = Ok j"
    unfolding j_def by code_simp
  have uid: "ParseUserID sample_jid_lib ''123'' = j"
    unfolding j_def by code_simp
  obtain r s' where run: "HandleMatrixViewingChat sample_jid_lib (30 * 24 * 3600 * second) (\<lambda>_. None) (\<lambda>_. Inr True)
      (Some (''123@s.whatsapp.net'', ''123'')) sample_view = (r, s')" by fastforce
  have "map_of (rs_queue (vs_resync s')) j = Some (PortalItem ''123@s.whatsapp.net'')"
    using viewing_dm_drops_ghost [OF pid uid _ _ run, of j]
    by (simp add: sample_view_def ResyncMinInterval_def second_def)
  with run show ?thesis unfolding j_def by blast
qed

text \<open>A push key that could not be saved stays in memory: the next registration uses it without
  saving it.\<close>

lemma unsaved_push_key_used:
  assumes "um_PushKeys (ps_meta s) = None" and "um_PushKeys (ps_saved s) = None"
    and fail: "RegisterPushNotifications True k a (Some e) register PushTypeWeb token s = (None, r, s1)"
    and retry: "RegisterPushNotifications True k' a' None (\<lambda>_. None) PushTypeWeb token s1 = (pc, r', s2)"
  shows "pc = Some (WebPushConfig token (pk_Auth k) (pk_P256DH k)) \<and> r' = Ok () \<and> um_PushKeys (ps_saved s2) = None"
proof -
  have s1: "s1 = s\<lparr>ps_meta := (ps_meta s)\<lparr>um_PushKeys := Some k\<rparr>\<rparr>"
    using fail assms(1) by (simp add: RegisterPushNotifications_def push_config_def web_push_keys_def save_login_def)
  show ?thesis
    using retry assms(2) unfolding s1
    by (auto simp: RegisterPushNotifications_def push_config_def web_push_keys_def save_login_def)
qed

text \<open>What is registered for web and APNs push is what the login keeps: if the keys in memory were
  saved before, then after any registration that reaches the server they are saved, the keys
  registered are the saved ones, and keys the login had are never replaced.\<close>

theorem push_keys_kept:
  assumes "ps_saved s = ps_meta s"
    and run: "RegisterPushNotifications has_client k a save_err register pushType token s = (Some pc, r, s')"
  shows "ps_saved s' = ps_meta s'
    \<and> (um_PushKeys (ps_meta s) \<noteq> None \<longrightarrow> um_PushKeys (ps_meta s') = um_PushKeys (ps_meta s))
    \<and> (um_APNSEncKeys (ps_meta s) \<noteq> None \<longrightarrow> um_APNSEncKeys (ps_meta s') = um_APNSEncKeys (ps_meta s))
    \<and> (case pc of
         FCMPushConfig t \<Rightarrow> t = token \<and> s' = s
       | WebPushConfig t auth pub \<Rightarrow> t = token \<and>
           map_option (\<lambda>k. (pk_Auth k, pk_P256DH k)) (um_PushKeys (ps_saved s')) = Some (auth, pub)
       | APNsPushConfig t key \<Rightarrow> t = token \<and> map_option fst (um_APNSEncKeys (ps_saved s')) = Some key)"
  using assms
  by (cases pushType)
    (auto simp: RegisterPushNotifications_def push_config_def web_push_keys_def apns_push_key_def save_login_def
      split: if_splits option.splits outcome.splits)

theorem push_keys_kept_witness:
  "\<exists>s. um_PushKeys (ps_saved (snd (snd (RegisterPushNotifications True \<lparr>pk_P256DH = [1], pk_Auth = [2], pk_Private = [3]\<rparr> ([], []) None
       (\<lambda>_. None) PushTypeWeb ''t'' s)))) \<noteq> None"
proof -
  define s :: push_state where "s = \<lparr>ps_meta = \<lparr>um_PushKeys = None, um_APNSEncKeys = None\<rparr>, ps_saved = \<lparr>um_PushKeys = None, um_APNSEncKeys = None\<rparr>\<rparr>"
  define k where "k = \<lparr>pk_P256DH = [1 :: byte], pk_Auth = [2], pk_Private = [3]\<rparr>"
  obtain r s' where run: "RegisterPushNotifications True k ([], []) None (\<lambda>_. None) PushTypeWeb ''t'' s
      = (Some (WebPushConfig ''t'' [2] [1]), r, s')"
    by (simp add: RegisterPushNotifications_def push_config_def web_push_keys_def save_login_def s_def k_def)
  have "ps_saved s = ps_meta s" by (simp add: s_def)
  from push_keys_kept [OF this run] run show ?thesis unfolding k_def by (intro exI [of _ s]) auto
qed

end
