(* ===== verification/Commands.thy ===== *)
theory Commands
  imports StartChat
begin

text \<open>
  The commands of the bridge bot, \<open>pkg/connector/commands.go\<close>: \<open>accept\<close>, \<open>sync\<close>, \<open>invite-link\<close>,
  \<open>resolve-link\<close> and \<open>join\<close>. A command is a list of effects in their order. The answers of the
  whatsmeow client are arguments; the prefixes of links are constants of whatsmeow.
\<close>

section \<open>Effects\<close>

text \<open>A reply is its text without the parts that \<open>fmt\<close> fills in, those parts, and an error.\<close>

datatype cmd_effect =
    Reply string "string list" "gerror option"
  | React
  | QueueChatResync PortalKey bool
  | JoinGroupWithInvite GroupInviteMeta
  | ResyncContacts bool
  | FetchAppState string
  | GetGroupInviteLink jid bool
  | JoinGroupWithLink string
  | FollowNewsletter jid

abbreviation say :: "string \<Rightarrow> cmd_effect" where "say t \<equiv> Reply t [] None"

text \<open>The handlers with their requirements, which the framework checks.\<close>

record command =
  cd_Name :: string
  cd_RequiresLogin :: bool
  cd_RequiresPortal :: bool

definition cmdAccept :: command where "cmdAccept = \<lparr>cd_Name = ''accept'', cd_RequiresLogin = True, cd_RequiresPortal = True\<rparr>"
definition cmdSync :: command where "cmdSync = \<lparr>cd_Name = ''sync'', cd_RequiresLogin = True, cd_RequiresPortal = False\<rparr>"
definition cmdInviteLink :: command where "cmdInviteLink = \<lparr>cd_Name = ''invite-link'', cd_RequiresLogin = True, cd_RequiresPortal = True\<rparr>"
definition cmdResolveLink :: command where "cmdResolveLink = \<lparr>cd_Name = ''resolve-link'', cd_RequiresLogin = True, cd_RequiresPortal = False\<rparr>"
definition cmdJoin :: command where "cmdJoin = \<lparr>cd_Name = ''join'', cd_RequiresLogin = True, cd_RequiresPortal = False\<rparr>"

section \<open>Accepting an invite\<close>

text \<open>\<open>part\<close> is the message with the event that is replied to, with its metadata, and \<open>login\<close> whether
  the login of the portal's receiver is there and logged in.\<close>

definition fnAccept ::
  "(string \<Rightarrow> gerror + MessageMetadata option) \<Rightarrow> (string \<Rightarrow> bool option) \<Rightarrow> (GroupInviteMeta \<Rightarrow> gerror option) \<Rightarrow>
   string \<Rightarrow> string \<Rightarrow> cmd_effect list" where
  "fnAccept part login join_invite receiver replyTo =
     (if replyTo = [] then [say ''You must reply to a group invite message when using this command.'']
      else (case part replyTo of
              Inl _ \<Rightarrow> [say ''Failed to get reply event'']
            | Inr None \<Rightarrow> [say ''Reply event not found'']
            | Inr (Some md) \<Rightarrow>
                (case md_GroupInvite md of
                   None \<Rightarrow> [say ''That doesn't look like a group invite message.'']
                 | Some meta \<Rightarrow>
                     if User (gi_Inviter meta) = User (ParseUserLoginID receiver 0) then [say ''You can't accept your own invites'']
                     else (case login receiver of
                             None \<Rightarrow> [say ''Login not found'']
                           | Some False \<Rightarrow> [say ''Not logged in'']
                           | Some True \<Rightarrow>
                               JoinGroupWithInvite meta #
                               (case join_invite meta of
                                  Some e \<Rightarrow> [Reply ''Failed to accept group invite: '' [] (Some e)]
                                | None \<Rightarrow> [say ''Successfully accepted the invite, the portal should be created momentarily''])))))"

section \<open>Syncing\<close>

datatype app_state_answer = AppStateSynced | KeyNotFound gerror | AppStateFailed gerror

fun sync_app_state :: "string \<Rightarrow> (string \<Rightarrow> app_state_answer) \<Rightarrow> string list \<Rightarrow> cmd_effect list" where
  "sync_app_state critical fetch [] = []"
| "sync_app_state critical fetch (name # names) =
     FetchAppState name #
     (case fetch name of
        KeyNotFound e \<Rightarrow> [Reply ''Key not found error syncing app state '' [name] (Some e)]
      | AppStateFailed e \<Rightarrow> Reply ''Error syncing app state '' [name] (Some e) # sync_app_state critical fetch names
      | AppStateSynced \<Rightarrow>
          (if name = critical then Reply ''Synced app state, contact sync running in background'' [name] None
           else Reply ''Synced app state'' [name] None) # sync_app_state critical fetch names)"

text \<open>\<open>portal\<close> is the key of the room's portal, if it is one.\<close>

record sync_env =
  se_L :: jid_lib
  se_client :: client
  se_lower :: "string \<Rightarrow> string"
  se_has_login :: bool
  se_joined_groups :: "gerror + jid list"
  se_patch_names :: "string list"
  se_critical :: string
  se_fetch :: "string \<Rightarrow> app_state_answer"

definition fnSync :: "sync_env \<Rightarrow> PortalKey option \<Rightarrow> string list \<Rightarrow> cmd_effect list" where
  "fnSync E portal args =
     (if \<not> se_has_login E then [say ''Login not found'']
      else (case args of
              [] \<Rightarrow> [say ''Usage: `$cmdprefix sync <group/groups/contacts/contacts-with-avatars/appstate>`'']
            | arg # _ \<Rightarrow>
                (let t = se_lower E arg in
                 if t \<in> {''group'', ''portal'', ''room''} then
                   (case portal of
                      None \<Rightarrow> [say ''`!wa sync group` can only be used in a portal room.'']
                    | Some key \<Rightarrow> [QueueChatResync key False, React])
                 else if t = ''groups'' then
                   (case se_joined_groups E of
                      Inl e \<Rightarrow> [Reply ''Failed to get joined groups: '' [] (Some e)]
                    | Inr groups \<Rightarrow>
                        map (\<lambda>j. QueueChatResync (makeWAPortalKey (se_L E) (se_client E) j) True) groups @
                        [Reply ''Queued syncs for groups'' [format_nat (length groups)] None])
                 else if t = ''contacts'' then [ResyncContacts False, React]
                 else if t = ''contacts-with-avatars'' then [ResyncContacts True, React]
                 else if t = ''appstate'' then sync_app_state (se_critical E) (se_fetch E) (se_patch_names E)
                 else [Reply ''Unknown sync target'' [arg] None])))"

section \<open>Links\<close>

text \<open>\<open>broadcast\<close> is whatsmeow's \<open>IsBroadcastList\<close>.\<close>

definition fnInviteLink ::
  "jid_lib \<Rightarrow> (string \<Rightarrow> string) \<Rightarrow> (jid \<Rightarrow> bool) \<Rightarrow> (jid \<Rightarrow> bool \<Rightarrow> gerror + string) \<Rightarrow> bool \<Rightarrow> string \<Rightarrow> string list \<Rightarrow> cmd_effect list" where
  "fnInviteLink L lower broadcast get_link has_login portalID args =
     (if \<not> has_login then [say ''Login not found'']
      else (case ParsePortalID L portalID of
              Ok portalJID \<Rightarrow>
                (let reset = (case args of [] \<Rightarrow> False | a # _ \<Rightarrow> lower a = ''--reset'')
                 in if Server portalJID = DefaultUserServer \<or> Server portalJID = HiddenUserServer
                    then [say ''Can't get invite link to private chat'']
                    else if broadcast portalJID then [say ''Can't get invite link to broadcast list'']
                    else GetGroupInviteLink portalJID reset #
                      (case get_link portalJID reset of
                         Inl e \<Rightarrow> [Reply ''Failed to get invite link: '' [] (Some e)]
                       | Inr link \<Rightarrow> [say link]))
            | Fail e \<Rightarrow> [Reply ''Failed to parse portal ID: '' [] (Some e)]
            | Panic \<Rightarrow> []))"

record link_prefixes =
  lk_invite :: string
  lk_business :: string
  lk_business_direct :: string
  lk_contact :: string
  lk_contact_direct :: string
  lk_newsletter :: string

text \<open>\<open>html.EscapeString\<close> with the mark of a quote for each line of the prefilled message.\<close>

definition quoted_lines :: "(string \<Rightarrow> string) \<Rightarrow> (string \<Rightarrow> string list) \<Rightarrow> string \<Rightarrow> string" where
  "quoted_lines escape split_nl msg = join newline (map (\<lambda>part. ''> '' @ escape part) (split_nl msg))"

text \<open>The answers: a group's name and JID; a business' push name, JID and message; a contact's push
  name and JID.\<close>

record resolve_env =
  re_escape :: "string \<Rightarrow> string"
  re_split_nl :: "string \<Rightarrow> string list"
  re_L :: jid_lib
  re_group :: "string \<Rightarrow> gerror + string \<times> jid"
  re_business :: "string \<Rightarrow> gerror + string \<times> jid \<times> string"
  re_contact :: "string \<Rightarrow> gerror + string \<times> jid"

definition fnResolveLink :: "link_prefixes \<Rightarrow> resolve_env \<Rightarrow> bool \<Rightarrow> string list \<Rightarrow> cmd_effect list" where
  "fnResolveLink K E has_login args =
     (case args of
        [] \<Rightarrow> [say ''**Usage:** `$cmdprefix resolve-link <group or message link>`'']
      | link # _ \<Rightarrow>
          if \<not> has_login then [say ''Login not found'']
          else if has_prefix link (lk_invite K) then
            (case re_group E link of
               Inl e \<Rightarrow> [Reply ''Failed to get group info: '' [] (Some e)]
             | Inr (name, j) \<Rightarrow> [Reply ''That invite link points at'' [name, jid_string (re_L E) j] None])
          else if has_prefix link (lk_business K) \<or> has_prefix link (lk_business_direct K) then
            (case re_business E link of
               Inl e \<Rightarrow> [Reply ''Failed to get business info: '' [] (Some e)]
             | Inr (name, j, msg) \<Rightarrow>
                 [Reply ''That link points at'' [name, User j,
                    if msg \<noteq> [] then '' The following prefilled message is attached:'' @ newline @ newline @ quoted_lines (re_escape E) (re_split_nl E) msg
                    else []] None])
          else if has_prefix link (lk_contact K) \<or> has_prefix link (lk_contact_direct K) then
            (case re_contact E link of
               Inl e \<Rightarrow> [Reply ''Failed to get contact info: '' [] (Some e)]
             | Inr (name, j) \<Rightarrow> [Reply ''That link points at'' (if name \<noteq> [] then [name, User j] else [User j]) None])
          else [say ''That doesn't look like a group invite link nor a business message link.''])"

definition fnJoin ::
  "link_prefixes \<Rightarrow> jid_lib \<Rightarrow> (string \<Rightarrow> gerror + jid) \<Rightarrow> (string \<Rightarrow> gerror + jid) \<Rightarrow> (jid \<Rightarrow> gerror option) \<Rightarrow> bool \<Rightarrow> string list \<Rightarrow>
   cmd_effect list" where
  "fnJoin K L join_link newsletter follow has_login args =
     (case args of
        [] \<Rightarrow> [say ''**Usage:** `$cmdprefix join <invite link>`'']
      | link # _ \<Rightarrow>
          if \<not> has_login then [say ''Login not found'']
          else if has_prefix link (lk_invite K) then
            JoinGroupWithLink link #
            (case join_link link of
               Inl e \<Rightarrow> [Reply ''Failed to join group: '' [] (Some e)]
             | Inr j \<Rightarrow> [Reply ''Successfully joined group, the portal should be created momentarily'' [jid_string L j] None])
          else if has_prefix link (lk_newsletter K) then
            (case newsletter link of
               Inl e \<Rightarrow> [Reply ''Failed to get channel info: '' [] (Some e)]
             | Inr j \<Rightarrow>
                 FollowNewsletter j #
                 (case follow j of
                    Some e \<Rightarrow> [Reply ''Failed to follow channel: '' [] (Some e)]
                  | None \<Rightarrow> [Reply ''Successfully followed channel, the portal should be created momentarily'' [jid_string L j] None]))
          else [say ''That doesn't look like a WhatsApp invite link''])"

section \<open>Every command answers\<close>

text \<open>The effects on the account, and those on the room.\<close>

fun acts :: "cmd_effect \<Rightarrow> bool" where
  "acts (Reply _ _ _) = False"
| "acts React = False"
| "acts (GetGroupInviteLink _ reset) = reset"
| "acts _ = True"

definition answered :: "cmd_effect list \<Rightarrow> bool" where
  "answered es \<longleftrightarrow> es \<noteq> [] \<and> \<not> acts (last es) \<and> (\<forall>j r. last es \<noteq> GetGroupInviteLink j r)"

lemma sync_app_state_answers: "names \<noteq> [] \<Longrightarrow> answered (sync_app_state c f names)"
proof (induction c f names rule: sync_app_state.induct)
  case (2 c f name names)
  then show ?case
    by (cases "names = []") (auto simp: answered_def split: app_state_answer.split)
qed simp

text \<open>Accepting an invite joins a group at most once, and exactly when the message replied to has an
  invite of someone else and the login of the chat is logged in; it joins with the invite that
  was stored with the message.\<close>

theorem accept_joins_stored_invite:
  "[m. JoinGroupWithInvite m \<leftarrow> fnAccept part login join_invite receiver replyTo] =
     (case (if replyTo = [] then Inr None else part replyTo) of
        Inr (Some md) \<Rightarrow>
          (case md_GroupInvite md of
             Some meta \<Rightarrow> if User (gi_Inviter meta) \<noteq> User (ParseUserLoginID receiver 0) \<and> login receiver = Some True then [meta] else []
           | None \<Rightarrow> [])
      | _ \<Rightarrow> [])
   \<and> answered (fnAccept part login join_invite receiver replyTo)"
  unfolding fnAccept_def
  by (auto simp: answered_def split: sum.splits option.splits bool.splits if_splits)

text \<open>Every sync answers the user, and asks for exactly what its target names: a portal once, every
  joined group once with the creation of missing portals, the contacts, or the app states up to the
  first whose key is missing.\<close>

theorem sync_requests:
  assumes "se_has_login E" and "se_patch_names E \<noteq> []"
  shows "answered (fnSync E portal args)
    \<and> (se_lower E arg = ''groups'' \<and> se_joined_groups E = Inr groups \<longrightarrow>
        filter acts (fnSync E portal (arg # rest)) = map (\<lambda>j. QueueChatResync (makeWAPortalKey (se_L E) (se_client E) j) True) groups)
    \<and> (se_lower E arg \<in> {''group'', ''portal'', ''room''} \<longrightarrow>
        filter acts (fnSync E portal (arg # rest)) = (case portal of None \<Rightarrow> [] | Some key \<Rightarrow> [QueueChatResync key False]))
    \<and> (se_lower E arg = ''appstate'' \<longrightarrow>
        filter acts (fnSync E portal (arg # rest)) =
        map FetchAppState (let ok = takeWhile (\<lambda>n. \<forall>e. se_fetch E n \<noteq> KeyNotFound e) (se_patch_names E)
          in ok @ take 1 (drop (length ok) (se_patch_names E))))"
proof -
  have states: "filter acts (sync_app_state c f names) = map FetchAppState (let ok = takeWhile (\<lambda>n. \<forall>e. f n \<noteq> KeyNotFound e) names
      in ok @ take 1 (drop (length ok) names))" for c f names
    by (induction c f names rule: sync_app_state.induct) (auto simp: Let_def split: app_state_answer.split)
  have "answered (fnSync E portal args)"
    using assms sync_app_state_answers [of "se_patch_names E"]
    by (cases args) (auto simp: fnSync_def answered_def Let_def split: option.split sum.split)
  moreover have "filter acts (map (\<lambda>j. QueueChatResync (k j) b) js) = map (\<lambda>j. QueueChatResync (k j) b) js" for k b js
    by (induction js) simp_all
  ultimately show ?thesis
    using assms by (auto simp: fnSync_def states split: option.split)
qed

definition sample_sync_env :: sync_env where
  "sample_sync_env = \<lparr>se_L = sample_jid_lib, se_client = sample_client, se_lower = (\<lambda>s. s), se_has_login = True,
     se_joined_groups = Inr [sample_group], se_patch_names = [''critical'', ''regular''], se_critical = ''critical'',
     se_fetch = (\<lambda>n. if n = ''critical'' then KeyNotFound (Err ''key'') else AppStateSynced)\<rparr>"

theorem sync_requests_witness:
  "filter acts (fnSync sample_sync_env None [''appstate'']) = [FetchAppState ''critical'']
   \<and> answered (fnSync sample_sync_env None [''contacts''])"
proof -
  have ok: "se_has_login sample_sync_env" "se_patch_names sample_sync_env \<noteq> []" by (simp_all add: sample_sync_env_def)
  show ?thesis
    using sync_requests [OF ok, of None "[''contacts'']" "''appstate''" "[]" "[]"] by (simp add: sample_sync_env_def)
qed

end
