(* ===== verification/WaText.thy ===== *)
theory WaText
  imports Polls
begin

text \<open>
  WhatsApp's text formatting, \<open>pkg/msgconv/wa-text.go\<close>: code blocks, lists, quotes and the
  inline styles, converted to HTML. What is written to the output is a list of tokens that
  \<open>render\<close> turns into the text. The regular expressions are written as matchers; they work on
  bytes, which gives the same matches on UTF-8 text, since no class contains part of a longer
  character. The previews of the links in a message are not part of the model.
\<close>

section \<open>Characters\<close>

definition lower_range :: "nat \<Rightarrow> nat \<Rightarrow> char \<Rightarrow> bool" where
  "lower_range a b ch \<longleftrightarrow> (let n = (of_char ch :: nat) in a \<le> n \<and> n \<le> b)"

definition is_alnum :: "char \<Rightarrow> bool" where
  "is_alnum ch \<longleftrightarrow> lower_range 97 122 ch \<or> lower_range 65 90 ch \<or> lower_range 48 57 ch"

text \<open>The class \<open>\s\<close> of Go's regular expressions.\<close>

definition regex_space :: "char list" where
  "regex_space = map char_of [9 :: nat, 10, 12, 13, 32]"

definition newline_char :: char where "newline_char = char_of (10 :: nat)"

text \<open>
  \<open>strings.TrimSpace\<close> leaves nothing: the text is a sequence of the UTF-8 encodings of the
  characters Unicode calls spaces. The states of the automaton are the bytes read of a longer
  character.
\<close>

datatype space_state = SpStart | SpC2 | SpE1 | SpE19A | SpE2 | SpE280 | SpE281 | SpE3 | SpE380

definition space_step :: "char \<Rightarrow> space_state option \<Rightarrow> space_state option" where
  "space_step ch st =
     (let n = (of_char ch :: nat) in
      case st of
        None \<Rightarrow> None
      | Some SpStart \<Rightarrow>
          if (9 \<le> n \<and> n \<le> 13) \<or> n = 32 then Some SpStart
          else if n = 0xC2 then Some SpC2 else if n = 0xE1 then Some SpE1
          else if n = 0xE2 then Some SpE2 else if n = 0xE3 then Some SpE3 else None
      | Some SpC2 \<Rightarrow> if n = 0x85 \<or> n = 0xA0 then Some SpStart else None
      | Some SpE1 \<Rightarrow> if n = 0x9A then Some SpE19A else None
      | Some SpE19A \<Rightarrow> if n = 0x80 then Some SpStart else None
      | Some SpE2 \<Rightarrow> if n = 0x80 then Some SpE280 else if n = 0x81 then Some SpE281 else None
      | Some SpE280 \<Rightarrow> if (0x80 \<le> n \<and> n \<le> 0x8A) \<or> n = 0xA8 \<or> n = 0xA9 \<or> n = 0xAF then Some SpStart else None
      | Some SpE281 \<Rightarrow> if n = 0x9F then Some SpStart else None
      | Some SpE3 \<Rightarrow> if n = 0x80 then Some SpE380 else None
      | Some SpE380 \<Rightarrow> if n = 0x80 then Some SpStart else None)"

definition blank :: "string \<Rightarrow> bool" where
  "blank s \<longleftrightarrow> fold space_step s (Some SpStart) = Some SpStart"

text \<open>\<open>html.EscapeString\<close>.\<close>

definition escape_char :: "char \<Rightarrow> string" where
  "escape_char ch =
     (if ch = CHR ''&'' then ''&amp;''
      else if ch = char_of (39 :: nat) then ''&#39;''
      else if ch = CHR ''<'' then ''&lt;''
      else if ch = CHR ''>'' then ''&gt;''
      else if ch = char_of (34 :: nat) then ''&#34;''
      else [ch])"

definition escape :: "string \<Rightarrow> string" where
  "escape s = concat (map escape_char s)"

section \<open>Inline styles\<close>

datatype style = Italic | Bold | Strike | InlineCode

definition backtick :: char where "backtick = char_of (96 :: nat)"

fun style_delim :: "style \<Rightarrow> char" where
  "style_delim Italic = CHR ''_''"
| "style_delim Bold = CHR ''*''"
| "style_delim Strike = CHR ''~''"
| "style_delim InlineCode = backtick"

fun style_before :: "style \<Rightarrow> char list" where
  "style_before Italic = regex_space @ ''>~*''"
| "style_before Bold = regex_space @ ''>_~''"
| "style_before Strike = regex_space @ ''>_*''"
| "style_before InlineCode = regex_space @ ''>_*~''"

fun style_tag :: "style \<Rightarrow> string" where
  "style_tag Italic = ''em''"
| "style_tag Bold = ''strong''"
| "style_tag Strike = ''del''"
| "style_tag InlineCode = ''code''"

text \<open>The shortest content up to a delimiter that no letter or digit follows; it has a character
  and no line break. The second part is what comes after the delimiter.\<close>

fun style_body :: "char \<Rightarrow> string \<Rightarrow> string \<Rightarrow> (string \<times> string) option" where
  "style_body delim body [] = None"
| "style_body delim body (x # xs) =
     (if body \<noteq> [] \<and> x = delim \<and> (xs = [] \<or> \<not> is_alnum (hd xs)) then Some (body, xs)
      else if x = newline_char then None
      else style_body delim (body @ [x]) xs)"

text \<open>A match at the beginning of \<open>s\<close>: the character before it (none at the start of the text),
  the content, and the rest.\<close>

definition style_match :: "style \<Rightarrow> bool \<Rightarrow> string \<Rightarrow> (string \<times> string \<times> string) option" where
  "style_match t at_start s =
     (case s of
        b # d # rest \<Rightarrow>
          if b \<in> set (style_before t) \<and> d = style_delim t
          then map_option (\<lambda>(body, after). ([b], body, after)) (style_body (style_delim t) [] rest)
          else if at_start \<and> b = style_delim t
          then map_option (\<lambda>(body, after). ([], body, after)) (style_body (style_delim t) [] (d # rest))
          else None
      | _ \<Rightarrow> None)"

lemma style_body_length: "style_body delim body s = Some (b, after) \<Longrightarrow> length after < length s"
  by (induction delim body s rule: style_body.induct) (auto split: if_splits)

lemma style_match_length: "style_match t st s = Some (a, b, after) \<Longrightarrow> length after < length s"
  by (auto simp: style_match_def dest!: style_body_length split: list.splits if_splits)

text \<open>\<open>ReplaceAllString\<close>: the character after the closing delimiter belongs to the match, so it
  cannot be the one before the next.\<close>

function replace_style :: "style \<Rightarrow> bool \<Rightarrow> string \<Rightarrow> string" where
  "replace_style t at_start s =
     (case style_match t at_start s of
        Some (before, body, after) \<Rightarrow>
          before @ ''<'' @ style_tag t @ ''>'' @ body @ ''</'' @ style_tag t @ ''>'' @ take 1 after @
          replace_style t False (drop 1 after)
      | None \<Rightarrow> (case s of [] \<Rightarrow> [] | x # xs \<Rightarrow> x # replace_style t False xs))"
  by pat_completeness auto
termination
  by (relation "measure (\<lambda>(t, st, s). length s)") (auto dest!: style_match_length)

declare replace_style.simps [simp del]

text \<open>Inline links, \<open>[text](url)\<close>.\<close>

fun link_url :: "string \<Rightarrow> string \<Rightarrow> (string \<times> string) option" where
  "link_url url [] = None"
| "link_url url (x # xs) =
     (if url \<noteq> [] \<and> x = CHR '')'' then Some (url, xs)
      else if x = newline_char then None else link_url (url @ [x]) xs)"

definition link_end :: "string \<Rightarrow> char \<Rightarrow> string \<Rightarrow> (string \<times> string) option" where
  "link_end tx x xs = (if tx \<noteq> [] \<and> x = CHR '']'' \<and> xs \<noteq> [] \<and> hd xs = CHR ''('' then link_url [] (tl xs) else None)"

fun link_match :: "string \<Rightarrow> string \<Rightarrow> (string \<times> string \<times> string) option" where
  "link_match tx [] = None"
| "link_match tx (x # xs) =
     (case link_end tx x xs of
        Some (url, rest) \<Rightarrow> Some (tx, url, rest)
      | None \<Rightarrow> if x = newline_char then None else link_match (tx @ [x]) xs)"

lemma link_url_length: "link_url url s = Some (u, rest) \<Longrightarrow> length rest < length s"
  by (induction url s rule: link_url.induct) (auto split: if_splits)

lemma link_end_length: "link_end tx x xs = Some (u, rest) \<Longrightarrow> length rest < length xs"
  by (auto simp: link_end_def dest!: link_url_length split: if_splits)

lemma link_match_length: "link_match tx s = Some (t, u, rest) \<Longrightarrow> length rest < length s"
  by (induction tx s rule: link_match.induct) (auto dest!: link_end_length split: option.splits if_splits)

function replace_links :: "string \<Rightarrow> string" where
  "replace_links s =
     (case s of
        [] \<Rightarrow> []
      | x # xs \<Rightarrow>
          (case (if x = CHR ''['' then link_match [] xs else None) of
             Some (txt, url, rest) \<Rightarrow>
               ''<a href='' @ [char_of (34 :: nat)] @ url @ [char_of (34 :: nat)] @ ''>'' @ txt @ ''</a>'' @ replace_links rest
           | None \<Rightarrow> x # replace_links xs))"
  by pat_completeness auto
termination
  by (relation "measure length") (auto dest!: link_match_length split: if_splits)

declare replace_links.simps [simp del]

text \<open>The styles are kept in a Go map: \<open>order\<close> is the order it is iterated in.\<close>

definition parseWASubFormattingLineToHTML :: "style list \<Rightarrow> bool \<Rightarrow> string \<Rightarrow> string" where
  "parseWASubFormattingLineToHTML order allowInlineURL txt =
     (let styled = fold (\<lambda>t s. replace_style t True s) order (escape txt)
      in if allowInlineURL then replace_links styled else styled)"

section \<open>Lines\<close>

datatype html_token =
    TText string
  | TBr
  | TOpenUl
  | TCloseUl
  | TOpenOl "string option"
  | TCloseOl
  | TLi "string option" string
  | TQuote string
  | TPre string
  | TCode string

definition quoted :: "string \<Rightarrow> string" where
  "quoted s = [char_of (34 :: nat)] @ s @ [char_of (34 :: nat)]"

fun render_token :: "html_token \<Rightarrow> string" where
  "render_token (TText s) = s"
| "render_token TBr = ''<br>''"
| "render_token TOpenUl = ''<ul>''"
| "render_token TCloseUl = ''</ul>''"
| "render_token (TOpenOl None) = ''<ol>''"
| "render_token (TOpenOl (Some n)) = ''<ol start='' @ quoted n @ ''>''"
| "render_token TCloseOl = ''</ol>''"
| "render_token (TLi None s) = ''<li>'' @ s @ ''</li>''"
| "render_token (TLi (Some n) s) = ''<li value='' @ quoted n @ ''>'' @ s @ ''</li>''"
| "render_token (TQuote s) = ''<blockquote>'' @ s @ ''</blockquote>''"
| "render_token (TPre s) = ''<pre><code>'' @ s @ ''</code></pre>''"
| "render_token (TCode s) = ''<code>'' @ s @ ''</code>''"

definition render :: "html_token list \<Rightarrow> string" where
  "render ts = concat (map render_token ts)"

fun split_lines :: "string \<Rightarrow> string list" where
  "split_lines [] = [[]]"
| "split_lines (x # xs) =
     (if x = newline_char then [] # split_lines xs
      else (case split_lines xs of l # ls \<Rightarrow> (x # l) # ls | [] \<Rightarrow> [[x]]))"

definition is_bullet :: "string \<Rightarrow> bool" where
  "is_bullet line \<longleftrightarrow> has_prefix line ''* '' \<or> has_prefix line ''- ''"

text \<open>One or two digits, a dot and a space: the digits and the rest of the line.\<close>

fun ordered_item :: "string \<Rightarrow> (string \<times> string) option" where
  "ordered_item (a # b # c # rest) =
     (if is_digit a \<and> is_digit b \<and> c = CHR ''.'' \<and> rest \<noteq> [] \<and> hd rest = CHR '' '' then Some ([a, b], tl rest)
      else if is_digit a \<and> b = CHR ''.'' \<and> c = CHR '' '' then Some ([a], rest)
      else None)"
| "ordered_item _ = None"

record line_state =
  ls_ordered :: int
  ls_bulleted :: bool
  ls_quote :: bool

definition start_lines :: line_state where
  "start_lines = \<lparr>ls_ordered = -1, ls_bulleted = False, ls_quote = False\<rparr>"

text \<open>What closes the list a line ends, if there is one.\<close>

definition close_ordered :: "line_state \<Rightarrow> html_token list" where
  "close_ordered st = (if ls_ordered st \<ge> 0 then [TCloseOl] else [])"

definition close_list :: "line_state \<Rightarrow> html_token list" where
  "close_list st = (if ls_ordered st \<ge> 0 then [TCloseOl] else if ls_bulleted st then [TCloseUl] else [])"

text \<open>The state behind the line that is not part of a list: only the list it closed is reset.\<close>

definition closed :: "line_state \<Rightarrow> line_state" where
  "closed st = (if ls_ordered st \<ge> 0 then st\<lparr>ls_ordered := -1\<rparr> else st\<lparr>ls_bulleted := False\<rparr>)"

definition bullet_line :: "(string \<Rightarrow> string) \<Rightarrow> string \<Rightarrow> line_state \<Rightarrow> html_token list \<times> line_state" where
  "bullet_line fmt line st =
     (close_ordered st @ (if ls_bulleted st then [] else [TOpenUl]) @ [TLi None (fmt (drop 2 line))],
      st\<lparr>ls_ordered := -1, ls_bulleted := True, ls_quote := False\<rparr>)"

definition ordered_line :: "(string \<Rightarrow> string) \<Rightarrow> string \<Rightarrow> string \<Rightarrow> line_state \<Rightarrow> html_token list \<times> line_state" where
  "ordered_line fmt digits rest st =
     (let newIndex = int (decimal_value digits);
          opened = (if ls_ordered st < 0 then [TOpenOl (if newIndex \<noteq> 1 then Some digits else None)] else []);
          idx = (if ls_ordered st < 0 then newIndex - 1 else ls_ordered st)
      in ((if ls_bulleted st then [TCloseUl] else []) @ opened @
          [TLi (if idx + 1 \<noteq> newIndex then Some digits else None) (fmt rest)],
          st\<lparr>ls_ordered := newIndex, ls_bulleted := False, ls_quote := False\<rparr>))"

definition other_line :: "(string \<Rightarrow> string) \<Rightarrow> string \<Rightarrow> line_state \<Rightarrow> html_token list \<times> line_state" where
  "other_line fmt line st =
     (let quote = has_prefix line ''> ''
      in (close_list st @ [if quote then TQuote (fmt (drop 2 line)) else TText (fmt line)],
          (closed st)\<lparr>ls_quote := quote\<rparr>))"

definition line_tokens :: "(string \<Rightarrow> string) \<Rightarrow> bool \<Rightarrow> string \<Rightarrow> line_state \<Rightarrow> html_token list \<times> line_state" where
  "line_tokens fmt first line st =
     (let br = (if \<not> first \<and> ls_ordered st < 0 \<and> \<not> ls_bulleted st \<and> \<not> ls_quote st then [TBr] else []);
          (ts, st') = (if is_bullet line then bullet_line fmt line st
                       else (case ordered_item line of
                               Some (digits, rest) \<Rightarrow> ordered_line fmt digits rest st
                             | None \<Rightarrow> other_line fmt line st))
      in (br @ ts, st'))"

fun lines_tokens :: "(string \<Rightarrow> string) \<Rightarrow> bool \<Rightarrow> string list \<Rightarrow> line_state \<Rightarrow> html_token list" where
  "lines_tokens fmt first [] st = close_list st"
| "lines_tokens fmt first (l # ls) st =
     (let (ts, st') = line_tokens fmt first l st in ts @ lines_tokens fmt False ls st')"

definition parseWASubFormattingToHTML :: "style list \<Rightarrow> bool \<Rightarrow> string \<Rightarrow> html_token list" where
  "parseWASubFormattingToHTML order allowInlineURL txt =
     lines_tokens (parseWASubFormattingLineToHTML order allowInlineURL) True (split_lines txt) start_lines"

section \<open>Code blocks\<close>

datatype segment = Plain string | Code string

definition fence :: string where "fence = [backtick, backtick, backtick]"

text \<open>The end of the block that starts at the first fence of \<open>s\<close>: the position of that fence and
  the length of the content. A blank content is extended to the next fence.\<close>

definition code_block :: "string \<Rightarrow> (nat \<times> nat) option" where
  "code_block s =
     (case str_index s fence of
        None \<Rightarrow> None
      | Some i \<Rightarrow>
          (case str_index (drop (i + 3) s) fence of
             None \<Rightarrow> None
           | Some n \<Rightarrow>
               if blank (take n (drop (i + 3) s))
               then (case str_index (drop (i + 3 + n + 3) s) fence of
                       None \<Rightarrow> None
                     | Some k \<Rightarrow> Some (i, n + 3 + k))
               else Some (i, n)))"

lemma str_index_Some:
  "str_index s t = Some i \<Longrightarrow> s = take i s @ t @ drop (i + length t) s \<and> i + length t \<le> length s"
proof (induction s t arbitrary: i rule: str_index.induct)
  case (2 c s t)
  show ?case
  proof (cases "has_prefix (c # s) t")
    case True
    with "2.prems" have "i = 0" by simp
    moreover have "t = take (length t) (c # s)" using True by (simp add: has_prefix_def)
    moreover from this have "length t \<le> length (c # s)" by (metis length_take min.cobounded1)
    ultimately show ?thesis by (metis append_take_drop_id append_Nil take_0 add_0)
  next
    case False
    with "2.prems" obtain k where "i = Suc k" "str_index s t = Some k" by auto
    with "2.IH" [OF False] show ?thesis by auto
  qed
qed (auto split: if_splits)

lemma fence_length [simp]: "length fence = 3"
  by (simp add: fence_def)

lemma code_block_Some:
  assumes "code_block s = Some (i, n)"
  shows "s = take i s @ fence @ take n (drop (i + 3) s) @ fence @ drop (i + 3 + n + 3) s \<and> i + 3 + n + 3 \<le> length s"
proof -
  obtain i' m where i': "str_index s fence = Some i'" and m: "str_index (drop (i' + 3) s) fence = Some m"
    using assms by (auto simp: code_block_def split: option.splits)
  let ?d = "drop (i' + 3) s"
  note s = str_index_Some [OF i'] and d = str_index_Some [OF m]
  have "i = i' \<and> ?d = take n ?d @ fence @ drop (n + 3) ?d \<and> n + 3 \<le> length ?d"
  proof (cases "blank (take m ?d)")
    case True
    then obtain k where k: "str_index (drop (i' + 3 + m + 3) s) fence = Some k" and n: "i = i'" "n = m + 3 + k"
      using assms by (auto simp: code_block_def i' m split: option.splits)
    have r: "drop (i' + 3 + m + 3) s = drop (m + 3) ?d" by (simp add: add.commute add.left_commute)
    note e = str_index_Some [OF k, unfolded r]
    have "drop (m + 3) ?d = take k (drop (m + 3) ?d) @ fence @ drop (k + 3) (drop (m + 3) ?d)" using e by simp
    moreover have "take (m + 3 + k) ?d = take (m + 3) ?d @ take k (drop (m + 3) ?d)" by (simp add: take_add)
    moreover have "drop (m + 3 + k + 3) ?d = drop (k + 3) (drop (m + 3) ?d)" by (simp add: add.commute add.left_commute)
    ultimately have "?d = take (m + 3 + k) ?d @ fence @ drop (m + 3 + k + 3) ?d"
      by (metis append.assoc append_take_drop_id)
    moreover have "m + 3 + k + 3 \<le> length ?d"
    proof -
      have "k + 3 \<le> length ?d - (m + 3)" using conjunct2 [OF e] by (simp only: length_drop fence_length)
      then show ?thesis by linarith
    qed
    ultimately show ?thesis using n by simp
  next
    case False
    then have "i = i'" "n = m" using assms by (simp_all add: code_block_def i' m)
    with d show ?thesis by simp
  qed
  then have i: "i = i'" and dd: "drop (i + 3) s = take n (drop (i + 3) s) @ fence @ drop (n + 3) (drop (i + 3) s)"
    and len: "n + 3 \<le> length (drop (i + 3) s)" by auto
  have "drop (n + 3) (drop (i + 3) s) = drop (i + 3 + n + 3) s" by (simp add: add.commute add.left_commute)
  with dd s i have "s = take i s @ fence @ take n (drop (i + 3) s) @ fence @ drop (i + 3 + n + 3) s"
    by (metis fence_length)
  moreover have "i + 3 + n + 3 \<le> length s" using len s i by simp
  ultimately show ?thesis by blast
qed

function segments :: "string \<Rightarrow> segment list" where
  "segments s =
     (case code_block s of
        None \<Rightarrow> if s = [] then [] else [Plain s]
      | Some (i, n) \<Rightarrow>
          (if i = 0 then [] else [Plain (take i s)]) @ [Code (take n (drop (i + 3) s))] @ segments (drop (i + 3 + n + 3) s))"
  by pat_completeness auto
termination
  by (relation "measure length") (auto dest: code_block_Some)

declare segments.simps [simp del]

definition segment_tokens :: "style list \<Rightarrow> bool \<Rightarrow> segment \<Rightarrow> html_token list" where
  "segment_tokens order allowInlineURL g =
     (case g of
        Plain txt \<Rightarrow> parseWASubFormattingToHTML order allowInlineURL txt
      | Code content \<Rightarrow> if newline_char \<in> set content then [TPre (escape content)] else [TCode (escape content)])"

definition html_tokens :: "style list \<Rightarrow> bool \<Rightarrow> string \<Rightarrow> html_token list" where
  "html_tokens order allowInlineURL txt = concat (map (segment_tokens order allowInlineURL) (segments txt))"

definition parseWAFormattingToHTML :: "style list \<Rightarrow> bool \<Rightarrow> string \<Rightarrow> string" where
  "parseWAFormattingToHTML order allowInlineURL txt = render (html_tokens order allowInlineURL txt)"

text \<open>\<open>text_to_html\<close> is mautrix's \<open>TextToHTML\<close>.\<close>

definition parseFormatting :: "style list \<Rightarrow> (string \<Rightarrow> string) \<Rightarrow> bool \<Rightarrow> bool \<Rightarrow> MessageEventContent \<Rightarrow> MessageEventContent" where
  "parseFormatting order text_to_html allowInlineURL forceHTML c =
     (let parsedHTML = parseWAFormattingToHTML order allowInlineURL (ct_Body c) in
      if forceHTML \<or> parsedHTML \<noteq> text_to_html (ct_Body c)
      then c\<lparr>ct_FormattedBody := parsedHTML, ct_HTML := True\<rparr> else c)"

text \<open>A text message: its plain conversation, its extended text with a context, or both.\<close>

definition convertTextMessage ::
  "style list \<Rightarrow> (string \<Rightarrow> string) \<Rightarrow> string \<Rightarrow> (string \<times> ContextInfo option) option \<Rightarrow> ConvertedPart \<times> ContextInfo option" where
  "convertTextMessage order text_to_html conversation extended =
     (let body = (case extended of Some (txt, _) \<Rightarrow> if txt \<noteq> [] then txt else conversation | None \<Rightarrow> conversation);
          ci = (case extended of Some (_, ci) \<Rightarrow> ci | None \<Rightarrow> None)
      in (plain_part EventMessage
            (parseFormatting order text_to_html False False (empty_content\<lparr>ct_MsgType := MsgText, ct_Body := body\<rparr>)), ci))"

section \<open>Code blocks cover the text\<close>

fun source_of :: "segment \<Rightarrow> string" where
  "source_of (Plain s) = s"
| "source_of (Code s) = fence @ s @ fence"

lemma space_step_backtick: "space_step backtick st = None"
  by (auto simp: space_step_def backtick_def split: option.split space_state.split)

lemma fold_space_None: "fold space_step s None = None"
  by (induction s) (simp_all add: space_step_def)

lemma blank_no_backtick: "backtick \<in> set s \<Longrightarrow> \<not> blank s"
proof -
  assume "backtick \<in> set s"
  then obtain a b where "s = a @ backtick # b" by (meson split_list)
  then show "\<not> blank s" by (simp add: blank_def space_step_backtick fold_space_None)
qed

lemma code_block_not_blank:
  assumes "code_block s = Some (i, n)"
  shows "\<not> blank (take n (drop (i + 3) s))"
proof -
  obtain i' m where i': "str_index s fence = Some i'" and m: "str_index (drop (i' + 3) s) fence = Some m"
    using assms by (auto simp: code_block_def split: option.splits)
  let ?d = "drop (i' + 3) s"
  show ?thesis
  proof (cases "blank (take m ?d)")
    case True
    then obtain k where n: "i = i'" "n = m + 3 + k"
      using assms by (auto simp: code_block_def i' m split: option.splits)
    define d where "d = ?d"
    have d: "d = take m d @ fence @ drop (m + 3) d" and len: "m + 3 \<le> length d"
      using str_index_Some [OF m] unfolding d_def by simp_all
    have "d ! m = backtick"
      by (subst d) (use len in \<open>simp add: nth_append fence_def\<close>)
    moreover have "take n d ! m = d ! m" and "m < length (take n d)" using n len by simp_all
    ultimately have "backtick \<in> set (take n d)" by (metis nth_mem)
    then have "backtick \<in> set (take n (drop (i + 3) s))" unfolding d_def n(1) .
    then show ?thesis by (rule blank_no_backtick)
  next
    case False
    then show ?thesis using assms by (simp add: code_block_def i' m)
  qed
qed

fun good_segment :: "segment \<Rightarrow> bool" where
  "good_segment (Plain s) = (s \<noteq> [])"
| "good_segment (Code s) = (\<not> blank s)"

text \<open>Splitting a message into text and code blocks loses and adds nothing, for any text: put
  together again, with the fences around the code, the pieces are the message; and no piece of
  text is empty and no code block blank.\<close>

theorem segments_cover_text:
  "concat (map source_of (segments s)) = s \<and> list_all good_segment (segments s)"
proof (induction s rule: segments.induct)
  case (1 s)
  show ?case
  proof (cases "code_block s")
    case None
    then show ?thesis by (simp add: segments.simps [of s])
  next
    case (Some p)
    obtain i n where p: "p = (i, n)" by (cases p)
    have cb: "code_block s = Some (i, n)" using Some p by simp
    note c = code_block_Some [OF cb] and nb = code_block_not_blank [OF cb]
    have ih: "concat (map source_of (segments (drop (i + 3 + n + 3) s))) = drop (i + 3 + n + 3) s"
      "list_all good_segment (segments (drop (i + 3 + n + 3) s))"
      using "1.IH" [OF cb refl] by simp_all
    define r where "r = drop (i + 3 + n + 3) s"
    have head: "segments s = (if i = 0 then [] else [Plain (take i s)]) @ [Code (take n (drop (i + 3) s))] @ segments r"
      by (subst segments.simps) (simp add: cb r_def)
    have "concat (map source_of (segments s)) = take i s @ fence @ take n (drop (i + 3) s) @ fence @ r"
      using ih(1) [folded r_def] unfolding head by simp
    moreover have "\<dots> = s" using c [folded r_def] by simp
    moreover have "list_all good_segment (segments s)"
      using ih(2) [folded r_def] nb c unfolding head by auto
    ultimately show ?thesis by simp
  qed
qed

section \<open>Lists\<close>

text \<open>
  What a browser makes of the tokens: list items must be inside a list and nothing else may be,
  and every list is closed. The state is the open list, or none.
\<close>

datatype open_list = NoList | UlOpen | OlOpen

fun nest :: "html_token \<Rightarrow> open_list option \<Rightarrow> open_list option" where
  "nest TOpenUl (Some NoList) = Some UlOpen"
| "nest (TOpenOl _) (Some NoList) = Some OlOpen"
| "nest TCloseUl (Some UlOpen) = Some NoList"
| "nest TCloseOl (Some OlOpen) = Some NoList"
| "nest (TLi None _) (Some UlOpen) = Some UlOpen"
| "nest (TLi _ _) (Some OlOpen) = Some OlOpen"
| "nest TBr (Some NoList) = Some NoList"
| "nest (TText _) (Some NoList) = Some NoList"
| "nest (TQuote _) (Some NoList) = Some NoList"
| "nest (TPre _) (Some NoList) = Some NoList"
| "nest (TCode _) (Some NoList) = Some NoList"
| "nest _ _ = None"

definition well_nested :: "html_token list \<Rightarrow> bool" where
  "well_nested ts \<longleftrightarrow> fold nest ts (Some NoList) = Some NoList"

definition list_of :: "line_state \<Rightarrow> open_list" where
  "list_of st = (if ls_ordered st \<ge> 0 then OlOpen else if ls_bulleted st then UlOpen else NoList)"

definition state_ok :: "line_state \<Rightarrow> bool" where
  "state_ok st \<longleftrightarrow> -1 \<le> ls_ordered st \<and> \<not> (ls_ordered st \<ge> 0 \<and> ls_bulleted st)"

text \<open>The numbers a browser shows: a counter that an ordered list starts and an item sets.\<close>

fun shown :: "int option \<Rightarrow> html_token list \<Rightarrow> int list" where
  "shown c [] = []"
| "shown c (TOpenOl d # ts) = shown (Some (case d of None \<Rightarrow> 1 | Some n \<Rightarrow> int (decimal_value n))) ts"
| "shown c (TCloseOl # ts) = shown None ts"
| "shown c (TLi d s # ts) =
     (case c of
        None \<Rightarrow> shown None ts
      | Some n \<Rightarrow> (let k = (case d of None \<Rightarrow> n | Some v \<Rightarrow> int (decimal_value v)) in k # shown (Some (k + 1)) ts))"
| "shown c (_ # ts) = shown c ts"

text \<open>The numbers that were typed.\<close>

definition typed_numbers :: "string list \<Rightarrow> int list" where
  "typed_numbers = List.map_filter (\<lambda>line. if is_bullet line then None
     else map_option (\<lambda>(digits, _). int (decimal_value digits)) (ordered_item line))"

definition counter_of :: "line_state \<Rightarrow> int option" where
  "counter_of st = (if ls_ordered st \<ge> 0 then Some (ls_ordered st + 1) else None)"

lemma line_tokens_step:
  assumes "state_ok st" and "line_tokens fmt first l st = (ts, st')"
  shows "state_ok st' \<and> fold nest ts (Some (list_of st)) = Some (list_of st')
    \<and> (\<forall>rest. shown (counter_of st) (ts @ rest) = typed_numbers [l] @ shown (counter_of st') rest)"
  using assms
  by (cases "is_bullet l"; cases "ordered_item l"; cases "ls_ordered st < 0"; cases "ls_bulleted st")
    (auto simp: line_tokens_def Let_def bullet_line_def ordered_line_def other_line_def close_ordered_def close_list_def
      closed_def state_ok_def list_of_def counter_of_def typed_numbers_def List.map_filter_simps)

lemma lines_tokens_lists:
  assumes "state_ok st"
  shows "fold nest (lines_tokens fmt first ls st) (Some (list_of st)) = Some NoList
    \<and> shown (counter_of st) (lines_tokens fmt first ls st) = typed_numbers ls"
  using assms
proof (induction ls arbitrary: first st)
  case Nil
  then show ?case
    by (auto simp: close_list_def list_of_def counter_of_def typed_numbers_def List.map_filter_simps state_ok_def)
next
  case (Cons l ls)
  obtain ts st' where step: "line_tokens fmt first l st = (ts, st')" by (cases "line_tokens fmt first l st")
  note l = line_tokens_step [OF Cons.prems step]
  have cons: "typed_numbers (l # ls) = typed_numbers [l] @ typed_numbers ls"
    by (simp add: typed_numbers_def List.map_filter_simps split: option.split)
  show ?case using l Cons.IH [of st' False] step unfolding cons by simp
qed

text \<open>C18: The lists in a message become well-formed HTML that shows what was typed: in the output
  for any text, whatever the order the styles are applied in, list items are only inside a list
  and everything else outside, every list that is opened is closed by its own tag, and the numbers a
  browser shows for the ordered items are the numbers the user typed, in their order.\<close>

theorem lists_well_formed:
  "well_nested (parseWASubFormattingToHTML order links txt)
   \<and> shown None (parseWASubFormattingToHTML order links txt) = typed_numbers (split_lines txt)"
proof -
  have "state_ok start_lines" "list_of start_lines = NoList" "counter_of start_lines = None"
    by (simp_all add: state_ok_def start_lines_def list_of_def counter_of_def)
  with lines_tokens_lists show ?thesis by (metis parseWASubFormattingToHTML_def well_nested_def)
qed

section \<open>Nothing of the message is markup\<close>

text \<open>
  HTML in which every character that could start or end a tag or an attribute comes from a tag the
  converter wrote: \<open>markup\<close> are these tags.
\<close>

definition special :: "char list" where
  "special = map char_of [60 :: nat, 62, 34, 39]"

definition plain_markup :: "string list" where
  "plain_markup =
     [''<em>'', ''</em>'', ''<strong>'', ''</strong>'', ''<del>'', ''</del>'', ''<code>'', ''</code>'',
      ''<br>'', ''<ul>'', ''</ul>'', ''<ol>'', ''</ol>'', ''<li>'', ''</li>'',
      ''<blockquote>'', ''</blockquote>'', ''<pre><code>'', ''</code></pre>'']"

definition markup :: "string \<Rightarrow> bool" where
  "markup t \<longleftrightarrow> t \<in> set plain_markup
     \<or> (\<exists>n. list_all is_digit n \<and> (t = ''<ol start='' @ quoted n @ ''>'' \<or> t = ''<li value='' @ quoted n @ ''>''))"

inductive escaped_html :: "string \<Rightarrow> bool" where
  escaped_Nil [intro]: "escaped_html []"
| escaped_char [intro]: "escaped_html s \<Longrightarrow> x \<notin> set special \<Longrightarrow> escaped_html (x # s)"
| escaped_tag [intro]: "escaped_html s \<Longrightarrow> markup t \<Longrightarrow> escaped_html (t @ s)"

lemma escaped_append: "escaped_html a \<Longrightarrow> escaped_html b \<Longrightarrow> escaped_html (a @ b)"
  by (induction rule: escaped_html.induct) auto

lemma escaped_markup: "markup t \<Longrightarrow> escaped_html t"
  using escaped_tag [OF escaped_Nil, of t] by simp

lemma escaped_plain: "set s \<inter> set special = {} \<Longrightarrow> escaped_html s"
  by (induction s) auto

lemma escapes_plain:
  "list_all (\<lambda>ch. list_all (\<lambda>x. x \<notin> set special) (escape_char ch))
     [CHR ''&'', CHR ''<'', CHR ''>'', char_of (34 :: nat), char_of (39 :: nat)]"
  by code_simp

lemma special_chars: "special = [CHR ''<'', CHR ''>'', char_of (34 :: nat), char_of (39 :: nat)]"
  by code_simp

lemma escape_char_plain: "set (escape_char ch) \<inter> set special = {}"
proof (cases "ch \<in> set (CHR ''&'' # special)")
  case True
  then have "list_all (\<lambda>x. x \<notin> set special) (escape_char ch)"
    using escapes_plain unfolding special_chars list_all_iff [of _ "_ # _"] by fastforce
  then show ?thesis by (auto simp: list_all_iff)
next
  case False
  then have "ch \<noteq> CHR ''<''" "ch \<noteq> CHR ''>''" "ch \<noteq> char_of (34 :: nat)" "ch \<noteq> char_of (39 :: nat)" "ch \<noteq> CHR ''&''"
    unfolding special_chars by auto
  then have "escape_char ch = [ch]" unfolding escape_char_def by (simp only: if_False)
  with False show ?thesis by simp
qed

lemma escaped_escape: "escaped_html (escape s)"
  unfolding escape_def by (induction s) (simp_all add: escaped_Nil escaped_append escaped_plain escape_char_plain)

text \<open>A style pass turns some delimiters into tags and leaves every other character alone.\<close>

inductive restyled :: "char \<Rightarrow> string \<Rightarrow> string \<Rightarrow> bool" for d where
  restyled_Nil [intro]: "restyled d [] []"
| restyled_same [intro]: "restyled d s s' \<Longrightarrow> restyled d (x # s) (x # s')"
| restyled_tag [intro]: "restyled d s s' \<Longrightarrow> markup t \<Longrightarrow> restyled d (d # s) (t @ s')"

lemma restyled_Cons:
  assumes "restyled d (x # s) s'"
  obtains u where "s' = x # u" "restyled d s u"
  | t u where "x = d" "s' = t @ u" "markup t" "restyled d s u"
  using assms by (cases rule: restyled.cases) auto

lemma restyled_prefix: "restyled d s s' \<Longrightarrow> restyled d (a @ s) (a @ s')"
  by (induction a) auto

lemma restyled_markup: "d \<notin> set t \<Longrightarrow> restyled d (t @ s) u \<Longrightarrow> \<exists>s'. u = t @ s' \<and> restyled d s s'"
proof (induction t arbitrary: u)
  case (Cons x t)
  from Cons.prems(2) have "restyled d (x # (t @ s)) u" by simp
  then show ?case
  proof (cases rule: restyled_Cons)
    case (1 u')
    with Cons.IH [of u'] Cons.prems(1) show ?thesis by auto
  next
    case (2 t' u')
    with Cons.prems(1) show ?thesis by simp
  qed
qed simp

text \<open>The characters of the tags: none of them is a delimiter.\<close>

definition markup_char :: "char \<Rightarrow> bool" where
  "markup_char x \<longleftrightarrow> is_alnum x \<or> x \<in> set special \<or> x \<in> set ''/= ''"

lemma digit_markup_char: "is_digit x \<Longrightarrow> markup_char x"
  by (simp add: markup_char_def is_alnum_def lower_range_def is_digit_def)

lemma plain_markup_chars: "list_all (list_all markup_char) plain_markup"
  by code_simp

lemma numbered_chars:
  "list_all markup_char ''<ol start=''" "list_all markup_char ''<li value=''" "list_all markup_char ''>''"
  "markup_char (char_of (34 :: nat))"
  by code_simp+

lemma markup_chars: "markup t \<Longrightarrow> list_all markup_char t"
  unfolding markup_def
proof (elim disjE exE conjE)
  assume "t \<in> set plain_markup"
  then show ?thesis using plain_markup_chars by (simp add: list_all_iff)
next
  fix n
  assume n: "list_all is_digit n"
  then have digits: "list_all markup_char n" by (auto simp: list_all_iff intro: digit_markup_char)
  show "t = ''<ol start='' @ quoted n @ ''>'' \<Longrightarrow> ?thesis"
    using digits numbered_chars by (simp only: quoted_def list_all_append list.pred_inject simp_thms)
  show "t = ''<li value='' @ quoted n @ ''>'' \<Longrightarrow> ?thesis"
    using digits numbered_chars by (simp only: quoted_def list_all_append list.pred_inject simp_thms)
qed

lemma delim_not_markup_char: "\<not> markup_char (style_delim k)"
proof -
  have "list_all (\<lambda>k. \<not> markup_char (style_delim k)) [Italic, Bold, Strike, InlineCode]"
    by code_simp
  then show ?thesis by (cases k) simp_all
qed

lemma delim_not_in_markup: "markup t \<Longrightarrow> style_delim k \<notin> set t"
  using markup_chars [of t] delim_not_markup_char [of k] by (auto simp: list_all_iff)

lemma restyled_escaped:
  assumes "escaped_html s" and "restyled (style_delim k) s s'"
  shows "escaped_html s'"
  using assms
proof (induction arbitrary: s' rule: escaped_html.induct)
  case escaped_Nil
  then show ?case by (cases rule: restyled.cases) auto
next
  case (escaped_char s x)
  from escaped_char.prems show ?case
  proof (cases rule: restyled_Cons)
    case (1 u)
    with escaped_char.IH escaped_char.hyps show ?thesis by auto
  next
    case (2 t u)
    with escaped_char.IH show ?thesis by auto
  qed
next
  case (escaped_tag s t)
  from restyled_markup [OF delim_not_in_markup [OF escaped_tag.hyps(2)] escaped_tag.prems]
  obtain u where "s' = t @ u" "restyled (style_delim k) s u" by blast
  with escaped_tag.IH escaped_tag.hyps show ?case by auto
qed

lemma style_body_split: "style_body d body s = Some (b, after) \<Longrightarrow> \<exists>c. b = body @ c \<and> s = c @ d # after"
  by (induction d body s rule: style_body.induct) (auto split: if_splits)

lemma style_match_split:
  "style_match t st s = Some (a, b, after) \<Longrightarrow> s = a @ style_delim t # b @ style_delim t # after"
  by (auto simp: style_match_def dest!: style_body_split split: list.splits if_splits)

lemma style_markup: "markup (''<'' @ style_tag t @ ''>'')" "markup (''</'' @ style_tag t @ ''>'')"
  by (cases t; simp add: markup_def plain_markup_def)+

lemma replace_style_restyled: "restyled (style_delim t) s (replace_style t st s)"
proof (induction t st s rule: replace_style.induct)
  case (1 t st s)
  show ?case
  proof (cases "style_match t st s")
    case None
    show ?thesis
    proof (cases s)
      case Nil
      with None show ?thesis using restyled_Nil by (simp add: replace_style.simps [of t st "[]"])
    next
      case (Cons x xs)
      with "1.IH"(1) [OF None Cons] None show ?thesis
        by (simp add: replace_style.simps [of t st "x # xs"] restyled_same)
    qed
  next
    case (Some m)
    obtain a b after where m: "m = (a, b, after)" by (cases m)
    have eq: "style_match t st s = Some (a, b, after)" using Some m by simp
    define d where "d = style_delim t"
    have s: "s = a @ d # b @ d # (take 1 after @ drop 1 after)"
      using style_match_split [OF eq] unfolding d_def append_take_drop_id .
    have r: "replace_style t st s = a @ (''<'' @ style_tag t @ ''>'') @ b @ (''</'' @ style_tag t @ ''>'') @
        take 1 after @ replace_style t False (drop 1 after)"
      by (simp add: replace_style.simps [of t st s] eq)
    have "restyled d (drop 1 after) (replace_style t False (drop 1 after))"
      using "1.IH"(2) [OF eq refl refl] unfolding d_def .
    then have "restyled d (a @ d # b @ d # (take 1 after @ drop 1 after)) (replace_style t st s)"
      unfolding r by (intro restyled_prefix restyled_tag style_markup)
    then show ?thesis unfolding d_def [symmetric] by (subst s)
  qed
qed

lemma styled_escaped: "escaped_html (parseWASubFormattingLineToHTML order False s)"
proof -
  have "escaped_html u \<Longrightarrow> escaped_html (fold (\<lambda>t s. replace_style t True s) order u)" for u
    by (induction order arbitrary: u) (auto intro: restyled_escaped replace_style_restyled)
  then show ?thesis by (simp add: parseWASubFormattingLineToHTML_def escaped_escape)
qed

text \<open>A token is escaped when its text is and the number in it is one.\<close>

fun escaped_token :: "html_token \<Rightarrow> bool" where
  "escaped_token (TText s) = escaped_html s"
| "escaped_token (TOpenOl n) = list_all is_digit (case n of None \<Rightarrow> [] | Some d \<Rightarrow> d)"
| "escaped_token (TLi n s) = (escaped_html s \<and> list_all is_digit (case n of None \<Rightarrow> [] | Some d \<Rightarrow> d))"
| "escaped_token (TQuote s) = escaped_html s"
| "escaped_token (TPre s) = escaped_html s"
| "escaped_token (TCode s) = escaped_html s"
| "escaped_token _ = True"

lemma numbered_markup:
  "list_all is_digit n \<Longrightarrow> markup (''<ol start='' @ quoted n @ ''>'')"
  "list_all is_digit n \<Longrightarrow> markup (''<li value='' @ quoted n @ ''>'')"
  by (auto simp: markup_def)

lemma wrapped_escaped: "markup a \<Longrightarrow> markup b \<Longrightarrow> escaped_html s \<Longrightarrow> escaped_html (a @ s @ b)"
  using escaped_tag [OF escaped_append [OF _ escaped_markup], of s b a] by simp

lemma plain_is_markup: "t \<in> set plain_markup \<Longrightarrow> markup t"
  by (simp add: markup_def)

lemma render_token_escaped:
  assumes "escaped_token t"
  shows "escaped_html (render_token t)"
  using assms
proof (cases t rule: render_token.cases)
  case (6 n)
  with assms show ?thesis using escaped_markup [OF numbered_markup(1)] by simp
next
  case (9 n s)
  with assms show ?thesis
    using wrapped_escaped [OF numbered_markup(2) plain_is_markup, of n "''</li>''" s] by (simp add: plain_markup_def)
next
  case (8 s)
  with assms show ?thesis using wrapped_escaped [of "''<li>''" "''</li>''" s] by (simp add: plain_is_markup plain_markup_def)
next
  case (10 s)
  with assms show ?thesis
    using wrapped_escaped [of "''<blockquote>''" "''</blockquote>''" s] by (simp add: plain_is_markup plain_markup_def)
next
  case (11 s)
  with assms show ?thesis
    using wrapped_escaped [of "''<pre><code>''" "''</code></pre>''" s] by (simp add: plain_is_markup plain_markup_def)
next
  case (12 s)
  with assms show ?thesis
    using wrapped_escaped [of "''<code>''" "''</code>''" s] by (simp add: plain_is_markup plain_markup_def)
qed (use assms in \<open>auto intro!: escaped_markup plain_is_markup simp: plain_markup_def\<close>)

lemma ordered_item_digits: "ordered_item line = Some (digits, rest) \<Longrightarrow> list_all is_digit digits"
  by (cases line rule: ordered_item.cases) (auto split: if_splits)

lemma line_tokens_escaped:
  assumes "\<And>s. escaped_html (fmt s)"
  shows "list_all escaped_token (fst (line_tokens fmt first line st))"
proof (cases "is_bullet line")
  case True
  then show ?thesis using assms by (simp add: line_tokens_def bullet_line_def close_ordered_def)
next
  case False
  show ?thesis
  proof (cases "ordered_item line")
    case None
    then show ?thesis using assms False by (simp add: line_tokens_def other_line_def close_list_def Let_def)
  next
    case (Some p)
    then obtain digits rest where p: "ordered_item line = Some (digits, rest)" by (cases p) simp
    with ordered_item_digits [OF p] show ?thesis using assms False
      by (simp add: line_tokens_def ordered_line_def Let_def)
  qed
qed

lemma lines_tokens_escaped:
  assumes "\<And>s. escaped_html (fmt s)"
  shows "list_all escaped_token (lines_tokens fmt first ls st)"
proof (induction ls arbitrary: first st)
  case Nil
  then show ?case by (simp add: close_list_def)
next
  case (Cons l ls)
  show ?case using line_tokens_escaped [of fmt first l st] assms Cons.IH by (simp add: case_prod_beta)
qed

lemma render_escaped: "list_all escaped_token ts \<Longrightarrow> escaped_html (render ts)"
  unfolding render_def
  by (induction ts) (simp_all add: escaped_Nil escaped_append render_token_escaped)


section \<open>The order of the styles\<close>

text \<open>The styles are kept in a map, so Go goes through them in an order of its own each time; the
  order can be seen in the result.\<close>

lemma style_order_matters:
  "parseWAFormattingToHTML [InlineCode, Bold, Italic, Strike] False (backtick # ''*a*'' @ [backtick])
     = ''<code><strong>a</strong></code>''"
  "parseWAFormattingToHTML [Bold, InlineCode, Italic, Strike] False (backtick # ''*a*'' @ [backtick])
     = ''<code>*a*</code>''"
  by code_simp+

end
