(* ===== verification/Business.thy ===== *)
theory Business
  imports WaText "HOL-Library.Sublist"
begin

text \<open>
  Business messages: \<open>pkg/msgconv/wa-business.go\<close>. Templates, interactive messages, buttons and
  lists become one text message, or the media of their header with the text as its caption. The
  markdown renderer is an argument, and so is the random text that holds the place of the options
  of a list. The getters of protocol buffers give the empty text for what is not there.
\<close>

section \<open>Data\<close>

datatype TemplateButton =
    QuickReplyButton string
  | UrlButton string string
  | CallButton string string
  | OtherButton

datatype HeaderMedia = DocumentHeader MediaMessage | ImageHeader MediaMessage | VideoHeader MediaMessage

datatype TemplateTitle = NoTitle | MediaTitle HeaderMedia | LocationTitle | TextTitle string

record HydratedTemplate =
  ht_ContentText :: string
  ht_Buttons :: "TemplateButton list"
  ht_FooterText :: string
  ht_Title :: TemplateTitle
  ht_TemplateID :: string

datatype InteractiveKind =
    ShopStorefront
  | CollectionMessage
  | NativeFlow "string list"
  | Carousel
  | OtherInteractive

datatype InteractiveHeader =
  NoHeaderMedia | MediaHeader HeaderMedia | LocationHeader | ProductHeader | ThumbnailHeader

record InteractiveMessage =
  im_Body :: string
  im_Kind :: InteractiveKind
  im_Footer :: string
  im_Title :: string
  im_Subtitle :: string
  im_Media :: InteractiveHeader
  im_ContextInfo :: "ContextInfo option"

record TemplateMessage =
  tm_Hydrated :: "HydratedTemplate option"
  tm_HydratedFourRow :: "HydratedTemplate option"
  tm_Interactive :: "InteractiveMessage option"
  tm_ContextInfo :: "ContextInfo option"

datatype ButtonsHeader = NoButtonsHeader | MediaButtonsHeader HeaderMedia | LocationButtonsHeader | TextButtonsHeader string

record ButtonsMessage =
  bm_ContentText :: string
  bm_Buttons :: "string list"
  bm_FooterText :: string
  bm_Header :: ButtonsHeader
  bm_ContextInfo :: "ContextInfo option"

text \<open>A row of a list is its title and description, a section its title and rows.\<close>

record ListMessage =
  lm_Title :: string
  lm_Description :: string
  lm_ButtonText :: string
  lm_FooterText :: string
  lm_Sections :: "(string \<times> (string \<times> string) list) list"
  lm_ContextInfo :: "ContextInfo option"

text \<open>What the converters add to the extra content of the event.\<close>

datatype business_extra =
    BusinessType string
  | HydratedTemplateID string
  | TemplateButtonReply string "32 word"
  | InteractiveResponse
  | ButtonsResponse string
  | ListReply string

text \<open>Media conversion, the order of the styles, mautrix's \<open>TextToHTML\<close>, and the framework's
  context of a conversion.\<close>

record business_env =
  be_V :: media_env
  be_order :: "style list"
  be_text_to_html :: "string \<Rightarrow> string"
  be_info :: MessageInfo
  be_edit_target :: string
  be_receiver :: string

type_synonym business_part = "(ConvertedPart \<times> business_extra list) \<times> ContextInfo option"

definition text_part :: "string \<Rightarrow> ConvertedPart" where
  "text_part body = plain_part EventMessage (empty_content\<lparr>ct_MsgType := MsgText, ct_Body := body\<rparr>)"

section \<open>Text and header\<close>

abbreviation paragraphs :: "string \<Rightarrow> string \<Rightarrow> string" where
  "paragraphs a b \<equiv> a @ newline @ newline @ b"

definition header_media :: "business_env \<Rightarrow> HeaderMedia \<Rightarrow> ConvertedPart outcome" where
  "header_media B h =
     (let conv = (\<lambda>m name. map_outcome fst
            (convertMediaMessage (be_V B) m name (be_info B) (be_edit_target B) (be_receiver B) False None))
      in case h of
           DocumentHeader m \<Rightarrow> conv m ''file attachment''
         | ImageHeader m \<Rightarrow> conv m ''photo''
         | VideoHeader m \<Rightarrow> conv m ''video attachment'')"

definition header_part :: "business_env \<Rightarrow> HeaderMedia option \<Rightarrow> ConvertedPart option outcome" where
  "header_part B h = (case h of None \<Rightarrow> Ok None | Some h \<Rightarrow> map_outcome Some (header_media B h))"

text \<open>The text below the media: \<open>mv_ensure_html\<close> is mautrix's \<open>EnsureHasHTML\<close>.\<close>

definition caption_media :: "business_env \<Rightarrow> string \<Rightarrow> MessageEventContent \<Rightarrow> MessageEventContent" where
  "caption_media B content c =
     (let c1 = (if ct_FileName c = [] \<or> ct_FileName c = ct_Body c then c\<lparr>ct_FileName := ct_Body c, ct_Body := []\<rparr> else c);
          c2 = c1\<lparr>ct_Body := (if ct_Body c1 \<noteq> [] then ct_Body c1 @ newline @ newline else []) @ content\<rparr>;
          contentHTML = parseWAFormattingToHTML (be_order B) True content
      in if contentHTML \<noteq> be_text_to_html B content \<or> ct_FormattedBody c2 \<noteq> []
         then (let c3 = mv_ensure_html (be_V B) c2 in
               c3\<lparr>ct_FormattedBody := (if ct_FormattedBody c3 \<noteq> [] then ct_FormattedBody c3 @ ''<br><br>'' else []) @ contentHTML\<rparr>)
         else c2)"

definition postProcessBusinessMessage :: "business_env \<Rightarrow> string \<Rightarrow> ConvertedPart option \<Rightarrow> ConvertedPart" where
  "postProcessBusinessMessage B content header =
     (let converted = plain_part EventMessage (parseFormatting (be_order B) (be_text_to_html B) True False
            (empty_content\<lparr>ct_MsgType := MsgText, ct_Body := content\<rparr>))
      in case header of
           None \<Rightarrow> converted
         | Some h \<Rightarrow> h\<lparr>part_Type := part_Type converted, part_DontBridge := part_DontBridge converted,
             part_Content := (if content \<noteq> [] then caption_media B content (part_Content h) else part_Content h)\<rparr>)"

section \<open>Templates\<close>

definition button_description :: "TemplateButton \<Rightarrow> string" where
  "button_description b =
     (case b of
        QuickReplyButton t \<Rightarrow> ''<'' @ t @ ''>''
      | UrlButton t url \<Rightarrow> ''['' @ t @ '']('' @ url @ '')''
      | CallButton t phone \<Rightarrow> ''['' @ t @ ''](tel:'' @ phone @ '')''
      | OtherButton \<Rightarrow> [])"

definition click_hint :: string where
  "click_hint = newline @ ''Use the WhatsApp app to click buttons''"

definition is_quick_reply :: "TemplateButton \<Rightarrow> bool" where
  "is_quick_reply b = (case b of QuickReplyButton _ \<Rightarrow> True | _ \<Rightarrow> False)"

definition template_buttons :: "TemplateButton list \<Rightarrow> string" where
  "template_buttons bs =
     join '' - '' (map button_description bs) @ (if list_ex is_quick_reply bs then click_hint else [])"

definition template_text :: "HydratedTemplate \<Rightarrow> string" where
  "template_text tpl =
     (let content = ht_ContentText tpl;
          content = (if ht_Buttons tpl \<noteq> [] then paragraphs content (template_buttons (ht_Buttons tpl)) else content);
          content = (if ht_FooterText tpl \<noteq> [] then paragraphs content (ht_FooterText tpl) else content)
      in case ht_Title tpl of
           LocationTitle \<Rightarrow> paragraphs ''Unsupported location message'' content
         | TextTitle t \<Rightarrow> paragraphs t content
         | _ \<Rightarrow> content)"

definition template_media :: "HydratedTemplate \<Rightarrow> HeaderMedia option" where
  "template_media tpl = (case ht_Title tpl of MediaTitle h \<Rightarrow> Some h | _ \<Rightarrow> None)"

definition flow_buttons :: "string list \<Rightarrow> string" where
  "flow_buttons names = join '' - '' (map (\<lambda>n. ''<'' @ n @ ''>'') names) @ click_hint"

definition interactive_text :: "InteractiveMessage \<Rightarrow> string" where
  "interactive_text m =
     (let content = (case im_Kind m of
            ShopStorefront \<Rightarrow> paragraphs (im_Body m) ''Unsupported shop storefront message''
          | CollectionMessage \<Rightarrow> im_Body m
          | NativeFlow names \<Rightarrow> if names \<noteq> [] then paragraphs (im_Body m) (flow_buttons names) else im_Body m
          | Carousel \<Rightarrow> paragraphs (im_Body m) ''Unsupported carousel message''
          | OtherInteractive \<Rightarrow> im_Body m);
          content = (if im_Footer m \<noteq> [] then paragraphs content (im_Footer m) else content);
          title = (if im_Subtitle m \<noteq> [] then im_Title m @ newline @ im_Subtitle m else im_Title m);
          content = (if im_Title m \<noteq> [] then paragraphs title content else content)
      in case im_Media m of
           LocationHeader \<Rightarrow> paragraphs ''Unsupported location message'' content
         | ProductHeader \<Rightarrow> paragraphs ''Unsupported product message'' content
         | ThumbnailHeader \<Rightarrow> paragraphs ''Unsupported thumbnail message'' content
         | _ \<Rightarrow> content)"

definition interactive_media :: "InteractiveMessage \<Rightarrow> HeaderMedia option" where
  "interactive_media m = (case im_Media m of MediaHeader h \<Rightarrow> Some h | _ \<Rightarrow> None)"

definition convertInteractiveMessage :: "business_env \<Rightarrow> InteractiveMessage \<Rightarrow> business_part outcome" where
  "convertInteractiveMessage B m =
     map_outcome (\<lambda>header. ((postProcessBusinessMessage B (interactive_text m) header, [BusinessType ''interactive'']), im_ContextInfo m))
       (header_part B (interactive_media m))"

definition hydrated_template :: "TemplateMessage \<Rightarrow> HydratedTemplate option" where
  "hydrated_template m = (case tm_Hydrated m of None \<Rightarrow> tm_HydratedFourRow m | Some tpl \<Rightarrow> Some tpl)"

definition convertTemplateMessage :: "business_env \<Rightarrow> TemplateMessage \<Rightarrow> business_part outcome" where
  "convertTemplateMessage B m =
     (case hydrated_template m of
        None \<Rightarrow>
          (case tm_Interactive m of
             Some im \<Rightarrow> convertInteractiveMessage B im
           | None \<Rightarrow> Ok ((text_part ''Unsupported business message (template)'', []), tm_ContextInfo m))
      | Some tpl \<Rightarrow>
          map_outcome (\<lambda>header. ((postProcessBusinessMessage B (template_text tpl) header,
              [HydratedTemplateID (ht_TemplateID tpl), BusinessType ''template'']), tm_ContextInfo m))
            (header_part B (template_media tpl)))"

section \<open>Buttons and replies\<close>

definition buttons_text :: "ButtonsMessage \<Rightarrow> string" where
  "buttons_text m =
     (let content = bm_ContentText m;
          content = (if bm_Buttons m \<noteq> [] then paragraphs content (flow_buttons (bm_Buttons m)) else content);
          content = (if bm_FooterText m \<noteq> [] then paragraphs content (bm_FooterText m) else content)
      in case bm_Header m of
           LocationButtonsHeader \<Rightarrow> paragraphs ''Unsupported location message'' content
         | TextButtonsHeader t \<Rightarrow> paragraphs t content
         | _ \<Rightarrow> content)"

definition buttons_media :: "ButtonsMessage \<Rightarrow> HeaderMedia option" where
  "buttons_media m = (case bm_Header m of MediaButtonsHeader h \<Rightarrow> Some h | _ \<Rightarrow> None)"

definition convertButtonsMessage :: "business_env \<Rightarrow> ButtonsMessage \<Rightarrow> business_part outcome" where
  "convertButtonsMessage B m =
     map_outcome (\<lambda>header. ((postProcessBusinessMessage B (buttons_text m) header, [BusinessType ''buttons'']), bm_ContextInfo m))
       (header_part B (buttons_media m))"

definition convertTemplateButtonReplyMessage :: "string \<Rightarrow> string \<Rightarrow> 32 word \<Rightarrow> ConvertedPart \<times> business_extra list" where
  "convertTemplateButtonReplyMessage selectedDisplayText selectedID selectedIndex =
     (text_part selectedDisplayText, [TemplateButtonReply selectedID selectedIndex])"

definition convertInteractiveResponseMessage :: "string \<Rightarrow> ConvertedPart \<times> business_extra list" where
  "convertInteractiveResponseMessage body = (text_part body, [InteractiveResponse])"

definition convertButtonsResponseMessage :: "string \<Rightarrow> string \<Rightarrow> ConvertedPart \<times> business_extra list" where
  "convertButtonsResponseMessage selectedDisplayText selectedButtonID =
     (text_part selectedDisplayText, [ButtonsResponse selectedButtonID])"

definition convertListResponseMessage :: "string \<Rightarrow> string \<Rightarrow> string \<Rightarrow> ConvertedPart \<times> business_extra list" where
  "convertListResponseMessage title description selectedRowID =
     (text_part
        (if title \<noteq> [] then (if description \<noteq> [] then paragraphs title description else title)
         else if description \<noteq> [] then description else ''Unsupported list reply message''),
      [ListReply selectedRowID])"

section \<open>Lists\<close>

text \<open>\<open>strings.Replace\<close> with one replacement.\<close>

definition replace_first :: "string \<Rightarrow> string \<Rightarrow> string \<Rightarrow> string" where
  "replace_first s old new =
     (case str_index s old of None \<Rightarrow> s | Some i \<Rightarrow> take i s @ new @ drop (i + length old) s)"

definition row_markdown :: "string \<Rightarrow> string \<times> string \<Rightarrow> string" where
  "row_markdown nesting row =
     (case row of (title, description) \<Rightarrow>
        nesting @ ''* '' @ title @ (if description \<noteq> [] then '': '' @ description else []) @ newline)"

definition section_markdown :: "string \<times> (string \<times> string) list \<Rightarrow> string" where
  "section_markdown sec =
     (case sec of (title, rows) \<Rightarrow>
        (if title \<noteq> [] then ''* '' @ title @ newline else []) @
        concat (map (row_markdown (if title \<noteq> [] then ''  '' else [])) rows))"

definition options_markdown :: "ListMessage \<Rightarrow> string" where
  "options_markdown m =
     ''#### '' @ lm_ButtonText m @ newline @ concat (map section_markdown (lm_Sections m)) @
     newline @ ''Use the WhatsApp app to respond''"

definition list_intro :: "ListMessage \<Rightarrow> string" where
  "list_intro m =
     (if lm_Title m \<noteq> [] then (if lm_Description m = [] then lm_Title m else paragraphs (lm_Title m) (lm_Description m))
      else lm_Description m)"

definition list_body :: "ListMessage \<Rightarrow> string \<Rightarrow> string" where
  "list_body m randomID =
     (let body = list_intro m @ newline @ randomID
      in if lm_FooterText m \<noteq> [] then paragraphs body (lm_FooterText m) else body)"

text \<open>\<open>markdown\<close> is mautrix's \<open>RenderMarkdown\<close>: the body and the formatted body of a text.\<close>

definition convertListMessage ::
  "business_env \<Rightarrow> (string \<Rightarrow> string \<times> string) \<Rightarrow> string \<Rightarrow> ListMessage \<Rightarrow> business_part" where
  "convertListMessage B markdown randomID m =
     (let c = parseFormatting (be_order B) (be_text_to_html B) False True
            (empty_content\<lparr>ct_Body := list_body m randomID, ct_MsgType := MsgText\<rparr>);
          (rendered_body, rendered_html) = markdown (options_markdown m)
      in ((plain_part EventMessage (c\<lparr>ct_Body := replace_first (ct_Body c) randomID rendered_body,
             ct_FormattedBody := replace_first (ct_FormattedBody c) randomID rendered_html\<rparr>),
           [BusinessType ''list'']), lm_ContextInfo m))"

section \<open>No text is lost\<close>

text \<open>The texts occur in \<open>s\<close> one behind the other.\<close>

fun appears :: "string list \<Rightarrow> string \<Rightarrow> bool" where
  "appears [] s = True"
| "appears (p # ps) s = (\<exists>a b. s = a @ p @ b \<and> appears ps b)"

lemma appears_after: "appears ps s \<Longrightarrow> appears ps (a @ s)"
  by (cases ps) (auto, metis append.assoc)

lemma appears_before: "appears ps s \<Longrightarrow> appears ps (s @ b)"
proof (induction ps arbitrary: s)
  case (Cons p ps)
  then obtain x y where s: "s = x @ p @ y" "appears ps y" by auto
  with Cons.IH [of y] have "(s @ b) = x @ p @ (y @ b) \<and> appears ps (y @ b)" by simp
  then show ?case by auto
qed simp

lemma appears_append: "appears ps s \<Longrightarrow> appears qs t \<Longrightarrow> appears (ps @ qs) (s @ t)"
proof (induction ps arbitrary: s)
  case Nil
  then show ?case by (simp add: appears_after)
next
  case (Cons p ps)
  then obtain x y where s: "s = x @ p @ y" "appears ps y" by auto
  with Cons have "(s @ t) = x @ p @ (y @ t) \<and> appears (ps @ qs) (y @ t)" by simp
  then show ?case by auto
qed

lemma appears_self: "appears [s] s"
  by (simp, metis append_Nil append_Nil2)

lemma appears_Cons: "appears qs t \<Longrightarrow> appears (s # qs) (s @ t)"
  using appears_append [OF appears_self] by simp

lemma appears_paragraphs: "appears ps a \<Longrightarrow> appears qs b \<Longrightarrow> appears (ps @ qs) (paragraphs a b)"
  using appears_append appears_after append.assoc by metis

lemma appears_join: "(\<And>x. x \<in> set xs \<Longrightarrow> appears (f x) (g x)) \<Longrightarrow> appears (concat (map f xs)) (join sep (map g xs))"
proof (induction xs rule: induct_list012)
  case (3 x y zs)
  then have "appears (f x) (g x)" "appears (concat (map f (y # zs))) (sep @ join sep (map g (y # zs)))"
    by (simp_all add: appears_after)
  from appears_append [OF this] show ?case by simp
qed simp_all

lemmas appears_intros = appears_after appears_before appears_append appears_self appears_paragraphs

fun button_texts :: "TemplateButton \<Rightarrow> string list" where
  "button_texts (QuickReplyButton t) = [t]"
| "button_texts (UrlButton t url) = [t, url]"
| "button_texts (CallButton t phone) = [t, phone]"
| "button_texts OtherButton = []"

definition template_texts :: "HydratedTemplate \<Rightarrow> string list" where
  "template_texts tpl =
     (case ht_Title tpl of TextTitle t \<Rightarrow> [t] | _ \<Rightarrow> []) @ [ht_ContentText tpl] @
     concat (map button_texts (ht_Buttons tpl)) @ [ht_FooterText tpl]"

definition interactive_texts :: "InteractiveMessage \<Rightarrow> string list" where
  "interactive_texts m =
     (if im_Title m \<noteq> [] then [im_Title m, im_Subtitle m] else []) @ [im_Body m] @
     (case im_Kind m of NativeFlow names \<Rightarrow> names | _ \<Rightarrow> []) @ [im_Footer m]"

definition buttons_texts :: "ButtonsMessage \<Rightarrow> string list" where
  "buttons_texts m =
     (case bm_Header m of TextButtonsHeader t \<Rightarrow> [t] | _ \<Rightarrow> []) @ [bm_ContentText m] @ bm_Buttons m @ [bm_FooterText m]"

lemma appears_Nil_text: "appears [[]] s"
  using append_Nil [of s] by auto

lemma button_texts_appear: "appears (button_texts b) (button_description b)"
proof (cases b)
  case (QuickReplyButton t)
  then show ?thesis by (simp add: button_description_def) (metis append_Cons append_Nil)
next
  case (UrlButton t url)
  have "appears [t, url] (''['' @ t @ '']('' @ url @ '')'')"
    by (intro appears_after appears_Cons appears_before appears_self)
  with UrlButton show ?thesis by (simp only: button_description_def TemplateButton.case button_texts.simps)
next
  case (CallButton t phone)
  have "appears [t, phone] (''['' @ t @ ''](tel:'' @ phone @ '')'')"
    by (intro appears_after appears_Cons appears_before appears_self)
  with CallButton show ?thesis by (simp only: button_description_def TemplateButton.case button_texts.simps)
qed simp

lemma flow_texts_appear: "appears names (flow_buttons names)"
proof -
  have "appears (concat (map (\<lambda>n. [n]) names)) (join '' - '' (map (\<lambda>n. ''<'' @ n @ ''>'') names))"
    by (rule appears_join) (intro appears_after appears_before appears_self)
  then show ?thesis unfolding flow_buttons_def by (intro appears_before) simp
qed

lemma appears_footer: "appears ps s \<Longrightarrow> appears (ps @ [footer]) (if footer \<noteq> [] then paragraphs s footer else s)"
  using appears_paragraphs [OF _ appears_self, of ps s footer] appears_append [OF _ appears_Nil_text, of ps s "[]"]
  by auto

lemma appears_optional:
  "appears ps s \<Longrightarrow> appears qs t \<Longrightarrow> xs = [] \<Longrightarrow> qs = [] \<Longrightarrow> appears (ps @ qs) s"
  by simp

lemma template_text_appears: "appears (template_texts tpl) (template_text tpl)"
proof -
  let ?bs = "ht_Buttons tpl"
  let ?c1 = "if ?bs \<noteq> [] then paragraphs (ht_ContentText tpl) (template_buttons ?bs) else ht_ContentText tpl"
  let ?c2 = "if ht_FooterText tpl \<noteq> [] then paragraphs ?c1 (ht_FooterText tpl) else ?c1"
  have "appears (concat (map button_texts ?bs)) (template_buttons ?bs)"
    unfolding template_buttons_def by (intro appears_before appears_join button_texts_appear)
  then have "appears ([ht_ContentText tpl] @ concat (map button_texts ?bs)) ?c1"
    using appears_paragraphs [OF appears_self] appears_self [of "ht_ContentText tpl"] by (cases "?bs = []") simp_all
  from appears_footer [OF this, of "ht_FooterText tpl"]
  have c2: "appears ([ht_ContentText tpl] @ concat (map button_texts ?bs) @ [ht_FooterText tpl]) ?c2" by (simp only: append.assoc)
  define c2 where "c2 = ?c2"
  have shape: "template_text tpl = (case ht_Title tpl of
      LocationTitle \<Rightarrow> paragraphs ''Unsupported location message'' c2 | TextTitle t \<Rightarrow> paragraphs t c2 | _ \<Rightarrow> c2)"
    unfolding template_text_def c2_def Let_def ..
  show ?thesis
    using c2 [folded c2_def] appears_paragraphs [OF appears_self c2 [folded c2_def]]
    unfolding shape template_texts_def
    by (cases "ht_Title tpl") (auto simp only: TemplateTitle.case append_Nil intro: appears_after)
qed

lemma buttons_text_appears: "appears (buttons_texts m) (buttons_text m)"
proof -
  let ?bs = "bm_Buttons m"
  let ?c1 = "if ?bs \<noteq> [] then paragraphs (bm_ContentText m) (flow_buttons ?bs) else bm_ContentText m"
  let ?c2 = "if bm_FooterText m \<noteq> [] then paragraphs ?c1 (bm_FooterText m) else ?c1"
  have "appears ([bm_ContentText m] @ ?bs) ?c1"
    using appears_paragraphs [OF appears_self flow_texts_appear] appears_self [of "bm_ContentText m"] by (cases "?bs = []") simp_all
  from appears_footer [OF this, of "bm_FooterText m"]
  have c2: "appears ([bm_ContentText m] @ ?bs @ [bm_FooterText m]) ?c2" by (simp only: append.assoc)
  define c2 where "c2 = ?c2"
  have shape: "buttons_text m = (case bm_Header m of
      LocationButtonsHeader \<Rightarrow> paragraphs ''Unsupported location message'' c2 | TextButtonsHeader t \<Rightarrow> paragraphs t c2 | _ \<Rightarrow> c2)"
    unfolding buttons_text_def c2_def Let_def ..
  show ?thesis
    using c2 [folded c2_def] appears_paragraphs [OF appears_self c2 [folded c2_def]]
    unfolding shape buttons_texts_def
    by (cases "bm_Header m") (auto simp only: ButtonsHeader.case append_Nil intro: appears_after)
qed

lemma interactive_text_appears: "appears (interactive_texts m) (interactive_text m)"
proof -
  define names where "names = (case im_Kind m of NativeFlow names \<Rightarrow> names | _ \<Rightarrow> [])"
  define c1 where "c1 = (case im_Kind m of
      ShopStorefront \<Rightarrow> paragraphs (im_Body m) ''Unsupported shop storefront message''
    | CollectionMessage \<Rightarrow> im_Body m
    | NativeFlow names \<Rightarrow> if names \<noteq> [] then paragraphs (im_Body m) (flow_buttons names) else im_Body m
    | Carousel \<Rightarrow> paragraphs (im_Body m) ''Unsupported carousel message''
    | OtherInteractive \<Rightarrow> im_Body m)"
  define c2 where "c2 = (if im_Footer m \<noteq> [] then paragraphs c1 (im_Footer m) else c1)"
  define title where "title = (if im_Subtitle m \<noteq> [] then im_Title m @ newline @ im_Subtitle m else im_Title m)"
  define c3 where "c3 = (if im_Title m \<noteq> [] then paragraphs title c2 else c2)"
  have "appears ([im_Body m] @ names) c1"
    using appears_paragraphs [OF appears_self flow_texts_appear, of "im_Body m" names]
      appears_before [OF appears_self, of "im_Body m"] appears_self [of "im_Body m"]
    unfolding names_def c1_def by (cases "im_Kind m") simp_all
  from appears_footer [OF this, of "im_Footer m"] have c2: "appears ([im_Body m] @ names @ [im_Footer m]) c2"
    by (simp only: append.assoc c2_def)
  have "appears [im_Title m, im_Subtitle m] title"
    using appears_append [OF appears_self appears_after [OF appears_self], of "im_Title m" "im_Subtitle m" newline]
      appears_append [OF appears_self appears_Nil_text, of "im_Title m" "[]"]
    by (simp add: title_def)
  from appears_paragraphs [OF this c2] c2
  have c3: "appears (interactive_texts m) c3"
    unfolding interactive_texts_def c3_def names_def [symmetric] by simp
  have shape: "interactive_text m = (case im_Media m of
      LocationHeader \<Rightarrow> paragraphs ''Unsupported location message'' c3
    | ProductHeader \<Rightarrow> paragraphs ''Unsupported product message'' c3
    | ThumbnailHeader \<Rightarrow> paragraphs ''Unsupported thumbnail message'' c3
    | _ \<Rightarrow> c3)"
    unfolding interactive_text_def c3_def c2_def c1_def title_def Let_def ..
  show ?thesis unfolding shape
    using c3 by (cases "im_Media m") (auto simp only: InteractiveHeader.case intro: appears_after)
qed

lemma processed_body:
  assumes "\<And>c. ct_Body (mv_ensure_html (be_V B) c) = ct_Body c"
  shows "\<exists>before. ct_Body (part_Content (postProcessBusinessMessage B content header)) = before @ content"
proof (cases header)
  case None
  then show ?thesis by (simp add: postProcessBusinessMessage_def plain_part_def parseFormatting_def Let_def)
next
  case (Some h)
  have "\<exists>before. ct_Body (caption_media B content c) = before @ content" for c
    using assms by (simp add: caption_media_def Let_def)
  with Some show ?thesis by (simp add: postProcessBusinessMessage_def Let_def)
qed

lemma map_outcome_Ok: "map_outcome f r = Ok y \<longleftrightarrow> (\<exists>x. r = Ok x \<and> y = f x)"
  by (cases r) auto

text \<open>A business message loses no text: whatever its header, the body of the Matrix event has the
  title, the message, the text and target of every button and the footer of a template, of an
  interactive message and of a message with buttons, one behind the other.\<close>

theorem business_text_kept:
  assumes ensure: "\<And>c. ct_Body (mv_ensure_html (be_V B) c) = ct_Body c"
  shows "(hydrated_template t = Some tpl \<and> convertTemplateMessage B t = Ok ((part, extra), ci)
      \<longrightarrow> appears (template_texts tpl) (ct_Body (part_Content part)))
    \<and> (convertInteractiveMessage B i = Ok ((part, extra), ci)
      \<longrightarrow> appears (interactive_texts i) (ct_Body (part_Content part)))
    \<and> (convertButtonsMessage B b = Ok ((part, extra), ci)
      \<longrightarrow> appears (buttons_texts b) (ct_Body (part_Content part)))"
proof -
  have body: "appears ps (ct_Body (part_Content (postProcessBusinessMessage B content header)))"
    if "appears ps content" for ps content header
    using processed_body [of B content header, OF ensure] appears_after [OF that] by auto
  show ?thesis
    using body [OF template_text_appears] body [OF interactive_text_appears] body [OF buttons_text_appears]
    by (auto simp: convertTemplateMessage_def convertInteractiveMessage_def convertButtonsMessage_def map_outcome_Ok)
qed

definition sample_business_env :: business_env where
  "sample_business_env = \<lparr>be_V = sample_media_env, be_order = [Bold, Italic, Strike, InlineCode],
     be_text_to_html = (\<lambda>s. s), be_info = sample_info, be_edit_target = [], be_receiver = []\<rparr>"

definition sample_buttons :: ButtonsMessage where
  "sample_buttons = \<lparr>bm_ContentText = ''pick'', bm_Buttons = [''yes'', ''no''], bm_FooterText = ''bye'',
     bm_Header = TextButtonsHeader ''Shop'', bm_ContextInfo = None\<rparr>"

theorem business_text_kept_witness:
  "\<exists>part. convertButtonsMessage sample_business_env sample_buttons = Ok ((part, [BusinessType ''buttons'']), None)
     \<and> appears [''Shop'', ''pick'', ''yes'', ''no'', ''bye''] (ct_Body (part_Content part))"
proof -
  define part where "part = postProcessBusinessMessage sample_business_env (buttons_text sample_buttons) None"
  have "convertButtonsMessage sample_business_env sample_buttons = Ok ((part, [BusinessType ''buttons'']), None)"
    by (simp add: convertButtonsMessage_def sample_buttons_def buttons_media_def header_part_def part_def)
  moreover have "ct_Body (mv_ensure_html (be_V sample_business_env) c) = ct_Body c" for c
    by (simp add: sample_business_env_def sample_media_env_def)
  ultimately show ?thesis
    using business_text_kept [of sample_business_env undefined undefined part "[BusinessType ''buttons'']" None undefined sample_buttons]
    by (simp add: buttons_texts_def sample_buttons_def)
qed

section \<open>The caption of a header\<close>

text \<open>The text of a business message is shown twice when its header is media without a caption
  and the text has any formatting: the HTML is first made from the body, which has the text
  already, and then the formatted text is added to it. The hypothesis on \<open>mv_ensure_html\<close> is
  what mautrix's \<open>EnsureHasHTML\<close> does.\<close>

theorem business_caption_twice:
  assumes ensure: "\<And>c. mv_ensure_html (be_V B) c =
      (if ct_FormattedBody c = [] \<or> \<not> ct_HTML c then c\<lparr>ct_FormattedBody := be_text_to_html B (ct_Body c), ct_HTML := True\<rparr> else c)"
    and header: "ct_Body (part_Content h) = []" "ct_FormattedBody (part_Content h) = []" "ct_FileName (part_Content h) \<noteq> []"
    and content: "content \<noteq> []" "be_text_to_html B content \<noteq> []"
    and formatted: "parseWAFormattingToHTML (be_order B) True content \<noteq> be_text_to_html B content"
  shows "ct_FormattedBody (part_Content (postProcessBusinessMessage B content (Some h)))
    = be_text_to_html B content @ ''<br><br>'' @ parseWAFormattingToHTML (be_order B) True content"
  using header content formatted
  by (simp add: postProcessBusinessMessage_def caption_media_def Let_def ensure)

theorem business_caption_twice_witness:
  "\<exists>B h. ct_FormattedBody (part_Content (postProcessBusinessMessage B ''*a*'' (Some h)))
    = ''*a*<br><br><strong>a</strong>''"
proof -
  define B where "B = sample_business_env\<lparr>be_V := sample_media_env\<lparr>mv_ensure_html := (\<lambda>c.
    if ct_FormattedBody c = [] \<or> \<not> ct_HTML c then c\<lparr>ct_FormattedBody := ct_Body c, ct_HTML := True\<rparr> else c)\<rparr>\<rparr>"
  define h where "h = plain_part EventMessage (empty_content\<lparr>ct_FileName := ''image.jpg''\<rparr>)"
  have html: "parseWAFormattingToHTML [Bold, Italic, Strike, InlineCode] True ''*a*'' = ''<strong>a</strong>''"
    by code_simp
  have B: "be_order B = [Bold, Italic, Strike, InlineCode]" "be_text_to_html B = (\<lambda>s. s)"
    by (simp_all add: B_def sample_business_env_def)
  have "ct_FormattedBody (part_Content (postProcessBusinessMessage B ''*a*'' (Some h)))
    = be_text_to_html B ''*a*'' @ ''<br><br>'' @ parseWAFormattingToHTML (be_order B) True ''*a*''"
  proof (rule business_caption_twice)
    show "mv_ensure_html (be_V B) c = (if ct_FormattedBody c = [] \<or> \<not> ct_HTML c
        then c\<lparr>ct_FormattedBody := be_text_to_html B (ct_Body c), ct_HTML := True\<rparr> else c)" for c
      by (simp add: B_def sample_business_env_def)
  qed (simp_all add: B html h_def plain_part_def empty_content_def)
  then show ?thesis by (auto simp: B html)
qed

section \<open>The place of the options\<close>

lemma str_index_new:
  assumes "\<not> sublist p (a @ butlast p)" and "p \<noteq> []"
  shows "str_index (a @ p @ b) p = Some (length a)"
  using assms
proof (induction a)
  case Nil
  then show ?case by (cases p) (simp_all add: has_prefix_def)
next
  case (Cons c a)
  have "\<not> sublist p (a @ butlast p)" using Cons.prems(1) by (auto simp: sublist_Cons_right)
  moreover have "\<not> has_prefix (c # a @ p @ b) p"
  proof
    assume "has_prefix (c # a @ p @ b) p"
    moreover have "take (length p) (c # a @ p @ b) = take (length p) (c # a @ butlast p)"
    proof -
      have p: "p @ b = butlast p @ (last p # b)" using Cons.prems(2) by (simp add: append_butlast_last_id [symmetric])
      have "length p \<le> length (c # a @ butlast p)" using Cons.prems(2) by (simp add: Suc_leI)
      then show ?thesis using p by (metis append_Cons append_assoc take_append diff_is_0_eq' take_0 append_Nil2)
    qed
    ultimately have "prefix p (c # a @ butlast p)" unfolding has_prefix_def by (metis take_is_prefix)
    with Cons.prems(1) show False by (auto dest: prefix_imp_sublist)
  qed
  ultimately show ?case using Cons by simp
qed

text \<open>The options of a list are put where their placeholder was: unless the random text already
  occurs in the message before its place, the body is the introduction, the rendered options and
  the footer, and nothing of the placeholder is left.\<close>

theorem list_options_in_place:
  assumes "\<not> sublist randomID ((list_intro m @ newline) @ butlast randomID)" and "randomID \<noteq> []"
  shows "ct_Body (part_Content (fst (fst (convertListMessage B markdown randomID m)))) =
    list_intro m @ newline @ fst (markdown (options_markdown m)) @
    (if lm_FooterText m \<noteq> [] then newline @ newline @ lm_FooterText m else [])"
proof -
  define foot where "foot = (if lm_FooterText m \<noteq> [] then newline @ newline @ lm_FooterText m else [])"
  have body: "list_body m randomID = (list_intro m @ newline) @ randomID @ foot"
    by (simp add: list_body_def foot_def Let_def)
  have "replace_first (list_body m randomID) randomID r = list_intro m @ newline @ r @ foot" for r
    unfolding body replace_first_def str_index_new [OF assms] by simp
  then show ?thesis
    by (simp add: convertListMessage_def parseFormatting_def Let_def case_prod_beta plain_part_def foot_def)
qed

theorem list_options_in_place_witness:
  "ct_Body (part_Content (fst (fst (convertListMessage sample_business_env (\<lambda>s. (''options'', [])) ''xyz''
     \<lparr>lm_Title = ''Menu'', lm_Description = ''xy'', lm_ButtonText = [], lm_FooterText = ''bye'', lm_Sections = [],
      lm_ContextInfo = None\<rparr>)))) = ''Menu'' @ newline @ newline @ ''xy'' @ newline @ ''options'' @ newline @ newline @ ''bye''"
  (is "ct_Body (part_Content (fst (fst (convertListMessage ?B ?md ?r ?m)))) = _")
proof -
  have intro: "list_intro ?m = ''Menu'' @ newline @ newline @ ''xy''" by (simp add: list_intro_def)
  have "\<not> sublist ?r ((list_intro ?m @ newline) @ butlast ?r)"
    unfolding intro newline_def by code_simp
  from list_options_in_place [OF this, of ?B ?md] show ?thesis by (simp add: intro)
qed

end
