(* ===== verification/WaMisc.thy ===== *)
theory WaMisc
  imports WaText
begin

text \<open>
  The other kinds of WhatsApp messages: unknown and placeholder messages, group invites, calendar
  events and rich responses of \<open>pkg/msgconv/wa-misc.go\<close>, locations (\<open>wa-location.go\<close>), contacts
  (\<open>wa-contact.go\<close>) and albums (\<open>wa-media.go\<close>). The markdown and HTML helpers of mautrix, the
  texts of times and of floating point numbers, and the escapers of Go's HTML templates are
  arguments.
\<close>

section \<open>Unknown messages\<close>

text \<open>\<open>base64.StdEncoding\<close>.\<close>

definition base64_digit :: "nat \<Rightarrow> char" where
  "base64_digit n =
     (if n < 26 then char_of (65 + n) else if n < 52 then char_of (71 + n)
      else if n < 62 then char_of (n - 4) else if n = 62 then CHR ''+'' else CHR ''/'')"

fun base64 :: "byte list \<Rightarrow> string" where
  "base64 [] = []"
| "base64 [a] = [base64_digit (unat a div 4), base64_digit (unat a mod 4 * 16), CHR ''='', CHR ''='']"
| "base64 [a, b] =
     [base64_digit (unat a div 4), base64_digit (unat a mod 4 * 16 + unat b div 16),
      base64_digit (unat b mod 16 * 4), CHR ''='']"
| "base64 (a # b # c # rest) =
     [base64_digit (unat a div 4), base64_digit (unat a mod 4 * 16 + unat b div 16),
      base64_digit (unat b mod 16 * 4 + unat c div 64), base64_digit (unat c mod 64)] @ base64 rest"

text \<open>The part and the unsupported message data in its extra content; \<open>data\<close> is the message as
  \<open>proto.Marshal\<close> gives it, nothing where it fails.\<close>

definition convertUnknownMessage :: "byte list \<Rightarrow> ConvertedPart \<times> string option" where
  "convertUnknownMessage data =
     (let encodedMsg = base64 data
      in (plain_part EventMessage (notice ''Unknown message type, please view it on the WhatsApp app''),
          if length encodedMsg < 16 * 1024 then Some encodedMsg else None))"

definition otp_text :: string where
  "otp_text = ''You received a one-time passcode. For added security, you can only see it on your primary device for WhatsApp. '' @
     ''[Learn more](https://faq.whatsapp.com/372839278914311)''"

definition otpContent :: "(string \<Rightarrow> MessageEventContent) \<Rightarrow> MessageEventContent" where
  "otpContent markdown = (markdown otp_text)\<lparr>ct_MsgType := MsgNotice\<rparr>"

definition convertPlaceholderMessage :: "(string \<Rightarrow> MessageEventContent) \<Rightarrow> bool \<Rightarrow> byte list \<Rightarrow> ConvertedPart \<times> string option" where
  "convertPlaceholderMessage markdown isMaskLinkedDevices data =
     (if isMaskLinkedDevices then (plain_part EventMessage (otpContent markdown), None)
      else convertUnknownMessage data)"

section \<open>Group invites\<close>

record invite_env =
  ie_L :: jid_lib
  ie_text_to_html :: "string \<Rightarrow> string"
  ie_html_to_text :: "string \<Rightarrow> string"
  ie_time :: "int \<Rightarrow> string"
  ie_CommandPrefix :: string

text \<open>
  \<open>fmt.Sprintf\<close> of the two templates. The template for a broken invite has no verb for the
  command prefix, and \<open>fmt\<close> reports an argument too many in the text.
\<close>

definition invite_intro :: "invite_env \<Rightarrow> GroupInviteMessage \<Rightarrow> string \<Rightarrow> string" where
  "invite_intro E msg caption =
     ie_text_to_html E caption @ ''<hr/>This invitation to join '' @ quoted (gim_GroupName msg) @ '' expires at '' @
     ie_time E (gim_InviteExpiration msg)"

definition inviteMsg :: "invite_env \<Rightarrow> GroupInviteMessage \<Rightarrow> string \<Rightarrow> string" where
  "inviteMsg E msg caption =
     invite_intro E msg caption @ ''. Reply to this message with <code>'' @ ie_CommandPrefix E @
     '' accept</code> to accept the invite.''"

definition inviteMsgBroken :: "invite_env \<Rightarrow> GroupInviteMessage \<Rightarrow> string \<Rightarrow> string" where
  "inviteMsgBroken E msg caption =
     invite_intro E msg caption @ ''. However, the invite message is broken or unsupported and cannot be accepted.'' @
     ''%!(EXTRA string='' @ ie_CommandPrefix E @ '')''"

definition convertGroupInviteMessage ::
  "invite_env \<Rightarrow> MessageInfo \<Rightarrow> GroupInviteMessage \<Rightarrow> string \<Rightarrow> ConvertedPart \<times> GroupInviteMeta option" where
  "convertGroupInviteMessage E info msg caption =
     (let inviteMeta = groupInviteMeta (ie_L E) info msg;
          htmlMessage = (if inviteMeta = None then inviteMsgBroken E msg caption else inviteMsg E msg caption)
      in ((plain_part EventMessage (empty_content
             \<lparr>ct_MsgType := MsgText, ct_Body := ie_html_to_text E htmlMessage, ct_HTML := True, ct_FormattedBody := htmlMessage\<rparr>))
            \<lparr>part_DBMetadata := Some (empty_metadata\<lparr>md_GroupInvite := inviteMeta\<rparr>)\<rparr>, inviteMeta))"

section \<open>Calendar events\<close>

record EventParams =
  ep_Name :: string
  ep_IsCanceled :: bool
  ep_JoinLink :: string
  ep_StartTimeISO :: string
  ep_StartTime :: string
  ep_EndTimeISO :: string
  ep_EndTime :: string
  ep_Location :: string
  ep_DescriptionHTML :: string

text \<open>The escapers \<open>html/template\<close> chooses for text, for a quoted attribute and for a link, and
  whether executing the template fails.\<close>

record template_env =
  te_html :: "string \<Rightarrow> string"
  te_attr :: "string \<Rightarrow> string"
  te_href :: "string \<Rightarrow> string"
  te_fails :: bool

definition tabs :: "nat \<Rightarrow> string" where
  "tabs n = newline @ replicate n (char_of (9 :: nat))"

definition time_element :: "template_env \<Rightarrow> string \<Rightarrow> string \<Rightarrow> string" where
  "time_element T isotime tm = ''<time datetime='' @ quoted (te_attr T isotime) @ ''>'' @ te_html T tm @ ''</time>''"

definition eventMessageTemplate :: "template_env \<Rightarrow> EventParams \<Rightarrow> string" where
  "eventMessageTemplate T p =
     (if ep_Name p \<noteq> []
      then ''<h4>'' @ te_html T (ep_Name p) @ (if ep_IsCanceled p then ''<span> (Canceled)</span>'' else []) @ ''</h4>'' else []) @
     (if ep_StartTime p \<noteq> []
      then ''<p>'' @ tabs 2 @ ''Start time: '' @ time_element T (ep_StartTimeISO p) (ep_StartTime p) @
        (if ep_EndTime p \<noteq> [] then ''<br>'' @ tabs 3 @ ''End time: '' @ time_element T (ep_EndTimeISO p) (ep_EndTime p) else []) @
        ''</p>'' else []) @
     (if ep_Location p \<noteq> [] then ''<p>Location: '' @ te_html T (ep_Location p) @ ''</p>'' else []) @
     (if ep_DescriptionHTML p \<noteq> [] then ''<p>'' @ ep_DescriptionHTML p @ ''</p>'' else []) @
     (if ep_JoinLink p \<noteq> []
      then ''<p>Join link: <a href='' @ quoted (te_href T (ep_JoinLink p)) @ ''>'' @ te_html T (ep_JoinLink p) @ ''</a></p>'' else [])"

record CalendarEvent =
  ev_Name :: string
  ev_IsCanceled :: bool
  ev_JoinLink :: string
  ev_LocationName :: string
  ev_Description :: string
  ev_StartTime :: "int option"
  ev_EndTime :: "int option"
  ev_ContextInfo :: "ContextInfo option"

definition event_params :: "style list \<Rightarrow> (int \<Rightarrow> string) \<Rightarrow> (int \<Rightarrow> string) \<Rightarrow> CalendarEvent \<Rightarrow> EventParams" where
  "event_params order rfc1123 rfc3339 msg =
     (let at = (\<lambda>fmt t. case t of None \<Rightarrow> [] | Some t \<Rightarrow> fmt t)
      in \<lparr>ep_Name = ev_Name msg, ep_IsCanceled = ev_IsCanceled msg, ep_JoinLink = ev_JoinLink msg,
          ep_StartTimeISO = at rfc3339 (ev_StartTime msg), ep_StartTime = at rfc1123 (ev_StartTime msg),
          ep_EndTimeISO = at rfc3339 (ev_EndTime msg), ep_EndTime = at rfc1123 (ev_EndTime msg),
          ep_Location = ev_LocationName msg, ep_DescriptionHTML = parseWAFormattingToHTML order False (ev_Description msg)\<rparr>)"

definition convertEventMessage ::
  "style list \<Rightarrow> (int \<Rightarrow> string) \<Rightarrow> (int \<Rightarrow> string) \<Rightarrow> template_env \<Rightarrow> (string \<Rightarrow> MessageEventContent) \<Rightarrow> CalendarEvent \<Rightarrow>
   ConvertedPart \<times> ContextInfo option" where
  "convertEventMessage order rfc1123 rfc3339 T html_to_content msg =
     (plain_part EventMessage
        (if te_fails T then notice ''Failed to parse event message''
         else html_to_content (eventMessageTemplate T (event_params order rfc1123 rfc3339 msg))),
      ev_ContextInfo msg)"

section \<open>Rich responses\<close>

text \<open>A submessage is its text, or none where it is not of the type text. The line break is
  written before every text but the first submessage.\<close>

fun rich_body :: "bool \<Rightarrow> string option list \<Rightarrow> string" where
  "rich_body first [] = []"
| "rich_body first (None # ms) = rich_body False ms"
| "rich_body first (Some t # ms) = (if first then [] else newline) @ t @ rich_body False ms"

definition convertRichResponseMessage :: "(string \<Rightarrow> MessageEventContent) \<Rightarrow> string option list \<Rightarrow> ConvertedPart" where
  "convertRichResponseMessage markdown submessages = plain_part EventMessage (markdown (rich_body True submessages))"

section \<open>Locations\<close>

text \<open>The floating point operations: the sign, the absolute value, and the text with a number of
  decimals. \<open>lm_URL\<close> and the others are empty where they are not set.\<close>

record 'f float_ops =
  fo_negative :: "'f \<Rightarrow> bool"
  fo_abs :: "'f \<Rightarrow> 'f"
  fo_fixed :: "nat \<Rightarrow> 'f \<Rightarrow> string"

record 'f LocationMessage =
  loc_Latitude :: 'f
  loc_Longitude :: 'f
  loc_URL :: string
  loc_Name :: string
  loc_Address :: string
  loc_Thumbnail :: "byte list"

definition degree_sign :: string where
  "degree_sign = map char_of [0xC2 :: nat, 0xB0]"

definition coordinate :: "'f float_ops \<Rightarrow> string \<Rightarrow> string \<Rightarrow> 'f \<Rightarrow> string" where
  "coordinate F positive negative x =
     fo_fixed F 4 (fo_abs F x) @ degree_sign @ '' '' @ (if fo_negative F x then negative else positive)"

definition location_url :: "'f float_ops \<Rightarrow> 'f LocationMessage \<Rightarrow> string" where
  "location_url F msg =
     (if loc_URL msg = []
      then ''https://maps.google.com/?q='' @ fo_fixed F 5 (loc_Latitude msg) @ '','' @ fo_fixed F 5 (loc_Longitude msg)
      else loc_URL msg)"

definition location_name :: "'f float_ops \<Rightarrow> 'f LocationMessage \<Rightarrow> string" where
  "location_name F msg =
     (if loc_Name msg = []
      then coordinate F ''N'' ''S'' (loc_Latitude msg) @ '' '' @ coordinate F ''E'' ''W'' (loc_Longitude msg)
      else loc_Name msg)"

definition location_html :: "string \<Rightarrow> string \<Rightarrow> string \<Rightarrow> string" where
  "location_html url name address =
     (let apostrophe = [char_of (39 :: nat)]
      in ''Location: <a href='' @ apostrophe @ url @ apostrophe @ ''>'' @ name @ ''</a><br>'' @ address)"

text \<open>The thumbnail: its size, dimensions and type with the address it was uploaded to.\<close>

record location_thumbnail =
  lt_Size :: int
  lt_Width :: int
  lt_Height :: int
  lt_MimeType :: string
  lt_URL :: string

definition location_thumb ::
  "(byte list \<Rightarrow> string) \<Rightarrow> (byte list \<Rightarrow> string \<Rightarrow> string \<Rightarrow> gerror + string) \<Rightarrow> (byte list \<Rightarrow> int \<times> int) \<Rightarrow> byte list \<Rightarrow>
   location_thumbnail option" where
  "location_thumb detect upload dimensions data =
     (if data = [] then None
      else (case upload data ''thumb.jpeg'' (detect data) of
              Inl _ \<Rightarrow> None
            | Inr url \<Rightarrow> (let (w, h) = dimensions data in
                Some \<lparr>lt_Size = int (length data), lt_Width = w, lt_Height = h, lt_MimeType = detect data, lt_URL = url\<rparr>)))"

record LocationPart =
  lp_Body :: string
  lp_FormattedBody :: string
  lp_GeoURI :: string
  lp_Thumbnail :: "location_thumbnail option"

definition convertLocationMessage ::
  "'f float_ops \<Rightarrow> (byte list \<Rightarrow> string) \<Rightarrow> (byte list \<Rightarrow> string \<Rightarrow> string \<Rightarrow> gerror + string) \<Rightarrow> (byte list \<Rightarrow> int \<times> int) \<Rightarrow>
   'f LocationMessage \<Rightarrow> LocationPart" where
  "convertLocationMessage F detect upload dimensions msg =
     (let url = location_url F msg; name = location_name F msg
      in \<lparr>lp_Body = ''Location: '' @ name @ newline @ loc_Address msg @ newline @ url,
          lp_FormattedBody = location_html url name (loc_Address msg),
          lp_GeoURI = ''geo:'' @ fo_fixed F 5 (loc_Latitude msg) @ '','' @ fo_fixed F 5 (loc_Longitude msg),
          lp_Thumbnail = location_thumb detect upload dimensions (loc_Thumbnail msg)\<rparr>)"

definition convertLiveLocationMessage :: "string \<Rightarrow> ConvertedPart" where
  "convertLiveLocationMessage caption =
     plain_part EventMessage (notice (''Started sharing live location'' @ (if caption \<noteq> [] then '': '' @ caption else []) @
       newline @ newline @ ''Use the WhatsApp app to see the location.''))"

section \<open>Contacts and albums\<close>

definition convertContactMessage ::
  "(byte list \<Rightarrow> string \<Rightarrow> string \<Rightarrow> gerror + string) \<Rightarrow> string \<Rightarrow> string \<Rightarrow> ConvertedPart" where
  "convertContactMessage upload displayName vcard =
     (let fileName = displayName @ ''.vcf''; mimeType = ''text/vcard''
      in case upload (bytes_of_string vcard) fileName mimeType of
           Inl _ \<Rightarrow> plain_part EventMessage (notice ''Failed to reupload vcard'')
         | Inr mxc \<Rightarrow> plain_part EventMessage (empty_content
             \<lparr>ct_Body := fileName, ct_FileName := fileName, ct_URL := mxc, ct_MsgType := MsgFile,
              ct_Info := empty_info\<lparr>fi_MimeType := mimeType, fi_Size := int (length vcard)\<rparr>\<rparr>))"

definition convertContactsArrayMessage :: ConvertedPart where
  "convertContactsArrayMessage = plain_part EventMessage (notice ''Contact array messages are not yet supported'')"

definition convertAlbumMessage :: "32 word \<Rightarrow> 32 word \<Rightarrow> ConvertedPart" where
  "convertAlbumMessage expectedImageCount expectedVideoCount =
     (let parts = (if expectedImageCount > 0 then [format_nat (unat expectedImageCount) @ '' images''] else []) @
                  (if expectedVideoCount > 0 then [format_nat (unat expectedVideoCount) @ '' videos''] else []);
          partDesc = (if parts \<noteq> [] then '' with '' @ join '' and '' parts else [])
      in plain_part EventMessage (notice (''Sent an album'' @ partDesc @ '':'')))"

section \<open>What is kept of an unknown message\<close>

lemma base64_length: "length (base64 bs) = 4 * ((length bs + 2) div 3)"
proof (induction bs rule: base64.induct)
  case (4 a b c rest)
  have "(length (a # b # c # rest) + 2) div 3 = Suc ((length rest + 2) div 3)"
    using div_add_self2 [of 3 "length rest + 2"] by simp
  with 4 show ?case by simp
qed simp_all

text \<open>The value of a digit, and reading the text back.\<close>

definition base64_value :: "char \<Rightarrow> nat" where
  "base64_value ch =
     (let n = (of_char ch :: nat) in
      if 65 \<le> n \<and> n \<le> 90 then n - 65 else if 97 \<le> n \<and> n \<le> 122 then n - 71
      else if 48 \<le> n \<and> n \<le> 57 then n + 4 else if n = 43 then 62 else 63)"

fun base64_decode :: "string \<Rightarrow> byte list" where
  "base64_decode (p # q # r # s # rest) =
     (if r = CHR ''='' then [of_nat (base64_value p * 4 + base64_value q div 16)]
      else if s = CHR ''='' then
        [of_nat (base64_value p * 4 + base64_value q div 16), of_nat (base64_value q mod 16 * 16 + base64_value r div 4)]
      else
        [of_nat (base64_value p * 4 + base64_value q div 16), of_nat (base64_value q mod 16 * 16 + base64_value r div 4),
         of_nat (base64_value r mod 4 * 64 + base64_value s)] @ base64_decode rest)"
| "base64_decode _ = []"

lemma base64_digit_code:
  "n < 64 \<Longrightarrow> of_char (base64_digit n) = (if n < 26 then 65 + n else if n < 52 then 71 + n
     else if n < 62 then n - 4 else if n = 62 then 43 else 47)"
  by (simp add: base64_digit_def)

lemma base64_digit_inverse: "n < 64 \<Longrightarrow> base64_value (base64_digit n) = n"
  unfolding base64_value_def Let_def base64_digit_code by auto

lemma base64_digit_no_padding:
  assumes "n < 64"
  shows "base64_digit n \<noteq> CHR ''=''"
proof
  assume "base64_digit n = CHR ''=''"
  then have "of_char (base64_digit n) = (61 :: nat)" by simp
  with base64_digit_code [OF assms] show False by (auto split: if_splits)
qed

lemma byte_bound: "unat (a :: byte) < 256"
  using unsigned_less [of a, where ?'a = nat] by simp

lemma byte_high:
  "unat (b :: byte) div 16 div 16 = 0" "unat (b :: byte) div 16 mod 16 = unat b div 16"
  "unat (b :: byte) div 64 div 4 = 0" "unat (b :: byte) div 64 mod 4 = unat b div 64"
  using byte_bound [of b] by (simp_all add: less_mult_imp_div_less)

lemma byte_parts:
  fixes a b c :: byte
  shows "unat a div 4 < 64" "unat a mod 4 * 16 + unat b div 16 < 64" "unat b mod 16 * 4 + unat c div 64 < 64"
    "unat c mod 64 < 64" "unat a mod 4 * 16 < 64" "unat b mod 16 * 4 < 64"
  using byte_bound [of a] byte_bound [of b] byte_bound [of c] by linarith+

lemma byte_joined:
  fixes a b c :: byte
  shows "of_nat (unat a div 4 * 4 + (unat a mod 4 * 16 + unat b div 16) div 16) = a"
    "of_nat (unat a div 4 * 4 + (unat a mod 4 * 16) div 16) = a"
    "of_nat ((unat a mod 4 * 16 + unat b div 16) mod 16 * 16 + (unat b mod 16 * 4 + unat c div 64) div 4) = b"
    "of_nat ((unat a mod 4 * 16 + unat b div 16) mod 16 * 16 + (unat b mod 16 * 4) div 4) = b"
    "of_nat ((unat b mod 16 * 4 + unat c div 64) mod 4 * 64 + unat c mod 64) = c"
proof -
  have pack: "y < k \<Longrightarrow> (x * k + y) div k = x \<and> (x * k + y) mod k = y" for x y k :: nat
    by simp
  have bounds: "unat b div 16 < 16" "unat c div 64 < 4"
    using byte_bound [of b] byte_bound [of c] by linarith+
  note p = pack [OF bounds(1), of "unat a mod 4"] pack [OF bounds(2), of "unat b mod 16"]
  have eqs: "unat a div 4 * 4 + (unat a mod 4 * 16 + unat b div 16) div 16 = unat a"
    "unat a div 4 * 4 + (unat a mod 4 * 16) div 16 = unat a"
    "(unat a mod 4 * 16 + unat b div 16) mod 16 * 16 + (unat b mod 16 * 4 + unat c div 64) div 4 = unat b"
    "(unat a mod 4 * 16 + unat b div 16) mod 16 * 16 + (unat b mod 16 * 4) div 4 = unat b"
    "(unat b mod 16 * 4 + unat c div 64) mod 4 * 64 + unat c mod 64 = unat c"
    using p by simp_all
  show "of_nat (unat a div 4 * 4 + (unat a mod 4 * 16 + unat b div 16) div 16) = a"
    "of_nat (unat a div 4 * 4 + (unat a mod 4 * 16) div 16) = a"
    "of_nat ((unat a mod 4 * 16 + unat b div 16) mod 16 * 16 + (unat b mod 16 * 4 + unat c div 64) div 4) = b"
    "of_nat ((unat a mod 4 * 16 + unat b div 16) mod 16 * 16 + (unat b mod 16 * 4) div 4) = b"
    "of_nat ((unat b mod 16 * 4 + unat c div 64) mod 4 * 64 + unat c mod 64) = c"
    unfolding eqs by simp_all
qed

text \<open>An unknown message is kept whole or not at all: its data is attached exactly when it has at
  most 12285 bytes, and what is attached decodes to the data.\<close>

theorem unknown_message_kept:
  "(case snd (convertUnknownMessage data) of
      None \<Rightarrow> \<not> length data \<le> 12285
    | Some s \<Rightarrow> \<not> 12285 < length data \<and> base64_decode s = data)"
proof -
  have decode: "base64_decode (base64 bs) = bs" for bs
  proof (induction bs rule: base64.induct)
    case (2 a)
    show ?case by (simp add: byte_parts base64_digit_inverse byte_joined byte_high del: of_nat_add of_nat_mult)
  next
    case (3 a b)
    show ?case by (simp add: byte_parts base64_digit_inverse base64_digit_no_padding byte_joined byte_high del: of_nat_add of_nat_mult)
  next
    case (4 a b c rest)
    then show ?case by (simp add: byte_parts base64_digit_inverse base64_digit_no_padding byte_joined byte_high del: of_nat_add of_nat_mult)
  qed simp
  have "length (base64 data) < 16 * 1024 \<longleftrightarrow> length data \<le> 12285"
    unfolding base64_length by presburger
  with decode show ?thesis by (simp add: convertUnknownMessage_def Let_def)
qed

text \<open>A group invite can be accepted exactly when its group is an identifier: then the part has the
  metadata that \<open>accept\<close> needs, with the invite's code and inviter, and the text says how to accept
  it; otherwise there is no metadata and the text ends in the report of an argument too many.\<close>

theorem invite_acceptable:
  "(case parse_jid (ie_L E) (gim_GroupJID msg) of
      Inr j \<Rightarrow>
        (\<exists>meta. snd (convertGroupInviteMessage E info msg caption) = Some meta
          \<and> map_option md_GroupInvite (part_DBMetadata (fst (convertGroupInviteMessage E info msg caption))) = Some (Some meta)
          \<and> gi_JID meta = j \<and> gi_Code meta = gim_InviteCode msg \<and> gi_Inviter meta = to_non_ad (ie_L E) (mi_Sender info))
        \<and> ct_FormattedBody (part_Content (fst (convertGroupInviteMessage E info msg caption))) = inviteMsg E msg caption
    | Inl _ \<Rightarrow>
        snd (convertGroupInviteMessage E info msg caption) = None
        \<and> map_option md_GroupInvite (part_DBMetadata (fst (convertGroupInviteMessage E info msg caption))) = Some None
        \<and> (\<exists>before. ct_FormattedBody (part_Content (fst (convertGroupInviteMessage E info msg caption)))
             = before @ ''%!(EXTRA string='' @ ie_CommandPrefix E @ '')''))"
proof -
  have "\<exists>before. inviteMsgBroken E msg caption = before @ ''%!(EXTRA string='' @ ie_CommandPrefix E @ '')''"
    unfolding inviteMsgBroken_def by (metis append.assoc)
  then show ?thesis
    by (cases "parse_jid (ie_L E) (gim_GroupJID msg)")
      (simp_all only: convertGroupInviteMessage_def groupInviteMeta_def Let_def sum.case option.case, simp_all add: plain_part_def)
qed

end
