(* ===== verification/LinkPreview.thy ===== *)
theory LinkPreview
  imports WaText
begin

text \<open>
  Link previews in both directions, \<open>pkg/msgconv/urlpreview.go\<close>, with the thumbnails of
  \<open>pkg/msgconv/thumbnail.go\<close>. The image codecs, the homeserver's previews, the URL library and the
  transfers of media are arguments.
\<close>

section \<open>Thumbnails\<close>

record 'i codecs =
  cd_decode :: "byte list \<Rightarrow> gerror + 'i"
  cd_size :: "'i \<Rightarrow> int \<times> int"
  cd_scale :: "'i \<Rightarrow> int \<Rightarrow> int \<Rightarrow> 'i"
  cd_png :: "'i \<Rightarrow> gerror + byte list"
  cd_jpeg :: "'i \<Rightarrow> gerror + byte list"

record thumbnail =
  th_Data :: "byte list option"
  th_Width :: int
  th_Height :: int
  th_Error :: "gerror option"

definition createThumbnailAndGetSize :: "'i codecs \<Rightarrow> byte list \<Rightarrow> bool \<Rightarrow> thumbnail outcome" where
  "createThumbnailAndGetSize C source pngThumbnail =
     (case cd_decode C source of
        Inl e \<Rightarrow> Ok \<lparr>th_Data = None, th_Width = 0, th_Height = 0, th_Error = Some (Wrap ''failed to decode thumbnail'' e)\<rparr>
      | Inr src \<Rightarrow>
          (let (width, height) = cd_size C src in
           obind (thumbnail_size width height) (\<lambda>(w, h).
             let img = (if width \<le> thumbnailMaxSize \<and> height \<le> thumbnailMaxSize then src else cd_scale C src w h)
             in case (if pngThumbnail then cd_png C img else cd_jpeg C img) of
                  Inl e \<Rightarrow> Ok \<lparr>th_Data = None, th_Width = w, th_Height = h, th_Error = Some (Wrap ''failed to re-encode thumbnail'' e)\<rparr>
                | Inr data \<Rightarrow> Ok \<lparr>th_Data = Some data, th_Width = w, th_Height = h, th_Error = None\<rparr>)))"

definition createThumbnail :: "'i codecs \<Rightarrow> byte list \<Rightarrow> bool \<Rightarrow> (byte list option \<times> gerror option) outcome" where
  "createThumbnail C source png = map_outcome (\<lambda>t. (th_Data t, th_Error t)) (createThumbnailAndGetSize C source png)"

text \<open>\<open>file\<close> is the encryption of the thumbnail, if it is encrypted.\<close>

definition downloadThumbnail ::
  "'i codecs \<Rightarrow> (string \<Rightarrow> string option \<Rightarrow> gerror + byte list) \<Rightarrow> byte list \<Rightarrow> string \<Rightarrow> string option \<Rightarrow> bool \<Rightarrow>
   (byte list option \<times> gerror option) outcome" where
  "downloadThumbnail C download original url file png =
     (if url = [] \<and> file = None then createThumbnail C original png
      else (case download url file of
              Inl _ \<Rightarrow> createThumbnail C original png
            | Inr data \<Rightarrow> createThumbnail C data png))"

section \<open>Data\<close>

record BeeperLinkPreview =
  bp_MatchedURL :: string
  bp_Title :: string
  bp_Description :: string
  bp_Type :: string
  bp_ImageURL :: string
  bp_ImageEncryption :: "string option"
  bp_ImageWidth :: int
  bp_ImageHeight :: int
  bp_ImageSize :: int
  bp_ImageType :: string

text \<open>The preview fields of an extended text message. The getters give the empty text for fields
  that are not set.\<close>

record ExtendedTextPreview =
  xt_MatchedText :: string
  xt_Title :: string
  xt_Description :: string
  xt_Video :: bool
  xt_ThumbnailKeys :: "FailedMediaKeys option"
  xt_JPEGThumbnail :: "byte list option"
  xt_ThumbnailWidth :: "32 word"
  xt_ThumbnailHeight :: "32 word"

definition no_preview :: ExtendedTextPreview where
  "no_preview = \<lparr>xt_MatchedText = [], xt_Title = [], xt_Description = [], xt_Video = False, xt_ThumbnailKeys = None,
     xt_JPEGThumbnail = None, xt_ThumbnailWidth = 0, xt_ThumbnailHeight = 0\<rparr>"

definition empty_preview :: BeeperLinkPreview where
  "empty_preview = \<lparr>bp_MatchedURL = [], bp_Title = [], bp_Description = [], bp_Type = [], bp_ImageURL = [],
     bp_ImageEncryption = None, bp_ImageWidth = 0, bp_ImageHeight = 0, bp_ImageSize = 0, bp_ImageType = []\<rparr>"

text \<open>
  \<open>pv_parse_url\<close> gives the host of a URL and the URL with another host; \<open>pv_get_preview\<close> is absent
  when the homeserver has no previews. A download of a thumbnail that fails gives no data.
\<close>

record 'i preview_env =
  pv_codecs :: "'i codecs"
  pv_download_thumbnail :: "FailedMediaKeys \<Rightarrow> byte list option"
  pv_detect :: "byte list \<Rightarrow> string"
  pv_upload :: "byte list \<Rightarrow> string \<Rightarrow> string \<times> string option"
  pv_download :: "string \<Rightarrow> string option \<Rightarrow> gerror + byte list"
  pv_upload_thumbnail :: "byte list \<Rightarrow> gerror + FailedMediaKeys"
  pv_FetchURLPreviews :: bool
  pv_get_preview :: "(string \<Rightarrow> gerror + BeeperLinkPreview) option"
  pv_parse_url :: "string \<Rightarrow> gerror + string \<times> (string \<Rightarrow> string)"
  pv_to_ascii :: "string \<Rightarrow> gerror + string"

section \<open>To Matrix\<close>

definition preview_thumbnail :: "'i preview_env \<Rightarrow> ExtendedTextPreview \<Rightarrow> byte list option" where
  "preview_thumbnail E msg =
     (case (case xt_ThumbnailKeys msg of None \<Rightarrow> None | Some keys \<Rightarrow> pv_download_thumbnail E keys) of
        None \<Rightarrow> xt_JPEGThumbnail msg
      | Some data \<Rightarrow> Some data)"

definition preview_dimensions :: "'i preview_env \<Rightarrow> ExtendedTextPreview \<Rightarrow> byte list \<Rightarrow> int \<times> int" where
  "preview_dimensions E msg data =
     (let w = uint (xt_ThumbnailWidth msg); h = uint (xt_ThumbnailHeight msg)
      in if h = 0 \<or> w = 0
         then (case cd_decode (pv_codecs E) data of Inl _ \<Rightarrow> (w, h) | Inr src \<Rightarrow> cd_size (pv_codecs E) src)
         else (w, h))"

definition preview_image :: "'i preview_env \<Rightarrow> ExtendedTextPreview \<Rightarrow> BeeperLinkPreview \<Rightarrow> BeeperLinkPreview" where
  "preview_image E msg p =
     (case preview_thumbnail E msg of
        None \<Rightarrow> p
      | Some data \<Rightarrow>
          (let (w, h) = preview_dimensions E msg data;
               mime = pv_detect E data;
               (url, enc) = pv_upload E data mime
           in p\<lparr>bp_ImageWidth := w, bp_ImageHeight := h, bp_ImageSize := int (length data), bp_ImageType := mime,
                bp_ImageURL := url, bp_ImageEncryption := enc\<rparr>))"

definition convertURLPreviewToBeeper :: "'i preview_env \<Rightarrow> ExtendedTextPreview \<Rightarrow> BeeperLinkPreview list" where
  "convertURLPreviewToBeeper E msg =
     (if xt_MatchedText msg = [] then []
      else (let p = preview_image E msg (empty_preview
              \<lparr>bp_MatchedURL := xt_MatchedText msg, bp_Title := xt_Title msg, bp_Description := xt_Description msg\<rparr>)
            in [if xt_Video msg then p\<lparr>bp_Type := ''video.other''\<rparr> else p]))"

section \<open>Finding a link\<close>

text \<open>The regular expression: a scheme, a host without slashes, underscores and stars, and a path.\<close>

definition in_host :: "char \<Rightarrow> bool" where
  "in_host c \<longleftrightarrow> c \<notin> set regex_space \<and> c \<noteq> CHR ''/'' \<and> c \<noteq> CHR ''_'' \<and> c \<noteq> CHR ''*''"

definition link_path :: "string \<Rightarrow> string" where
  "link_path s = (if s \<noteq> [] \<and> hd s = CHR ''/'' then takeWhile (\<lambda>c. c \<notin> set regex_space) s else [])"

definition link_after_scheme :: "string \<Rightarrow> string option" where
  "link_after_scheme s =
     (let host = takeWhile in_host s in if host = [] then None else Some (host @ link_path (drop (length host) s)))"

definition link_at :: "string \<Rightarrow> string option" where
  "link_at s =
     (if has_prefix s ''https://'' then map_option ((@) ''https://'') (link_after_scheme (drop 8 s))
      else if has_prefix s ''http://'' then map_option ((@) ''http://'') (link_after_scheme (drop 7 s))
      else None)"

fun find_link :: "string \<Rightarrow> string" where
  "find_link [] = []"
| "find_link (c # s) = (case link_at (c # s) of Some l \<Rightarrow> l | None \<Rightarrow> find_link s)"

section \<open>To WhatsApp\<close>

definition fetched_preview :: "'i preview_env \<Rightarrow> string \<Rightarrow> BeeperLinkPreview option" where
  "fetched_preview E body =
     (case pv_get_preview E of
        None \<Rightarrow> None
      | Some get \<Rightarrow>
          (let matchedURL = find_link body in
           if matchedURL = [] then None
           else (case pv_parse_url E matchedURL of
                   Inl _ \<Rightarrow> None
                 | Inr (host, with_host) \<Rightarrow>
                     (case pv_to_ascii E host of
                        Inl _ \<Rightarrow> None
                      | Inr host' \<Rightarrow>
                          (case get (with_host host') of
                             Inl _ \<Rightarrow> None
                           | Inr p \<Rightarrow> Some (p\<lparr>bp_MatchedURL := matchedURL\<rparr>))))))"

text \<open>The previews of an event: none given, or a list, of which the first is used.\<close>

definition chosen_preview :: "'i preview_env \<Rightarrow> string \<Rightarrow> BeeperLinkPreview list option \<Rightarrow> BeeperLinkPreview option" where
  "chosen_preview E body previews =
     (case previews of
        Some [] \<Rightarrow> None
      | Some (p # _) \<Rightarrow> Some p
      | None \<Rightarrow> if pv_FetchURLPreviews E then fetched_preview E body else None)"

definition preview_text :: "BeeperLinkPreview \<Rightarrow> ExtendedTextPreview \<Rightarrow> ExtendedTextPreview" where
  "preview_text p dest = dest
     \<lparr>xt_MatchedText := bp_MatchedURL p,
      xt_Description := (if bp_Description p \<noteq> [] then bp_Description p else xt_Description dest),
      xt_Title := (if bp_Title p \<noteq> [] then bp_Title p else xt_Title dest),
      xt_Video := (has_prefix (bp_Type p) ''video.'' \<or> xt_Video dest)\<rparr>"

definition preview_upload :: "'i preview_env \<Rightarrow> BeeperLinkPreview \<Rightarrow> ExtendedTextPreview \<Rightarrow> ExtendedTextPreview outcome" where
  "preview_upload E p dest =
     (case pv_download E (bp_ImageURL p) (bp_ImageEncryption p) of
        Inl _ \<Rightarrow> Ok dest
      | Inr data \<Rightarrow>
          (case pv_upload_thumbnail E data of
             Inl _ \<Rightarrow> Ok dest
           | Inr keys \<Rightarrow>
               obind (createThumbnailAndGetSize (pv_codecs E) data False) (\<lambda>t.
                 let sized = (\<lambda>w h. Ok (dest\<lparr>xt_ThumbnailKeys := Some keys, xt_JPEGThumbnail := th_Data t,
                       xt_ThumbnailWidth := word_of_int w, xt_ThumbnailHeight := word_of_int h\<rparr>))
                 in if bp_ImageHeight p > 0 \<and> bp_ImageWidth p > 0 then sized (bp_ImageWidth p) (bp_ImageHeight p)
                    else if th_Width t > 0 \<and> th_Height t > 0 then sized (th_Width t) (th_Height t)
                    else Ok (dest\<lparr>xt_ThumbnailKeys := Some keys, xt_JPEGThumbnail := th_Data t\<rparr>))))"

definition convertURLPreviewToWhatsApp ::
  "'i preview_env \<Rightarrow> string \<Rightarrow> BeeperLinkPreview list option \<Rightarrow> ExtendedTextPreview \<Rightarrow> (bool \<times> ExtendedTextPreview) outcome" where
  "convertURLPreviewToWhatsApp E body previews dest =
     (case chosen_preview E body previews of
        None \<Rightarrow> Ok (False, dest)
      | Some p \<Rightarrow>
          if bp_MatchedURL p = [] then Ok (False, dest)
          else (let dest' = preview_text p dest in
                map_outcome (Pair True)
                  (if bp_ImageURL p \<noteq> [] \<or> bp_ImageEncryption p \<noteq> None then preview_upload E p dest' else Ok dest')))"

section \<open>Thumbnails are made\<close>

lemma thumbnail_size_total:
  assumes "0 \<le> w" and "0 \<le> h"
  shows "\<exists>w' h'. thumbnail_size w h = Ok (w', h')"
proof (cases "w \<le> thumbnailMaxSize \<and> h \<le> thumbnailMaxSize \<or> w = h")
  case True
  then show ?thesis by (auto simp: thumbnail_size_def)
next
  case False
  then have "w < h \<Longrightarrow> h div thumbnailMaxSize \<noteq> 0" "\<not> w < h \<Longrightarrow> w div thumbnailMaxSize \<noteq> 0"
    using assms by (auto simp: thumbnailMaxSize_def div_zero_iff)
  with False show ?thesis by (cases "w < h") (simp_all add: thumbnail_size_def)
qed

definition sizes_ok :: "'i codecs \<Rightarrow> bool" where
  "sizes_ok C \<longleftrightarrow> (\<forall>img. 0 \<le> fst (cd_size C img) \<and> 0 \<le> snd (cd_size C img))"

lemma createThumbnail_total:
  assumes "sizes_ok C"
  shows "\<exists>t. createThumbnailAndGetSize C source png = Ok t"
proof (cases "cd_decode C source")
  case (Inr src)
  obtain w h where wh: "cd_size C src = (w, h)" by (cases "cd_size C src")
  then have "0 \<le> w" "0 \<le> h" using assms unfolding sizes_ok_def by (metis fst_conv, metis snd_conv)
  then obtain w' h' where "thumbnail_size w h = Ok (w', h')" using thumbnail_size_total by blast
  with Inr wh show ?thesis by (simp add: createThumbnailAndGetSize_def Let_def split: sum.split)
qed (simp add: createThumbnailAndGetSize_def)

section \<open>Round trip\<close>

text \<open>What the image of a preview does not change.\<close>

definition same_text :: "ExtendedTextPreview \<Rightarrow> ExtendedTextPreview \<Rightarrow> bool" where
  "same_text a b \<longleftrightarrow> xt_MatchedText a = xt_MatchedText b \<and> xt_Title a = xt_Title b
     \<and> xt_Description a = xt_Description b \<and> xt_Video a = xt_Video b"

lemma preview_upload_text:
  assumes "sizes_ok (pv_codecs E)"
  shows "\<exists>x. preview_upload E p dest = Ok x \<and> same_text x dest"
proof (cases "pv_download E (bp_ImageURL p) (bp_ImageEncryption p)")
  case (Inr data)
  show ?thesis
  proof (cases "pv_upload_thumbnail E data")
    case (Inr keys)
    obtain t where t: "createThumbnailAndGetSize (pv_codecs E) data False = Ok t"
      using createThumbnail_total [OF assms] by blast
    define sized where "sized w h = dest\<lparr>xt_ThumbnailKeys := Some keys, xt_JPEGThumbnail := th_Data t,
      xt_ThumbnailWidth := word_of_int w, xt_ThumbnailHeight := word_of_int h\<rparr>" for w h :: int
    define bare where "bare = dest\<lparr>xt_ThumbnailKeys := Some keys, xt_JPEGThumbnail := th_Data t\<rparr>"
    have "preview_upload E p dest = Ok
        (if bp_ImageHeight p > 0 \<and> bp_ImageWidth p > 0 then sized (bp_ImageWidth p) (bp_ImageHeight p)
         else if th_Width t > 0 \<and> th_Height t > 0 then sized (th_Width t) (th_Height t) else bare)"
      unfolding preview_upload_def sized_def bare_def
      by (simp only: \<open>pv_download E _ _ = Inr data\<close> Inr t sum.case obind.simps Let_def if_distrib [of Ok])
    moreover have "same_text (sized w h) dest" "same_text bare dest" for w h
      by (simp_all add: same_text_def sized_def bare_def)
    ultimately show ?thesis by simp
  qed (simp add: preview_upload_def same_text_def \<open>pv_download E _ _ = Inr data\<close>)
qed (simp add: preview_upload_def same_text_def)

lemma preview_upload_size:
  assumes "preview_upload E p dest = Ok x" and "xt_ThumbnailKeys dest = None" and "xt_ThumbnailKeys x = Some keys"
    and "0 < bp_ImageWidth p" and "0 < bp_ImageHeight p"
  shows "xt_ThumbnailWidth x = word_of_int (bp_ImageWidth p) \<and> xt_ThumbnailHeight x = word_of_int (bp_ImageHeight p)"
  using assms by (auto simp: preview_upload_def Let_def outcome_simps split: sum.splits)

lemma preview_image_fields:
  "bp_MatchedURL (preview_image E m p) = bp_MatchedURL p" "bp_Title (preview_image E m p) = bp_Title p"
  "bp_Description (preview_image E m p) = bp_Description p" "bp_Type (preview_image E m p) = bp_Type p"
  by (simp_all add: preview_image_def case_prod_beta Let_def split: option.split)

text \<open>C19: A link preview survives the way to WhatsApp and back: it is never lost and never stops the
  message, also when its image cannot be transferred; its link, title and description are
  the same, it is a video preview exactly when it was one, and the size of an image that arrived is
  the one given in the event, where that fits into 32 bits.\<close>

theorem preview_roundtrip:
  assumes "sizes_ok (pv_codecs E)" and "bp_MatchedURL p \<noteq> []"
  shows "\<exists>x q. convertURLPreviewToWhatsApp E body (Some (p # ps)) no_preview = Ok (True, x)
    \<and> convertURLPreviewToBeeper E' x = [q]
    \<and> bp_MatchedURL q = bp_MatchedURL p \<and> bp_Title q = bp_Title p \<and> bp_Description q = bp_Description p
    \<and> (bp_Type q = ''video.other'') = has_prefix (bp_Type p) ''video.''
    \<and> (xt_ThumbnailKeys x \<noteq> None \<and> preview_thumbnail E' x \<noteq> None
        \<and> 0 < bp_ImageWidth p \<and> bp_ImageWidth p < 2 ^ 32 \<and> 0 < bp_ImageHeight p \<and> bp_ImageHeight p < 2 ^ 32
       \<longrightarrow> bp_ImageWidth q = bp_ImageWidth p \<and> bp_ImageHeight q = bp_ImageHeight p)"
proof -
  let ?d = "preview_text p no_preview"
  let ?u = "if bp_ImageURL p \<noteq> [] \<or> bp_ImageEncryption p \<noteq> None then preview_upload E p ?d else Ok ?d"
  have d: "xt_MatchedText ?d = bp_MatchedURL p" "xt_Title ?d = bp_Title p" "xt_Description ?d = bp_Description p"
    "xt_Video ?d = has_prefix (bp_Type p) ''video.''" "xt_ThumbnailKeys ?d = None"
    by (simp_all add: preview_text_def no_preview_def)
  obtain x where x: "?u = Ok x" and x_text: "xt_MatchedText x = bp_MatchedURL p" "xt_Title x = bp_Title p"
    "xt_Description x = bp_Description p" "xt_Video x = has_prefix (bp_Type p) ''video.''"
    using preview_upload_text [OF assms(1), of p ?d] d unfolding same_text_def by (cases "bp_ImageURL p \<noteq> [] \<or> bp_ImageEncryption p \<noteq> None") auto
  define q0 where "q0 = preview_image E' x (empty_preview
      \<lparr>bp_MatchedURL := xt_MatchedText x, bp_Title := xt_Title x, bp_Description := xt_Description x\<rparr>)"
  define q where "q = (if xt_Video x then q0\<lparr>bp_Type := ''video.other''\<rparr> else q0)"
  have "convertURLPreviewToWhatsApp E body (Some (p # ps)) no_preview = Ok (True, x)"
    using assms(2) x unfolding convertURLPreviewToWhatsApp_def chosen_preview_def by (simp add: Let_def split: if_splits)
  moreover have "convertURLPreviewToBeeper E' x = [q]"
    using assms(2) x_text(1) by (simp add: convertURLPreviewToBeeper_def q_def q0_def)
  moreover have "bp_MatchedURL q = bp_MatchedURL p \<and> bp_Title q = bp_Title p \<and> bp_Description q = bp_Description p
      \<and> (bp_Type q = ''video.other'') = has_prefix (bp_Type p) ''video.''"
    using x_text by (simp add: q_def q0_def preview_image_fields empty_preview_def)
  moreover have "bp_ImageWidth q = bp_ImageWidth p \<and> bp_ImageHeight q = bp_ImageHeight p"
    if "xt_ThumbnailKeys x \<noteq> None" "preview_thumbnail E' x \<noteq> None"
      "0 < bp_ImageWidth p" "bp_ImageWidth p < 2 ^ 32" "0 < bp_ImageHeight p" "bp_ImageHeight p < 2 ^ 32"
  proof -
    have "?u = preview_upload E p ?d" using that(1) x d(5) by (auto split: if_splits)
    then have "preview_upload E p ?d = Ok x" using x by simp
    from preview_upload_size [OF this d(5)] that
    have "uint (xt_ThumbnailWidth x) = bp_ImageWidth p" "uint (xt_ThumbnailHeight x) = bp_ImageHeight p"
      by (auto simp: uint_word_of_int)
    then show ?thesis
      using that by (auto simp: q_def q0_def preview_image_def preview_dimensions_def case_prod_beta Let_def)
  qed
  ultimately show ?thesis by blast
qed

definition sample_preview_env :: "unit preview_env" where
  "sample_preview_env = \<lparr>pv_codecs = \<lparr>cd_decode = (\<lambda>_. Inr ()), cd_size = (\<lambda>_. (300, 200)), cd_scale = (\<lambda>_ _ _. ()),
       cd_png = (\<lambda>_. Inr [1]), cd_jpeg = (\<lambda>_. Inr [2])\<rparr>,
     pv_download_thumbnail = (\<lambda>_. Some [3]), pv_detect = (\<lambda>_. ''image/jpeg''), pv_upload = (\<lambda>_ _. (''mxc://a'', None)),
     pv_download = (\<lambda>_ _. Inr [4]),
     pv_upload_thumbnail = (\<lambda>_. Inr \<lparr>fk_Key = [], fk_Length = 1, fk_Type = [], fk_SHA256 = [], fk_EncSHA256 = [], fk_DirectPath = ''/t'', fk_MimeType = []\<rparr>),
     pv_FetchURLPreviews = False, pv_get_preview = None, pv_parse_url = (\<lambda>_. Inl (Err ''url'')), pv_to_ascii = Inr\<rparr>"

theorem preview_roundtrip_witness:
  "\<exists>x q. convertURLPreviewToWhatsApp sample_preview_env [] (Some [empty_preview\<lparr>bp_MatchedURL := ''https://a.b'', bp_Title := ''A''\<rparr>])
       no_preview = Ok (True, x)
     \<and> convertURLPreviewToBeeper sample_preview_env x = [q] \<and> bp_Title q = ''A''"
proof -
  have "sizes_ok (pv_codecs sample_preview_env)" by (simp add: sizes_ok_def sample_preview_env_def)
  from preview_roundtrip [OF this, of "empty_preview\<lparr>bp_MatchedURL := ''https://a.b'', bp_Title := ''A''\<rparr>" "[]" "[]" sample_preview_env]
  show ?thesis by auto
qed

lemma find_link_examples:
  "find_link ''see https://a.b/c?d, or not'' = ''https://a.b/c?d,''"
  "find_link ''_http://a.b_'' = ''http://a.b''"
  "find_link ''http:/a'' = []"
  by code_simp+

end
