(* ===== verification/Analytics.thy ===== *)
theory Analytics
  imports WaMessage
begin

text \<open>
  What the bridge reports about undecryptable messages and retry receipts,
  \<open>pkg/connector/analytics.go\<close>. \<open>mac\<close> is HMAC-SHA256 of nothing under a key: the code
  makes a hash, writes nothing to it and asks for its sum. Go's \<open>hash.Hash.Sum\<close> appends the
  checksum to its argument.
\<close>

section \<open>Obfuscated numbers\<close>

definition hash_sum :: "(byte list \<Rightarrow> byte list) \<Rightarrow> byte list \<Rightarrow> byte list \<Rightarrow> byte list" where
  "hash_sum mac key b = b @ mac key"

definition obfuscateJID :: "jid_lib \<Rightarrow> (byte list \<Rightarrow> byte list) \<Rightarrow> string \<Rightarrow> jid \<Rightarrow> string outcome" where
  "obfuscateJID L mac mxid j =
     (if Server j = HiddenUserServer then Ok (jid_string L j)
      else
        let randomNumber = be_value (take 4 (hash_sum mac (bytes_of_string mxid) (bytes_of_string (User j))))
        in if length (User j) < 2 then Panic
           else Ok (''+'' @ take 1 (User j) @ ''-'' @ format_nat randomNumber @ ''-''
                    @ drop (length (User j) - 2) (User j) @ '':'' @ format_nat (unat (Device j))))"

section \<open>Events\<close>

datatype metric = MStr string | MNat nat

type_synonym tracked = "string \<times> (string \<times> metric) list"

definition trackUndecryptable :: "bool \<Rightarrow> string \<Rightarrow> string \<Rightarrow> tracked" where
  "trackUndecryptable isUnavailable messageID decryptFailMode =
     (''WhatsApp undecryptable message'',
      [(''messageID'', MStr messageID),
       (''undecryptableType'', MStr (if isUnavailable then ''unavailable'' else ''error'')),
       (''decryptFailMode'', MStr decryptFailMode)])"

definition trackUndecryptableResolved :: "string \<Rightarrow> string \<Rightarrow> tracked" where
  "trackUndecryptableResolved messageID unavailableRequestID =
     (''WhatsApp undecryptable message resolved'',
      [(''messageID'', MStr messageID),
       (''resolveType'', MStr (if unavailableRequestID \<noteq> [] then ''phone'' else ''sender''))])"

text \<open>A retry is always accepted; without the message there is nothing to resend.\<close>

definition trackFoundRetry ::
  "jid_lib \<Rightarrow> (byte list \<Rightarrow> byte list) \<Rightarrow> string \<Rightarrow> jid \<Rightarrow> string \<Rightarrow> nat \<Rightarrow> (tracked \<times> bool) outcome" where
  "trackFoundRetry L mac mxid sender messageID retryCount =
     obind (obfuscateJID L mac mxid sender) (\<lambda>requester.
     Ok ((''WhatsApp incoming retry (accepted)'',
          [(''requester'', MStr requester), (''messageID'', MStr messageID), (''retryCount'', MNat retryCount)]), True))"

definition trackNotFoundRetry ::
  "jid_lib \<Rightarrow> (byte list \<Rightarrow> byte list) \<Rightarrow> string \<Rightarrow> jid \<Rightarrow> string \<Rightarrow> (tracked \<times> 'm option) outcome" where
  "trackNotFoundRetry L mac mxid requester messageID =
     obind (obfuscateJID L mac mxid requester) (\<lambda>r.
     Ok ((''WhatsApp incoming retry (message not found)'',
          [(''requester'', MStr r), (''messageID'', MStr messageID)]), None))"

section \<open>Reading the number back\<close>

text \<open>The first four characters of the user, read from the obfuscated form alone.\<close>

definition reveal :: "string \<Rightarrow> string" where
  "reveal s = string_of_bytes (be_bytes 4 (decimal_value (takeWhile (\<lambda>c. c \<noteq> CHR ''-'') (drop 3 s))))"

lemma be_bytes_be_value: "length bs = k \<Longrightarrow> be_bytes k (be_value bs) = bs"
proof (induction bs arbitrary: k rule: rev_induct)
  case Nil
  then show ?case by simp
next
  case (snoc b bs)
  then obtain m where k: "k = Suc m" "length bs = m" by auto
  have "unat b < 2 ^ LENGTH(8)" by (rule unsigned_less)
  then have "be_value (bs @ [b]) div 256 = be_value bs" "be_value (bs @ [b]) mod 256 = unat b"
    by (simp_all add: be_value_snoc)
  then have "of_nat (be_value (bs @ [b])) = b"
    by (simp only: word_unat_eq_iff unat_of_nat_byte)
  with \<open>be_value (bs @ [b]) div 256 = be_value bs\<close> show ?case
    using snoc.IH [OF k(2)] by (simp add: k(1))
qed

lemma takeWhile_digits: "list_all is_digit ds \<Longrightarrow> takeWhile (\<lambda>c. c \<noteq> CHR ''-'') (ds @ CHR ''-'' # rest) = ds"
  by (induction ds) (auto simp: is_digit_def)

lemma obfuscateJID_long:
  assumes "Server j \<noteq> HiddenUserServer" and long: "4 \<le> length (User j)"
  shows "obfuscateJID L mac mxid j =
    Ok (''+'' @ take 1 (User j) @ ''-'' @ format_nat (be_value (bytes_of_string (take 4 (User j)))) @ ''-''
        @ drop (length (User j) - 2) (User j) @ '':'' @ format_nat (unat (Device j)))"
proof -
  have "take 4 (hash_sum mac key (bytes_of_string (User j))) = bytes_of_string (take 4 (User j))" for key
    using long by (simp add: hash_sum_def bytes_of_string_def take_map)
  with assms show ?thesis by (simp add: obfuscateJID_def Let_def)
qed

text \<open>Everything but the digits in the middle of a number is in its obfuscated form, for every
  checksum: the head of the number is in it twice.\<close>

lemma reveal_obfuscated:
  assumes "Server j \<noteq> HiddenUserServer" and long: "4 \<le> length (User j)" and o: "obfuscateJID L mac mxid j = Ok s"
  shows "reveal s = take 4 (User j)"
proof -
  let ?n = "be_value (bytes_of_string (take 4 (User j)))"
  obtain c cs where u: "User j = c # cs" using long by (cases "User j") auto
  have "s = CHR ''+'' # c # CHR ''-'' # format_nat ?n @ CHR ''-''
      # drop (length (User j) - 2) (User j) @ '':'' @ format_nat (unat (Device j))"
    using o unfolding obfuscateJID_long [OF assms(1,2)] by (auto simp: u)
  then have "takeWhile (\<lambda>c. c \<noteq> CHR ''-'') (drop 3 s) = format_nat ?n"
    using takeWhile_digits [OF format_nat_digits] by (simp add: numeral_3_eq_3)
  moreover have "be_bytes 4 ?n = bytes_of_string (take 4 (User j))"
    using long by (intro be_bytes_be_value) simp
  ultimately show ?thesis by (simp add: reveal_def)
qed

section \<open>Properties\<close>

text \<open>The obfuscation of a phone number hides nothing of its head. For a number of at least
  four characters the reported text does not depend on the user it is reported for, and its
  first four characters can be read from the text; the checksum that should replace them
  is never used.\<close>

theorem obfuscation_reveals_number:
  assumes "Server j \<noteq> HiddenUserServer" "4 \<le> length (User j)"
  shows "\<exists>s. reveal s = take 4 (User j) \<and> drop (length (User j) - 2) (User j) \<noteq> []
    \<and> (\<forall>mac mxid. obfuscateJID L mac mxid j = Ok s)"
proof -
  obtain s where s: "\<And>mac mxid. obfuscateJID L mac mxid j = Ok s"
    using obfuscateJID_long [OF assms] by blast
  with reveal_obfuscated [OF assms, of L] assms(2) show ?thesis by fastforce
qed

theorem obfuscation_reveals_number_witness:
  "\<exists>s. reveal s = ''4915'' \<and> (\<forall>mac mxid. obfuscateJID sample_jid_lib mac mxid \<lparr>User = ''491512345678'', Server = DefaultUserServer, Device = 0\<rparr> = Ok s)"
  using obfuscation_reveals_number [of "\<lparr>User = ''491512345678'', Server = DefaultUserServer, Device = 0\<rparr>" sample_jid_lib]
  by auto

text \<open>A retry receipt of a sender whose user is shorter than two characters, like the account of
  WhatsApp itself (\<open>0\<close>), panics; every other one is answered.\<close>

lemma retry_receipt_panics:
  "trackFoundRetry L mac mxid sender i n = Panic \<longleftrightarrow> Server sender \<noteq> HiddenUserServer \<and> length (User sender) < 2"
  "(trackNotFoundRetry L mac mxid sender i :: (tracked \<times> 'm option) outcome) = Panic
     \<longleftrightarrow> Server sender \<noteq> HiddenUserServer \<and> length (User sender) < 2"
  by (simp_all add: trackFoundRetry_def trackNotFoundRetry_def obfuscateJID_def Let_def obind_eq_Panic)

lemma retry_accepted:
  "trackFoundRetry L mac mxid sender i n = Ok (t, b) \<Longrightarrow> b"
  "trackNotFoundRetry L mac mxid sender i = Ok (t, m) \<Longrightarrow> m = None"
  by (auto simp: trackFoundRetry_def trackNotFoundRetry_def outcome_simps)

end
