(* ===== verification/RemoteEvents.thy ===== *)
theory RemoteEvents
  imports Events
begin

text \<open>
  The four kinds of remote events of \<open>pkg/connector/events.go\<close> side by side: which portal,
  sender, message and type the framework sees for each. An embedded event answers the methods
  that the embedding one does not override.
\<close>

section \<open>The events\<close>

datatype remote_event =
    WAMessageEvent wa_event
  | WANowDecryptableMessage wa_event "DBMessage list"
  | WAUndecryptableMessage MessageInfo bool
  | WAMediaRetry MediaRetry

fun event_info :: "remote_event \<Rightarrow> MessageInfo option" where
  "event_info (WAMessageEvent e) = Some (ev_Info e)"
| "event_info (WANowDecryptableMessage e parts) = Some (ev_Info e)"
| "event_info (WAUndecryptableMessage info viewOnce) = Some info"
| "event_info (WAMediaRetry m) = None"

definition ShouldCreatePortal :: "remote_event \<Rightarrow> bool" where
  "ShouldCreatePortal ev \<longleftrightarrow> event_info ev \<noteq> None"

fun remote_GetPortalKey :: "'g event_env \<Rightarrow> remote_event \<Rightarrow> PortalKey" where
  "remote_GetPortalKey E (WAMediaRetry m) = makeWAPortalKey (ee_L E) (ee_client E) (mt_ChatID m)"
| "remote_GetPortalKey E (WAMessageEvent e) = GetPortalKey E (ev_Info e)"
| "remote_GetPortalKey E (WANowDecryptableMessage e parts) = GetPortalKey E (ev_Info e)"
| "remote_GetPortalKey E (WAUndecryptableMessage info viewOnce) = GetPortalKey E info"

fun remote_GetSender :: "'g event_env \<Rightarrow> remote_event \<Rightarrow> EventSender" where
  "remote_GetSender E (WAMediaRetry m) = makeEventSender (ee_L E) (ee_client E) (getRealSender (ee_L E) (ee_client E) m)"
| "remote_GetSender E (WAMessageEvent e) = GetSender E (ev_Info e)"
| "remote_GetSender E (WANowDecryptableMessage e parts) = GetSender E (ev_Info e)"
| "remote_GetSender E (WAUndecryptableMessage info viewOnce) = GetSender E info"

fun remote_GetTimestamp :: "remote_event \<Rightarrow> gotime" where
  "remote_GetTimestamp (WAMediaRetry m) = mt_Timestamp m"
| "remote_GetTimestamp (WAMessageEvent e) = mi_Timestamp (ev_Info e)"
| "remote_GetTimestamp (WANowDecryptableMessage e parts) = mi_Timestamp (ev_Info e)"
| "remote_GetTimestamp (WAUndecryptableMessage info viewOnce) = mi_Timestamp info"

definition remote_GetStreamOrder :: "remote_event \<Rightarrow> int option" where
  "remote_GetStreamOrder ev = map_option GetStreamOrder (event_info ev)"

definition remote_GetID :: "jid_lib \<Rightarrow> remote_event \<Rightarrow> string option" where
  "remote_GetID L ev = map_option (GetID L) (event_info ev)"

definition GetTransactionID :: "jid_lib \<Rightarrow> remote_event \<Rightarrow> string option" where
  "GetTransactionID L ev = remote_GetID L ev"

fun remote_GetType :: "remote_event \<Rightarrow> RemoteEventType" where
  "remote_GetType (WAMessageEvent e) = GetType e"
| "remote_GetType (WANowDecryptableMessage e parts) = RemoteEventEdit"
| "remote_GetType (WAUndecryptableMessage info viewOnce) = RemoteEventMessage"
| "remote_GetType (WAMediaRetry m) = RemoteEventEdit"

text \<open>The message an event is about, where the event has the method.\<close>

fun remote_GetTargetMessage :: "'g event_env \<Rightarrow> remote_event \<Rightarrow> string option" where
  "remote_GetTargetMessage E (WAMessageEvent e) = Some (GetTargetMessage E e)"
| "remote_GetTargetMessage E (WANowDecryptableMessage e parts) = Some (GetID (ee_L E) (ev_Info e))"
| "remote_GetTargetMessage E (WAUndecryptableMessage info viewOnce) = None"
| "remote_GetTargetMessage E (WAMediaRetry m) = Some (retry_target (ee_L E) (ee_client E) m)"

fun GetTargetDBMessage :: "remote_event \<Rightarrow> DBMessage list option" where
  "GetTargetDBMessage (WANowDecryptableMessage e parts) = Some parts"
| "GetTargetDBMessage ev = None"

text \<open>Of a reaction: the device it came from; WhatsApp reactions have no emoji identifier.\<close>

definition GetReactionDBMetadata :: "wa_event \<Rightarrow> 16 word" where
  "GetReactionDBMetadata e = Device (mi_Sender (ev_Info e))"

definition GetRemovedEmojiID :: "wa_event \<Rightarrow> string" where
  "GetRemovedEmojiID e = []"

text \<open>The sub event that a message makes of a notice it replaces.\<close>

definition upsert_sub_event :: "DBMessage list \<Rightarrow> wa_event \<Rightarrow> remote_event list outcome" where
  "upsert_sub_event existing e =
     obind (HandleExisting existing e) (\<lambda>(e', parts).
       Ok (case parts of None \<Rightarrow> [] | Some ps \<Rightarrow> [WANowDecryptableMessage e' ps]))"

section \<open>Identifiers\<close>

lemma jid_string_inject:
  assumes "jid_lib_ok L" "plain_jid a" "plain_jid b"
  shows "jid_string L a = jid_string L b \<longleftrightarrow> a = b"
  using parse_jid_string [OF assms(1,2)] parse_jid_string [OF assms(1,3)] by (metis sum.inject(2))

lemma MakeMessageID_sender_inject:
  assumes "jid_lib_ok L" "plain_jid (a\<lparr>Device := 0\<rparr>)" "plain_jid (b\<lparr>Device := 0\<rparr>)"
  shows "MakeMessageID L chat a i = MakeMessageID L chat b i \<longleftrightarrow> a\<lparr>Device := 0\<rparr> = b\<lparr>Device := 0\<rparr>"
  by (simp add: MakeMessageID_def to_non_ad [OF assms(1)] jid_string_inject [OF assms])

lemma replacement_targets_notice:
  assumes "upsert_sub_event existing e = Ok subs"
  shows "\<forall>ev\<in>set subs. remote_GetType ev = RemoteEventEdit \<and> GetTargetDBMessage ev = Some existing
    \<and> remote_GetTargetMessage E ev = remote_GetID (ee_L E) (WAMessageEvent e)
    \<and> remote_GetPortalKey E ev = remote_GetPortalKey E (WAMessageEvent e)
    \<and> remote_GetSender E ev = remote_GetSender E (WAMessageEvent e)"
  using assms
  by (cases existing) (auto simp: upsert_sub_event_def HandleExisting_def remote_GetID_def split: if_splits)

section \<open>Properties\<close>

text \<open>A retry that the phone sends for a message of the chat: it repeats the chat and the ID,
  and either names the sender or leaves it empty, as in direct chats.\<close>

definition retry_for :: "MessageInfo \<Rightarrow> MediaRetry \<Rightarrow> bool" where
  "retry_for info m \<longleftrightarrow> mt_ChatID m = mi_Chat info \<and> mt_MessageID m = mi_ID info \<and> mt_FromMe m = mi_IsFromMe info
     \<and> (mt_SenderID m = mi_Sender info \<or> mt_SenderID m = EmptyJID)"

definition sender_named :: "MessageInfo \<Rightarrow> MediaRetry \<Rightarrow> bool" where
  "sender_named info m \<longleftrightarrow> mt_SenderID m = mi_Sender info \<and> Server (mi_Sender info) \<noteq> OtherServer []"

text \<open>C35: Which media retries reach their message. A retry finds the message when it names a
  sender other than the user, and, without a sender, in a direct chat with a phone number or bot
  that is the sender. For a message of the user it finds the message only where the message is
  stored under the phone number of the user, not where it is stored under the user's LID; and a
  retry without a sender in a chat that is neither (a chat with a LID) finds nothing.\<close>

theorem media_retry_finds_message:
  assumes L: "jid_lib_ok L" and retry: "retry_for info m"
    and plain: "plain_jid ((mi_Sender info)\<lparr>Device := 0\<rparr>)" "plain_jid ((cl_JID c)\<lparr>Device := 0\<rparr>)"
      "plain_jid ((mi_Chat info)\<lparr>Device := 0\<rparr>)"
    and sender: "Server (mi_Sender info) \<noteq> OtherServer []"
  shows "retry_target L c m = GetID L info \<longleftrightarrow>
    (if mi_IsFromMe info then (mi_Sender info)\<lparr>Device := 0\<rparr> = (cl_JID c)\<lparr>Device := 0\<rparr>
     else sender_named info m
       \<or> (Server (mi_Chat info) \<in> {DefaultUserServer, BotServer} \<and> (mi_Sender info)\<lparr>Device := 0\<rparr> = (mi_Chat info)\<lparr>Device := 0\<rparr>))"
proof -
  let ?s = "getRealSender L c m"
  have e: "plain_jid (EmptyJID\<lparr>Device := 0\<rparr>)" "Server EmptyJID = OtherServer []" by (simp_all add: EmptyJID_def plain_jid_EmptyJID [unfolded EmptyJID_def])
  have s: "?s = (if mi_IsFromMe info then (cl_JID c)\<lparr>Device := 0\<rparr>
      else if Server (mt_SenderID m) = OtherServer [] \<and> Server (mi_Chat info) \<in> {DefaultUserServer, BotServer}
      then (mi_Chat info)\<lparr>Device := 0\<rparr> else mt_SenderID m)"
    using retry by (auto simp: getRealSender_def to_non_ad [OF L] jid_is_empty [OF L] retry_for_def)
  have p: "plain_jid (?s\<lparr>Device := 0\<rparr>)"
    using plain e(1) retry unfolding s by (auto simp: retry_for_def)
  have "retry_target L c m = GetID L info \<longleftrightarrow> ?s\<lparr>Device := 0\<rparr> = (mi_Sender info)\<lparr>Device := 0\<rparr>"
    using retry MakeMessageID_sender_inject [OF L p plain(1)]
    by (simp add: retry_target_def GetID_def retry_for_def)
  also have "\<dots> \<longleftrightarrow> (if mi_IsFromMe info then (mi_Sender info)\<lparr>Device := 0\<rparr> = (cl_JID c)\<lparr>Device := 0\<rparr>
     else sender_named info m
       \<or> (Server (mi_Chat info) \<in> {DefaultUserServer, BotServer} \<and> (mi_Sender info)\<lparr>Device := 0\<rparr> = (mi_Chat info)\<lparr>Device := 0\<rparr>))"
  proof (cases "mt_SenderID m = mi_Sender info")
    case True
    then show ?thesis using sender unfolding s by (auto simp: sender_named_def)
  next
    case False
    with retry have z: "mt_SenderID m = EmptyJID" by (simp add: retry_for_def)
    have "EmptyJID\<lparr>Device := 0\<rparr> \<noteq> (mi_Sender info)\<lparr>Device := 0\<rparr>"
      using sender by (metis e(2) jid.select_convs(2) jid.surjective jid.update_convs(3))
    then show ?thesis using False unfolding s by (auto simp: sender_named_def e(2) z)
  qed
  finally show ?thesis .
qed

definition sample_lid_info :: MessageInfo where
  "sample_lid_info = sample_info\<lparr>mi_Chat := \<lparr>User = ''77'', Server = HiddenUserServer, Device = 0\<rparr>,
     mi_Sender := \<lparr>User = ''77'', Server = HiddenUserServer, Device = 0\<rparr>, mi_IsFromMe := False\<rparr>"

definition sample_retry_of :: "MessageInfo \<Rightarrow> MediaRetry" where
  "sample_retry_of info = \<lparr>mt_MessageID = mi_ID info, mt_ChatID = mi_Chat info, mt_SenderID = EmptyJID,
     mt_FromMe = mi_IsFromMe info, mt_Timestamp = 0\<rparr>"

theorem media_retry_finds_message_witness:
  "retry_target sample_jid_lib sample_client (sample_retry_of sample_lid_info) \<noteq> GetID sample_jid_lib sample_lid_info"
proof -
  have "plain_jid ((mi_Sender sample_lid_info)\<lparr>Device := 0\<rparr>)" "plain_jid ((mi_Chat sample_lid_info)\<lparr>Device := 0\<rparr>)"
    "plain_jid ((cl_JID sample_client)\<lparr>Device := 0\<rparr>)"
    by (simp_all add: sample_lid_info_def sample_client_def plain_jid_def plain_user_def)
  then show ?thesis
    using media_retry_finds_message [OF sample_jid_lib_ok, of sample_lid_info "sample_retry_of sample_lid_info" sample_client]
    by (simp add: retry_for_def sample_retry_of_def sample_lid_info_def sender_named_def EmptyJID_def)
qed

end
