(* ===== verification/ResyncLoop.thy ===== *)
theory ResyncLoop
  imports StartChat Transitions
begin

text \<open>
  The background loop of \<open>pkg/connector/userinfo.go\<close> that resyncs queued users and chats, as a
  step relation: handlers put into the queue at any time, the loop takes the whole queue when its
  timer has fired. The state remembers what was accepted and what each round took.
\<close>

section \<open>Entering the queue\<close>

definition ResyncJitterSeconds :: int where "ResyncJitterSeconds = 3600"

text \<open>A ghost as the framework has it.\<close>

record ghost_row =
  gh_ID :: string
  gh_Name :: string
  gh_NameSet :: bool
  gh_AvatarID :: string
  gh_LastSync :: gotime

text \<open>The framework asks for the info of a ghost: a ghost with a name is only queued.\<close>

definition GetUserInfo :: "user_env \<Rightarrow> gotime \<Rightarrow> ghost_row \<Rightarrow> resync_state \<Rightarrow> UserInfo option outcome \<times> resync_state" where
  "GetUserInfo V now g s =
     (if gh_Name g \<noteq> [] \<and> gh_NameSet g
      then (Ok None, EnqueueGhostResync (ue_L V) now (gh_ID g) (gh_LastSync g) s)
      else (obind (getUserInfo V (ParseUserID (ue_L V) (gh_ID g)) (gh_AvatarID g = [])) (\<lambda>ui. Ok (Some ui)), s))"

section \<open>The loop\<close>

record resync_loop =
  rl_state :: resync_state
  rl_timer :: gotime
  rl_accepted :: "(jid \<times> resync_item) list"
  rl_rounds :: "(gotime \<times> (jid \<times> resync_item) list) list"

definition start_resync_loop :: "gotime \<Rightarrow> int \<Rightarrow> resync_loop" where
  "start_resync_loop now jitter =
     (let next_at = now + ResyncLoopInterval - jitter * second
      in \<lparr>rl_state = \<lparr>rs_queue = [], rs_nextResync = next_at\<rparr>, rl_timer = next_at, rl_accepted = [], rl_rounds = []\<rparr>)"

text \<open>What the queue of the later state has beyond that of the earlier one was accepted.\<close>

definition accept_into :: "resync_state \<Rightarrow> resync_loop \<Rightarrow> resync_loop" where
  "accept_into s r = r\<lparr>rl_state := s, rl_accepted := rl_accepted r @ drop (length (rs_queue (rl_state r))) (rs_queue s)\<rparr>"

definition resync_round :: "gotime \<Rightarrow> resync_loop \<Rightarrow> resync_loop" where
  "resync_round now r =
     (let (queue, s) = rotateResyncQueue now (rl_state r)
      in r\<lparr>rl_state := s, rl_timer := rs_nextResync s, rl_rounds := rl_rounds r @ [(now, queue)]\<rparr>)"

text \<open>\<open>round_work\<close> is what a round does with its queue.\<close>

definition round_work :: "resync_env \<Rightarrow> gotime \<times> (jid \<times> resync_item) list \<Rightarrow> (string list \<times> (string \<times> UserInfo) list) outcome" where
  "round_work V r = (if snd r = [] then Ok ([], []) else doGhostResync V (fst r) (snd r))"

inductive resync_step :: "jid_lib \<Rightarrow> resync_loop \<Rightarrow> resync_loop \<Rightarrow> bool" for L where
  queue_ghost: "resync_step L r (accept_into (EnqueueGhostResync L now g last_sync (rl_state r)) r)"
| queue_portal: "resync_step L r (accept_into (EnqueuePortalResync L now p last_sync allowDM (rl_state r)) r)"
| timer_fires: "rl_timer r \<le> now \<Longrightarrow> resync_step L r (resync_round now r)"

inductive resync_reachable :: "jid_lib \<Rightarrow> gotime \<Rightarrow> int \<Rightarrow> resync_loop \<Rightarrow> bool" for L t0 jitter where
  starts: "resync_reachable L t0 jitter (start_resync_loop t0 jitter)"
| steps: "resync_reachable L t0 jitter r \<Longrightarrow> resync_step L r r' \<Longrightarrow> resync_reachable L t0 jitter r'"

section \<open>Invariant\<close>

text \<open>Two rounds are at least an interval apart, and the timer is an interval after the last.\<close>

fun spaced :: "int \<Rightarrow> gotime list \<Rightarrow> bool" where
  "spaced d (a # b # ts) \<longleftrightarrow> a + d \<le> b \<and> spaced d (b # ts)"
| "spaced d ts \<longleftrightarrow> True"

lemma spaced_snoc: "spaced d (ts @ [t]) \<longleftrightarrow> spaced d ts \<and> (ts \<noteq> [] \<longrightarrow> last ts + d \<le> t)"
  by (induction d ts rule: spaced.induct) auto

definition loop_inv :: "gotime \<Rightarrow> int \<Rightarrow> resync_loop \<Rightarrow> bool" where
  "loop_inv t0 jitter r \<longleftrightarrow>
     rl_accepted r = concat (map snd (rl_rounds r)) @ rs_queue (rl_state r)
   \<and> queue_ok (rl_state r) \<and> rs_nextResync (rl_state r) = rl_timer r
   \<and> (\<forall>p\<in>set (rl_rounds r). distinct (map fst (snd p)))
   \<and> spaced ResyncLoopInterval (map fst (rl_rounds r))
   \<and> rl_timer r = (if rl_rounds r = [] then t0 + ResyncLoopInterval - jitter * second
                   else fst (last (rl_rounds r)) + ResyncLoopInterval)"

lemma enqueue_extends: "rs_queue (enqueue j item s) = rs_queue s @ (if map_of (rs_queue s) j = None then [(j, item)] else [])"
  "rs_nextResync (enqueue j item s) = rs_nextResync s"
  by (simp_all add: enqueue_def)

lemma loop_inv_accept:
  assumes "loop_inv t0 jitter r" and "rs_queue s = rs_queue (rl_state r) @ new"
    and "rs_nextResync s = rs_nextResync (rl_state r)" and "queue_ok s"
  shows "loop_inv t0 jitter (accept_into s r)"
  using assms by (simp add: loop_inv_def accept_into_def)

lemma loop_inv_enqueue:
  assumes "loop_inv t0 jitter r" and "s = rl_state r \<or> (\<exists>j item. s = enqueue j item (rl_state r))"
  shows "loop_inv t0 jitter (accept_into s r)"
proof -
  have "queue_ok (rl_state r)" using assms(1) by (simp add: loop_inv_def)
  with assms(2) show ?thesis
    using loop_inv_accept [OF assms(1), of s] enqueue_ok by (auto simp: enqueue_extends)
qed

lemma loop_inv_round:
  assumes "loop_inv t0 jitter r" and "rl_timer r \<le> now"
  shows "loop_inv t0 jitter (resync_round now r)"
proof -
  have "rl_rounds r \<noteq> [] \<Longrightarrow> last (map fst (rl_rounds r)) + ResyncLoopInterval \<le> now"
    using assms by (simp add: loop_inv_def last_map)
  then show ?thesis
    using assms by (auto simp: loop_inv_def resync_round_def rotateResyncQueue_def spaced_snoc queue_ok_def)
qed

lemma loop_inv_step:
  assumes "loop_inv t0 jitter r" and "resync_step L r r'"
  shows "loop_inv t0 jitter r'"
  using assms(2)
proof cases
  case (queue_ghost now g last_sync)
  have "EnqueueGhostResync L now g last_sync (rl_state r) = rl_state r
      \<or> (\<exists>j item. EnqueueGhostResync L now g last_sync (rl_state r) = enqueue j item (rl_state r))"
    unfolding EnqueueGhostResync_def by auto
  from loop_inv_enqueue [OF assms(1) this] show ?thesis unfolding queue_ghost .
next
  case (queue_portal now p last_sync allowDM)
  have "EnqueuePortalResync L now p last_sync allowDM (rl_state r) = rl_state r
      \<or> (\<exists>j item. EnqueuePortalResync L now p last_sync allowDM (rl_state r) = enqueue j item (rl_state r))"
    unfolding EnqueuePortalResync_def Let_def by auto
  from loop_inv_enqueue [OF assms(1) this] show ?thesis unfolding queue_portal .
next
  case (timer_fires now)
  then show ?thesis using loop_inv_round [OF assms(1)] by simp
qed

interpretation resync_system: invariant_system "\<lambda>r. r = start_resync_loop t0 jitter" "resync_step L" "loop_inv t0 jitter"
  for L t0 jitter
proof
  show "r = start_resync_loop t0 jitter \<Longrightarrow> loop_inv t0 jitter r" for r
    by (simp add: loop_inv_def start_resync_loop_def Let_def queue_ok_def)
  show "resync_step L r r' \<Longrightarrow> loop_inv t0 jitter r \<Longrightarrow> loop_inv t0 jitter r'" for r r'
    using loop_inv_step by blast
qed

lemma resync_reachable_steps: "resync_reachable L t0 jitter r \<Longrightarrow> (resync_step L)\<^sup>*\<^sup>* (start_resync_loop t0 jitter) r"
  by (induction rule: resync_reachable.induct) auto

section \<open>Properties\<close>


text \<open>A ghost that is queued twice and a round.\<close>

definition sample_resync_loop :: resync_loop where
  "sample_resync_loop =
     (let put = (\<lambda>r. accept_into (EnqueueGhostResync sample_jid_lib (10 ^ 18) ''358'' 0 (rl_state r)) r)
      in resync_round (4 * 3600 * second) (put (put (start_resync_loop 0 60))))"


text \<open>A ghost that has a name is never fetched at once.\<close>

lemma GetUserInfo_named: "gh_Name g \<noteq> [] \<Longrightarrow> gh_NameSet g \<Longrightarrow> fst (GetUserInfo V now g s) = Ok None"
  by (simp add: GetUserInfo_def)

end
