(* ===== verification/Provisioning.thy ===== *)
theory Provisioning
  imports StartChat
begin

text \<open>
  The provisioning API of the older bridge: \<open>cmd/mautrix-whatsapp/legacyprovision.go\<close> and
  its routes in \<open>main.go\<close>. The framework's answers are fields of \<open>prov_env\<close>: the ghost of a
  user ID, the portal of a key (its room ID, empty before it has a room), the room that
  \<open>CreateMatrixRoom\<close> gives it, and the portal that exists already.
\<close>

section \<open>Requests and responses\<close>

datatype prov_request = GetContacts | GetResolve string | PostPM string

record ghost_view =
  gv_MXID :: string
  gv_Name :: string
  gv_AvatarMXC :: string

record OtherUserInfo =
  ou_MXID :: string
  ou_JID :: jid
  ou_Name :: string
  ou_Avatar :: string

record PortalInfo =
  pi_RoomID :: string
  pi_OtherUser :: OtherUserInfo
  pi_JustCreated :: bool

record contact_view =
  cv_Found :: bool
  cv_Contact :: ContactInfo
  cv_AvatarURL :: string

text \<open>\<open>AlreadyAnswered\<close>: the framework found no login and has answered itself. \<open>RespondWithError\<close>
  carries the error and the text for an error that is not the framework's own.\<close>

datatype prov_response =
    AlreadyAnswered
  | ErrorJSON nat string string
  | ContactsJSON "(jid \<times> contact_view) list"
  | RespondWithError gerror string
  | PortalInfoJSON PortalInfo

datatype prov_call = GetPortalByKey PortalKey | CreateMatrixRoom PortalKey

record prov_env =
  pe_start :: start_env
  pe_has_login :: bool
  pe_contacts :: "gerror + (jid \<times> bool \<times> ContactInfo) list"
  pe_existing_ghost :: "string \<Rightarrow> ghost_view option"
  pe_ghost :: "string \<Rightarrow> ghost_view"
  pe_portal :: "PortalKey \<Rightarrow> gerror + string"
  pe_create_room :: "PortalKey \<Rightarrow> gerror + string"
  pe_existing_portal :: "PortalKey \<Rightarrow> string option"

section \<open>Handlers\<close>

definition legacyProvContacts :: "prov_env \<Rightarrow> prov_response" where
  "legacyProvContacts E =
     (if \<not> pe_has_login E then AlreadyAnswered
      else case pe_contacts E of
             Inl _ \<Rightarrow> ErrorJSON 500 ''Internal server error while fetching contact list'' ''failed to get contacts''
           | Inr cs \<Rightarrow> ContactsJSON (map (\<lambda>(j, found, c). (j,
               \<lparr>cv_Found = found, cv_Contact = c,
                cv_AvatarURL = (case pe_existing_ghost E (MakeUserID j) of None \<Rightarrow> [] | Some g \<Rightarrow> gv_AvatarMXC g)\<rparr>)) cs))"

definition portal_info :: "prov_env \<Rightarrow> string \<Rightarrow> string \<Rightarrow> PortalInfo" where
  "portal_info E userID roomID =
     \<lparr>pi_RoomID = roomID,
      pi_OtherUser = \<lparr>ou_MXID = gv_MXID (pe_ghost E userID), ou_JID = ParseUserID (st_L (pe_start E)) userID,
        ou_Name = gv_Name (pe_ghost E userID), ou_Avatar = gv_AvatarMXC (pe_ghost E userID)\<rparr>,
      pi_JustCreated = False\<rparr>"

definition str_contains :: "string \<Rightarrow> string \<Rightarrow> bool" where
  "str_contains s sub \<longleftrightarrow> str_index s sub \<noteq> None"

definition legacyProvResolveIdentifier :: "prov_env \<Rightarrow> string \<Rightarrow> string \<Rightarrow> (prov_call, prov_response) traced" where
  "legacyProvResolveIdentifier E path number =
     (if \<not> pe_has_login E then tlift (Ok AlreadyAnswered)
      else case ResolveIdentifier (pe_start E) number of
        Panic \<Rightarrow> tlift Panic
      | Fail e \<Rightarrow> tlift (Ok (RespondWithError e ''Internal error resolving identifier''))
      | Ok (userID, chat) \<Rightarrow>
          (let key = ccr_PortalKey chat in
           if str_contains path ''/v1/pm/'' then
             (case pe_portal E key of
                Inl e \<Rightarrow> ([GetPortalByKey key], Ok (RespondWithError e ''Internal error getting portal by key''))
              | Inr _ \<Rightarrow>
                 (case pe_create_room E key of
                    Inl e \<Rightarrow> ([GetPortalByKey key, CreateMatrixRoom key],
                              Ok (RespondWithError e ''Internal error creating matrix room for portal''))
                  | Inr roomID \<Rightarrow> ([GetPortalByKey key, CreateMatrixRoom key], Ok (PortalInfoJSON (portal_info E userID roomID)))))
           else tlift (Ok (PortalInfoJSON (portal_info E userID
                  (case pe_existing_portal E key of None \<Rightarrow> [] | Some roomID \<Rightarrow> roomID))))))"

text \<open>The routes: the decoded path of a request under the prefix of the API.\<close>

definition request_path :: "string \<Rightarrow> prov_request \<Rightarrow> string" where
  "request_path prefix r = prefix @ (case r of GetContacts \<Rightarrow> ''/v1/contacts''
     | GetResolve number \<Rightarrow> ''/v1/resolve_identifier/'' @ number
     | PostPM number \<Rightarrow> ''/v1/pm/'' @ number)"

definition provision :: "prov_env \<Rightarrow> string \<Rightarrow> prov_request \<Rightarrow> (prov_call, prov_response) traced" where
  "provision E prefix r =
     (case r of GetContacts \<Rightarrow> tlift (Ok (legacyProvContacts E))
      | GetResolve number \<Rightarrow> legacyProvResolveIdentifier E (request_path prefix r) number
      | PostPM number \<Rightarrow> legacyProvResolveIdentifier E (request_path prefix r) number)"

section \<open>Paths\<close>

lemma str_contains_middle: "sub \<noteq> [] \<Longrightarrow> str_contains (p @ sub @ s) sub"
proof (induction p)
  case Nil
  then show ?case by (cases sub) (simp_all add: str_contains_def has_prefix_def)
qed (simp add: str_contains_def)

lemma has_prefix_front:
  assumes "has_prefix (s @ t) (p @ [c])" "c \<notin> set t"
  shows "has_prefix s (p @ [c])"
proof -
  obtain rest where r: "s @ t = p @ c # rest" using has_prefixD [OF assms(1)] by auto
  have "length p < length (s @ t)" "(s @ t) ! length p = c" unfolding r by simp_all
  with assms(2) have "length p < length s" by (auto simp: nth_append split: if_splits)
  then have "take (length (p @ [c])) s = take (length (p @ [c])) (s @ t)" by simp
  then show ?thesis using assms(1) unfolding has_prefix_def by (simp only:)
qed

lemma str_contains_front:
  assumes "str_contains (s @ t) (p @ [c])" "c \<notin> set t"
  shows "str_contains s (p @ [c])"
  using assms
proof (induction s)
  case Nil
  have "str_index t (p @ [c]) = None" using Nil(2)
  proof (induction t)
    case (Cons x t)
    have "\<not> has_prefix (x # t) (p @ [c])"
      using has_prefix_front [of "[]" "x # t" p c] Cons.prems by (auto simp: has_prefix_def)
    then show ?case using Cons by simp
  qed simp
  with Nil show ?case by (simp add: str_contains_def)
next
  case (Cons x s)
  show ?case
  proof (cases "has_prefix (x # s) (p @ [c])")
    case False
    then have "\<not> has_prefix ((x # s) @ t) (p @ [c])" using has_prefix_front Cons.prems(2) by blast
    with Cons False show ?thesis by (simp add: str_contains_def)
  qed (simp add: str_contains_def)
qed

lemma resolve_path_not_pm:
  assumes "CHR ''/'' \<notin> set number"
  shows "\<not> str_contains (''/_matrix/provision/v1/resolve_identifier/'' @ number) ''/v1/pm/''"
proof
  have pm: "''/v1/pm/'' = ''/v1/pm'' @ [CHR ''/'']" by simp
  assume "str_contains (''/_matrix/provision/v1/resolve_identifier/'' @ number) ''/v1/pm/''"
  then have "str_contains ''/_matrix/provision/v1/resolve_identifier/'' (''/v1/pm'' @ [CHR ''/''])"
    unfolding pm by (rule str_contains_front) (rule assms)
  moreover have "\<not> str_contains ''/_matrix/provision/v1/resolve_identifier/'' (''/v1/pm'' @ [CHR ''/''])"
    by code_simp
  ultimately show False by contradiction
qed

section \<open>Properties\<close>

definition rooms_created :: "prov_call list \<Rightarrow> PortalKey list" where
  "rooms_created = List.map_filter (\<lambda>c. case c of CreateMatrixRoom k \<Rightarrow> Some k | _ \<Rightarrow> None)"

text \<open>Which requests make a room. Starting a private chat makes the room of the portal that
  the number resolves to, at most one and never that of a LID, and a success names the room the
  portal got; looking contacts or a number without a slash up makes none and names the room that
  exists, or none. Numbers that do not resolve make none in either case.\<close>

theorem provisioning_creates_rooms:
  assumes "client_ok (st_client (pe_start E))" and "jid_lib_ok (st_L (pe_start E))"
    and slash: "CHR ''/'' \<notin> set number"
  shows "rooms_created (fst (provision E ''/_matrix/provision'' GetContacts)) = []
    \<and> fst (provision E ''/_matrix/provision'' (GetResolve number)) = []
    \<and> (rooms_created (fst (provision E ''/_matrix/provision'' (PostPM number))) = []
       \<or> (\<exists>u r j. ResolveIdentifier (pe_start E) number = Ok (u, r) \<and> Server j \<noteq> HiddenUserServer
            \<and> u = MakeUserID j
            \<and> rooms_created (fst (provision E ''/_matrix/provision'' (PostPM number)))
                = [makeWAPortalKey (st_L (pe_start E)) (st_client (pe_start E)) j]))
    \<and> (\<forall>info. snd (provision E ''/_matrix/provision'' (PostPM number)) = Ok (PortalInfoJSON info)
        \<longrightarrow> (\<exists>u r. ResolveIdentifier (pe_start E) number = Ok (u, r)
              \<and> pe_create_room E (ccr_PortalKey r) = Inr (pi_RoomID info)
              \<and> ou_JID (pi_OtherUser info) = ParseUserID (st_L (pe_start E)) u))"
proof (intro conjI allI impI)
  note rooms = rooms_created_def List.map_filter_simps
  have pm: "str_contains (request_path p (PostPM number)) ''/v1/pm/''" for p
    unfolding request_path_def prov_request.case by (rule str_contains_middle) simp
  show "rooms_created (fst (provision E ''/_matrix/provision'' GetContacts)) = []"
    by (simp add: provision_def rooms)
  have "\<not> str_contains (request_path ''/_matrix/provision'' (GetResolve number)) ''/v1/pm/''"
    using resolve_path_not_pm [OF slash] by (simp add: request_path_def)
  then show "fst (provision E ''/_matrix/provision'' (GetResolve number)) = []"
    by (simp add: provision_def legacyProvResolveIdentifier_def Let_def split: outcome.split)
  show "rooms_created (fst (provision E ''/_matrix/provision'' (PostPM number))) = []
       \<or> (\<exists>u r j. ResolveIdentifier (pe_start E) number = Ok (u, r) \<and> Server j \<noteq> HiddenUserServer
            \<and> u = MakeUserID j
            \<and> rooms_created (fst (provision E ''/_matrix/provision'' (PostPM number)))
                = [makeWAPortalKey (st_L (pe_start E)) (st_client (pe_start E)) j])"
  proof (cases "ResolveIdentifier (pe_start E) number")
    case (Ok ur)
    obtain u r where ur: "ur = (u, r)" by (cases ur)
    with Ok obtain j where "Server j \<noteq> HiddenUserServer" "u = MakeUserID j"
        "ccr_PortalKey r = makeWAPortalKey (st_L (pe_start E)) (st_client (pe_start E)) j"
      using ResolveIdentifier_not_lid [OF _ assms(1,2)] by blast
    then show ?thesis using Ok ur
      by (auto simp: provision_def legacyProvResolveIdentifier_def Let_def pm rooms split: sum.split)
  qed (simp_all add: provision_def legacyProvResolveIdentifier_def rooms)
  fix info assume "snd (provision E ''/_matrix/provision'' (PostPM number)) = Ok (PortalInfoJSON info)"
  then show "\<exists>u r. ResolveIdentifier (pe_start E) number = Ok (u, r)
              \<and> pe_create_room E (ccr_PortalKey r) = Inr (pi_RoomID info)
              \<and> ou_JID (pi_OtherUser info) = ParseUserID (st_L (pe_start E)) u"
    by (auto simp: provision_def legacyProvResolveIdentifier_def Let_def pm portal_info_def
        split: outcome.splits sum.splits if_splits)
qed

definition sample_prov_env :: prov_env where
  "sample_prov_env = \<lparr>pe_start = sample_start_env, pe_has_login = True, pe_contacts = Inr [],
     pe_existing_ghost = (\<lambda>_. None), pe_ghost = (\<lambda>_. \<lparr>gv_MXID = ''@wa:x'', gv_Name = ''N'', gv_AvatarMXC = []\<rparr>),
     pe_portal = (\<lambda>_. Inr []), pe_create_room = (\<lambda>_. Inr ''!room''), pe_existing_portal = (\<lambda>_. None)\<rparr>"

theorem provisioning_creates_rooms_witness:
  "snd (provision sample_prov_env ''/_matrix/provision'' (PostPM ''44''))
     = Ok (PortalInfoJSON (portal_info sample_prov_env ''44'' ''!room''))
   \<and> rooms_created (fst (provision sample_prov_env ''/_matrix/provision'' (PostPM ''44'')))
     = [makeWAPortalKey sample_jid_lib sample_client \<lparr>User = ''44'', Server = DefaultUserServer, Device = 0\<rparr>]
   \<and> fst (provision sample_prov_env ''/_matrix/provision'' (GetResolve ''44'')) = []"
proof -
  let ?j = "\<lparr>User = ''44'', Server = DefaultUserServer, Device = 0\<rparr>"
  have env: "st_client sample_start_env = sample_client" "st_L sample_start_env = sample_jid_lib"
    "pe_start sample_prov_env = sample_start_env"
    by (simp_all add: sample_start_env_def sample_prov_env_def)
  have r: "ResolveIdentifier sample_start_env ''44'' = Ok (''44'', makeCreateChatResponse sample_start_env ?j ?j)"
    by (simp add: ResolveIdentifier_def validateIdentifer_def startChatLIDToPN_def has_suffix_def has_prefix_def
        sample_start_env_def looksEmaily_def BotPrefix_def LIDPrefix_def MakeUserID_def Let_def)
  have pm: "str_contains (request_path ''/_matrix/provision'' (PostPM ''44'')) ''/v1/pm/''"
    by (simp add: request_path_def str_contains_def has_prefix_def)
  have "provision sample_prov_env ''/_matrix/provision'' (PostPM ''44'')
      = ([GetPortalByKey (makeWAPortalKey sample_jid_lib sample_client ?j),
          CreateMatrixRoom (makeWAPortalKey sample_jid_lib sample_client ?j)],
         Ok (PortalInfoJSON (portal_info sample_prov_env ''44'' ''!room'')))"
    using pm by (simp add: provision_def legacyProvResolveIdentifier_def r env(3))
      (simp add: sample_prov_env_def makeCreateChatResponse_def env(1,2) Let_def)
  moreover have "CHR ''/'' \<notin> set ''44''" "jid_lib_ok (st_L (pe_start sample_prov_env))"
    "client_ok (st_client (pe_start sample_prov_env))"
    by (simp_all add: env sample_jid_lib_ok)
  ultimately show ?thesis
    using provisioning_creates_rooms [of sample_prov_env "''44''"] by (simp add: rooms_created_def List.map_filter_simps)
qed

text \<open>The check for a private chat looks at the whole decoded path: a slash that is encoded in
  the number of a lookup makes the lookup a request that starts a chat.\<close>

lemma encoded_slash_starts_chat: "str_contains (request_path p (GetResolve (a @ ''/v1/pm/'' @ b))) ''/v1/pm/''"
  using str_contains_middle [of "''/v1/pm/''" "p @ ''/v1/resolve_identifier/'' @ a" b] by (simp add: request_path_def)

end
