(* ===== verification/BridgeStates.thy ===== *)
theory BridgeStates
  imports Connection
begin

text \<open>
  The texts that are shown for the error codes of bridge states, registered in
  \<open>pkg/connector/handlewhatsapp.go\<close>. The framework uses the text of a code for a state that
  has an error and no message of its own.
\<close>

section \<open>Texts\<close>

definition WANotConnected :: string where "WANotConnected = ''wa-not-connected''"
definition WAConnecting :: string where "WAConnecting = ''wa-connecting''"

definition BridgeStateHumanErrors :: "(string \<times> string) list" where
  "BridgeStateHumanErrors =
     [(WALoggedOut, ''You were logged out from another device. Relogin to continue using the bridge.''),
      (WANotLoggedIn, ''You're not logged into WhatsApp. Relogin to continue using the bridge.''),
      (WAMainDeviceGone, ''Your phone was logged out from WhatsApp. Relogin to continue using the bridge.''),
      (WAUnknownLogout, ''You were logged out for an unknown reason. Relogin to continue using the bridge.''),
      (WANotConnected, ''You're not connected to WhatsApp''),
      (WAConnecting, ''Reconnecting to WhatsApp...''),
      (WAKeepaliveTimeout, ''The WhatsApp web servers are not responding. The bridge will try to reconnect.''),
      (WAPhoneOffline, ''Your phone hasn't been seen in over 12 days. The bridge is currently connected, but will get disconnected if you don't open the app soon.''),
      (WAConnectionFailed, ''Connecting to the WhatsApp web servers failed.''),
      (WADisconnected, ''Disconnected from WhatsApp. Trying to reconnect.''),
      (WAClientOutdated, ''Connect failure: 405 client outdated. Bridge must be updated.''),
      (WAStreamReplaced, ''Stream replaced: the bridge was started in another location.'')]"

definition human_error :: "string \<Rightarrow> string option" where
  "human_error code = map_of BridgeStateHumanErrors code"

definition shown_text :: "BridgeState \<Rightarrow> string" where
  "shown_text b =
     (if bs_Message b \<noteq> [] then bs_Message b
      else case human_error (bs_Error b) of None \<Rightarrow> [] | Some t \<Rightarrow> t)"

section \<open>Every state is explained\<close>

lemma code_of_known:
  "human_error WALoggedOut \<noteq> None" "human_error WAMainDeviceGone \<noteq> None" "human_error WAUnknownLogout \<noteq> None"
  "human_error WADisconnected \<noteq> None" "human_error WAStreamReplaced \<noteq> None" "human_error WAKeepaliveTimeout \<noteq> None"
  "human_error WAClientOutdated \<noteq> None" "human_error WAPhoneOffline \<noteq> None" "human_error WANotLoggedIn \<noteq> None"
  "human_error WAConnectionFailed \<noteq> None"
  unfolding human_error_def map_of_eq_None_iff by (simp_all add: BridgeStateHumanErrors_def)

lemma texts_not_empty: "human_error code = Some t \<Longrightarrow> t \<noteq> []"
proof -
  have "\<forall>p\<in>set BridgeStateHumanErrors. snd p \<noteq> []" by (simp add: BridgeStateHumanErrors_def)
  moreover assume "human_error code = Some t"
  then have "(code, t) \<in> set BridgeStateHumanErrors" unfolding human_error_def by (rule map_of_SomeD)
  ultimately show "t \<noteq> []" by (metis snd_conv)
qed

lemma shown_text_known: "human_error (bs_Error b) \<noteq> None \<Longrightarrow> shown_text b \<noteq> []"
  using texts_not_empty by (auto simp: shown_text_def)

lemma notify_sent [simp]: "wc_sent (notifyOfflineSyncWaiter r s) = wc_sent s"
  by (simp add: notifyOfflineSyncWaiter_def split: option.split)

lemma send_state_sent: "wc_sent (send_state b s) = b # wc_sent s"
  by (simp add: send_state_def)

lemma logout_sent:
  "\<exists>b. wc_sent (handleWALogout reason s) = b # wc_sent s \<and> human_error (bs_Error b) \<noteq> None"
  using code_of_known(1-3)
  by (cases reason) (simp_all add: handleWALogout_def send_state_sent send_state_def bridge_state_def)

text \<open>Whatever connection event arrives, at most one bridge state is sent for it, and one with
  an error shows a text: the text of its code, or the message the event brings.\<close>

theorem error_states_explained:
  assumes "\<forall>t. evt = EvtTemporaryBan t \<longrightarrow> t \<noteq> []"
  shows "wc_sent (handle_conn_event now prev evt s) = wc_sent s
    \<or> (\<exists>b. wc_sent (handle_conn_event now prev evt s) = b # wc_sent s \<and> (bs_Error b = [] \<or> shown_text b \<noteq> []))"
proof -
  have known: "human_error (bs_Error b) \<noteq> None \<Longrightarrow> wc_sent s' = b # wc_sent s
      \<Longrightarrow> \<exists>b. wc_sent s' = b # wc_sent s \<and> (bs_Error b = [] \<or> shown_text b \<noteq> [])" for b s'
    using shown_text_known by blast
  have msg: "bs_Message b \<noteq> [] \<Longrightarrow> shown_text b \<noteq> []" for b by (simp add: shown_text_def)
  note sent = handle_conn_event_def send_state_sent bridge_state_def
  show ?thesis
  proof (cases evt)
    case (EvtLoggedOut reason t)
    then show ?thesis using logout_sent [of reason s] known by (auto simp: handle_conn_event_def)
  next
    case (EvtDisconnected)
    then show ?thesis using shown_text_known code_of_known(4) by (simp add: sent)
  next
    case (EvtStreamError code children)
    moreover have "stream_error_message code children \<noteq> []" by (simp add: stream_error_message_def split: list.split)
    ultimately show ?thesis using msg by (simp add: sent Let_def)
  next
    case (EvtConnectFailure reason reason_txt m)
    then show ?thesis using msg by (simp add: sent)
  next
    case (EvtTemporaryBan t)
    then show ?thesis using msg assms by (simp add: sent)
  qed (use shown_text_known code_of_known(5-7) in \<open>simp_all add: sent Let_def\<close>)
qed

theorem error_states_explained_witness:
  "\<exists>b. wc_sent (handle_conn_event 0 [] (EvtLoggedOut ReasonOther ''x'') sample_wa_client) = b # wc_sent sample_wa_client
    \<and> bs_Error b = WAUnknownLogout \<and> shown_text b \<noteq> []"
proof -
  have b: "wc_sent (handle_conn_event 0 [] (EvtLoggedOut ReasonOther ''x'') sample_wa_client)
      = bridge_state StateBadCredentials WAUnknownLogout # wc_sent sample_wa_client"
    by (simp add: handle_conn_event_def handleWALogout_def send_state_def)
  then show ?thesis
    using error_states_explained [of "EvtLoggedOut ReasonOther ''x''" 0 "[]" sample_wa_client]
    by (auto simp: bridge_state_def WAUnknownLogout_def)
qed

end
