(* ===== verification/Identifiers.thy ===== *)
theory Identifiers
  imports MediaId
begin

text \<open>
  What the rest of the bridge and its framework rely on when they key rows, portals, ghosts and
  media by the identifiers of \<open>pkg/waid\<close>: an identifier that is made can be read, and what is
  read tells sources apart. The contract is the locale \<open>id_codec\<close>; the codecs of
  \<open>Waid\<close> and \<open>MediaId\<close> are its interpretations.
\<close>

section \<open>The contract\<close>

text \<open>\<open>view\<close> is what reading gives back of a source, for example without the device of a JID.\<close>

locale id_codec =
  fixes valid :: "'a \<Rightarrow> bool"
    and make :: "'a \<Rightarrow> 'i outcome"
    and read :: "'i \<Rightarrow> 'v outcome"
    and view :: "'a \<Rightarrow> 'v"
  assumes readable: "valid x \<Longrightarrow> \<exists>i. make x = Ok i \<and> read i = Ok (view x)"
begin

lemma made: "valid x \<Longrightarrow> make x \<noteq> Panic \<and> make x \<noteq> Fail e"
  using readable by fastforce

lemma read_made: "valid x \<Longrightarrow> make x = Ok i \<Longrightarrow> read i = Ok (view x)"
  using readable by fastforce

lemma same_view:
  assumes "valid x" "valid y" "make x = make y"
  shows "view x = view y"
proof -
  obtain i where i: "make x = Ok i" "read i = Ok (view x)" using readable [OF assms(1)] by blast
  have "make y = Ok i" using i(1) unfolding assms(3) .
  from read_made [OF assms(2) this] i(2) have "Ok (view y) = Ok (view x)" by (rule trans [OF sym])
  then show ?thesis by (simp only: outcome.inject)
qed

text \<open>A table keyed by the identifiers finds the row of a source, and of no other view.\<close>

lemma keyed_lookup:
  assumes "valid x" "\<forall>p\<in>set rows. valid (fst p)" "\<forall>p\<in>set rows. view (fst p) = view x \<longrightarrow> snd p = v"
  shows "case map_of (map (\<lambda>(y, r). (make y, r)) rows) (make x) of None \<Rightarrow> True | Some r \<Rightarrow> r = v"
proof (cases "map_of (map (\<lambda>(y, r). (make y, r)) rows) (make x)")
  case (Some r)
  then have "(make x, r) \<in> (\<lambda>(y, r). (make y, r)) ` set rows" by (metis list.set_map map_of_SomeD)
  then obtain y where y: "(y, r) \<in> set rows" "make x = make y" by (elim imageE) (simp add: case_prod_beta, metis prod.collapse)
  from y(1) assms(2) have "valid y" by (metis fst_conv)
  then have "view y = view x" using same_view [OF assms(1) _ y(2)] by (simp only:)
  with y(1) assms(3) have "r = v" by (metis fst_conv snd_conv)
  with Some show ?thesis by (simp only: option.case)
qed simp

end

text \<open>The identifier depends on nothing but what is read back.\<close>

locale exact_id_codec = id_codec +
  assumes by_view: "valid x \<Longrightarrow> valid y \<Longrightarrow> view x = view y \<Longrightarrow> make x = make y"
begin

lemma same_identifier: "valid x \<Longrightarrow> valid y \<Longrightarrow> make x = make y \<longleftrightarrow> view x = view y"
  using same_view by_view by blast

end

section \<open>Message, portal and user identifiers\<close>

definition message_source_ok :: "jid_lib \<Rightarrow> jid \<times> jid \<times> string \<Rightarrow> bool" where
  "message_source_ok L = (\<lambda>(chat, sender, i). jid_lib_ok L
     \<and> plain_jid (chat\<lparr>Device := 0\<rparr>) \<and> plain_jid (sender\<lparr>Device := 0\<rparr>)
     \<and> jid_string L (chat\<lparr>Device := 0\<rparr>) \<noteq> ''fake'' \<and> \<not> has_prefix i ''FAKE::'')"

definition message_view :: "jid \<times> jid \<times> string \<Rightarrow> ParsedMessageID" where
  "message_view = (\<lambda>(chat, sender, i). \<lparr>Chat = chat\<lparr>Device := 0\<rparr>, Sender = sender\<lparr>Device := 0\<rparr>, ID = i\<rparr>)"

interpretation message_id: exact_id_codec "message_source_ok L"
    "\<lambda>(chat, sender, i). Ok (MakeMessageID L chat sender i)" "ParseMessageID L" message_view for L
proof unfold_locales
  fix x assume "message_source_ok L x"
  then show "\<exists>i. (case x of (chat, sender, i) \<Rightarrow> Ok (MakeMessageID L chat sender i)) = Ok i \<and> ParseMessageID L i = Ok (message_view x)"
    by (auto simp: message_source_ok_def message_view_def ParseMessageID_MakeMessageID)
next
  fix x y assume "message_source_ok L x" "message_source_ok L y" "message_view x = message_view y"
  then show "(case x of (chat, sender, i) \<Rightarrow> Ok (MakeMessageID L chat sender i)) =
      (case y of (chat, sender, i) \<Rightarrow> Ok (MakeMessageID L chat sender i))"
    by (auto simp: message_source_ok_def message_view_def MakeMessageID_def to_non_ad)
qed

interpretation portal_id: exact_id_codec "\<lambda>j. jid_lib_ok L \<and> plain_jid (j\<lparr>Device := 0\<rparr>)"
    "\<lambda>j. Ok (MakePortalID L j)" "ParsePortalID L" "\<lambda>j. j\<lparr>Device := 0\<rparr>" for L
  by unfold_locales (auto simp: ParsePortalID_def MakePortalID_def jid_lib)

lemma MakeUserID_no_device: "MakeUserID (j\<lparr>Device := 0\<rparr>) = MakeUserID j"
  by (simp add: MakeUserID_def split: server.split)

lemma MakeUserID_view: "j\<lparr>Device := 0\<rparr> = k\<lparr>Device := 0\<rparr> \<Longrightarrow> MakeUserID j = MakeUserID k"
  by (metis MakeUserID_no_device)

interpretation user_id: exact_id_codec "\<lambda>j. jid_lib_ok L \<and> user_jid_recoverable j"
    "\<lambda>j. Ok (MakeUserID j)" "\<lambda>u. Ok (ParseUserID L u)" "\<lambda>j. j\<lparr>Device := 0\<rparr>" for L
proof unfold_locales
  fix j assume "jid_lib_ok L \<and> user_jid_recoverable j"
  then show "\<exists>i. Ok (MakeUserID j) = Ok i \<and> Ok (ParseUserID L i) = Ok (j\<lparr>Device := 0\<rparr>)"
    by (simp add: ParseUserID_MakeUserID)
next
  fix j k :: jid assume "j\<lparr>Device := 0\<rparr> = k\<lparr>Device := 0\<rparr>"
  then show "Ok (MakeUserID j) = Ok (MakeUserID k)" by (simp only: MakeUserID_view [of j k])
qed

section \<open>Media identifiers\<close>

datatype media_source =
    MessageSource MessageInfo string string
  | AvatarSource jid string string bool

fun media_source_ok :: "jid_lib \<Rightarrow> media_source \<Rightarrow> bool" where
  "media_source_ok L (MessageSource info idOverride receiver) \<longleftrightarrow> jid_lib_ok L
     \<and> media_jid ((mi_Chat info)\<lparr>Device := 0\<rparr>) \<and> fits L ((mi_Chat info)\<lparr>Device := 0\<rparr>)
     \<and> media_jid ((mi_Sender info)\<lparr>Device := 0\<rparr>) \<and> fits L ((mi_Sender info)\<lparr>Device := 0\<rparr>)
     \<and> media_jid (ParseUserLoginID receiver 0) \<and> fits L (ParseUserLoginID receiver 0)
     \<and> length (compactMsgID (effective_id info idOverride)) < 256"
| "media_source_ok L (AvatarSource target i receiver community) \<longleftrightarrow> jid_lib_ok L
     \<and> media_jid (target\<lparr>Device := 0\<rparr>) \<and> fits L (target\<lparr>Device := 0\<rparr>)
     \<and> media_jid (ParseUserLoginID receiver 0) \<and> fits L (ParseUserLoginID receiver 0)
     \<and> length i < 256"

fun make_media_id :: "jid_lib \<Rightarrow> media_source \<Rightarrow> byte list outcome" where
  "make_media_id L (MessageSource info idOverride receiver) = MakeMediaID L info idOverride receiver"
| "make_media_id L (AvatarSource target i receiver community) = MakeAvatarMediaID L target i receiver community"

fun media_view :: "media_source \<Rightarrow> ParsedMediaID" where
  "media_view (MessageSource info idOverride receiver) =
     \<lparr>Message = Some \<lparr>Chat = (mi_Chat info)\<lparr>Device := 0\<rparr>, Sender = (mi_Sender info)\<lparr>Device := 0\<rparr>,
                       ID = effective_id info idOverride\<rparr>,
      Avatar = None, UserLogin = receiver\<rparr>"
| "media_view (AvatarSource target i receiver community) =
     \<lparr>Message = None, Avatar = Some \<lparr>TargetJID = target\<lparr>Device := 0\<rparr>, AvatarID = i, Community = community\<rparr>,
      UserLogin = receiver\<rparr>"

lemma make_media_id_read:
  "media_source_ok L x \<Longrightarrow> \<exists>m. make_media_id L x = Ok m \<and> ParseMediaID L m = Ok (media_view x)"
  by (cases x) (simp_all add: MakeMediaID_ParseMediaID MakeAvatarMediaID_ParseMediaID)

lemma make_media_id_view:
  assumes "jid_lib_ok L" "media_view x = media_view y"
  shows "make_media_id L x = make_media_id L y"
proof (cases x)
  case x: (MessageSource info i r)
  with assms(2) obtain info' i' r' where y: "y = MessageSource info' i' r'" by (cases y) auto
  show ?thesis using assms(2)
    unfolding x y by (simp add: MakeMediaID_def to_non_ad [OF assms(1)] effective_id_compact)
next
  case x: (AvatarSource t i r c)
  with assms(2) obtain t' i' r' c' where y: "y = AvatarSource t' i' r' c'" by (cases y) auto
  show ?thesis using assms(2)
    unfolding x y by (simp add: MakeAvatarMediaID_def to_non_ad [OF assms(1)])
qed

lemma media_source_ok_lib: "media_source_ok L x \<Longrightarrow> jid_lib_ok L"
  by (cases x) simp_all

interpretation media_id: exact_id_codec "media_source_ok L" "make_media_id L" "ParseMediaID L" media_view for L
  by unfold_locales (auto intro: make_media_id_read make_media_id_view media_source_ok_lib)

section \<open>Properties\<close>



end
