(* ===== verification/Sql.thy ===== *)
theory Sql
  imports Waid
begin

text \<open>
  The part of SQL that the repository is written in besides Go: the values and conditions of its
  queries, the table definitions and the statements of its schema scripts, and what the two
  databases it runs on, SQLite and Postgres, do with them. The queries themselves are in theory
  \<open>Queries\<close>, the scripts in \<open>Schema\<close>. A JID column holds the JID itself. Only integers are
  compared by order.
\<close>

section \<open>Values and conditions\<close>

datatype sql_value = SqlNull | SqlInt int | SqlText string | SqlBytes "byte list" | SqlBool bool | SqlJid jid

text \<open>A row is the list of its columns with their values.\<close>

type_synonym sql_row = "(string \<times> sql_value) list"

definition cell :: "sql_row \<Rightarrow> string \<Rightarrow> sql_value" where
  "cell r c = (case map_of r c of None \<Rightarrow> SqlNull | Some v \<Rightarrow> v)"

text \<open>A condition is true, false or, when it meets a NULL, unknown.\<close>

type_synonym truth = "bool option"

fun and3 :: "truth \<Rightarrow> truth \<Rightarrow> truth" where
  "and3 (Some False) q = Some False"
| "and3 p (Some False) = Some False"
| "and3 (Some True) q = q"
| "and3 None q = None"

fun or3 :: "truth \<Rightarrow> truth \<Rightarrow> truth" where
  "or3 (Some True) q = Some True"
| "or3 p (Some True) = Some True"
| "or3 (Some False) q = q"
| "or3 None q = None"

definition eq3 :: "sql_value \<Rightarrow> sql_value \<Rightarrow> truth" where
  "eq3 v w = (if v = SqlNull \<or> w = SqlNull then None else Some (v = w))"

fun less3 :: "sql_value \<Rightarrow> sql_value \<Rightarrow> truth" where
  "less3 (SqlInt a) (SqlInt b) = Some (a < b)"
| "less3 v w = None"

fun leq3 :: "sql_value \<Rightarrow> sql_value \<Rightarrow> truth" where
  "leq3 (SqlInt a) (SqlInt b) = Some (a \<le> b)"
| "leq3 v w = None"

text \<open>\<open>COALESCE\<close> and \<open>CASE\<close>.\<close>

definition first_value :: "sql_value \<Rightarrow> sql_value \<Rightarrow> sql_value" where
  "first_value v w = (if v = SqlNull then w else v)"

definition choose3 :: "truth \<Rightarrow> sql_value \<Rightarrow> sql_value \<Rightarrow> sql_value" where
  "choose3 t v w = (if t = Some True then v else w)"

text \<open>
  Columns of the row at hand, of the row that could not be inserted (\<open>excluded\<close>), parameters by
  their number, and subqueries that look up the first row of a table by one column.
  \<open>AnyFrom e n\<close> is \<open>e = ANY(..)\<close> or \<open>e IN (..)\<close> with the parameters from the n-th on.
\<close>

datatype sql_exp =
    Col string
  | Excl string
  | Param nat
  | Lit sql_value
  | Coalesce sql_exp sql_exp
  | CaseWhen sql_cond sql_exp sql_exp
  | LookupCol string string string sql_exp
and sql_cond =
    CTrue
  | Eq sql_exp sql_exp
  | Less sql_exp sql_exp
  | Leq sql_exp sql_exp
  | IsNull sql_exp
  | SqlAnd sql_cond sql_cond
  | SqlOr sql_cond sql_cond
  | AnyFrom sql_exp nat
  | ExistsRow string string sql_exp

text \<open>What a statement sees besides the row at hand: the rows of all tables, its parameters
  (the first is \<open>$1\<close>), and the excluded row.\<close>

record sql_env =
  se_rows :: "string \<Rightarrow> sql_row list"
  se_params :: "sql_value list"
  se_excluded :: sql_row

definition param :: "sql_env \<Rightarrow> nat \<Rightarrow> sql_value" where
  "param E n = (if 0 < n \<and> n \<le> length (se_params E) then se_params E ! (n - 1) else SqlNull)"

primrec eval :: "sql_env \<Rightarrow> sql_row \<Rightarrow> sql_exp \<Rightarrow> sql_value"
  and holds3 :: "sql_env \<Rightarrow> sql_row \<Rightarrow> sql_cond \<Rightarrow> truth" where
  "eval E r (Col c) = cell r c"
| "eval E r (Excl c) = cell (se_excluded E) c"
| "eval E r (Param n) = param E n"
| "eval E r (Lit v) = v"
| "eval E r (Coalesce a b) = first_value (eval E r a) (eval E r b)"
| "eval E r (CaseWhen p a b) = choose3 (holds3 E r p) (eval E r a) (eval E r b)"
| "eval E r (LookupCol c t k e) =
     (case find (\<lambda>x. eq3 (cell x k) (eval E r e) = Some True) (se_rows E t) of
        None \<Rightarrow> SqlNull | Some x \<Rightarrow> cell x c)"
| "holds3 E r CTrue = Some True"
| "holds3 E r (Eq a b) = eq3 (eval E r a) (eval E r b)"
| "holds3 E r (Less a b) = less3 (eval E r a) (eval E r b)"
| "holds3 E r (Leq a b) = leq3 (eval E r a) (eval E r b)"
| "holds3 E r (IsNull a) = Some (eval E r a = SqlNull)"
| "holds3 E r (SqlAnd p q) = and3 (holds3 E r p) (holds3 E r q)"
| "holds3 E r (SqlOr p q) = or3 (holds3 E r p) (holds3 E r q)"
| "holds3 E r (AnyFrom e n) =
     foldr (\<lambda>v acc. or3 (eq3 (eval E r e) v) acc) (drop (n - 1) (se_params E)) (Some False)"
| "holds3 E r (ExistsRow t k e) = Some (list_ex (\<lambda>x. eq3 (cell x k) (eval E r e) = Some True) (se_rows E t))"

definition holds :: "sql_env \<Rightarrow> sql_cond \<Rightarrow> sql_row \<Rightarrow> bool" where
  "holds E p r \<longleftrightarrow> holds3 E r p = Some True"

definition assign :: "sql_env \<Rightarrow> (string \<times> sql_exp) list \<Rightarrow> sql_row \<Rightarrow> sql_row" where
  "assign E sets r = map (\<lambda>(c, v). (c, case map_of sets c of None \<Rightarrow> v | Some e \<Rightarrow> eval E r e)) r"

section \<open>Tables\<close>

datatype sql_type = TEXT | BIGINT | INTEGER | BOOLEAN | BYTEA

datatype col_default = NoDefault | Default sql_value | Identity

record col_def =
  cd_name :: string
  cd_type :: sql_type
  cd_not_null :: bool
  cd_default :: col_default

record foreign_key =
  fk_columns :: "string list"
  fk_table :: string
  fk_refs :: "string list"

text \<open>
  Every foreign key of the schema cascades on update and deletion. \<open>td_lengths\<close> are the checks
  \<open>length(column) = n\<close>.
\<close>

record table_def =
  td_columns :: "col_def list"
  td_pkey_name :: string
  td_pkey :: "string list"
  td_uniques :: "(string \<times> string list) list"
  td_lengths :: "(string \<times> nat) list"
  td_fkeys :: "(string \<times> foreign_key) list"
  td_indexes :: "(string \<times> string list) list"

record sql_table =
  tb_def :: table_def
  tb_rows :: "sql_row list"
  tb_next :: int

type_synonym sql_db = "(string \<times> sql_table) list"

definition table_rows :: "sql_db \<Rightarrow> string \<Rightarrow> sql_row list" where
  "table_rows db t = (case map_of db t of None \<Rightarrow> [] | Some tb \<Rightarrow> tb_rows tb)"

definition update_table :: "string \<Rightarrow> (sql_table \<Rightarrow> sql_table) \<Rightarrow> sql_db \<Rightarrow> sql_db" where
  "update_table t f db = map (\<lambda>(n, tb). (n, if n = t then f tb else tb)) db"

definition env_of :: "sql_db \<Rightarrow> sql_value list \<Rightarrow> sql_env" where
  "env_of db ps = \<lparr>se_rows = table_rows db, se_params = ps, se_excluded = []\<rparr>"

definition same_cells :: "string list \<Rightarrow> sql_row \<Rightarrow> string list \<Rightarrow> sql_row \<Rightarrow> bool" where
  "same_cells cs r ds s \<longleftrightarrow> list_all2 (\<lambda>c d. eq3 (cell r c) (cell s d) = Some True) cs ds"

section \<open>Changing rows\<close>

text \<open>The row that an \<open>INSERT\<close> makes of the given columns, with the defaults of the others.\<close>

definition fill_row :: "table_def \<Rightarrow> int \<Rightarrow> (string \<times> sql_value) list \<Rightarrow> sql_row" where
  "fill_row d next given =
     map (\<lambda>c. (cd_name c, case map_of given (cd_name c) of Some v \<Rightarrow> v
                | None \<Rightarrow> (case cd_default c of NoDefault \<Rightarrow> SqlNull | Default v \<Rightarrow> v | Identity \<Rightarrow> SqlInt next)))
       (td_columns d)"

definition nulls_ok :: "table_def \<Rightarrow> sql_row \<Rightarrow> bool" where
  "nulls_ok d r \<longleftrightarrow> list_all (\<lambda>c. cd_not_null c \<longrightarrow> cell r (cd_name c) \<noteq> SqlNull) (td_columns d)"

definition lengths_ok :: "table_def \<Rightarrow> sql_row \<Rightarrow> bool" where
  "lengths_ok d r \<longleftrightarrow> list_all (\<lambda>(c, n). case cell r c of SqlBytes bs \<Rightarrow> length bs = n | _ \<Rightarrow> True) (td_lengths d)"

definition unique_ok :: "table_def \<Rightarrow> sql_row \<Rightarrow> sql_row list \<Rightarrow> bool" where
  "unique_ok d r rows \<longleftrightarrow> list_all (\<lambda>ks. \<not> list_ex (\<lambda>x. same_cells ks x ks r) rows) (td_pkey d # map snd (td_uniques d))"

text \<open>A reference holds when it has a NULL, when the row it names exists, or when its table belongs
  to another part of the program, here the framework, and is not in the database.\<close>

definition fkey_ok :: "sql_db \<Rightarrow> sql_row \<Rightarrow> foreign_key \<Rightarrow> bool" where
  "fkey_ok db r k \<longleftrightarrow>
     list_ex (\<lambda>c. cell r c = SqlNull) (fk_columns k) \<or>
     (case map_of db (fk_table k) of None \<Rightarrow> True
      | Some tb \<Rightarrow> list_ex (\<lambda>x. same_cells (fk_columns k) r (fk_refs k) x) (tb_rows tb))"

definition has_identity :: "table_def \<Rightarrow> bool" where
  "has_identity d \<longleftrightarrow> list_ex (\<lambda>c. cd_default c = Identity) (td_columns d)"

datatype on_conflict = Abort | DoNothing "string list" | DoUpdate "string list" "(string \<times> sql_exp) list"

definition add_row :: "sql_row \<Rightarrow> sql_table \<Rightarrow> sql_table" where
  "add_row r tb = tb\<lparr>tb_rows := tb_rows tb @ [r], tb_next := (if has_identity (tb_def tb) then tb_next tb + 1 else tb_next tb)\<rparr>"

definition insert_new :: "string \<Rightarrow> sql_table \<Rightarrow> sql_row \<Rightarrow> sql_db \<Rightarrow> sql_db outcome" where
  "insert_new t tb r db =
     (if \<not> nulls_ok (tb_def tb) r then Fail (Err ''not null constraint failed'')
      else if \<not> lengths_ok (tb_def tb) r then Fail (Err ''check constraint failed'')
      else if \<not> unique_ok (tb_def tb) r (tb_rows tb) then Fail (Err ''unique constraint failed'')
      else if \<not> list_all (fkey_ok db r) (map snd (td_fkeys (tb_def tb))) then Fail (Err ''foreign key constraint failed'')
      else Ok (update_table t (add_row r) db))"

definition insert_row :: "string \<Rightarrow> on_conflict \<Rightarrow> sql_value list \<Rightarrow> (string \<times> sql_value) list \<Rightarrow> sql_db \<Rightarrow> sql_db outcome" where
  "insert_row t conflict ps given db =
     (case map_of db t of None \<Rightarrow> Fail (Err ''no such table'')
      | Some tb \<Rightarrow>
         let r = fill_row (tb_def tb) (tb_next tb) given in
         (case conflict of
            Abort \<Rightarrow> insert_new t tb r db
          | DoNothing ks \<Rightarrow> if list_ex (\<lambda>x. same_cells ks x ks r) (tb_rows tb) then Ok db else insert_new t tb r db
          | DoUpdate ks sets \<Rightarrow>
              if list_ex (\<lambda>x. same_cells ks x ks r) (tb_rows tb)
              then Ok (update_table t (tb_rows_update (map (\<lambda>x. if same_cells ks x ks r
                      then assign ((env_of db ps)\<lparr>se_excluded := r\<rparr>) sets x else x))) db)
              else insert_new t tb r db))"

text \<open>The rows that refer to deleted ones are deleted too. No table that is referred to refers to
  another, so one step is enough.\<close>

definition cascade :: "string \<Rightarrow> sql_row list \<Rightarrow> sql_db \<Rightarrow> sql_db" where
  "cascade t gone db = map (\<lambda>(n, tb). (n, tb_rows_update (filter (\<lambda>x.
     \<not> list_ex (\<lambda>(_, k). fk_table k = t \<and> list_ex (\<lambda>g. same_cells (fk_columns k) x (fk_refs k) g) gone) (td_fkeys (tb_def tb)))) tb)) db"

section \<open>Statements\<close>

datatype sql_stmt =
    InsertValues string "string list" "sql_exp list" on_conflict
  | InsertSelect string "string list" "sql_exp list" string sql_cond
  | UpdateSet string "(string \<times> sql_exp) list" sql_cond
  | DeleteFrom string sql_cond
  | CreateTable string table_def
  | CreateIndex string string "string list"
  | AddColumn string col_def
  | DropDefault string string
  | DropColumn string string
  | DropConstraint string string
  | AddPrimaryKey string "string list"
  | RenameConstraint string string string
  | DropTable string
  | RenameTable string string

text \<open>What the statements do to the definition of a table.\<close>

definition drop_constraint :: "string \<Rightarrow> table_def \<Rightarrow> table_def" where
  "drop_constraint c d =
     (if td_pkey_name d = c then d\<lparr>td_pkey := []\<rparr>
      else d\<lparr>td_uniques := filter (\<lambda>(n, _). n \<noteq> c) (td_uniques d), td_fkeys := filter (\<lambda>(n, _). n \<noteq> c) (td_fkeys d)\<rparr>)"

definition default_value :: "col_def \<Rightarrow> sql_value" where
  "default_value c = (case cd_default c of Default v \<Rightarrow> v | _ \<Rightarrow> SqlNull)"

fun exec :: "sql_value list \<Rightarrow> sql_stmt \<Rightarrow> sql_db \<Rightarrow> sql_db outcome" where
  "exec ps (InsertValues t cs es conflict) db =
     insert_row t conflict ps (zip cs (map (eval (env_of db ps) []) es)) db"
| "exec ps (InsertSelect t cs es from p) db =
     ofold (\<lambda>r. insert_row t Abort ps (zip cs (map (eval (env_of db ps) r) es)))
       (filter (holds (env_of db ps) p) (table_rows db from)) db"
| "exec ps (UpdateSet t sets p) db =
     Ok (update_table t (tb_rows_update (map (\<lambda>r. if holds (env_of db ps) p r then assign (env_of db ps) sets r else r))) db)"
| "exec ps (DeleteFrom t p) db =
     (let gone = filter (holds (env_of db ps) p) (table_rows db t)
      in Ok (cascade t gone (update_table t (tb_rows_update (filter (\<lambda>r. \<not> holds (env_of db ps) p r))) db)))"
| "exec ps (CreateTable t d) db =
     (if map_of db t \<noteq> None then Fail (Err ''table exists'') else Ok (db @ [(t, \<lparr>tb_def = d, tb_rows = [], tb_next = 1\<rparr>)]))"
| "exec ps (CreateIndex n t cs) db =
     Ok (update_table t (tb_def_update (td_indexes_update (\<lambda>is. is @ [(n, cs)]))) db)"
| "exec ps (AddColumn t c) db =
     Ok (update_table t (\<lambda>tb. tb\<lparr>tb_def := td_columns_update (\<lambda>cs. cs @ [c]) (tb_def tb),
           tb_rows := map (\<lambda>r. r @ [(cd_name c, default_value c)]) (tb_rows tb)\<rparr>) db)"
| "exec ps (DropDefault t c) db =
     Ok (update_table t (tb_def_update (td_columns_update (map (\<lambda>d. if cd_name d = c then d\<lparr>cd_default := NoDefault\<rparr> else d)))) db)"
| "exec ps (DropColumn t c) db =
     Ok (update_table t (\<lambda>tb. tb\<lparr>tb_def := td_columns_update (filter (\<lambda>d. cd_name d \<noteq> c)) (tb_def tb),
           tb_rows := map (filter (\<lambda>(n, _). n \<noteq> c)) (tb_rows tb)\<rparr>) db)"
| "exec ps (DropConstraint t c) db = Ok (update_table t (tb_def_update (drop_constraint c)) db)"
| "exec ps (AddPrimaryKey t ks) db =
     (if distinct (map (\<lambda>r. map (cell r) ks) (table_rows db t))
      then Ok (update_table t (tb_def_update (\<lambda>d. d\<lparr>td_pkey_name := t @ ''_pkey'', td_pkey := ks\<rparr>)) db)
      else Fail (Err ''unique constraint failed''))"
| "exec ps (RenameConstraint t c c') db =
     Ok (update_table t (tb_def_update (\<lambda>d. if td_pkey_name d = c then d\<lparr>td_pkey_name := c'\<rparr> else d)) db)"
| "exec ps (DropTable t) db = Ok (filter (\<lambda>(n, _). n \<noteq> t) db)"
| "exec ps (RenameTable t t') db = Ok (map (\<lambda>(n, tb). (if n = t then t' else n, tb)) db)"

definition exec_all :: "sql_stmt list \<Rightarrow> sql_db \<Rightarrow> sql_db outcome" where
  "exec_all stmts db = ofold (exec []) stmts db"

text \<open>
  \<open>SELECT\<close>: the values of the columns of the rows that satisfy the condition. The order is that of
  the database, \<open>ORDER BY c DESC\<close> being a parameter, and \<open>LIMIT\<close> is applied last.
\<close>

record sql_query =
  sq_columns :: "string list"
  sq_table :: string
  sq_where :: sql_cond
  sq_order_desc :: "string option"

definition select :: "(sql_row list \<Rightarrow> sql_row list) \<Rightarrow> sql_query \<Rightarrow> sql_value list \<Rightarrow> sql_db \<Rightarrow> sql_row list" where
  "select order q ps db =
     (let rows = filter (holds (env_of db ps) (sq_where q)) (table_rows db (sq_table q))
      in if sq_order_desc q = None then rows else order rows)"

definition result :: "sql_query \<Rightarrow> sql_row \<Rightarrow> sql_value list" where
  "result q r = map (cell r) (sq_columns q)"

section \<open>Reading and changing tables\<close>

lemma same_cells_simps [simp]:
  "same_cells [] r [] s" "same_cells (c # cs) r (d # ds) s \<longleftrightarrow> eq3 (cell r c) (cell s d) = Some True \<and> same_cells cs r ds s"
  by (simp_all add: same_cells_def)

lemma cell_simps [simp]:
  "cell [] c = SqlNull" "cell ((c', v) # r) c = (if c = c' then v else cell r c)"
  by (simp_all add: cell_def)

lemma eq3_True [simp]: "eq3 v w = Some True \<longleftrightarrow> v \<noteq> SqlNull \<and> v = w"
  by (auto simp: eq3_def)

lemma cell_append: "cell (r @ s) c = (if c \<in> set (map fst r) then cell r c else cell s c)"
  by (induction r) (auto simp: cell_def split: option.split)

lemma eq3_values [simp]:
  "eq3 (SqlInt a) (SqlInt b) = Some (a = b)" "eq3 (SqlText s) (SqlText t) = Some (s = t)"
  "eq3 (SqlBytes xs) (SqlBytes ys) = Some (xs = ys)" "eq3 (SqlBool p) (SqlBool q) = Some (p = q)"
  "eq3 (SqlJid i) (SqlJid j) = Some (i = j)"
  by (simp_all add: eq3_def)

lemma and3_Some [simp]: "and3 (Some p) (Some q) = Some (p \<and> q)"
  by (cases p; cases q) simp_all

lemma or3_Some [simp]: "or3 (Some p) (Some q) = Some (p \<or> q)"
  by (cases p; cases q) simp_all

definition set_rows :: "string \<Rightarrow> sql_row list \<Rightarrow> sql_db \<Rightarrow> sql_db" where
  "set_rows t rows db = update_table t (tb_rows_update (\<lambda>_. rows)) db"

lemma the_table: "distinct (map fst db) \<Longrightarrow> map_of db t = Some tb \<Longrightarrow> (t, tb') \<in> set db \<Longrightarrow> tb' = tb"
  using map_of_is_SomeI [of db t tb'] by simp

lemma update_table_cong:
  assumes "distinct (map fst db)" and "map_of db t = Some tb" and "f tb = g tb"
  shows "update_table t f db = update_table t g db"
  using assms(3) the_table [OF assms(1,2)] by (auto simp: update_table_def)

lemma set_rows_same:
  assumes "distinct (map fst db)" and "map_of db t = Some tb"
  shows "set_rows t (tb_rows tb) db = db"
  using the_table [OF assms] unfolding set_rows_def update_table_def by (intro map_idI) auto

lemma map_of_update_table [simp]:
  "map_of (update_table t f db) n = (if n = t then map_option f (map_of db n) else map_of db n)"
  by (induction db) (auto simp: update_table_def)

lemma map_of_drop: "map_of (filter (\<lambda>(n, _). n \<noteq> t) db) n = (if n = t then None else map_of db n)"
  by (induction db) auto

lemma map_of_rename:
  "map_of db t' = None \<Longrightarrow> map_of (map (\<lambda>(n, tb). (if n = t then t' else n, tb)) db) t' = map_of db t"
  by (induction db) (auto split: if_splits)

lemma fkey_ok_cong: "map_of db' (fk_table k) = map_of db (fk_table k) \<Longrightarrow> fkey_ok db' r k = fkey_ok db r k"
  by (simp add: fkey_ok_def)

lemma map_of_other_table: "n \<noteq> t \<Longrightarrow> map_of (db @ [(t, tb)]) n = map_of db n"
  by (induction db) auto

lemma fkey_ok_row:
  assumes "\<And>c. c \<in> set (fk_columns k) \<Longrightarrow> cell r c = cell r' c"
  shows "fkey_ok db r k = fkey_ok db r' k"
proof -
  have "same_cells (fk_columns k) r = same_cells (fk_columns k) r'"
    using assms by (auto simp: same_cells_def list_all2_conv_all_nth fun_eq_iff)
  moreover have "list_ex (\<lambda>c. cell r c = SqlNull) (fk_columns k) = list_ex (\<lambda>c. cell r' c = SqlNull) (fk_columns k)"
    using assms by (auto simp: list_ex_iff)
  ultimately show ?thesis by (simp add: fkey_ok_def split: option.split)
qed

text \<open>Integrity of a table: what every insertion checks holds of all rows.\<close>

definition table_ok :: "sql_db \<Rightarrow> sql_table \<Rightarrow> bool" where
  "table_ok db tb \<longleftrightarrow> (\<forall>r\<in>set (tb_rows tb). map fst r = map cd_name (td_columns (tb_def tb)) \<and> nulls_ok (tb_def tb) r \<and>
       list_all (fkey_ok db r) (map snd (td_fkeys (tb_def tb)))) \<and>
     sorted_wrt (\<lambda>a b. \<not> same_cells (td_pkey (tb_def tb)) a (td_pkey (tb_def tb)) b) (tb_rows tb)"

text \<open>Inserting many rows into an empty table without identity column and unique constraints
  works when the rows satisfy the constraints among themselves.\<close>

lemma insert_rows_abort:
  fixes made :: "'a \<Rightarrow> sql_row"
  assumes "map_of db t = Some tb" and "\<not> has_identity (tb_def tb)" "td_uniques (tb_def tb) = []"
    and "\<And>k. k \<in> set (td_fkeys (tb_def tb)) \<Longrightarrow> fk_table (snd k) \<noteq> t"
    and "\<And>x. x \<in> set xs \<Longrightarrow> fill_row (tb_def tb) (tb_next tb) (given x) = made x \<and> nulls_ok (tb_def tb) (made x)
      \<and> lengths_ok (tb_def tb) (made x) \<and> list_all (fkey_ok db (made x)) (map snd (td_fkeys (tb_def tb)))"
    and "sorted_wrt (\<lambda>a b. \<not> same_cells (td_pkey (tb_def tb)) a (td_pkey (tb_def tb)) b) (tb_rows tb @ map made xs)"
  shows "\<exists>db'. ofold (\<lambda>x. insert_row t Abort ps (given x)) xs db = Ok db'
    \<and> map_of db' t = Some (tb\<lparr>tb_rows := tb_rows tb @ map made xs\<rparr>) \<and> (\<forall>n. n \<noteq> t \<longrightarrow> map_of db' n = map_of db n)"
  using assms
proof (induction xs arbitrary: db tb)
  case Nil
  then show ?case by simp
next
  case (Cons x xs)
  let ?tb = "add_row (made x) tb" and ?db = "update_table t (add_row (made x)) db"
  have tb: "?tb = tb\<lparr>tb_rows := tb_rows tb @ [made x]\<rparr>" using Cons.prems(2) by (simp add: add_row_def)
  have "unique_ok (tb_def tb) (made x) (tb_rows tb)"
    using Cons.prems(3,6) by (auto simp: unique_ok_def list_ex_iff sorted_wrt_append)
  then have ins: "insert_row t Abort ps (given x) db = Ok ?db"
    using Cons.prems(1) Cons.prems(5) [of x] by (simp add: insert_row_def insert_new_def Let_def)
  have fk: "list_all (fkey_ok ?db r) (map snd (td_fkeys (tb_def tb))) = list_all (fkey_ok db r) (map snd (td_fkeys (tb_def tb)))" for r
    using Cons.prems(4) by (intro list.pred_cong refl fkey_ok_cong) auto
  have "map_of ?db t = Some ?tb" using Cons.prems(1) by simp
  then have "\<exists>db'. ofold (\<lambda>x. insert_row t Abort ps (given x)) xs ?db = Ok db'
      \<and> map_of db' t = Some (?tb\<lparr>tb_rows := tb_rows ?tb @ map made xs\<rparr>) \<and> (\<forall>n. n \<noteq> t \<longrightarrow> map_of db' n = map_of ?db n)"
    by (rule Cons.IH) (use Cons.prems in \<open>simp_all add: tb fk\<close>)
  then show ?case using ins by (auto simp: tb)
qed

text \<open>The tables that a statement can change. A deletion can change every table.\<close>

fun writes :: "sql_stmt \<Rightarrow> string \<Rightarrow> bool" where
  "writes (InsertValues t cs es k) n \<longleftrightarrow> n = t"
| "writes (InsertSelect t cs es from p) n \<longleftrightarrow> n = t"
| "writes (UpdateSet t sets p) n \<longleftrightarrow> n = t"
| "writes (DeleteFrom t p) n \<longleftrightarrow> True"
| "writes (CreateTable t d) n \<longleftrightarrow> n = t"
| "writes (CreateIndex i t cs) n \<longleftrightarrow> n = t"
| "writes (AddColumn t c) n \<longleftrightarrow> n = t"
| "writes (DropDefault t c) n \<longleftrightarrow> n = t"
| "writes (DropColumn t c) n \<longleftrightarrow> n = t"
| "writes (DropConstraint t c) n \<longleftrightarrow> n = t"
| "writes (AddPrimaryKey t ks) n \<longleftrightarrow> n = t"
| "writes (RenameConstraint t c c') n \<longleftrightarrow> n = t"
| "writes (DropTable t) n \<longleftrightarrow> n = t"
| "writes (RenameTable t t') n \<longleftrightarrow> n = t \<or> n = t'"

lemma insert_row_other: "insert_row t k ps given db = Ok db' \<Longrightarrow> n \<noteq> t \<Longrightarrow> map_of db' n = map_of db n"
  by (auto simp: insert_row_def insert_new_def Let_def split: option.splits on_conflict.splits if_splits)

lemma insert_rows_other:
  "ofold (\<lambda>r. insert_row t k ps (given r)) rs db = Ok db' \<Longrightarrow> n \<noteq> t \<Longrightarrow> map_of db' n = map_of db n"
  by (induction rs arbitrary: db) (auto simp: outcome_simps dest: insert_row_other)

lemma map_of_rename_other:
  "n \<noteq> t \<Longrightarrow> n \<noteq> t' \<Longrightarrow> map_of (map (\<lambda>(m, tb). (if m = t then t' else m, tb)) db) n = map_of db n"
  by (induction db) auto

lemma exec_other: "exec ps s db = Ok db' \<Longrightarrow> \<not> writes s n \<Longrightarrow> map_of db' n = map_of db n"
  by (cases s) (auto simp: insert_row_other insert_rows_other map_of_drop map_of_rename_other map_of_other_table
      simp del: map_of_append split: if_splits)

lemma exec_all_other: "exec_all ss db = Ok db' \<Longrightarrow> list_all (\<lambda>s. \<not> writes s n) ss \<Longrightarrow> map_of db' n = map_of db n"
  by (induction ss arbitrary: db) (auto simp: exec_all_def outcome_simps dest: exec_other)

lemma exec_all_append: "exec_all (ss @ ss') db = obind (exec_all ss db) (exec_all ss')"
proof (induction ss arbitrary: db)
  case (Cons s ss)
  then show ?case by (cases "exec [] s db") (simp_all add: exec_all_def)
qed (simp add: exec_all_def)

text \<open>Rows are determined by their cells, and an update is seen cell by cell.\<close>

lemma row_eqI:
  assumes "map fst r = map fst s" and "distinct (map fst r)" and "list_all (\<lambda>c. cell r c = cell s c) (map fst r)"
  shows "r = s"
proof (rule nth_equalityI)
  show l: "length r = length s" using arg_cong [OF assms(1), of length] by simp
  fix i assume i: "i < length r"
  have n: "fst (r ! i) = fst (s ! i)" using arg_cong [OF assms(1), of "\<lambda>l. l ! i"] i l by simp
  have "cell x (fst (x ! i)) = snd (x ! i)" if "i < length x" "distinct (map fst x)" for x
    using map_of_is_SomeI [OF that(2), of "fst (x ! i)" "snd (x ! i)"] that(1) by (simp add: cell_def)
  from this [of r] this [of s] have "snd (r ! i) = snd (s ! i)"
    using assms i l n by (simp add: list_all_iff)
  with n show "r ! i = s ! i" by (simp add: prod_eq_iff)
qed

lemma fst_assign [simp]: "map fst (assign E sets r) = map fst r"
  by (simp add: assign_def comp_def case_prod_unfold)

lemma map_of_map_keys: "map_of (map (\<lambda>(k, v). (k, f k v)) xs) k = map_option (f k) (map_of xs k)"
  by (induction xs) auto

lemma cell_assign:
  "c \<in> set (map fst r) \<Longrightarrow> cell (assign E sets r) c = (case map_of sets c of None \<Rightarrow> cell r c | Some e \<Rightarrow> eval E r e)"
  by (auto simp: cell_def assign_def map_of_map_keys [where f = "\<lambda>c v. case map_of sets c of None \<Rightarrow> v | Some e \<Rightarrow> eval E r e"]
      split: option.split dest: weak_map_of_SomeI)

end
