(* ===== verification/Schema.thy ===== *)
theory Schema
  imports Sql
begin

text \<open>
  The schema scripts of \<open>pkg/connector/wadb/upgrades\<close>, statement by statement, and the order in
  which they run. The database library \<open>dbutil\<close> reads them from the files that \<open>upgrades.go\<close>
  registers: a new database is made by the latest revision, an older one by every later script in
  turn. Comments \<open>only: sqlite\<close> and \<open>only: postgres\<close> select statements by the dialect.
\<close>

datatype dialect = Sqlite | Postgres

definition column :: "string \<Rightarrow> sql_type \<Rightarrow> bool \<Rightarrow> col_def" where
  "column n t nn = \<lparr>cd_name = n, cd_type = t, cd_not_null = nn, cd_default = NoDefault\<rparr>"

definition column_default :: "string \<Rightarrow> sql_type \<Rightarrow> bool \<Rightarrow> sql_value \<Rightarrow> col_def" where
  "column_default n t nn v = \<lparr>cd_name = n, cd_type = t, cd_not_null = nn, cd_default = Default v\<rparr>"

definition references :: "string list \<Rightarrow> string \<Rightarrow> string list \<Rightarrow> foreign_key" where
  "references cs t rs = \<lparr>fk_columns = cs, fk_table = t, fk_refs = rs\<rparr>"

definition tPoll :: string where "tPoll = ''whatsapp_poll_option_id''"
definition tConv :: string where "tConv = ''whatsapp_history_sync_conversation''"
definition tMsg :: string where "tMsg = ''whatsapp_history_sync_message''"
definition tMedia :: string where "tMedia = ''whatsapp_media_backfill_request''"
definition tNotif :: string where "tNotif = ''whatsapp_history_sync_notification''"
definition tAvatar :: string where "tAvatar = ''whatsapp_avatar_cache''"

lemmas table_names = tPoll_def tConv_def tMsg_def tMedia_def tNotif_def tAvatar_def

section \<open>The latest revision\<close>

definition rowid_column :: "dialect \<Rightarrow> col_def" where
  "rowid_column d = \<lparr>cd_name = ''rowid'', cd_type = (case d of Sqlite \<Rightarrow> INTEGER | Postgres \<Rightarrow> BIGINT),
     cd_not_null = True, cd_default = Identity\<rparr>"

definition latest_poll :: table_def where
  "latest_poll = \<lparr>
     td_columns = [column ''bridge_id'' TEXT True, column ''msg_mxid'' TEXT True, column ''opt_id'' TEXT True,
       column ''opt_hash'' BYTEA True],
     td_pkey_name = ''whatsapp_poll_option_id_pkey'', td_pkey = [''bridge_id'', ''msg_mxid'', ''opt_id''],
     td_uniques = [(''whatsapp_poll_option_unique_hash'', [''bridge_id'', ''msg_mxid'', ''opt_hash''])],
     td_lengths = [(''opt_hash'', 32)],
     td_fkeys = [(''message_mxid_fkey'', references [''bridge_id'', ''msg_mxid''] ''message'' [''bridge_id'', ''mxid''])],
     td_indexes = []\<rparr>"

definition latest_conversation :: table_def where
  "latest_conversation = \<lparr>
     td_columns = [column ''bridge_id'' TEXT True, column ''user_login_id'' TEXT True, column ''chat_jid'' TEXT True,
       column ''last_message_timestamp'' BIGINT False, column ''archived'' BOOLEAN False, column ''pinned'' BOOLEAN False,
       column ''mute_end_time'' BIGINT False, column ''end_of_history_transfer_type'' INTEGER False,
       column ''ephemeral_expiration'' INTEGER False, column ''ephemeral_setting_timestamp'' BIGINT False,
       column ''marked_as_unread'' BOOLEAN False, column ''unread_count'' INTEGER False, column ''synced_login_ts'' BIGINT False],
     td_pkey_name = ''whatsapp_history_sync_conversation_pkey'', td_pkey = [''bridge_id'', ''user_login_id'', ''chat_jid''],
     td_uniques = [], td_lengths = [],
     td_fkeys = [(''whatsapp_history_sync_conversation_user_login_fkey'',
       references [''bridge_id'', ''user_login_id''] ''user_login'' [''bridge_id'', ''id''])],
     td_indexes = []\<rparr>"

definition latest_message :: table_def where
  "latest_message = \<lparr>
     td_columns = [column ''bridge_id'' TEXT True, column ''user_login_id'' TEXT True, column ''chat_jid'' TEXT True,
       column ''sender_jid'' TEXT True, column ''message_id'' TEXT True, column ''timestamp'' BIGINT True,
       column ''data'' BYTEA True, column ''inserted_time'' BIGINT True],
     td_pkey_name = ''whatsapp_history_sync_message_pkey'',
     td_pkey = [''bridge_id'', ''user_login_id'', ''chat_jid'', ''sender_jid'', ''message_id''],
     td_uniques = [], td_lengths = [],
     td_fkeys = [(''whatsapp_history_sync_message_user_login_fkey'',
         references [''bridge_id'', ''user_login_id''] ''user_login'' [''bridge_id'', ''id'']),
       (''whatsapp_history_sync_message_conversation_fkey'',
         references [''bridge_id'', ''user_login_id'', ''chat_jid''] tConv [''bridge_id'', ''user_login_id'', ''chat_jid''])],
     td_indexes = []\<rparr>"

definition latest_media :: table_def where
  "latest_media = \<lparr>
     td_columns = [column ''bridge_id'' TEXT True, column ''user_login_id'' TEXT True, column ''message_id'' TEXT True,
       column_default ''_part_id'' TEXT True (SqlText []), column ''portal_id'' TEXT True, column ''portal_receiver'' TEXT True,
       column ''media_key'' BYTEA False, column ''status'' INTEGER True, column ''error'' TEXT True],
     td_pkey_name = ''whatsapp_media_backfill_request_pkey'', td_pkey = [''bridge_id'', ''user_login_id'', ''message_id''],
     td_uniques = [], td_lengths = [],
     td_fkeys = [(''whatsapp_media_backfill_request_user_login_fkey'',
         references [''bridge_id'', ''user_login_id''] ''user_login'' [''bridge_id'', ''id'']),
       (''whatsapp_media_backfill_request_portal_fkey'',
         references [''bridge_id'', ''portal_id'', ''portal_receiver''] ''portal'' [''bridge_id'', ''id'', ''receiver'']),
       (''whatsapp_media_backfill_request_message_fkey'',
         references [''bridge_id'', ''portal_receiver'', ''message_id'', ''_part_id''] ''message''
           [''bridge_id'', ''room_receiver'', ''id'', ''part_id''])],
     td_indexes = []\<rparr>"

definition latest_notification :: "dialect \<Rightarrow> table_def" where
  "latest_notification d = \<lparr>
     td_columns = [rowid_column d, column ''bridge_id'' TEXT True, column ''user_login_id'' TEXT True, column ''data'' BYTEA True],
     td_pkey_name = ''whatsapp_history_sync_notification_pkey'', td_pkey = [''rowid''], td_uniques = [], td_lengths = [],
     td_fkeys = [(''whatsapp_history_sync_notification_user_login_fkey'',
       references [''bridge_id'', ''user_login_id''] ''user_login'' [''bridge_id'', ''id''])],
     td_indexes = []\<rparr>"

definition latest_avatar :: table_def where
  "latest_avatar = \<lparr>
     td_columns = [column ''entity_jid'' TEXT True, column ''avatar_id'' TEXT True, column ''direct_path'' TEXT True,
       column ''expiry'' BIGINT True, column_default ''gone'' BOOLEAN True (SqlBool False)],
     td_pkey_name = ''whatsapp_avatar_cache_pkey'', td_pkey = [''entity_jid'', ''avatar_id''],
     td_uniques = [], td_lengths = [], td_fkeys = [], td_indexes = []\<rparr>"

definition latest_schema :: "dialect \<Rightarrow> sql_stmt list" where
  "latest_schema d =
     [CreateTable tPoll latest_poll, CreateTable tConv latest_conversation, CreateTable tMsg latest_message,
      CreateTable tMedia latest_media,
      CreateIndex ''whatsapp_media_backfill_request_portal_idx'' tMedia [''bridge_id'', ''portal_id'', ''portal_receiver''],
      CreateIndex ''whatsapp_media_backfill_request_message_idx'' tMedia
        [''bridge_id'', ''portal_receiver'', ''message_id'', ''_part_id''],
      CreateTable tNotif (latest_notification d),
      CreateIndex ''whatsapp_history_sync_notification_login_idx'' tNotif [''bridge_id'', ''user_login_id''],
      CreateTable tAvatar latest_avatar]"

section \<open>The upgrades\<close>

text \<open>Version 2 has a file for each dialect. The file for SQLite selects \<open>message_id\<close> for the
  column \<open>sender_jid\<close> and the empty text for \<open>message_id\<close>.\<close>

definition upgrade2_postgres :: "sql_stmt list" where
  "upgrade2_postgres =
     [AddColumn tMsg (column_default ''sender_jid'' TEXT True (SqlText [])), DropDefault tMsg ''sender_jid'',
      DropConstraint tMsg ''whatsapp_history_sync_message_pkey'',
      AddPrimaryKey tMsg [''bridge_id'', ''user_login_id'', ''chat_jid'', ''sender_jid'', ''message_id'']]"

definition tMsgNew :: string where "tMsgNew = ''whatsapp_history_sync_message_new''"

definition upgrade2_message :: table_def where
  "upgrade2_message = \<lparr>
     td_columns = [column ''bridge_id'' TEXT True, column ''user_login_id'' TEXT True, column ''chat_jid'' TEXT True,
       column ''sender_jid'' TEXT True, column ''message_id'' TEXT True, column ''timestamp'' BIGINT True,
       column ''data'' BYTEA True, column ''inserted_time'' BIGINT True],
     td_pkey_name = ''whatsapp_history_sync_message_new_pkey'',
     td_pkey = [''bridge_id'', ''user_login_id'', ''chat_jid'', ''sender_jid'', ''message_id''],
     td_uniques = [], td_lengths = [],
     td_fkeys = [(''whatsapp_history_sync_message_user_login_fkey'',
         references [''bridge_id'', ''user_login_id''] ''user_login'' [''bridge_id'', ''id'']),
       (''whatsapp_history_sync_message_conversation_fkey'',
         references [''bridge_id'', ''user_login_id'', ''chat_jid''] tConv [''bridge_id'', ''user_login_id'', ''chat_jid''])],
     td_indexes = []\<rparr>"

definition upgrade2_sqlite :: "sql_stmt list" where
  "upgrade2_sqlite =
     [CreateTable tMsgNew upgrade2_message,
      InsertSelect tMsgNew
        [''bridge_id'', ''user_login_id'', ''chat_jid'', ''sender_jid'', ''message_id'', ''timestamp'', ''data'', ''inserted_time'']
        [Col ''bridge_id'', Col ''user_login_id'', Col ''chat_jid'', Col ''message_id'', Lit (SqlText []), Col ''timestamp'',
         Col ''data'', Col ''inserted_time'']
        tMsg CTrue,
      DropTable tMsg, RenameTable tMsgNew tMsg]"

definition tMediaNew :: string where "tMediaNew = ''whatsapp_media_backfill_request_new''"

definition upgrade3_media :: table_def where
  "upgrade3_media = \<lparr>
     td_columns = [column ''bridge_id'' TEXT True, column ''user_login_id'' TEXT True, column ''message_id'' TEXT True,
       column_default ''_part_id'' TEXT True (SqlText []), column ''portal_id'' TEXT True, column ''portal_receiver'' TEXT True,
       column ''media_key'' BYTEA False, column ''status'' INTEGER True, column ''error'' TEXT True],
     td_pkey_name = ''whatsapp_media_backfill_request_new_pkey'', td_pkey = [''bridge_id'', ''user_login_id'', ''message_id''],
     td_uniques = [], td_lengths = [],
     td_fkeys = [(''whatsapp_media_backfill_request_user_login_fkey'',
         references [''bridge_id'', ''user_login_id''] ''user_login'' [''bridge_id'', ''id'']),
       (''whatsapp_media_backfill_request_portal_fkey'',
         references [''bridge_id'', ''portal_id'', ''portal_receiver''] ''portal'' [''bridge_id'', ''id'', ''receiver'']),
       (''whatsapp_media_backfill_request_message_fkey'',
         references [''bridge_id'', ''portal_receiver'', ''message_id'', ''_part_id''] ''message''
           [''bridge_id'', ''room_receiver'', ''id'', ''part_id''])],
     td_indexes = []\<rparr>"

definition only :: "dialect \<Rightarrow> dialect \<Rightarrow> sql_stmt list \<Rightarrow> sql_stmt list" where
  "only d' d stmts = (if d = d' then stmts else [])"

definition upgrade3 :: "dialect \<Rightarrow> sql_stmt list" where
  "upgrade3 d =
     only Postgres d
       [DropConstraint tMedia ''whatsapp_media_backfill_request_user_login_fkey'',
        DropConstraint tMedia ''whatsapp_media_backfill_request_portal_fkey''] @
     [CreateTable tMediaNew upgrade3_media,
      InsertSelect tMediaNew
        [''bridge_id'', ''user_login_id'', ''message_id'', ''portal_id'', ''portal_receiver'', ''media_key'', ''status'', ''error'']
        [Col ''bridge_id'', Col ''user_login_id'', LookupCol ''id'' ''message'' ''mxid'' (Col ''event_id''), Col ''portal_id'',
         Col ''portal_receiver'', Col ''media_key'', Col ''status'', Col ''error'']
        tMedia (ExistsRow ''message'' ''mxid'' (Col ''event_id'')),
      DropTable tMedia, RenameTable tMediaNew tMedia,
      CreateIndex ''whatsapp_media_backfill_request_portal_idx'' tMedia [''bridge_id'', ''portal_id'', ''portal_receiver''],
      CreateIndex ''whatsapp_media_backfill_request_message_idx'' tMedia
        [''bridge_id'', ''portal_receiver'', ''message_id'', ''_part_id'']] @
     only Postgres d
       [RenameConstraint tMedia ''whatsapp_media_backfill_request_new_pkey'' ''whatsapp_media_backfill_request_pkey'']"

definition upgrade4 :: "sql_stmt list" where
  "upgrade4 = [AddColumn tConv (column_default ''bridged'' BOOLEAN True (SqlBool False))]"

definition upgrade5 :: "dialect \<Rightarrow> sql_stmt list" where
  "upgrade5 d =
     [CreateTable tNotif \<lparr>
        td_columns = [rowid_column d, column ''bridge_id'' TEXT True, column ''user_login_id'' TEXT True, column ''data'' BYTEA True],
        td_pkey_name = ''whatsapp_history_sync_notification_pkey'', td_pkey = [''rowid''], td_uniques = [], td_lengths = [],
        td_fkeys = [(''whatsapp_history_sync_notification_user_login_fkey'',
          references [''bridge_id'', ''user_login_id''] ''user_login'' [''bridge_id'', ''id''])],
        td_indexes = []\<rparr>,
      CreateIndex ''whatsapp_history_sync_notification_login_idx'' tNotif [''bridge_id'', ''user_login_id'']]"

definition upgrade6 :: "sql_stmt list" where
  "upgrade6 =
     [AddColumn tConv (column ''synced_login_ts'' BIGINT False),
      UpdateSet tConv [(''synced_login_ts'', Lit (SqlInt 0))] (Eq (Col ''bridged'') (Lit (SqlBool True))),
      DropColumn tConv ''bridged'']"

definition upgrade7 :: "sql_stmt list" where
  "upgrade7 =
     [CreateTable tAvatar \<lparr>
        td_columns = [column ''entity_jid'' TEXT True, column ''avatar_id'' TEXT True, column ''direct_path'' TEXT True,
          column ''expiry'' BIGINT True, column_default ''gone'' BOOLEAN True (SqlBool False)],
        td_pkey_name = ''whatsapp_avatar_cache_pkey'', td_pkey = [''entity_jid'', ''avatar_id''],
        td_uniques = [], td_lengths = [], td_fkeys = [], td_indexes = []\<rparr>]"

definition tKv :: string where "tKv = ''kv_store''"

definition upgrade8 :: "sql_stmt list" where
  "upgrade8 =
     [InsertValues tKv [''bridge_id'', ''key'', ''value'']
        [Lit (SqlText []), Lit (SqlText ''whatsapp_lid_dms_deleted''), Lit (SqlText ''false'')] Abort]"

text \<open>The registered scripts, each with the version it leads to.\<close>

definition scripts :: "dialect \<Rightarrow> (nat \<times> sql_stmt list) list" where
  "scripts d =
     [(2, case d of Sqlite \<Rightarrow> upgrade2_sqlite | Postgres \<Rightarrow> upgrade2_postgres), (3, upgrade3 d), (4, upgrade4), (5, upgrade5 d),
      (6, upgrade6), (7, upgrade7), (8, upgrade8)]"

definition scripts_after :: "dialect \<Rightarrow> nat \<Rightarrow> sql_stmt list" where
  "scripts_after d v = (if v = 0 then latest_schema d else concat (map snd (filter (\<lambda>(to, _). v < to) (scripts d))))"

definition Upgrade :: "dialect \<Rightarrow> nat \<Rightarrow> sql_db \<Rightarrow> sql_db outcome" where
  "Upgrade d v db = exec_all (scripts_after d v) db"

section \<open>What the scripts do to the definitions\<close>

definition defs :: "sql_db \<Rightarrow> (string \<times> table_def) list" where
  "defs db = map (\<lambda>(n, tb). (n, tb_def tb)) db"

definition update_def :: "string \<Rightarrow> (table_def \<Rightarrow> table_def) \<Rightarrow> (string \<times> table_def) list \<Rightarrow> (string \<times> table_def) list" where
  "update_def t f ds = map (\<lambda>(n, d). (n, if n = t then f d else d)) ds"

fun def_step :: "sql_stmt \<Rightarrow> (string \<times> table_def) list \<Rightarrow> (string \<times> table_def) list" where
  "def_step (CreateTable t d) ds = ds @ [(t, d)]"
| "def_step (CreateIndex n t cs) ds = update_def t (td_indexes_update (\<lambda>is. is @ [(n, cs)])) ds"
| "def_step (AddColumn t c) ds = update_def t (td_columns_update (\<lambda>cs. cs @ [c])) ds"
| "def_step (DropDefault t c) ds =
     update_def t (td_columns_update (map (\<lambda>d. if cd_name d = c then d\<lparr>cd_default := NoDefault\<rparr> else d))) ds"
| "def_step (DropColumn t c) ds = update_def t (td_columns_update (filter (\<lambda>d. cd_name d \<noteq> c))) ds"
| "def_step (DropConstraint t c) ds = update_def t (drop_constraint c) ds"
| "def_step (AddPrimaryKey t ks) ds = update_def t (\<lambda>d. d\<lparr>td_pkey_name := t @ ''_pkey'', td_pkey := ks\<rparr>) ds"
| "def_step (RenameConstraint t c c') ds =
     update_def t (\<lambda>d. if td_pkey_name d = c then d\<lparr>td_pkey_name := c'\<rparr> else d) ds"
| "def_step (DropTable t) ds = filter (\<lambda>(n, _). n \<noteq> t) ds"
| "def_step (RenameTable t t') ds = map (\<lambda>(n, d). (if n = t then t' else n, d)) ds"
| "def_step s ds = ds"

lemma defs_update_table:
  "(\<And>tb. tb_def (f tb) = g (tb_def tb)) \<Longrightarrow> defs (update_table t f db) = update_def t g (defs db)"
  by (simp add: defs_def update_table_def update_def_def comp_def split_beta)

lemma defs_update_rows: "(\<And>tb. tb_def (f tb) = tb_def tb) \<Longrightarrow> defs (update_table t f db) = defs db"
  by (simp add: defs_def update_table_def comp_def split_beta)

lemma defs_insert_new: "insert_new t tb r db = Ok db' \<Longrightarrow> defs db' = defs db"
  by (auto simp: insert_new_def defs_update_rows add_row_def split: if_splits)

lemma defs_insert_row: "insert_row t k ps given db = Ok db' \<Longrightarrow> defs db' = defs db"
  by (auto simp: insert_row_def Let_def defs_update_rows defs_insert_new
      split: option.splits on_conflict.splits if_splits)

lemma defs_insert_rows: "ofold (\<lambda>r. insert_row t k ps (given r)) rs db = Ok db' \<Longrightarrow> defs db' = defs db"
  by (induction rs arbitrary: db) (auto simp: outcome_simps dest: defs_insert_row)

lemma defs_cascade: "defs (cascade t gone db) = defs db"
  by (simp add: defs_def cascade_def comp_def split_beta)

lemma exec_defs: "exec ps s db = Ok db' \<Longrightarrow> defs db' = def_step s (defs db)"
proof (cases s)
  case (DropTable t)
  then show "exec ps s db = Ok db' \<Longrightarrow> defs db' = def_step s (defs db)"
    by (auto simp: defs_def filter_map comp_def case_prod_unfold)
next
  case (RenameTable t t')
  then show "exec ps s db = Ok db' \<Longrightarrow> defs db' = def_step s (defs db)"
    by (auto simp: defs_def comp_def split_beta)
qed (auto simp: defs_insert_row defs_insert_rows defs_update_rows defs_cascade Let_def
    intro: defs_update_table split: if_splits, simp_all add: defs_def)

lemma exec_all_defs: "exec_all ss db = Ok db' \<Longrightarrow> defs db' = fold def_step ss (defs db)"
  by (induction ss arbitrary: db) (auto simp: exec_all_def outcome_simps dest: exec_defs)

section \<open>All ways lead to the latest revision\<close>

text \<open>
  The definitions of version 1, which no script creates any more: those tables that later scripts
  change, without the changes. The media requests of version 1 are replaced by version 3,
  whatever they were; the tables of the framework that scripts use are any.
\<close>

definition version1_message :: table_def where
  "version1_message = latest_message\<lparr>td_columns := filter (\<lambda>c. cd_name c \<noteq> ''sender_jid'') (td_columns latest_message),
     td_pkey := [''bridge_id'', ''user_login_id'', ''chat_jid'', ''message_id'']\<rparr>"

definition version1 :: "table_def \<Rightarrow> table_def \<Rightarrow> table_def \<Rightarrow> (string \<times> table_def) list" where
  "version1 media message kv =
     [(''message'', message), (tKv, kv), (tPoll, latest_poll),
      (tConv, latest_conversation\<lparr>td_columns := butlast (td_columns latest_conversation)\<rparr>),
      (tMsg, version1_message),
      (tMedia, media)]"

text \<open>The definitions that a database has at version \<open>v\<close>.\<close>

definition version :: "dialect \<Rightarrow> nat \<Rightarrow> table_def \<Rightarrow> table_def \<Rightarrow> table_def \<Rightarrow> (string \<times> table_def) list" where
  "version d v media message kv =
     fold def_step (concat (map snd (filter (\<lambda>(to, _). to \<le> v) (scripts d)))) (version1 media message kv)"

definition same_set :: "'a list \<Rightarrow> 'a list \<Rightarrow> bool" where
  "same_set xs ys \<longleftrightarrow> list_all (\<lambda>x. x \<in> set ys) xs \<and> list_all (\<lambda>y. y \<in> set xs) ys"

text \<open>Tables agree when they do but for the order of columns and constraints; SQLite does not show
  the name of a primary key.\<close>

definition same_table :: "dialect \<Rightarrow> table_def \<Rightarrow> table_def \<Rightarrow> bool" where
  "same_table d a b \<longleftrightarrow> same_set (td_columns a) (td_columns b) \<and> length (td_columns a) = length (td_columns b) \<and>
     td_pkey a = td_pkey b \<and> (d = Postgres \<longrightarrow> td_pkey_name a = td_pkey_name b) \<and> same_set (td_uniques a) (td_uniques b) \<and>
     same_set (td_lengths a) (td_lengths b) \<and> same_set (td_fkeys a) (td_fkeys b) \<and> same_set (td_indexes a) (td_indexes b)"

definition bridge_tables :: "string list" where
  "bridge_tables = [tPoll, tConv, tMsg, tMedia, tNotif, tAvatar]"

definition same_schema :: "dialect \<Rightarrow> (string \<times> table_def) list \<Rightarrow> (string \<times> table_def) list \<Rightarrow> bool" where
  "same_schema d as bs \<longleftrightarrow> same_set (map fst as) (map fst bs) \<and>
     list_all (\<lambda>t. case (map_of as t, map_of bs t) of (Some a, Some b) \<Rightarrow> same_table d a b | _ \<Rightarrow> False) bridge_tables"

lemma scripts_split:
  "1 \<le> v \<Longrightarrow> concat (map snd (filter (\<lambda>(to, _). to \<le> v) (scripts d))) @ scripts_after d v = concat (map snd (scripts d))"
proof -
  have "concat (map snd (filter (\<lambda>(to, _). to \<le> v) ss)) @ concat (map snd (filter (\<lambda>(to, _). v < to) ss)) = concat (map snd ss)"
    if "sorted (map fst ss)" for ss :: "(nat \<times> sql_stmt list) list"
    using that
  proof (induction ss)
    case (Cons x ss)
    show ?case
    proof (cases "fst x \<le> v")
      case False
      then have "filter (\<lambda>(to, _). to \<le> v) ss = []" "filter (\<lambda>(to, _). v < to) ss = ss"
        using Cons.prems by (fastforce simp: filter_empty_conv filter_id_conv)+
      then show ?thesis using False by (simp add: case_prod_unfold)
    qed (use Cons in \<open>auto simp: case_prod_unfold\<close>)
  qed simp
  moreover have "sorted (map fst (scripts d))" by (simp add: scripts_def)
  moreover assume "1 \<le> v"
  ultimately show ?thesis by (simp add: scripts_after_def)
qed

lemma all_scripts_latest:
  "same_schema d (fold def_step (concat (map snd (scripts d))) (version1 media message kv))
     (fold def_step (latest_schema d) [(''message'', message), (tKv, kv)])"
proof (cases d)
  case Sqlite
  show ?thesis unfolding Sqlite by code_simp
next
  case Postgres
  show ?thesis unfolding Postgres by code_simp
qed

lemma latest_schema_runs:
  assumes "map_of db tPoll = None" "map_of db tConv = None" "map_of db tMsg = None" "map_of db tMedia = None"
    "map_of db tNotif = None" "map_of db tAvatar = None"
  shows "\<exists>new. Upgrade d 0 db = Ok new \<and> table_rows new tKv = table_rows db tKv"
  using assms
  by (simp add: Upgrade_def scripts_after_def latest_schema_def exec_all_def table_names tKv_def map_add_def
      table_rows_def split: option.split)

text \<open>C36: Every way to the current schema of the database ends in the same tables: a database that is
  upgraded from any version, on SQLite and on Postgres, has, if the upgrade succeeds, the columns
  with their types and defaults, the keys, constraints, references and indexes of a new
  database, which can always be made.\<close>

theorem upgrades_reach_latest:
  assumes "1 \<le> v" and "defs db = version d v media message kv" and "Upgrade d v db = Ok db'"
    and "defs fresh = [(''message'', message), (tKv, kv)]"
  shows "\<exists>new. Upgrade d 0 fresh = Ok new \<and> same_schema d (defs db') (defs new)"
proof -
  have n: "map fst fresh = [''message'', tKv]"
    using arg_cong [OF assms(4), of "map fst"] by (simp add: defs_def comp_def case_prod_unfold)
  have "map_of fresh t = None" if "t \<in> set bridge_tables" for t
  proof -
    have "t \<notin> set (map fst fresh)" using that unfolding n by (auto simp: bridge_tables_def table_names tKv_def)
    then show ?thesis by (simp add: map_of_eq_None_iff)
  qed
  then obtain new where new: "Upgrade d 0 fresh = Ok new"
    using latest_schema_runs [of fresh d] by (auto simp: bridge_tables_def)
  have "defs db' = fold def_step (concat (map snd (scripts d))) (version1 media message kv)"
    using exec_all_defs assms(3) unfolding Upgrade_def
    by (simp add: assms(2) version_def fold_append [symmetric, THEN fun_cong, simplified comp_apply] scripts_split [OF assms(1)])
  moreover have "defs new = fold def_step (latest_schema d) [(''message'', message), (tKv, kv)]"
    using exec_all_defs new unfolding Upgrade_def by (simp add: scripts_after_def assms(4))
  ultimately show ?thesis using new all_scripts_latest by auto
qed

text \<open>Databases without rows, and the key-value store of the framework as the scripts use it.\<close>

definition empty_tables :: "(string \<times> table_def) list \<Rightarrow> sql_db" where
  "empty_tables ds = map (\<lambda>(n, d). (n, \<lparr>tb_def = d, tb_rows = [], tb_next = 1\<rparr>)) ds"

lemma defs_empty_tables [simp]: "defs (empty_tables ds) = ds"
  by (simp add: defs_def empty_tables_def comp_def case_prod_unfold)

definition sample_kv :: table_def where
  "sample_kv = \<lparr>td_columns = [column ''bridge_id'' TEXT True, column ''key'' TEXT True, column ''value'' TEXT True],
     td_pkey_name = ''kv_store_pkey'', td_pkey = [''bridge_id'', ''key''], td_uniques = [], td_lengths = [], td_fkeys = [],
     td_indexes = []\<rparr>"

definition sample_message :: table_def where
  "sample_message = \<lparr>td_columns = [column ''mxid'' TEXT True, column ''id'' TEXT True],
     td_pkey_name = ''message_pkey'', td_pkey = [''mxid''], td_uniques = [], td_lengths = [], td_fkeys = [], td_indexes = []\<rparr>"

lemma sample_upgrade_runs:
  "case Upgrade Sqlite 1 (empty_tables (version Sqlite 1 sample_message sample_message sample_kv)) of Ok db \<Rightarrow> map_of (defs db) tNotif \<noteq> None
     | _ \<Rightarrow> False"
  by code_simp

theorem upgrades_reach_latest_witness:
  "\<exists>db new. Upgrade Sqlite 1 (empty_tables (version Sqlite 1 sample_message sample_message sample_kv)) = Ok db
     \<and> Upgrade Sqlite 0 (empty_tables [(''message'', sample_message), (tKv, sample_kv)]) = Ok new
     \<and> same_schema Sqlite (defs db) (defs new)"
proof -
  obtain db where "Upgrade Sqlite 1 (empty_tables (version Sqlite 1 sample_message sample_message sample_kv)) = Ok db"
    using sample_upgrade_runs by (auto split: outcome.splits)
  with upgrades_reach_latest [of 1, OF _ defs_empty_tables this defs_empty_tables] show ?thesis by auto
qed

section \<open>What the scripts do to rows\<close>

text \<open>The rows of the history sync messages after version 2.\<close>

definition swapped_row :: "sql_row \<Rightarrow> sql_row" where
  "swapped_row r = [(''bridge_id'', cell r ''bridge_id''), (''user_login_id'', cell r ''user_login_id''),
     (''chat_jid'', cell r ''chat_jid''), (''sender_jid'', cell r ''message_id''), (''message_id'', SqlText []),
     (''timestamp'', cell r ''timestamp''), (''data'', cell r ''data''), (''inserted_time'', cell r ''inserted_time'')]"

lemma upgrade2_sqlite_rows:
  assumes "map_of db tMsg = Some \<lparr>tb_def = version1_message, tb_rows = rows, tb_next = n\<rparr>"
    and "table_ok db \<lparr>tb_def = version1_message, tb_rows = rows, tb_next = n\<rparr>" and "map_of db tMsgNew = None"
  shows "\<exists>db'. exec_all upgrade2_sqlite db = Ok db' \<and> table_rows db' tMsg = map swapped_row rows"
proof -
  let ?new = "\<lparr>tb_def = upgrade2_message, tb_rows = [], tb_next = 1\<rparr>"
  let ?cs = "[''bridge_id'', ''user_login_id'', ''chat_jid'', ''sender_jid'', ''message_id'', ''timestamp'', ''data'', ''inserted_time'']"
  let ?es = "[Col ''bridge_id'', Col ''user_login_id'', Col ''chat_jid'', Col ''message_id'', Lit (SqlText []), Col ''timestamp'',
     Col ''data'', Col ''inserted_time'']"
  let ?db = "db @ [(tMsgNew, ?new)]"
  let ?given = "\<lambda>r. zip ?cs (map (eval (env_of ?db []) r) ?es)"
  have t: "tMsgNew \<noteq> tMsg" "tConv \<noteq> tMsgNew" by (simp_all add: tMsgNew_def table_names)
  have ok: "\<And>r. r \<in> set rows \<Longrightarrow> nulls_ok version1_message r \<and> list_all (fkey_ok db r) (map snd (td_fkeys version1_message))"
    "sorted_wrt (\<lambda>a b. \<not> same_cells (td_pkey version1_message) a (td_pkey version1_message) b) rows"
    using assms(2) by (simp_all add: table_ok_def)
  have "\<exists>db'. ofold (\<lambda>r. insert_row tMsgNew Abort [] (?given r)) rows ?db = Ok db'
      \<and> map_of db' tMsgNew = Some (?new\<lparr>tb_rows := tb_rows ?new @ map swapped_row rows\<rparr>) \<and> (\<forall>n. n \<noteq> tMsgNew \<longrightarrow> map_of db' n = map_of ?db n)"
  proof (rule insert_rows_abort)
    show "map_of ?db tMsgNew = Some ?new" using assms(3) by (simp add: map_add_def)
    show "\<not> has_identity (tb_def ?new)" "td_uniques (tb_def ?new) = []"
      by (simp_all add: has_identity_def upgrade2_message_def column_def)
    show "fk_table (snd k) \<noteq> tMsgNew" if "k \<in> set (td_fkeys (tb_def ?new))" for k
      using that t by (auto simp: upgrade2_message_def references_def tMsgNew_def)
    show "sorted_wrt (\<lambda>a b. \<not> same_cells (td_pkey (tb_def ?new)) a (td_pkey (tb_def ?new)) b) (tb_rows ?new @ map swapped_row rows)"
      using ok(2) unfolding upgrade2_message_def version1_message_def
      by (simp add: sorted_wrt_map) (erule sorted_wrt_mono_rel [rotated], auto simp: swapped_row_def)
    fix r assume r: "r \<in> set rows"
    have "nulls_ok version1_message r" "list_all (fkey_ok db r) (map snd (td_fkeys version1_message))" using ok(1) r by auto
    moreover have "list_all (fkey_ok ?db (swapped_row r)) (map snd (td_fkeys upgrade2_message)) =
        list_all (fkey_ok db r) (map snd (td_fkeys version1_message))"
    proof -
      have "fkey_ok ?db (swapped_row r) k = fkey_ok db r k" if "k \<in> set (map snd (td_fkeys upgrade2_message))" for k
      proof -
        have "fk_table k \<noteq> tMsgNew" and cs: "set (fk_columns k) \<subseteq> {''bridge_id'', ''user_login_id'', ''chat_jid''}"
          using that by (auto simp: upgrade2_message_def references_def tMsgNew_def table_names)
        then have "fkey_ok ?db (swapped_row r) k = fkey_ok db (swapped_row r) k" by (intro fkey_ok_cong map_of_other_table)
        also have "\<dots> = fkey_ok db r k" by (rule fkey_ok_row, drule subsetD [OF cs], elim insertE emptyE) (simp_all add: swapped_row_def)
        finally show ?thesis .
      qed
      moreover have "td_fkeys version1_message = td_fkeys upgrade2_message"
        by (simp add: version1_message_def latest_message_def upgrade2_message_def)
      ultimately show ?thesis by (simp add: list_all_iff)
    qed
    ultimately show "fill_row (tb_def ?new) (tb_next ?new) (?given r) = swapped_row r \<and> nulls_ok (tb_def ?new) (swapped_row r)
        \<and> lengths_ok (tb_def ?new) (swapped_row r) \<and> list_all (fkey_ok ?db (swapped_row r)) (map snd (td_fkeys (tb_def ?new)))"
      by (simp add: upgrade2_message_def version1_message_def latest_message_def fill_row_def swapped_row_def nulls_ok_def column_def
          lengths_ok_def)
  qed
  then obtain db' where db': "ofold (\<lambda>r. insert_row tMsgNew Abort [] (?given r)) rows ?db = Ok db'"
    "map_of db' tMsgNew = Some (?new\<lparr>tb_rows := map swapped_row rows\<rparr>)" by auto
  have r: "table_rows ?db tMsg = rows" using assms(1) t by (simp add: table_rows_def map_add_def)
  have f: "filter (holds (env_of ?db []) CTrue) rows = rows" by (simp add: holds_def)
  let ?renamed = "map (\<lambda>(n, tb). (if n = tMsgNew then tMsg else n, tb)) (filter (\<lambda>(n, _). n \<noteq> tMsg) db')"
  have "exec_all upgrade2_sqlite db = Ok ?renamed"
    using assms(3) db'(1) by (simp add: exec_all_def upgrade2_sqlite_def r f)
  moreover have "map_of ?renamed tMsg = map_of (filter (\<lambda>(n, _). n \<noteq> tMsg) db') tMsgNew"
    by (rule map_of_rename) (simp add: map_of_drop)
  ultimately show ?thesis using db'(2) t by (simp add: table_rows_def map_of_drop)
qed

lemma distinct_map_sorted_wrt: "distinct (map f xs) \<longleftrightarrow> sorted_wrt (\<lambda>a b. f a \<noteq> f b) xs"
  by (induction xs) (auto simp: image_iff)

text \<open>A row of version 1 with the column that Postgres adds.\<close>

definition sender_row :: "sql_row \<Rightarrow> sql_row" where
  "sender_row r = r @ [(''sender_jid'', SqlText [])]"

lemma upgrade2_postgres_rows:
  assumes "map_of db tMsg = Some \<lparr>tb_def = version1_message, tb_rows = rows, tb_next = n\<rparr>"
    and "table_ok db \<lparr>tb_def = version1_message, tb_rows = rows, tb_next = n\<rparr>"
  shows "\<exists>db'. exec_all upgrade2_postgres db = Ok db' \<and> table_rows db' tMsg = map sender_row rows"
proof -
  have ok: "\<And>r. r \<in> set rows \<Longrightarrow> map fst r = map cd_name (td_columns version1_message) \<and> nulls_ok version1_message r"
    "sorted_wrt (\<lambda>a b. \<not> same_cells (td_pkey version1_message) a (td_pkey version1_message) b) rows"
    using assms(2) by (simp_all add: table_ok_def)
  have c: "cell (sender_row r) ''bridge_id'' = cell r ''bridge_id''" "cell (sender_row r) ''user_login_id'' = cell r ''user_login_id''"
    "cell (sender_row r) ''chat_jid'' = cell r ''chat_jid''" "cell (sender_row r) ''message_id'' = cell r ''message_id''"
    "cell (sender_row r) ''sender_jid'' = SqlText []"
    "cell r ''bridge_id'' \<noteq> SqlNull" "cell r ''user_login_id'' \<noteq> SqlNull" "cell r ''chat_jid'' \<noteq> SqlNull" "cell r ''message_id'' \<noteq> SqlNull"
    if "r \<in> set rows" for r
    using ok(1) [OF that]
    by (simp_all add: sender_row_def cell_append version1_message_def latest_message_def column_def nulls_ok_def)
  have "distinct (map (\<lambda>r. map (cell (sender_row r)) [''bridge_id'', ''user_login_id'', ''chat_jid'', ''sender_jid'', ''message_id'']) rows)"
    unfolding distinct_map_sorted_wrt
    by (rule sorted_wrt_mono_rel [OF _ ok(2)]) (simp add: c version1_message_def)
  then show ?thesis
    using assms(1)
    by (simp add: upgrade2_postgres_def exec_all_def table_rows_def comp_def default_value_def column_default_def sender_row_def [symmetric])
qed

text \<open>C38: The upgrade that adds the sender to stored history messages does different things on the two
  databases. With the rows of version 1 intact it succeeds on both; on Postgres every row keeps
  its message identifier and has no sender, but on SQLite the message identifier is moved into
  the column of the sender and the column of the message identifier is empty in every row.\<close>

theorem sender_upgrade_by_dialect:
  assumes "map_of db tMsg = Some \<lparr>tb_def = version1_message, tb_rows = rows, tb_next = n\<rparr>"
    and "table_ok db \<lparr>tb_def = version1_message, tb_rows = rows, tb_next = n\<rparr>" and "map_of db tMsgNew = None"
  shows "\<exists>pg lite. exec_all upgrade2_postgres db = Ok pg \<and> exec_all upgrade2_sqlite db = Ok lite
    \<and> map (\<lambda>r. (cell r ''sender_jid'', cell r ''message_id'', cell r ''data'')) (table_rows pg tMsg) =
        map (\<lambda>r. (SqlText [], cell r ''message_id'', cell r ''data'')) rows
    \<and> map (\<lambda>r. (cell r ''sender_jid'', cell r ''message_id'', cell r ''data'')) (table_rows lite tMsg) =
        map (\<lambda>r. (cell r ''message_id'', SqlText [], cell r ''data'')) rows"
proof -
  have "map fst r = map cd_name (td_columns version1_message)" if "r \<in> set rows" for r
    using assms(2) that by (simp add: table_ok_def)
  then have "cell (sender_row r) ''sender_jid'' = SqlText []" "cell (sender_row r) ''message_id'' = cell r ''message_id''"
    "cell (sender_row r) ''data'' = cell r ''data''" if "r \<in> set rows" for r
    using that by (simp_all add: sender_row_def cell_append version1_message_def latest_message_def column_def)
  then show ?thesis
    using upgrade2_postgres_rows [OF assms(1,2)] upgrade2_sqlite_rows [OF assms] by (auto simp: swapped_row_def)
qed

text \<open>Two messages of a conversation.\<close>

definition sample_v1 :: sql_db where
  "sample_v1 =
     [(tConv, \<lparr>tb_def = latest_conversation, tb_rows = [[(''bridge_id'', SqlText ''wa''), (''user_login_id'', SqlText ''me''),
         (''chat_jid'', SqlText ''123@s.whatsapp.net'')]], tb_next = 1\<rparr>),
      (tMsg, \<lparr>tb_def = version1_message, tb_rows =
         map (\<lambda>i. [(''bridge_id'', SqlText ''wa''), (''user_login_id'', SqlText ''me''), (''chat_jid'', SqlText ''123@s.whatsapp.net''),
           (''message_id'', SqlText i), (''timestamp'', SqlInt 1700000000), (''data'', SqlBytes [1]), (''inserted_time'', SqlInt 1700000001)])
         [''A1'', ''B2''], tb_next = 1\<rparr>)]"

theorem sender_upgrade_by_dialect_witness:
  "\<exists>lite. exec_all upgrade2_sqlite sample_v1 = Ok lite
     \<and> map (\<lambda>r. (cell r ''sender_jid'', cell r ''message_id'')) (table_rows lite tMsg)
       = [(SqlText ''A1'', SqlText []), (SqlText ''B2'', SqlText [])]"
proof -
  define tb where "tb = the (map_of sample_v1 tMsg)"
  have "map_of sample_v1 tMsg = Some \<lparr>tb_def = version1_message, tb_rows = tb_rows tb, tb_next = 1\<rparr>" "map_of sample_v1 tMsgNew = None"
    by (simp_all add: tb_def sample_v1_def table_names tMsgNew_def)
  moreover have "table_ok sample_v1 \<lparr>tb_def = version1_message, tb_rows = tb_rows tb, tb_next = 1\<rparr>"
    by (simp add: tb_def) code_simp
  ultimately obtain lite where l: "exec_all upgrade2_sqlite sample_v1 = Ok lite"
    "map (\<lambda>r. (cell r ''sender_jid'', cell r ''message_id'', cell r ''data'')) (table_rows lite tMsg) =
        map (\<lambda>r. (cell r ''message_id'', SqlText [], cell r ''data'')) (tb_rows tb)"
    using sender_upgrade_by_dialect [of sample_v1 "tb_rows tb" 1] by blast
  from arg_cong [OF l(2), of "map (\<lambda>(s, m, _). (s, m))"] l(1) show ?thesis
    by (simp add: comp_def tb_def sample_v1_def table_names)
qed

text \<open>Version 6 turns the flag of bridged conversations into the login they were synced with: 0 for
  those that were bridged, none for the others.\<close>

definition synced_row :: "sql_row \<Rightarrow> sql_row" where
  "synced_row r = filter (\<lambda>(n, _). n \<noteq> ''bridged'') r @
     [(''synced_login_ts'', if cell r ''bridged'' = SqlBool True then SqlInt 0 else SqlNull)]"

lemma upgrade6_rows:
  assumes "map_of db tConv = Some tb" and "\<And>r. r \<in> set (tb_rows tb) \<Longrightarrow> ''synced_login_ts'' \<notin> set (map fst r) \<and> ''bridged'' \<in> set (map fst r)"
  shows "\<exists>db'. exec_all upgrade6 db = Ok db' \<and> table_rows db' tConv = map synced_row (tb_rows tb)"
proof -
  have set_last: "assign E [(c, Lit e)] (r @ [(c, v)]) = r @ [(c, e)]" if "c \<notin> set (map fst r)" for E c e v and r :: sql_row
    using that unfolding assign_def by (simp add: map_idI image_iff case_prod_unfold) (rule map_idI, auto)
  have "filter (\<lambda>(n, _). n \<noteq> ''bridged'') (if holds E (Eq (Col ''bridged'') (Lit (SqlBool True))) (r @ [(''synced_login_ts'', SqlNull)])
          then assign E [(''synced_login_ts'', Lit (SqlInt 0))] (r @ [(''synced_login_ts'', SqlNull)]) else r @ [(''synced_login_ts'', SqlNull)])
      = synced_row r" if "r \<in> set (tb_rows tb)" for r E
    using assms(2) [OF that]
    by (auto simp: holds_def set_last synced_row_def cell_append)
  then show ?thesis
    using assms(1)
    by (simp add: upgrade6_def exec_all_def table_rows_def default_value_def column_def comp_def)
qed

section \<open>The mark for the migration of chats with LIDs\<close>

definition kv_get :: "sql_db \<Rightarrow> string \<Rightarrow> string \<Rightarrow> string option" where
  "kv_get db bridge key =
     (case find (\<lambda>r. cell r ''bridge_id'' = SqlText bridge \<and> cell r ''key'' = SqlText key) (table_rows db tKv) of
        Some r \<Rightarrow> (case cell r ''value'' of SqlText v \<Rightarrow> Some v | _ \<Rightarrow> None)
      | None \<Rightarrow> None)"

text \<open>The scripts before the last leave the store alone, the last inserts one row.\<close>

lemma kv_untouched:
  "list_all (\<lambda>s. \<not> writes s tKv) (latest_schema d)"
  "list_all (\<lambda>(to, ss). to \<le> 7 \<longrightarrow> list_all (\<lambda>s. \<not> writes s tKv) ss) (scripts d)"
proof -
  have "list_all (\<lambda>s. \<not> writes s tKv) (latest_schema Sqlite)" "list_all (\<lambda>s. \<not> writes s tKv) (latest_schema Postgres)"
    "list_all (\<lambda>(to, ss). to \<le> 7 \<longrightarrow> list_all (\<lambda>s. \<not> writes s tKv) ss) (scripts Sqlite)"
    "list_all (\<lambda>(to, ss). to \<le> 7 \<longrightarrow> list_all (\<lambda>s. \<not> writes s tKv) ss) (scripts Postgres)" by code_simp+
  then show "list_all (\<lambda>s. \<not> writes s tKv) (latest_schema d)"
    "list_all (\<lambda>(to, ss). to \<le> 7 \<longrightarrow> list_all (\<lambda>s. \<not> writes s tKv) ss) (scripts d)" by (cases d; blast)+
qed

end
