(* ===== verification/Queries.thy ===== *)
theory Queries
  imports WaDb Schema
begin

text \<open>
  The SQL queries of \<open>pkg/connector/wadb\<close>, the parameters that the Go code passes to them and what
  it reads from their results, and that the operations of theory \<open>WaDb\<close> are what these queries
  do on the tables of the latest schema: the rows of the model are the abstraction of the rows of
  the database. \<open>dbutil\<close> builds one statement for many rows, which is their insertion in turn.
\<close>

section \<open>Rows as columns\<close>

definition nullable :: "('a \<Rightarrow> sql_value) \<Rightarrow> 'a option \<Rightarrow> sql_value" where
  "nullable f v = (case v of None \<Rightarrow> SqlNull | Some x \<Rightarrow> f x)"

definition uint_value :: "32 word \<Rightarrow> sql_value" where "uint_value w = SqlInt (uint w)"

definition conv_cells :: "conv_row \<Rightarrow> sql_row" where
  "conv_cells r =
     [(''bridge_id'', SqlText (cr_bridge r)), (''user_login_id'', SqlText (cr_login r)), (''chat_jid'', SqlJid (cr_chat r)),
      (''last_message_timestamp'', nullable SqlInt (cr_last r)), (''archived'', nullable SqlBool (cr_archived r)),
      (''pinned'', nullable SqlBool (cr_pinned r)), (''mute_end_time'', nullable SqlInt (cr_mute_end r)),
      (''end_of_history_transfer_type'', nullable SqlInt (cr_end_type r)),
      (''ephemeral_expiration'', nullable uint_value (cr_eph_exp r)),
      (''ephemeral_setting_timestamp'', nullable SqlInt (cr_eph_ts r)), (''marked_as_unread'', nullable SqlBool (cr_unread r)),
      (''unread_count'', nullable uint_value (cr_unread_count r)), (''synced_login_ts'', nullable SqlInt (cr_synced r))]"

definition msg_cells :: "hs_row \<Rightarrow> sql_row" where
  "msg_cells r =
     [(''bridge_id'', SqlText (hs_bridge r)), (''user_login_id'', SqlText (hs_login r)), (''chat_jid'', SqlJid (hs_chat r)),
      (''sender_jid'', SqlJid (hs_sender r)), (''message_id'', SqlText (hs_mid r)), (''timestamp'', SqlInt (hs_ts r)),
      (''data'', SqlBytes (hs_data r)), (''inserted_time'', SqlInt (hs_inserted r))]"

definition poll_cells :: "poll_row \<Rightarrow> sql_row" where
  "poll_cells r =
     [(''bridge_id'', SqlText (po_bridge r)), (''msg_mxid'', SqlText (po_msg r)), (''opt_id'', SqlText (po_id r)),
      (''opt_hash'', SqlBytes (po_hash r))]"

definition status_value :: "MediaBackfillRequestStatus \<Rightarrow> sql_value" where
  "status_value s = SqlInt (status_number s)"

definition media_cells :: "MediaRequest \<Rightarrow> sql_row" where
  "media_cells r =
     [(''bridge_id'', SqlText (mr_BridgeID r)), (''user_login_id'', SqlText (mr_UserLoginID r)),
      (''message_id'', SqlText (mr_MessageID r)), (''_part_id'', SqlText []), (''portal_id'', SqlText (pk_ID (mr_PortalKey r))),
      (''portal_receiver'', SqlText (pk_Receiver (mr_PortalKey r))), (''media_key'', SqlBytes (mr_MediaKey r)),
      (''status'', status_value (mr_Status r)), (''error'', SqlText (mr_Error r))]"

definition notif_cells :: "notif_row \<Rightarrow> sql_row" where
  "notif_cells r =
     [(''rowid'', SqlInt (nr_rowid r)), (''bridge_id'', SqlText (nr_bridge r)), (''user_login_id'', SqlText (nr_login r)),
      (''data'', SqlBytes (nr_data r))]"

definition avatar_cells :: "AvatarCacheEntry \<Rightarrow> sql_row" where
  "avatar_cells r =
     [(''entity_jid'', SqlJid (ac_EntityJID r)), (''avatar_id'', SqlText (ac_AvatarID r)),
      (''direct_path'', SqlText (ac_DirectPath r)), (''expiry'', SqlInt (ac_Expiry r)), (''gone'', SqlBool (ac_Gone r))]"

text \<open>The tables of the latest schema with the rows of a state of the model.\<close>

definition media_def :: table_def where
  "media_def = latest_media\<lparr>td_indexes :=
     [(''whatsapp_media_backfill_request_portal_idx'', [''bridge_id'', ''portal_id'', ''portal_receiver'']),
      (''whatsapp_media_backfill_request_message_idx'', [''bridge_id'', ''portal_receiver'', ''message_id'', ''_part_id''])]\<rparr>"

definition notif_def :: "dialect \<Rightarrow> table_def" where
  "notif_def d = (latest_notification d)\<lparr>td_indexes :=
     [(''whatsapp_history_sync_notification_login_idx'', [''bridge_id'', ''user_login_id''])]\<rparr>"

definition sql_of :: "dialect \<Rightarrow> wadb \<Rightarrow> sql_db" where
  "sql_of d db =
     [(tPoll, \<lparr>tb_def = latest_poll, tb_rows = map poll_cells (poll_options db), tb_next = 1\<rparr>),
      (tConv, \<lparr>tb_def = latest_conversation, tb_rows = map conv_cells (conversations db), tb_next = 1\<rparr>),
      (tMsg, \<lparr>tb_def = latest_message, tb_rows = map msg_cells (messages db), tb_next = 1\<rparr>),
      (tMedia, \<lparr>tb_def = media_def, tb_rows = map media_cells (media_requests db), tb_next = 1\<rparr>),
      (tNotif, \<lparr>tb_def = notif_def d, tb_rows = map notif_cells (notifications db), tb_next = next_rowid db\<rparr>),
      (tAvatar, \<lparr>tb_def = latest_avatar, tb_rows = map avatar_cells (avatar_cache db), tb_next = 1\<rparr>)]"

lemma sql_of_empty: "Upgrade d 0 [] = Ok (sql_of d empty_wadb)"
proof (cases d)
  case Sqlite
  show ?thesis unfolding Sqlite by code_simp
next
  case Postgres
  show ?thesis unfolding Postgres by code_simp
qed

section \<open>The queries\<close>

definition params :: "nat \<Rightarrow> sql_exp list" where "params n = map Param [1..<n + 1]"

definition login_is :: "sql_cond" where
  "login_is = SqlAnd (Eq (Col ''bridge_id'') (Param 1)) (Eq (Col ''user_login_id'') (Param 2))"

definition keep_or :: "string \<Rightarrow> string \<times> sql_exp" where
  "keep_or c = (c, Coalesce (Excl c) (Col c))"

definition conversation_sets :: "(string \<times> sql_exp) list" where
  "conversation_sets =
     [(''last_message_timestamp'',
       CaseWhen (SqlOr (IsNull (Col ''last_message_timestamp'')) (Less (Col ''last_message_timestamp'') (Excl ''last_message_timestamp'')))
         (Excl ''last_message_timestamp'') (Col ''last_message_timestamp'')),
      keep_or ''archived'', keep_or ''pinned'', keep_or ''mute_end_time'', keep_or ''end_of_history_transfer_type'',
      keep_or ''ephemeral_expiration'', keep_or ''ephemeral_setting_timestamp'', keep_or ''marked_as_unread'',
      keep_or ''unread_count'']"

definition upsertHistorySyncConversationQuery :: sql_stmt where
  "upsertHistorySyncConversationQuery =
     InsertValues tConv
       [''bridge_id'', ''user_login_id'', ''chat_jid'', ''last_message_timestamp'', ''archived'', ''pinned'', ''mute_end_time'',
        ''end_of_history_transfer_type'', ''ephemeral_expiration'', ''ephemeral_setting_timestamp'', ''marked_as_unread'',
        ''unread_count'']
       (params 12) (DoUpdate [''bridge_id'', ''user_login_id'', ''chat_jid''] conversation_sets)"

definition conversation_columns :: "string list" where
  "conversation_columns =
     [''bridge_id'', ''user_login_id'', ''chat_jid'', ''last_message_timestamp'', ''archived'', ''pinned'', ''mute_end_time'',
      ''end_of_history_transfer_type'', ''ephemeral_expiration'', ''ephemeral_setting_timestamp'', ''marked_as_unread'',
      ''unread_count'']"

definition getRecentConversations :: sql_query where
  "getRecentConversations =
     \<lparr>sq_columns = conversation_columns, sq_table = tConv,
      sq_where = SqlAnd login_is (SqlOr (IsNull (Col ''synced_login_ts'')) (Less (Col ''synced_login_ts'') (Param 4))),
      sq_order_desc = Some ''last_message_timestamp''\<rparr>"

definition getConversationByJID :: sql_query where
  "getConversationByJID =
     \<lparr>sq_columns = conversation_columns, sq_table = tConv,
      sq_where = SqlAnd login_is (Eq (Col ''chat_jid'') (Param 3)), sq_order_desc = None\<rparr>"

definition deleteAllConversationsQuery :: sql_stmt where
  "deleteAllConversationsQuery = DeleteFrom tConv login_is"

definition deleteConversationQuery :: sql_stmt where
  "deleteConversationQuery = DeleteFrom tConv (SqlAnd login_is (Eq (Col ''chat_jid'') (Param 3)))"

definition markConversationSynced :: sql_stmt where
  "markConversationSynced =
     UpdateSet tConv [(''synced_login_ts'', Param 4)] (SqlAnd login_is (Eq (Col ''chat_jid'') (Param 3)))"

text \<open>The template of the mass insertion puts the fixed parameters at 1 to 4 and those of a row after them.\<close>

definition insertHistorySyncMessageQuery :: sql_stmt where
  "insertHistorySyncMessageQuery =
     InsertValues tMsg
       [''bridge_id'', ''user_login_id'', ''chat_jid'', ''sender_jid'', ''message_id'', ''timestamp'', ''data'', ''inserted_time'']
       [Param 1, Param 2, Param 3, Param 5, Param 6, Param 7, Param 8, Param 4]
       (DoNothing [''bridge_id'', ''user_login_id'', ''chat_jid'', ''sender_jid'', ''message_id''])"

definition chat_is :: sql_cond where
  "chat_is = SqlAnd login_is (Eq (Col ''chat_jid'') (Param 3))"

text \<open>The clauses that \<open>GetBetween\<close> adds number their parameters on from 4.\<close>

definition getHistorySyncMessagesBetweenQuery :: "bool \<Rightarrow> bool \<Rightarrow> sql_query" where
  "getHistorySyncMessagesBetweenQuery start end' =
     (let c1 = (if start then SqlAnd chat_is (Leq (Param 4) (Col ''timestamp'')) else chat_is);
          argNum = (if start then 5 else 4);
          c2 = (if end' then SqlAnd c1 (Leq (Col ''timestamp'') (Param argNum)) else c1)
      in \<lparr>sq_columns = [''data''], sq_table = tMsg, sq_where = c2, sq_order_desc = Some ''timestamp''\<rparr>)"

definition deleteHistorySyncMessagesBetweenQuery :: sql_stmt where
  "deleteHistorySyncMessagesBetweenQuery =
     DeleteFrom tMsg (SqlAnd (SqlAnd chat_is (Leq (Col ''timestamp'') (Param 4))) (Leq (Param 5) (Col ''timestamp'')))"

definition deleteAllHistorySyncMessagesQuery :: sql_stmt where
  "deleteAllHistorySyncMessagesQuery = DeleteFrom tMsg login_is"

definition deleteHistorySyncMessagesForPortalQuery :: sql_stmt where
  "deleteHistorySyncMessagesForPortalQuery = DeleteFrom tMsg chat_is"

definition conversationHasHistorySyncMessagesQuery :: sql_query where
  "conversationHasHistorySyncMessagesQuery = \<lparr>sq_columns = [], sq_table = tMsg, sq_where = chat_is, sq_order_desc = None\<rparr>"

definition putPollOptionBaseQuery :: sql_stmt where
  "putPollOptionBaseQuery =
     InsertValues tPoll [''bridge_id'', ''msg_mxid'', ''opt_id'', ''opt_hash''] (params 4) Abort"

definition poll_is :: sql_cond where
  "poll_is = SqlAnd (Eq (Col ''bridge_id'') (Param 1)) (Eq (Col ''msg_mxid'') (Param 2))"

definition getPollOptionIDsByHashesQuery :: sql_query where
  "getPollOptionIDsByHashesQuery =
     \<lparr>sq_columns = [''opt_id'', ''opt_hash''], sq_table = tPoll, sq_where = SqlAnd poll_is (AnyFrom (Col ''opt_hash'') 3), sq_order_desc = None\<rparr>"

definition getPollOptionHashesByIDsQuery :: sql_query where
  "getPollOptionHashesByIDsQuery =
     \<lparr>sq_columns = [''opt_id'', ''opt_hash''], sq_table = tPoll, sq_where = SqlAnd poll_is (AnyFrom (Col ''opt_id'') 3), sq_order_desc = None\<rparr>"

definition upsertMediaRequestQuery :: sql_stmt where
  "upsertMediaRequestQuery =
     InsertValues tMedia
       [''bridge_id'', ''user_login_id'', ''message_id'', ''portal_id'', ''portal_receiver'', ''media_key'', ''status'', ''error'']
       (params 8)
       (DoUpdate [''bridge_id'', ''user_login_id'', ''message_id'']
          [(''media_key'', Excl ''media_key''), (''status'', Excl ''status''), (''error'', Excl ''error'')])"

definition deleteMediaRequestQuery :: sql_stmt where
  "deleteMediaRequestQuery = DeleteFrom tMedia (SqlAnd login_is (Eq (Col ''message_id'') (Param 3)))"

definition getAllUnrequestedMediaRequestsForUserLoginQuery :: sql_query where
  "getAllUnrequestedMediaRequestsForUserLoginQuery =
     \<lparr>sq_columns = [''bridge_id'', ''user_login_id'', ''message_id'', ''portal_id'', ''portal_receiver'', ''media_key'', ''status'', ''error''],
      sq_table = tMedia, sq_where = SqlAnd login_is (Eq (Col ''status'') (Lit (SqlInt 0))), sq_order_desc = None\<rparr>"

definition putHSNotificationQuery :: sql_stmt where
  "putHSNotificationQuery = InsertValues tNotif [''bridge_id'', ''user_login_id'', ''data''] (params 3) Abort"

definition getNextHSNotificationQuery :: sql_query where
  "getNextHSNotificationQuery =
     \<lparr>sq_columns = [''rowid'', ''data''], sq_table = tNotif, sq_where = login_is, sq_order_desc = None\<rparr>"

definition deleteHSNotificationQuery :: sql_stmt where
  "deleteHSNotificationQuery = DeleteFrom tNotif (Eq (Col ''rowid'') (Param 1))"

definition getAvatarCacheEntry :: sql_query where
  "getAvatarCacheEntry =
     \<lparr>sq_columns = [''entity_jid'', ''avatar_id'', ''direct_path'', ''expiry'', ''gone''], sq_table = tAvatar,
      sq_where = SqlAnd (Eq (Col ''entity_jid'') (Param 1)) (Eq (Col ''avatar_id'') (Param 2)), sq_order_desc = None\<rparr>"

definition putAvatarCacheEntry :: sql_stmt where
  "putAvatarCacheEntry =
     InsertValues tAvatar [''entity_jid'', ''avatar_id'', ''direct_path'', ''expiry'', ''gone''] (params 5)
       (DoUpdate [''entity_jid'', ''avatar_id'']
          [(''direct_path'', Excl ''direct_path''), (''expiry'', Excl ''expiry''), (''gone'', Excl ''gone'')])"

section \<open>Tables of the model as tables of the database\<close>

text \<open>
  The contract between a table of the model and one of the database: two rows have the same key
  columns exactly when they have the same key. Then a conflict clause does what \<open>tbl_upsert\<close> does.
\<close>

locale stored_table =
  fixes cells :: "'r \<Rightarrow> sql_row"
    and key :: "'r \<Rightarrow> 'k"
    and ks :: "string list"
  assumes same_key: "same_cells ks (cells x) ks (cells y) \<longleftrightarrow> key x = key y"
begin

lemma conflict_iff: "list_ex (\<lambda>x. same_cells ks x ks (cells r)) (map cells rows) \<longleftrightarrow> tbl_lookup key rows (key r) \<noteq> None"
  by (auto simp: list_ex_iff same_key tbl_lookup_None intro: rev_image_eqI)

lemma insert_new_row:
  assumes "distinct (map fst db)" and "map_of db t = Some tb" and "tb_rows tb = map cells rows"
    and "td_pkey (tb_def tb) = ks" "td_uniques (tb_def tb) = []" "\<not> has_identity (tb_def tb)"
    and "nulls_ok (tb_def tb) (cells r)" "lengths_ok (tb_def tb) (cells r)"
    and "list_all (fkey_ok db (cells r)) (map snd (td_fkeys (tb_def tb)))"
    and "tbl_lookup key rows (key r) = None"
  shows "insert_new t tb (cells r) db = Ok (set_rows t (map cells (rows @ [r])) db)"
proof -
  have "unique_ok (tb_def tb) (cells r) (tb_rows tb)"
    using conflict_iff [of r rows] assms(3,4,5,10) by (simp add: unique_ok_def)
  moreover have "update_table t (add_row (cells r)) db = set_rows t (map cells (rows @ [r])) db"
    unfolding set_rows_def by (rule update_table_cong [OF assms(1,2)]) (use assms(3,6) in \<open>simp add: add_row_def\<close>)
  ultimately show ?thesis using assms(7-9) by (simp add: insert_new_def)
qed

lemma upsert_refined:
  assumes "distinct (map fst db)" and "map_of db t = Some tb" and "tb_rows tb = map cells rows"
    and "td_pkey (tb_def tb) = ks" "td_uniques (tb_def tb) = []" "\<not> has_identity (tb_def tb)"
    and "fill_row (tb_def tb) (tb_next tb) given = cells r"
    and "nulls_ok (tb_def tb) (cells r)" "lengths_ok (tb_def tb) (cells r)"
    and "list_all (fkey_ok db (cells r)) (map snd (td_fkeys (tb_def tb)))"
    and "\<And>x. key x = key r \<Longrightarrow> assign ((env_of db ps)\<lparr>se_excluded := cells r\<rparr>) sets (cells x) = cells (upd x r)"
  shows "insert_row t (DoUpdate ks sets) ps given db = Ok (set_rows t (map cells (tbl_upsert key upd r rows)) db)"
proof (cases "tbl_lookup key rows (key r) = None")
  case True
  then show ?thesis
    using insert_new_row [OF assms(1-6,8-10)] conflict_iff [of r rows] assms(2,3,7)
    by (simp add: insert_row_def tbl_upsert_def)
next
  case False
  let ?E = "(env_of db ps)\<lparr>se_excluded := cells r\<rparr>"
  have "map (\<lambda>x. if same_cells ks x ks (cells r) then assign ?E sets x else x) (map cells rows)
      = map cells (map (\<lambda>x. if key x = key r then upd x r else x) rows)"
    using assms(11) by (auto simp: same_key)
  then have "update_table t (tb_rows_update (map (\<lambda>x. if same_cells ks x ks (cells r) then assign ?E sets x else x))) db
      = set_rows t (map cells (tbl_upsert key upd r rows)) db"
    unfolding set_rows_def using False
    by (intro update_table_cong [OF assms(1,2)]) (simp add: assms(3) tbl_upsert_def)
  then show ?thesis
    using False conflict_iff [of r rows] assms(2,3,7) by (simp add: insert_row_def)
qed

lemma insert_ignore_refined:
  assumes "distinct (map fst db)" and "map_of db t = Some tb" and "tb_rows tb = map cells rows"
    and "td_pkey (tb_def tb) = ks" "td_uniques (tb_def tb) = []" "\<not> has_identity (tb_def tb)"
    and "fill_row (tb_def tb) (tb_next tb) given = cells r"
    and "nulls_ok (tb_def tb) (cells r)" "lengths_ok (tb_def tb) (cells r)"
    and "list_all (fkey_ok db (cells r)) (map snd (td_fkeys (tb_def tb)))"
  shows "insert_row t (DoNothing ks) ps given db = Ok (set_rows t (map cells (tbl_upsert key (\<lambda>old new. old) r rows)) db)"
proof (cases "tbl_lookup key rows (key r) = None")
  case True
  then show ?thesis
    using insert_new_row [OF assms(1-6,8-10)] conflict_iff [of r rows] assms(2,3,7)
    by (simp add: insert_row_def tbl_upsert_def)
next
  case False
  then show ?thesis
    using conflict_iff [of r rows] assms(2,3,7) set_rows_same [OF assms(1,2)]
    by (auto simp: insert_row_def tbl_upsert_def)
qed

end

interpretation conv_stored: stored_table conv_cells conv_key "[''bridge_id'', ''user_login_id'', ''chat_jid'']"
  by unfold_locales (auto simp: conv_cells_def conv_key_def)

interpretation msg_stored: stored_table msg_cells hs_key "[''bridge_id'', ''user_login_id'', ''chat_jid'', ''sender_jid'', ''message_id'']"
  by unfold_locales (auto simp: msg_cells_def hs_key_def)

interpretation media_stored: stored_table media_cells mr_key "[''bridge_id'', ''user_login_id'', ''message_id'']"
  by unfold_locales (auto simp: media_cells_def mr_key_def)

interpretation avatar_stored: stored_table avatar_cells ac_key "[''entity_jid'', ''avatar_id'']"
  by unfold_locales (auto simp: avatar_cells_def ac_key_def)

text \<open>Deleting and updating rows.\<close>

definition unreferenced :: "string \<Rightarrow> sql_db \<Rightarrow> bool" where
  "unreferenced t db \<longleftrightarrow> list_all (\<lambda>(_, d). list_all (\<lambda>(_, k). fk_table k \<noteq> t) (td_fkeys d)) (defs db)"

lemma cascade_unreferenced:
  assumes "unreferenced t db"
  shows "cascade t gone db = db"
proof -
  have "\<not> list_ex (\<lambda>(_, k). fk_table k = t \<and> list_ex (\<lambda>g. same_cells (fk_columns k) x (fk_refs k) g) gone) (td_fkeys (tb_def tb))"
    if "(n, tb) \<in> set db" for n tb x
    using assms that by (auto simp: unreferenced_def defs_def list_ex_iff list_all_iff)
  then show ?thesis unfolding cascade_def by (intro map_idI) auto
qed

lemma defs_set_rows [simp]: "defs (set_rows t rows db) = defs db"
  by (simp add: set_rows_def defs_update_rows)

lemma delete_refined:
  assumes "distinct (map fst db)" and "map_of db t = Some tb" and "tb_rows tb = map cells rows" and "unreferenced t db"
    and "\<And>r. holds (env_of db ps) p (cells r) = P r"
  shows "exec ps (DeleteFrom t p) db = Ok (set_rows t (map cells (tbl_delete P rows)) db)"
proof -
  have "update_table t (tb_rows_update (filter (\<lambda>r. \<not> holds (env_of db ps) p r))) db = set_rows t (map cells (tbl_delete P rows)) db"
    unfolding set_rows_def
    by (rule update_table_cong [OF assms(1,2)]) (simp add: assms(3,5) tbl_delete_def filter_map comp_def)
  moreover have "unreferenced t (set_rows t rs db)" for rs using assms(4) by (simp add: unreferenced_def)
  ultimately show ?thesis by (simp add: Let_def cascade_unreferenced)
qed

section \<open>The state of the model as a database\<close>

lemma sql_of_tables [simp]:
  "distinct (map fst (sql_of d db))"
  "map_of (sql_of d db) tPoll = Some \<lparr>tb_def = latest_poll, tb_rows = map poll_cells (poll_options db), tb_next = 1\<rparr>"
  "map_of (sql_of d db) tConv = Some \<lparr>tb_def = latest_conversation, tb_rows = map conv_cells (conversations db), tb_next = 1\<rparr>"
  "map_of (sql_of d db) tMsg = Some \<lparr>tb_def = latest_message, tb_rows = map msg_cells (messages db), tb_next = 1\<rparr>"
  "map_of (sql_of d db) tMedia = Some \<lparr>tb_def = media_def, tb_rows = map media_cells (media_requests db), tb_next = 1\<rparr>"
  "map_of (sql_of d db) tNotif = Some \<lparr>tb_def = notif_def d, tb_rows = map notif_cells (notifications db), tb_next = next_rowid db\<rparr>"
  "map_of (sql_of d db) tAvatar = Some \<lparr>tb_def = latest_avatar, tb_rows = map avatar_cells (avatar_cache db), tb_next = 1\<rparr>"
  "map_of (sql_of d db) ''user_login'' = None" "map_of (sql_of d db) ''message'' = None" "map_of (sql_of d db) ''portal'' = None"
  by (simp_all add: sql_of_def table_names)

lemma sql_of_rows:
  "set_rows tConv (map conv_cells cs) (sql_of d db) = sql_of d (db\<lparr>conversations := cs\<rparr>)"
  "set_rows tMsg (map msg_cells ms) (sql_of d db) = sql_of d (db\<lparr>messages := ms\<rparr>)"
  "set_rows tPoll (map poll_cells ps) (sql_of d db) = sql_of d (db\<lparr>poll_options := ps\<rparr>)"
  "set_rows tMedia (map media_cells rs) (sql_of d db) = sql_of d (db\<lparr>media_requests := rs\<rparr>)"
  "set_rows tNotif (map notif_cells ns) (sql_of d db) = sql_of d (db\<lparr>notifications := ns\<rparr>)"
  "set_rows tAvatar (map avatar_cells as) (sql_of d db) = sql_of d (db\<lparr>avatar_cache := as\<rparr>)"
  by (simp_all add: set_rows_def update_table_def sql_of_def table_names)

lemma unreferenced_tables:
  "unreferenced tMsg (sql_of d db)" "unreferenced tMedia (sql_of d db)" "unreferenced tNotif (sql_of d db)"
  "unreferenced tAvatar (sql_of d db)"
  by (simp_all add: unreferenced_def defs_def sql_of_def latest_poll_def latest_conversation_def latest_message_def media_def_def
      latest_media_def notif_def_def latest_notification_def latest_avatar_def references_def table_names)

lemma param_simps [simp]:
  "param (E\<lparr>se_excluded := x\<rparr>) n = param E n"
  "se_params (env_of db ps) = ps"
  "param (env_of db ps) n = (if 0 < n \<and> n \<le> length ps then ps ! (n - 1) else SqlNull)"
  by (simp_all add: param_def env_of_def)

lemma eval_params: "length ps = n \<Longrightarrow> map (eval (env_of db ps) r) (params n) = ps"
  by (rule nth_equalityI) (simp_all add: params_def del: upt_Suc)

lemmas table_defs = latest_conversation_def latest_message_def media_def_def latest_media_def latest_avatar_def latest_poll_def
  notif_def_def latest_notification_def rowid_column_def column_def column_default_def references_def
lemmas row_cells = conv_cells_def msg_cells_def media_cells_def avatar_cells_def poll_cells_def notif_cells_def
lemmas condition_defs = login_is_def chat_is_def poll_is_def holds_def

section \<open>What the Go code passes\<close>

text \<open>The values of \<open>sqlVariables\<close> and \<open>GetMassInsertValues\<close> in their order.\<close>

definition conversation_args :: "Conversation \<Rightarrow> sql_value list" where
  "conversation_args c =
     [SqlText (c_BridgeID c), SqlText (c_UserLoginID c), SqlJid (c_ChatJID c), nullable SqlInt (null_time (c_LastMessageTimestamp c)),
      nullable SqlBool (c_Archived c), nullable SqlBool (c_Pinned c), nullable SqlInt (null_time (c_MuteEndTime c)),
      nullable SqlInt (c_EndOfHistoryTransferType c), nullable uint_value (c_EphemeralExpiration c),
      nullable SqlInt (c_EphemeralSettingTimestamp c), nullable SqlBool (c_MarkedAsUnread c), nullable uint_value (c_UnreadCount c)]"

definition message_args :: "jid_lib \<Rightarrow> int \<Rightarrow> string \<Rightarrow> string \<Rightarrow> jid \<Rightarrow> HistorySyncMessageTuple \<Rightarrow> sql_value list" where
  "message_args L now bridge loginID chatJID t =
     (case GetMassInsertValues L t of (sender, mid, ts, data) \<Rightarrow>
        [SqlText bridge, SqlText loginID, SqlJid chatJID, SqlInt now, SqlJid sender, SqlText mid, SqlInt ts, SqlBytes data])"

definition media_args :: "MediaRequest \<Rightarrow> sql_value list" where
  "media_args r =
     [SqlText (mr_BridgeID r), SqlText (mr_UserLoginID r), SqlText (mr_MessageID r), SqlText (pk_ID (mr_PortalKey r)),
      SqlText (pk_Receiver (mr_PortalKey r)), SqlBytes (mr_MediaKey r), status_value (mr_Status r), SqlText (mr_Error r)]"

definition avatar_args :: "AvatarCacheEntry \<Rightarrow> sql_value list" where
  "avatar_args e =
     [SqlJid (ac_EntityJID e), SqlText (ac_AvatarID e), SqlText (ac_DirectPath e), SqlInt (ac_Expiry e), SqlBool (ac_Gone e)]"

text \<open>A mass insertion inserts its rows in turn, each with the fixed parameters before its own.\<close>

definition exec_many :: "sql_stmt \<Rightarrow> sql_value list list \<Rightarrow> sql_db \<Rightarrow> sql_db outcome" where
  "exec_many stmt pss db = ofold (\<lambda>ps. exec ps stmt) pss db"

section \<open>Conversations\<close>

lemma nullable_simps [simp]:
  "nullable f None = SqlNull" "nullable f (Some x) = f x" "uint_value w \<noteq> SqlNull"
  by (simp_all add: nullable_def uint_value_def)

lemma nullable_coalesce:
  "(\<And>x. f x \<noteq> SqlNull) \<Longrightarrow> first_value (nullable f a) (nullable f b) = nullable f (coalesce a b)"
  by (simp add: coalesce_def first_value_def split: option.split)

lemma later_cell:
  "choose3 (or3 (Some (nullable SqlInt a = SqlNull)) (less3 (nullable SqlInt a) (nullable SqlInt b))) (nullable SqlInt b) (nullable SqlInt a) =
   nullable SqlInt (case a of None \<Rightarrow> b | Some o' \<Rightarrow> (case b of None \<Rightarrow> Some o' | Some e \<Rightarrow> if e > o' then Some e else Some o'))"
  by (cases a; cases b) (auto simp: choose3_def)

lemma conv_cell [simp]:
  "cell (conv_cells r) ''bridge_id'' = SqlText (cr_bridge r)"
  "cell (conv_cells r) ''user_login_id'' = SqlText (cr_login r)"
  "cell (conv_cells r) ''chat_jid'' = SqlJid (cr_chat r)"
  "cell (conv_cells r) ''last_message_timestamp'' = nullable SqlInt (cr_last r)"
  "cell (conv_cells r) ''archived'' = nullable SqlBool (cr_archived r)"
  "cell (conv_cells r) ''pinned'' = nullable SqlBool (cr_pinned r)"
  "cell (conv_cells r) ''mute_end_time'' = nullable SqlInt (cr_mute_end r)"
  "cell (conv_cells r) ''end_of_history_transfer_type'' = nullable SqlInt (cr_end_type r)"
  "cell (conv_cells r) ''ephemeral_expiration'' = nullable uint_value (cr_eph_exp r)"
  "cell (conv_cells r) ''ephemeral_setting_timestamp'' = nullable SqlInt (cr_eph_ts r)"
  "cell (conv_cells r) ''marked_as_unread'' = nullable SqlBool (cr_unread r)"
  "cell (conv_cells r) ''unread_count'' = nullable uint_value (cr_unread_count r)"
  "cell (conv_cells r) ''synced_login_ts'' = nullable SqlInt (cr_synced r)"
  by (simp_all add: conv_cells_def)

lemma conv_columns: "map fst (conv_cells r) = map cd_name (td_columns latest_conversation)"
  by (simp add: conv_cells_def table_defs)

lemma conversation_upsert_cells:
  assumes "conv_key x = conv_key r"
  shows "assign ((env_of db ps)\<lparr>se_excluded := conv_cells r\<rparr>) conversation_sets (conv_cells x) = conv_cells (conv_upsert_row x r)"
proof (rule row_eqI)
  show "distinct (map fst (assign ((env_of db ps)\<lparr>se_excluded := conv_cells r\<rparr>) conversation_sets (conv_cells x)))"
    by (simp add: conv_columns table_defs)
  show "list_all (\<lambda>c. cell (assign ((env_of db ps)\<lparr>se_excluded := conv_cells r\<rparr>) conversation_sets (conv_cells x)) c =
      cell (conv_cells (conv_upsert_row x r)) c) (map fst (assign ((env_of db ps)\<lparr>se_excluded := conv_cells r\<rparr>) conversation_sets (conv_cells x)))"
    using assms
    by (simp add: conv_columns table_defs cell_assign conversation_sets_def keep_or_def nullable_coalesce later_cell conv_upsert_row_def
        conv_key_def)
qed (simp add: conv_columns)

lemma conversation_filled:
  "fill_row latest_conversation n (zip conversation_columns (map (eval (env_of db (conversation_args c)) []) (params 12))) =
   conv_cells (Conversation_sqlVariables c)"
  by (simp add: eval_params conversation_args_def)
    (simp add: fill_row_def table_defs conversation_columns_def conv_cells_def Conversation_sqlVariables_def)

lemma Conversation_Put_refined:
  "exec (conversation_args (c\<lparr>c_BridgeID := b\<rparr>)) upsertHistorySyncConversationQuery (sql_of d db) =
   Ok (sql_of d (Conversation_Put b c db))"
proof -
  let ?r = "Conversation_sqlVariables (c\<lparr>c_BridgeID := b\<rparr>)"
  have "insert_row tConv (DoUpdate [''bridge_id'', ''user_login_id'', ''chat_jid''] conversation_sets) (conversation_args (c\<lparr>c_BridgeID := b\<rparr>))
      (zip conversation_columns (map (eval (env_of (sql_of d db) (conversation_args (c\<lparr>c_BridgeID := b\<rparr>))) []) (params 12))) (sql_of d db) =
      Ok (set_rows tConv (map conv_cells (tbl_upsert conv_key conv_upsert_row ?r (conversations db))) (sql_of d db))"
  proof (rule conv_stored.upsert_refined [OF sql_of_tables(1) sql_of_tables(3)], goal_cases)
    case 5
    then show ?case by (simp add: conversation_filled)
  next
    case (9 x)
    then show ?case by (rule conversation_upsert_cells)
  qed (simp_all add: table_defs has_identity_def nulls_ok_def lengths_ok_def fkey_ok_def)
  then show ?thesis
    by (simp add: upsertHistorySyncConversationQuery_def conversation_columns_def sql_of_rows Conversation_Put_def)
qed

lemma update_refined:
  assumes "distinct (map fst db)" and "map_of db t = Some tb" and "tb_rows tb = map cells rows"
    and "\<And>r. (if holds (env_of db ps) p (cells r) then assign (env_of db ps) sets (cells r) else cells r) = cells (f r)"
  shows "exec ps (UpdateSet t sets p) db = Ok (set_rows t (map cells (map f rows)) db)"
proof -
  have "map (\<lambda>r. if holds (env_of db ps) p r then assign (env_of db ps) sets r else r) (map cells rows) = map cells (map f rows)"
    using assms(4) by simp
  then show ?thesis
    unfolding set_rows_def exec.simps
    by (intro arg_cong [where f = Ok] update_table_cong [OF assms(1,2)]) (simp add: assms(3))
qed

lemma Conversation_MarkSynced_refined:
  "exec [SqlText b, SqlText l, SqlJid j, SqlInt t] markConversationSynced (sql_of d db) =
   Ok (sql_of d (Conversation_MarkSynced b l j t db))"
proof -
  let ?ps = "[SqlText b, SqlText l, SqlJid j, SqlInt t]"
  have a: "assign (env_of (sql_of d db) ?ps) [(''synced_login_ts'', Param 4)] (conv_cells r) = conv_cells (r\<lparr>cr_synced := Some t\<rparr>)" for r
    by (simp add: assign_def conv_cells_def)
  have h: "holds (env_of (sql_of d db) ?ps) (SqlAnd login_is (Eq (Col ''chat_jid'') (Param 3))) (conv_cells r) \<longleftrightarrow> conv_key r = (b, l, j)" for r
    by (auto simp: condition_defs conv_key_def)
  have "exec ?ps markConversationSynced (sql_of d db) =
      Ok (set_rows tConv (map conv_cells (map (\<lambda>r. if conv_key r = (b, l, j) then r\<lparr>cr_synced := Some t\<rparr> else r) (conversations db))) (sql_of d db))"
    unfolding markConversationSynced_def by (rule update_refined [OF sql_of_tables(1) sql_of_tables(3)]) (simp_all add: a h)
  then show ?thesis by (simp add: sql_of_rows Conversation_MarkSynced_def del: map_map)
qed

text \<open>Deleting conversations deletes their messages.\<close>

lemma msg_cell [simp]:
  "cell (msg_cells r) ''bridge_id'' = SqlText (hs_bridge r)"
  "cell (msg_cells r) ''user_login_id'' = SqlText (hs_login r)"
  "cell (msg_cells r) ''chat_jid'' = SqlJid (hs_chat r)"
  "cell (msg_cells r) ''sender_jid'' = SqlJid (hs_sender r)"
  "cell (msg_cells r) ''message_id'' = SqlText (hs_mid r)"
  "cell (msg_cells r) ''timestamp'' = SqlInt (hs_ts r)"
  "cell (msg_cells r) ''data'' = SqlBytes (hs_data r)"
  "cell (msg_cells r) ''inserted_time'' = SqlInt (hs_inserted r)"
  by (simp_all add: msg_cells_def)

lemma list_ex_map: "list_ex P (map f xs) = list_ex (\<lambda>x. P (f x)) xs"
  by (simp add: list_ex_iff)

lemma cascade_conversations:
  "cascade tConv (map conv_cells cs) (sql_of d db) =
   sql_of d (db\<lparr>messages := filter (\<lambda>m. hs_conv m \<notin> conv_key ` set cs) (messages db)\<rparr>)"
proof -
  have n: "\<not> list_ex (\<lambda>(_, k). fk_table k = tConv \<and> Q k) (td_fkeys latest_poll)"
    "\<not> list_ex (\<lambda>(_, k). fk_table k = tConv \<and> Q k) (td_fkeys latest_conversation)"
    "\<not> list_ex (\<lambda>(_, k). fk_table k = tConv \<and> Q k) (td_fkeys media_def)"
    "\<not> list_ex (\<lambda>(_, k). fk_table k = tConv \<and> Q k) (td_fkeys (notif_def d))"
    "\<not> list_ex (\<lambda>(_, k). fk_table k = tConv \<and> Q k) (td_fkeys latest_avatar)"
    "list_ex (\<lambda>(_, k). fk_table k = tConv \<and> Q k) (td_fkeys latest_message) \<longleftrightarrow>
      Q (references [''bridge_id'', ''user_login_id'', ''chat_jid''] tConv [''bridge_id'', ''user_login_id'', ''chat_jid''])" for Q
    by (simp_all add: table_defs table_names)
  have "list_ex (\<lambda>g. same_cells [''bridge_id'', ''user_login_id'', ''chat_jid''] (msg_cells m)
        [''bridge_id'', ''user_login_id'', ''chat_jid''] (conv_cells g)) cs \<longleftrightarrow> hs_conv m \<in> conv_key ` set cs" for m
    by (auto simp: list_ex_iff hs_conv_def conv_key_def)
  then show ?thesis
    by (simp add: cascade_def sql_of_def n references_def filter_map comp_def list_ex_map del: same_cells_simps)
qed

lemma delete_conversations_refined:
  assumes "wadb_ok db" and "\<And>r. holds (env_of (sql_of d db) ps) p (conv_cells r) = P (conv_key r)"
  shows "exec ps (DeleteFrom tConv p) (sql_of d db) =
    Ok (sql_of d (db\<lparr>conversations := tbl_delete (\<lambda>r. P (conv_key r)) (conversations db),
      messages := tbl_delete (\<lambda>m. P (hs_conv m)) (messages db)\<rparr>))"
proof -
  let ?cs = "filter (\<lambda>r. P (conv_key r)) (conversations db)"
  have "update_table tConv (tb_rows_update (filter (\<lambda>r. \<not> holds (env_of (sql_of d db) ps) p r))) (sql_of d db) =
      sql_of d (db\<lparr>conversations := tbl_delete (\<lambda>r. P (conv_key r)) (conversations db)\<rparr>)"
    unfolding sql_of_rows [symmetric] set_rows_def
    by (rule update_table_cong [OF sql_of_tables(1) sql_of_tables(3)]) (simp add: assms(2) tbl_delete_def filter_map comp_def)
  moreover have "filter (holds (env_of (sql_of d db) ps) p) (table_rows (sql_of d db) tConv) = map conv_cells ?cs"
    by (simp add: table_rows_def filter_map comp_def assms(2))
  moreover have "filter (\<lambda>m. hs_conv m \<notin> conv_key ` set ?cs) (messages db) = tbl_delete (\<lambda>m. P (hs_conv m)) (messages db)"
  proof -
    have "hs_conv m \<in> conv_key ` set (conversations db)" if "m \<in> set (messages db)" for m
      using assms(1) that by (auto simp: wadb_ok_def)
    then show ?thesis by (fastforce simp: tbl_delete_def intro!: filter_cong)
  qed
  ultimately show ?thesis by (simp add: Let_def cascade_conversations)
qed

lemma Conversation_Delete_refined:
  assumes "wadb_ok db"
  shows "exec [SqlText b, SqlText l, SqlJid j] deleteConversationQuery (sql_of d db) = Ok (sql_of d (Conversation_Delete b l j db))"
  unfolding deleteConversationQuery_def Conversation_Delete_def
  by (subst delete_conversations_refined [OF assms, where P = "\<lambda>k. k = (b, l, j)"]) (auto simp: condition_defs conv_key_def)

lemma Conversation_DeleteAll_refined:
  assumes "wadb_ok db"
  shows "exec [SqlText b, SqlText l] deleteAllConversationsQuery (sql_of d db) = Ok (sql_of d (Conversation_DeleteAll b l db))"
  unfolding deleteAllConversationsQuery_def Conversation_DeleteAll_def
  by (subst delete_conversations_refined [OF assms, where P = "\<lambda>k. fst k = b \<and> fst (snd k) = l"])
    (auto simp: condition_defs conv_key_def hs_conv_def)

section \<open>Messages\<close>

lemma message_filled:
  "fill_row latest_message n (zip [''bridge_id'', ''user_login_id'', ''chat_jid'', ''sender_jid'', ''message_id'', ''timestamp'', ''data'', ''inserted_time'']
     (map (eval (env_of db (message_args L now b l j t)) []) [Param 1, Param 2, Param 3, Param 5, Param 6, Param 7, Param 8, Param 4])) =
   msg_cells (hs_row_of L now b l j t)"
  by (simp add: message_args_def hs_row_of_def split: prod.split)
    (simp add: fill_row_def table_defs msg_cells_def)

lemma message_conv_ok:
  "fkey_ok (sql_of d db) (msg_cells r) (references [''bridge_id'', ''user_login_id'', ''chat_jid''] tConv [''bridge_id'', ''user_login_id'', ''chat_jid''])
   \<longleftrightarrow> tbl_lookup conv_key (conversations db) (hs_conv r) \<noteq> None"
  by (auto simp: fkey_ok_def references_def list_ex_iff tbl_lookup_None conv_key_def hs_conv_def image_iff)

lemma message_fkeys:
  "list_all (fkey_ok (sql_of d db) (msg_cells r)) (map snd (td_fkeys latest_message)) \<longleftrightarrow>
   tbl_lookup conv_key (conversations db) (hs_conv r) \<noteq> None"
proof -
  have "fkey_ok (sql_of d db) (msg_cells r) (references [''bridge_id'', ''user_login_id''] ''user_login'' [''bridge_id'', ''id''])"
    by (simp add: fkey_ok_def references_def)
  moreover have "map snd (td_fkeys latest_message) = [references [''bridge_id'', ''user_login_id''] ''user_login'' [''bridge_id'', ''id''],
      references [''bridge_id'', ''user_login_id'', ''chat_jid''] tConv [''bridge_id'', ''user_login_id'', ''chat_jid'']]"
    by (simp add: latest_message_def)
  ultimately show ?thesis by (simp add: message_conv_ok)
qed

text \<open>One message is inserted when its conversation exists, and fails otherwise.\<close>

lemma message_insert_refined:
  assumes "tbl_lookup conv_key (conversations db) (b, l, j) \<noteq> None"
  shows "exec (message_args L now b l j t) insertHistorySyncMessageQuery (sql_of d db) =
    Ok (sql_of d (db\<lparr>messages := hs_insert (hs_row_of L now b l j t) (messages db)\<rparr>))"
proof -
  let ?r = "hs_row_of L now b l j t"
  have "insert_row tMsg (DoNothing [''bridge_id'', ''user_login_id'', ''chat_jid'', ''sender_jid'', ''message_id'']) (message_args L now b l j t)
      (zip [''bridge_id'', ''user_login_id'', ''chat_jid'', ''sender_jid'', ''message_id'', ''timestamp'', ''data'', ''inserted_time'']
        (map (eval (env_of (sql_of d db) (message_args L now b l j t)) [])
          [Param 1, Param 2, Param 3, Param 5, Param 6, Param 7, Param 8, Param 4])) (sql_of d db) =
      Ok (set_rows tMsg (map msg_cells (tbl_upsert hs_key (\<lambda>old new. old) ?r (messages db))) (sql_of d db))"
  proof (rule msg_stored.insert_ignore_refined [OF sql_of_tables(1) sql_of_tables(4)], goal_cases)
    case 5
    show ?case by (simp only: message_filled sql_table.select_convs)
  next
    case 8
    show ?case using assms by (simp only: message_fkeys sql_table.select_convs hs_conv_row_of) simp
  qed (simp_all add: table_defs has_identity_def nulls_ok_def lengths_ok_def)
  then show ?thesis
    by (simp add: insertHistorySyncMessageQuery_def sql_of_rows hs_insert_def)
qed

lemma message_insert_fails:
  assumes "wadb_ok db" and "tbl_lookup conv_key (conversations db) (b, l, j) = None"
  shows "exec (message_args L now b l j t) insertHistorySyncMessageQuery (sql_of d db) = Fail (Err ''foreign key constraint failed'')"
proof -
  let ?r = "hs_row_of L now b l j t"
  have "hs_key ?r \<notin> hs_key ` set (messages db)"
  proof
    assume "hs_key ?r \<in> hs_key ` set (messages db)"
    then obtain m where "m \<in> set (messages db)" "hs_key m = hs_key ?r" by auto
    then have "hs_conv ?r \<in> conv_key ` set (conversations db)"
      using assms(1) by (auto simp: wadb_ok_def hs_key_def hs_conv_def)
    with assms(2) show False by (simp add: tbl_lookup_None)
  qed
  then have n: "\<not> list_ex (\<lambda>x. same_cells [''bridge_id'', ''user_login_id'', ''chat_jid'', ''sender_jid'', ''message_id''] x
      [''bridge_id'', ''user_login_id'', ''chat_jid'', ''sender_jid'', ''message_id''] (msg_cells ?r)) (map msg_cells (messages db))"
    by (subst msg_stored.conflict_iff) (simp add: tbl_lookup_None)
  have f: "nulls_ok latest_message (msg_cells ?r)" "lengths_ok latest_message (msg_cells ?r)"
    "unique_ok latest_message (msg_cells ?r) (map msg_cells (messages db))"
    using n by (simp_all add: table_defs nulls_ok_def lengths_ok_def unique_ok_def del: same_cells_simps)
  have "exec (message_args L now b l j t) insertHistorySyncMessageQuery (sql_of d db) =
      insert_new tMsg \<lparr>tb_def = latest_message, tb_rows = map msg_cells (messages db), tb_next = 1\<rparr> (msg_cells ?r) (sql_of d db)"
    using n by (simp add: insertHistorySyncMessageQuery_def insert_row_def message_filled [simplified] del: same_cells_simps)
  then show ?thesis using assms(2) f by (simp add: insert_new_def message_fkeys)
qed

lemma exec_many_append: "exec_many stmt (pss @ qss) db = obind (exec_many stmt pss db) (exec_many stmt qss)"
proof (induction pss arbitrary: db)
  case (Cons ps pss)
  then show ?case by (cases "exec ps stmt db") (simp_all add: exec_many_def)
qed (simp add: exec_many_def)

lemma Message_PutChunk_refined:
  assumes "wadb_ok db" and "c \<noteq> []"
  shows "exec_many insertHistorySyncMessageQuery (map (message_args L now b l j) c) (sql_of d db) =
    map_outcome (sql_of d) (Message_PutChunk L now b l j c db)"
proof (cases "tbl_lookup conv_key (conversations db) (b, l, j) = None")
  case True
  with assms show ?thesis
    by (cases c) (simp_all add: exec_many_def message_insert_fails Message_PutChunk_def)
next
  case False
  have "exec_many insertHistorySyncMessageQuery (map (message_args L now b l j) c) (sql_of d db') =
      Ok (sql_of d (db'\<lparr>messages := fold hs_insert (map (hs_row_of L now b l j) c) (messages db')\<rparr>))"
    if "tbl_lookup conv_key (conversations db') (b, l, j) \<noteq> None" for db'
    using that by (induction c arbitrary: db') (simp_all add: exec_many_def message_insert_refined)
  from this [OF False] False show ?thesis by (simp add: Message_PutChunk_def)
qed

text \<open>A transaction of one statement for each chunk.\<close>

lemma Message_Put_refined:
  assumes "wadb_ok db" and "\<And>c. c \<in> set (chunk 50 ts) \<Longrightarrow> c \<noteq> []"
  shows "ofold (\<lambda>c. exec_many insertHistorySyncMessageQuery (map (message_args L now b l j) c)) (chunk 50 ts) (sql_of d db) =
    map_outcome (sql_of d) (Message_Put L chunk now b l j ts db)"
proof -
  have "ofold (\<lambda>c. exec_many insertHistorySyncMessageQuery (map (message_args L now b l j) c)) cs (sql_of d db') =
      map_outcome (sql_of d) (ofold (Message_PutChunk L now b l j) cs db')"
    if "wadb_ok db'" "\<And>c. c \<in> set cs \<Longrightarrow> c \<noteq> []" for cs db'
    using that
  proof (induction cs arbitrary: db')
    case (Cons c cs)
    have r: "exec_many insertHistorySyncMessageQuery (map (message_args L now b l j) c) (sql_of d db') =
        map_outcome (sql_of d) (Message_PutChunk L now b l j c db')"
      using Cons.prems by (intro Message_PutChunk_refined) auto
    show ?case
    proof (cases "Message_PutChunk L now b l j c db'")
      case (Ok db2)
      have "Message_Put L (\<lambda>_ _. [c]) now b l j [] db' = Ok db2" using Ok by (simp add: Message_Put_def)
      then have "wadb_ok db2" using Message_Put_ok Cons.prems(1) by blast
      with Cons r Ok show ?thesis by simp
    qed (use r in simp_all)
  qed simp
  from this [OF assms] show ?thesis unfolding Message_Put_def .
qed

lemma message_ranges_refined:
  "exec [SqlText b, SqlText l, SqlJid j, SqlInt hi, SqlInt lo] deleteHistorySyncMessagesBetweenQuery (sql_of d db) =
   Ok (sql_of d (Message_DeleteBetween b l j hi lo db))"
  unfolding deleteHistorySyncMessagesBetweenQuery_def Message_DeleteBetween_def sql_of_rows [symmetric]
  by (rule delete_refined [OF sql_of_tables(1) sql_of_tables(4) _ unreferenced_tables(1)])
    (auto simp: condition_defs hs_conv_def)

lemma Message_DeleteAll_refined:
  "exec [SqlText b, SqlText l] deleteAllHistorySyncMessagesQuery (sql_of d db) = Ok (sql_of d (Message_DeleteAll b l db))"
  unfolding deleteAllHistorySyncMessagesQuery_def Message_DeleteAll_def sql_of_rows [symmetric]
  by (rule delete_refined [OF sql_of_tables(1) sql_of_tables(4) _ unreferenced_tables(1)]) (auto simp: condition_defs)

lemma Message_DeleteAllInChat_refined:
  "exec [SqlText b, SqlText l, SqlJid j] deleteHistorySyncMessagesForPortalQuery (sql_of d db) =
   Ok (sql_of d (Message_DeleteAllInChat b l j db))"
  unfolding deleteHistorySyncMessagesForPortalQuery_def Message_DeleteAllInChat_def sql_of_rows [symmetric]
  by (rule delete_refined [OF sql_of_tables(1) sql_of_tables(4) _ unreferenced_tables(1)]) (auto simp: condition_defs hs_conv_def)

section \<open>Media requests, notifications and avatars\<close>

lemma status_values [simp]: "status_value s \<noteq> SqlNull" "status_value s = status_value t \<longleftrightarrow> s = t"
  by (simp_all add: status_value_def)

text \<open>The database compares statuses as the model does.\<close>

lemma status_value_order: "less3 (status_value s) (status_value t) = Some (s < t)" "leq3 (status_value s) (status_value t) = Some (s \<le> t)"
  by (simp_all add: status_value_def less_eq_MediaBackfillRequestStatus_def less_MediaBackfillRequestStatus_def)

lemma media_cell [simp]:
  "cell (media_cells r) ''bridge_id'' = SqlText (mr_BridgeID r)"
  "cell (media_cells r) ''user_login_id'' = SqlText (mr_UserLoginID r)"
  "cell (media_cells r) ''message_id'' = SqlText (mr_MessageID r)"
  "cell (media_cells r) ''status'' = status_value (mr_Status r)"
  by (simp_all add: media_cells_def)

lemma MediaRequest_Put_refined:
  "exec (media_args (r\<lparr>mr_BridgeID := b\<rparr>)) upsertMediaRequestQuery (sql_of d db) = Ok (sql_of d (MediaRequest_Put b r db))"
proof -
  let ?r = "r\<lparr>mr_BridgeID := b\<rparr>"
  let ?cs = "[''bridge_id'', ''user_login_id'', ''message_id'', ''portal_id'', ''portal_receiver'', ''media_key'', ''status'', ''error'']"
  have "insert_row tMedia (DoUpdate [''bridge_id'', ''user_login_id'', ''message_id'']
        [(''media_key'', Excl ''media_key''), (''status'', Excl ''status''), (''error'', Excl ''error'')])
      (media_args ?r) (zip ?cs (map (eval (env_of (sql_of d db) (media_args ?r)) []) (params 8))) (sql_of d db) =
      Ok (set_rows tMedia (map media_cells (tbl_upsert mr_key mr_upsert_row ?r (media_requests db))) (sql_of d db))"
  proof (rule media_stored.upsert_refined [OF sql_of_tables(1) sql_of_tables(5)], goal_cases)
    case 5
    show ?case by (simp add: eval_params media_args_def) (simp add: fill_row_def table_defs media_cells_def)
  next
    case (9 x)
    then show ?case by (simp add: assign_def media_cells_def mr_upsert_row_def mr_key_def)
  qed (simp_all add: table_defs has_identity_def nulls_ok_def lengths_ok_def fkey_ok_def media_cells_def)
  then show ?thesis by (simp add: upsertMediaRequestQuery_def sql_of_rows MediaRequest_Put_def)
qed

lemma MediaRequest_Delete_refined:
  "exec [SqlText b, SqlText l, SqlText m] deleteMediaRequestQuery (sql_of d db) = Ok (sql_of d (MediaRequest_Delete b l m db))"
  unfolding deleteMediaRequestQuery_def MediaRequest_Delete_def sql_of_rows [symmetric]
  by (rule delete_refined [OF sql_of_tables(1) sql_of_tables(5) _ unreferenced_tables(2)]) (auto simp: condition_defs mr_key_def)

lemma HSNotif_Delete_refined:
  "exec [SqlInt i] deleteHSNotificationQuery (sql_of d db) = Ok (sql_of d (HSNotif_Delete i db))"
  unfolding deleteHSNotificationQuery_def HSNotif_Delete_def sql_of_rows [symmetric]
  by (rule delete_refined [OF sql_of_tables(1) sql_of_tables(6) _ unreferenced_tables(3)])
    (auto simp: condition_defs notif_cells_def)

lemma HSNotif_Put_refined:
  assumes "wadb_ok db" and "marshal n = Inr bytes"
  shows "exec [SqlText b, SqlText l, SqlBytes bytes] putHSNotificationQuery (sql_of d db) =
    map_outcome (sql_of d) (HSNotif_Put marshal b l n db)"
proof -
  let ?r = "\<lparr>nr_rowid = next_rowid db, nr_bridge = b, nr_login = l, nr_data = bytes\<rparr>"
  let ?tb = "\<lparr>tb_def = notif_def d, tb_rows = map notif_cells (notifications db), tb_next = next_rowid db\<rparr>"
  have f: "fill_row (notif_def d) (next_rowid db) (zip [''bridge_id'', ''user_login_id'', ''data'']
      (map (eval (env_of (sql_of d db) [SqlText b, SqlText l, SqlBytes bytes]) []) (params 3))) = notif_cells ?r"
    by (simp add: eval_params) (simp add: fill_row_def table_defs notif_cells_def)
  have "\<not> list_ex (\<lambda>x. same_cells [''rowid''] x [''rowid''] (notif_cells ?r)) (map notif_cells (notifications db))"
    using assms(1) by (auto simp: list_ex_iff wadb_ok_def notif_cells_def)
  then have c: "nulls_ok (notif_def d) (notif_cells ?r)" "lengths_ok (notif_def d) (notif_cells ?r)"
    "unique_ok (notif_def d) (notif_cells ?r) (map notif_cells (notifications db))"
    "list_all (fkey_ok (sql_of d db) (notif_cells ?r)) (map snd (td_fkeys (notif_def d)))"
    by (simp_all add: table_defs nulls_ok_def lengths_ok_def unique_ok_def fkey_ok_def notif_cells_def)
  have "update_table tNotif (add_row (notif_cells ?r)) (sql_of d db) =
      sql_of d (db\<lparr>notifications := notifications db @ [?r], next_rowid := next_rowid db + 1\<rparr>)"
    by (simp add: update_table_def sql_of_def table_names add_row_def has_identity_def table_defs)
  then have "insert_new tNotif ?tb (notif_cells ?r) (sql_of d db) =
      Ok (sql_of d (db\<lparr>notifications := notifications db @ [?r], next_rowid := next_rowid db + 1\<rparr>))"
    using c by (simp add: insert_new_def)
  then show ?thesis
    using assms(2) by (simp add: putHSNotificationQuery_def insert_row_def f HSNotif_Put_def)
qed

lemma AvatarCache_Put_refined:
  "exec (avatar_args e) putAvatarCacheEntry (sql_of d db) = Ok (sql_of d (AvatarCache_Put e db))"
proof -
  let ?cs = "[''entity_jid'', ''avatar_id'', ''direct_path'', ''expiry'', ''gone'']"
  have "insert_row tAvatar (DoUpdate [''entity_jid'', ''avatar_id'']
        [(''direct_path'', Excl ''direct_path''), (''expiry'', Excl ''expiry''), (''gone'', Excl ''gone'')])
      (avatar_args e) (zip ?cs (map (eval (env_of (sql_of d db) (avatar_args e)) []) (params 5))) (sql_of d db) =
      Ok (set_rows tAvatar (map avatar_cells (tbl_upsert ac_key (\<lambda>old new. new) e (avatar_cache db))) (sql_of d db))"
  proof (rule avatar_stored.upsert_refined [OF sql_of_tables(1) sql_of_tables(7)], goal_cases)
    case 5
    show ?case by (simp add: eval_params avatar_args_def) (simp add: fill_row_def table_defs avatar_cells_def)
  next
    case (9 x)
    then show ?case by (simp add: assign_def avatar_cells_def ac_key_def)
  qed (simp_all add: table_defs has_identity_def nulls_ok_def lengths_ok_def avatar_cells_def)
  then show ?thesis by (simp add: putAvatarCacheEntry_def sql_of_rows AvatarCache_Put_def)
qed

section \<open>Poll options\<close>

definition poll_args :: "string \<Rightarrow> string \<Rightarrow> byte list \<times> string \<Rightarrow> sql_value list" where
  "poll_args bridge mxid o' = [SqlText bridge, SqlText mxid, SqlText (snd o'), SqlBytes (fst o')]"

lemma poll_cell [simp]:
  "cell (poll_cells r) ''bridge_id'' = SqlText (po_bridge r)" "cell (poll_cells r) ''msg_mxid'' = SqlText (po_msg r)"
  "cell (poll_cells r) ''opt_id'' = SqlText (po_id r)" "cell (poll_cells r) ''opt_hash'' = SqlBytes (po_hash r)"
  by (simp_all add: poll_cells_def)

lemma poll_unique: "unique_ok latest_poll (poll_cells r) (map poll_cells rows) \<longleftrightarrow> \<not> list_ex (poll_conflict r) rows"
  by (auto simp: unique_ok_def latest_poll_def list_ex_iff poll_conflict_def)

lemma poll_insert_refined:
  "exec (poll_args b m (h, i)) putPollOptionBaseQuery (sql_of d db) =
   map_outcome (\<lambda>rows. sql_of d (db\<lparr>poll_options := rows\<rparr>))
     (poll_insert \<lparr>po_bridge = b, po_msg = m, po_id = i, po_hash = h\<rparr> (poll_options db))"
proof -
  let ?r = "\<lparr>po_bridge = b, po_msg = m, po_id = i, po_hash = h\<rparr>"
  let ?tb = "\<lparr>tb_def = latest_poll, tb_rows = map poll_cells (poll_options db), tb_next = 1\<rparr>"
  have f: "fill_row latest_poll 1 (zip [''bridge_id'', ''msg_mxid'', ''opt_id'', ''opt_hash'']
      (map (eval (env_of (sql_of d db) (poll_args b m (h, i))) []) (params 4))) = poll_cells ?r"
    by (simp add: eval_params poll_args_def) (simp add: fill_row_def table_defs poll_cells_def)
  have c: "nulls_ok latest_poll (poll_cells ?r)" "lengths_ok latest_poll (poll_cells ?r) \<longleftrightarrow> length h = 32"
    "list_all (fkey_ok (sql_of d db) (poll_cells ?r)) (map snd (td_fkeys latest_poll))"
    by (simp_all add: table_defs nulls_ok_def lengths_ok_def fkey_ok_def)
  have "update_table tPoll (add_row (poll_cells ?r)) (sql_of d db) = sql_of d (db\<lparr>poll_options := poll_options db @ [?r]\<rparr>)"
    unfolding sql_of_rows [symmetric] set_rows_def
    by (rule update_table_cong [OF sql_of_tables(1) sql_of_tables(2)]) (simp add: add_row_def has_identity_def table_defs)
  then have "insert_new tPoll ?tb (poll_cells ?r) (sql_of d db) =
      map_outcome (\<lambda>rows. sql_of d (db\<lparr>poll_options := rows\<rparr>)) (poll_insert ?r (poll_options db))"
    using c by (simp add: insert_new_def poll_insert_def poll_unique)
  then show ?thesis by (simp add: putPollOptionBaseQuery_def insert_row_def f)
qed

lemma PollOption_Put_refined:
  "exec_many putPollOptionBaseQuery (map (poll_args b m) opts) (sql_of d db) = map_outcome (sql_of d) (PollOption_Put b m opts db)"
proof -
  have "exec_many putPollOptionBaseQuery (map (poll_args b m) opts) (sql_of d (db\<lparr>poll_options := rows\<rparr>)) =
      map_outcome (\<lambda>rows. sql_of d (db\<lparr>poll_options := rows\<rparr>))
        (ofold poll_insert (map (\<lambda>(hash, i). \<lparr>po_bridge = b, po_msg = m, po_id = i, po_hash = hash\<rparr>) opts) rows)" for rows
  proof (induction opts arbitrary: rows)
    case (Cons o' opts)
    obtain h i where o': "o' = (h, i)" by (cases o')
    show ?case
      using poll_insert_refined [of b m h i d "db\<lparr>poll_options := rows\<rparr>"] Cons.IH
      by (cases "poll_insert \<lparr>po_bridge = b, po_msg = m, po_id = i, po_hash = h\<rparr> rows") (simp_all add: o' exec_many_def)
  qed (simp add: exec_many_def)
  note many = this [of "poll_options db"]
  show ?thesis
  proof (cases "opts = []")
    case True
    then show ?thesis by (simp add: exec_many_def PollOption_Put_def)
  next
    case False
    then show ?thesis
      using many
      by (cases "ofold poll_insert (map (\<lambda>(hash, i). \<lparr>po_bridge = b, po_msg = m, po_id = i, po_hash = hash\<rparr>) opts) (poll_options db)")
        (simp_all add: PollOption_Put_def)
  qed
qed

section \<open>What the Go code reads\<close>

text \<open>The \<open>Scan\<close> functions on the values of a result, None being a mismatch of types.\<close>

definition get_int :: "sql_value \<Rightarrow> int option" where
  "get_int v = (case v of SqlInt n \<Rightarrow> Some n | _ \<Rightarrow> None)"

definition get_bool :: "sql_value \<Rightarrow> bool option" where
  "get_bool v = (case v of SqlBool b \<Rightarrow> Some b | _ \<Rightarrow> None)"

definition get_uint :: "sql_value \<Rightarrow> 32 word option" where
  "get_uint v = map_option word_of_int (get_int v)"

lemma get_values [simp]:
  "get_int (nullable SqlInt v) = v" "get_bool (nullable SqlBool b) = b" "get_uint (nullable uint_value w) = w"
  by (cases v; cases b; cases w; simp add: get_int_def get_bool_def get_uint_def uint_value_def)+

definition get_text :: "sql_value \<Rightarrow> string option" where
  "get_text v = (case v of SqlText t \<Rightarrow> Some t | _ \<Rightarrow> None)"

definition get_jid :: "sql_value \<Rightarrow> jid option" where
  "get_jid v = (case v of SqlJid j \<Rightarrow> Some j | _ \<Rightarrow> None)"

definition get_bytes :: "sql_value \<Rightarrow> byte list option" where
  "get_bytes v = (case v of SqlBytes bs \<Rightarrow> Some bs | _ \<Rightarrow> None)"

lemma get_strict [simp]:
  "get_text (SqlText t) = Some t" "get_jid (SqlJid j) = Some j" "get_bytes (SqlBytes bs) = Some bs" "get_int (SqlInt n) = Some n"
  "get_bool (SqlBool b) = Some b"
  by (simp_all add: get_text_def get_jid_def get_bytes_def get_int_def get_bool_def)

definition scan_conversation :: "sql_value list \<Rightarrow> Conversation option" where
  "scan_conversation vs =
     Option.bind (get_text (vs ! 0)) (\<lambda>b. Option.bind (get_text (vs ! 1)) (\<lambda>l. Option.bind (get_jid (vs ! 2)) (\<lambda>j.
       Some \<lparr>c_BridgeID = b, c_UserLoginID = l, c_ChatJID = j, c_LastMessageTimestamp = scan_time (get_int (vs ! 3)),
         c_Archived = get_bool (vs ! 4), c_Pinned = get_bool (vs ! 5), c_MuteEndTime = scan_time (get_int (vs ! 6)),
         c_EndOfHistoryTransferType = get_int (vs ! 7), c_EphemeralExpiration = get_uint (vs ! 8),
         c_EphemeralSettingTimestamp = get_int (vs ! 9), c_MarkedAsUnread = get_bool (vs ! 10), c_UnreadCount = get_uint (vs ! 11)\<rparr>)))"

definition status_of :: "int \<Rightarrow> MediaBackfillRequestStatus option" where
  "status_of n =
     (if n = 0 then Some MediaBackfillRequestStatusNotRequested else if n = 1 then Some MediaBackfillRequestStatusRequested
      else if n = 2 then Some MediaBackfillRequestStatusRequestFailed
      else if n = 3 then Some MediaBackfillRequestStatusRequestSkipped else None)"

definition scan_media :: "sql_value list \<Rightarrow> MediaRequest option" where
  "scan_media vs =
     Option.bind (get_text (vs ! 0)) (\<lambda>b. Option.bind (get_text (vs ! 1)) (\<lambda>l. Option.bind (get_text (vs ! 2)) (\<lambda>m.
     Option.bind (get_text (vs ! 3)) (\<lambda>p. Option.bind (get_text (vs ! 4)) (\<lambda>r. Option.bind (get_bytes (vs ! 5)) (\<lambda>k.
     Option.bind (Option.bind (get_int (vs ! 6)) status_of) (\<lambda>st. Option.bind (get_text (vs ! 7)) (\<lambda>e.
       Some \<lparr>mr_BridgeID = b, mr_UserLoginID = l, mr_MessageID = m, mr_PortalKey = \<lparr>pk_ID = p, pk_Receiver = r\<rparr>,
         mr_MediaKey = k, mr_Status = st, mr_Error = e\<rparr>))))))))"

definition scan_avatar :: "sql_value list \<Rightarrow> AvatarCacheEntry option" where
  "scan_avatar vs =
     Option.bind (get_jid (vs ! 0)) (\<lambda>j. Option.bind (get_text (vs ! 1)) (\<lambda>a. Option.bind (get_text (vs ! 2)) (\<lambda>p.
     Option.bind (get_int (vs ! 3)) (\<lambda>e. Option.bind (get_bool (vs ! 4)) (\<lambda>g.
       Some \<lparr>ac_EntityJID = j, ac_AvatarID = a, ac_DirectPath = p, ac_Expiry = e, ac_Gone = g\<rparr>)))))"

lemma scan_conversation_cells: "scan_conversation (map (cell (conv_cells r)) conversation_columns) = Some (Conversation_Scan r)"
  by (simp add: scan_conversation_def conversation_columns_def Conversation_Scan_def)

lemma scan_media_cells:
  "scan_media (result getAllUnrequestedMediaRequestsForUserLoginQuery (media_cells r)) = Some r"
  by (cases "mr_Status r") (simp_all add: scan_media_def status_of_def status_value_def result_def getAllUnrequestedMediaRequestsForUserLoginQuery_def
      media_cells_def)

lemma scan_avatar_cells: "scan_avatar (result getAvatarCacheEntry (avatar_cells e)) = Some e"
  by (simp add: scan_avatar_def result_def getAvatarCacheEntry_def avatar_cells_def)

lemma select_cells:
  assumes "map_of db t = Some tb" and "tb_rows tb = map cells rows" and "sq_table q = t"
    and "\<And>r. holds (env_of db ps) (sq_where q) (cells r) = P r"
    and "\<And>rs. sq_order_desc q \<noteq> None \<Longrightarrow> so (map cells rs) = map cells (order rs)"
  shows "select so q ps db = map cells (if sq_order_desc q = None then filter P rows else order (filter P rows))"
  using assms by (cases "sq_order_desc q") (simp_all add: select_def table_rows_def filter_map comp_def Let_def)

lemma find_filter: "find P xs = (case filter P xs of [] \<Rightarrow> None | x # _ \<Rightarrow> Some x)"
  by (induction xs) auto

lemma Conversation_GetRecent_read:
  assumes "\<And>rs. so (map conv_cells rs) = map conv_cells (order rs)"
  shows "map (scan_conversation \<circ> result getRecentConversations)
      (limit_rows n (select so getRecentConversations [SqlText b, SqlText l, SqlInt n, SqlInt t] (sql_of d db))) =
    map Some (Conversation_GetRecent order b l n t db)"
proof -
  let ?P = "\<lambda>r. cr_bridge r = b \<and> cr_login r = l \<and> (case cr_synced r of None \<Rightarrow> True | Some s \<Rightarrow> s < t)"
  have h: "holds (env_of (sql_of d db) [SqlText b, SqlText l, SqlInt n, SqlInt t]) (sq_where getRecentConversations) (conv_cells r) = ?P r" for r
    by (auto simp: getRecentConversations_def condition_defs split: option.split)
  have "select so getRecentConversations [SqlText b, SqlText l, SqlInt n, SqlInt t] (sql_of d db) =
      map conv_cells (order (filter ?P (conversations db)))"
    by (subst select_cells [OF sql_of_tables(3), where P = ?P and order = order])
      (simp_all add: h assms getRecentConversations_def [THEN arg_cong, of sq_table] getRecentConversations_def [THEN arg_cong, of sq_order_desc])
  then show ?thesis
    by (simp add: Conversation_GetRecent_def limit_rows_def take_map result_def scan_conversation_cells
        getRecentConversations_def [THEN arg_cong, of sq_columns])
qed

lemma Conversation_Get_read:
  "(case select so getConversationByJID [SqlText b, SqlText l, SqlJid j] (sql_of d db) of [] \<Rightarrow> None
     | r # _ \<Rightarrow> scan_conversation (result getConversationByJID r)) = Conversation_Get b l j db"
proof -
  have h: "holds (env_of (sql_of d db) [SqlText b, SqlText l, SqlJid j]) (sq_where getConversationByJID) (conv_cells r) = (conv_key r = (b, l, j))" for r
    by (auto simp: getConversationByJID_def condition_defs conv_key_def)
  have "select so getConversationByJID [SqlText b, SqlText l, SqlJid j] (sql_of d db) =
      map conv_cells (filter (\<lambda>r. conv_key r = (b, l, j)) (conversations db))"
    by (subst select_cells [OF sql_of_tables(3), where P = "\<lambda>r. conv_key r = (b, l, j)" and order = id])
      (simp_all add: h getConversationByJID_def [THEN arg_cong, of sq_table] getConversationByJID_def [THEN arg_cong, of sq_order_desc])
  then show ?thesis
    by (simp add: Conversation_Get_def tbl_lookup_def find_filter result_def scan_conversation_cells
        getConversationByJID_def [THEN arg_cong, of sq_columns] split: list.split)
qed

definition range_params :: "int option \<Rightarrow> int option \<Rightarrow> sql_value list" where
  "range_params lo hi = (case lo of None \<Rightarrow> [] | Some t \<Rightarrow> [SqlInt t]) @ (case hi of None \<Rightarrow> [] | Some t \<Rightarrow> [SqlInt t])"

lemma Message_between_read:
  assumes "\<And>rs. so (map msg_cells rs) = map msg_cells (order rs)"
  shows "map (result (getHistorySyncMessagesBetweenQuery (lo \<noteq> None) (hi \<noteq> None)))
      (select so (getHistorySyncMessagesBetweenQuery (lo \<noteq> None) (hi \<noteq> None)) ([SqlText b, SqlText l, SqlJid j] @ range_params lo hi) (sql_of d db)) =
    map (\<lambda>r. [SqlBytes (hs_data r)]) (order (hs_select b l j lo hi db))"
proof -
  let ?q = "getHistorySyncMessagesBetweenQuery (lo \<noteq> None) (hi \<noteq> None)"
  have q: "sq_table ?q = tMsg" "sq_order_desc ?q = Some ''timestamp''" "sq_columns ?q = [''data'']"
    by (simp_all add: getHistorySyncMessagesBetweenQuery_def Let_def)
  have h: "holds (env_of (sql_of d db) ([SqlText b, SqlText l, SqlJid j] @ range_params lo hi)) (sq_where ?q) (msg_cells r) =
      (hs_conv r = (b, l, j) \<and> in_range lo hi (hs_ts r))" for r
    by (cases lo; cases hi)
      (auto simp: getHistorySyncMessagesBetweenQuery_def range_params_def condition_defs hs_conv_def in_range_def)
  show ?thesis
    by (subst select_cells [OF sql_of_tables(4), where P = "\<lambda>r. hs_conv r = (b, l, j) \<and> in_range lo hi (hs_ts r)" and order = order
          and cells = msg_cells])
      (simp_all add: h q assms hs_select_def result_def comp_def del: append.simps not_None_eq)
qed

lemma ConversationHasMessages_read:
  "(select so conversationHasHistorySyncMessagesQuery [SqlText b, SqlText l, SqlJid j] (sql_of d db) \<noteq> []) = ConversationHasMessages b l j db"
proof -
  have h: "holds (env_of (sql_of d db) [SqlText b, SqlText l, SqlJid j]) chat_is (msg_cells r) = (hs_conv r = (b, l, j))" for r
    by (auto simp: condition_defs hs_conv_def)
  show ?thesis
    by (subst select_cells [OF sql_of_tables(4), where P = "\<lambda>r. hs_conv r = (b, l, j)" and order = id and cells = msg_cells])
      (simp_all add: conversationHasHistorySyncMessagesQuery_def h ConversationHasMessages_def filter_empty_conv list_ex_iff)
qed

lemma eq3_any: "foldr (\<lambda>v acc. or3 (eq3 (f x) v) acc) (map f xs) (Some False) = Some (x \<in> set xs)"
  if "inj f" and "\<And>x. f x \<noteq> SqlNull"
  using that by (induction xs) (auto simp: eq3_def dest: injD)

lemma PollOption_read:
  "map (result getPollOptionIDsByHashesQuery)
      (select so getPollOptionIDsByHashesQuery ([SqlText b, SqlText m] @ map SqlBytes hs) (sql_of d db)) =
    map (\<lambda>r. [SqlText (po_id r), SqlBytes (po_hash r)])
      (filter (\<lambda>r. po_bridge r = b \<and> po_msg r = m \<and> po_hash r \<in> set hs) (poll_options db))"
  "map (result getPollOptionHashesByIDsQuery)
      (select so getPollOptionHashesByIDsQuery ([SqlText b, SqlText m] @ map SqlText ids) (sql_of d db)) =
    map (\<lambda>r. [SqlText (po_id r), SqlBytes (po_hash r)])
      (filter (\<lambda>r. po_bridge r = b \<and> po_msg r = m \<and> po_id r \<in> set ids) (poll_options db))"
proof -
  have h1: "holds (env_of (sql_of d db) ([SqlText b, SqlText m] @ map SqlBytes hs)) (SqlAnd poll_is (AnyFrom (Col ''opt_hash'') 3)) (poll_cells r) =
      (po_bridge r = b \<and> po_msg r = m \<and> po_hash r \<in> set hs)" for r
    by (auto simp: condition_defs eq3_any inj_on_def)
  have h2: "holds (env_of (sql_of d db) ([SqlText b, SqlText m] @ map SqlText ids)) (SqlAnd poll_is (AnyFrom (Col ''opt_id'') 3)) (poll_cells r) =
      (po_bridge r = b \<and> po_msg r = m \<and> po_id r \<in> set ids)" for r
    by (auto simp: condition_defs eq3_any inj_on_def)
  show "map (result getPollOptionIDsByHashesQuery)
      (select so getPollOptionIDsByHashesQuery ([SqlText b, SqlText m] @ map SqlBytes hs) (sql_of d db)) =
    map (\<lambda>r. [SqlText (po_id r), SqlBytes (po_hash r)])
      (filter (\<lambda>r. po_bridge r = b \<and> po_msg r = m \<and> po_hash r \<in> set hs) (poll_options db))"
    by (subst select_cells [OF sql_of_tables(2), where P = "\<lambda>r. po_bridge r = b \<and> po_msg r = m \<and> po_hash r \<in> set hs"
          and order = id and cells = poll_cells])
      (simp_all add: getPollOptionIDsByHashesQuery_def h1 result_def comp_def del: append.simps)
  show "map (result getPollOptionHashesByIDsQuery)
      (select so getPollOptionHashesByIDsQuery ([SqlText b, SqlText m] @ map SqlText ids) (sql_of d db)) =
    map (\<lambda>r. [SqlText (po_id r), SqlBytes (po_hash r)])
      (filter (\<lambda>r. po_bridge r = b \<and> po_msg r = m \<and> po_id r \<in> set ids) (poll_options db))"
    by (subst select_cells [OF sql_of_tables(2), where P = "\<lambda>r. po_bridge r = b \<and> po_msg r = m \<and> po_id r \<in> set ids"
          and order = id and cells = poll_cells])
      (simp_all add: getPollOptionHashesByIDsQuery_def h2 result_def comp_def del: append.simps)
qed

lemma MediaRequest_unrequested_read:
  "map (scan_media \<circ> result getAllUnrequestedMediaRequestsForUserLoginQuery)
      (select so getAllUnrequestedMediaRequestsForUserLoginQuery [SqlText b, SqlText l] (sql_of d db)) =
    map Some (MediaRequest_GetUnrequestedForUserLogin b l db)"
proof -
  let ?P = "\<lambda>r. mr_BridgeID r = b \<and> mr_UserLoginID r = l \<and> mr_Status r = MediaBackfillRequestStatusNotRequested"
  have h: "holds (env_of (sql_of d db) [SqlText b, SqlText l]) (SqlAnd login_is (Eq (Col ''status'') (Lit (SqlInt 0)))) (media_cells r) = ?P r" for r
    by (cases "mr_Status r") (auto simp: condition_defs status_value_def)
  have "select so getAllUnrequestedMediaRequestsForUserLoginQuery [SqlText b, SqlText l] (sql_of d db) =
      map media_cells (filter ?P (media_requests db))"
    by (subst select_cells [OF sql_of_tables(5), where P = ?P and order = id and cells = media_cells])
      (simp_all add: getAllUnrequestedMediaRequestsForUserLoginQuery_def h)
  then show ?thesis by (simp add: MediaRequest_GetUnrequestedForUserLogin_def scan_media_cells)
qed

lemma HSNotif_next_read:
  "map (result getNextHSNotificationQuery) (select so getNextHSNotificationQuery [SqlText b, SqlText l] (sql_of d db)) =
   map (\<lambda>r. [SqlInt (nr_rowid r), SqlBytes (nr_data r)]) (filter (\<lambda>r. nr_bridge r = b \<and> nr_login r = l) (notifications db))"
  by (subst select_cells [OF sql_of_tables(6), where P = "\<lambda>r. nr_bridge r = b \<and> nr_login r = l" and order = id and cells = notif_cells])
    (auto simp: getNextHSNotificationQuery_def condition_defs notif_cells_def result_def)

lemma AvatarCache_Get_read:
  "(case select so getAvatarCacheEntry [SqlJid j, SqlText a] (sql_of d db) of [] \<Rightarrow> None
     | r # _ \<Rightarrow> scan_avatar (result getAvatarCacheEntry r)) = AvatarCache_Get j a db"
proof -
  have "select so getAvatarCacheEntry [SqlJid j, SqlText a] (sql_of d db) = map avatar_cells (filter (\<lambda>e. ac_key e = (j, a)) (avatar_cache db))"
    by (subst select_cells [OF sql_of_tables(7), where P = "\<lambda>e. ac_key e = (j, a)" and order = id and cells = avatar_cells])
      (auto simp: getAvatarCacheEntry_def condition_defs avatar_cells_def ac_key_def)
  then show ?thesis by (simp add: AvatarCache_Get_def tbl_lookup_def find_filter scan_avatar_cells split: list.split)
qed

section \<open>Properties\<close>



text \<open>What the queries read is what the operations of the model return: recent conversations in the
  order of the database and within the limit, one conversation, the data of the messages of a
  range, whether there are any, poll options by hash and by identifier, unrequested media, the
  queued notifications and avatars, each scanned from its columns.\<close>

theorem queries_read_tables:
  assumes "\<And>rs. so (map conv_cells rs) = map conv_cells (order rs)" and "\<And>rs. so' (map msg_cells rs) = map msg_cells (order' rs)"
  shows "map (scan_conversation \<circ> result getRecentConversations)
        (limit_rows n (select so getRecentConversations [SqlText b, SqlText l, SqlInt n, SqlInt t] (sql_of d db))) =
        map Some (Conversation_GetRecent order b l n t db)
    \<and> (case select so getConversationByJID [SqlText b, SqlText l, SqlJid j] (sql_of d db) of [] \<Rightarrow> None
         | r # _ \<Rightarrow> scan_conversation (result getConversationByJID r)) = Conversation_Get b l j db
    \<and> map (result (getHistorySyncMessagesBetweenQuery (lo \<noteq> None) (hi \<noteq> None)))
        (select so' (getHistorySyncMessagesBetweenQuery (lo \<noteq> None) (hi \<noteq> None)) ([SqlText b, SqlText l, SqlJid j] @ range_params lo hi) (sql_of d db)) =
        map (\<lambda>r. [SqlBytes (hs_data r)]) (order' (hs_select b l j lo hi db))
    \<and> (select so conversationHasHistorySyncMessagesQuery [SqlText b, SqlText l, SqlJid j] (sql_of d db) \<noteq> []) = ConversationHasMessages b l j db
    \<and> map (scan_media \<circ> result getAllUnrequestedMediaRequestsForUserLoginQuery)
        (select so getAllUnrequestedMediaRequestsForUserLoginQuery [SqlText b, SqlText l] (sql_of d db)) =
        map Some (MediaRequest_GetUnrequestedForUserLogin b l db)
    \<and> map (result getNextHSNotificationQuery) (select so getNextHSNotificationQuery [SqlText b, SqlText l] (sql_of d db)) =
        map (\<lambda>r. [SqlInt (nr_rowid r), SqlBytes (nr_data r)]) (filter (\<lambda>r. nr_bridge r = b \<and> nr_login r = l) (notifications db))
    \<and> (case select so getAvatarCacheEntry [SqlJid j, SqlText a] (sql_of d db) of [] \<Rightarrow> None
         | r # _ \<Rightarrow> scan_avatar (result getAvatarCacheEntry r)) = AvatarCache_Get j a db"
  using assms
  by (intro conjI Conversation_GetRecent_read Conversation_Get_read Message_between_read ConversationHasMessages_read
      MediaRequest_unrequested_read HSNotif_next_read AvatarCache_Get_read) auto

end
