(* ===== verification/DbStart.thy ===== *)
theory DbStart
  imports Startup ToMatrix Queries
begin

text \<open>
  The database as the bridge opens it: the query objects that \<open>New\<close> makes for one bridge
  (\<open>pkg/connector/wadb/database.go\<close>), the text of the poll option queries on each dialect
  (\<open>polloption.go\<close>), the empty metadata values (\<open>pkg/connector/dbmeta.go\<close>), and the first start
  after an upgrade, which composes the schema scripts with \<open>Start\<close>.
\<close>

section \<open>The query objects of a bridge\<close>

text \<open>Each query object holds the identifier of its bridge, the avatar cache none. A row type has an
  empty value for scanning.\<close>

record Database =
  db_VersionTable :: string
  db_Conversation :: string
  db_Message :: string
  db_PollOption :: string
  db_MediaRequest :: string
  db_HSNotif :: string

definition wadb_New :: "string \<Rightarrow> Database" where
  "wadb_New bridgeID = \<lparr>db_VersionTable = ''whatsapp_version'', db_Conversation = bridgeID, db_Message = bridgeID,
     db_PollOption = bridgeID, db_MediaRequest = bridgeID, db_HSNotif = bridgeID\<rparr>"

text \<open>The calls that change the database, with the arguments that Go code passes.\<close>

datatype db_call =
    PutConversation Conversation | MarkSynced string jid int | DeleteConversation string jid | DeleteAllConversations string
  | PutMessages int string jid "HistorySyncMessageTuple list" | DeleteMessagesBetween string jid int int
  | DeleteAllMessages string | DeleteMessagesInChat string jid
  | PutPollOptions string "(byte list \<times> string) list"
  | PutMediaRequest MediaRequest | DeleteMediaRequest string string
  | PutNotification string "byte list" | DeleteNotification int
  | PutAvatar AvatarCacheEntry

fun run_call ::
  "jid_lib \<Rightarrow> (nat \<Rightarrow> HistorySyncMessageTuple list \<Rightarrow> HistorySyncMessageTuple list list) \<Rightarrow> Database \<Rightarrow> db_call \<Rightarrow> wadb \<Rightarrow> wadb outcome" where
  "run_call L chunk q (PutConversation c) db = Ok (Conversation_Put (db_Conversation q) c db)"
| "run_call L chunk q (MarkSynced l j t) db = Ok (Conversation_MarkSynced (db_Conversation q) l j t db)"
| "run_call L chunk q (DeleteConversation l j) db = Ok (Conversation_Delete (db_Conversation q) l j db)"
| "run_call L chunk q (DeleteAllConversations l) db = Ok (Conversation_DeleteAll (db_Conversation q) l db)"
| "run_call L chunk q (PutMessages now l j ms) db = Message_Put L chunk now (db_Message q) l j ms db"
| "run_call L chunk q (DeleteMessagesBetween l j hi lo) db = Ok (Message_DeleteBetween (db_Message q) l j hi lo db)"
| "run_call L chunk q (DeleteAllMessages l) db = Ok (Message_DeleteAll (db_Message q) l db)"
| "run_call L chunk q (DeleteMessagesInChat l j) db = Ok (Message_DeleteAllInChat (db_Message q) l j db)"
| "run_call L chunk q (PutPollOptions m opts) db = PollOption_Put (db_PollOption q) m opts db"
| "run_call L chunk q (PutMediaRequest r) db = Ok (MediaRequest_Put (db_MediaRequest q) r db)"
| "run_call L chunk q (DeleteMediaRequest l m) db = Ok (MediaRequest_Delete (db_MediaRequest q) l m db)"
| "run_call L chunk q (PutNotification l bytes) db = HSNotif_Put Inr (db_HSNotif q) l bytes db"
| "run_call L chunk q (DeleteNotification i) db = Ok (HSNotif_Delete i db)"
| "run_call L chunk q (PutAvatar e) db = Ok (AvatarCache_Put e db)"

definition run_calls ::
  "jid_lib \<Rightarrow> (nat \<Rightarrow> HistorySyncMessageTuple list \<Rightarrow> HistorySyncMessageTuple list list) \<Rightarrow> Database \<Rightarrow> db_call list \<Rightarrow> wadb \<Rightarrow> wadb outcome" where
  "run_calls L chunk q calls db = ofold (run_call L chunk q) calls db"

text \<open>What belongs to a bridge.\<close>

definition owned :: "string \<Rightarrow> wadb \<Rightarrow> conv_row list \<times> hs_row list \<times> poll_row list \<times> MediaRequest list \<times> notif_row list" where
  "owned b db = (filter (\<lambda>r. cr_bridge r = b) (conversations db), filter (\<lambda>r. hs_bridge r = b) (messages db),
     filter (\<lambda>r. po_bridge r = b) (poll_options db), filter (\<lambda>r. mr_BridgeID r = b) (media_requests db),
     filter (\<lambda>r. nr_bridge r = b) (notifications db))"

text \<open>A notification is deleted by its row, which \<open>GetNext\<close> has returned before: it is one of the
  bridge's own.\<close>

definition deletes_own :: "string \<Rightarrow> wadb \<Rightarrow> db_call \<Rightarrow> bool" where
  "deletes_own b db call \<longleftrightarrow>
     (case call of DeleteNotification i \<Rightarrow> list_all (\<lambda>r. nr_rowid r = i \<longrightarrow> nr_bridge r = b) (notifications db) | _ \<Rightarrow> True)"

lemma filter_map_same: "(\<And>x. x \<in> set xs \<Longrightarrow> P x \<Longrightarrow> f x = x) \<Longrightarrow> (\<And>x. x \<in> set xs \<Longrightarrow> P (f x) = P x) \<Longrightarrow> filter P (map f xs) = filter P xs"
  by (induction xs) auto

lemma filter_upsert_other:
  assumes "\<not> P v" and "\<And>x. x \<in> set rows \<Longrightarrow> key x = key v \<Longrightarrow> \<not> P x \<and> \<not> P (upd x v)"
  shows "filter P (tbl_upsert key upd v rows) = filter P rows"
proof -
  have "filter P (map (\<lambda>x. if key x = key v then upd x v else x) rows) = filter P rows"
    by (rule filter_map_same) (use assms in \<open>auto split: if_splits\<close>)
  then show ?thesis using assms(1) by (simp add: tbl_upsert_def)
qed

lemma filter_delete_other: "(\<And>x. x \<in> set rows \<Longrightarrow> P x \<Longrightarrow> \<not> Q x) \<Longrightarrow> filter P (tbl_delete Q rows) = filter P rows"
  by (auto simp: tbl_delete_def intro!: filter_cong)

lemma filter_hs_insert_other: "hs_bridge r \<noteq> b \<Longrightarrow> filter (\<lambda>x. hs_bridge x = b) (hs_insert r rows) = filter (\<lambda>x. hs_bridge x = b) rows"
  unfolding hs_insert_def by (rule filter_upsert_other) (auto simp: hs_key_def)

lemma filter_hs_fold_other:
  "(\<And>r. r \<in> set rs \<Longrightarrow> hs_bridge r \<noteq> b) \<Longrightarrow> filter (\<lambda>x. hs_bridge x = b) (fold hs_insert rs rows) = filter (\<lambda>x. hs_bridge x = b) rows"
  by (induction rs arbitrary: rows) (auto simp: filter_hs_insert_other)

lemma hs_bridge_row_of [simp]: "hs_bridge (hs_row_of L now b l j t) = b"
  by (simp add: hs_row_of_def split: prod.splits)

lemma ofold_poll_insert: "ofold poll_insert rs rows = Ok rows' \<Longrightarrow> rows' = rows @ rs"
  by (induction rs arbitrary: rows) (fastforce simp: outcome_simps poll_insert_def split: if_splits)+

lemma owned_Message_Put: "Message_Put L chunk now b l j ms db = Ok db' \<Longrightarrow> b' \<noteq> b \<Longrightarrow> owned b' db' = owned b' db"
  by (drule Message_Put_effect) (auto simp: owned_def intro!: filter_hs_fold_other)

lemma owned_PollOption_Put: "PollOption_Put b m opts db = Ok db' \<Longrightarrow> b' \<noteq> b \<Longrightarrow> owned b' db' = owned b' db"
  by (auto simp: PollOption_Put_def owned_def outcome_simps filter_empty_conv split: if_splits dest!: ofold_poll_insert)

lemma owned_Conversation_Put: "b' \<noteq> b \<Longrightarrow> owned b' (Conversation_Put b c db) = owned b' db"
  unfolding owned_def Conversation_Put_def
  by simp (rule filter_upsert_other, auto simp: conv_key_def conv_upsert_row_def Conversation_sqlVariables_def)

lemma owned_MediaRequest_Put: "b' \<noteq> b \<Longrightarrow> owned b' (MediaRequest_Put b r db) = owned b' db"
  unfolding owned_def MediaRequest_Put_def
  by simp (rule filter_upsert_other, auto simp: mr_key_def mr_upsert_row_def)

lemma owned_MarkSynced: "b' \<noteq> b \<Longrightarrow> owned b' (Conversation_MarkSynced b l j t db) = owned b' db"
  unfolding owned_def Conversation_MarkSynced_def
  by simp (rule filter_map_same, auto simp: conv_key_def)

lemma owned_deletes:
  assumes "b' \<noteq> b"
  shows "owned b' (Conversation_Delete b l j db) = owned b' db" "owned b' (Conversation_DeleteAll b l db) = owned b' db"
    "owned b' (Message_DeleteBetween b l j hi lo db) = owned b' db" "owned b' (Message_DeleteAll b l db) = owned b' db"
    "owned b' (Message_DeleteAllInChat b l j db) = owned b' db" "owned b' (MediaRequest_Delete b l m db) = owned b' db"
  using assms
  by (auto simp: owned_def Conversation_Delete_def Conversation_DeleteAll_def Message_DeleteBetween_def Message_DeleteAll_def
      Message_DeleteAllInChat_def MediaRequest_Delete_def conv_key_def hs_conv_def mr_key_def intro!: filter_delete_other)

lemma owned_notifications:
  "b' \<noteq> b \<Longrightarrow> HSNotif_Put marshal b l n db = Ok db' \<Longrightarrow> owned b' db' = owned b' db"
  "b' \<noteq> b \<Longrightarrow> deletes_own b db (DeleteNotification i) \<Longrightarrow> owned b' (HSNotif_Delete i db) = owned b' db"
  "owned b' (AvatarCache_Put e db) = owned b' db"
  by (auto simp: owned_def HSNotif_Put_def HSNotif_Delete_def AvatarCache_Put_def deletes_own_def list_all_iff outcome_simps
      split: sum.splits intro!: filter_delete_other)

lemma run_call_owned:
  assumes "run_call L chunk (wadb_New b) call db = Ok db'" and "b' \<noteq> b" and "deletes_own b db call"
  shows "owned b' db' = owned b' db"
  using assms
  by (cases call)
    (auto simp: wadb_New_def owned_Conversation_Put owned_MediaRequest_Put owned_MarkSynced owned_deletes owned_notifications
      dest: owned_Message_Put owned_PollOption_Put owned_notifications(1))

fun deletes_own_all ::
  "jid_lib \<Rightarrow> (nat \<Rightarrow> HistorySyncMessageTuple list \<Rightarrow> HistorySyncMessageTuple list list) \<Rightarrow> string \<Rightarrow> db_call list \<Rightarrow> wadb \<Rightarrow> bool" where
  "deletes_own_all L chunk b [] db = True"
| "deletes_own_all L chunk b (c # cs) db =
     (deletes_own b db c \<and> (case run_call L chunk (wadb_New b) c db of Ok db' \<Rightarrow> deletes_own_all L chunk b cs db' | _ \<Rightarrow> True))"


definition sample_calls :: "db_call list" where
  "sample_calls = [PutNotification ''me'' [7], PutPollOptions ''$poll'' [(replicate 32 1, ''yes'')], DeleteNotification 2]"


section \<open>The text of the poll option queries\<close>

definition idsByHashesText :: string where
  "idsByHashesText = ''SELECT opt_id, opt_hash FROM whatsapp_poll_option_id WHERE bridge_id=$1 AND msg_mxid=$2 AND opt_hash = ANY($3)''"

definition hashesByIDsText :: string where
  "hashesByIDsText = ''SELECT opt_id, opt_hash FROM whatsapp_poll_option_id WHERE bridge_id=$1 AND msg_mxid=$2 AND opt_id = ANY($3)''"

definition arrayPlaceholder :: string where "arrayPlaceholder = '' = ANY($3)''"

definition sqliteArrayTemplate :: "string \<Rightarrow> string" where "sqliteArrayTemplate s = '' IN ('' @ s @ '')''"

text \<open>The check when the program starts, for any two texts; the second comparison is with the
  first text.\<close>

definition polloption_init :: "string \<Rightarrow> string \<Rightarrow> unit outcome" where
  "polloption_init ids hashes =
     (if replace_all arrayPlaceholder ''meow'' ids = ids then Panic
      else if replace_all arrayPlaceholder ''meow'' hashes = ids then Panic
      else Ok ())"

definition TrimSuffix :: "string \<Rightarrow> string \<Rightarrow> string" where
  "TrimSuffix s suffix = (if suffix \<noteq> [] \<and> drop (length s - length suffix) s = suffix then take (length s - length suffix) s else s)"

text \<open>The text for \<open>n\<close> things and the number of arguments.\<close>

definition getPollOptionsText :: "dialect \<Rightarrow> string \<Rightarrow> nat \<Rightarrow> string \<times> nat" where
  "getPollOptionsText d query n =
     (case d of
        Postgres \<Rightarrow> (query, 3)
      | Sqlite \<Rightarrow> (replace_all arrayPlaceholder (sqliteArrayTemplate (TrimSuffix (concat (replicate n ''?,'')) '','')) query, n + 2))"

fun question_marks :: "nat \<Rightarrow> string" where
  "question_marks 0 = []"
| "question_marks (Suc 0) = ''?''"
| "question_marks (Suc n) = ''?,'' @ question_marks n"

fun occurs :: "string \<Rightarrow> string \<Rightarrow> bool" where
  "occurs old [] = False"
| "occurs old (c # s) = (has_prefix (c # s) old \<or> occurs old s)"

lemma replace_all_absent: "\<not> occurs old s \<Longrightarrow> replace_all old new s = s"
  by (induction s) auto

lemma TrimSuffix_comma: "TrimSuffix (s @ '','') '','' = s" by (simp add: TrimSuffix_def)

lemma repeat_marks: "concat (replicate (Suc n) ''?,'') = question_marks (Suc n) @ '',''"
  by (induction n) (auto simp: replicate_append_same)

lemma placeholders: "TrimSuffix (concat (replicate n ''?,'')) '','' = question_marks n"
proof (cases n)
  case 0
  then show ?thesis by (simp add: TrimSuffix_def)
next
  case (Suc m)
  then show ?thesis by (simp only: repeat_marks TrimSuffix_comma)
qed

lemma polloption_init_ok: "polloption_init idsByHashesText hashesByIDsText = Ok ()" by code_simp

lemma second_check_never_fires:
  assumes "\<not> occurs arrayPlaceholder hashes"
  shows "polloption_init idsByHashesText hashes = Ok ()"
proof -
  have "replace_all arrayPlaceholder ''meow'' idsByHashesText \<noteq> idsByHashesText" by code_simp
  then show ?thesis using replace_all_absent [OF assms, of "''meow''"] by (auto simp: polloption_init_def)
qed

lemma replace_last:
  "old \<noteq> [] \<Longrightarrow> (\<And>i. i < length p \<Longrightarrow> \<not> has_prefix (drop i (p @ old)) old) \<Longrightarrow> replace_all old new (p @ old) = p @ new"
proof (induction p)
  case Nil
  then show ?case by (cases old) (simp_all add: has_prefix_def)
next
  case (Cons c p)
  have "\<not> has_prefix (drop i (p @ old)) old" if "i < length p" for i
    using Cons.prems(2) [of "Suc i"] that by simp
  with Cons.IH Cons.prems(1) have "replace_all old new (p @ old) = p @ new" by blast
  moreover have "\<not> has_prefix (c # p @ old) old" using Cons.prems(2) [of 0] by simp
  ultimately show ?case by simp
qed

text \<open>On SQLite the array becomes one question mark for each thing, and there is an argument for
  each parameter of the text.\<close>

lemma getPollOptionsText_sqlite:
  assumes "query \<in> {idsByHashesText, hashesByIDsText}"
  obtains p where "query = p @ arrayPlaceholder" "getPollOptionsText Sqlite query n = (p @ sqliteArrayTemplate (question_marks n), n + 2)"
proof -
  define p where "p = take (length query - length arrayPlaceholder) query"
  have "list_all (\<lambda>q. list_all (\<lambda>i. \<not> has_prefix (drop i q) arrayPlaceholder) [0..<length q - length arrayPlaceholder]
      \<and> q = take (length q - length arrayPlaceholder) q @ arrayPlaceholder) [idsByHashesText, hashesByIDsText]"
    by code_simp
  then have q: "query = p @ arrayPlaceholder" and "\<And>i. i < length p \<Longrightarrow> \<not> has_prefix (drop i query) arrayPlaceholder"
    using assms by (auto simp: list_all_iff p_def)
  then have "replace_all arrayPlaceholder new query = p @ new" for new
    using replace_last [of arrayPlaceholder p new] by (simp add: arrayPlaceholder_def)
  then show ?thesis using that q by (simp add: getPollOptionsText_def placeholders)
qed

section \<open>Metadata values\<close>

record GhostMetadata =
  gm_LastSync :: gotime

record ReactionMetadata =
  rm_SenderDeviceID :: "16 word"

record UserLoginMetadata =
  ul_WADeviceID :: "16 word"
  ul_PhoneLastSeen :: gotime
  ul_PhoneLastPinged :: gotime
  ul_Timezone :: string
  ul_PushKeys :: "(byte list \<times> byte list \<times> byte list) option"
  ul_APNSEncPubKey :: "byte list"
  ul_APNSEncPrivKey :: "byte list"
  ul_LoggedInAt :: gotime
  ul_HistorySyncPortalsNeedCreating :: bool

record MetaTypes =
  mt_Ghost :: GhostMetadata
  mt_Message :: MessageMetadata
  mt_Reaction :: ReactionMetadata
  mt_Portal :: PortalMetadata
  mt_UserLogin :: UserLoginMetadata

definition GetDBMetaTypes :: MetaTypes where
  "GetDBMetaTypes = \<lparr>mt_Ghost = \<lparr>gm_LastSync = 0\<rparr>, mt_Message = empty_metadata, mt_Reaction = \<lparr>rm_SenderDeviceID = 0\<rparr>,
     mt_Portal = \<lparr>pmd_DisappearingTimerSetAt = 0, pmd_TopicID = [], pmd_LastSync = 0, pmd_CommunityAnnouncementGroup = False,
       pmd_AddressingMode = AddressingModeNone, pmd_LIDMigrationAttempted = False\<rparr>,
     mt_UserLogin = \<lparr>ul_WADeviceID = 0, ul_PhoneLastSeen = 0, ul_PhoneLastPinged = 0, ul_Timezone = [], ul_PushKeys = None,
       ul_APNSEncPubKey = [], ul_APNSEncPrivKey = [], ul_LoggedInAt = 0, ul_HistorySyncPortalsNeedCreating = False\<rparr>\<rparr>"

section \<open>The first start after an upgrade\<close>

text \<open>\<open>Start\<close> on a database of version \<open>v\<close>: the migration of chats with LIDs sees the store of the
  bridge as the upgrade leaves it. The upgrade and the framework's store are the database \<open>db\<close>.\<close>

definition start_upgraded ::
  "dialect \<Rightarrow> nat \<Rightarrow> string \<Rightarrow> bool \<Rightarrow> (migration_state \<Rightarrow> migration_state) \<Rightarrow> portal_row list \<Rightarrow> jid list \<Rightarrow> sql_db \<Rightarrow>
   gerror option \<times> migration_state" where
  "start_upgraded d v bridge background migrate portals convs db =
     (let st = (\<lambda>db. \<lparr>ms_portals = portals, ms_conversations = convs, ms_kv = kv_get db bridge, ms_calls = []\<rparr>) in
      case Upgrade d v db of
        Ok db' \<Rightarrow> Start background None None None migrate (st db')
      | Fail e \<Rightarrow> Start background None None (Some e) migrate (st db)
      | Panic \<Rightarrow> Start background None None (Some (Err ''panic'')) migrate (st db))"

lemma scripts_after_8:
  assumes "v \<noteq> 0" "v < 8"
  obtains ss where "scripts_after d v = ss @ upgrade8" "list_all (\<lambda>s. \<not> writes s tKv) ss"
proof
  let ?ss = "concat (map snd (filter (\<lambda>(to, _). v < to \<and> to \<le> 7) (scripts d)))"
  show "scripts_after d v = ?ss @ upgrade8"
    using assms by (simp add: scripts_after_def scripts_def)
  have "list_all (\<lambda>s. \<not> writes s tKv) ss" if "(to, ss) \<in> set (scripts d)" "to \<le> 7" for to ss
    using kv_untouched(2) [of d] that by (auto simp: list_all_iff)
  then show "list_all (\<lambda>s. \<not> writes s tKv) ?ss" by (fastforce simp: list_all_iff)
qed

lemma kv_get_same: "map_of db' tKv = map_of db tKv \<Longrightarrow> kv_get db' = kv_get db"
  by (simp add: kv_get_def table_rows_def fun_eq_iff)

lemma kv_get_unmarked:
  assumes "map_of db tKv = Some tb" and "\<And>r. r \<in> set (tb_rows tb) \<Longrightarrow> cell r ''key'' \<noteq> SqlText k"
  shows "kv_get db b k = None"
proof -
  have "find (\<lambda>r. cell r ''bridge_id'' = SqlText b \<and> cell r ''key'' = SqlText k) (tb_rows tb) = None"
    using assms(2) by (auto simp: find_None_iff)
  then show ?thesis using assms(1) by (simp add: kv_get_def table_rows_def)
qed

lemma scripts_after_unmarked:
  assumes "v = 0 \<or> 8 \<le> v"
  shows "list_all (\<lambda>s. \<not> writes s tKv) (scripts_after d v)"
  using assms kv_untouched(1) [of d] by (auto simp: scripts_after_def scripts_def)

lemma map_of_columns: "c \<in> set (map cd_name cs) \<Longrightarrow> (\<And>x. cd_name x = c \<Longrightarrow> f x = v) \<Longrightarrow> map_of (map (\<lambda>x. (cd_name x, f x)) cs) c = Some v"
  by (induction cs) auto

lemma fill_row_cell:
  "map_of given c = Some v \<Longrightarrow> c \<in> set (map cd_name (td_columns d)) \<Longrightarrow> cell (fill_row d n given) c = v"
  unfolding cell_def fill_row_def by (subst map_of_columns [where v = v]) auto

lemma find_append: "find P (xs @ ys) = (case find P xs of None \<Rightarrow> find P ys | Some x \<Rightarrow> Some x)"
  by (induction xs) auto

lemma upgrade8_marks:
  assumes "exec_all upgrade8 db = Ok db'" and "map_of db tKv = Some tb"
    and "{''bridge_id'', ''key'', ''value''} \<subseteq> set (map cd_name (td_columns (tb_def tb)))"
    and "\<And>r. r \<in> set (tb_rows tb) \<Longrightarrow> cell r ''key'' \<noteq> SqlText kvLIDDMsDeleted"
  shows "kv_get db' b kvLIDDMsDeleted = (if b = [] then Some ''false'' else None)"
proof -
  let ?r = "fill_row (tb_def tb) (tb_next tb) [(''bridge_id'', SqlText []), (''key'', SqlText kvLIDDMsDeleted), (''value'', SqlText ''false'')]"
  have rows: "table_rows db' tKv = tb_rows tb @ [?r]"
    using assms(1,2)
    by (auto simp: upgrade8_def exec_all_def insert_row_def insert_new_def Let_def outcome_simps table_rows_def add_row_def
        kvLIDDMsDeleted_def split: if_splits)
  have cells: "cell ?r ''bridge_id'' = SqlText []" "cell ?r ''key'' = SqlText kvLIDDMsDeleted" "cell ?r ''value'' = SqlText ''false''"
    using assms(3) by (auto simp: fill_row_cell)
  have "find (\<lambda>r. cell r ''bridge_id'' = SqlText b \<and> cell r ''key'' = SqlText kvLIDDMsDeleted) (tb_rows tb) = None"
    using assms(4) by (auto simp: find_None_iff)
  then show ?thesis by (simp add: kv_get_def rows find_append cells)
qed



end
