(* ===== verification/HistoryQueue.thy ===== *)
theory HistoryQueue
  imports HistorySync Transitions
begin

text \<open>
  What the history sync loop of \<open>pkg/connector/backfill.go\<close> promises for the notifications that are
  queued in the database: an abstract mailbox, which the loop with its database, channels and
  timers implements, and that the mailbox empties when the downloads work.
\<close>

section \<open>The mailbox\<close>

text \<open>The queued notifications of the login, oldest first, and what is stored: the keys of messages and
  the backfill tasks.\<close>

type_synonym letters = "(int \<times> byte list) list"
type_synonym store = "(string \<times> string \<times> jid \<times> jid \<times> string) set \<times> (PortalKey \<times> string) set"

definition kept :: "'n hist_env \<Rightarrow> HSConversation \<times> WebMessageInfo list \<Rightarrow> store \<Rightarrow> bool" where
  "kept E x st =
     (case hist_chat_jid E (fst x) of
        None \<Rightarrow> True
      | Some j \<Rightarrow>
          (let ms = snd (collect_messages E j (snd x)) in
           (\<forall>m \<in> set ms. hs_key (hs_row_of (he_L E) (he_now E) (he_bridge E) (cl_UserLoginID (he_client E)) j m) \<in> fst st) \<and>
           (ms \<noteq> [] \<longrightarrow> (makeWAPortalKey (he_L E) (he_client E) j, cl_UserLoginID (he_client E)) \<in> snd st)))"

definition has_conversations :: "HistorySync \<Rightarrow> bool" where
  "has_conversations evt \<longleftrightarrow> (\<exists>ty. hsy_SyncType evt = Some ty \<and> ty \<notin> {INITIAL_STATUS_V3, PUSH_NAME, NON_BLOCKING_DATA})"

definition payload_kept :: "'n hist_env \<Rightarrow> HistorySync option \<Rightarrow> store \<Rightarrow> bool" where
  "payload_kept E blob st \<longleftrightarrow>
     (case blob of None \<Rightarrow> True | Some evt \<Rightarrow> has_conversations evt \<longrightarrow> (\<forall>x \<in> set (hsy_Conversations evt). kept E x st))"

text \<open>Letters are put at the end. The first is taken when it can be read and its payload is downloaded
  and kept. What is stored changes at any time.\<close>

inductive mailbox_step :: "'n hist_env \<Rightarrow> letters \<times> store \<Rightarrow> letters \<times> store \<Rightarrow> bool" for E where
  post: "he_marshal E n = Inr bytes \<Longrightarrow> i \<notin> fst ` set q \<Longrightarrow> mailbox_step E (q, st) (q @ [(i, bytes)], st)"
| take_first: "he_unmarshal E bytes = Inr n \<Longrightarrow> he_download E n = Inr blob \<Longrightarrow> payload_kept E blob st' \<Longrightarrow>
    mailbox_step E ((i, bytes) # q, st) (q, st')"
| store: "mailbox_step E (q, st) (q, st')"

inductive_cases mailbox_stepE: "mailbox_step E a b"

definition own_notification :: "'n hist_env \<Rightarrow> notif_row \<Rightarrow> bool" where
  "own_notification E r \<longleftrightarrow> nr_bridge r = he_bridge E \<and> nr_login r = cl_UserLoginID (he_client E)"

definition letters_of :: "'n hist_env \<Rightarrow> wadb \<Rightarrow> letters" where
  "letters_of E db = map (\<lambda>r. (nr_rowid r, nr_data r)) (filter (own_notification E) (notifications db))"

definition mailbox :: "'n hist_env \<Rightarrow> loop_state \<Rightarrow> letters \<times> store" where
  "mailbox E s = (letters_of E (hst_db s), stored_keys (hst_db s), hst_tasks s)"

section \<open>The loop implements the mailbox\<close>

lemma stored_kept: "stored E x s = kept E x (stored_keys (hst_db s), hst_tasks s)"
  by (simp add: stored_def kept_def split: option.split)

lemma payload_stored_kept: "payload_stored E blob s = payload_kept E blob (stored_keys (hst_db s), hst_tasks s)"
  by (auto simp: payload_stored_def payload_kept_def stored_kept has_conversations_def split: option.split)

lemma letters_of_cong: "notifications db' = notifications db \<Longrightarrow> letters_of E db' = letters_of E db"
  by (simp add: letters_of_def)

lemma letters_put: "HSNotif_Put (he_marshal E) (he_bridge E) (cl_UserLoginID (he_client E)) n db = Ok db' \<Longrightarrow>
   \<exists>bytes. he_marshal E n = Inr bytes \<and> letters_of E db' = letters_of E db @ [(next_rowid db, bytes)]
     \<and> stored_keys db' = stored_keys db"
  by (auto simp: HSNotif_Put_def outcome_simps letters_of_def own_notification_def stored_keys_def split: sum.splits)

lemma next_rowid_fresh: "wadb_ok db \<Longrightarrow> next_rowid db \<notin> fst ` set (letters_of E db)"
  by (auto simp: wadb_ok_def letters_of_def)

text \<open>The next notification is the first letter, and deleting its row removes this letter only.\<close>

lemma next_notification_letters:
  "next_notification E db = (case letters_of E db of [] \<Rightarrow> Ok None
     | (i, bytes) # _ \<Rightarrow> obind (of_sum (he_unmarshal E bytes)) (\<lambda>n. Ok (Some (n, i))))"
  by (auto simp: next_notification_def HSNotif_GetNext_def letters_of_def own_notification_def [abs_def] split: list.split)

lemma letters_delete:
  assumes "wadb_ok db" and "notifications db' = filter (\<lambda>x. nr_rowid x \<noteq> i) (notifications db)" and "letters_of E db = (i, bytes) # q"
  shows "letters_of E db' = q"
proof -
  have d: "distinct (map fst (letters_of E db))"
    using assms(1) by (simp add: wadb_ok_def tbl_keys_ok_def letters_of_def comp_def distinct_map_filter)
  have "letters_of E db' = filter (\<lambda>p. fst p \<noteq> i) (letters_of E db)"
    using assms(2) by (simp add: letters_of_def filter_map comp_def conj_commute)
  with d show ?thesis unfolding assms(3) by (auto intro!: filter_True)
qed

lemma mailbox_end_round [simp]: "mailbox E (end_round r s) = mailbox E s"
  by (simp add: mailbox_def)

lemma mailbox_flags [simp]:
  "mailbox E (s\<lparr>ls_wakeup := w\<rparr>) = mailbox E s" "mailbox E (s\<lparr>ls_timer := b\<rparr>) = mailbox E s"
  "mailbox E (s\<lparr>ls_timerPending := b\<rparr>) = mailbox E s"
  "mailbox E (s\<lparr>ls_creating := b\<rparr>) = mailbox E s" "mailbox E (s\<lparr>ls_historySyncs := evts\<rparr>) = mailbox E s"
  by (simp_all add: mailbox_def)

lemma mailbox_with_hist: "mailbox E (with_hist s h) = (letters_of E (hst_db h), stored_keys (hst_db h), hst_tasks h)"
  by (simp add: mailbox_def)

text \<open>One round of the wake-up.\<close>

lemma round_wakeup_empty: "letters_of E (hst_db s) = [] \<Longrightarrow> round_wakeup E s = end_round False (s\<lparr>ls_wakeup := False, ls_timer := False\<rparr>)"
  by (simp add: round_wakeup_def next_notification_letters [unfolded next_notification_def] Let_def)

lemma round_wakeup_unreadable:
  "letters_of E (hst_db s) = (i, bytes) # q \<Longrightarrow> he_unmarshal E bytes = Inl e \<Longrightarrow>
   round_wakeup E s = end_round False (s\<lparr>ls_wakeup := False, ls_timer := False\<rparr>)"
  by (simp add: round_wakeup_def next_notification_letters [unfolded next_notification_def] Let_def)

lemma round_wakeup_letter:
  assumes "letters_of E (hst_db s) = (i, bytes) # q" and "he_unmarshal E bytes = Inr n"
    and "downloadAndSaveWAHistorySyncData E n i (hist_part (s\<lparr>ls_wakeup := False, ls_timer := False\<rparr>)) = (h, r)"
  shows "round_wakeup E s = end_round r ((with_hist (s\<lparr>ls_wakeup := False, ls_timer := False\<rparr>) h)\<lparr>ls_wakeup := True\<rparr>)"
  using assms by (simp add: round_wakeup_def next_notification_letters [unfolded next_notification_def] Let_def)

lemma wakeup_refines:
  assumes "env_ok E" and "wadb_ok (hst_db s)"
  shows "mailbox_step E (mailbox E s) (mailbox E (round_wakeup E s))"
proof (cases "letters_of E (hst_db s)")
  case Nil
  then show ?thesis by (simp add: round_wakeup_empty) (simp add: mailbox_def store)
next
  case (Cons l q)
  obtain i bytes where l: "l = (i, bytes)" by (cases l)
  show ?thesis
  proof (cases "he_unmarshal E bytes")
    case (Inl e)
    with Cons l show ?thesis by (simp add: round_wakeup_unreadable) (simp add: mailbox_def store)
  next
    case (Inr n)
    let ?s = "s\<lparr>ls_wakeup := False, ls_timer := False\<rparr>"
    obtain h r where h: "downloadAndSaveWAHistorySyncData E n i (hist_part ?s) = (h, r)" by fastforce
    have m: "mailbox E (round_wakeup E s) = (letters_of E (hst_db h), stored_keys (hst_db h), hst_tasks h)"
      using round_wakeup_letter [OF _ Inr h] Cons l by (simp add: mailbox_with_hist)
    have s: "mailbox E s = ((i, bytes) # q, stored_keys (hst_db s), hst_tasks s)" using Cons l by (simp add: mailbox_def)
    from download_cases [OF assms(1) h] consider "hst_db h = hst_db s"
      | blob where "he_download E n = Inr blob" "payload_kept E blob (stored_keys (hst_db h), hst_tasks h)"
          "notifications (hst_db h) = filter (\<lambda>x. nr_rowid x \<noteq> i) (notifications (hst_db s))"
      by (auto simp: payload_stored_kept)
    then show ?thesis
    proof cases
      case 1
      with s m Cons l show ?thesis by (simp add: store)
    next
      case 2
      from letters_delete [OF assms(2) 2(3)] Cons l have "letters_of E (hst_db h) = q" by simp
      with take_first [OF Inr 2(1,2)] show ?thesis unfolding s m by simp
    qed
  qed
qed

lemma loop_step_refines:
  assumes "env_ok E" and "loop_step E s t" and "loop_ok E s"
  shows "mailbox_step E (mailbox E s) (mailbox E t)"
  using assms(2,3)
proof cases
  case (payload evt rest)
  let ?s = "s\<lparr>ls_historySyncs := rest, ls_timer := False\<rparr>"
  obtain h r where h: "handleWAHistorySync E (Some evt) False (hist_part ?s) = (h, r)" by fastforce
  have n: "notifications (hst_db h) = notifications (hst_db s)" using handle_grows [OF h] by (simp add: grows_def)
  obtain b where "t = end_round b (with_hist ?s h)"
    using h payload by (cases r) (auto simp: round_payload_def Let_def)
  then have "mailbox E t = (letters_of E (hst_db s), stored_keys (hst_db h), hst_tasks h)"
    by (simp add: mailbox_with_hist letters_of_cong [OF n])
  then show ?thesis by (simp add: mailbox_def store)
next
  case wakeup
  then show ?thesis using wakeup_refines [OF assms(1)] assms(3) by (simp add: loop_ok_def)
next
  case (notification notif)
  have fresh: "next_rowid (hst_db s) \<notin> fst ` set (letters_of E (hst_db s))"
    by (rule next_rowid_fresh) (use assms(3) in \<open>simp add: loop_ok_def\<close>)
  show ?thesis
  proof (cases "HSNotif_Put (he_marshal E) (he_bridge E) (cl_UserLoginID (he_client E)) notif (hst_db s)")
    case (Ok db)
    from letters_put [OF this] obtain bytes where "he_marshal E notif = Inr bytes"
      "letters_of E db = letters_of E (hst_db s) @ [(next_rowid (hst_db s), bytes)]" "stored_keys db = stored_keys (hst_db s)" by blast
    with post [OF _ fresh] Ok show ?thesis unfolding notification by (simp add: saveWAHistorySyncNotification_def mailbox_def)
  qed (simp_all add: notification saveWAHistorySyncNotification_def mailbox_def store)
next
  case (database db)
  then show ?thesis by (simp add: mailbox_def letters_of_cong [OF database(3)] store)
qed (simp_all add: mailbox_def store)

interpretation mailbox_refined: refined_system "\<lambda>s. env_ok E \<and> loop_starts E s" "loop_step E" "\<lambda>s. env_ok E \<and> loop_ok E s"
    "mailbox E" "\<lambda>_. True" "mailbox_step E" for E
proof
  show "env_ok E \<and> loop_starts E s \<Longrightarrow> env_ok E \<and> loop_ok E s" for s using loop_system.initially by blast
  show "loop_step E s t \<Longrightarrow> env_ok E \<and> loop_ok E s \<Longrightarrow> env_ok E \<and> loop_ok E t" for s t using loop_system.preserved by blast
  show "env_ok E \<and> loop_ok E s \<Longrightarrow> loop_step E s t \<Longrightarrow> (mailbox_step E)\<^sup>*\<^sup>* (mailbox E s) (mailbox E t)" for s t
    using loop_step_refines by blast
qed simp

section \<open>What the mailbox promises\<close>

text \<open>A letter that can be taken.\<close>

definition delivered :: "'n hist_env \<Rightarrow> int \<times> byte list \<Rightarrow> bool" where
  "delivered E l \<longleftrightarrow> (case he_unmarshal E (snd l) of Inl _ \<Rightarrow> False
     | Inr n \<Rightarrow> (case he_download E n of Inl _ \<Rightarrow> False | Inr _ \<Rightarrow> True))"

lemma mailbox_run:
  assumes "(mailbox_step E)\<^sup>*\<^sup>* a b"
  shows "\<exists>posted taken. fst a @ posted = taken @ fst b \<and> list_all (delivered E) taken
    \<and> list_all (\<lambda>l. \<exists>n. he_marshal E n = Inr (snd l)) posted"
  using assms
proof (induction rule: rtranclp_induct)
  case base
  show ?case by (rule exI [of _ "[]"]) simp
next
  case (step b c)
  then obtain posted taken where p: "fst a @ posted = taken @ fst b" "list_all (delivered E) taken"
    "list_all (\<lambda>l. \<exists>n. he_marshal E n = Inr (snd l)) posted" by blast
  from step(2) show ?case
  proof cases
    case (post n bytes i q st)
    show ?thesis
    proof (intro exI conjI)
      show "fst a @ (posted @ [(i, bytes)]) = taken @ fst c" using p(1) post by simp
      show "list_all (\<lambda>l. \<exists>n. he_marshal E n = Inr (snd l)) (posted @ [(i, bytes)])" using p(3) post by auto
    qed (rule p(2))
  next
    case (take_first bytes n blob st' i q st)
    show ?thesis
    proof (intro exI conjI)
      show "fst a @ posted = (taken @ [(i, bytes)]) @ fst c" using p(1) take_first by simp
      show "list_all (delivered E) (taken @ [(i, bytes)])" using p(2) take_first by (simp add: delivered_def)
    qed (rule p(3))
  next
    case (store q st st')
    with p show ?thesis by auto
  qed
qed


text \<open>A start with a queued notification, and its round.\<close>

definition sample_queued :: loop_state where
  "sample_queued = historySyncLoop_start True True True (saveWAHistorySyncNotification sample_env 5 sample_loop)"

lemma sample_queued_starts: "loop_starts sample_env sample_queued"
proof -
  have "wadb_ok (hst_db (saveWAHistorySyncNotification sample_env 5 sample_loop))"
    using wadb_ok_empty HSNotif_Put_ok by (auto simp: saveWAHistorySyncNotification_def sample_loop_def split: outcome.split)
  then show ?thesis unfolding loop_starts_def sample_queued_def by blast
qed


section \<open>The mailbox empties\<close>

text \<open>A letter that works: it can be read and downloaded, no chat of its payload meets an error, and its
  row can be deleted.\<close>

definition deliverable :: "'n hist_env \<Rightarrow> int \<times> byte list \<Rightarrow> bool" where
  "deliverable E l \<longleftrightarrow> (\<exists>n blob. he_unmarshal E (snd l) = Inr n \<and> he_download E n = Inr blob \<and> he_delete_err E (fst l) = None
     \<and> (\<forall>evt x j. blob = Some evt \<and> x \<in> set (hsy_Conversations evt) \<and> hist_chat_jid E (fst x) = Some j \<longrightarrow> no_faults E j))"

definition letter_kept :: "'n hist_env \<Rightarrow> store \<Rightarrow> int \<times> byte list \<Rightarrow> bool" where
  "letter_kept E st l \<longleftrightarrow> (\<exists>n blob. he_unmarshal E (snd l) = Inr n \<and> he_download E n = Inr blob \<and> payload_kept E blob st)"

definition drain_ok :: "'n hist_env \<Rightarrow> loop_state \<Rightarrow> bool" where
  "drain_ok E s \<longleftrightarrow> env_ok E \<and> wadb_ok (hst_db s) \<and> list_all (deliverable E) (letters_of E (hst_db s))"

lemma save_conversations_no_faults:
  assumes "env_ok E" and "\<And>x j. x \<in> set xs \<Longrightarrow> hist_chat_jid E (fst x) = Some j \<Longrightarrow> no_faults E j"
  shows "\<exists>t. save_conversations E stop xs s = (t, None)"
  using assms(2)
proof (induction xs arbitrary: s)
  case (Cons x xs)
  have "no_faults E j" if "hist_chat_jid E (fst x) = Some j" for j using Cons.prems [OF _ that] by simp
  from save_conversation_no_faults [OF assms(1) this] obtain u where "save_conversation E stop x s = (u, None)" by blast
  moreover have "\<exists>t. save_conversations E stop xs u = (t, None)"
    by (rule Cons.IH) (rule Cons.prems, simp_all)
  ultimately show ?case by simp
qed simp

lemma deliverable_round:
  assumes "drain_ok E s" and "letters_of E (hst_db s) = l # q"
  shows "letters_of E (hst_db (round_wakeup E s)) = q \<and> ls_wakeup (round_wakeup E s) \<and> wadb_ok (hst_db (round_wakeup E s))
    \<and> stored_keys (hst_db s) \<subseteq> stored_keys (hst_db (round_wakeup E s)) \<and> hst_tasks s \<subseteq> hst_tasks (round_wakeup E s)
    \<and> letter_kept E (snd (mailbox E (round_wakeup E s))) l"
proof -
  obtain i bytes where l: "l = (i, bytes)" by (cases l)
  have "deliverable E (i, bytes)" using assms by (simp add: drain_ok_def l)
  then obtain n blob where n: "he_unmarshal E bytes = Inr n" "he_download E n = Inr blob" "he_delete_err E i = None"
    and nf: "\<And>evt x j. blob = Some evt \<Longrightarrow> x \<in> set (hsy_Conversations evt) \<Longrightarrow> hist_chat_jid E (fst x) = Some j \<Longrightarrow> no_faults E j"
    unfolding deliverable_def by auto
  have E: "env_ok E" and ok: "wadb_ok (hst_db s)" using assms(1) by (simp_all add: drain_ok_def)
  let ?s = "hist_part (s\<lparr>ls_wakeup := False, ls_timer := False\<rparr>)"
  have "\<exists>u b. handleWAHistorySync E blob True ?s = (u, Inr b)"
  proof (cases blob)
    case (Some evt)
    have "\<exists>u. save_conversations E True (hsy_Conversations evt) ?s = (u, None)"
      by (rule save_conversations_no_faults [OF E]) (rule nf [OF Some])
    then obtain u where "save_conversations E True (hsy_Conversations evt) ?s = (u, None)" by blast
    then show ?thesis unfolding Some by (auto simp: handleWAHistorySync_def split: option.split)
  qed (auto simp: handleWAHistorySync_def)
  then obtain u b where u: "handleWAHistorySync E blob True ?s = (u, Inr b)" by blast
  let ?h = "u\<lparr>hst_db := HSNotif_Delete i (hst_db u)\<rparr>"
  have d: "downloadAndSaveWAHistorySyncData E n i ?s = (?h, b)"
    using n(2,3) u by (simp add: downloadAndSaveWAHistorySyncData_def)
  have round: "round_wakeup E s = end_round b ((with_hist (s\<lparr>ls_wakeup := False, ls_timer := False\<rparr>) ?h)\<lparr>ls_wakeup := True\<rparr>)"
    by (rule round_wakeup_letter) (use assms(2) l n(1) d in simp_all)
  have g: "grows ?s u" using u by (rule handle_grows)
  then have "notifications (hst_db ?h) = filter (\<lambda>x. nr_rowid x \<noteq> i) (notifications (hst_db s))"
    by (simp add: grows_def HSNotif_Delete_def tbl_delete_def)
  from letters_delete [OF ok this] assms(2) have q: "letters_of E (hst_db ?h) = q" unfolding l by simp
  have k: "payload_kept E blob (stored_keys (hst_db ?h), hst_tasks ?h)"
    using handle_strict_stores [OF E u] by (simp only: payload_stored_kept [symmetric] payload_stored_delete)
  have keys: "stored_keys (HSNotif_Delete i (hst_db u)) = stored_keys (hst_db u)" by (simp add: stored_keys_def HSNotif_Delete_def)
  from q k g ok n(1,2) show ?thesis
    unfolding round letter_kept_def l
    by (simp add: mailbox_def grows_def wadb_ok_other_ops keys)
qed

lemma kept_mono: "kept E x st \<Longrightarrow> fst st \<subseteq> fst st' \<Longrightarrow> snd st \<subseteq> snd st' \<Longrightarrow> kept E x st'"
  by (auto simp: kept_def Let_def split: option.splits)

lemma letter_kept_mono: "letter_kept E st l \<Longrightarrow> fst st \<subseteq> fst st' \<Longrightarrow> snd st \<subseteq> snd st' \<Longrightarrow> letter_kept E st' l"
  unfolding letter_kept_def payload_kept_def by (fastforce split: option.splits intro: kept_mono)

interpretation drain: draining_round "round_wakeup E" "drain_ok E" "\<lambda>s. length (letters_of E (hst_db s))" for E
proof
  show "drain_ok E s \<Longrightarrow> length (letters_of E (hst_db s)) = Suc n \<Longrightarrow>
      drain_ok E (round_wakeup E s) \<and> length (letters_of E (hst_db (round_wakeup E s))) = n" for s n
    using deliverable_round [of E s] by (auto simp: drain_ok_def length_Suc_conv)
qed

lemma drain_keeps:
  "drain_ok E s \<Longrightarrow> letters_of E (hst_db s) = ls \<Longrightarrow> ls \<noteq> [] \<Longrightarrow>
   ls_wakeup ((round_wakeup E ^^ length ls) s) \<and> (\<forall>l\<in>set ls. letter_kept E (snd (mailbox E ((round_wakeup E ^^ length ls) s))) l)
   \<and> stored_keys (hst_db s) \<subseteq> stored_keys (hst_db ((round_wakeup E ^^ length ls) s))
   \<and> hst_tasks s \<subseteq> hst_tasks ((round_wakeup E ^^ length ls) s)"
proof (induction ls arbitrary: s)
  case (Cons l ls)
  let ?t = "round_wakeup E s" and ?e = "(round_wakeup E ^^ length (l # ls)) s"
  note d = deliverable_round [OF Cons.prems(1,2)]
  have e: "?e = (round_wakeup E ^^ length ls) ?t" by (simp only: list.size funpow_Suc_right comp_apply add_0_right add_Suc_right)
  show ?case
  proof (cases "ls = []")
    case True
    with d show ?thesis unfolding e by simp
  next
    case False
    have "drain_ok E ?t" using drain.shrinks [of E s] Cons.prems by simp
    from Cons.IH [OF this _ False] d have r: "ls_wakeup ?e" "\<forall>x\<in>set ls. letter_kept E (snd (mailbox E ?e)) x"
      "stored_keys (hst_db ?t) \<subseteq> stored_keys (hst_db ?e)" "hst_tasks ?t \<subseteq> hst_tasks ?e" unfolding e by blast+
    have "letter_kept E (snd (mailbox E ?e)) l"
      by (rule letter_kept_mono [of E "snd (mailbox E ?t)"]) (use d r(3,4) in \<open>simp_all add: mailbox_def\<close>)
    with r d show ?thesis by auto
  qed
qed simp

text \<open>C12: The queue empties. When every queued notification can be read and downloaded, no chat in it meets
  an error and its row can be deleted, then as many rounds of the wake-up as there are notifications
  leave none, each message and task of every payload is kept, what was stored before stays, a
  wake-up is pending for the next round until then, and that round finds nothing and ends the
  chain.\<close>

theorem history_queue_drains:
  assumes "env_ok E" and "wadb_ok (hst_db s)" and "list_all (deliverable E) (letters_of E (hst_db s))"
    and "t = (round_wakeup E ^^ length (letters_of E (hst_db s))) s"
  shows "letters_of E (hst_db t) = [] \<and> (letters_of E (hst_db s) \<noteq> [] \<longrightarrow> ls_wakeup t) \<and> \<not> ls_wakeup (round_wakeup E t)
    \<and> list_all (letter_kept E (stored_keys (hst_db t), hst_tasks t)) (letters_of E (hst_db s))
    \<and> stored_keys (hst_db s) \<subseteq> stored_keys (hst_db t) \<and> hst_tasks s \<subseteq> hst_tasks t"
proof -
  have ok: "drain_ok E s" using assms(1-3) by (simp add: drain_ok_def)
  from drain.drained [OF ok refl] have e: "letters_of E (hst_db t) = []" unfolding assms(4) by simp
  then have "\<not> ls_wakeup (round_wakeup E t)" by (simp add: round_wakeup_empty)
  with e show ?thesis
    using drain_keeps [OF ok refl] unfolding assms(4) by (cases "letters_of E (hst_db s) = []") (simp_all add: mailbox_def list_all_iff)
qed

theorem history_queue_drains_witness:
  "letters_of sample_env (hst_db (round_wakeup sample_env sample_queued)) = []
   \<and> \<not> ls_wakeup (round_wakeup sample_env (round_wakeup sample_env sample_queued))"
proof -
  have l: "letters_of sample_env (hst_db sample_queued) = [(1, [5])]" by code_simp
  have "deliverable sample_env (1, [5])" by (simp add: deliverable_def sample_env_def)
  moreover have "wadb_ok (hst_db sample_queued)"
    using loop_system.initially [OF sample_queued_starts] by (simp add: loop_ok_def)
  ultimately show ?thesis using history_queue_drains [OF sample_env_ok _ _ refl, of sample_queued] by (simp add: l)
qed

end
