(* ===== verification/Lifecycle.thy ===== *)
theory Lifecycle
  imports Connection
begin

text \<open>
  The life of a login as an abstract machine, and the proof that the operations and events of
  \<open>Connection\<close> (\<open>pkg/connector/client.go\<close>, the connection events of \<open>handlewhatsapp.go\<close>) implement it.
\<close>

section \<open>The abstract machine\<close>

text \<open>Whether the login has a client, and whether its background loops run. A connection starts the
  loops, \<open>Disconnect\<close> ends them, and a logout takes the client and leaves the loops as they are.\<close>

type_synonym life = "bool \<times> bool"

inductive life_step :: "life \<Rightarrow> life \<Rightarrow> bool" where
  connects: "life_step (True, b) (True, True)"
| disconnects: "life_step (c, b) (c, False)"
| logs_out: "life_step (c, b) (False, b)"

inductive_simps life_step_simps: "life_step (c, b) (c', b')"

definition life :: "wa_client \<Rightarrow> life" where
  "life s = (wc_Client s \<noteq> None, wc_running s \<noteq> [])"

abbreviation lives :: "life \<Rightarrow> life \<Rightarrow> bool" where
  "lives \<equiv> life_step\<^sup>*\<^sup>*"

section \<open>The operations\<close>

text \<open>What only loses the client or ends the loops is a run of the machine.\<close>

lemma lives_less:
  assumes "c' \<Longrightarrow> c" and "b' \<Longrightarrow> b"
  shows "lives (c, b) (c', b')"
proof -
  have "lives (c, b) (c', b)" using assms(1) logs_out [of c b] by (cases c; cases c') auto
  moreover have "lives (c', b) (c', b')" using assms(2) disconnects [of c' b] by (cases b; cases b') auto
  ultimately show ?thesis by (rule rtranclp_trans)
qed

definition less_alive :: "wa_client \<Rightarrow> wa_client \<Rightarrow> bool" where
  "less_alive s t \<longleftrightarrow> (wc_Client t \<noteq> None \<longrightarrow> wc_Client s \<noteq> None) \<and> (wc_running t \<noteq> [] \<longrightarrow> wc_running s \<noteq> [])"

lemma less_alive_lives: "less_alive s t \<Longrightarrow> lives (life s) (life t)"
  unfolding life_def by (rule lives_less) (auto simp: less_alive_def)

lemma less_alive_trans: "less_alive s t \<Longrightarrow> less_alive t u \<Longrightarrow> less_alive s u"
  by (auto simp: less_alive_def)

lemma Disconnect_less: "less_alive s (Disconnect s)"
  by (auto simp: less_alive_def Disconnect_def Let_def split: option.splits)

lemma LogoutRemote_less: "less_alive s (LogoutRemote s)"
  using Disconnect_less [of s] by (simp add: less_alive_def LogoutRemote_def)

lemma conn_events_less: "less_alive s (conn_events evs s)"
  by (simp add: less_alive_def)

lemma phoneSeen_less: "less_alive s (phoneSeen now prev ts s)"
  by (simp add: less_alive_def)

lemma reset_background_running: "reset_background r s = (r', t) \<Longrightarrow> wc_running t = wc_running s"
  by (auto simp: reset_background_def Let_def split: option.splits)

lemma Disconnect_running: "wc_running (Disconnect s) \<noteq> [] \<Longrightarrow> wc_running s \<noteq> []"
  using Disconnect_less [of s] by (auto simp: less_alive_def)

lemma ConnectBackground_less:
  assumes "ConnectBackground E raw s = Some (r, pn, t)"
  shows "less_alive s t"
proof (cases "wc_Client s")
  case None
  then show ?thesis using assms by (simp add: ConnectBackground_def less_alive_def)
next
  case (Some c)
  have "wc_running t \<noteq> [] \<Longrightarrow> wc_running s \<noteq> []"
    using assms Some
    by (auto simp: ConnectBackground_def Let_def split: option.splits prod.splits list.splits sum.splits
        dest!: reset_background_running Disconnect_running)
  with Some show ?thesis by (simp add: less_alive_def)
qed

lemma Connect_lives: "lives (life s) (life (Connect ctx_err conn_err s))"
proof (cases "wc_Client s")
  case None
  then show ?thesis by (simp add: Connect_def life_def)
next
  case (Some c)
  then have "life (Connect ctx_err conn_err s) = (if ctx_err then life s else (True, True))"
    by (simp add: Connect_def Let_def life_def startLoops_def send_state_def split: option.split)
  moreover have "lives (True, b) (True, True)" for b by (rule r_into_rtranclp) (rule connects)
  ultimately show ?thesis using Some by (simp add: life_def)
qed

lemma conn_step_lives: "conn_step s t \<Longrightarrow> lives (life s) (life t)"
proof (induction rule: conn_step.induct)
  case (event s now prev evt)
  show ?case by (rule less_alive_lives) (simp add: less_alive_def)
next
  case (ping s now key send)
  show ?case by (rule less_alive_lives) (simp add: less_alive_def)
qed (blast intro: Connect_lives less_alive_lives Disconnect_less LogoutRemote_less phoneSeen_less dest: ConnectBackground_less)+

interpretation conn_life: refined_system loaded conn_step conn_inv life "\<lambda>a. \<not> snd a" life_step
proof
  show "loaded s \<Longrightarrow> \<not> snd (life s)" for s
    by (auto simp: loaded_def life_def LoadUserLogin_def Let_def split: if_splits sum.splits bool.splits)
qed (rule conn_step_lives)

section \<open>What the machine promises\<close>

text \<open>C13: The connection of a login implements a machine of two switches: a client that it can only lose,
  and background loops that only a connection with a client starts. So from its loading on, however
  it is connected, disconnected, logged out and hit by events, a login that has lost its client
  never gets it back, and if its loops are ended then they never run again. But a logout event leaves
  the loops as they are: they run on until the login is disconnected.\<close>

theorem connection_lifecycle:
  assumes "loaded s0" and "conn_step\<^sup>*\<^sup>* s0 s" and "conn_step\<^sup>*\<^sup>* s t"
  shows "lives (life s0) (life t) \<and> wc_running s0 = []
    \<and> (wc_Client s = None \<longrightarrow> wc_Client t = None \<and> (wc_running s = [] \<longrightarrow> wc_running t = []))
    \<and> wc_running (handle_conn_event now prev (EvtLoggedOut reason txt) s) = wc_running s"
proof -
  have inv: "conn_inv s" "conn_inv s0"
    using conn_system.reached [OF assms(1,2)] conn_system.initially [OF assms(1)] by auto
  have keeps: "life_step a b \<Longrightarrow> \<not> fst a \<and> (k \<longrightarrow> \<not> snd a) \<Longrightarrow> \<not> fst b \<and> (k \<longrightarrow> \<not> snd b)" for a b k
    by (cases rule: life_step.cases) auto
  have "\<not> fst (life t) \<and> (k \<longrightarrow> \<not> snd (life t))" if "\<not> fst (life s) \<and> (k \<longrightarrow> \<not> snd (life s))" for k
    using conn_life.abs_invariant [OF assms(3) inv(1), of "\<lambda>a. \<not> fst a \<and> (k \<longrightarrow> \<not> snd a)", OF that keeps] .
  from this [of False] this [of True]
  have "wc_Client s = None \<longrightarrow> wc_Client t = None \<and> (wc_running s = [] \<longrightarrow> wc_running t = [])"
    by (simp add: life_def)
  moreover have "lives (life s0) (life t)"
    using conn_life.abs_steps [OF rtranclp_trans [OF assms(2,3)] inv(2)] .
  moreover have "wc_running s0 = []" using conn_life.abs_initially [OF assms(1)] by (simp add: life_def)
  ultimately show ?thesis by simp
qed

text \<open>A login that is connected and logged out, and connected again.\<close>

theorem connection_lifecycle_witness:
  "wc_running (handle_conn_event 0 [] (EvtLoggedOut ReasonLoggedOut []) (Connect False None sample_wa_client)) = [0]
   \<and> wc_Client (Connect False None (handle_conn_event 0 [] (EvtLoggedOut ReasonLoggedOut []) (Connect False None sample_wa_client))) = None"
proof -
  let ?s1 = "Connect False None sample_wa_client"
  let ?s2 = "handle_conn_event 0 [] (EvtLoggedOut ReasonLoggedOut []) ?s1"
  let ?s3 = "Connect False None ?s2"
  have "loaded sample_wa_client"
    unfolding loaded_def sample_wa_client_def by (metis surjective_pairing)
  moreover have "conn_step\<^sup>*\<^sup>* sample_wa_client ?s2"
    using conn_step.connect [of sample_wa_client False None] conn_step.event [of ?s1 0 "[]"] by (meson converse_rtranclp_into_rtranclp r_into_rtranclp)
  moreover have "conn_step\<^sup>*\<^sup>* ?s2 ?s3" using conn_step.connect [of ?s2 False None] by auto
  moreover have "wc_Client ?s2 = None" "wc_running ?s1 = [0]" by code_simp+
  ultimately show ?thesis
    using connection_lifecycle [of sample_wa_client ?s2 ?s3] connection_lifecycle [of sample_wa_client ?s1 ?s1 0 "[]" ReasonLoggedOut "[]"]
    by simp
qed

end
