(* ===== verification/Timers.thy ===== *)
theory Timers
  imports MediaRequests
begin

text \<open>
  The clocks of the background loops: when the media request loop starts
  (\<open>pkg/connector/mediarequest.go\<close>), the loop that expires the media edit cache
  (\<open>mediaeditcache.go\<close>), and how long the first resync of contacts waits (\<open>userinfo.go\<close>). A time zone
  is its offset from UTC, which does not change in the days that are computed with.
\<close>

section \<open>The start of the media request loop\<close>

definition minute :: int where "minute = 60 * second"

text \<open>The midnight that begins the day of \<open>now\<close> in a zone with offset \<open>z\<close>, taken as a date in the zone
  with offset \<open>u\<close>.\<close>

definition date_in :: "int \<Rightarrow> int \<Rightarrow> gotime \<Rightarrow> gotime" where
  "date_in z u now = (now + z) div day * day - u"

text \<open>\<open>server\<close> is the zone of the process, \<open>userTz\<close> the one that was loaded by the name in the
  metadata; a name that is empty or unknown gives None.\<close>

definition media_start_in :: "int \<Rightarrow> int option \<Rightarrow> int \<Rightarrow> gotime \<Rightarrow> int" where
  "media_start_in server userTz localTime now =
     (case userTz of
        None \<Rightarrow> 8 * 60 * minute
      | Some u \<Rightarrow>
          (let startAt = date_in server u now + localTime * minute;
               startAt' = (if startAt < now then startAt + day else startAt)
           in startAt' - now))"

text \<open>\<open>time.After\<close> fires at once for a negative duration.\<close>

definition media_loop_sends :: "int \<Rightarrow> int option \<Rightarrow> int \<Rightarrow> gotime \<Rightarrow> nat \<Rightarrow> gotime" where
  "media_loop_sends server userTz localTime now k =
     mediaRequestLoop_send_time now (max 0 (media_start_in server userTz localTime now)) k"

definition local_minute :: "int \<Rightarrow> gotime \<Rightarrow> int" where
  "local_minute u t = (t + u) mod day"

lemma local_minute_day [simp]: "local_minute u (t + day) = local_minute u t" "local_minute u (t + day * int k) = local_minute u t"
proof -
  have "(t + u + day) mod day = (t + u) mod day" "(t + u + day * int k) mod day = (t + u) mod day" by simp_all
  then show "local_minute u (t + day) = local_minute u t" "local_minute u (t + day * int k) = local_minute u t"
    by (simp_all add: local_minute_def algebra_simps)
qed

lemma date_in_local: "local_minute u (date_in z u now + m) = m mod day"
  by (simp add: local_minute_def date_in_def)

lemma media_start_local: "local_minute u (now + media_start_in z (Some u) m now) = (m * minute) mod day"
proof -
  have "local_minute u (date_in z u now + m * minute + day) = (m * minute) mod day" by (simp only: local_minute_day date_in_local)
  moreover have "local_minute u (date_in z u now + m * minute) = (m * minute) mod day" by (rule date_in_local)
  ultimately show ?thesis by (simp add: media_start_in_def Let_def algebra_simps)
qed

lemma date_in_bounds: "now + z - u - day < date_in z u now" "date_in z u now \<le> now + z - u"
proof -
  have "0 \<le> (now + z) mod day" "(now + z) mod day < day" by (simp_all add: day_def second_def)
  then show "now + z - u - day < date_in z u now" "date_in z u now \<le> now + z - u"
    unfolding date_in_def using minus_mod_eq_div_mult [of "now + z" day] by linarith+
qed

lemma media_start_bounds:
  assumes "0 \<le> m * minute" "m * minute < day"
  shows "media_start_in z (Some u) m now < max day (z - u + day)"
    and "z - u - day < media_start_in z (Some u) m now" and "z = u \<Longrightarrow> 0 \<le> media_start_in z (Some u) m now"
  using date_in_bounds [where now = now and z = z and u = u] assms by (auto simp: media_start_in_def Let_def)

text \<open>C22: When the daily requests for media are sent. With a known time zone the loop computes a moment at
  which the clock of the user shows the configured minute, and from then on sends once a day at this
  minute of the user's clock, the first time a day after that moment. The moment is in the next day
  when the process runs in the zone of the user; but the date is read in the zone of the process, so in
  another zone the moment can be past, and then the loop starts at once and sends every day at whatever
  minute it was started. Without a zone the first requests are sent after 32 hours.\<close>

theorem media_loop_clock:
  assumes "0 \<le> m" and "m < 24 * 60"
  shows "(0 \<le> media_start_in z (Some u) m now \<longrightarrow> local_minute u (media_loop_sends z (Some u) m now k) = m * minute)
    \<and> (z = u \<longrightarrow> 0 \<le> media_start_in z (Some u) m now \<and> media_start_in z (Some u) m now < day)
    \<and> (media_start_in z (Some u) m now < 0 \<longrightarrow> media_loop_sends z (Some u) m now k = now + day * (int k + 1))
    \<and> media_loop_sends z None m now 0 = now + 32 * 60 * minute
    \<and> media_loop_sends z tz m now (Suc k) = media_loop_sends z tz m now k + day"
proof (intro conjI impI)
  have m: "0 \<le> m * minute" "m * minute < day" using assms by (simp_all add: minute_def day_def second_def)
  show "z = u \<Longrightarrow> 0 \<le> media_start_in z (Some u) m now" "z = u \<Longrightarrow> media_start_in z (Some u) m now < day"
    using media_start_bounds [OF m, of z u now] by simp_all
  show "local_minute u (media_loop_sends z (Some u) m now k) = m * minute" if "0 \<le> media_start_in z (Some u) m now"
  proof -
    have "media_loop_sends z (Some u) m now k = now + media_start_in z (Some u) m now + day * int (Suc k)"
      using that by (simp add: media_loop_sends_def mediaRequestLoop_send_time_def add.commute)
    then have "local_minute u (media_loop_sends z (Some u) m now k) = (m * minute) mod day"
      by (simp only: local_minute_day media_start_local)
    then show ?thesis using m by simp
  qed
qed (simp_all add: media_loop_sends_def mediaRequestLoop_send_time_def media_start_in_def minute_def day_def second_def algebra_simps)

text \<open>A process in UTC at 23 o'clock and a user fourteen hours ahead who asked for midnight: the moment is
  thirteen hours past.\<close>

lemma media_start_past: "media_start_in 0 (Some (14 * 60 * minute)) 0 (23 * 60 * minute) = - (13 * 60 * minute)"
  by code_simp

theorem media_loop_clock_witness:
  "media_loop_sends 0 (Some (14 * 60 * minute)) 0 (23 * 60 * minute) 0 = 23 * 60 * minute + day
   \<and> local_minute 0 (media_loop_sends 0 (Some 0) 120 (23 * 60 * minute) 3) = 120 * minute"
  using media_loop_clock [of 0 0 "14 * 60 * minute" "23 * 60 * minute" 0] media_loop_clock [of 120 0 0 "23 * 60 * minute" 3] media_start_past
  by (simp add: minute_def second_def)

section \<open>The loop of the media edit cache\<close>

text \<open>The ticks of the loop, a minute apart, with whatever is added to the cache in between.\<close>

fun cache_loop :: "gotime \<Rightarrow> (MediaEditCacheEntry list \<Rightarrow> MediaEditCacheEntry list) list \<Rightarrow> MediaEditCacheEntry list \<Rightarrow> MediaEditCacheEntry list" where
  "cache_loop t [] cache = cache"
| "cache_loop t (changes # rest) cache = cache_loop (t + minute) rest (expireMediaEditCache (t + minute) (changes cache))"

lemma expire_sound: "e \<in> set (expireMediaEditCache now cache) \<Longrightarrow> now \<le> me_Expiry e"
  by (auto simp: expireMediaEditCache_def time_sub_def split: if_splits)

lemma cache_loop_fresh: "changes \<noteq> [] \<Longrightarrow> e \<in> set (cache_loop t changes cache) \<Longrightarrow> t + int (length changes) * minute \<le> me_Expiry e"
proof (induction changes arbitrary: t cache)
  case (Cons c cs)
  then show ?case
  proof (cases "cs = []")
    case True
    with Cons.prems expire_sound show ?thesis by fastforce
  next
    case False
    from Cons.IH [OF this, of "t + minute"] Cons.prems(2) show ?thesis by (simp add: algebra_simps)
  qed
qed simp

section \<open>The first resync of contacts\<close>

text \<open>After a new login the automatic resync waits until the push names are synced, at time \<open>synced\<close>, or
  for five minutes. The result is the time at which the contacts are read, None if the context was
  cancelled before.\<close>

definition resyncContacts_begin :: "bool \<Rightarrow> bool \<Rightarrow> gotime option \<Rightarrow> gotime option \<Rightarrow> gotime \<Rightarrow> gotime option" where
  "resyncContacts_begin automatic isNewLogin synced cancelled now =
     (if automatic \<and> isNewLogin
      then (let timeout = now + 5 * minute;
                woken = (case synced of None \<Rightarrow> timeout | Some s \<Rightarrow> min timeout (max now s))
            in case cancelled of None \<Rightarrow> Some woken | Some c \<Rightarrow> if c \<le> woken then None else Some woken)
      else Some now)"

lemma resyncContacts_begin_bounds:
  "resyncContacts_begin automatic isNewLogin synced cancelled now = Some t \<Longrightarrow> now \<le> t \<and> t \<le> now + 5 * minute
     \<and> (\<not> (automatic \<and> isNewLogin) \<longrightarrow> t = now)"
  by (auto simp: resyncContacts_begin_def Let_def minute_def second_def split: if_splits option.splits)

end
