(* ===== verification/Surface.thy ===== *)
theory Surface
  imports Login ClientOps Startup DirectMedia Commands
begin

text \<open>
  What the bridge declares to its framework and to users: the program (\<open>cmd/mautrix-whatsapp/main.go\<close>),
  login flows and steps (\<open>pkg/connector/login.go\<close>), push services (\<open>client.go\<close>), the parts of the
  configuration (\<open>config.go\<close>), direct media (\<open>directmedia.go\<close>), and the settings of the HTML parser and of
  stickers (\<open>pkg/msgconv/msgconv.go\<close>).
\<close>

section \<open>The program\<close>

record BridgeMain =
  bm_Name :: string
  bm_URL :: string
  bm_Description :: string
  bm_Version :: string
  bm_SemCalVer :: bool

definition main_m :: BridgeMain where
  "main_m = \<lparr>bm_Name = ''mautrix-whatsapp'', bm_URL = ''https://github.com/mautrix/whatsapp'',
     bm_Description = ''A Matrix-WhatsApp puppeting bridge.'', bm_Version = ''25.12'', bm_SemCalVer = True\<rparr>"

section \<open>Logging in\<close>

record LoginFlow =
  lf_Name :: string
  lf_Description :: string
  lf_ID :: string

definition LoginFlowIDQR :: string where "LoginFlowIDQR = ''qr''"

definition GetLoginFlows :: "LoginFlow list" where
  "GetLoginFlows =
     [\<lparr>lf_Name = ''QR'', lf_Description = ''Scan a QR code to pair the bridge to your WhatsApp account'', lf_ID = LoginFlowIDQR\<rparr>,
      \<lparr>lf_Name = ''Pairing code'',
       lf_Description = ''Input your phone number to get a pairing code, to pair the bridge to your WhatsApp account'',
       lf_ID = LoginFlowIDPhone\<rparr>]"

text \<open>The identifiers of the steps.\<close>

fun step_id :: "LoginStep \<Rightarrow> string" where
  "step_id StepPhoneNumber = ''fi.mau.whatsapp.login.phone''"
| "step_id (StepQR qr) = ''fi.mau.whatsapp.login.qr''"
| "step_id (StepCode code) = ''fi.mau.whatsapp.login.code''"
| "step_id (StepComplete name login) = ''fi.mau.whatsapp.login.complete''"

datatype DisplayType = LoginDisplayTypeQR | LoginDisplayTypeCode

record DisplayStep =
  ds_StepID :: string
  ds_Instructions :: string
  ds_Type :: DisplayType
  ds_Data :: string

definition makeQRStep :: "string \<Rightarrow> DisplayStep" where
  "makeQRStep qr = \<lparr>ds_StepID = step_id (StepQR qr), ds_Instructions = ''Scan the QR code with the WhatsApp mobile app to log in'',
     ds_Type = LoginDisplayTypeQR, ds_Data = qr\<rparr>"

definition LoginConnectWait :: int where "LoginConnectWait = 15 * second"

text \<open>Each declared flow makes its own process. A flow that is not declared makes the process of the
  flow with QR codes.\<close>

lemma login_flows:
  "map (\<lambda>f. wl_PhoneCode (CreateLogin (lf_ID f))) GetLoginFlows = [False, True]"
  "distinct (map lf_ID GetLoginFlows)"
  "flow \<notin> set (map lf_ID GetLoginFlows) \<Longrightarrow> CreateLogin flow = CreateLogin LoginFlowIDQR"
  by (auto simp: GetLoginFlows_def CreateLogin_def LoginFlowIDQR_def LoginFlowIDPhone_def)

section \<open>Push notifications\<close>

record DeclaredPush =
  dp_VapidKey :: string
  dp_SenderID :: string
  dp_BundleID :: string

definition pushCfg :: DeclaredPush where
  "pushCfg = \<lparr>dp_VapidKey = ''BIt4eFAVqVxe4yOA5_VLbZTbOlV-2y1FYJ_R4RlxWoyYazAq4glIxI7fh_xLbob1SNv7ZtTWn9mmZCsk2YNXYeY'',
     dp_SenderID = ''293955441834'', dp_BundleID = ''net.whatsapp.WhatsApp''\<rparr>"

definition GetPushConfigs :: DeclaredPush where "GetPushConfigs = pushCfg"

text \<open>\<open>key\<close> is the generated key pair, the public key first, \<open>random16\<close> the random bytes.\<close>

definition GeneratePushKeys :: "byte list \<times> byte list \<Rightarrow> byte list \<Rightarrow> push_meta \<Rightarrow> push_meta" where
  "GeneratePushKeys key random16 m =
     m\<lparr>um_PushKeys := Some \<lparr>pk_P256DH = fst key, pk_Auth = random16, pk_Private = snd key\<rparr>\<rparr>"

text \<open>A registration for web push uses generated keys exactly when there are none.\<close>

lemma web_push_uses_generated:
  "um_PushKeys (ps_meta s) = None \<Longrightarrow>
   ps_meta (snd (web_push_keys (the (um_PushKeys (GeneratePushKeys key random16 (ps_meta s)))) err s)) = GeneratePushKeys key random16 (ps_meta s)"
  "um_PushKeys (ps_meta s) = Some k \<Longrightarrow> web_push_keys fresh err s = (Ok k, s)"
  by (simp_all add: web_push_keys_def save_login_def GeneratePushKeys_def split: option.split)

section \<open>Configuration\<close>

text \<open>The keys before which the upgraded file gets an empty line.\<close>

definition config_blocks :: "string list list" where
  "config_blocks = [[''proxy''], [''displayname_template''], [''call_start_notices''], [''history_sync'']]"

text \<open>Each block begins at a key of the configuration, and the blocks are in the order of the keys.\<close>

lemma config_blocks_exist:
  "list_all (\<lambda>b. list_ex (\<lambda>(key, _). take (length b) key = b) config_fields) config_blocks"
  "filter (\<lambda>k. [k] \<in> set config_blocks) (remdups_adj (map (hd \<circ> fst) config_fields)) = map hd config_blocks"
  by code_simp+

definition MediaRequestMethodImmediate :: string where "MediaRequestMethodImmediate = ''immediate''"
definition MediaRequestMethodLocalTime :: string where "MediaRequestMethodLocalTime = ''local_time''"

lemma old_media_suffix_methods:
  "cf_AutoRequestMedia cfg \<Longrightarrow> cf_RequestMethod cfg \<in> {MediaRequestMethodImmediate, MediaRequestMethodLocalTime} \<longleftrightarrow>
     old_media_suffix cfg \<noteq> ''Requesting old media is not enabled on this bridge.''"
  by (auto simp: old_media_suffix_def MediaRequestMethodImmediate_def MediaRequestMethodLocalTime_def)

section \<open>Messages and media\<close>

record HTMLParser =
  hp_Newline :: string
  hp_TabsToSpaces :: nat

definition msgconv_HTMLParser :: HTMLParser where
  "msgconv_HTMLParser = \<lparr>hp_Newline = newline, hp_TabsToSpaces = 4\<rparr>"

record AnimatedStickerConfig =
  as_Target :: string
  as_Width :: int
  as_Height :: int
  as_FPS :: int

definition SetUseDirectMedia :: "connector \<Rightarrow> connector" where
  "SetUseDirectMedia co = co\<lparr>co_MsgConv := (co_MsgConv co)\<lparr>mc_DirectMedia := True\<rparr>\<rparr>"

text \<open>\<open>Init\<close> makes a new converter, so direct media is used only if it is set after it.\<close>

lemma direct_media_after_init:
  "mc_DirectMedia (co_MsgConv (SetUseDirectMedia (Init upper platform cfg co)))"
  "\<not> mc_DirectMedia (co_MsgConv (Init upper platform cfg (SetUseDirectMedia co)))"
  by (simp_all add: SetUseDirectMedia_def Init_def msgconv_New_def)

definition ErrReloadNeeded :: RespError where
  "ErrReloadNeeded = \<lparr>ErrCode = ''FI.MAU.WHATSAPP_RELOAD_NEEDED'',
     ErrText = ''Media is no longer available on WhatsApp servers and must be re-requested from your phone'', StatusCode = 404\<rparr>"

section \<open>Commands\<close>

definition HelpSectionInvites :: "string \<times> int" where "HelpSectionInvites = (''Group invites'', 25)"

end
