(* ===== verification/Spec2Isabelle.thy ===== *)
theory Spec2Isabelle
  imports Polls UserInfo DirectMedia Connection WAHandlers FromMatrix Capabilities Startup ClientOps Commands Business WaMisc LinkPreview Analytics RemoteEvents ResyncLoop Provisioning BridgeStates Identifiers DbStart HistoryQueue Lifecycle Timers Surface
begin

text \<open>
  A model of mautrix-whatsapp, a bridge between Matrix and WhatsApp, written in Go. File names
  below are relative to \<open>src/\<close>.

  \<^bold>\<open>The program and its parts.\<close> The bridge is a network connector for the bridge framework
  \<open>bridgev2\<close> of mautrix. The framework owns rooms (portals), users (ghosts, logins), the
  messages that are bridged and the Matrix side; the library whatsmeow speaks the WhatsApp
  protocol and keeps keys and contacts. The repository is what lies between:
  \<^item> \<open>pkg/waid\<close> gives every chat, user, login, message and medium an identifier, and defines the
    metadata that the framework stores for the bridge.
  \<^item> \<open>pkg/connector/wadb\<close> is the bridge's own database: history sync conversations and messages,
    notifications, poll options, media requests and avatars.
  \<^item> \<open>pkg/connector\<close> logs in, connects, turns events of whatsmeow into events of the framework,
    sends what Matrix users do, syncs chats and users, and fills old messages in.
  \<^item> \<open>pkg/msgconv\<close> converts the content of messages in both directions.

  A message from WhatsApp takes this way: \<open>handleWAEvent\<close> (theory \<open>WAHandlers\<close>) reroutes its
  addresses (\<open>MsgKeys\<close>) and queues a remote event (\<open>Events\<close>, \<open>RemoteEvents\<close>), whose conversion
  (\<open>ToMatrix\<close>) calls the converters of the message's kind (\<open>Media\<close>, \<open>Polls\<close>, \<open>WaText\<close>,
  \<open>Business\<close>, \<open>WaMisc\<close>, \<open>LinkPreview\<close>); its identifier comes from \<open>Waid\<close>, its media
  identifier from \<open>MediaId\<close>. A message from Matrix is converted (\<open>FromMatrix\<close>) and sent
  (\<open>MatrixMessages\<close>), and the receipt of it comes back as an event. Old messages are stored by the
  history loop (\<open>HistorySync\<close>, \<open>WaDb\<close>) and fetched page by page (\<open>Backfill\<close>).

  \<^bold>\<open>Conventions.\<close> Prelude has Go's errors and outcomes: \<open>Ok\<close>, \<open>Fail\<close> with an error
  that may wrap another, and \<open>Panic\<close> for nil dereferences, slice bounds and explicit panics, so
  every raise and early return is a branch. Unsigned integers of the wire are words, so they wrap;
  Go's \<open>int\<close> is \<open>int\<close> where its width cannot matter. A time is its nanoseconds since Go's zero
  time. Strings are byte strings. Maps of Go are partial functions or lists of pairs with distinct
  keys where their order shows. State is passed explicitly; what a handler does to the outside is a
  trace of calls (\<open>Trace\<close>) in their order, with an outcome. Locks are not modelled: every
  definition is one critical section; where the interleaving of sections matters (the history
  loop, connections, the database, the resync loop) it is a step relation.

  Code that is not in the repository is a parameter: a record \<open>.._env\<close>, \<open>.._lib\<close> or a function
  argument with its answers, errors included. What the theorems rely on is named:
  \<open>jid_lib_ok\<close> (the text form of a JID can be read, \<open>ToNonAD\<close> drops the device),
  \<open>client_ok\<close> (the identity store answers with JIDs of the right server),
  \<open>lid_map_ok\<close> (the phone numbers in its map are user parts of identifiers),
  \<open>sizes_ok\<close> (an image has no negative size), \<open>parser_ok\<close> (a stored message keeps its time when
  it is parsed) and \<open>env_ok\<close> (splitting rows into chunks keeps them). Each has an instance
  in the witnesses.

  \<^bold>\<open>Theories and the code they model.\<close>
  \<^item> \<open>Waid\<close>, \<open>MediaId\<close>: \<open>pkg/waid/id.go\<close>, \<open>mediaid.go\<close>. Text and binary codecs of identifiers;
    round trips, rejection of fake identifiers, panics. \<open>Identifiers\<close> states the contract that the
    other parts rely on as the locale \<open>id_codec\<close> and interprets it on the codecs.
  \<^item> \<open>Tables\<close>, \<open>WaDb\<close>: \<open>pkg/connector/wadb/*.go\<close>. Each query as a function on tables with keys
    and foreign keys; the contracts \<open>upsert_store\<close>, \<open>idem_upsert_store\<close>, \<open>range_store\<close> and
    \<open>ordered_messages\<close> are locales with interpretations on the tables. Integrity under every
    operation, merging of conversations.
  \<^item> \<open>Sql\<close>, \<open>Schema\<close>, \<open>Queries\<close>, \<open>DbStart\<close>: the SQL below these operations. \<open>Sql\<close> is a semantics of the
    statements the bridge uses (three-valued conditions, defaults, constraints, conflict clauses,
    cascades, \<open>ALTER TABLE\<close>); \<open>Schema\<close> has the scripts of \<open>wadb/upgrades/\<close> for both dialects, which end
    in the tables of a new database; \<open>Queries\<close> has every query constant and shows that it does
    what the operation on the tables does, with the locale \<open>stored_table\<close> for a table of rows kept in
    an SQL table; \<open>DbStart\<close> has \<open>wadb/database.go\<close>, \<open>dbmeta.go\<close>, the query texts of
    \<open>polloption.go\<close>, and the first start after an upgrade.
  \<^item> \<open>Transitions\<close>: the locales that the step relations share: \<open>invariant_system\<close> (interpreted for the
    database, the history loop, connections and the resync loop), \<open>refined_system\<close> and
    \<open>draining_round\<close>. \<open>HistoryQueue\<close> shows that the history loop implements a mailbox that loses
    nothing and empties; \<open>Lifecycle\<close> that connections implement a machine of two switches.
  \<^item> \<open>MsgKeys\<close>: \<open>pkg/connector/id.go\<close>, the message keys of \<open>pkg/msgconv/msgconv.go\<close>, and rerouting in
    \<open>handlewhatsapp.go\<close>. \<open>WaMessage\<close>: \<open>wamsgtype.go\<close> and \<open>pkg/waid/dbmeta.go\<close>.
  \<^item> \<open>HistorySync\<close>, \<open>Backfill\<close>: the two halves of \<open>pkg/connector/backfill.go\<close>. Storing a payload is
    all or nothing and what is not stored is tried again; pages are disjoint, in order and complete.
  \<^item> \<open>MediaRequests\<close>, \<open>DirectMedia\<close>, \<open>Media\<close>: \<open>mediarequest.go\<close>, \<open>mediaeditcache.go\<close>,
    \<open>directmedia.go\<close>, \<open>pkg/msgconv/wa-media.go\<close> with stickers, and \<open>thumbnail.go\<close>.
  \<^item> \<open>ToMatrix\<close>, \<open>WaText\<close>, \<open>Business\<close>, \<open>WaMisc\<close>, \<open>LinkPreview\<close>, \<open>Polls\<close>: \<open>from-whatsapp.go\<close>,
    \<open>wa-text.go\<close>, \<open>wa-business.go\<close>, \<open>wa-misc.go\<close> with \<open>wa-location.go\<close> and \<open>wa-contact.go\<close>,
    \<open>urlpreview.go\<close>, and \<open>wa-poll.go\<close> with \<open>matrixpoll.go\<close>. What is written by users is escaped, text is
    kept, HTML lists are well formed, previews and votes survive both directions.
  \<^item> \<open>FromMatrix\<close>, \<open>MatrixMessages\<close>, \<open>MatrixRooms\<close>, \<open>Capabilities\<close>: \<open>from-matrix.go\<close>, the two
    halves of \<open>handlematrix.go\<close>, \<open>capabilities.go\<close>. What is declared is what is accepted; a
    request is sent once.
  \<^item> \<open>Events\<close>, \<open>RemoteEvents\<close>, \<open>WAHandlers\<close>: \<open>events.go\<close> and \<open>handlewhatsapp.go\<close>.
  \<^item> \<open>ChatInfo\<close>, \<open>UserInfo\<close>, \<open>Avatars\<close>, \<open>ResyncLoop\<close>, \<open>StartChat\<close>, \<open>Provisioning\<close>:
    \<open>chatinfo.go\<close>, \<open>userinfo.go\<close>, \<open>startchat.go\<close>, \<open>cmd/mautrix-whatsapp/legacyprovision.go\<close> with the
    routes of \<open>main.go\<close>.
  \<^item> \<open>Login\<close>, \<open>Connection\<close>, \<open>BridgeStates\<close>, \<open>ClientOps\<close>, \<open>Startup\<close>, \<open>Commands\<close>, \<open>Analytics\<close>:
    \<open>login.go\<close>, \<open>client.go\<close> with \<open>phoneping.go\<close>, \<open>connector.go\<close> with \<open>config.go\<close>, \<open>proxy.go\<close> and
    \<open>msgconv.go\<close>, \<open>commands.go\<close>, \<open>analytics.go\<close>. \<open>Timers\<close>: the clocks of the loops in \<open>mediarequest.go\<close>,
    \<open>mediaeditcache.go\<close> and \<open>userinfo.go\<close>. \<open>Surface\<close>: what the bridge declares to the framework, the
    description of the program in \<open>main.go\<close> among it.

  \<^bold>\<open>Kinds of results.\<close> Invariants by rule induction over step relations (database, history loop,
  connection, resync loop); functional behaviour of the operations on every branch; round trips of
  identifiers, keys, votes, replies, previews and uploaded media; equivalences (full and
  incremental group info, upgraded and new databases, declared and accepted content, segments of a
  text); refinement (SQL queries and the operations on tables, the history loop and a mailbox,
  connections and their life); liveness (the queue of notifications and the resync queue are worked
  off); safety of rooms, timers, pages, identities and bridges that share a database. Where the code does something it should not, the theorem states what it does.

  \<^bold>\<open>Bounds.\<close> \<open>create_portals\<close> is the one loop that need not end: it repeats a conversation while
  WhatsApp limits the rate. It takes a list of rounds, the answers of the attempts, and is
  \<open>None\<close> when they run out; as many rounds as there are attempts until no limit is hit are
  enough, which is the termination property of \<open>Backfill\<close>. All other loops are recursions on their
  data or have a measure; the loops of \<open>replace_all\<close>, \<open>replace_style\<close>, \<open>replace_links\<close> and
  \<open>segments\<close> end because what is left of the text gets shorter.

  \<^bold>\<open>Not modelled.\<close> Log output, metrics of the framework and log contexts. Goroutines as such: one
  that a handler starts is a call in its trace, or its own step relation. The database library
  below the SQL semantics: the text of a statement is its abstract syntax, the order in which
  scripts run and the versions they are recorded under are the library's, and so is the order of
  rows where a query has no \<open>ORDER BY\<close>, which is the order of insertion here (the next queued
  notification is such a query). The main program beyond its routes and description, the embedded
  example configuration, the accessors of context values, and assertions that a type
  implements an interface. Time zones have a fixed offset, and number formats of \<open>fmt\<close> with fractions
  are left to parameters. Regular expressions are modelled by matchers written for
  the expressions used.
\<close>

end
